(* ===== verification/Prelude.thy ===== *)
theory Prelude
  imports Main "HOL-Library.Word"
begin

text \<open>
  Shared vocabulary of the development: the fixed-width integer types of
  src/src/bpf/basic_types.h, C's integer conversions on them, little-endian byte strings,
  the generic lemmas on words and lists that the component theories share, and the
  collections of simplification rules the component proofs draw on.
\<close>

unbundle bit_operations_syntax

named_theorems bpf_defs "definitions of the straight-line helpers, to be unfolded"
named_theorems frame_simps "what an operation leaves unchanged"

section \<open>Machine integers (basic\_types.h)\<close>

type_synonym u8 = "8 word"
type_synonym u16 = "16 word"
type_synonym u32 = "32 word"
type_synonym u64 = "64 word"

text \<open>
  Signed C types share the representation of the unsigned type of the same width;
  \<^term>\<open>sint\<close> reads the value, \<^term>\<open>scast\<close> is the sign-extending conversion,
  \<^term>\<open>ucast\<close> the zero-extending or truncating one.
\<close>

type_synonym s16 = "16 word"
type_synonym s32 = "32 word"

datatype arch = X86 | Arm64

section \<open>Generic facts on words\<close>

lemma unat_ucast_64_32: "unat (ucast (x :: u64) :: u32) = unat x mod 2 ^ 32"
  by (simp add: unsigned_ucast_eq take_bit_eq_mod)

lemma unat_ucast_16_64 [simp]: "unat (ucast (x :: u16) :: u64) = unat x"
  by (simp add: unsigned_ucast_eq take_bit_nat_eq_self_iff order_less_trans [OF unsigned_less])

lemma unat_ucast_32_64 [simp]: "unat (ucast (x :: u32) :: u64) = unat x"
  by (simp add: unsigned_ucast_eq take_bit_nat_eq_self_iff order_less_trans [OF unsigned_less])

section \<open>Little-endian bytes\<close>

text \<open>
  Both supported targets are little-endian: \<open>bytes_le n x\<close> is the memory image of the \<open>n\<close>-byte
  integer \<open>x\<close>, \<open>word_le\<close> reads one back.
\<close>

definition bytes_le :: "nat \<Rightarrow> 'a :: len word \<Rightarrow> u8 list" where
  "bytes_le n x = map (\<lambda>i. ucast (drop_bit (8 * i) x)) [0..<n]"

fun word_le :: "u8 list \<Rightarrow> 'a :: len word" where
  "word_le [] = 0"
| "word_le (b # bs) = ucast b OR push_bit 8 (word_le bs)"

lemma length_bytes_le [simp]: "length (bytes_le n x) = n"
  by (simp add: bytes_le_def)

lemma bytes_le_Suc: "bytes_le (Suc n) x = ucast x # bytes_le n (drop_bit 8 x)"
proof -
  have "bytes_le (Suc n) x = map (\<lambda>i. ucast (drop_bit (8 * i) x)) (0 # map Suc [0..<n])"
    by (simp add: bytes_le_def map_Suc_upt upt_conv_Cons del: upt_Suc)
  also have "\<dots> = ucast x # bytes_le n (drop_bit 8 x)"
    by (simp add: bytes_le_def add.commute)
  finally show ?thesis .
qed

lemma bit_word_le:
  fixes bs :: "u8 list"
  assumes "k < LENGTH('a :: len)"
  shows "bit (word_le bs :: 'a word) k = (k div 8 < length bs \<and> bit (bs ! (k div 8)) (k mod 8))"
  using assms
proof (induction bs arbitrary: k)
  case Nil
  then show ?case by simp
next
  case (Cons b bs)
  show ?case
  proof (cases "k < 8")
    case True
    with Cons.prems show ?thesis by (simp add: bit_or_iff bit_push_bit_iff bit_ucast_iff)
  next
    case False
    then obtain j where k: "k = 8 + j" by (metis le_add_diff_inverse not_less)
    have "\<not> bit b k" 
      using False by (simp add: bit_word.rep_eq bit_take_bit_iff)
    moreover have "(8 + j) div 8 = Suc (j div 8)" by simp
    ultimately show ?thesis using Cons.IH [of j] Cons.prems k
      by (auto simp: bit_or_iff bit_push_bit_iff bit_ucast_iff)
  qed
qed

lemma word_le_bytes_le:
  fixes x :: "'a :: len word"
  assumes "LENGTH('a) = 8 * n"
  shows "word_le (bytes_le n x) = x"
proof (rule bit_word_eqI)
  fix k
  assume k: "k < LENGTH('a)"
  then have "k div 8 < n" using assms by simp
  moreover have "8 * (k div 8) + k mod 8 = k" by simp
  ultimately show "bit (word_le (bytes_le n x) :: 'a word) k = bit x k"
    using k by (simp add: bit_word_le bytes_le_def bit_ucast_iff bit_drop_bit_eq)
qed

lemma word_le_bytes_le_64 [simp]: "word_le (bytes_le 8 (x :: u64)) = x"
  by (rule word_le_bytes_le) simp

lemma word_le_bytes_le_32 [simp]: "word_le (bytes_le 4 (x :: u32)) = x"
  by (rule word_le_bytes_le) simp

section \<open>Outcomes of Rust code\<close>

text \<open>
  A call returns, panics, or has undefined behaviour. What follows a panic does not run, and after undefined behaviour the
  model says nothing; neither is ever a value that a caller could handle.
\<close>

datatype 'a execution = Returns 'a | Panics | Undefined_behaviour

fun and_then :: "'a execution \<Rightarrow> ('a \<Rightarrow> 'b execution) \<Rightarrow> 'b execution" where
  "and_then (Returns x) f = f x"
| "and_then Panics f = Panics"
| "and_then Undefined_behaviour f = Undefined_behaviour"

lemma and_then_Returns: "and_then m f = Returns y \<longleftrightarrow> (\<exists>x. m = Returns x \<and> f x = Returns y)"
  by (cases m) auto

end
