(* ===== verification/C_Layout.thy ===== *)
theory C_Layout
  imports Prelude
begin

text \<open>
  C data layout. The BPF objects are compiled against kernel type declarations
  (src/src/bpf/vmlinux\_x86.h and src/src/bpf/vmlinux\_arm64.h) and share the structures of
  src/src/bpf/profiler.h with user space byte by byte, so sizes and member offsets are part of
  the program's behaviour. A type is a \<open>ctype\<close> term; \<open>csize\<close>, \<open>calign\<close> and
  \<open>offset_of\<close> compute the System V layout of both supported 64-bit targets: members in
  declaration order, each at the next multiple of its alignment, bit-fields packed into
  units of their declared type, anonymous members transparent to name lookup, and the whole
  rounded up to the largest alignment. The lemmas show that members never overlap, stay
  inside the object and are aligned.
\<close>

section \<open>Types and members\<close>

datatype ctype =
    CScalar nat
      \<comment> \<open>integer, enumeration or pointer: its size in bytes, which is its alignment\<close>
  | CArray nat ctype
  | CStruct "cmember list"
  | CPacked "cmember list"
  | CUnion "cmember list"
and cmember =
    CField string ctype
      \<comment> \<open>an empty name is an anonymous struct or union member\<close>
  | CBits string nat nat
      \<comment> \<open>bit-field: name, size of the declared type in bytes, width in bits\<close>

abbreviation c_char :: ctype where "c_char \<equiv> CScalar 1"
abbreviation c_bool :: ctype where "c_bool \<equiv> CScalar 1"
abbreviation c_short :: ctype where "c_short \<equiv> CScalar 2"
abbreviation c_int :: ctype where "c_int \<equiv> CScalar 4"
abbreviation c_long :: ctype where "c_long \<equiv> CScalar 8"
abbreviation c_int128 :: ctype where "c_int128 \<equiv> CScalar 16"
abbreviation c_enum :: ctype where "c_enum \<equiv> CScalar 4"
abbreviation c_ptr :: ctype where "c_ptr \<equiv> CScalar 8"

section \<open>Alignment and size\<close>

definition align_up :: "nat \<Rightarrow> nat \<Rightarrow> nat" where
  "align_up a n = (n + (a - 1)) div a * a"

fun calign :: "ctype \<Rightarrow> nat"
  and member_align :: "cmember \<Rightarrow> nat"
  and members_align :: "cmember list \<Rightarrow> nat" where
  "calign (CScalar n) = max 1 n"
| "calign (CArray n t) = calign t"
| "calign (CStruct ms) = members_align ms"
| "calign (CPacked ms) = 1"
| "calign (CUnion ms) = members_align ms"
| "member_align (CField nm t) = calign t"
| "member_align (CBits nm s w) = (if nm = '''' then 1 else max 1 s)"
| "members_align [] = 1"
| "members_align (m # ms) = max (member_align m) (members_align ms)"

text \<open>
  Positions are counted in bits. \<open>place_at al w bits pos\<close> is where a member of \<open>w\<close> bits
  goes when the first free bit is \<open>pos\<close>: an ordinary member at the next multiple of its
  alignment, a bit-field at the first free bit unless it would straddle a unit of its type.
\<close>

definition place_field :: "nat \<Rightarrow> nat \<Rightarrow> nat" where
  "place_field al pos = align_up (8 * al) pos"

definition place_bits :: "nat \<Rightarrow> nat \<Rightarrow> nat \<Rightarrow> nat" where
  "place_bits s w pos =
     (if pos mod (8 * s) + w \<le> 8 * s then pos else align_up (8 * s) pos)"

fun csize :: "ctype \<Rightarrow> nat"
  and member_width :: "cmember \<Rightarrow> nat"
  and place :: "nat \<Rightarrow> cmember \<Rightarrow> nat"
  and place_packed :: "nat \<Rightarrow> cmember \<Rightarrow> nat"
  and struct_end :: "nat \<Rightarrow> cmember list \<Rightarrow> nat"
  and packed_end :: "nat \<Rightarrow> cmember list \<Rightarrow> nat"
  and union_end :: "cmember list \<Rightarrow> nat" where
  "csize (CScalar n) = n"
| "csize (CArray n t) = n * csize t"
| "csize (CStruct ms) = align_up (8 * members_align ms) (struct_end 0 ms) div 8"
| "csize (CPacked ms) = align_up 8 (packed_end 0 ms) div 8"
| "csize (CUnion ms) = align_up (8 * members_align ms) (union_end ms) div 8"
| "member_width (CField nm t) = 8 * csize t"
| "member_width (CBits nm s w) = w"
| "place pos (CField nm t) = place_field (calign t) pos"
| "place pos (CBits nm s w) = place_bits (max 1 s) w pos"
| "place_packed pos (CField nm t) = align_up 8 pos"
| "place_packed pos (CBits nm s w) = pos"
| "struct_end pos [] = pos"
| "struct_end pos (m # ms) = struct_end (place pos m + member_width m) ms"
| "packed_end pos [] = pos"
| "packed_end pos (m # ms) = packed_end (place_packed pos m + member_width m) ms"
| "union_end [] = 0"
| "union_end (m # ms) = max (member_width m) (union_end ms)"

section \<open>Member lookup\<close>

text \<open>
  \<open>lookup_member\<close> gives the bit offset and the type of a named member relative to the start
  of a member list at bit \<open>pos\<close>; anonymous members are searched in place.
\<close>

fun lookup_struct :: "string \<Rightarrow> nat \<Rightarrow> cmember list \<Rightarrow> (nat \<times> ctype) option"
  and lookup_packed :: "string \<Rightarrow> nat \<Rightarrow> cmember list \<Rightarrow> (nat \<times> ctype) option"
  and lookup_union :: "string \<Rightarrow> nat \<Rightarrow> cmember list \<Rightarrow> (nat \<times> ctype) option"
  and lookup_in :: "string \<Rightarrow> nat \<Rightarrow> cmember \<Rightarrow> (nat \<times> ctype) option"
  and lookup_type :: "string \<Rightarrow> nat \<Rightarrow> ctype \<Rightarrow> (nat \<times> ctype) option" where
  "lookup_struct nm pos [] = None"
| "lookup_struct nm pos (m # ms) =
     (case lookup_in nm (place pos m) m of
        Some r \<Rightarrow> Some r
      | None \<Rightarrow> lookup_struct nm (place pos m + member_width m) ms)"
| "lookup_packed nm pos [] = None"
| "lookup_packed nm pos (m # ms) =
     (case lookup_in nm (place_packed pos m) m of
        Some r \<Rightarrow> Some r
      | None \<Rightarrow> lookup_packed nm (place_packed pos m + member_width m) ms)"
| "lookup_union nm base [] = None"
| "lookup_union nm base (m # ms) =
     (case lookup_in nm base m of
        Some r \<Rightarrow> Some r
      | None \<Rightarrow> lookup_union nm base ms)"
| "lookup_in nm off (CField fn t) =
     (if fn = '''' then lookup_type nm off t
      else if fn = nm then Some (off, t) else None)"
| "lookup_in nm off (CBits fn s w) = None"
| "lookup_type nm off (CStruct ms) =
     map_option (\<lambda>(o', t). (off + o', t)) (lookup_struct nm 0 ms)"
| "lookup_type nm off (CPacked ms) =
     map_option (\<lambda>(o', t). (off + o', t)) (lookup_packed nm 0 ms)"
| "lookup_type nm off (CUnion ms) = lookup_union nm off ms"
| "lookup_type nm off (CScalar n) = None"
| "lookup_type nm off (CArray n t) = None"

text \<open>
  \<open>offset_of t [f, g, \<dots>]\<close> is C's \<open>offsetof(t, f.g.\<dots>)\<close> in bytes, \<open>None\<close> when a
  member is missing. Bit-fields have no address and are not found.
\<close>

fun offset_of :: "ctype \<Rightarrow> string list \<Rightarrow> nat option" where
  "offset_of t [] = Some 0"
| "offset_of t (f # fs) =
     (case lookup_type f 0 t of
        None \<Rightarrow> None
      | Some (b, t') \<Rightarrow> map_option (\<lambda>r. b div 8 + r) (offset_of t' fs))"

fun type_at :: "ctype \<Rightarrow> string list \<Rightarrow> ctype option" where
  "type_at t [] = Some t"
| "type_at t (f # fs) =
     (case lookup_type f 0 t of
        None \<Rightarrow> None
      | Some (b, t') \<Rightarrow> type_at t' fs)"

section \<open>Layout facts\<close>

lemma align_up_ge: "0 < a \<Longrightarrow> n \<le> align_up a n"
proof -
  assume a: "0 < a"
  have "n + (a - 1) = (n + (a - 1)) div a * a + (n + (a - 1)) mod a"
    by (simp add: mult.commute)
  moreover have "(n + (a - 1)) mod a < a" using a by simp
  ultimately have "n \<le> (n + (a - 1)) div a * a" using a by linarith
  then show ?thesis by (simp add: align_up_def)
qed

lemma align_up_dvd [simp]: "a dvd align_up a n"
  by (simp add: align_up_def)

lemma align_pos:
  shows "0 < calign t" and "0 < member_align m" and "0 < members_align ms"
  by (induction t and m and ms rule: calign_member_align_members_align.induct) auto

lemma place_ge: "pos \<le> place pos m"
  by (cases m) (auto simp: place_field_def place_bits_def align_pos intro!: align_up_ge)

lemma place_packed_ge: "pos \<le> place_packed pos m"
  by (cases m) (auto intro!: align_up_ge)

lemma struct_end_ge: "pos \<le> struct_end pos ms"
proof (induction ms arbitrary: pos)
  case Nil
  then show ?case by simp
next
  case (Cons m ms)
  have "pos \<le> place pos m + member_width m"
    using place_ge [of pos m] by simp
  also have "\<dots> \<le> struct_end (place pos m + member_width m) ms"
    by (rule Cons.IH)
  finally show ?case by simp
qed

lemma packed_end_ge: "pos \<le> packed_end pos ms"
proof (induction ms arbitrary: pos)
  case Nil
  then show ?case by simp
next
  case (Cons m ms)
  have "pos \<le> place_packed pos m + member_width m"
    using place_packed_ge [of pos m] by simp
  also have "\<dots> \<le> packed_end (place_packed pos m + member_width m) ms"
    by (rule Cons.IH)
  finally show ?case by simp
qed

lemma align_up_8_bound: "0 < a \<Longrightarrow> 8 * (align_up (8 * a) n div 8) = align_up (8 * a) n"
  by (simp add: align_up_def)

lemma struct_end_le_size: "struct_end 0 ms \<le> 8 * csize (CStruct ms)"
  using align_up_ge [of "8 * members_align ms" "struct_end 0 ms"]
  by (simp add: align_up_8_bound align_pos)

lemma packed_end_le_size: "packed_end 0 ms \<le> 8 * csize (CPacked ms)"
  using align_up_ge [of 8 "packed_end 0 ms"] align_up_8_bound [of 1 "packed_end 0 ms"]
  by simp

lemma union_end_le_size: "union_end ms \<le> 8 * csize (CUnion ms)"
  using align_up_ge [of "8 * members_align ms" "union_end ms"]
  by (simp add: align_up_8_bound align_pos)

text \<open>The positions of the members of a struct, in declaration order.\<close>

fun placements :: "nat \<Rightarrow> cmember list \<Rightarrow> (nat \<times> nat) list" where
  "placements pos [] = []"
| "placements pos (m # ms) =
     (place pos m, member_width m) # placements (place pos m + member_width m) ms"

lemma length_placements [simp]: "length (placements pos ms) = length ms"
  by (induction ms arbitrary: pos) auto

lemma placements_from: "(b, w) \<in> set (placements pos ms) \<Longrightarrow> pos \<le> b \<and> b + w \<le> struct_end pos ms"
proof (induction ms arbitrary: pos)
  case Nil
  then show ?case by simp
next
  case (Cons m ms)
  let ?next = "place pos m + member_width m"
  show ?case
  proof (cases "(b, w) \<in> set (placements ?next ms)")
    case True
    then have "?next \<le> b \<and> b + w \<le> struct_end ?next ms" by (rule Cons.IH)
    then show ?thesis using place_ge [of pos m] by simp
  next
    case False
    with Cons.prems have "b = place pos m" "w = member_width m" by auto
    then show ?thesis using place_ge [of pos m] struct_end_ge [of ?next ms] by simp
  qed
qed

lemma placements_disjoint:
  "i < j \<Longrightarrow> j < length ms \<Longrightarrow>
   fst (placements pos ms ! i) + snd (placements pos ms ! i) \<le> fst (placements pos ms ! j)"
proof (induction ms arbitrary: pos i j)
  case Nil
  then show ?case by simp
next
  case (Cons m ms)
  let ?next = "place pos m + member_width m"
  obtain j' where j: "j = Suc j'" using Cons.prems by (cases j) auto
  show ?case
  proof (cases i)
    case 0
    have "placements ?next ms ! j' \<in> set (placements ?next ms)"
      using Cons.prems j by (intro nth_mem) simp
    then have "?next \<le> fst (placements ?next ms ! j')"
      using placements_from [of "fst (placements ?next ms ! j')"] by (metis prod.collapse)
    then show ?thesis using 0 j by simp
  next
    case (Suc i')
    then show ?thesis using Cons.IH [of i' j' ?next] Cons.prems j by simp
  qed
qed

text \<open>Every named member lies inside the object that declares it.\<close>

lemma lookup_in_bounds:
  shows "lookup_struct nm pos ms = Some (b, t) \<Longrightarrow> pos \<le> b \<and> b + 8 * csize t \<le> struct_end pos ms"
    and "lookup_packed nm pos ms = Some (b, t) \<Longrightarrow> pos \<le> b \<and> b + 8 * csize t \<le> packed_end pos ms"
    and "lookup_union nm pos ms = Some (b, t) \<Longrightarrow> pos \<le> b \<and> b + 8 * csize t \<le> pos + union_end ms"
    and "lookup_in nm pos m = Some (b, t) \<Longrightarrow> pos \<le> b \<and> b + 8 * csize t \<le> pos + member_width m"
    and "lookup_type nm pos ty = Some (b, t) \<Longrightarrow> pos \<le> b \<and> b + 8 * csize t \<le> pos + 8 * csize ty"
proof (induction nm pos ms and nm pos ms and nm pos ms and nm pos m and nm pos ty arbitrary: b t
    and b t and b t and b t and b t
    rule: lookup_struct_lookup_packed_lookup_union_lookup_in_lookup_type.induct)
  case (2 nm pos m ms)
  then show ?case
    using place_ge [of pos m] struct_end_ge [of "place pos m + member_width m" ms]
    by (fastforce split: option.splits)
next
  case (4 nm pos m ms)
  then show ?case
    using place_packed_ge [of pos m] packed_end_ge [of "place_packed pos m + member_width m" ms]
    by (fastforce split: option.splits)
next
  case (6 nm base m ms)
  then show ?case by (fastforce split: option.splits)
next
  case (9 nm off ms)
  then show ?case using struct_end_le_size [of ms] by fastforce
next
  case (10 nm off ms)
  then show ?case using packed_end_le_size [of ms] by fastforce
next
  case (11 nm off ms)
  then show ?case using union_end_le_size [of ms] by fastforce
qed (auto split: if_splits)

lemma offset_of_in_bounds:
  "offset_of t fs = Some n \<Longrightarrow> type_at t fs = Some t' \<Longrightarrow> n + csize t' \<le> csize t"
proof (induction t fs arbitrary: n rule: offset_of.induct)
  case (1 t)
  then show ?case by simp
next
  case (2 t f fs)
  from "2.prems" obtain b u r where l: "lookup_type f 0 t = Some (b, u)"
    and r: "offset_of u fs = Some r" "type_at u fs = Some t'" and n: "n = b div 8 + r"
    by (auto split: option.splits)
  have "r + csize t' \<le> csize u" using "2.IH" l r by simp
  moreover have "b + 8 * csize u \<le> 8 * csize t" using lookup_in_bounds(5) [OF l] by simp
  ultimately show ?case using n by linarith
qed

lemma offset_of_iff_type_at: "(offset_of t fs = None) = (type_at t fs = None)"
  by (induction t fs rule: offset_of.induct) (auto split: option.splits)

section \<open>Evaluation\<close>

text \<open>
  \<open>layout_eval\<close> computes the layout of a closed type by simplification;
  \<open>vmlinux_layout\<close> collects the size and alignment already computed for the declared types,
  so that each declaration is evaluated once.
\<close>

named_theorems vmlinux_layout "size and alignment of the declared types"

lemmas layout_eval = align_up_def place_field_def place_bits_def

end
