(* ===== verification/Profiler_Types.thy ===== *)
theory Profiler_Types
  imports C_Layout
begin

text \<open>
  The constants and data of src/src/bpf/constants.h, src/src/bpf/profiler.h and
  src/src/bpf/tracers.h: the macros as words of the width they are used at, every struct as a
  record with the source's fields (a short prefix where a field name is an Isabelle keyword or
  occurs in two structs), and, for the structs that cross the boundary to user space or are
  used as map keys, their C layout.
\<close>

section \<open>constants.h\<close>

definition PAGE_SIZE :: u64 where "PAGE_SIZE = push_bit 12 1"

definition PAGE_MASK :: u64 where "PAGE_MASK = NOT (PAGE_SIZE - 1)"

definition TOP_OF_KERNEL_STACK_PADDING :: u64 where "TOP_OF_KERNEL_STACK_PADDING = 0"

definition THREAD_SIZE_ORDER :: nat where "THREAD_SIZE_ORDER = 2"

definition THREAD_SIZE :: u64 where "THREAD_SIZE = push_bit THREAD_SIZE_ORDER PAGE_SIZE"

section \<open>profiler.h: limits\<close>

definition MAX_STACK_DEPTH_PER_PROGRAM :: nat where [simp]: "MAX_STACK_DEPTH_PER_PROGRAM = 7"

definition MAX_TAIL_CALLS :: u64 where [simp]: "MAX_TAIL_CALLS = 19"

definition MAX_STACK_DEPTH :: u32 where [simp]: "MAX_STACK_DEPTH = 127"

definition MAX_STACK_TRACES_ENTRIES :: nat where "MAX_STACK_TRACES_ENTRIES = 64000"

definition MAX_STACK_COUNTS_ENTRIES :: nat where "MAX_STACK_COUNTS_ENTRIES = 10240"

definition MAX_PROCESSES :: nat where "MAX_PROCESSES = 5000"

definition MAX_MAPPINGS :: nat where "MAX_MAPPINGS = MAX_PROCESSES * 200"

definition MAX_BINARY_SEARCH_DEPTH :: nat where [simp]: "MAX_BINARY_SEARCH_DEPTH = 17"

definition MAX_OUTER_UNWIND_MAP_ENTRIES :: nat where "MAX_OUTER_UNWIND_MAP_ENTRIES = 3000"

definition UNWIND_INFO_PAGE_BIT_LEN :: nat where "UNWIND_INFO_PAGE_BIT_LEN = 16"

definition UNWIND_INFO_PAGE_SIZE :: u64 where
  "UNWIND_INFO_PAGE_SIZE = push_bit UNWIND_INFO_PAGE_BIT_LEN 1"

definition PREVIOUS_PAGE :: "u64 \<Rightarrow> u64" where
  "PREVIOUS_PAGE address = address - UNWIND_INFO_PAGE_SIZE"

definition HIGH_PC_MASK :: u64 where "HIGH_PC_MASK = 0x0000FFFFFFFF0000"

definition LOW_PC_MASK :: u64 where "LOW_PC_MASK = 0x000000000000FFFF"

definition HIGH_PC :: "u64 \<Rightarrow> u64" where "HIGH_PC addr = addr AND HIGH_PC_MASK"

definition LOW_PC :: "u64 \<Rightarrow> u64" where "LOW_PC addr = addr AND LOW_PC_MASK"

definition MAX_EXECUTABLE_TO_PAGE_ENTRIES :: nat where
  "MAX_EXECUTABLE_TO_PAGE_ENTRIES = 500 * 1000"

text \<open>The two static assertions of the header.\<close>

lemma enough_iterations_for_the_whole_stack:
  "MAX_TAIL_CALLS * of_nat MAX_STACK_DEPTH_PER_PROGRAM \<ge> ucast MAX_STACK_DEPTH"
  by simp

lemma unwind_table_is_big_enough: "MAX_BINARY_SEARCH_DEPTH \<ge> UNWIND_INFO_PAGE_BIT_LEN"
  by (simp add: UNWIND_INFO_PAGE_BIT_LEN_def)

section \<open>profiler.h: tags\<close>

definition MAPPING_TYPE_FILE :: u32 where [simp]: "MAPPING_TYPE_FILE = 0"
definition MAPPING_TYPE_ANON :: u32 where [simp]: "MAPPING_TYPE_ANON = 1"
definition MAPPING_TYPE_VDSO :: u32 where [simp]: "MAPPING_TYPE_VDSO = 2"

definition CFA_TYPE_RBP :: u8 where [simp]: "CFA_TYPE_RBP = 1"
definition CFA_TYPE_RSP :: u8 where [simp]: "CFA_TYPE_RSP = 2"
definition CFA_TYPE_CFA_TYPE_UNSUP_EXP :: u8 where [simp]: "CFA_TYPE_CFA_TYPE_UNSUP_EXP = 3"
definition CFA_TYPE_PLT1 :: u8 where [simp]: "CFA_TYPE_PLT1 = 4"
definition CFA_TYPE_PLT2 :: u8 where [simp]: "CFA_TYPE_PLT2 = 5"
definition CFA_TYPE_DEREF_AND_ADD :: u8 where [simp]: "CFA_TYPE_DEREF_AND_ADD = 6"
definition CFA_TYPE_END_OF_FDE_MARKER :: u8 where [simp]: "CFA_TYPE_END_OF_FDE_MARKER = 7"
definition CFA_TYPE_UNSUP_REGISTER_OFFSET :: u8 where [simp]: "CFA_TYPE_UNSUP_REGISTER_OFFSET = 8"
definition CFA_TYPE_OFFSET_DID_NOT_FIT :: u8 where [simp]: "CFA_TYPE_OFFSET_DID_NOT_FIT = 9"

definition RBP_TYPE_UNCHANGED :: u8 where [simp]: "RBP_TYPE_UNCHANGED = 0"
definition RBP_TYPE_OFFSET :: u8 where [simp]: "RBP_TYPE_OFFSET = 1"
definition RBP_TYPE_REGISTER :: u8 where [simp]: "RBP_TYPE_REGISTER = 2"
definition RBP_TYPE_EXPRESSION :: u8 where [simp]: "RBP_TYPE_EXPRESSION = 3"
definition RBP_TYPE_UNDEFINED_RETURN_ADDRESS :: u8 where
  [simp]: "RBP_TYPE_UNDEFINED_RETURN_ADDRESS = 4"
definition RBP_TYPE_OFFSET_DID_NOT_FIT :: u8 where [simp]: "RBP_TYPE_OFFSET_DID_NOT_FIT = 5"

definition BINARY_SEARCH_DEFAULT :: u64 where
  [simp]: "BINARY_SEARCH_DEFAULT = 0xFABADAFABADA"
definition BINARY_SEARCH_SHOULD_NEVER_HAPPEN :: u64 where
  [simp]: "BINARY_SEARCH_SHOULD_NEVER_HAPPEN = 0xDEADBEEFDEADBEEF"
definition BINARY_SEARCH_EXHAUSTED_ITERATIONS :: u64 where
  [simp]: "BINARY_SEARCH_EXHAUSTED_ITERATIONS = 0xBADFADBADFADBAD"

section \<open>profiler.h: structs\<close>

record page_key_t =
  pk_executable_id :: u64
  pk_file_offset :: u64

record page_value_t =
  pv_low_index :: u32
  pv_high_index :: u32

record lightswitch_config_t =
  verbose_logging :: bool
  use_ring_buffers :: bool
  use_task_pt_regs_helper :: bool

definition lightswitch_config :: lightswitch_config_t where
  "lightswitch_config =
     \<lparr>verbose_logging = False, use_ring_buffers = False, use_task_pt_regs_helper = False\<rparr>"

record mapping_t =
  m_executable_id :: u64
  m_load_address :: u64
  m_begin :: u64
  m_end :: u64
  m_type :: u32

record exec_mappings_key =
  key_prefix_len :: u32
  key_pid :: u32
  key_data :: u64

record stack_unwind_row_t =
  pc_low :: u16
  cfa_type :: u8
  rbp_type :: u8
  cfa_offset :: u16
  rbp_offset :: s16

record native_stack_t =
  ulen :: u32
  klen :: u32
  addresses :: "u64 list"

record sample_t =
  sample_pid :: s32
  sample_tid :: s32
  collected_at :: u64
  sample_stack :: native_stack_t

record unwind_state_t =
  us_ip :: u64
  us_sp :: u64
  us_bp :: u64
  us_lr :: u64
  tail_calls :: u64
  us_sample :: sample_t

datatype event_type = EVENT_NEW_PROCESS | EVENT_NEED_UNWIND_INFO

fun event_type_value :: "event_type \<Rightarrow> u32" where
  "event_type_value EVENT_NEW_PROCESS = 1"
| "event_type_value EVENT_NEED_UNWIND_INFO = 2"

record Event =
  ev_type :: event_type
  ev_pid :: s32
  ev_address :: u64

definition PROGRAM_NATIVE_UNWINDER :: u32 where [simp]: "PROGRAM_NATIVE_UNWINDER = 0"

section \<open>tracers.h\<close>

datatype tracer_event_type = TRACER_EVENT_TYPE_PROCESS_EXIT | TRACER_EVENT_TYPE_MUNMAP

fun tracer_event_type_value :: "tracer_event_type \<Rightarrow> u32" where
  "tracer_event_type_value TRACER_EVENT_TYPE_PROCESS_EXIT = 1"
| "tracer_event_type_value TRACER_EVENT_TYPE_MUNMAP = 2"

record tracer_event_t =
  te_type :: tracer_event_type
  te_pid :: s32
  te_start_address :: u64

section \<open>Layouts\<close>

definition page_key_t_layout :: ctype where
  "page_key_t_layout = CStruct [CField ''executable_id'' c_long, CField ''file_offset'' c_long]"

definition page_value_t_layout :: ctype where
  "page_value_t_layout = CStruct [CField ''low_index'' c_int, CField ''high_index'' c_int]"

definition mapping_t_layout :: ctype where
  "mapping_t_layout =
     CStruct [CField ''executable_id'' c_long, CField ''load_address'' c_long,
              CField ''begin'' c_long, CField ''end'' c_long, CField ''type'' c_int]"

definition exec_mappings_key_layout :: ctype where
  "exec_mappings_key_layout =
     CStruct [CField ''prefix_len'' c_int, CField ''pid'' c_int, CField ''data'' c_long]"

definition stack_unwind_row_t_layout :: ctype where
  "stack_unwind_row_t_layout =
     CPacked [CField ''pc_low'' c_short, CField ''cfa_type'' c_char, CField ''rbp_type'' c_char,
              CField ''cfa_offset'' c_short, CField ''rbp_offset'' c_short]"

definition native_stack_t_layout :: ctype where
  "native_stack_t_layout =
     CStruct [CField ''ulen'' c_int, CField ''klen'' c_int,
              CField ''addresses'' (CArray (unat MAX_STACK_DEPTH * 2) c_long)]"

definition sample_t_layout :: ctype where
  "sample_t_layout =
     CStruct [CField ''pid'' c_int, CField ''tid'' c_int, CField ''collected_at'' c_long,
              CField ''stack'' native_stack_t_layout]"

definition unwind_state_t_layout :: ctype where
  "unwind_state_t_layout =
     CStruct [CField ''ip'' c_long, CField ''sp'' c_long, CField ''bp'' c_long,
              CField ''lr'' c_long, CField ''tail_calls'' c_long, CField ''sample'' sample_t_layout]"

definition Event_layout :: ctype where
  "Event_layout = CStruct [CField ''type'' c_enum, CField ''pid'' c_int, CField ''address'' c_long]"

definition tracer_event_t_layout :: ctype where
  "tracer_event_t_layout =
     CStruct [CField ''type'' c_int, CField ''pid'' c_int, CField ''start_address'' c_long]"

definition PREFIX_LEN :: u32 where
  "PREFIX_LEN = of_nat ((csize exec_mappings_key_layout - csize c_int) * 8)"

lemma profiler_layout [simp]:
  "csize page_key_t_layout = 16"
  "csize page_value_t_layout = 8"
  "csize mapping_t_layout = 40"
  "csize exec_mappings_key_layout = 16"
  "csize stack_unwind_row_t_layout = 8"
  "csize native_stack_t_layout = 2040"
  "csize sample_t_layout = 2056"
  "csize unwind_state_t_layout = 2096"
  "csize Event_layout = 16"
  "csize tracer_event_t_layout = 16"
  by (simp_all add: page_key_t_layout_def page_value_t_layout_def mapping_t_layout_def
      exec_mappings_key_layout_def stack_unwind_row_t_layout_def native_stack_t_layout_def
      sample_t_layout_def unwind_state_t_layout_def Event_layout_def tracer_event_t_layout_def
      layout_eval)

lemma PREFIX_LEN_eq [simp]: "PREFIX_LEN = 96"
  by (simp add: PREFIX_LEN_def)

section \<open>Page arithmetic\<close>

lemma page_consts:
  "PAGE_SIZE = 4096" "PAGE_MASK = 0xFFFFFFFFFFFFF000" "THREAD_SIZE = 16384"
  "UNWIND_INFO_PAGE_SIZE = 0x10000"
  by (simp_all add: PAGE_SIZE_def PAGE_MASK_def THREAD_SIZE_def THREAD_SIZE_ORDER_def
      UNWIND_INFO_PAGE_SIZE_def UNWIND_INFO_PAGE_BIT_LEN_def)

end
