(* ===== verification/Vmlinux_X86.thy ===== *)
theory Vmlinux_X86
  imports C_Layout
begin

text \<open>
  The kernel type declarations of src/src/bpf/vmlinux\_x86.h that the BPF programs depend on:
  \<open>struct task_struct\<close>, the namespace and pid structures they chase from it, the saved
  registers and the program contexts, each closed under the types they embed by value; and the
  \<open>bpf\<close> enumerations that feature detection and the map declarations refer to.
  A struct, union or typedef is a \<open>ctype\<close> with the members in declaration order; an enumeration
  is the list of its enumerators. Each type is followed by its computed size and alignment.
\<close>

definition x86_pt_regs :: ctype where
  "x86_pt_regs =
    CStruct [CField ''r15'' c_long,
      CField ''r14'' c_long,
      CField ''r13'' c_long,
      CField ''r12'' c_long,
      CField ''bp'' c_long,
      CField ''bx'' c_long,
      CField ''r11'' c_long,
      CField ''r10'' c_long,
      CField ''r9'' c_long,
      CField ''r8'' c_long,
      CField ''ax'' c_long,
      CField ''cx'' c_long,
      CField ''dx'' c_long,
      CField ''si'' c_long,
      CField ''di'' c_long,
      CField ''orig_ax'' c_long,
      CField ''ip'' c_long,
      CField ''cs'' c_long,
      CField ''flags'' c_long,
      CField ''sp'' c_long,
      CField ''ss'' c_long]"

lemma x86_pt_regs_layout [vmlinux_layout]: "csize x86_pt_regs = 168" "calign x86_pt_regs = 8"
  by (simp_all add: x86_pt_regs_def layout_eval vmlinux_layout)

definition x86___u32 :: ctype where
  "x86___u32 =
    c_int"

lemma x86___u32_layout [vmlinux_layout]: "csize x86___u32 = 4" "calign x86___u32 = 4"
  by (simp_all add: x86___u32_def layout_eval vmlinux_layout)

definition x86_u32 :: ctype where
  "x86_u32 =
    x86___u32"

lemma x86_u32_layout [vmlinux_layout]: "csize x86_u32 = 4" "calign x86_u32 = 4"
  by (simp_all add: x86_u32_def layout_eval vmlinux_layout)

definition x86_thread_info :: ctype where
  "x86_thread_info =
    CStruct [CField ''flags'' c_long,
      CField ''syscall_work'' c_long,
      CField ''status'' x86_u32,
      CField ''cpu'' x86_u32]"

lemma x86_thread_info_layout [vmlinux_layout]: "csize x86_thread_info = 24" "calign x86_thread_info = 8"
  by (simp_all add: x86_thread_info_def layout_eval vmlinux_layout)

definition x86_atomic_t :: ctype where
  "x86_atomic_t =
    CStruct [CField ''counter'' c_int]"

lemma x86_atomic_t_layout [vmlinux_layout]: "csize x86_atomic_t = 4" "calign x86_atomic_t = 4"
  by (simp_all add: x86_atomic_t_def layout_eval vmlinux_layout)

definition x86_refcount_struct :: ctype where
  "x86_refcount_struct =
    CStruct [CField ''refs'' x86_atomic_t]"

lemma x86_refcount_struct_layout [vmlinux_layout]: "csize x86_refcount_struct = 4" "calign x86_refcount_struct = 4"
  by (simp_all add: x86_refcount_struct_def layout_eval vmlinux_layout)

definition x86_refcount_t :: ctype where
  "x86_refcount_t =
    x86_refcount_struct"

lemma x86_refcount_t_layout [vmlinux_layout]: "csize x86_refcount_t = 4" "calign x86_refcount_t = 4"
  by (simp_all add: x86_refcount_t_def layout_eval vmlinux_layout)

definition x86_llist_node :: ctype where
  "x86_llist_node =
    CStruct [CField ''next'' c_ptr]"

lemma x86_llist_node_layout [vmlinux_layout]: "csize x86_llist_node = 8" "calign x86_llist_node = 8"
  by (simp_all add: x86_llist_node_def layout_eval vmlinux_layout)

definition x86___u16 :: ctype where
  "x86___u16 =
    c_short"

lemma x86___u16_layout [vmlinux_layout]: "csize x86___u16 = 2" "calign x86___u16 = 2"
  by (simp_all add: x86___u16_def layout_eval vmlinux_layout)

definition x86_u16 :: ctype where
  "x86_u16 =
    x86___u16"

lemma x86_u16_layout [vmlinux_layout]: "csize x86_u16 = 2" "calign x86_u16 = 2"
  by (simp_all add: x86_u16_def layout_eval vmlinux_layout)

definition x86___call_single_node :: ctype where
  "x86___call_single_node =
    CStruct [CField ''llist'' x86_llist_node,
      CField '''' (CUnion [CField ''u_flags'' c_int,
       CField ''a_flags'' x86_atomic_t]),
      CField ''src'' x86_u16,
      CField ''dst'' x86_u16]"

lemma x86___call_single_node_layout [vmlinux_layout]: "csize x86___call_single_node = 16" "calign x86___call_single_node = 8"
  by (simp_all add: x86___call_single_node_def layout_eval vmlinux_layout)

definition x86_load_weight :: ctype where
  "x86_load_weight =
    CStruct [CField ''weight'' c_long,
      CField ''inv_weight'' x86_u32]"

lemma x86_load_weight_layout [vmlinux_layout]: "csize x86_load_weight = 16" "calign x86_load_weight = 8"
  by (simp_all add: x86_load_weight_def layout_eval vmlinux_layout)

definition x86_rb_node :: ctype where
  "x86_rb_node =
    CStruct [CField ''__rb_parent_color'' c_long,
      CField ''rb_right'' c_ptr,
      CField ''rb_left'' c_ptr]"

lemma x86_rb_node_layout [vmlinux_layout]: "csize x86_rb_node = 24" "calign x86_rb_node = 8"
  by (simp_all add: x86_rb_node_def layout_eval vmlinux_layout)

definition x86_list_head :: ctype where
  "x86_list_head =
    CStruct [CField ''next'' c_ptr,
      CField ''prev'' c_ptr]"

lemma x86_list_head_layout [vmlinux_layout]: "csize x86_list_head = 16" "calign x86_list_head = 8"
  by (simp_all add: x86_list_head_def layout_eval vmlinux_layout)

definition x86___u64 :: ctype where
  "x86___u64 =
    c_long"

lemma x86___u64_layout [vmlinux_layout]: "csize x86___u64 = 8" "calign x86___u64 = 8"
  by (simp_all add: x86___u64_def layout_eval vmlinux_layout)

definition x86_u64 :: ctype where
  "x86_u64 =
    x86___u64"

lemma x86_u64_layout [vmlinux_layout]: "csize x86_u64 = 8" "calign x86_u64 = 8"
  by (simp_all add: x86_u64_def layout_eval vmlinux_layout)

definition x86_util_est :: ctype where
  "x86_util_est =
    CStruct [CField ''enqueued'' c_int,
      CField ''ewma'' c_int]"

lemma x86_util_est_layout [vmlinux_layout]: "csize x86_util_est = 8" "calign x86_util_est = 4"
  by (simp_all add: x86_util_est_def layout_eval vmlinux_layout)

definition x86_sched_avg :: ctype where
  "x86_sched_avg =
    CStruct [CField ''last_update_time'' x86_u64,
      CField ''load_sum'' x86_u64,
      CField ''runnable_sum'' x86_u64,
      CField ''util_sum'' x86_u32,
      CField ''period_contrib'' x86_u32,
      CField ''load_avg'' c_long,
      CField ''runnable_avg'' c_long,
      CField ''util_avg'' c_long,
      CField ''util_est'' x86_util_est]"

lemma x86_sched_avg_layout [vmlinux_layout]: "csize x86_sched_avg = 64" "calign x86_sched_avg = 8"
  by (simp_all add: x86_sched_avg_def layout_eval vmlinux_layout)

definition x86_sched_entity :: ctype where
  "x86_sched_entity =
    CStruct [CField ''load'' x86_load_weight,
      CField ''run_node'' x86_rb_node,
      CField ''group_node'' x86_list_head,
      CField ''on_rq'' c_int,
      CField ''exec_start'' x86_u64,
      CField ''sum_exec_runtime'' x86_u64,
      CField ''vruntime'' x86_u64,
      CField ''prev_sum_exec_runtime'' x86_u64,
      CField ''nr_migrations'' x86_u64,
      CBits '''' 8 64,
      CBits '''' 8 64,
      CBits '''' 8 64,
      CField ''avg'' x86_sched_avg]"

lemma x86_sched_entity_layout [vmlinux_layout]: "csize x86_sched_entity = 192" "calign x86_sched_entity = 8"
  by (simp_all add: x86_sched_entity_def layout_eval vmlinux_layout)

definition x86_sched_rt_entity :: ctype where
  "x86_sched_rt_entity =
    CStruct [CField ''run_list'' x86_list_head,
      CField ''timeout'' c_long,
      CField ''watchdog_stamp'' c_long,
      CField ''time_slice'' c_int,
      CField ''on_rq'' c_short,
      CField ''on_list'' c_short,
      CField ''back'' c_ptr]"

lemma x86_sched_rt_entity_layout [vmlinux_layout]: "csize x86_sched_rt_entity = 48" "calign x86_sched_rt_entity = 8"
  by (simp_all add: x86_sched_rt_entity_def layout_eval vmlinux_layout)

definition x86___s64 :: ctype where
  "x86___s64 =
    c_long"

lemma x86___s64_layout [vmlinux_layout]: "csize x86___s64 = 8" "calign x86___s64 = 8"
  by (simp_all add: x86___s64_def layout_eval vmlinux_layout)

definition x86_s64 :: ctype where
  "x86_s64 =
    x86___s64"

lemma x86_s64_layout [vmlinux_layout]: "csize x86_s64 = 8" "calign x86_s64 = 8"
  by (simp_all add: x86_s64_def layout_eval vmlinux_layout)

definition x86_ktime_t :: ctype where
  "x86_ktime_t =
    x86_s64"

lemma x86_ktime_t_layout [vmlinux_layout]: "csize x86_ktime_t = 8" "calign x86_ktime_t = 8"
  by (simp_all add: x86_ktime_t_def layout_eval vmlinux_layout)

definition x86_timerqueue_node :: ctype where
  "x86_timerqueue_node =
    CStruct [CField ''node'' x86_rb_node,
      CField ''expires'' x86_ktime_t]"

lemma x86_timerqueue_node_layout [vmlinux_layout]: "csize x86_timerqueue_node = 32" "calign x86_timerqueue_node = 8"
  by (simp_all add: x86_timerqueue_node_def layout_eval vmlinux_layout)

definition x86___u8 :: ctype where
  "x86___u8 =
    c_char"

lemma x86___u8_layout [vmlinux_layout]: "csize x86___u8 = 1" "calign x86___u8 = 1"
  by (simp_all add: x86___u8_def layout_eval vmlinux_layout)

definition x86_u8 :: ctype where
  "x86_u8 =
    x86___u8"

lemma x86_u8_layout [vmlinux_layout]: "csize x86_u8 = 1" "calign x86_u8 = 1"
  by (simp_all add: x86_u8_def layout_eval vmlinux_layout)

definition x86_hrtimer :: ctype where
  "x86_hrtimer =
    CStruct [CField ''node'' x86_timerqueue_node,
      CField ''_softexpires'' x86_ktime_t,
      CField ''function'' c_ptr,
      CField ''base'' c_ptr,
      CField ''state'' x86_u8,
      CField ''is_rel'' x86_u8,
      CField ''is_soft'' x86_u8,
      CField ''is_hard'' x86_u8]"

lemma x86_hrtimer_layout [vmlinux_layout]: "csize x86_hrtimer = 64" "calign x86_hrtimer = 8"
  by (simp_all add: x86_hrtimer_def layout_eval vmlinux_layout)

definition x86_sched_dl_entity :: ctype where
  "x86_sched_dl_entity =
    CStruct [CField ''rb_node'' x86_rb_node,
      CField ''dl_runtime'' x86_u64,
      CField ''dl_deadline'' x86_u64,
      CField ''dl_period'' x86_u64,
      CField ''dl_bw'' x86_u64,
      CField ''dl_density'' x86_u64,
      CField ''runtime'' x86_s64,
      CField ''deadline'' x86_u64,
      CField ''flags'' c_int,
      CBits ''dl_throttled'' 4 1,
      CBits ''dl_yielded'' 4 1,
      CBits ''dl_non_contending'' 4 1,
      CBits ''dl_overrun'' 4 1,
      CField ''dl_timer'' x86_hrtimer,
      CField ''inactive_timer'' x86_hrtimer]"

lemma x86_sched_dl_entity_layout [vmlinux_layout]: "csize x86_sched_dl_entity = 216" "calign x86_sched_dl_entity = 8"
  by (simp_all add: x86_sched_dl_entity_def layout_eval vmlinux_layout)

definition x86_sched_statistics :: ctype where
  "x86_sched_statistics =
    CStruct []"

lemma x86_sched_statistics_layout [vmlinux_layout]: "csize x86_sched_statistics = 0" "calign x86_sched_statistics = 1"
  by (simp_all add: x86_sched_statistics_def layout_eval vmlinux_layout)

definition x86_cpumask :: ctype where
  "x86_cpumask =
    CStruct [CField ''bits'' (CArray 4 c_long)]"

lemma x86_cpumask_layout [vmlinux_layout]: "csize x86_cpumask = 32" "calign x86_cpumask = 8"
  by (simp_all add: x86_cpumask_def layout_eval vmlinux_layout)

definition x86_cpumask_t :: ctype where
  "x86_cpumask_t =
    x86_cpumask"

lemma x86_cpumask_t_layout [vmlinux_layout]: "csize x86_cpumask_t = 32" "calign x86_cpumask_t = 8"
  by (simp_all add: x86_cpumask_t_def layout_eval vmlinux_layout)

definition x86_rcu_special :: ctype where
  "x86_rcu_special =
    CUnion [CField ''b'' (CStruct [CField ''blocked'' x86_u8,
       CField ''need_qs'' x86_u8,
       CField ''exp_hint'' x86_u8,
       CField ''need_mb'' x86_u8]),
      CField ''s'' x86_u32]"

lemma x86_rcu_special_layout [vmlinux_layout]: "csize x86_rcu_special = 4" "calign x86_rcu_special = 4"
  by (simp_all add: x86_rcu_special_def layout_eval vmlinux_layout)

definition x86_sched_info :: ctype where
  "x86_sched_info =
    CStruct []"

lemma x86_sched_info_layout [vmlinux_layout]: "csize x86_sched_info = 0" "calign x86_sched_info = 1"
  by (simp_all add: x86_sched_info_def layout_eval vmlinux_layout)

definition x86_plist_node :: ctype where
  "x86_plist_node =
    CStruct [CField ''prio'' c_int,
      CField ''prio_list'' x86_list_head,
      CField ''node_list'' x86_list_head]"

lemma x86_plist_node_layout [vmlinux_layout]: "csize x86_plist_node = 40" "calign x86_plist_node = 8"
  by (simp_all add: x86_plist_node_def layout_eval vmlinux_layout)

definition x86___kernel_clockid_t :: ctype where
  "x86___kernel_clockid_t =
    c_int"

lemma x86___kernel_clockid_t_layout [vmlinux_layout]: "csize x86___kernel_clockid_t = 4" "calign x86___kernel_clockid_t = 4"
  by (simp_all add: x86___kernel_clockid_t_def layout_eval vmlinux_layout)

definition x86_clockid_t :: ctype where
  "x86_clockid_t =
    x86___kernel_clockid_t"

lemma x86_clockid_t_layout [vmlinux_layout]: "csize x86_clockid_t = 4" "calign x86_clockid_t = 4"
  by (simp_all add: x86_clockid_t_def layout_eval vmlinux_layout)

definition x86_enum_timespec_type :: "(string \<times> int) list" where
  "x86_enum_timespec_type =
    [(''TT_NONE'', 0),
     (''TT_NATIVE'', 1),
     (''TT_COMPAT'', 2)]"

definition x86_restart_block :: ctype where
  "x86_restart_block =
    CStruct [CField ''arch_data'' c_long,
      CField ''fn'' c_ptr,
      CField '''' (CUnion [CField ''futex'' (CStruct [CField ''uaddr'' c_ptr,
       CField ''val'' x86_u32,
       CField ''flags'' x86_u32,
       CField ''bitset'' x86_u32,
       CField ''time'' x86_u64,
       CField ''uaddr2'' c_ptr]),
       CField ''nanosleep'' (CStruct [CField ''clockid'' x86_clockid_t,
       CField ''type'' c_enum,
       CField '''' (CUnion [CField ''rmtp'' c_ptr,
       CField ''compat_rmtp'' c_ptr]),
       CField ''expires'' x86_u64]),
       CField ''poll'' (CStruct [CField ''ufds'' c_ptr,
       CField ''nfds'' c_int,
       CField ''has_timeout'' c_int,
       CField ''tv_sec'' c_long,
       CField ''tv_nsec'' c_long])])]"

lemma x86_restart_block_layout [vmlinux_layout]: "csize x86_restart_block = 56" "calign x86_restart_block = 8"
  by (simp_all add: x86_restart_block_def layout_eval vmlinux_layout)

definition x86___kernel_pid_t :: ctype where
  "x86___kernel_pid_t =
    c_int"

lemma x86___kernel_pid_t_layout [vmlinux_layout]: "csize x86___kernel_pid_t = 4" "calign x86___kernel_pid_t = 4"
  by (simp_all add: x86___kernel_pid_t_def layout_eval vmlinux_layout)

definition x86_pid_t :: ctype where
  "x86_pid_t =
    x86___kernel_pid_t"

lemma x86_pid_t_layout [vmlinux_layout]: "csize x86_pid_t = 4" "calign x86_pid_t = 4"
  by (simp_all add: x86_pid_t_def layout_eval vmlinux_layout)

definition x86_hlist_node :: ctype where
  "x86_hlist_node =
    CStruct [CField ''next'' c_ptr,
      CField ''pprev'' c_ptr]"

lemma x86_hlist_node_layout [vmlinux_layout]: "csize x86_hlist_node = 16" "calign x86_hlist_node = 8"
  by (simp_all add: x86_hlist_node_def layout_eval vmlinux_layout)

definition x86_qspinlock :: ctype where
  "x86_qspinlock =
    CStruct [CField '''' (CUnion [CField ''val'' x86_atomic_t,
       CField '''' (CStruct [CField ''locked'' x86_u8,
       CField ''pending'' x86_u8]),
       CField '''' (CStruct [CField ''locked_pending'' x86_u16,
       CField ''tail'' x86_u16])])]"

lemma x86_qspinlock_layout [vmlinux_layout]: "csize x86_qspinlock = 4" "calign x86_qspinlock = 4"
  by (simp_all add: x86_qspinlock_def layout_eval vmlinux_layout)

definition x86_arch_spinlock_t :: ctype where
  "x86_arch_spinlock_t =
    x86_qspinlock"

lemma x86_arch_spinlock_t_layout [vmlinux_layout]: "csize x86_arch_spinlock_t = 4" "calign x86_arch_spinlock_t = 4"
  by (simp_all add: x86_arch_spinlock_t_def layout_eval vmlinux_layout)

definition x86_raw_spinlock :: ctype where
  "x86_raw_spinlock =
    CStruct [CField ''raw_lock'' x86_arch_spinlock_t]"

lemma x86_raw_spinlock_layout [vmlinux_layout]: "csize x86_raw_spinlock = 4" "calign x86_raw_spinlock = 4"
  by (simp_all add: x86_raw_spinlock_def layout_eval vmlinux_layout)

definition x86_raw_spinlock_t :: ctype where
  "x86_raw_spinlock_t =
    x86_raw_spinlock"

lemma x86_raw_spinlock_t_layout [vmlinux_layout]: "csize x86_raw_spinlock_t = 4" "calign x86_raw_spinlock_t = 4"
  by (simp_all add: x86_raw_spinlock_t_def layout_eval vmlinux_layout)

definition x86_prev_cputime :: ctype where
  "x86_prev_cputime =
    CStruct [CField ''utime'' x86_u64,
      CField ''stime'' x86_u64,
      CField ''lock'' x86_raw_spinlock_t]"

lemma x86_prev_cputime_layout [vmlinux_layout]: "csize x86_prev_cputime = 24" "calign x86_prev_cputime = 8"
  by (simp_all add: x86_prev_cputime_def layout_eval vmlinux_layout)

definition x86_posix_cputimers :: ctype where
  "x86_posix_cputimers =
    CStruct []"

lemma x86_posix_cputimers_layout [vmlinux_layout]: "csize x86_posix_cputimers = 0" "calign x86_posix_cputimers = 1"
  by (simp_all add: x86_posix_cputimers_def layout_eval vmlinux_layout)

definition x86_sigset_t :: ctype where
  "x86_sigset_t =
    CStruct [CField ''sig'' (CArray 1 c_long)]"

lemma x86_sigset_t_layout [vmlinux_layout]: "csize x86_sigset_t = 8" "calign x86_sigset_t = 8"
  by (simp_all add: x86_sigset_t_def layout_eval vmlinux_layout)

definition x86_sigpending :: ctype where
  "x86_sigpending =
    CStruct [CField ''list'' x86_list_head,
      CField ''signal'' x86_sigset_t]"

lemma x86_sigpending_layout [vmlinux_layout]: "csize x86_sigpending = 24" "calign x86_sigpending = 8"
  by (simp_all add: x86_sigpending_def layout_eval vmlinux_layout)

definition x86___kernel_ulong_t :: ctype where
  "x86___kernel_ulong_t =
    c_long"

lemma x86___kernel_ulong_t_layout [vmlinux_layout]: "csize x86___kernel_ulong_t = 8" "calign x86___kernel_ulong_t = 8"
  by (simp_all add: x86___kernel_ulong_t_def layout_eval vmlinux_layout)

definition x86___kernel_size_t :: ctype where
  "x86___kernel_size_t =
    x86___kernel_ulong_t"

lemma x86___kernel_size_t_layout [vmlinux_layout]: "csize x86___kernel_size_t = 8" "calign x86___kernel_size_t = 8"
  by (simp_all add: x86___kernel_size_t_def layout_eval vmlinux_layout)

definition x86_size_t :: ctype where
  "x86_size_t =
    x86___kernel_size_t"

lemma x86_size_t_layout [vmlinux_layout]: "csize x86_size_t = 8" "calign x86_size_t = 8"
  by (simp_all add: x86_size_t_def layout_eval vmlinux_layout)

definition x86_seccomp :: ctype where
  "x86_seccomp =
    CStruct []"

lemma x86_seccomp_layout [vmlinux_layout]: "csize x86_seccomp = 0" "calign x86_seccomp = 1"
  by (simp_all add: x86_seccomp_def layout_eval vmlinux_layout)

definition x86_bool :: ctype where
  "x86_bool =
    c_bool"

lemma x86_bool_layout [vmlinux_layout]: "csize x86_bool = 1" "calign x86_bool = 1"
  by (simp_all add: x86_bool_def layout_eval vmlinux_layout)

definition x86_syscall_user_dispatch :: ctype where
  "x86_syscall_user_dispatch =
    CStruct [CField ''selector'' c_ptr,
      CField ''offset'' c_long,
      CField ''len'' c_long,
      CField ''on_dispatch'' x86_bool]"

lemma x86_syscall_user_dispatch_layout [vmlinux_layout]: "csize x86_syscall_user_dispatch = 32" "calign x86_syscall_user_dispatch = 8"
  by (simp_all add: x86_syscall_user_dispatch_def layout_eval vmlinux_layout)

definition x86_spinlock :: ctype where
  "x86_spinlock =
    CStruct [CField '''' (CUnion [CField ''rlock'' x86_raw_spinlock])]"

lemma x86_spinlock_layout [vmlinux_layout]: "csize x86_spinlock = 4" "calign x86_spinlock = 4"
  by (simp_all add: x86_spinlock_def layout_eval vmlinux_layout)

definition x86_spinlock_t :: ctype where
  "x86_spinlock_t =
    x86_spinlock"

lemma x86_spinlock_t_layout [vmlinux_layout]: "csize x86_spinlock_t = 4" "calign x86_spinlock_t = 4"
  by (simp_all add: x86_spinlock_t_def layout_eval vmlinux_layout)

definition x86_wake_q_node :: ctype where
  "x86_wake_q_node =
    CStruct [CField ''next'' c_ptr]"

lemma x86_wake_q_node_layout [vmlinux_layout]: "csize x86_wake_q_node = 8" "calign x86_wake_q_node = 8"
  by (simp_all add: x86_wake_q_node_def layout_eval vmlinux_layout)

definition x86_task_io_accounting :: ctype where
  "x86_task_io_accounting =
    CStruct []"

lemma x86_task_io_accounting_layout [vmlinux_layout]: "csize x86_task_io_accounting = 0" "calign x86_task_io_accounting = 1"
  by (simp_all add: x86_task_io_accounting_def layout_eval vmlinux_layout)

definition x86_atomic64_t :: ctype where
  "x86_atomic64_t =
    CStruct [CField ''counter'' x86_s64]"

lemma x86_atomic64_t_layout [vmlinux_layout]: "csize x86_atomic64_t = 8" "calign x86_atomic64_t = 8"
  by (simp_all add: x86_atomic64_t_def layout_eval vmlinux_layout)

definition x86_atomic_long_t :: ctype where
  "x86_atomic_long_t =
    x86_atomic64_t"

lemma x86_atomic_long_t_layout [vmlinux_layout]: "csize x86_atomic_long_t = 8" "calign x86_atomic_long_t = 8"
  by (simp_all add: x86_atomic_long_t_def layout_eval vmlinux_layout)

definition x86_optimistic_spin_queue :: ctype where
  "x86_optimistic_spin_queue =
    CStruct [CField ''tail'' x86_atomic_t]"

lemma x86_optimistic_spin_queue_layout [vmlinux_layout]: "csize x86_optimistic_spin_queue = 4" "calign x86_optimistic_spin_queue = 4"
  by (simp_all add: x86_optimistic_spin_queue_def layout_eval vmlinux_layout)

definition x86_mutex :: ctype where
  "x86_mutex =
    CStruct [CField ''owner'' x86_atomic_long_t,
      CField ''wait_lock'' x86_raw_spinlock_t,
      CField ''osq'' x86_optimistic_spin_queue,
      CField ''wait_list'' x86_list_head]"

lemma x86_mutex_layout [vmlinux_layout]: "csize x86_mutex = 32" "calign x86_mutex = 8"
  by (simp_all add: x86_mutex_def layout_eval vmlinux_layout)

definition x86_arch_tlbflush_unmap_batch :: ctype where
  "x86_arch_tlbflush_unmap_batch =
    CStruct [CField ''cpumask'' x86_cpumask]"

lemma x86_arch_tlbflush_unmap_batch_layout [vmlinux_layout]: "csize x86_arch_tlbflush_unmap_batch = 32" "calign x86_arch_tlbflush_unmap_batch = 8"
  by (simp_all add: x86_arch_tlbflush_unmap_batch_def layout_eval vmlinux_layout)

definition x86_tlbflush_unmap_batch :: ctype where
  "x86_tlbflush_unmap_batch =
    CStruct [CField ''arch'' x86_arch_tlbflush_unmap_batch,
      CField ''flush_required'' x86_bool,
      CField ''writable'' x86_bool]"

lemma x86_tlbflush_unmap_batch_layout [vmlinux_layout]: "csize x86_tlbflush_unmap_batch = 40" "calign x86_tlbflush_unmap_batch = 8"
  by (simp_all add: x86_tlbflush_unmap_batch_def layout_eval vmlinux_layout)

definition x86_page_frag :: ctype where
  "x86_page_frag =
    CStruct [CField ''page'' c_ptr,
      CField ''offset'' x86___u32,
      CField ''size'' x86___u32]"

lemma x86_page_frag_layout [vmlinux_layout]: "csize x86_page_frag = 16" "calign x86_page_frag = 8"
  by (simp_all add: x86_page_frag_def layout_eval vmlinux_layout)

definition x86_kmap_ctrl :: ctype where
  "x86_kmap_ctrl =
    CStruct []"

lemma x86_kmap_ctrl_layout [vmlinux_layout]: "csize x86_kmap_ctrl = 0" "calign x86_kmap_ctrl = 1"
  by (simp_all add: x86_kmap_ctrl_def layout_eval vmlinux_layout)

definition x86_callback_head :: ctype where
  "x86_callback_head =
    CStruct [CField ''next'' c_ptr,
      CField ''func'' c_ptr]"

lemma x86_callback_head_layout [vmlinux_layout]: "csize x86_callback_head = 16" "calign x86_callback_head = 8"
  by (simp_all add: x86_callback_head_def layout_eval vmlinux_layout)

definition x86_timer_list :: ctype where
  "x86_timer_list =
    CStruct [CField ''entry'' x86_hlist_node,
      CField ''expires'' c_long,
      CField ''function'' c_ptr,
      CField ''flags'' x86_u32]"

lemma x86_timer_list_layout [vmlinux_layout]: "csize x86_timer_list = 40" "calign x86_timer_list = 8"
  by (simp_all add: x86_timer_list_def layout_eval vmlinux_layout)

definition x86_llist_head :: ctype where
  "x86_llist_head =
    CStruct [CField ''first'' c_ptr]"

lemma x86_llist_head_layout [vmlinux_layout]: "csize x86_llist_head = 8" "calign x86_llist_head = 8"
  by (simp_all add: x86_llist_head_def layout_eval vmlinux_layout)

definition x86_desc_struct :: ctype where
  "x86_desc_struct =
    CStruct [CField ''limit0'' x86_u16,
      CField ''base0'' x86_u16,
      CBits ''base1'' 2 8,
      CBits ''type'' 2 4,
      CBits ''s'' 2 1,
      CBits ''dpl'' 2 2,
      CBits ''p'' 2 1,
      CBits ''limit1'' 2 4,
      CBits ''avl'' 2 1,
      CBits ''l'' 2 1,
      CBits ''d'' 2 1,
      CBits ''g'' 2 1,
      CBits ''base2'' 2 8]"

lemma x86_desc_struct_layout [vmlinux_layout]: "csize x86_desc_struct = 8" "calign x86_desc_struct = 2"
  by (simp_all add: x86_desc_struct_def layout_eval vmlinux_layout)

definition x86_fpu_state_perm :: ctype where
  "x86_fpu_state_perm =
    CStruct [CField ''__state_perm'' x86_u64,
      CField ''__state_size'' c_int,
      CField ''__user_state_size'' c_int]"

lemma x86_fpu_state_perm_layout [vmlinux_layout]: "csize x86_fpu_state_perm = 16" "calign x86_fpu_state_perm = 8"
  by (simp_all add: x86_fpu_state_perm_def layout_eval vmlinux_layout)

definition x86_fregs_state :: ctype where
  "x86_fregs_state =
    CStruct [CField ''cwd'' x86_u32,
      CField ''swd'' x86_u32,
      CField ''twd'' x86_u32,
      CField ''fip'' x86_u32,
      CField ''fcs'' x86_u32,
      CField ''foo'' x86_u32,
      CField ''fos'' x86_u32,
      CField ''st_space'' (CArray 20 x86_u32),
      CField ''status'' x86_u32]"

lemma x86_fregs_state_layout [vmlinux_layout]: "csize x86_fregs_state = 112" "calign x86_fregs_state = 4"
  by (simp_all add: x86_fregs_state_def layout_eval vmlinux_layout)

definition x86_fxregs_state :: ctype where
  "x86_fxregs_state =
    CStruct [CField ''cwd'' x86_u16,
      CField ''swd'' x86_u16,
      CField ''twd'' x86_u16,
      CField ''fop'' x86_u16,
      CField '''' (CUnion [CField '''' (CStruct [CField ''rip'' x86_u64,
       CField ''rdp'' x86_u64]),
       CField '''' (CStruct [CField ''fip'' x86_u32,
       CField ''fcs'' x86_u32,
       CField ''foo'' x86_u32,
       CField ''fos'' x86_u32])]),
      CField ''mxcsr'' x86_u32,
      CField ''mxcsr_mask'' x86_u32,
      CField ''st_space'' (CArray 32 x86_u32),
      CField ''xmm_space'' (CArray 64 x86_u32),
      CField ''padding'' (CArray 12 x86_u32),
      CField '''' (CUnion [CField ''padding1'' (CArray 12 x86_u32),
       CField ''sw_reserved'' (CArray 12 x86_u32)])]"

lemma x86_fxregs_state_layout [vmlinux_layout]: "csize x86_fxregs_state = 512" "calign x86_fxregs_state = 8"
  by (simp_all add: x86_fxregs_state_def layout_eval vmlinux_layout)

definition x86_swregs_state :: ctype where
  "x86_swregs_state =
    CStruct [CField ''cwd'' x86_u32,
      CField ''swd'' x86_u32,
      CField ''twd'' x86_u32,
      CField ''fip'' x86_u32,
      CField ''fcs'' x86_u32,
      CField ''foo'' x86_u32,
      CField ''fos'' x86_u32,
      CField ''st_space'' (CArray 20 x86_u32),
      CField ''ftop'' x86_u8,
      CField ''changed'' x86_u8,
      CField ''lookahead'' x86_u8,
      CField ''no_update'' x86_u8,
      CField ''rm'' x86_u8,
      CField ''alimit'' x86_u8,
      CField ''info'' c_ptr,
      CField ''entry_eip'' x86_u32]"

lemma x86_swregs_state_layout [vmlinux_layout]: "csize x86_swregs_state = 136" "calign x86_swregs_state = 8"
  by (simp_all add: x86_swregs_state_def layout_eval vmlinux_layout)

definition x86_xstate_header :: ctype where
  "x86_xstate_header =
    CStruct [CField ''xfeatures'' x86_u64,
      CField ''xcomp_bv'' x86_u64,
      CField ''reserved'' (CArray 6 x86_u64)]"

lemma x86_xstate_header_layout [vmlinux_layout]: "csize x86_xstate_header = 64" "calign x86_xstate_header = 8"
  by (simp_all add: x86_xstate_header_def layout_eval vmlinux_layout)

definition x86_xregs_state :: ctype where
  "x86_xregs_state =
    CStruct [CField ''i387'' x86_fxregs_state,
      CField ''header'' x86_xstate_header,
      CField ''extended_state_area'' (CArray 0 x86_u8)]"

lemma x86_xregs_state_layout [vmlinux_layout]: "csize x86_xregs_state = 576" "calign x86_xregs_state = 8"
  by (simp_all add: x86_xregs_state_def layout_eval vmlinux_layout)

definition x86_fpregs_state :: ctype where
  "x86_fpregs_state =
    CUnion [CField ''fsave'' x86_fregs_state,
      CField ''fxsave'' x86_fxregs_state,
      CField ''soft'' x86_swregs_state,
      CField ''xsave'' x86_xregs_state,
      CField ''__padding'' (CArray 4096 x86_u8)]"

lemma x86_fpregs_state_layout [vmlinux_layout]: "csize x86_fpregs_state = 4096" "calign x86_fpregs_state = 8"
  by (simp_all add: x86_fpregs_state_def layout_eval vmlinux_layout)

definition x86_fpstate :: ctype where
  "x86_fpstate =
    CStruct [CField ''size'' c_int,
      CField ''user_size'' c_int,
      CField ''xfeatures'' x86_u64,
      CField ''user_xfeatures'' x86_u64,
      CField ''xfd'' x86_u64,
      CBits ''is_valloc'' 4 1,
      CBits ''is_guest'' 4 1,
      CBits ''is_confidential'' 4 1,
      CBits ''in_use'' 4 1,
      CBits '''' 8 64,
      CBits '''' 8 64,
      CBits '''' 8 64,
      CField ''regs'' x86_fpregs_state]"

lemma x86_fpstate_layout [vmlinux_layout]: "csize x86_fpstate = 4160" "calign x86_fpstate = 8"
  by (simp_all add: x86_fpstate_def layout_eval vmlinux_layout)

definition x86_fpu :: ctype where
  "x86_fpu =
    CStruct [CField ''last_cpu'' c_int,
      CField ''avx512_timestamp'' c_long,
      CField ''fpstate'' c_ptr,
      CField ''__task_fpstate'' c_ptr,
      CField ''perm'' x86_fpu_state_perm,
      CField ''guest_perm'' x86_fpu_state_perm,
      CField ''__fpstate'' x86_fpstate]"

lemma x86_fpu_layout [vmlinux_layout]: "csize x86_fpu = 4224" "calign x86_fpu = 8"
  by (simp_all add: x86_fpu_def layout_eval vmlinux_layout)

definition x86_thread_struct :: ctype where
  "x86_thread_struct =
    CStruct [CField ''tls_array'' (CArray 3 x86_desc_struct),
      CField ''sp'' c_long,
      CField ''es'' c_short,
      CField ''ds'' c_short,
      CField ''fsindex'' c_short,
      CField ''gsindex'' c_short,
      CField ''fsbase'' c_long,
      CField ''gsbase'' c_long,
      CField ''ptrace_bps'' (CArray 4 c_ptr),
      CField ''virtual_dr6'' c_long,
      CField ''ptrace_dr7'' c_long,
      CField ''cr2'' c_long,
      CField ''trap_nr'' c_long,
      CField ''error_code'' c_long,
      CField ''io_bitmap'' c_ptr,
      CField ''iopl_emul'' c_long,
      CBits ''iopl_warn'' 4 1,
      CBits ''sig_on_uaccess_err'' 4 1,
      CField ''pkru'' x86_u32,
      CBits '''' 8 64,
      CBits '''' 8 64,
      CBits '''' 8 64,
      CBits '''' 8 64,
      CBits '''' 8 64,
      CField ''fpu'' x86_fpu]"

lemma x86_thread_struct_layout [vmlinux_layout]: "csize x86_thread_struct = 4416" "calign x86_thread_struct = 8"
  by (simp_all add: x86_thread_struct_def layout_eval vmlinux_layout)

definition x86_task_struct_part1 :: "cmember list" where
  "x86_task_struct_part1 =
    [CField ''thread_info'' x86_thread_info,
      CField ''__state'' c_int,
      CField ''stack'' c_ptr,
      CField ''usage'' x86_refcount_t,
      CField ''flags'' c_int,
      CField ''ptrace'' c_int,
      CField ''on_cpu'' c_int,
      CField ''wake_entry'' x86___call_single_node,
      CField ''wakee_flips'' c_int,
      CField ''wakee_flip_decay_ts'' c_long,
      CField ''last_wakee'' c_ptr,
      CField ''recent_used_cpu'' c_int,
      CField ''wake_cpu'' c_int,
      CField ''on_rq'' c_int,
      CField ''prio'' c_int,
      CField ''static_prio'' c_int,
      CField ''normal_prio'' c_int,
      CField ''rt_priority'' c_int,
      CField ''se'' x86_sched_entity,
      CField ''rt'' x86_sched_rt_entity,
      CField ''dl'' x86_sched_dl_entity,
      CField ''sched_class'' c_ptr,
      CBits '''' 8 64,
      CBits '''' 8 64,
      CBits '''' 8 64,
      CBits '''' 8 64,
      CBits '''' 8 64,
      CBits '''' 8 64,
      CField ''stats'' x86_sched_statistics,
      CField ''policy'' c_int,
      CField ''nr_cpus_allowed'' c_int,
      CField ''cpus_ptr'' c_ptr,
      CField ''user_cpus_ptr'' c_ptr,
      CField ''cpus_mask'' x86_cpumask_t,
      CField ''migration_pending'' c_ptr,
      CField ''migration_disabled'' c_short,
      CField ''migration_flags'' c_short,
      CField ''trc_reader_nesting'' c_int,
      CField ''trc_ipi_to_cpu'' c_int,
      CField ''trc_reader_special'' x86_rcu_special,
      CField ''trc_holdout_list'' x86_list_head,
      CField ''trc_blkd_node'' x86_list_head,
      CField ''trc_blkd_cpu'' c_int,
      CField ''sched_info'' x86_sched_info,
      CField ''tasks'' x86_list_head,
      CField ''pushable_tasks'' x86_plist_node,
      CField ''pushable_dl_tasks'' x86_rb_node,
      CField ''mm'' c_ptr,
      CField ''active_mm'' c_ptr,
      CField ''exit_state'' c_int,
      CField ''exit_code'' c_int,
      CField ''exit_signal'' c_int,
      CField ''pdeath_signal'' c_int,
      CField ''jobctl'' c_long,
      CField ''personality'' c_int,
      CBits ''sched_reset_on_fork'' 4 1,
      CBits ''sched_contributes_to_load'' 4 1,
      CBits ''sched_migrated'' 4 1,
      CBits '''' 8 29,
      CBits ''sched_remote_wakeup'' 4 1,
      CBits ''in_execve'' 4 1,
      CBits ''in_iowait'' 4 1,
      CBits ''restore_sigmask'' 4 1,
      CBits ''reported_split_lock'' 4 1,
      CField ''atomic_flags'' c_long,
      CField ''restart_block'' x86_restart_block,
      CField ''pid'' x86_pid_t,
      CField ''tgid'' x86_pid_t,
      CField ''real_parent'' c_ptr,
      CField ''parent'' c_ptr,
      CField ''children'' x86_list_head,
      CField ''sibling'' x86_list_head,
      CField ''group_leader'' c_ptr,
      CField ''ptraced'' x86_list_head,
      CField ''ptrace_entry'' x86_list_head,
      CField ''thread_pid'' c_ptr,
      CField ''pid_links'' (CArray 4 x86_hlist_node),
      CField ''thread_group'' x86_list_head,
      CField ''thread_node'' x86_list_head,
      CField ''vfork_done'' c_ptr,
      CField ''set_child_tid'' c_ptr,
      CField ''clear_child_tid'' c_ptr,
      CField ''worker_private'' c_ptr,
      CField ''utime'' x86_u64,
      CField ''stime'' x86_u64]"

definition x86_task_struct_part2 :: "cmember list" where
  "x86_task_struct_part2 =
    [CField ''gtime'' x86_u64,
      CField ''prev_cputime'' x86_prev_cputime,
      CField ''nvcsw'' c_long,
      CField ''nivcsw'' c_long,
      CField ''start_time'' x86_u64,
      CField ''start_boottime'' x86_u64,
      CField ''min_flt'' c_long,
      CField ''maj_flt'' c_long,
      CField ''posix_cputimers'' x86_posix_cputimers,
      CField ''ptracer_cred'' c_ptr,
      CField ''real_cred'' c_ptr,
      CField ''cred'' c_ptr,
      CField ''comm'' (CArray 16 c_char),
      CField ''nameidata'' c_ptr,
      CField ''fs'' c_ptr,
      CField ''files'' c_ptr,
      CField ''nsproxy'' c_ptr,
      CField ''signal'' c_ptr,
      CField ''sighand'' c_ptr,
      CField ''blocked'' x86_sigset_t,
      CField ''real_blocked'' x86_sigset_t,
      CField ''saved_sigmask'' x86_sigset_t,
      CField ''pending'' x86_sigpending,
      CField ''sas_ss_sp'' c_long,
      CField ''sas_ss_size'' x86_size_t,
      CField ''sas_ss_flags'' c_int,
      CField ''task_works'' c_ptr,
      CField ''seccomp'' x86_seccomp,
      CField ''syscall_dispatch'' x86_syscall_user_dispatch,
      CField ''parent_exec_id'' x86_u64,
      CField ''self_exec_id'' x86_u64,
      CField ''alloc_lock'' x86_spinlock_t,
      CField ''pi_lock'' x86_raw_spinlock_t,
      CField ''wake_q'' x86_wake_q_node,
      CField ''journal_info'' c_ptr,
      CField ''bio_list'' c_ptr,
      CField ''plug'' c_ptr,
      CField ''reclaim_state'' c_ptr,
      CField ''backing_dev_info'' c_ptr,
      CField ''io_context'' c_ptr,
      CField ''ptrace_message'' c_long,
      CField ''last_siginfo'' c_ptr,
      CField ''ioac'' x86_task_io_accounting,
      CField ''perf_event_ctxp'' c_ptr,
      CField ''perf_event_mutex'' x86_mutex,
      CField ''perf_event_list'' x86_list_head,
      CField ''tlb_ubc'' x86_tlbflush_unmap_batch,
      CField ''splice_pipe'' c_ptr,
      CField ''task_frag'' x86_page_frag,
      CField ''nr_dirtied'' c_int,
      CField ''nr_dirtied_pause'' c_int,
      CField ''dirty_paused_when'' c_long,
      CField ''timer_slack_ns'' x86_u64,
      CField ''default_timer_slack_ns'' x86_u64,
      CField ''curr_ret_stack'' c_int,
      CField ''curr_ret_depth'' c_int,
      CField ''ret_stack'' c_ptr,
      CField ''ftrace_timestamp'' c_long,
      CField ''trace_overrun'' x86_atomic_t,
      CField ''tracing_graph_pause'' x86_atomic_t,
      CField ''trace_recursion'' c_long,
      CField ''utask'' c_ptr,
      CField ''kmap_ctrl'' x86_kmap_ctrl,
      CField ''rcu'' x86_callback_head,
      CField ''rcu_users'' x86_refcount_t,
      CField ''pagefault_disabled'' c_int,
      CField ''oom_reaper_list'' c_ptr,
      CField ''oom_reaper_timer'' x86_timer_list,
      CField ''stack_vm_area'' c_ptr,
      CField ''stack_refcount'' x86_refcount_t,
      CField ''bpf_storage'' c_ptr,
      CField ''bpf_ctx'' c_ptr,
      CField ''mce_vaddr'' c_ptr,
      CField ''mce_kflags'' x86___u64,
      CField ''mce_addr'' x86_u64,
      CBits ''mce_ripv'' 8 1,
      CBits ''mce_whole_page'' 8 1,
      CBits ''__mce_reserved'' 8 62,
      CField ''mce_kill_me'' x86_callback_head,
      CField ''mce_count'' c_int,
      CField ''kretprobe_instances'' x86_llist_head,
      CField ''rethooks'' x86_llist_head,
      CField ''l1d_flush_kill'' x86_callback_head,
      CBits '''' 8 64,
      CField ''thread'' x86_thread_struct]"

definition x86_task_struct :: ctype where
  "x86_task_struct = CStruct (x86_task_struct_part1 @ x86_task_struct_part2)"

lemma x86_task_struct_layout [vmlinux_layout]: "csize x86_task_struct = 6400" "calign x86_task_struct = 8"
  by (simp_all add: x86_task_struct_def x86_task_struct_part1_def x86_task_struct_part2_def layout_eval vmlinux_layout)

definition x86_nsproxy :: ctype where
  "x86_nsproxy =
    CStruct [CField ''count'' x86_atomic_t,
      CField ''uts_ns'' c_ptr,
      CField ''ipc_ns'' c_ptr,
      CField ''mnt_ns'' c_ptr,
      CField ''pid_ns_for_children'' c_ptr,
      CField ''net_ns'' c_ptr,
      CField ''time_ns'' c_ptr,
      CField ''time_ns_for_children'' c_ptr,
      CField ''cgroup_ns'' c_ptr]"

lemma x86_nsproxy_layout [vmlinux_layout]: "csize x86_nsproxy = 72" "calign x86_nsproxy = 8"
  by (simp_all add: x86_nsproxy_def layout_eval vmlinux_layout)

definition x86_gfp_t :: ctype where
  "x86_gfp_t =
    c_int"

lemma x86_gfp_t_layout [vmlinux_layout]: "csize x86_gfp_t = 4" "calign x86_gfp_t = 4"
  by (simp_all add: x86_gfp_t_def layout_eval vmlinux_layout)

definition x86_xarray :: ctype where
  "x86_xarray =
    CStruct [CField ''xa_lock'' x86_spinlock_t,
      CField ''xa_flags'' x86_gfp_t,
      CField ''xa_head'' c_ptr]"

lemma x86_xarray_layout [vmlinux_layout]: "csize x86_xarray = 16" "calign x86_xarray = 8"
  by (simp_all add: x86_xarray_def layout_eval vmlinux_layout)

definition x86_idr :: ctype where
  "x86_idr =
    CStruct [CField ''idr_rt'' x86_xarray,
      CField ''idr_base'' c_int,
      CField ''idr_next'' c_int]"

lemma x86_idr_layout [vmlinux_layout]: "csize x86_idr = 24" "calign x86_idr = 8"
  by (simp_all add: x86_idr_def layout_eval vmlinux_layout)

definition x86_ns_common :: ctype where
  "x86_ns_common =
    CStruct [CField ''stashed'' x86_atomic_long_t,
      CField ''ops'' c_ptr,
      CField ''inum'' c_int,
      CField ''count'' x86_refcount_t]"

lemma x86_ns_common_layout [vmlinux_layout]: "csize x86_ns_common = 24" "calign x86_ns_common = 8"
  by (simp_all add: x86_ns_common_def layout_eval vmlinux_layout)

definition x86_pid_namespace :: ctype where
  "x86_pid_namespace =
    CStruct [CField ''idr'' x86_idr,
      CField ''rcu'' x86_callback_head,
      CField ''pid_allocated'' c_int,
      CField ''child_reaper'' c_ptr,
      CField ''pid_cachep'' c_ptr,
      CField ''level'' c_int,
      CField ''parent'' c_ptr,
      CField ''user_ns'' c_ptr,
      CField ''ucounts'' c_ptr,
      CField ''reboot'' c_int,
      CField ''ns'' x86_ns_common]"

lemma x86_pid_namespace_layout [vmlinux_layout]: "csize x86_pid_namespace = 128" "calign x86_pid_namespace = 8"
  by (simp_all add: x86_pid_namespace_def layout_eval vmlinux_layout)

definition x86_hlist_head :: ctype where
  "x86_hlist_head =
    CStruct [CField ''first'' c_ptr]"

lemma x86_hlist_head_layout [vmlinux_layout]: "csize x86_hlist_head = 8" "calign x86_hlist_head = 8"
  by (simp_all add: x86_hlist_head_def layout_eval vmlinux_layout)

definition x86_wait_queue_head :: ctype where
  "x86_wait_queue_head =
    CStruct [CField ''lock'' x86_spinlock_t,
      CField ''head'' x86_list_head]"

lemma x86_wait_queue_head_layout [vmlinux_layout]: "csize x86_wait_queue_head = 24" "calign x86_wait_queue_head = 8"
  by (simp_all add: x86_wait_queue_head_def layout_eval vmlinux_layout)

definition x86_wait_queue_head_t :: ctype where
  "x86_wait_queue_head_t =
    x86_wait_queue_head"

lemma x86_wait_queue_head_t_layout [vmlinux_layout]: "csize x86_wait_queue_head_t = 24" "calign x86_wait_queue_head_t = 8"
  by (simp_all add: x86_wait_queue_head_t_def layout_eval vmlinux_layout)

definition x86_upid :: ctype where
  "x86_upid =
    CStruct [CField ''nr'' c_int,
      CField ''ns'' c_ptr]"

lemma x86_upid_layout [vmlinux_layout]: "csize x86_upid = 16" "calign x86_upid = 8"
  by (simp_all add: x86_upid_def layout_eval vmlinux_layout)

definition x86_pid :: ctype where
  "x86_pid =
    CStruct [CField ''count'' x86_refcount_t,
      CField ''level'' c_int,
      CField ''lock'' x86_spinlock_t,
      CField ''tasks'' (CArray 4 x86_hlist_head),
      CField ''inodes'' x86_hlist_head,
      CField ''wait_pidfd'' x86_wait_queue_head_t,
      CField ''rcu'' x86_callback_head,
      CField ''numbers'' (CArray 1 x86_upid)]"

lemma x86_pid_layout [vmlinux_layout]: "csize x86_pid = 112" "calign x86_pid = 8"
  by (simp_all add: x86_pid_def layout_eval vmlinux_layout)

definition x86_bpf_user_pt_regs_t :: ctype where
  "x86_bpf_user_pt_regs_t =
    x86_pt_regs"

lemma x86_bpf_user_pt_regs_t_layout [vmlinux_layout]: "csize x86_bpf_user_pt_regs_t = 168" "calign x86_bpf_user_pt_regs_t = 8"
  by (simp_all add: x86_bpf_user_pt_regs_t_def layout_eval vmlinux_layout)

definition x86_bpf_perf_event_data :: ctype where
  "x86_bpf_perf_event_data =
    CStruct [CField ''regs'' x86_bpf_user_pt_regs_t,
      CField ''sample_period'' x86___u64,
      CField ''addr'' x86___u64]"

lemma x86_bpf_perf_event_data_layout [vmlinux_layout]: "csize x86_bpf_perf_event_data = 184" "calign x86_bpf_perf_event_data = 8"
  by (simp_all add: x86_bpf_perf_event_data_def layout_eval vmlinux_layout)

definition x86_trace_entry :: ctype where
  "x86_trace_entry =
    CStruct [CField ''type'' c_short,
      CField ''flags'' c_char,
      CField ''preempt_count'' c_char,
      CField ''pid'' c_int]"

lemma x86_trace_entry_layout [vmlinux_layout]: "csize x86_trace_entry = 8" "calign x86_trace_entry = 4"
  by (simp_all add: x86_trace_entry_def layout_eval vmlinux_layout)

definition x86_trace_event_raw_sys_exit :: ctype where
  "x86_trace_event_raw_sys_exit =
    CStruct [CField ''ent'' x86_trace_entry,
      CField ''id'' c_long,
      CField ''ret'' c_long,
      CField ''__data'' (CArray 0 c_char)]"

lemma x86_trace_event_raw_sys_exit_layout [vmlinux_layout]: "csize x86_trace_event_raw_sys_exit = 24" "calign x86_trace_event_raw_sys_exit = 8"
  by (simp_all add: x86_trace_event_raw_sys_exit_def layout_eval vmlinux_layout)

definition x86_trace_event_raw_sys_enter :: ctype where
  "x86_trace_event_raw_sys_enter =
    CStruct [CField ''ent'' x86_trace_entry,
      CField ''id'' c_long,
      CField ''args'' (CArray 6 c_long),
      CField ''__data'' (CArray 0 c_char)]"

lemma x86_trace_event_raw_sys_enter_layout [vmlinux_layout]: "csize x86_trace_event_raw_sys_enter = 64" "calign x86_trace_event_raw_sys_enter = 8"
  by (simp_all add: x86_trace_event_raw_sys_enter_def layout_eval vmlinux_layout)

definition x86_trace_event_raw_sched_process_template :: ctype where
  "x86_trace_event_raw_sched_process_template =
    CStruct [CField ''ent'' x86_trace_entry,
      CField ''comm'' (CArray 16 c_char),
      CField ''pid'' x86_pid_t,
      CField ''prio'' c_int,
      CField ''__data'' (CArray 0 c_char)]"

lemma x86_trace_event_raw_sched_process_template_layout [vmlinux_layout]: "csize x86_trace_event_raw_sched_process_template = 32" "calign x86_trace_event_raw_sched_process_template = 4"
  by (simp_all add: x86_trace_event_raw_sched_process_template_def layout_eval vmlinux_layout)

definition x86_trace_event_raw_sched_switch :: ctype where
  "x86_trace_event_raw_sched_switch =
    CStruct [CField ''ent'' x86_trace_entry,
      CField ''prev_comm'' (CArray 16 c_char),
      CField ''prev_pid'' x86_pid_t,
      CField ''prev_prio'' c_int,
      CField ''prev_state'' c_long,
      CField ''next_comm'' (CArray 16 c_char),
      CField ''next_pid'' x86_pid_t,
      CField ''next_prio'' c_int,
      CField ''__data'' (CArray 0 c_char)]"

lemma x86_trace_event_raw_sched_switch_layout [vmlinux_layout]: "csize x86_trace_event_raw_sched_switch = 64" "calign x86_trace_event_raw_sched_switch = 8"
  by (simp_all add: x86_trace_event_raw_sched_switch_def layout_eval vmlinux_layout)

definition x86_bpf_lpm_trie_key :: ctype where
  "x86_bpf_lpm_trie_key =
    CStruct [CField ''prefixlen'' x86___u32,
      CField ''data'' (CArray 0 x86___u8)]"

lemma x86_bpf_lpm_trie_key_layout [vmlinux_layout]: "csize x86_bpf_lpm_trie_key = 4" "calign x86_bpf_lpm_trie_key = 4"
  by (simp_all add: x86_bpf_lpm_trie_key_def layout_eval vmlinux_layout)

definition x86_enum_bpf_cmd :: "(string \<times> int) list" where
  "x86_enum_bpf_cmd =
    [(''BPF_MAP_CREATE'', 0),
     (''BPF_MAP_LOOKUP_ELEM'', 1),
     (''BPF_MAP_UPDATE_ELEM'', 2),
     (''BPF_MAP_DELETE_ELEM'', 3),
     (''BPF_MAP_GET_NEXT_KEY'', 4),
     (''BPF_PROG_LOAD'', 5),
     (''BPF_OBJ_PIN'', 6),
     (''BPF_OBJ_GET'', 7),
     (''BPF_PROG_ATTACH'', 8),
     (''BPF_PROG_DETACH'', 9),
     (''BPF_PROG_TEST_RUN'', 10),
     (''BPF_PROG_RUN'', 10),
     (''BPF_PROG_GET_NEXT_ID'', 11),
     (''BPF_MAP_GET_NEXT_ID'', 12),
     (''BPF_PROG_GET_FD_BY_ID'', 13),
     (''BPF_MAP_GET_FD_BY_ID'', 14),
     (''BPF_OBJ_GET_INFO_BY_FD'', 15),
     (''BPF_PROG_QUERY'', 16),
     (''BPF_RAW_TRACEPOINT_OPEN'', 17),
     (''BPF_BTF_LOAD'', 18),
     (''BPF_BTF_GET_FD_BY_ID'', 19),
     (''BPF_TASK_FD_QUERY'', 20),
     (''BPF_MAP_LOOKUP_AND_DELETE_ELEM'', 21),
     (''BPF_MAP_FREEZE'', 22),
     (''BPF_BTF_GET_NEXT_ID'', 23),
     (''BPF_MAP_LOOKUP_BATCH'', 24),
     (''BPF_MAP_LOOKUP_AND_DELETE_BATCH'', 25),
     (''BPF_MAP_UPDATE_BATCH'', 26),
     (''BPF_MAP_DELETE_BATCH'', 27),
     (''BPF_LINK_CREATE'', 28),
     (''BPF_LINK_UPDATE'', 29),
     (''BPF_LINK_GET_FD_BY_ID'', 30),
     (''BPF_LINK_GET_NEXT_ID'', 31),
     (''BPF_ENABLE_STATS'', 32),
     (''BPF_ITER_CREATE'', 33),
     (''BPF_LINK_DETACH'', 34),
     (''BPF_PROG_BIND_MAP'', 35)]"

definition x86_enum_bpf_map_type :: "(string \<times> int) list" where
  "x86_enum_bpf_map_type =
    [(''BPF_MAP_TYPE_UNSPEC'', 0),
     (''BPF_MAP_TYPE_HASH'', 1),
     (''BPF_MAP_TYPE_ARRAY'', 2),
     (''BPF_MAP_TYPE_PROG_ARRAY'', 3),
     (''BPF_MAP_TYPE_PERF_EVENT_ARRAY'', 4),
     (''BPF_MAP_TYPE_PERCPU_HASH'', 5),
     (''BPF_MAP_TYPE_PERCPU_ARRAY'', 6),
     (''BPF_MAP_TYPE_STACK_TRACE'', 7),
     (''BPF_MAP_TYPE_CGROUP_ARRAY'', 8),
     (''BPF_MAP_TYPE_LRU_HASH'', 9),
     (''BPF_MAP_TYPE_LRU_PERCPU_HASH'', 10),
     (''BPF_MAP_TYPE_LPM_TRIE'', 11),
     (''BPF_MAP_TYPE_ARRAY_OF_MAPS'', 12),
     (''BPF_MAP_TYPE_HASH_OF_MAPS'', 13),
     (''BPF_MAP_TYPE_DEVMAP'', 14),
     (''BPF_MAP_TYPE_SOCKMAP'', 15),
     (''BPF_MAP_TYPE_CPUMAP'', 16),
     (''BPF_MAP_TYPE_XSKMAP'', 17),
     (''BPF_MAP_TYPE_SOCKHASH'', 18),
     (''BPF_MAP_TYPE_CGROUP_STORAGE_DEPRECATED'', 19),
     (''BPF_MAP_TYPE_CGROUP_STORAGE'', 19),
     (''BPF_MAP_TYPE_REUSEPORT_SOCKARRAY'', 20),
     (''BPF_MAP_TYPE_PERCPU_CGROUP_STORAGE'', 21),
     (''BPF_MAP_TYPE_QUEUE'', 22),
     (''BPF_MAP_TYPE_STACK'', 23),
     (''BPF_MAP_TYPE_SK_STORAGE'', 24),
     (''BPF_MAP_TYPE_DEVMAP_HASH'', 25),
     (''BPF_MAP_TYPE_STRUCT_OPS'', 26),
     (''BPF_MAP_TYPE_RINGBUF'', 27),
     (''BPF_MAP_TYPE_INODE_STORAGE'', 28),
     (''BPF_MAP_TYPE_TASK_STORAGE'', 29),
     (''BPF_MAP_TYPE_BLOOM_FILTER'', 30),
     (''BPF_MAP_TYPE_USER_RINGBUF'', 31),
     (''BPF_MAP_TYPE_CGRP_STORAGE'', 32)]"

definition x86_enum_bpf_prog_type :: "(string \<times> int) list" where
  "x86_enum_bpf_prog_type =
    [(''BPF_PROG_TYPE_UNSPEC'', 0),
     (''BPF_PROG_TYPE_SOCKET_FILTER'', 1),
     (''BPF_PROG_TYPE_KPROBE'', 2),
     (''BPF_PROG_TYPE_SCHED_CLS'', 3),
     (''BPF_PROG_TYPE_SCHED_ACT'', 4),
     (''BPF_PROG_TYPE_TRACEPOINT'', 5),
     (''BPF_PROG_TYPE_XDP'', 6),
     (''BPF_PROG_TYPE_PERF_EVENT'', 7),
     (''BPF_PROG_TYPE_CGROUP_SKB'', 8),
     (''BPF_PROG_TYPE_CGROUP_SOCK'', 9),
     (''BPF_PROG_TYPE_LWT_IN'', 10),
     (''BPF_PROG_TYPE_LWT_OUT'', 11),
     (''BPF_PROG_TYPE_LWT_XMIT'', 12),
     (''BPF_PROG_TYPE_SOCK_OPS'', 13),
     (''BPF_PROG_TYPE_SK_SKB'', 14),
     (''BPF_PROG_TYPE_CGROUP_DEVICE'', 15),
     (''BPF_PROG_TYPE_SK_MSG'', 16),
     (''BPF_PROG_TYPE_RAW_TRACEPOINT'', 17),
     (''BPF_PROG_TYPE_CGROUP_SOCK_ADDR'', 18),
     (''BPF_PROG_TYPE_LWT_SEG6LOCAL'', 19),
     (''BPF_PROG_TYPE_LIRC_MODE2'', 20),
     (''BPF_PROG_TYPE_SK_REUSEPORT'', 21),
     (''BPF_PROG_TYPE_FLOW_DISSECTOR'', 22),
     (''BPF_PROG_TYPE_CGROUP_SYSCTL'', 23),
     (''BPF_PROG_TYPE_RAW_TRACEPOINT_WRITABLE'', 24),
     (''BPF_PROG_TYPE_CGROUP_SOCKOPT'', 25),
     (''BPF_PROG_TYPE_TRACING'', 26),
     (''BPF_PROG_TYPE_STRUCT_OPS'', 27),
     (''BPF_PROG_TYPE_EXT'', 28),
     (''BPF_PROG_TYPE_LSM'', 29),
     (''BPF_PROG_TYPE_SK_LOOKUP'', 30),
     (''BPF_PROG_TYPE_SYSCALL'', 31),
     (''BPF_PROG_TYPE_NETFILTER'', 32)]"

definition x86_enum_bpf_attach_type :: "(string \<times> int) list" where
  "x86_enum_bpf_attach_type =
    [(''BPF_CGROUP_INET_INGRESS'', 0),
     (''BPF_CGROUP_INET_EGRESS'', 1),
     (''BPF_CGROUP_INET_SOCK_CREATE'', 2),
     (''BPF_CGROUP_SOCK_OPS'', 3),
     (''BPF_SK_SKB_STREAM_PARSER'', 4),
     (''BPF_SK_SKB_STREAM_VERDICT'', 5),
     (''BPF_CGROUP_DEVICE'', 6),
     (''BPF_SK_MSG_VERDICT'', 7),
     (''BPF_CGROUP_INET4_BIND'', 8),
     (''BPF_CGROUP_INET6_BIND'', 9),
     (''BPF_CGROUP_INET4_CONNECT'', 10),
     (''BPF_CGROUP_INET6_CONNECT'', 11),
     (''BPF_CGROUP_INET4_POST_BIND'', 12),
     (''BPF_CGROUP_INET6_POST_BIND'', 13),
     (''BPF_CGROUP_UDP4_SENDMSG'', 14),
     (''BPF_CGROUP_UDP6_SENDMSG'', 15),
     (''BPF_LIRC_MODE2'', 16),
     (''BPF_FLOW_DISSECTOR'', 17),
     (''BPF_CGROUP_SYSCTL'', 18),
     (''BPF_CGROUP_UDP4_RECVMSG'', 19),
     (''BPF_CGROUP_UDP6_RECVMSG'', 20),
     (''BPF_CGROUP_GETSOCKOPT'', 21),
     (''BPF_CGROUP_SETSOCKOPT'', 22),
     (''BPF_TRACE_RAW_TP'', 23),
     (''BPF_TRACE_FENTRY'', 24),
     (''BPF_TRACE_FEXIT'', 25),
     (''BPF_MODIFY_RETURN'', 26),
     (''BPF_LSM_MAC'', 27),
     (''BPF_TRACE_ITER'', 28),
     (''BPF_CGROUP_INET4_GETPEERNAME'', 29),
     (''BPF_CGROUP_INET6_GETPEERNAME'', 30),
     (''BPF_CGROUP_INET4_GETSOCKNAME'', 31),
     (''BPF_CGROUP_INET6_GETSOCKNAME'', 32),
     (''BPF_XDP_DEVMAP'', 33),
     (''BPF_CGROUP_INET_SOCK_RELEASE'', 34),
     (''BPF_XDP_CPUMAP'', 35),
     (''BPF_SK_LOOKUP'', 36),
     (''BPF_XDP'', 37),
     (''BPF_SK_SKB_VERDICT'', 38),
     (''BPF_SK_REUSEPORT_SELECT'', 39),
     (''BPF_SK_REUSEPORT_SELECT_OR_MIGRATE'', 40),
     (''BPF_PERF_EVENT'', 41),
     (''BPF_TRACE_KPROBE_MULTI'', 42),
     (''BPF_LSM_CGROUP'', 43),
     (''BPF_STRUCT_OPS'', 44),
     (''BPF_NETFILTER'', 45),
     (''__MAX_BPF_ATTACH_TYPE'', 46)]"

definition x86_enum_bpf_func_id_part1 :: "(string \<times> int) list" where
  "x86_enum_bpf_func_id_part1 =
    [(''BPF_FUNC_unspec'', 0),
     (''BPF_FUNC_map_lookup_elem'', 1),
     (''BPF_FUNC_map_update_elem'', 2),
     (''BPF_FUNC_map_delete_elem'', 3),
     (''BPF_FUNC_probe_read'', 4),
     (''BPF_FUNC_ktime_get_ns'', 5),
     (''BPF_FUNC_trace_printk'', 6),
     (''BPF_FUNC_get_prandom_u32'', 7),
     (''BPF_FUNC_get_smp_processor_id'', 8),
     (''BPF_FUNC_skb_store_bytes'', 9),
     (''BPF_FUNC_l3_csum_replace'', 10),
     (''BPF_FUNC_l4_csum_replace'', 11),
     (''BPF_FUNC_tail_call'', 12),
     (''BPF_FUNC_clone_redirect'', 13),
     (''BPF_FUNC_get_current_pid_tgid'', 14),
     (''BPF_FUNC_get_current_uid_gid'', 15),
     (''BPF_FUNC_get_current_comm'', 16),
     (''BPF_FUNC_get_cgroup_classid'', 17),
     (''BPF_FUNC_skb_vlan_push'', 18),
     (''BPF_FUNC_skb_vlan_pop'', 19),
     (''BPF_FUNC_skb_get_tunnel_key'', 20),
     (''BPF_FUNC_skb_set_tunnel_key'', 21),
     (''BPF_FUNC_perf_event_read'', 22),
     (''BPF_FUNC_redirect'', 23),
     (''BPF_FUNC_get_route_realm'', 24),
     (''BPF_FUNC_perf_event_output'', 25),
     (''BPF_FUNC_skb_load_bytes'', 26),
     (''BPF_FUNC_get_stackid'', 27),
     (''BPF_FUNC_csum_diff'', 28),
     (''BPF_FUNC_skb_get_tunnel_opt'', 29),
     (''BPF_FUNC_skb_set_tunnel_opt'', 30),
     (''BPF_FUNC_skb_change_proto'', 31),
     (''BPF_FUNC_skb_change_type'', 32),
     (''BPF_FUNC_skb_under_cgroup'', 33),
     (''BPF_FUNC_get_hash_recalc'', 34),
     (''BPF_FUNC_get_current_task'', 35),
     (''BPF_FUNC_probe_write_user'', 36),
     (''BPF_FUNC_current_task_under_cgroup'', 37),
     (''BPF_FUNC_skb_change_tail'', 38),
     (''BPF_FUNC_skb_pull_data'', 39),
     (''BPF_FUNC_csum_update'', 40),
     (''BPF_FUNC_set_hash_invalid'', 41),
     (''BPF_FUNC_get_numa_node_id'', 42),
     (''BPF_FUNC_skb_change_head'', 43),
     (''BPF_FUNC_xdp_adjust_head'', 44),
     (''BPF_FUNC_probe_read_str'', 45),
     (''BPF_FUNC_get_socket_cookie'', 46),
     (''BPF_FUNC_get_socket_uid'', 47),
     (''BPF_FUNC_set_hash'', 48),
     (''BPF_FUNC_setsockopt'', 49),
     (''BPF_FUNC_skb_adjust_room'', 50),
     (''BPF_FUNC_redirect_map'', 51),
     (''BPF_FUNC_sk_redirect_map'', 52),
     (''BPF_FUNC_sock_map_update'', 53),
     (''BPF_FUNC_xdp_adjust_meta'', 54),
     (''BPF_FUNC_perf_event_read_value'', 55),
     (''BPF_FUNC_perf_prog_read_value'', 56),
     (''BPF_FUNC_getsockopt'', 57),
     (''BPF_FUNC_override_return'', 58),
     (''BPF_FUNC_sock_ops_cb_flags_set'', 59),
     (''BPF_FUNC_msg_redirect_map'', 60),
     (''BPF_FUNC_msg_apply_bytes'', 61),
     (''BPF_FUNC_msg_cork_bytes'', 62),
     (''BPF_FUNC_msg_pull_data'', 63),
     (''BPF_FUNC_bind'', 64),
     (''BPF_FUNC_xdp_adjust_tail'', 65),
     (''BPF_FUNC_skb_get_xfrm_state'', 66),
     (''BPF_FUNC_get_stack'', 67),
     (''BPF_FUNC_skb_load_bytes_relative'', 68),
     (''BPF_FUNC_fib_lookup'', 69),
     (''BPF_FUNC_sock_hash_update'', 70),
     (''BPF_FUNC_msg_redirect_hash'', 71),
     (''BPF_FUNC_sk_redirect_hash'', 72),
     (''BPF_FUNC_lwt_push_encap'', 73),
     (''BPF_FUNC_lwt_seg6_store_bytes'', 74),
     (''BPF_FUNC_lwt_seg6_adjust_srh'', 75),
     (''BPF_FUNC_lwt_seg6_action'', 76),
     (''BPF_FUNC_rc_repeat'', 77),
     (''BPF_FUNC_rc_keydown'', 78),
     (''BPF_FUNC_skb_cgroup_id'', 79),
     (''BPF_FUNC_get_current_cgroup_id'', 80),
     (''BPF_FUNC_get_local_storage'', 81),
     (''BPF_FUNC_sk_select_reuseport'', 82),
     (''BPF_FUNC_skb_ancestor_cgroup_id'', 83),
     (''BPF_FUNC_sk_lookup_tcp'', 84),
     (''BPF_FUNC_sk_lookup_udp'', 85),
     (''BPF_FUNC_sk_release'', 86),
     (''BPF_FUNC_map_push_elem'', 87),
     (''BPF_FUNC_map_pop_elem'', 88),
     (''BPF_FUNC_map_peek_elem'', 89),
     (''BPF_FUNC_msg_push_data'', 90),
     (''BPF_FUNC_msg_pop_data'', 91),
     (''BPF_FUNC_rc_pointer_rel'', 92),
     (''BPF_FUNC_spin_lock'', 93),
     (''BPF_FUNC_spin_unlock'', 94),
     (''BPF_FUNC_sk_fullsock'', 95),
     (''BPF_FUNC_tcp_sock'', 96),
     (''BPF_FUNC_skb_ecn_set_ce'', 97),
     (''BPF_FUNC_get_listener_sock'', 98),
     (''BPF_FUNC_skc_lookup_tcp'', 99),
     (''BPF_FUNC_tcp_check_syncookie'', 100),
     (''BPF_FUNC_sysctl_get_name'', 101),
     (''BPF_FUNC_sysctl_get_current_value'', 102),
     (''BPF_FUNC_sysctl_get_new_value'', 103),
     (''BPF_FUNC_sysctl_set_new_value'', 104),
     (''BPF_FUNC_strtol'', 105)]"

definition x86_enum_bpf_func_id_part2 :: "(string \<times> int) list" where
  "x86_enum_bpf_func_id_part2 =
    [(''BPF_FUNC_strtoul'', 106),
     (''BPF_FUNC_sk_storage_get'', 107),
     (''BPF_FUNC_sk_storage_delete'', 108),
     (''BPF_FUNC_send_signal'', 109),
     (''BPF_FUNC_tcp_gen_syncookie'', 110),
     (''BPF_FUNC_skb_output'', 111),
     (''BPF_FUNC_probe_read_user'', 112),
     (''BPF_FUNC_probe_read_kernel'', 113),
     (''BPF_FUNC_probe_read_user_str'', 114),
     (''BPF_FUNC_probe_read_kernel_str'', 115),
     (''BPF_FUNC_tcp_send_ack'', 116),
     (''BPF_FUNC_send_signal_thread'', 117),
     (''BPF_FUNC_jiffies64'', 118),
     (''BPF_FUNC_read_branch_records'', 119),
     (''BPF_FUNC_get_ns_current_pid_tgid'', 120),
     (''BPF_FUNC_xdp_output'', 121),
     (''BPF_FUNC_get_netns_cookie'', 122),
     (''BPF_FUNC_get_current_ancestor_cgroup_id'', 123),
     (''BPF_FUNC_sk_assign'', 124),
     (''BPF_FUNC_ktime_get_boot_ns'', 125),
     (''BPF_FUNC_seq_printf'', 126),
     (''BPF_FUNC_seq_write'', 127),
     (''BPF_FUNC_sk_cgroup_id'', 128),
     (''BPF_FUNC_sk_ancestor_cgroup_id'', 129),
     (''BPF_FUNC_ringbuf_output'', 130),
     (''BPF_FUNC_ringbuf_reserve'', 131),
     (''BPF_FUNC_ringbuf_submit'', 132),
     (''BPF_FUNC_ringbuf_discard'', 133),
     (''BPF_FUNC_ringbuf_query'', 134),
     (''BPF_FUNC_csum_level'', 135),
     (''BPF_FUNC_skc_to_tcp6_sock'', 136),
     (''BPF_FUNC_skc_to_tcp_sock'', 137),
     (''BPF_FUNC_skc_to_tcp_timewait_sock'', 138),
     (''BPF_FUNC_skc_to_tcp_request_sock'', 139),
     (''BPF_FUNC_skc_to_udp6_sock'', 140),
     (''BPF_FUNC_get_task_stack'', 141),
     (''BPF_FUNC_load_hdr_opt'', 142),
     (''BPF_FUNC_store_hdr_opt'', 143),
     (''BPF_FUNC_reserve_hdr_opt'', 144),
     (''BPF_FUNC_inode_storage_get'', 145),
     (''BPF_FUNC_inode_storage_delete'', 146),
     (''BPF_FUNC_d_path'', 147),
     (''BPF_FUNC_copy_from_user'', 148),
     (''BPF_FUNC_snprintf_btf'', 149),
     (''BPF_FUNC_seq_printf_btf'', 150),
     (''BPF_FUNC_skb_cgroup_classid'', 151),
     (''BPF_FUNC_redirect_neigh'', 152),
     (''BPF_FUNC_per_cpu_ptr'', 153),
     (''BPF_FUNC_this_cpu_ptr'', 154),
     (''BPF_FUNC_redirect_peer'', 155),
     (''BPF_FUNC_task_storage_get'', 156),
     (''BPF_FUNC_task_storage_delete'', 157),
     (''BPF_FUNC_get_current_task_btf'', 158),
     (''BPF_FUNC_bprm_opts_set'', 159),
     (''BPF_FUNC_ktime_get_coarse_ns'', 160),
     (''BPF_FUNC_ima_inode_hash'', 161),
     (''BPF_FUNC_sock_from_file'', 162),
     (''BPF_FUNC_check_mtu'', 163),
     (''BPF_FUNC_for_each_map_elem'', 164),
     (''BPF_FUNC_snprintf'', 165),
     (''BPF_FUNC_sys_bpf'', 166),
     (''BPF_FUNC_btf_find_by_name_kind'', 167),
     (''BPF_FUNC_sys_close'', 168),
     (''BPF_FUNC_timer_init'', 169),
     (''BPF_FUNC_timer_set_callback'', 170),
     (''BPF_FUNC_timer_start'', 171),
     (''BPF_FUNC_timer_cancel'', 172),
     (''BPF_FUNC_get_func_ip'', 173),
     (''BPF_FUNC_get_attach_cookie'', 174),
     (''BPF_FUNC_task_pt_regs'', 175),
     (''BPF_FUNC_get_branch_snapshot'', 176),
     (''BPF_FUNC_trace_vprintk'', 177),
     (''BPF_FUNC_skc_to_unix_sock'', 178),
     (''BPF_FUNC_kallsyms_lookup_name'', 179),
     (''BPF_FUNC_find_vma'', 180),
     (''BPF_FUNC_loop'', 181),
     (''BPF_FUNC_strncmp'', 182),
     (''BPF_FUNC_get_func_arg'', 183),
     (''BPF_FUNC_get_func_ret'', 184),
     (''BPF_FUNC_get_func_arg_cnt'', 185),
     (''BPF_FUNC_get_retval'', 186),
     (''BPF_FUNC_set_retval'', 187),
     (''BPF_FUNC_xdp_get_buff_len'', 188),
     (''BPF_FUNC_xdp_load_bytes'', 189),
     (''BPF_FUNC_xdp_store_bytes'', 190),
     (''BPF_FUNC_copy_from_user_task'', 191),
     (''BPF_FUNC_skb_set_tstamp'', 192),
     (''BPF_FUNC_ima_file_hash'', 193),
     (''BPF_FUNC_kptr_xchg'', 194),
     (''BPF_FUNC_map_lookup_percpu_elem'', 195),
     (''BPF_FUNC_skc_to_mptcp_sock'', 196),
     (''BPF_FUNC_dynptr_from_mem'', 197),
     (''BPF_FUNC_ringbuf_reserve_dynptr'', 198),
     (''BPF_FUNC_ringbuf_submit_dynptr'', 199),
     (''BPF_FUNC_ringbuf_discard_dynptr'', 200),
     (''BPF_FUNC_dynptr_read'', 201),
     (''BPF_FUNC_dynptr_write'', 202),
     (''BPF_FUNC_dynptr_data'', 203),
     (''BPF_FUNC_tcp_raw_gen_syncookie_ipv4'', 204),
     (''BPF_FUNC_tcp_raw_gen_syncookie_ipv6'', 205),
     (''BPF_FUNC_tcp_raw_check_syncookie_ipv4'', 206),
     (''BPF_FUNC_tcp_raw_check_syncookie_ipv6'', 207),
     (''BPF_FUNC_ktime_get_tai_ns'', 208),
     (''BPF_FUNC_user_ringbuf_drain'', 209),
     (''BPF_FUNC_cgrp_storage_get'', 210),
     (''BPF_FUNC_cgrp_storage_delete'', 211),
     (''__BPF_FUNC_MAX_ID'', 212)]"

definition x86_enum_bpf_func_id :: "(string \<times> int) list" where
  "x86_enum_bpf_func_id = x86_enum_bpf_func_id_part1 @ x86_enum_bpf_func_id_part2"

section \<open>Flags of the map operations\<close>

definition x86_enum_map_flags :: "(string \<times> int) list" where
  "x86_enum_map_flags =
    [(''BPF_F_NO_PREALLOC'', 1),
     (''BPF_F_NO_COMMON_LRU'', 2),
     (''BPF_F_NUMA_NODE'', 4),
     (''BPF_F_RDONLY'', 8),
     (''BPF_F_WRONLY'', 16),
     (''BPF_F_STACK_BUILD_ID'', 32),
     (''BPF_F_ZERO_SEED'', 64),
     (''BPF_F_RDONLY_PROG'', 128),
     (''BPF_F_WRONLY_PROG'', 256),
     (''BPF_F_CLONE'', 512),
     (''BPF_F_MMAPABLE'', 1024),
     (''BPF_F_PRESERVE_ELEMS'', 2048),
     (''BPF_F_INNER_MAP'', 4096),
     (''BPF_F_LINK'', 8192)]"

definition x86_enum_update_flags :: "(string \<times> int) list" where
  "x86_enum_update_flags =
    [(''BPF_ANY'', 0),
     (''BPF_NOEXIST'', 1),
     (''BPF_EXIST'', 2),
     (''BPF_F_LOCK'', 4)]"

definition x86_enum_output_flags :: "(string \<times> int) list" where
  "x86_enum_output_flags =
    [(''BPF_F_INDEX_MASK'', 4294967295),
     (''BPF_F_CURRENT_CPU'', 4294967295),
     (''BPF_F_CTXLEN_MASK'', 4503595332403200)]"

end
