(* ===== verification/Vmlinux_Arm64.thy ===== *)
theory Vmlinux_Arm64
  imports C_Layout
begin

text \<open>
  The kernel type declarations of src/src/bpf/vmlinux\_arm64.h that the BPF programs depend on:
  \<open>struct task_struct\<close>, the namespace and pid structures they chase from it, the saved
  registers and the program contexts, each closed under the types they embed by value; and the
  \<open>bpf\<close> enumerations that feature detection and the map declarations refer to.
  A struct, union or typedef is a \<open>ctype\<close> with the members in declaration order; an enumeration
  is the list of its enumerators. Each type is followed by its computed size and alignment.
\<close>

definition arm64___u64 :: ctype where
  "arm64___u64 =
    c_long"

lemma arm64___u64_layout [vmlinux_layout]: "csize arm64___u64 = 8" "calign arm64___u64 = 8"
  by (simp_all add: arm64___u64_def layout_eval vmlinux_layout)

definition arm64_user_pt_regs :: ctype where
  "arm64_user_pt_regs =
    CStruct [CField ''regs'' (CArray 31 arm64___u64),
      CField ''sp'' arm64___u64,
      CField ''pc'' arm64___u64,
      CField ''pstate'' arm64___u64]"

lemma arm64_user_pt_regs_layout [vmlinux_layout]: "csize arm64_user_pt_regs = 272" "calign arm64_user_pt_regs = 8"
  by (simp_all add: arm64_user_pt_regs_def layout_eval vmlinux_layout)

definition arm64_u64 :: ctype where
  "arm64_u64 =
    arm64___u64"

lemma arm64_u64_layout [vmlinux_layout]: "csize arm64_u64 = 8" "calign arm64_u64 = 8"
  by (simp_all add: arm64_u64_def layout_eval vmlinux_layout)

definition arm64___s32 :: ctype where
  "arm64___s32 =
    c_int"

lemma arm64___s32_layout [vmlinux_layout]: "csize arm64___s32 = 4" "calign arm64___s32 = 4"
  by (simp_all add: arm64___s32_def layout_eval vmlinux_layout)

definition arm64_s32 :: ctype where
  "arm64_s32 =
    arm64___s32"

lemma arm64_s32_layout [vmlinux_layout]: "csize arm64_s32 = 4" "calign arm64_s32 = 4"
  by (simp_all add: arm64_s32_def layout_eval vmlinux_layout)

definition arm64___u32 :: ctype where
  "arm64___u32 =
    c_int"

lemma arm64___u32_layout [vmlinux_layout]: "csize arm64___u32 = 4" "calign arm64___u32 = 4"
  by (simp_all add: arm64___u32_def layout_eval vmlinux_layout)

definition arm64_u32 :: ctype where
  "arm64_u32 =
    arm64___u32"

lemma arm64_u32_layout [vmlinux_layout]: "csize arm64_u32 = 4" "calign arm64_u32 = 4"
  by (simp_all add: arm64_u32_def layout_eval vmlinux_layout)

definition arm64_pt_regs :: ctype where
  "arm64_pt_regs =
    CStruct [CField '''' (CUnion [CField ''user_regs'' arm64_user_pt_regs,
       CField '''' (CStruct [CField ''regs'' (CArray 31 arm64_u64),
       CField ''sp'' arm64_u64,
       CField ''pc'' arm64_u64,
       CField ''pstate'' arm64_u64])]),
      CField ''orig_x0'' arm64_u64,
      CField ''syscallno'' arm64_s32,
      CField ''unused2'' arm64_u32,
      CField ''sdei_ttbr1'' arm64_u64,
      CField ''pmr_save'' arm64_u64,
      CField ''stackframe'' (CArray 2 arm64_u64),
      CField ''lockdep_hardirqs'' arm64_u64,
      CField ''exit_rcu'' arm64_u64]"

lemma arm64_pt_regs_layout [vmlinux_layout]: "csize arm64_pt_regs = 336" "calign arm64_pt_regs = 8"
  by (simp_all add: arm64_pt_regs_def layout_eval vmlinux_layout)

definition arm64_thread_info :: ctype where
  "arm64_thread_info =
    CStruct [CField ''flags'' c_long,
      CField '''' (CUnion [CField ''preempt_count'' arm64_u64,
       CField ''preempt'' (CStruct [CField ''count'' arm64_u32,
       CField ''need_resched'' arm64_u32])]),
      CField ''cpu'' arm64_u32]"

lemma arm64_thread_info_layout [vmlinux_layout]: "csize arm64_thread_info = 24" "calign arm64_thread_info = 8"
  by (simp_all add: arm64_thread_info_def layout_eval vmlinux_layout)

definition arm64_atomic_t :: ctype where
  "arm64_atomic_t =
    CStruct [CField ''counter'' c_int]"

lemma arm64_atomic_t_layout [vmlinux_layout]: "csize arm64_atomic_t = 4" "calign arm64_atomic_t = 4"
  by (simp_all add: arm64_atomic_t_def layout_eval vmlinux_layout)

definition arm64_refcount_struct :: ctype where
  "arm64_refcount_struct =
    CStruct [CField ''refs'' arm64_atomic_t]"

lemma arm64_refcount_struct_layout [vmlinux_layout]: "csize arm64_refcount_struct = 4" "calign arm64_refcount_struct = 4"
  by (simp_all add: arm64_refcount_struct_def layout_eval vmlinux_layout)

definition arm64_refcount_t :: ctype where
  "arm64_refcount_t =
    arm64_refcount_struct"

lemma arm64_refcount_t_layout [vmlinux_layout]: "csize arm64_refcount_t = 4" "calign arm64_refcount_t = 4"
  by (simp_all add: arm64_refcount_t_def layout_eval vmlinux_layout)

definition arm64_llist_node :: ctype where
  "arm64_llist_node =
    CStruct [CField ''next'' c_ptr]"

lemma arm64_llist_node_layout [vmlinux_layout]: "csize arm64_llist_node = 8" "calign arm64_llist_node = 8"
  by (simp_all add: arm64_llist_node_def layout_eval vmlinux_layout)

definition arm64___u16 :: ctype where
  "arm64___u16 =
    c_short"

lemma arm64___u16_layout [vmlinux_layout]: "csize arm64___u16 = 2" "calign arm64___u16 = 2"
  by (simp_all add: arm64___u16_def layout_eval vmlinux_layout)

definition arm64_u16 :: ctype where
  "arm64_u16 =
    arm64___u16"

lemma arm64_u16_layout [vmlinux_layout]: "csize arm64_u16 = 2" "calign arm64_u16 = 2"
  by (simp_all add: arm64_u16_def layout_eval vmlinux_layout)

definition arm64___call_single_node :: ctype where
  "arm64___call_single_node =
    CStruct [CField ''llist'' arm64_llist_node,
      CField '''' (CUnion [CField ''u_flags'' c_int,
       CField ''a_flags'' arm64_atomic_t]),
      CField ''src'' arm64_u16,
      CField ''dst'' arm64_u16]"

lemma arm64___call_single_node_layout [vmlinux_layout]: "csize arm64___call_single_node = 16" "calign arm64___call_single_node = 8"
  by (simp_all add: arm64___call_single_node_def layout_eval vmlinux_layout)

definition arm64_load_weight :: ctype where
  "arm64_load_weight =
    CStruct [CField ''weight'' c_long,
      CField ''inv_weight'' arm64_u32]"

lemma arm64_load_weight_layout [vmlinux_layout]: "csize arm64_load_weight = 16" "calign arm64_load_weight = 8"
  by (simp_all add: arm64_load_weight_def layout_eval vmlinux_layout)

definition arm64_rb_node :: ctype where
  "arm64_rb_node =
    CStruct [CField ''__rb_parent_color'' c_long,
      CField ''rb_right'' c_ptr,
      CField ''rb_left'' c_ptr]"

lemma arm64_rb_node_layout [vmlinux_layout]: "csize arm64_rb_node = 24" "calign arm64_rb_node = 8"
  by (simp_all add: arm64_rb_node_def layout_eval vmlinux_layout)

definition arm64_list_head :: ctype where
  "arm64_list_head =
    CStruct [CField ''next'' c_ptr,
      CField ''prev'' c_ptr]"

lemma arm64_list_head_layout [vmlinux_layout]: "csize arm64_list_head = 16" "calign arm64_list_head = 8"
  by (simp_all add: arm64_list_head_def layout_eval vmlinux_layout)

definition arm64_util_est :: ctype where
  "arm64_util_est =
    CStruct [CField ''enqueued'' c_int,
      CField ''ewma'' c_int]"

lemma arm64_util_est_layout [vmlinux_layout]: "csize arm64_util_est = 8" "calign arm64_util_est = 4"
  by (simp_all add: arm64_util_est_def layout_eval vmlinux_layout)

definition arm64_sched_avg :: ctype where
  "arm64_sched_avg =
    CStruct [CField ''last_update_time'' arm64_u64,
      CField ''load_sum'' arm64_u64,
      CField ''runnable_sum'' arm64_u64,
      CField ''util_sum'' arm64_u32,
      CField ''period_contrib'' arm64_u32,
      CField ''load_avg'' c_long,
      CField ''runnable_avg'' c_long,
      CField ''util_avg'' c_long,
      CField ''util_est'' arm64_util_est]"

lemma arm64_sched_avg_layout [vmlinux_layout]: "csize arm64_sched_avg = 64" "calign arm64_sched_avg = 8"
  by (simp_all add: arm64_sched_avg_def layout_eval vmlinux_layout)

definition arm64_sched_entity :: ctype where
  "arm64_sched_entity =
    CStruct [CField ''load'' arm64_load_weight,
      CField ''run_node'' arm64_rb_node,
      CField ''group_node'' arm64_list_head,
      CField ''on_rq'' c_int,
      CField ''exec_start'' arm64_u64,
      CField ''sum_exec_runtime'' arm64_u64,
      CField ''vruntime'' arm64_u64,
      CField ''prev_sum_exec_runtime'' arm64_u64,
      CField ''nr_migrations'' arm64_u64,
      CBits '''' 8 64,
      CBits '''' 8 64,
      CBits '''' 8 64,
      CField ''avg'' arm64_sched_avg]"

lemma arm64_sched_entity_layout [vmlinux_layout]: "csize arm64_sched_entity = 192" "calign arm64_sched_entity = 8"
  by (simp_all add: arm64_sched_entity_def layout_eval vmlinux_layout)

definition arm64_sched_rt_entity :: ctype where
  "arm64_sched_rt_entity =
    CStruct [CField ''run_list'' arm64_list_head,
      CField ''timeout'' c_long,
      CField ''watchdog_stamp'' c_long,
      CField ''time_slice'' c_int,
      CField ''on_rq'' c_short,
      CField ''on_list'' c_short,
      CField ''back'' c_ptr]"

lemma arm64_sched_rt_entity_layout [vmlinux_layout]: "csize arm64_sched_rt_entity = 48" "calign arm64_sched_rt_entity = 8"
  by (simp_all add: arm64_sched_rt_entity_def layout_eval vmlinux_layout)

definition arm64___s64 :: ctype where
  "arm64___s64 =
    c_long"

lemma arm64___s64_layout [vmlinux_layout]: "csize arm64___s64 = 8" "calign arm64___s64 = 8"
  by (simp_all add: arm64___s64_def layout_eval vmlinux_layout)

definition arm64_s64 :: ctype where
  "arm64_s64 =
    arm64___s64"

lemma arm64_s64_layout [vmlinux_layout]: "csize arm64_s64 = 8" "calign arm64_s64 = 8"
  by (simp_all add: arm64_s64_def layout_eval vmlinux_layout)

definition arm64_ktime_t :: ctype where
  "arm64_ktime_t =
    arm64_s64"

lemma arm64_ktime_t_layout [vmlinux_layout]: "csize arm64_ktime_t = 8" "calign arm64_ktime_t = 8"
  by (simp_all add: arm64_ktime_t_def layout_eval vmlinux_layout)

definition arm64_timerqueue_node :: ctype where
  "arm64_timerqueue_node =
    CStruct [CField ''node'' arm64_rb_node,
      CField ''expires'' arm64_ktime_t]"

lemma arm64_timerqueue_node_layout [vmlinux_layout]: "csize arm64_timerqueue_node = 32" "calign arm64_timerqueue_node = 8"
  by (simp_all add: arm64_timerqueue_node_def layout_eval vmlinux_layout)

definition arm64___u8 :: ctype where
  "arm64___u8 =
    c_char"

lemma arm64___u8_layout [vmlinux_layout]: "csize arm64___u8 = 1" "calign arm64___u8 = 1"
  by (simp_all add: arm64___u8_def layout_eval vmlinux_layout)

definition arm64_u8 :: ctype where
  "arm64_u8 =
    arm64___u8"

lemma arm64_u8_layout [vmlinux_layout]: "csize arm64_u8 = 1" "calign arm64_u8 = 1"
  by (simp_all add: arm64_u8_def layout_eval vmlinux_layout)

definition arm64_hrtimer :: ctype where
  "arm64_hrtimer =
    CStruct [CField ''node'' arm64_timerqueue_node,
      CField ''_softexpires'' arm64_ktime_t,
      CField ''function'' c_ptr,
      CField ''base'' c_ptr,
      CField ''state'' arm64_u8,
      CField ''is_rel'' arm64_u8,
      CField ''is_soft'' arm64_u8,
      CField ''is_hard'' arm64_u8]"

lemma arm64_hrtimer_layout [vmlinux_layout]: "csize arm64_hrtimer = 64" "calign arm64_hrtimer = 8"
  by (simp_all add: arm64_hrtimer_def layout_eval vmlinux_layout)

definition arm64_sched_dl_entity :: ctype where
  "arm64_sched_dl_entity =
    CStruct [CField ''rb_node'' arm64_rb_node,
      CField ''dl_runtime'' arm64_u64,
      CField ''dl_deadline'' arm64_u64,
      CField ''dl_period'' arm64_u64,
      CField ''dl_bw'' arm64_u64,
      CField ''dl_density'' arm64_u64,
      CField ''runtime'' arm64_s64,
      CField ''deadline'' arm64_u64,
      CField ''flags'' c_int,
      CBits ''dl_throttled'' 4 1,
      CBits ''dl_yielded'' 4 1,
      CBits ''dl_non_contending'' 4 1,
      CBits ''dl_overrun'' 4 1,
      CField ''dl_timer'' arm64_hrtimer,
      CField ''inactive_timer'' arm64_hrtimer]"

lemma arm64_sched_dl_entity_layout [vmlinux_layout]: "csize arm64_sched_dl_entity = 216" "calign arm64_sched_dl_entity = 8"
  by (simp_all add: arm64_sched_dl_entity_def layout_eval vmlinux_layout)

definition arm64_sched_statistics :: ctype where
  "arm64_sched_statistics =
    CStruct []"

lemma arm64_sched_statistics_layout [vmlinux_layout]: "csize arm64_sched_statistics = 0" "calign arm64_sched_statistics = 1"
  by (simp_all add: arm64_sched_statistics_def layout_eval vmlinux_layout)

definition arm64_cpumask :: ctype where
  "arm64_cpumask =
    CStruct [CField ''bits'' (CArray 4 c_long)]"

lemma arm64_cpumask_layout [vmlinux_layout]: "csize arm64_cpumask = 32" "calign arm64_cpumask = 8"
  by (simp_all add: arm64_cpumask_def layout_eval vmlinux_layout)

definition arm64_cpumask_t :: ctype where
  "arm64_cpumask_t =
    arm64_cpumask"

lemma arm64_cpumask_t_layout [vmlinux_layout]: "csize arm64_cpumask_t = 32" "calign arm64_cpumask_t = 8"
  by (simp_all add: arm64_cpumask_t_def layout_eval vmlinux_layout)

definition arm64_rcu_special :: ctype where
  "arm64_rcu_special =
    CUnion [CField ''b'' (CStruct [CField ''blocked'' arm64_u8,
       CField ''need_qs'' arm64_u8,
       CField ''exp_hint'' arm64_u8,
       CField ''need_mb'' arm64_u8]),
      CField ''s'' arm64_u32]"

lemma arm64_rcu_special_layout [vmlinux_layout]: "csize arm64_rcu_special = 4" "calign arm64_rcu_special = 4"
  by (simp_all add: arm64_rcu_special_def layout_eval vmlinux_layout)

definition arm64_sched_info :: ctype where
  "arm64_sched_info =
    CStruct []"

lemma arm64_sched_info_layout [vmlinux_layout]: "csize arm64_sched_info = 0" "calign arm64_sched_info = 1"
  by (simp_all add: arm64_sched_info_def layout_eval vmlinux_layout)

definition arm64_plist_node :: ctype where
  "arm64_plist_node =
    CStruct [CField ''prio'' c_int,
      CField ''prio_list'' arm64_list_head,
      CField ''node_list'' arm64_list_head]"

lemma arm64_plist_node_layout [vmlinux_layout]: "csize arm64_plist_node = 40" "calign arm64_plist_node = 8"
  by (simp_all add: arm64_plist_node_def layout_eval vmlinux_layout)

definition arm64___kernel_clockid_t :: ctype where
  "arm64___kernel_clockid_t =
    c_int"

lemma arm64___kernel_clockid_t_layout [vmlinux_layout]: "csize arm64___kernel_clockid_t = 4" "calign arm64___kernel_clockid_t = 4"
  by (simp_all add: arm64___kernel_clockid_t_def layout_eval vmlinux_layout)

definition arm64_clockid_t :: ctype where
  "arm64_clockid_t =
    arm64___kernel_clockid_t"

lemma arm64_clockid_t_layout [vmlinux_layout]: "csize arm64_clockid_t = 4" "calign arm64_clockid_t = 4"
  by (simp_all add: arm64_clockid_t_def layout_eval vmlinux_layout)

definition arm64_enum_timespec_type :: "(string \<times> int) list" where
  "arm64_enum_timespec_type =
    [(''TT_NONE'', 0),
     (''TT_NATIVE'', 1),
     (''TT_COMPAT'', 2)]"

definition arm64_restart_block :: ctype where
  "arm64_restart_block =
    CStruct [CField ''arch_data'' c_long,
      CField ''fn'' c_ptr,
      CField '''' (CUnion [CField ''futex'' (CStruct [CField ''uaddr'' c_ptr,
       CField ''val'' arm64_u32,
       CField ''flags'' arm64_u32,
       CField ''bitset'' arm64_u32,
       CField ''time'' arm64_u64,
       CField ''uaddr2'' c_ptr]),
       CField ''nanosleep'' (CStruct [CField ''clockid'' arm64_clockid_t,
       CField ''type'' c_enum,
       CField '''' (CUnion [CField ''rmtp'' c_ptr,
       CField ''compat_rmtp'' c_ptr]),
       CField ''expires'' arm64_u64]),
       CField ''poll'' (CStruct [CField ''ufds'' c_ptr,
       CField ''nfds'' c_int,
       CField ''has_timeout'' c_int,
       CField ''tv_sec'' c_long,
       CField ''tv_nsec'' c_long])])]"

lemma arm64_restart_block_layout [vmlinux_layout]: "csize arm64_restart_block = 56" "calign arm64_restart_block = 8"
  by (simp_all add: arm64_restart_block_def layout_eval vmlinux_layout)

definition arm64___kernel_pid_t :: ctype where
  "arm64___kernel_pid_t =
    c_int"

lemma arm64___kernel_pid_t_layout [vmlinux_layout]: "csize arm64___kernel_pid_t = 4" "calign arm64___kernel_pid_t = 4"
  by (simp_all add: arm64___kernel_pid_t_def layout_eval vmlinux_layout)

definition arm64_pid_t :: ctype where
  "arm64_pid_t =
    arm64___kernel_pid_t"

lemma arm64_pid_t_layout [vmlinux_layout]: "csize arm64_pid_t = 4" "calign arm64_pid_t = 4"
  by (simp_all add: arm64_pid_t_def layout_eval vmlinux_layout)

definition arm64_hlist_node :: ctype where
  "arm64_hlist_node =
    CStruct [CField ''next'' c_ptr,
      CField ''pprev'' c_ptr]"

lemma arm64_hlist_node_layout [vmlinux_layout]: "csize arm64_hlist_node = 16" "calign arm64_hlist_node = 8"
  by (simp_all add: arm64_hlist_node_def layout_eval vmlinux_layout)

definition arm64_qspinlock :: ctype where
  "arm64_qspinlock =
    CStruct [CField '''' (CUnion [CField ''val'' arm64_atomic_t,
       CField '''' (CStruct [CField ''locked'' arm64_u8,
       CField ''pending'' arm64_u8]),
       CField '''' (CStruct [CField ''locked_pending'' arm64_u16,
       CField ''tail'' arm64_u16])])]"

lemma arm64_qspinlock_layout [vmlinux_layout]: "csize arm64_qspinlock = 4" "calign arm64_qspinlock = 4"
  by (simp_all add: arm64_qspinlock_def layout_eval vmlinux_layout)

definition arm64_arch_spinlock_t :: ctype where
  "arm64_arch_spinlock_t =
    arm64_qspinlock"

lemma arm64_arch_spinlock_t_layout [vmlinux_layout]: "csize arm64_arch_spinlock_t = 4" "calign arm64_arch_spinlock_t = 4"
  by (simp_all add: arm64_arch_spinlock_t_def layout_eval vmlinux_layout)

definition arm64_raw_spinlock :: ctype where
  "arm64_raw_spinlock =
    CStruct [CField ''raw_lock'' arm64_arch_spinlock_t]"

lemma arm64_raw_spinlock_layout [vmlinux_layout]: "csize arm64_raw_spinlock = 4" "calign arm64_raw_spinlock = 4"
  by (simp_all add: arm64_raw_spinlock_def layout_eval vmlinux_layout)

definition arm64_raw_spinlock_t :: ctype where
  "arm64_raw_spinlock_t =
    arm64_raw_spinlock"

lemma arm64_raw_spinlock_t_layout [vmlinux_layout]: "csize arm64_raw_spinlock_t = 4" "calign arm64_raw_spinlock_t = 4"
  by (simp_all add: arm64_raw_spinlock_t_def layout_eval vmlinux_layout)

definition arm64_prev_cputime :: ctype where
  "arm64_prev_cputime =
    CStruct [CField ''utime'' arm64_u64,
      CField ''stime'' arm64_u64,
      CField ''lock'' arm64_raw_spinlock_t]"

lemma arm64_prev_cputime_layout [vmlinux_layout]: "csize arm64_prev_cputime = 24" "calign arm64_prev_cputime = 8"
  by (simp_all add: arm64_prev_cputime_def layout_eval vmlinux_layout)

definition arm64_posix_cputimers :: ctype where
  "arm64_posix_cputimers =
    CStruct []"

lemma arm64_posix_cputimers_layout [vmlinux_layout]: "csize arm64_posix_cputimers = 0" "calign arm64_posix_cputimers = 1"
  by (simp_all add: arm64_posix_cputimers_def layout_eval vmlinux_layout)

definition arm64_sigset_t :: ctype where
  "arm64_sigset_t =
    CStruct [CField ''sig'' (CArray 1 c_long)]"

lemma arm64_sigset_t_layout [vmlinux_layout]: "csize arm64_sigset_t = 8" "calign arm64_sigset_t = 8"
  by (simp_all add: arm64_sigset_t_def layout_eval vmlinux_layout)

definition arm64_sigpending :: ctype where
  "arm64_sigpending =
    CStruct [CField ''list'' arm64_list_head,
      CField ''signal'' arm64_sigset_t]"

lemma arm64_sigpending_layout [vmlinux_layout]: "csize arm64_sigpending = 24" "calign arm64_sigpending = 8"
  by (simp_all add: arm64_sigpending_def layout_eval vmlinux_layout)

definition arm64___kernel_ulong_t :: ctype where
  "arm64___kernel_ulong_t =
    c_long"

lemma arm64___kernel_ulong_t_layout [vmlinux_layout]: "csize arm64___kernel_ulong_t = 8" "calign arm64___kernel_ulong_t = 8"
  by (simp_all add: arm64___kernel_ulong_t_def layout_eval vmlinux_layout)

definition arm64___kernel_size_t :: ctype where
  "arm64___kernel_size_t =
    arm64___kernel_ulong_t"

lemma arm64___kernel_size_t_layout [vmlinux_layout]: "csize arm64___kernel_size_t = 8" "calign arm64___kernel_size_t = 8"
  by (simp_all add: arm64___kernel_size_t_def layout_eval vmlinux_layout)

definition arm64_size_t :: ctype where
  "arm64_size_t =
    arm64___kernel_size_t"

lemma arm64_size_t_layout [vmlinux_layout]: "csize arm64_size_t = 8" "calign arm64_size_t = 8"
  by (simp_all add: arm64_size_t_def layout_eval vmlinux_layout)

definition arm64_seccomp :: ctype where
  "arm64_seccomp =
    CStruct []"

lemma arm64_seccomp_layout [vmlinux_layout]: "csize arm64_seccomp = 0" "calign arm64_seccomp = 1"
  by (simp_all add: arm64_seccomp_def layout_eval vmlinux_layout)

definition arm64_syscall_user_dispatch :: ctype where
  "arm64_syscall_user_dispatch =
    CStruct []"

lemma arm64_syscall_user_dispatch_layout [vmlinux_layout]: "csize arm64_syscall_user_dispatch = 0" "calign arm64_syscall_user_dispatch = 1"
  by (simp_all add: arm64_syscall_user_dispatch_def layout_eval vmlinux_layout)

definition arm64_spinlock :: ctype where
  "arm64_spinlock =
    CStruct [CField '''' (CUnion [CField ''rlock'' arm64_raw_spinlock])]"

lemma arm64_spinlock_layout [vmlinux_layout]: "csize arm64_spinlock = 4" "calign arm64_spinlock = 4"
  by (simp_all add: arm64_spinlock_def layout_eval vmlinux_layout)

definition arm64_spinlock_t :: ctype where
  "arm64_spinlock_t =
    arm64_spinlock"

lemma arm64_spinlock_t_layout [vmlinux_layout]: "csize arm64_spinlock_t = 4" "calign arm64_spinlock_t = 4"
  by (simp_all add: arm64_spinlock_t_def layout_eval vmlinux_layout)

definition arm64_wake_q_node :: ctype where
  "arm64_wake_q_node =
    CStruct [CField ''next'' c_ptr]"

lemma arm64_wake_q_node_layout [vmlinux_layout]: "csize arm64_wake_q_node = 8" "calign arm64_wake_q_node = 8"
  by (simp_all add: arm64_wake_q_node_def layout_eval vmlinux_layout)

definition arm64_task_io_accounting :: ctype where
  "arm64_task_io_accounting =
    CStruct []"

lemma arm64_task_io_accounting_layout [vmlinux_layout]: "csize arm64_task_io_accounting = 0" "calign arm64_task_io_accounting = 1"
  by (simp_all add: arm64_task_io_accounting_def layout_eval vmlinux_layout)

definition arm64_atomic64_t :: ctype where
  "arm64_atomic64_t =
    CStruct [CField ''counter'' arm64_s64]"

lemma arm64_atomic64_t_layout [vmlinux_layout]: "csize arm64_atomic64_t = 8" "calign arm64_atomic64_t = 8"
  by (simp_all add: arm64_atomic64_t_def layout_eval vmlinux_layout)

definition arm64_atomic_long_t :: ctype where
  "arm64_atomic_long_t =
    arm64_atomic64_t"

lemma arm64_atomic_long_t_layout [vmlinux_layout]: "csize arm64_atomic_long_t = 8" "calign arm64_atomic_long_t = 8"
  by (simp_all add: arm64_atomic_long_t_def layout_eval vmlinux_layout)

definition arm64_optimistic_spin_queue :: ctype where
  "arm64_optimistic_spin_queue =
    CStruct [CField ''tail'' arm64_atomic_t]"

lemma arm64_optimistic_spin_queue_layout [vmlinux_layout]: "csize arm64_optimistic_spin_queue = 4" "calign arm64_optimistic_spin_queue = 4"
  by (simp_all add: arm64_optimistic_spin_queue_def layout_eval vmlinux_layout)

definition arm64_mutex :: ctype where
  "arm64_mutex =
    CStruct [CField ''owner'' arm64_atomic_long_t,
      CField ''wait_lock'' arm64_raw_spinlock_t,
      CField ''osq'' arm64_optimistic_spin_queue,
      CField ''wait_list'' arm64_list_head]"

lemma arm64_mutex_layout [vmlinux_layout]: "csize arm64_mutex = 32" "calign arm64_mutex = 8"
  by (simp_all add: arm64_mutex_def layout_eval vmlinux_layout)

definition arm64_tlbflush_unmap_batch :: ctype where
  "arm64_tlbflush_unmap_batch =
    CStruct []"

lemma arm64_tlbflush_unmap_batch_layout [vmlinux_layout]: "csize arm64_tlbflush_unmap_batch = 0" "calign arm64_tlbflush_unmap_batch = 1"
  by (simp_all add: arm64_tlbflush_unmap_batch_def layout_eval vmlinux_layout)

definition arm64_page_frag :: ctype where
  "arm64_page_frag =
    CStruct [CField ''page'' c_ptr,
      CField ''offset'' arm64___u32,
      CField ''size'' arm64___u32]"

lemma arm64_page_frag_layout [vmlinux_layout]: "csize arm64_page_frag = 16" "calign arm64_page_frag = 8"
  by (simp_all add: arm64_page_frag_def layout_eval vmlinux_layout)

definition arm64_kmap_ctrl :: ctype where
  "arm64_kmap_ctrl =
    CStruct []"

lemma arm64_kmap_ctrl_layout [vmlinux_layout]: "csize arm64_kmap_ctrl = 0" "calign arm64_kmap_ctrl = 1"
  by (simp_all add: arm64_kmap_ctrl_def layout_eval vmlinux_layout)

definition arm64_callback_head :: ctype where
  "arm64_callback_head =
    CStruct [CField ''next'' c_ptr,
      CField ''func'' c_ptr]"

lemma arm64_callback_head_layout [vmlinux_layout]: "csize arm64_callback_head = 16" "calign arm64_callback_head = 8"
  by (simp_all add: arm64_callback_head_def layout_eval vmlinux_layout)

definition arm64_timer_list :: ctype where
  "arm64_timer_list =
    CStruct [CField ''entry'' arm64_hlist_node,
      CField ''expires'' c_long,
      CField ''function'' c_ptr,
      CField ''flags'' arm64_u32]"

lemma arm64_timer_list_layout [vmlinux_layout]: "csize arm64_timer_list = 40" "calign arm64_timer_list = 8"
  by (simp_all add: arm64_timer_list_def layout_eval vmlinux_layout)

definition arm64_llist_head :: ctype where
  "arm64_llist_head =
    CStruct [CField ''first'' c_ptr]"

lemma arm64_llist_head_layout [vmlinux_layout]: "csize arm64_llist_head = 8" "calign arm64_llist_head = 8"
  by (simp_all add: arm64_llist_head_def layout_eval vmlinux_layout)

definition arm64_cpu_context :: ctype where
  "arm64_cpu_context =
    CStruct [CField ''x19'' c_long,
      CField ''x20'' c_long,
      CField ''x21'' c_long,
      CField ''x22'' c_long,
      CField ''x23'' c_long,
      CField ''x24'' c_long,
      CField ''x25'' c_long,
      CField ''x26'' c_long,
      CField ''x27'' c_long,
      CField ''x28'' c_long,
      CField ''fp'' c_long,
      CField ''sp'' c_long,
      CField ''pc'' c_long]"

lemma arm64_cpu_context_layout [vmlinux_layout]: "csize arm64_cpu_context = 104" "calign arm64_cpu_context = 8"
  by (simp_all add: arm64_cpu_context_def layout_eval vmlinux_layout)

definition arm64_user_fpsimd_state :: ctype where
  "arm64_user_fpsimd_state =
    CStruct [CField ''vregs'' (CArray 32 c_int128),
      CField ''fpsr'' arm64___u32,
      CField ''fpcr'' arm64___u32,
      CField ''__reserved'' (CArray 2 arm64___u32)]"

lemma arm64_user_fpsimd_state_layout [vmlinux_layout]: "csize arm64_user_fpsimd_state = 528" "calign arm64_user_fpsimd_state = 16"
  by (simp_all add: arm64_user_fpsimd_state_def layout_eval vmlinux_layout)

definition arm64_enum_fp_type :: "(string \<times> int) list" where
  "arm64_enum_fp_type =
    [(''FP_STATE_CURRENT'', 0),
     (''FP_STATE_FPSIMD'', 1),
     (''FP_STATE_SVE'', 2)]"

definition arm64_debug_info :: ctype where
  "arm64_debug_info =
    CStruct [CField ''suspended_step'' c_int,
      CField ''bps_disabled'' c_int,
      CField ''wps_disabled'' c_int,
      CField ''hbp_break'' (CArray 16 c_ptr),
      CField ''hbp_watch'' (CArray 16 c_ptr)]"

lemma arm64_debug_info_layout [vmlinux_layout]: "csize arm64_debug_info = 272" "calign arm64_debug_info = 8"
  by (simp_all add: arm64_debug_info_def layout_eval vmlinux_layout)

definition arm64_ptrauth_key :: ctype where
  "arm64_ptrauth_key =
    CStruct [CField ''lo'' c_long,
      CField ''hi'' c_long]"

lemma arm64_ptrauth_key_layout [vmlinux_layout]: "csize arm64_ptrauth_key = 16" "calign arm64_ptrauth_key = 8"
  by (simp_all add: arm64_ptrauth_key_def layout_eval vmlinux_layout)

definition arm64_ptrauth_keys_user :: ctype where
  "arm64_ptrauth_keys_user =
    CStruct [CField ''apia'' arm64_ptrauth_key,
      CField ''apib'' arm64_ptrauth_key,
      CField ''apda'' arm64_ptrauth_key,
      CField ''apdb'' arm64_ptrauth_key,
      CField ''apga'' arm64_ptrauth_key]"

lemma arm64_ptrauth_keys_user_layout [vmlinux_layout]: "csize arm64_ptrauth_keys_user = 80" "calign arm64_ptrauth_keys_user = 8"
  by (simp_all add: arm64_ptrauth_keys_user_def layout_eval vmlinux_layout)

definition arm64_ptrauth_keys_kernel :: ctype where
  "arm64_ptrauth_keys_kernel =
    CStruct [CField ''apia'' arm64_ptrauth_key]"

lemma arm64_ptrauth_keys_kernel_layout [vmlinux_layout]: "csize arm64_ptrauth_keys_kernel = 16" "calign arm64_ptrauth_keys_kernel = 8"
  by (simp_all add: arm64_ptrauth_keys_kernel_def layout_eval vmlinux_layout)

definition arm64_thread_struct :: ctype where
  "arm64_thread_struct =
    CStruct [CField ''cpu_context'' arm64_cpu_context,
      CBits '''' 8 64,
      CField ''uw'' (CStruct [CField ''tp_value'' c_long,
       CField ''tp2_value'' c_long,
       CField ''fpsimd_state'' arm64_user_fpsimd_state]),
      CField ''fp_type'' c_enum,
      CField ''fpsimd_cpu'' c_int,
      CField ''sve_state'' c_ptr,
      CField ''sme_state'' c_ptr,
      CField ''vl'' (CArray 2 c_int),
      CField ''vl_onexec'' (CArray 2 c_int),
      CField ''fault_address'' c_long,
      CField ''fault_code'' c_long,
      CField ''debug'' arm64_debug_info,
      CField ''keys_user'' arm64_ptrauth_keys_user,
      CField ''keys_kernel'' arm64_ptrauth_keys_kernel,
      CField ''mte_ctrl'' arm64_u64,
      CField ''sctlr_user'' arm64_u64,
      CField ''svcr'' arm64_u64,
      CField ''tpidr2_el0'' arm64_u64,
      CBits '''' 8 64]"

lemma arm64_thread_struct_layout [vmlinux_layout]: "csize arm64_thread_struct = 1120" "calign arm64_thread_struct = 16"
  by (simp_all add: arm64_thread_struct_def layout_eval vmlinux_layout)

definition arm64_task_struct_part1 :: "cmember list" where
  "arm64_task_struct_part1 =
    [CField ''thread_info'' arm64_thread_info,
      CField ''__state'' c_int,
      CField ''stack'' c_ptr,
      CField ''usage'' arm64_refcount_t,
      CField ''flags'' c_int,
      CField ''ptrace'' c_int,
      CField ''on_cpu'' c_int,
      CField ''wake_entry'' arm64___call_single_node,
      CField ''wakee_flips'' c_int,
      CField ''wakee_flip_decay_ts'' c_long,
      CField ''last_wakee'' c_ptr,
      CField ''recent_used_cpu'' c_int,
      CField ''wake_cpu'' c_int,
      CField ''on_rq'' c_int,
      CField ''prio'' c_int,
      CField ''static_prio'' c_int,
      CField ''normal_prio'' c_int,
      CField ''rt_priority'' c_int,
      CField ''se'' arm64_sched_entity,
      CField ''rt'' arm64_sched_rt_entity,
      CField ''dl'' arm64_sched_dl_entity,
      CField ''sched_class'' c_ptr,
      CBits '''' 8 64,
      CBits '''' 8 64,
      CBits '''' 8 64,
      CBits '''' 8 64,
      CBits '''' 8 64,
      CBits '''' 8 64,
      CField ''stats'' arm64_sched_statistics,
      CField ''policy'' c_int,
      CField ''nr_cpus_allowed'' c_int,
      CField ''cpus_ptr'' c_ptr,
      CField ''user_cpus_ptr'' c_ptr,
      CField ''cpus_mask'' arm64_cpumask_t,
      CField ''migration_pending'' c_ptr,
      CField ''migration_disabled'' c_short,
      CField ''migration_flags'' c_short,
      CField ''trc_reader_nesting'' c_int,
      CField ''trc_ipi_to_cpu'' c_int,
      CField ''trc_reader_special'' arm64_rcu_special,
      CField ''trc_holdout_list'' arm64_list_head,
      CField ''trc_blkd_node'' arm64_list_head,
      CField ''trc_blkd_cpu'' c_int,
      CField ''sched_info'' arm64_sched_info,
      CField ''tasks'' arm64_list_head,
      CField ''pushable_tasks'' arm64_plist_node,
      CField ''pushable_dl_tasks'' arm64_rb_node,
      CField ''mm'' c_ptr,
      CField ''active_mm'' c_ptr,
      CField ''exit_state'' c_int,
      CField ''exit_code'' c_int,
      CField ''exit_signal'' c_int,
      CField ''pdeath_signal'' c_int,
      CField ''jobctl'' c_long,
      CField ''personality'' c_int,
      CBits ''sched_reset_on_fork'' 4 1,
      CBits ''sched_contributes_to_load'' 4 1,
      CBits ''sched_migrated'' 4 1,
      CBits '''' 8 29,
      CBits ''sched_remote_wakeup'' 4 1,
      CBits ''in_execve'' 4 1,
      CBits ''in_iowait'' 4 1,
      CField ''atomic_flags'' c_long,
      CField ''restart_block'' arm64_restart_block,
      CField ''pid'' arm64_pid_t,
      CField ''tgid'' arm64_pid_t,
      CField ''real_parent'' c_ptr,
      CField ''parent'' c_ptr,
      CField ''children'' arm64_list_head,
      CField ''sibling'' arm64_list_head,
      CField ''group_leader'' c_ptr,
      CField ''ptraced'' arm64_list_head,
      CField ''ptrace_entry'' arm64_list_head,
      CField ''thread_pid'' c_ptr,
      CField ''pid_links'' (CArray 4 arm64_hlist_node),
      CField ''thread_group'' arm64_list_head,
      CField ''thread_node'' arm64_list_head,
      CField ''vfork_done'' c_ptr]"

definition arm64_task_struct_part2 :: "cmember list" where
  "arm64_task_struct_part2 =
    [CField ''set_child_tid'' c_ptr,
      CField ''clear_child_tid'' c_ptr,
      CField ''worker_private'' c_ptr,
      CField ''utime'' arm64_u64,
      CField ''stime'' arm64_u64,
      CField ''gtime'' arm64_u64,
      CField ''prev_cputime'' arm64_prev_cputime,
      CField ''nvcsw'' c_long,
      CField ''nivcsw'' c_long,
      CField ''start_time'' arm64_u64,
      CField ''start_boottime'' arm64_u64,
      CField ''min_flt'' c_long,
      CField ''maj_flt'' c_long,
      CField ''posix_cputimers'' arm64_posix_cputimers,
      CField ''ptracer_cred'' c_ptr,
      CField ''real_cred'' c_ptr,
      CField ''cred'' c_ptr,
      CField ''comm'' (CArray 16 c_char),
      CField ''nameidata'' c_ptr,
      CField ''fs'' c_ptr,
      CField ''files'' c_ptr,
      CField ''nsproxy'' c_ptr,
      CField ''signal'' c_ptr,
      CField ''sighand'' c_ptr,
      CField ''blocked'' arm64_sigset_t,
      CField ''real_blocked'' arm64_sigset_t,
      CField ''saved_sigmask'' arm64_sigset_t,
      CField ''pending'' arm64_sigpending,
      CField ''sas_ss_sp'' c_long,
      CField ''sas_ss_size'' arm64_size_t,
      CField ''sas_ss_flags'' c_int,
      CField ''task_works'' c_ptr,
      CField ''seccomp'' arm64_seccomp,
      CField ''syscall_dispatch'' arm64_syscall_user_dispatch,
      CField ''parent_exec_id'' arm64_u64,
      CField ''self_exec_id'' arm64_u64,
      CField ''alloc_lock'' arm64_spinlock_t,
      CField ''pi_lock'' arm64_raw_spinlock_t,
      CField ''wake_q'' arm64_wake_q_node,
      CField ''journal_info'' c_ptr,
      CField ''bio_list'' c_ptr,
      CField ''plug'' c_ptr,
      CField ''reclaim_state'' c_ptr,
      CField ''backing_dev_info'' c_ptr,
      CField ''io_context'' c_ptr,
      CField ''ptrace_message'' c_long,
      CField ''last_siginfo'' c_ptr,
      CField ''ioac'' arm64_task_io_accounting,
      CField ''perf_event_ctxp'' c_ptr,
      CField ''perf_event_mutex'' arm64_mutex,
      CField ''perf_event_list'' arm64_list_head,
      CField ''tlb_ubc'' arm64_tlbflush_unmap_batch,
      CField ''splice_pipe'' c_ptr,
      CField ''task_frag'' arm64_page_frag,
      CField ''nr_dirtied'' c_int,
      CField ''nr_dirtied_pause'' c_int,
      CField ''dirty_paused_when'' c_long,
      CField ''timer_slack_ns'' arm64_u64,
      CField ''default_timer_slack_ns'' arm64_u64,
      CField ''curr_ret_stack'' c_int,
      CField ''curr_ret_depth'' c_int,
      CField ''ret_stack'' c_ptr,
      CField ''ftrace_timestamp'' c_long,
      CField ''trace_overrun'' arm64_atomic_t,
      CField ''tracing_graph_pause'' arm64_atomic_t,
      CField ''trace_recursion'' c_long,
      CField ''utask'' c_ptr,
      CField ''kmap_ctrl'' arm64_kmap_ctrl,
      CField ''rcu'' arm64_callback_head,
      CField ''rcu_users'' arm64_refcount_t,
      CField ''pagefault_disabled'' c_int,
      CField ''oom_reaper_list'' c_ptr,
      CField ''oom_reaper_timer'' arm64_timer_list,
      CField ''stack_vm_area'' c_ptr,
      CField ''stack_refcount'' arm64_refcount_t,
      CField ''bpf_storage'' c_ptr,
      CField ''bpf_ctx'' c_ptr,
      CField ''kretprobe_instances'' arm64_llist_head,
      CField ''thread'' arm64_thread_struct]"

definition arm64_task_struct :: ctype where
  "arm64_task_struct = CStruct (arm64_task_struct_part1 @ arm64_task_struct_part2)"

lemma arm64_task_struct_layout [vmlinux_layout]: "csize arm64_task_struct = 2944" "calign arm64_task_struct = 16"
  by (simp_all add: arm64_task_struct_def arm64_task_struct_part1_def arm64_task_struct_part2_def layout_eval vmlinux_layout)

definition arm64_nsproxy :: ctype where
  "arm64_nsproxy =
    CStruct [CField ''count'' arm64_atomic_t,
      CField ''uts_ns'' c_ptr,
      CField ''ipc_ns'' c_ptr,
      CField ''mnt_ns'' c_ptr,
      CField ''pid_ns_for_children'' c_ptr,
      CField ''net_ns'' c_ptr,
      CField ''time_ns'' c_ptr,
      CField ''time_ns_for_children'' c_ptr,
      CField ''cgroup_ns'' c_ptr]"

lemma arm64_nsproxy_layout [vmlinux_layout]: "csize arm64_nsproxy = 72" "calign arm64_nsproxy = 8"
  by (simp_all add: arm64_nsproxy_def layout_eval vmlinux_layout)

definition arm64_gfp_t :: ctype where
  "arm64_gfp_t =
    c_int"

lemma arm64_gfp_t_layout [vmlinux_layout]: "csize arm64_gfp_t = 4" "calign arm64_gfp_t = 4"
  by (simp_all add: arm64_gfp_t_def layout_eval vmlinux_layout)

definition arm64_xarray :: ctype where
  "arm64_xarray =
    CStruct [CField ''xa_lock'' arm64_spinlock_t,
      CField ''xa_flags'' arm64_gfp_t,
      CField ''xa_head'' c_ptr]"

lemma arm64_xarray_layout [vmlinux_layout]: "csize arm64_xarray = 16" "calign arm64_xarray = 8"
  by (simp_all add: arm64_xarray_def layout_eval vmlinux_layout)

definition arm64_idr :: ctype where
  "arm64_idr =
    CStruct [CField ''idr_rt'' arm64_xarray,
      CField ''idr_base'' c_int,
      CField ''idr_next'' c_int]"

lemma arm64_idr_layout [vmlinux_layout]: "csize arm64_idr = 24" "calign arm64_idr = 8"
  by (simp_all add: arm64_idr_def layout_eval vmlinux_layout)

definition arm64_ns_common :: ctype where
  "arm64_ns_common =
    CStruct [CField ''stashed'' arm64_atomic_long_t,
      CField ''ops'' c_ptr,
      CField ''inum'' c_int,
      CField ''count'' arm64_refcount_t]"

lemma arm64_ns_common_layout [vmlinux_layout]: "csize arm64_ns_common = 24" "calign arm64_ns_common = 8"
  by (simp_all add: arm64_ns_common_def layout_eval vmlinux_layout)

definition arm64_pid_namespace :: ctype where
  "arm64_pid_namespace =
    CStruct [CField ''idr'' arm64_idr,
      CField ''rcu'' arm64_callback_head,
      CField ''pid_allocated'' c_int,
      CField ''child_reaper'' c_ptr,
      CField ''pid_cachep'' c_ptr,
      CField ''level'' c_int,
      CField ''parent'' c_ptr,
      CField ''user_ns'' c_ptr,
      CField ''ucounts'' c_ptr,
      CField ''reboot'' c_int,
      CField ''ns'' arm64_ns_common]"

lemma arm64_pid_namespace_layout [vmlinux_layout]: "csize arm64_pid_namespace = 128" "calign arm64_pid_namespace = 8"
  by (simp_all add: arm64_pid_namespace_def layout_eval vmlinux_layout)

definition arm64_hlist_head :: ctype where
  "arm64_hlist_head =
    CStruct [CField ''first'' c_ptr]"

lemma arm64_hlist_head_layout [vmlinux_layout]: "csize arm64_hlist_head = 8" "calign arm64_hlist_head = 8"
  by (simp_all add: arm64_hlist_head_def layout_eval vmlinux_layout)

definition arm64_wait_queue_head :: ctype where
  "arm64_wait_queue_head =
    CStruct [CField ''lock'' arm64_spinlock_t,
      CField ''head'' arm64_list_head]"

lemma arm64_wait_queue_head_layout [vmlinux_layout]: "csize arm64_wait_queue_head = 24" "calign arm64_wait_queue_head = 8"
  by (simp_all add: arm64_wait_queue_head_def layout_eval vmlinux_layout)

definition arm64_wait_queue_head_t :: ctype where
  "arm64_wait_queue_head_t =
    arm64_wait_queue_head"

lemma arm64_wait_queue_head_t_layout [vmlinux_layout]: "csize arm64_wait_queue_head_t = 24" "calign arm64_wait_queue_head_t = 8"
  by (simp_all add: arm64_wait_queue_head_t_def layout_eval vmlinux_layout)

definition arm64_upid :: ctype where
  "arm64_upid =
    CStruct [CField ''nr'' c_int,
      CField ''ns'' c_ptr]"

lemma arm64_upid_layout [vmlinux_layout]: "csize arm64_upid = 16" "calign arm64_upid = 8"
  by (simp_all add: arm64_upid_def layout_eval vmlinux_layout)

definition arm64_pid :: ctype where
  "arm64_pid =
    CStruct [CField ''count'' arm64_refcount_t,
      CField ''level'' c_int,
      CField ''lock'' arm64_spinlock_t,
      CField ''tasks'' (CArray 4 arm64_hlist_head),
      CField ''inodes'' arm64_hlist_head,
      CField ''wait_pidfd'' arm64_wait_queue_head_t,
      CField ''rcu'' arm64_callback_head,
      CField ''numbers'' (CArray 1 arm64_upid)]"

lemma arm64_pid_layout [vmlinux_layout]: "csize arm64_pid = 112" "calign arm64_pid = 8"
  by (simp_all add: arm64_pid_def layout_eval vmlinux_layout)

definition arm64_bpf_user_pt_regs_t :: ctype where
  "arm64_bpf_user_pt_regs_t =
    arm64_user_pt_regs"

lemma arm64_bpf_user_pt_regs_t_layout [vmlinux_layout]: "csize arm64_bpf_user_pt_regs_t = 272" "calign arm64_bpf_user_pt_regs_t = 8"
  by (simp_all add: arm64_bpf_user_pt_regs_t_def layout_eval vmlinux_layout)

definition arm64_bpf_perf_event_data :: ctype where
  "arm64_bpf_perf_event_data =
    CStruct [CField ''regs'' arm64_bpf_user_pt_regs_t,
      CField ''sample_period'' arm64___u64,
      CField ''addr'' arm64___u64]"

lemma arm64_bpf_perf_event_data_layout [vmlinux_layout]: "csize arm64_bpf_perf_event_data = 288" "calign arm64_bpf_perf_event_data = 8"
  by (simp_all add: arm64_bpf_perf_event_data_def layout_eval vmlinux_layout)

definition arm64_trace_entry :: ctype where
  "arm64_trace_entry =
    CStruct [CField ''type'' c_short,
      CField ''flags'' c_char,
      CField ''preempt_count'' c_char,
      CField ''pid'' c_int]"

lemma arm64_trace_entry_layout [vmlinux_layout]: "csize arm64_trace_entry = 8" "calign arm64_trace_entry = 4"
  by (simp_all add: arm64_trace_entry_def layout_eval vmlinux_layout)

definition arm64_trace_event_raw_sys_exit :: ctype where
  "arm64_trace_event_raw_sys_exit =
    CStruct [CField ''ent'' arm64_trace_entry,
      CField ''id'' c_long,
      CField ''ret'' c_long,
      CField ''__data'' (CArray 0 c_char)]"

lemma arm64_trace_event_raw_sys_exit_layout [vmlinux_layout]: "csize arm64_trace_event_raw_sys_exit = 24" "calign arm64_trace_event_raw_sys_exit = 8"
  by (simp_all add: arm64_trace_event_raw_sys_exit_def layout_eval vmlinux_layout)

definition arm64_trace_event_raw_sys_enter :: ctype where
  "arm64_trace_event_raw_sys_enter =
    CStruct [CField ''ent'' arm64_trace_entry,
      CField ''id'' c_long,
      CField ''args'' (CArray 6 c_long),
      CField ''__data'' (CArray 0 c_char)]"

lemma arm64_trace_event_raw_sys_enter_layout [vmlinux_layout]: "csize arm64_trace_event_raw_sys_enter = 64" "calign arm64_trace_event_raw_sys_enter = 8"
  by (simp_all add: arm64_trace_event_raw_sys_enter_def layout_eval vmlinux_layout)

definition arm64_trace_event_raw_sched_process_template :: ctype where
  "arm64_trace_event_raw_sched_process_template =
    CStruct [CField ''ent'' arm64_trace_entry,
      CField ''comm'' (CArray 16 c_char),
      CField ''pid'' arm64_pid_t,
      CField ''prio'' c_int,
      CField ''__data'' (CArray 0 c_char)]"

lemma arm64_trace_event_raw_sched_process_template_layout [vmlinux_layout]: "csize arm64_trace_event_raw_sched_process_template = 32" "calign arm64_trace_event_raw_sched_process_template = 4"
  by (simp_all add: arm64_trace_event_raw_sched_process_template_def layout_eval vmlinux_layout)

definition arm64_trace_event_raw_sched_switch :: ctype where
  "arm64_trace_event_raw_sched_switch =
    CStruct [CField ''ent'' arm64_trace_entry,
      CField ''prev_comm'' (CArray 16 c_char),
      CField ''prev_pid'' arm64_pid_t,
      CField ''prev_prio'' c_int,
      CField ''prev_state'' c_long,
      CField ''next_comm'' (CArray 16 c_char),
      CField ''next_pid'' arm64_pid_t,
      CField ''next_prio'' c_int,
      CField ''__data'' (CArray 0 c_char)]"

lemma arm64_trace_event_raw_sched_switch_layout [vmlinux_layout]: "csize arm64_trace_event_raw_sched_switch = 64" "calign arm64_trace_event_raw_sched_switch = 8"
  by (simp_all add: arm64_trace_event_raw_sched_switch_def layout_eval vmlinux_layout)

definition arm64_bpf_lpm_trie_key :: ctype where
  "arm64_bpf_lpm_trie_key =
    CStruct [CField ''prefixlen'' arm64___u32,
      CField ''data'' (CArray 0 arm64___u8)]"

lemma arm64_bpf_lpm_trie_key_layout [vmlinux_layout]: "csize arm64_bpf_lpm_trie_key = 4" "calign arm64_bpf_lpm_trie_key = 4"
  by (simp_all add: arm64_bpf_lpm_trie_key_def layout_eval vmlinux_layout)

definition arm64_enum_bpf_cmd :: "(string \<times> int) list" where
  "arm64_enum_bpf_cmd =
    [(''BPF_MAP_CREATE'', 0),
     (''BPF_MAP_LOOKUP_ELEM'', 1),
     (''BPF_MAP_UPDATE_ELEM'', 2),
     (''BPF_MAP_DELETE_ELEM'', 3),
     (''BPF_MAP_GET_NEXT_KEY'', 4),
     (''BPF_PROG_LOAD'', 5),
     (''BPF_OBJ_PIN'', 6),
     (''BPF_OBJ_GET'', 7),
     (''BPF_PROG_ATTACH'', 8),
     (''BPF_PROG_DETACH'', 9),
     (''BPF_PROG_TEST_RUN'', 10),
     (''BPF_PROG_RUN'', 10),
     (''BPF_PROG_GET_NEXT_ID'', 11),
     (''BPF_MAP_GET_NEXT_ID'', 12),
     (''BPF_PROG_GET_FD_BY_ID'', 13),
     (''BPF_MAP_GET_FD_BY_ID'', 14),
     (''BPF_OBJ_GET_INFO_BY_FD'', 15),
     (''BPF_PROG_QUERY'', 16),
     (''BPF_RAW_TRACEPOINT_OPEN'', 17),
     (''BPF_BTF_LOAD'', 18),
     (''BPF_BTF_GET_FD_BY_ID'', 19),
     (''BPF_TASK_FD_QUERY'', 20),
     (''BPF_MAP_LOOKUP_AND_DELETE_ELEM'', 21),
     (''BPF_MAP_FREEZE'', 22),
     (''BPF_BTF_GET_NEXT_ID'', 23),
     (''BPF_MAP_LOOKUP_BATCH'', 24),
     (''BPF_MAP_LOOKUP_AND_DELETE_BATCH'', 25),
     (''BPF_MAP_UPDATE_BATCH'', 26),
     (''BPF_MAP_DELETE_BATCH'', 27),
     (''BPF_LINK_CREATE'', 28),
     (''BPF_LINK_UPDATE'', 29),
     (''BPF_LINK_GET_FD_BY_ID'', 30),
     (''BPF_LINK_GET_NEXT_ID'', 31),
     (''BPF_ENABLE_STATS'', 32),
     (''BPF_ITER_CREATE'', 33),
     (''BPF_LINK_DETACH'', 34),
     (''BPF_PROG_BIND_MAP'', 35)]"

definition arm64_enum_bpf_map_type :: "(string \<times> int) list" where
  "arm64_enum_bpf_map_type =
    [(''BPF_MAP_TYPE_UNSPEC'', 0),
     (''BPF_MAP_TYPE_HASH'', 1),
     (''BPF_MAP_TYPE_ARRAY'', 2),
     (''BPF_MAP_TYPE_PROG_ARRAY'', 3),
     (''BPF_MAP_TYPE_PERF_EVENT_ARRAY'', 4),
     (''BPF_MAP_TYPE_PERCPU_HASH'', 5),
     (''BPF_MAP_TYPE_PERCPU_ARRAY'', 6),
     (''BPF_MAP_TYPE_STACK_TRACE'', 7),
     (''BPF_MAP_TYPE_CGROUP_ARRAY'', 8),
     (''BPF_MAP_TYPE_LRU_HASH'', 9),
     (''BPF_MAP_TYPE_LRU_PERCPU_HASH'', 10),
     (''BPF_MAP_TYPE_LPM_TRIE'', 11),
     (''BPF_MAP_TYPE_ARRAY_OF_MAPS'', 12),
     (''BPF_MAP_TYPE_HASH_OF_MAPS'', 13),
     (''BPF_MAP_TYPE_DEVMAP'', 14),
     (''BPF_MAP_TYPE_SOCKMAP'', 15),
     (''BPF_MAP_TYPE_CPUMAP'', 16),
     (''BPF_MAP_TYPE_XSKMAP'', 17),
     (''BPF_MAP_TYPE_SOCKHASH'', 18),
     (''BPF_MAP_TYPE_CGROUP_STORAGE_DEPRECATED'', 19),
     (''BPF_MAP_TYPE_CGROUP_STORAGE'', 19),
     (''BPF_MAP_TYPE_REUSEPORT_SOCKARRAY'', 20),
     (''BPF_MAP_TYPE_PERCPU_CGROUP_STORAGE'', 21),
     (''BPF_MAP_TYPE_QUEUE'', 22),
     (''BPF_MAP_TYPE_STACK'', 23),
     (''BPF_MAP_TYPE_SK_STORAGE'', 24),
     (''BPF_MAP_TYPE_DEVMAP_HASH'', 25),
     (''BPF_MAP_TYPE_STRUCT_OPS'', 26),
     (''BPF_MAP_TYPE_RINGBUF'', 27),
     (''BPF_MAP_TYPE_INODE_STORAGE'', 28),
     (''BPF_MAP_TYPE_TASK_STORAGE'', 29),
     (''BPF_MAP_TYPE_BLOOM_FILTER'', 30),
     (''BPF_MAP_TYPE_USER_RINGBUF'', 31),
     (''BPF_MAP_TYPE_CGRP_STORAGE'', 32)]"

definition arm64_enum_bpf_prog_type :: "(string \<times> int) list" where
  "arm64_enum_bpf_prog_type =
    [(''BPF_PROG_TYPE_UNSPEC'', 0),
     (''BPF_PROG_TYPE_SOCKET_FILTER'', 1),
     (''BPF_PROG_TYPE_KPROBE'', 2),
     (''BPF_PROG_TYPE_SCHED_CLS'', 3),
     (''BPF_PROG_TYPE_SCHED_ACT'', 4),
     (''BPF_PROG_TYPE_TRACEPOINT'', 5),
     (''BPF_PROG_TYPE_XDP'', 6),
     (''BPF_PROG_TYPE_PERF_EVENT'', 7),
     (''BPF_PROG_TYPE_CGROUP_SKB'', 8),
     (''BPF_PROG_TYPE_CGROUP_SOCK'', 9),
     (''BPF_PROG_TYPE_LWT_IN'', 10),
     (''BPF_PROG_TYPE_LWT_OUT'', 11),
     (''BPF_PROG_TYPE_LWT_XMIT'', 12),
     (''BPF_PROG_TYPE_SOCK_OPS'', 13),
     (''BPF_PROG_TYPE_SK_SKB'', 14),
     (''BPF_PROG_TYPE_CGROUP_DEVICE'', 15),
     (''BPF_PROG_TYPE_SK_MSG'', 16),
     (''BPF_PROG_TYPE_RAW_TRACEPOINT'', 17),
     (''BPF_PROG_TYPE_CGROUP_SOCK_ADDR'', 18),
     (''BPF_PROG_TYPE_LWT_SEG6LOCAL'', 19),
     (''BPF_PROG_TYPE_LIRC_MODE2'', 20),
     (''BPF_PROG_TYPE_SK_REUSEPORT'', 21),
     (''BPF_PROG_TYPE_FLOW_DISSECTOR'', 22),
     (''BPF_PROG_TYPE_CGROUP_SYSCTL'', 23),
     (''BPF_PROG_TYPE_RAW_TRACEPOINT_WRITABLE'', 24),
     (''BPF_PROG_TYPE_CGROUP_SOCKOPT'', 25),
     (''BPF_PROG_TYPE_TRACING'', 26),
     (''BPF_PROG_TYPE_STRUCT_OPS'', 27),
     (''BPF_PROG_TYPE_EXT'', 28),
     (''BPF_PROG_TYPE_LSM'', 29),
     (''BPF_PROG_TYPE_SK_LOOKUP'', 30),
     (''BPF_PROG_TYPE_SYSCALL'', 31),
     (''BPF_PROG_TYPE_NETFILTER'', 32)]"

definition arm64_enum_bpf_attach_type :: "(string \<times> int) list" where
  "arm64_enum_bpf_attach_type =
    [(''BPF_CGROUP_INET_INGRESS'', 0),
     (''BPF_CGROUP_INET_EGRESS'', 1),
     (''BPF_CGROUP_INET_SOCK_CREATE'', 2),
     (''BPF_CGROUP_SOCK_OPS'', 3),
     (''BPF_SK_SKB_STREAM_PARSER'', 4),
     (''BPF_SK_SKB_STREAM_VERDICT'', 5),
     (''BPF_CGROUP_DEVICE'', 6),
     (''BPF_SK_MSG_VERDICT'', 7),
     (''BPF_CGROUP_INET4_BIND'', 8),
     (''BPF_CGROUP_INET6_BIND'', 9),
     (''BPF_CGROUP_INET4_CONNECT'', 10),
     (''BPF_CGROUP_INET6_CONNECT'', 11),
     (''BPF_CGROUP_INET4_POST_BIND'', 12),
     (''BPF_CGROUP_INET6_POST_BIND'', 13),
     (''BPF_CGROUP_UDP4_SENDMSG'', 14),
     (''BPF_CGROUP_UDP6_SENDMSG'', 15),
     (''BPF_LIRC_MODE2'', 16),
     (''BPF_FLOW_DISSECTOR'', 17),
     (''BPF_CGROUP_SYSCTL'', 18),
     (''BPF_CGROUP_UDP4_RECVMSG'', 19),
     (''BPF_CGROUP_UDP6_RECVMSG'', 20),
     (''BPF_CGROUP_GETSOCKOPT'', 21),
     (''BPF_CGROUP_SETSOCKOPT'', 22),
     (''BPF_TRACE_RAW_TP'', 23),
     (''BPF_TRACE_FENTRY'', 24),
     (''BPF_TRACE_FEXIT'', 25),
     (''BPF_MODIFY_RETURN'', 26),
     (''BPF_LSM_MAC'', 27),
     (''BPF_TRACE_ITER'', 28),
     (''BPF_CGROUP_INET4_GETPEERNAME'', 29),
     (''BPF_CGROUP_INET6_GETPEERNAME'', 30),
     (''BPF_CGROUP_INET4_GETSOCKNAME'', 31),
     (''BPF_CGROUP_INET6_GETSOCKNAME'', 32),
     (''BPF_XDP_DEVMAP'', 33),
     (''BPF_CGROUP_INET_SOCK_RELEASE'', 34),
     (''BPF_XDP_CPUMAP'', 35),
     (''BPF_SK_LOOKUP'', 36),
     (''BPF_XDP'', 37),
     (''BPF_SK_SKB_VERDICT'', 38),
     (''BPF_SK_REUSEPORT_SELECT'', 39),
     (''BPF_SK_REUSEPORT_SELECT_OR_MIGRATE'', 40),
     (''BPF_PERF_EVENT'', 41),
     (''BPF_TRACE_KPROBE_MULTI'', 42),
     (''BPF_LSM_CGROUP'', 43),
     (''BPF_STRUCT_OPS'', 44),
     (''BPF_NETFILTER'', 45),
     (''__MAX_BPF_ATTACH_TYPE'', 46)]"

definition arm64_enum_bpf_func_id_part1 :: "(string \<times> int) list" where
  "arm64_enum_bpf_func_id_part1 =
    [(''BPF_FUNC_unspec'', 0),
     (''BPF_FUNC_map_lookup_elem'', 1),
     (''BPF_FUNC_map_update_elem'', 2),
     (''BPF_FUNC_map_delete_elem'', 3),
     (''BPF_FUNC_probe_read'', 4),
     (''BPF_FUNC_ktime_get_ns'', 5),
     (''BPF_FUNC_trace_printk'', 6),
     (''BPF_FUNC_get_prandom_u32'', 7),
     (''BPF_FUNC_get_smp_processor_id'', 8),
     (''BPF_FUNC_skb_store_bytes'', 9),
     (''BPF_FUNC_l3_csum_replace'', 10),
     (''BPF_FUNC_l4_csum_replace'', 11),
     (''BPF_FUNC_tail_call'', 12),
     (''BPF_FUNC_clone_redirect'', 13),
     (''BPF_FUNC_get_current_pid_tgid'', 14),
     (''BPF_FUNC_get_current_uid_gid'', 15),
     (''BPF_FUNC_get_current_comm'', 16),
     (''BPF_FUNC_get_cgroup_classid'', 17),
     (''BPF_FUNC_skb_vlan_push'', 18),
     (''BPF_FUNC_skb_vlan_pop'', 19),
     (''BPF_FUNC_skb_get_tunnel_key'', 20),
     (''BPF_FUNC_skb_set_tunnel_key'', 21),
     (''BPF_FUNC_perf_event_read'', 22),
     (''BPF_FUNC_redirect'', 23),
     (''BPF_FUNC_get_route_realm'', 24),
     (''BPF_FUNC_perf_event_output'', 25),
     (''BPF_FUNC_skb_load_bytes'', 26),
     (''BPF_FUNC_get_stackid'', 27),
     (''BPF_FUNC_csum_diff'', 28),
     (''BPF_FUNC_skb_get_tunnel_opt'', 29),
     (''BPF_FUNC_skb_set_tunnel_opt'', 30),
     (''BPF_FUNC_skb_change_proto'', 31),
     (''BPF_FUNC_skb_change_type'', 32),
     (''BPF_FUNC_skb_under_cgroup'', 33),
     (''BPF_FUNC_get_hash_recalc'', 34),
     (''BPF_FUNC_get_current_task'', 35),
     (''BPF_FUNC_probe_write_user'', 36),
     (''BPF_FUNC_current_task_under_cgroup'', 37),
     (''BPF_FUNC_skb_change_tail'', 38),
     (''BPF_FUNC_skb_pull_data'', 39),
     (''BPF_FUNC_csum_update'', 40),
     (''BPF_FUNC_set_hash_invalid'', 41),
     (''BPF_FUNC_get_numa_node_id'', 42),
     (''BPF_FUNC_skb_change_head'', 43),
     (''BPF_FUNC_xdp_adjust_head'', 44),
     (''BPF_FUNC_probe_read_str'', 45),
     (''BPF_FUNC_get_socket_cookie'', 46),
     (''BPF_FUNC_get_socket_uid'', 47),
     (''BPF_FUNC_set_hash'', 48),
     (''BPF_FUNC_setsockopt'', 49),
     (''BPF_FUNC_skb_adjust_room'', 50),
     (''BPF_FUNC_redirect_map'', 51),
     (''BPF_FUNC_sk_redirect_map'', 52),
     (''BPF_FUNC_sock_map_update'', 53),
     (''BPF_FUNC_xdp_adjust_meta'', 54),
     (''BPF_FUNC_perf_event_read_value'', 55),
     (''BPF_FUNC_perf_prog_read_value'', 56),
     (''BPF_FUNC_getsockopt'', 57),
     (''BPF_FUNC_override_return'', 58),
     (''BPF_FUNC_sock_ops_cb_flags_set'', 59),
     (''BPF_FUNC_msg_redirect_map'', 60),
     (''BPF_FUNC_msg_apply_bytes'', 61),
     (''BPF_FUNC_msg_cork_bytes'', 62),
     (''BPF_FUNC_msg_pull_data'', 63),
     (''BPF_FUNC_bind'', 64),
     (''BPF_FUNC_xdp_adjust_tail'', 65),
     (''BPF_FUNC_skb_get_xfrm_state'', 66),
     (''BPF_FUNC_get_stack'', 67),
     (''BPF_FUNC_skb_load_bytes_relative'', 68),
     (''BPF_FUNC_fib_lookup'', 69),
     (''BPF_FUNC_sock_hash_update'', 70),
     (''BPF_FUNC_msg_redirect_hash'', 71),
     (''BPF_FUNC_sk_redirect_hash'', 72),
     (''BPF_FUNC_lwt_push_encap'', 73),
     (''BPF_FUNC_lwt_seg6_store_bytes'', 74),
     (''BPF_FUNC_lwt_seg6_adjust_srh'', 75),
     (''BPF_FUNC_lwt_seg6_action'', 76),
     (''BPF_FUNC_rc_repeat'', 77),
     (''BPF_FUNC_rc_keydown'', 78),
     (''BPF_FUNC_skb_cgroup_id'', 79),
     (''BPF_FUNC_get_current_cgroup_id'', 80),
     (''BPF_FUNC_get_local_storage'', 81),
     (''BPF_FUNC_sk_select_reuseport'', 82),
     (''BPF_FUNC_skb_ancestor_cgroup_id'', 83),
     (''BPF_FUNC_sk_lookup_tcp'', 84),
     (''BPF_FUNC_sk_lookup_udp'', 85),
     (''BPF_FUNC_sk_release'', 86),
     (''BPF_FUNC_map_push_elem'', 87),
     (''BPF_FUNC_map_pop_elem'', 88),
     (''BPF_FUNC_map_peek_elem'', 89),
     (''BPF_FUNC_msg_push_data'', 90),
     (''BPF_FUNC_msg_pop_data'', 91),
     (''BPF_FUNC_rc_pointer_rel'', 92),
     (''BPF_FUNC_spin_lock'', 93),
     (''BPF_FUNC_spin_unlock'', 94),
     (''BPF_FUNC_sk_fullsock'', 95),
     (''BPF_FUNC_tcp_sock'', 96),
     (''BPF_FUNC_skb_ecn_set_ce'', 97),
     (''BPF_FUNC_get_listener_sock'', 98),
     (''BPF_FUNC_skc_lookup_tcp'', 99),
     (''BPF_FUNC_tcp_check_syncookie'', 100),
     (''BPF_FUNC_sysctl_get_name'', 101),
     (''BPF_FUNC_sysctl_get_current_value'', 102),
     (''BPF_FUNC_sysctl_get_new_value'', 103),
     (''BPF_FUNC_sysctl_set_new_value'', 104),
     (''BPF_FUNC_strtol'', 105)]"

definition arm64_enum_bpf_func_id_part2 :: "(string \<times> int) list" where
  "arm64_enum_bpf_func_id_part2 =
    [(''BPF_FUNC_strtoul'', 106),
     (''BPF_FUNC_sk_storage_get'', 107),
     (''BPF_FUNC_sk_storage_delete'', 108),
     (''BPF_FUNC_send_signal'', 109),
     (''BPF_FUNC_tcp_gen_syncookie'', 110),
     (''BPF_FUNC_skb_output'', 111),
     (''BPF_FUNC_probe_read_user'', 112),
     (''BPF_FUNC_probe_read_kernel'', 113),
     (''BPF_FUNC_probe_read_user_str'', 114),
     (''BPF_FUNC_probe_read_kernel_str'', 115),
     (''BPF_FUNC_tcp_send_ack'', 116),
     (''BPF_FUNC_send_signal_thread'', 117),
     (''BPF_FUNC_jiffies64'', 118),
     (''BPF_FUNC_read_branch_records'', 119),
     (''BPF_FUNC_get_ns_current_pid_tgid'', 120),
     (''BPF_FUNC_xdp_output'', 121),
     (''BPF_FUNC_get_netns_cookie'', 122),
     (''BPF_FUNC_get_current_ancestor_cgroup_id'', 123),
     (''BPF_FUNC_sk_assign'', 124),
     (''BPF_FUNC_ktime_get_boot_ns'', 125),
     (''BPF_FUNC_seq_printf'', 126),
     (''BPF_FUNC_seq_write'', 127),
     (''BPF_FUNC_sk_cgroup_id'', 128),
     (''BPF_FUNC_sk_ancestor_cgroup_id'', 129),
     (''BPF_FUNC_ringbuf_output'', 130),
     (''BPF_FUNC_ringbuf_reserve'', 131),
     (''BPF_FUNC_ringbuf_submit'', 132),
     (''BPF_FUNC_ringbuf_discard'', 133),
     (''BPF_FUNC_ringbuf_query'', 134),
     (''BPF_FUNC_csum_level'', 135),
     (''BPF_FUNC_skc_to_tcp6_sock'', 136),
     (''BPF_FUNC_skc_to_tcp_sock'', 137),
     (''BPF_FUNC_skc_to_tcp_timewait_sock'', 138),
     (''BPF_FUNC_skc_to_tcp_request_sock'', 139),
     (''BPF_FUNC_skc_to_udp6_sock'', 140),
     (''BPF_FUNC_get_task_stack'', 141),
     (''BPF_FUNC_load_hdr_opt'', 142),
     (''BPF_FUNC_store_hdr_opt'', 143),
     (''BPF_FUNC_reserve_hdr_opt'', 144),
     (''BPF_FUNC_inode_storage_get'', 145),
     (''BPF_FUNC_inode_storage_delete'', 146),
     (''BPF_FUNC_d_path'', 147),
     (''BPF_FUNC_copy_from_user'', 148),
     (''BPF_FUNC_snprintf_btf'', 149),
     (''BPF_FUNC_seq_printf_btf'', 150),
     (''BPF_FUNC_skb_cgroup_classid'', 151),
     (''BPF_FUNC_redirect_neigh'', 152),
     (''BPF_FUNC_per_cpu_ptr'', 153),
     (''BPF_FUNC_this_cpu_ptr'', 154),
     (''BPF_FUNC_redirect_peer'', 155),
     (''BPF_FUNC_task_storage_get'', 156),
     (''BPF_FUNC_task_storage_delete'', 157),
     (''BPF_FUNC_get_current_task_btf'', 158),
     (''BPF_FUNC_bprm_opts_set'', 159),
     (''BPF_FUNC_ktime_get_coarse_ns'', 160),
     (''BPF_FUNC_ima_inode_hash'', 161),
     (''BPF_FUNC_sock_from_file'', 162),
     (''BPF_FUNC_check_mtu'', 163),
     (''BPF_FUNC_for_each_map_elem'', 164),
     (''BPF_FUNC_snprintf'', 165),
     (''BPF_FUNC_sys_bpf'', 166),
     (''BPF_FUNC_btf_find_by_name_kind'', 167),
     (''BPF_FUNC_sys_close'', 168),
     (''BPF_FUNC_timer_init'', 169),
     (''BPF_FUNC_timer_set_callback'', 170),
     (''BPF_FUNC_timer_start'', 171),
     (''BPF_FUNC_timer_cancel'', 172),
     (''BPF_FUNC_get_func_ip'', 173),
     (''BPF_FUNC_get_attach_cookie'', 174),
     (''BPF_FUNC_task_pt_regs'', 175),
     (''BPF_FUNC_get_branch_snapshot'', 176),
     (''BPF_FUNC_trace_vprintk'', 177),
     (''BPF_FUNC_skc_to_unix_sock'', 178),
     (''BPF_FUNC_kallsyms_lookup_name'', 179),
     (''BPF_FUNC_find_vma'', 180),
     (''BPF_FUNC_loop'', 181),
     (''BPF_FUNC_strncmp'', 182),
     (''BPF_FUNC_get_func_arg'', 183),
     (''BPF_FUNC_get_func_ret'', 184),
     (''BPF_FUNC_get_func_arg_cnt'', 185),
     (''BPF_FUNC_get_retval'', 186),
     (''BPF_FUNC_set_retval'', 187),
     (''BPF_FUNC_xdp_get_buff_len'', 188),
     (''BPF_FUNC_xdp_load_bytes'', 189),
     (''BPF_FUNC_xdp_store_bytes'', 190),
     (''BPF_FUNC_copy_from_user_task'', 191),
     (''BPF_FUNC_skb_set_tstamp'', 192),
     (''BPF_FUNC_ima_file_hash'', 193),
     (''BPF_FUNC_kptr_xchg'', 194),
     (''BPF_FUNC_map_lookup_percpu_elem'', 195),
     (''BPF_FUNC_skc_to_mptcp_sock'', 196),
     (''BPF_FUNC_dynptr_from_mem'', 197),
     (''BPF_FUNC_ringbuf_reserve_dynptr'', 198),
     (''BPF_FUNC_ringbuf_submit_dynptr'', 199),
     (''BPF_FUNC_ringbuf_discard_dynptr'', 200),
     (''BPF_FUNC_dynptr_read'', 201),
     (''BPF_FUNC_dynptr_write'', 202),
     (''BPF_FUNC_dynptr_data'', 203),
     (''BPF_FUNC_tcp_raw_gen_syncookie_ipv4'', 204),
     (''BPF_FUNC_tcp_raw_gen_syncookie_ipv6'', 205),
     (''BPF_FUNC_tcp_raw_check_syncookie_ipv4'', 206),
     (''BPF_FUNC_tcp_raw_check_syncookie_ipv6'', 207),
     (''BPF_FUNC_ktime_get_tai_ns'', 208),
     (''BPF_FUNC_user_ringbuf_drain'', 209),
     (''BPF_FUNC_cgrp_storage_get'', 210),
     (''BPF_FUNC_cgrp_storage_delete'', 211),
     (''__BPF_FUNC_MAX_ID'', 212)]"

definition arm64_enum_bpf_func_id :: "(string \<times> int) list" where
  "arm64_enum_bpf_func_id = arm64_enum_bpf_func_id_part1 @ arm64_enum_bpf_func_id_part2"

section \<open>Flags of the map operations\<close>

definition arm64_enum_map_flags :: "(string \<times> int) list" where
  "arm64_enum_map_flags =
    [(''BPF_F_NO_PREALLOC'', 1),
     (''BPF_F_NO_COMMON_LRU'', 2),
     (''BPF_F_NUMA_NODE'', 4),
     (''BPF_F_RDONLY'', 8),
     (''BPF_F_WRONLY'', 16),
     (''BPF_F_STACK_BUILD_ID'', 32),
     (''BPF_F_ZERO_SEED'', 64),
     (''BPF_F_RDONLY_PROG'', 128),
     (''BPF_F_WRONLY_PROG'', 256),
     (''BPF_F_CLONE'', 512),
     (''BPF_F_MMAPABLE'', 1024),
     (''BPF_F_PRESERVE_ELEMS'', 2048),
     (''BPF_F_INNER_MAP'', 4096),
     (''BPF_F_LINK'', 8192)]"

definition arm64_enum_update_flags :: "(string \<times> int) list" where
  "arm64_enum_update_flags =
    [(''BPF_ANY'', 0),
     (''BPF_NOEXIST'', 1),
     (''BPF_EXIST'', 2),
     (''BPF_F_LOCK'', 4)]"

definition arm64_enum_output_flags :: "(string \<times> int) list" where
  "arm64_enum_output_flags =
    [(''BPF_F_INDEX_MASK'', 4294967295),
     (''BPF_F_CURRENT_CPU'', 4294967295),
     (''BPF_F_CTXLEN_MASK'', 4503595332403200)]"

end
