(* ===== verification/Kernel_Env.thy ===== *)
theory Kernel_Env
  imports Profiler_Types Vmlinux_X86 Vmlinux_Arm64 "HOL-Library.Monad_Syntax"
begin

text \<open>
  What the BPF programs see of the kernel. The helpers are not part of the repository: one run of
  a program takes a record \<open>kernel\<close> of their results as a parameter, and nothing is assumed of
  them here. The accesses to kernel structures go through CO-RE: at load time every member access
  is rewritten to the offset the member has in the type information of the running kernel.
  \<open>relocate\<close> is that step (\<open>None\<close>: a member is missing and the program does not load), and
  \<open>task_level\<close>, \<open>per_process_id\<close>, \<open>per_thread_id\<close>, \<open>is_kthread\<close> and
  \<open>retrieve_task_registers\<close> translate the reads of src/src/bpf/profiler.bpf.c over it.
\<close>

section \<open>CO-RE relocation\<close>

text \<open>The type information of the running kernel for the structures the programs read.\<close>

record kernel_btf =
  btf_task_struct :: ctype
  btf_nsproxy :: ctype
  btf_pid_namespace :: ctype
  btf_pid :: ctype
  btf_upid :: ctype
  btf_regs :: ctype

text \<open>
  The register accessors of libbpf (\<open>PT_REGS_IP\<close> and its kin) name a member of the saved
  registers and, on arm64, an index into it.
\<close>

record pt_regs_accessors =
  acc_ip :: "string \<times> nat"
  acc_sp :: "string \<times> nat"
  acc_fp :: "string \<times> nat"
  acc_ret :: "string \<times> nat"

record relocs =
  off_stack :: u64
  off_mm :: u64
  off_nsproxy :: u64
  off_group_leader :: u64
  off_thread_pid :: u64
  off_pid_ns_for_children :: u64
  off_level :: u64
  off_numbers :: u64
  size_upid :: u64
  off_nr :: u64
  off_ip :: u64
  off_sp :: u64
  off_fp :: u64
  off_ret :: u64

definition reg_offset :: "ctype \<Rightarrow> string \<times> nat \<Rightarrow> nat option" where
  "reg_offset ty a = map_option (\<lambda>off. off + 8 * snd a) (offset_of ty [fst a])"

definition relocate :: "kernel_btf \<Rightarrow> pt_regs_accessors \<Rightarrow> relocs option" where
  "relocate btf acc = do {
     stack \<leftarrow> offset_of (btf_task_struct btf) [''stack''];
     mm \<leftarrow> offset_of (btf_task_struct btf) [''mm''];
     nsproxy \<leftarrow> offset_of (btf_task_struct btf) [''nsproxy''];
     leader \<leftarrow> offset_of (btf_task_struct btf) [''group_leader''];
     tpid \<leftarrow> offset_of (btf_task_struct btf) [''thread_pid''];
     pidns \<leftarrow> offset_of (btf_nsproxy btf) [''pid_ns_for_children''];
     level \<leftarrow> offset_of (btf_pid_namespace btf) [''level''];
     numbers \<leftarrow> offset_of (btf_pid btf) [''numbers''];
     nr \<leftarrow> offset_of (btf_upid btf) [''nr''];
     ip \<leftarrow> reg_offset (btf_regs btf) (acc_ip acc);
     sp \<leftarrow> reg_offset (btf_regs btf) (acc_sp acc);
     fp \<leftarrow> reg_offset (btf_regs btf) (acc_fp acc);
     ret \<leftarrow> reg_offset (btf_regs btf) (acc_ret acc);
     Some \<lparr>off_stack = of_nat stack, off_mm = of_nat mm, off_nsproxy = of_nat nsproxy,
       off_group_leader = of_nat leader, off_thread_pid = of_nat tpid,
       off_pid_ns_for_children = of_nat pidns, off_level = of_nat level,
       off_numbers = of_nat numbers, size_upid = of_nat (csize (btf_upid btf)), off_nr = of_nat nr,
       off_ip = of_nat ip, off_sp = of_nat sp, off_fp = of_nat fp, off_ret = of_nat ret\<rparr>
   }"

text \<open>A kernel with exactly the types of the header the objects are compiled against.\<close>

definition header_btf :: "arch \<Rightarrow> kernel_btf" where
  "header_btf a = (case a of
     X86 \<Rightarrow> \<lparr>btf_task_struct = x86_task_struct, btf_nsproxy = x86_nsproxy,
       btf_pid_namespace = x86_pid_namespace, btf_pid = x86_pid, btf_upid = x86_upid,
       btf_regs = x86_pt_regs\<rparr>
   | Arm64 \<Rightarrow> \<lparr>btf_task_struct = arm64_task_struct, btf_nsproxy = arm64_nsproxy,
       btf_pid_namespace = arm64_pid_namespace, btf_pid = arm64_pid, btf_upid = arm64_upid,
       btf_regs = arm64_user_pt_regs\<rparr>)"

text \<open>\<open>sizeof(struct pt_regs)\<close> is a compile-time constant of the header.\<close>

definition sizeof_pt_regs :: "arch \<Rightarrow> u64" where
  "sizeof_pt_regs a = of_nat (csize (case a of X86 \<Rightarrow> x86_pt_regs | Arm64 \<Rightarrow> arm64_pt_regs))"

section \<open>The helpers\<close>

text \<open>
  The results the kernel gives to one run. Reads return the error code and what the destination
  holds afterwards; \<open>out_ret\<close> is the return code of the n-th output attempt, \<open>get_stack\<close>
  returns a code and the words written to the buffer.
\<close>

record kernel =
  k_arch :: arch
  k_config :: lightswitch_config_t
  k_relocs :: relocs
  get_current_task :: u64
  get_current_pid_tgid :: u64
  probe_read_kernel :: "u64 \<Rightarrow> nat \<Rightarrow> int \<times> u64"
  probe_read_user :: "u64 \<Rightarrow> u64 \<Rightarrow> int \<times> u64"
    \<comment> \<open>address and old contents of the 8-byte destination\<close>
  task_pt_regs :: "u64 \<Rightarrow> u64"
  get_stack :: "nat \<Rightarrow> int \<times> u64 list"
  ktime_get_boot_ns :: u64
  out_ret :: "nat \<Rightarrow> int"
  rate_limit_update_ret :: "(Event \<rightharpoonup> bool) \<Rightarrow> Event \<Rightarrow> int"
  munmap_update_ret :: "(u64 \<rightharpoonup> u64) \<Rightarrow> u64 \<Rightarrow> int"

text \<open>\<open>BPF_CORE_READ\<close> of a pointer or 32-bit member: the error code of a step is not looked at.\<close>

definition core_read_ptr :: "kernel \<Rightarrow> u64 \<Rightarrow> u64" where
  "core_read_ptr k a = snd (probe_read_kernel k a 8)"

definition core_read_u32 :: "kernel \<Rightarrow> u64 \<Rightarrow> u32" where
  "core_read_u32 k a = ucast (snd (probe_read_kernel k a 4))"

section \<open>Task identity\<close>

definition task_level :: "kernel \<Rightarrow> u32" where
  "task_level k =
     (let task = get_current_task k; r = k_relocs k;
          nsproxy = core_read_ptr k (task + off_nsproxy r);
          pidns = core_read_ptr k (nsproxy + off_pid_ns_for_children r)
      in core_read_u32 k (pidns + off_level r))"

definition pid_nr :: "kernel \<Rightarrow> u64 \<Rightarrow> u32 \<Rightarrow> s32" where
  "pid_nr k pid level =
     core_read_u32 k (pid + off_numbers (k_relocs k) + ucast level * size_upid (k_relocs k)
       + off_nr (k_relocs k))"

definition per_process_id :: "kernel \<Rightarrow> s32" where
  "per_process_id k =
     (let task = get_current_task k; r = k_relocs k;
          leader = core_read_ptr k (task + off_group_leader r);
          tpid = core_read_ptr k (leader + off_thread_pid r)
      in pid_nr k tpid (task_level k))"

definition per_thread_id :: "kernel \<Rightarrow> s32" where
  "per_thread_id k =
     (let task = get_current_task k; r = k_relocs k;
          tpid = core_read_ptr k (task + off_thread_pid r)
      in pid_nr k tpid (task_level k))"

section \<open>is\_kthread, retrieve\_task\_registers\<close>

definition is_kthread :: "kernel \<Rightarrow> bool" where
  "is_kthread k =
     (let task = get_current_task k in
      if task = 0 then False
      else let (err, mm) = probe_read_kernel k (task + off_mm (k_relocs k)) 8 in
        if err \<noteq> 0 then False else mm = 0)"

record task_regs =
  tr_ip :: u64
  tr_sp :: u64
  tr_bp :: u64
  tr_lr :: u64

text \<open>
  The four output pointers are the registers of the unwind state and never NULL. \<open>None\<close> is the
  return value \<open>false\<close>, which leaves them unwritten; on x86 \<open>lr\<close> is not written either.
\<close>

definition pt_regs_ptr :: "kernel \<Rightarrow> u64 option" where
  "pt_regs_ptr k =
     (let task = get_current_task k in
      if use_task_pt_regs_helper (k_config k) then Some (task_pt_regs k task)
      else let (err, stack) = probe_read_kernel k (task + off_stack (k_relocs k)) 8 in
        if err \<noteq> 0 then None
        else let ptr = stack + THREAD_SIZE - TOP_OF_KERNEL_STACK_PADDING
          in Some (ptr - sizeof_pt_regs (k_arch k)))"

definition retrieve_task_registers :: "kernel \<Rightarrow> task_regs \<Rightarrow> task_regs option" where
  "retrieve_task_registers k old =
     (if get_current_task k = 0 then None
      else if is_kthread k then None
      else case pt_regs_ptr k of
        None \<Rightarrow> None
      | Some regs \<Rightarrow> Some \<lparr>
          tr_ip = core_read_ptr k (regs + off_ip (k_relocs k)),
          tr_sp = core_read_ptr k (regs + off_sp (k_relocs k)),
          tr_bp = core_read_ptr k (regs + off_fp (k_relocs k)),
          tr_lr = (case k_arch k of X86 \<Rightarrow> tr_lr old
                   | Arm64 \<Rightarrow> core_read_ptr k (regs + off_ret (k_relocs k)))\<rparr>)"

end
