(* ===== verification/Unwinder_Stats.thy ===== *)
theory Unwinder_Stats
  imports Profiler_Types
begin

text \<open>
  The per-CPU statistics of src/src/bpf/profiler.h and the counters that the DEFINE\_COUNTER macro
  of src/src/bpf/shared\_maps.h generates. The result of \<open>bpf_map_lookup_elem(&percpu_stats, &zero)\<close>
  is an option: \<open>None\<close> is the NULL that every counter checks for. The locale \<open>define_counter\<close>
  is the contract of the macro (one field goes up by one modulo $2^{64}$, every other field
  stays); it is interpreted for each of the 22 counters.
\<close>

record unwinder_stats_t =
  total :: u64
  success_dwarf :: u64
  error_truncated :: u64
  error_unsupported_expression :: u64
  error_unsupported_frame_pointer_action :: u64
  error_unsupported_cfa_register :: u64
  error_previous_rsp_read :: u64
  error_previous_rsp_zero :: u64
  error_previous_rip_zero :: u64
  error_previous_rbp_read :: u64
  error_should_never_happen :: u64
  error_mapping_not_found :: u64
  error_mapping_does_not_contain_pc :: u64
  error_page_not_found :: u64
  error_binary_search_exhausted_iterations :: u64
  error_sending_new_process_event :: u64
  error_cfa_offset_did_not_fit :: u64
  error_rbp_offset_did_not_fit :: u64
  error_failure_sending_stack :: u64
  bp_non_zero_for_bottom_frame :: u64
  vdso_encountered :: u64
  jit_encountered :: u64

type_synonym percpu_stats = "unwinder_stats_t option"

section \<open>The counters\<close>

definition bump_unwind_total :: "percpu_stats \<Rightarrow> percpu_stats" where
  "bump_unwind_total st = map_option (\<lambda>s. s\<lparr>total := total s + 1\<rparr>) st"

definition bump_unwind_success_dwarf :: "percpu_stats \<Rightarrow> percpu_stats" where
  "bump_unwind_success_dwarf st = map_option (\<lambda>s. s\<lparr>success_dwarf := success_dwarf s + 1\<rparr>) st"

definition bump_unwind_error_truncated :: "percpu_stats \<Rightarrow> percpu_stats" where
  "bump_unwind_error_truncated st = map_option (\<lambda>s. s\<lparr>error_truncated := error_truncated s + 1\<rparr>) st"

definition bump_unwind_error_unsupported_expression :: "percpu_stats \<Rightarrow> percpu_stats" where
  "bump_unwind_error_unsupported_expression st = map_option (\<lambda>s. s\<lparr>error_unsupported_expression := error_unsupported_expression s + 1\<rparr>) st"

definition bump_unwind_error_unsupported_frame_pointer_action :: "percpu_stats \<Rightarrow> percpu_stats" where
  "bump_unwind_error_unsupported_frame_pointer_action st = map_option (\<lambda>s. s\<lparr>error_unsupported_frame_pointer_action := error_unsupported_frame_pointer_action s + 1\<rparr>) st"

definition bump_unwind_error_unsupported_cfa_register :: "percpu_stats \<Rightarrow> percpu_stats" where
  "bump_unwind_error_unsupported_cfa_register st = map_option (\<lambda>s. s\<lparr>error_unsupported_cfa_register := error_unsupported_cfa_register s + 1\<rparr>) st"

definition bump_unwind_error_previous_rsp_read :: "percpu_stats \<Rightarrow> percpu_stats" where
  "bump_unwind_error_previous_rsp_read st = map_option (\<lambda>s. s\<lparr>error_previous_rsp_read := error_previous_rsp_read s + 1\<rparr>) st"

definition bump_unwind_error_previous_rsp_zero :: "percpu_stats \<Rightarrow> percpu_stats" where
  "bump_unwind_error_previous_rsp_zero st = map_option (\<lambda>s. s\<lparr>error_previous_rsp_zero := error_previous_rsp_zero s + 1\<rparr>) st"

definition bump_unwind_error_previous_rip_zero :: "percpu_stats \<Rightarrow> percpu_stats" where
  "bump_unwind_error_previous_rip_zero st = map_option (\<lambda>s. s\<lparr>error_previous_rip_zero := error_previous_rip_zero s + 1\<rparr>) st"

definition bump_unwind_error_previous_rbp_read :: "percpu_stats \<Rightarrow> percpu_stats" where
  "bump_unwind_error_previous_rbp_read st = map_option (\<lambda>s. s\<lparr>error_previous_rbp_read := error_previous_rbp_read s + 1\<rparr>) st"

definition bump_unwind_error_should_never_happen :: "percpu_stats \<Rightarrow> percpu_stats" where
  "bump_unwind_error_should_never_happen st = map_option (\<lambda>s. s\<lparr>error_should_never_happen := error_should_never_happen s + 1\<rparr>) st"

definition bump_unwind_error_mapping_not_found :: "percpu_stats \<Rightarrow> percpu_stats" where
  "bump_unwind_error_mapping_not_found st = map_option (\<lambda>s. s\<lparr>error_mapping_not_found := error_mapping_not_found s + 1\<rparr>) st"

definition bump_unwind_error_mapping_does_not_contain_pc :: "percpu_stats \<Rightarrow> percpu_stats" where
  "bump_unwind_error_mapping_does_not_contain_pc st = map_option (\<lambda>s. s\<lparr>error_mapping_does_not_contain_pc := error_mapping_does_not_contain_pc s + 1\<rparr>) st"

definition bump_unwind_error_page_not_found :: "percpu_stats \<Rightarrow> percpu_stats" where
  "bump_unwind_error_page_not_found st = map_option (\<lambda>s. s\<lparr>error_page_not_found := error_page_not_found s + 1\<rparr>) st"

definition bump_unwind_error_binary_search_exhausted_iterations :: "percpu_stats \<Rightarrow> percpu_stats" where
  "bump_unwind_error_binary_search_exhausted_iterations st = map_option (\<lambda>s. s\<lparr>error_binary_search_exhausted_iterations := error_binary_search_exhausted_iterations s + 1\<rparr>) st"

definition bump_unwind_error_sending_new_process_event :: "percpu_stats \<Rightarrow> percpu_stats" where
  "bump_unwind_error_sending_new_process_event st = map_option (\<lambda>s. s\<lparr>error_sending_new_process_event := error_sending_new_process_event s + 1\<rparr>) st"

definition bump_unwind_error_cfa_offset_did_not_fit :: "percpu_stats \<Rightarrow> percpu_stats" where
  "bump_unwind_error_cfa_offset_did_not_fit st = map_option (\<lambda>s. s\<lparr>error_cfa_offset_did_not_fit := error_cfa_offset_did_not_fit s + 1\<rparr>) st"

definition bump_unwind_error_rbp_offset_did_not_fit :: "percpu_stats \<Rightarrow> percpu_stats" where
  "bump_unwind_error_rbp_offset_did_not_fit st = map_option (\<lambda>s. s\<lparr>error_rbp_offset_did_not_fit := error_rbp_offset_did_not_fit s + 1\<rparr>) st"

definition bump_unwind_error_failure_sending_stack :: "percpu_stats \<Rightarrow> percpu_stats" where
  "bump_unwind_error_failure_sending_stack st = map_option (\<lambda>s. s\<lparr>error_failure_sending_stack := error_failure_sending_stack s + 1\<rparr>) st"

definition bump_unwind_bp_non_zero_for_bottom_frame :: "percpu_stats \<Rightarrow> percpu_stats" where
  "bump_unwind_bp_non_zero_for_bottom_frame st = map_option (\<lambda>s. s\<lparr>bp_non_zero_for_bottom_frame := bp_non_zero_for_bottom_frame s + 1\<rparr>) st"

definition bump_unwind_vdso_encountered :: "percpu_stats \<Rightarrow> percpu_stats" where
  "bump_unwind_vdso_encountered st = map_option (\<lambda>s. s\<lparr>vdso_encountered := vdso_encountered s + 1\<rparr>) st"

definition bump_unwind_jit_encountered :: "percpu_stats \<Rightarrow> percpu_stats" where
  "bump_unwind_jit_encountered st = map_option (\<lambda>s. s\<lparr>jit_encountered := jit_encountered s + 1\<rparr>) st"

text \<open>All counters in declaration order.\<close>

definition stats_vector :: "unwinder_stats_t \<Rightarrow> u64 list" where
  "stats_vector s =
     [total s,
      success_dwarf s,
      error_truncated s,
      error_unsupported_expression s,
      error_unsupported_frame_pointer_action s,
      error_unsupported_cfa_register s,
      error_previous_rsp_read s,
      error_previous_rsp_zero s,
      error_previous_rip_zero s,
      error_previous_rbp_read s,
      error_should_never_happen s,
      error_mapping_not_found s,
      error_mapping_does_not_contain_pc s,
      error_page_not_found s,
      error_binary_search_exhausted_iterations s,
      error_sending_new_process_event s,
      error_cfa_offset_did_not_fit s,
      error_rbp_offset_did_not_fit s,
      error_failure_sending_stack s,
      bp_non_zero_for_bottom_frame s,
      vdso_encountered s,
      jit_encountered s]"

lemma length_stats_vector [simp]: "length (stats_vector s) = 22"
  by (simp add: stats_vector_def)

lemma stats_vector_inject: "stats_vector s = stats_vector t \<Longrightarrow> s = t"
  by (simp add: stats_vector_def)

section \<open>The contract of DEFINE\_COUNTER\<close>

locale define_counter =
  fixes get :: "unwinder_stats_t \<Rightarrow> u64"
    and bump :: "percpu_stats \<Rightarrow> percpu_stats"
    and slot :: nat
  assumes slot_bound: "slot < 22"
    and get_slot: "get s = stats_vector s ! slot"
    and bump_None: "bump None = None"
    and bump_Some: "\<exists>t. bump (Some s) = Some t \<and>
          stats_vector t = (stats_vector s)[slot := stats_vector s ! slot + 1]"
begin

lemma bump_get: "bump (Some s) = Some t \<Longrightarrow> get t = get s + 1"
  using bump_Some [of s] slot_bound by (auto simp: get_slot)

lemma bump_frame:
  assumes "bump (Some s) = Some t" "i \<noteq> slot"
  shows "stats_vector t ! i = stats_vector s ! i"
proof -
  have "stats_vector t = (stats_vector s)[slot := stats_vector s ! slot + 1]"
    using bump_Some [of s] assms(1) by auto
  then show ?thesis using assms(2) by simp
qed

lemma bump_defined_iff: "(bump st = None) = (st = None)"
  using bump_None bump_Some by (cases st) force+

lemma bumps_count: "(bump ^^ n) (Some s) = Some t \<Longrightarrow> get t = get s + of_nat n"
proof (induction n arbitrary: t)
  case 0
  then show ?case by simp
next
  case (Suc n)
  then obtain u where u: "(bump ^^ n) (Some s) = Some u"
    by (cases "(bump ^^ n) (Some s)") (auto simp: bump_None)
  with Suc have "get t = get u + 1" by (intro bump_get) simp
  with Suc.IH [OF u] show ?case by simp
qed

end

lemmas bump_defs =
  bump_unwind_total_def
  bump_unwind_success_dwarf_def
  bump_unwind_error_truncated_def
  bump_unwind_error_unsupported_expression_def
  bump_unwind_error_unsupported_frame_pointer_action_def
  bump_unwind_error_unsupported_cfa_register_def
  bump_unwind_error_previous_rsp_read_def
  bump_unwind_error_previous_rsp_zero_def
  bump_unwind_error_previous_rip_zero_def
  bump_unwind_error_previous_rbp_read_def
  bump_unwind_error_should_never_happen_def
  bump_unwind_error_mapping_not_found_def
  bump_unwind_error_mapping_does_not_contain_pc_def
  bump_unwind_error_page_not_found_def
  bump_unwind_error_binary_search_exhausted_iterations_def
  bump_unwind_error_sending_new_process_event_def
  bump_unwind_error_cfa_offset_did_not_fit_def
  bump_unwind_error_rbp_offset_did_not_fit_def
  bump_unwind_error_failure_sending_stack_def
  bump_unwind_bp_non_zero_for_bottom_frame_def
  bump_unwind_vdso_encountered_def
  bump_unwind_jit_encountered_def

interpretation total: define_counter total bump_unwind_total 0
  by unfold_locales (simp_all add: bump_unwind_total_def stats_vector_def)

interpretation success_dwarf: define_counter success_dwarf bump_unwind_success_dwarf 1
  by unfold_locales (simp_all add: bump_unwind_success_dwarf_def stats_vector_def)

interpretation error_truncated: define_counter error_truncated bump_unwind_error_truncated 2
  by unfold_locales (simp_all add: bump_unwind_error_truncated_def stats_vector_def)

interpretation error_unsupported_expression: define_counter error_unsupported_expression bump_unwind_error_unsupported_expression 3
  by unfold_locales (simp_all add: bump_unwind_error_unsupported_expression_def stats_vector_def)

interpretation error_unsupported_frame_pointer_action: define_counter error_unsupported_frame_pointer_action bump_unwind_error_unsupported_frame_pointer_action 4
  by unfold_locales (simp_all add: bump_unwind_error_unsupported_frame_pointer_action_def stats_vector_def)

interpretation error_unsupported_cfa_register: define_counter error_unsupported_cfa_register bump_unwind_error_unsupported_cfa_register 5
  by unfold_locales (simp_all add: bump_unwind_error_unsupported_cfa_register_def stats_vector_def)

interpretation error_previous_rsp_read: define_counter error_previous_rsp_read bump_unwind_error_previous_rsp_read 6
  by unfold_locales (simp_all add: bump_unwind_error_previous_rsp_read_def stats_vector_def)

interpretation error_previous_rsp_zero: define_counter error_previous_rsp_zero bump_unwind_error_previous_rsp_zero 7
  by unfold_locales (simp_all add: bump_unwind_error_previous_rsp_zero_def stats_vector_def)

interpretation error_previous_rip_zero: define_counter error_previous_rip_zero bump_unwind_error_previous_rip_zero 8
  by unfold_locales (simp_all add: bump_unwind_error_previous_rip_zero_def stats_vector_def)

interpretation error_previous_rbp_read: define_counter error_previous_rbp_read bump_unwind_error_previous_rbp_read 9
  by unfold_locales (simp_all add: bump_unwind_error_previous_rbp_read_def stats_vector_def)

interpretation error_should_never_happen: define_counter error_should_never_happen bump_unwind_error_should_never_happen 10
  by unfold_locales (simp_all add: bump_unwind_error_should_never_happen_def stats_vector_def)

interpretation error_mapping_not_found: define_counter error_mapping_not_found bump_unwind_error_mapping_not_found 11
  by unfold_locales (simp_all add: bump_unwind_error_mapping_not_found_def stats_vector_def)

interpretation error_mapping_does_not_contain_pc: define_counter error_mapping_does_not_contain_pc bump_unwind_error_mapping_does_not_contain_pc 12
  by unfold_locales (simp_all add: bump_unwind_error_mapping_does_not_contain_pc_def stats_vector_def)

interpretation error_page_not_found: define_counter error_page_not_found bump_unwind_error_page_not_found 13
  by unfold_locales (simp_all add: bump_unwind_error_page_not_found_def stats_vector_def)

interpretation error_binary_search_exhausted_iterations: define_counter error_binary_search_exhausted_iterations bump_unwind_error_binary_search_exhausted_iterations 14
  by unfold_locales (simp_all add: bump_unwind_error_binary_search_exhausted_iterations_def stats_vector_def)

interpretation error_sending_new_process_event: define_counter error_sending_new_process_event bump_unwind_error_sending_new_process_event 15
  by unfold_locales (simp_all add: bump_unwind_error_sending_new_process_event_def stats_vector_def)

interpretation error_cfa_offset_did_not_fit: define_counter error_cfa_offset_did_not_fit bump_unwind_error_cfa_offset_did_not_fit 16
  by unfold_locales (simp_all add: bump_unwind_error_cfa_offset_did_not_fit_def stats_vector_def)

interpretation error_rbp_offset_did_not_fit: define_counter error_rbp_offset_did_not_fit bump_unwind_error_rbp_offset_did_not_fit 17
  by unfold_locales (simp_all add: bump_unwind_error_rbp_offset_did_not_fit_def stats_vector_def)

interpretation error_failure_sending_stack: define_counter error_failure_sending_stack bump_unwind_error_failure_sending_stack 18
  by unfold_locales (simp_all add: bump_unwind_error_failure_sending_stack_def stats_vector_def)

interpretation bp_non_zero_for_bottom_frame: define_counter bp_non_zero_for_bottom_frame bump_unwind_bp_non_zero_for_bottom_frame 19
  by unfold_locales (simp_all add: bump_unwind_bp_non_zero_for_bottom_frame_def stats_vector_def)

interpretation vdso_encountered: define_counter vdso_encountered bump_unwind_vdso_encountered 20
  by unfold_locales (simp_all add: bump_unwind_vdso_encountered_def stats_vector_def)

interpretation jit_encountered: define_counter jit_encountered bump_unwind_jit_encountered 21
  by unfold_locales (simp_all add: bump_unwind_jit_encountered_def stats_vector_def)

lemmas bump_frames [frame_simps] =
  total.bump_defined_iff
  success_dwarf.bump_defined_iff
  error_truncated.bump_defined_iff
  error_unsupported_expression.bump_defined_iff
  error_unsupported_frame_pointer_action.bump_defined_iff
  error_unsupported_cfa_register.bump_defined_iff
  error_previous_rsp_read.bump_defined_iff
  error_previous_rsp_zero.bump_defined_iff
  error_previous_rip_zero.bump_defined_iff
  error_previous_rbp_read.bump_defined_iff
  error_should_never_happen.bump_defined_iff
  error_mapping_not_found.bump_defined_iff
  error_mapping_does_not_contain_pc.bump_defined_iff
  error_page_not_found.bump_defined_iff
  error_binary_search_exhausted_iterations.bump_defined_iff
  error_sending_new_process_event.bump_defined_iff
  error_cfa_offset_did_not_fit.bump_defined_iff
  error_rbp_offset_did_not_fit.bump_defined_iff
  error_failure_sending_stack.bump_defined_iff
  bp_non_zero_for_bottom_frame.bump_defined_iff
  vdso_encountered.bump_defined_iff
  jit_encountered.bump_defined_iff

section \<open>Properties\<close>

definition all_counters :: "(percpu_stats \<Rightarrow> percpu_stats) list" where
  "all_counters = [
     bump_unwind_total,
     bump_unwind_success_dwarf,
     bump_unwind_error_truncated,
     bump_unwind_error_unsupported_expression,
     bump_unwind_error_unsupported_frame_pointer_action,
     bump_unwind_error_unsupported_cfa_register,
     bump_unwind_error_previous_rsp_read,
     bump_unwind_error_previous_rsp_zero,
     bump_unwind_error_previous_rip_zero,
     bump_unwind_error_previous_rbp_read,
     bump_unwind_error_should_never_happen,
     bump_unwind_error_mapping_not_found,
     bump_unwind_error_mapping_does_not_contain_pc,
     bump_unwind_error_page_not_found,
     bump_unwind_error_binary_search_exhausted_iterations,
     bump_unwind_error_sending_new_process_event,
     bump_unwind_error_cfa_offset_did_not_fit,
     bump_unwind_error_rbp_offset_did_not_fit,
     bump_unwind_error_failure_sending_stack,
     bump_unwind_bp_non_zero_for_bottom_frame,
     bump_unwind_vdso_encountered,
     bump_unwind_jit_encountered]"

text \<open>
  Every counter function increments exactly its own member of unwinder\_stats\_t, by one modulo
  2 to the 64, in the order the structure declares them, keeps the 21 others, and does nothing when
  the lookup in percpu\_stats gives no entry.
\<close>

lemma counters_are_exact:
  "map (\<lambda>f. map_option stats_vector (f (Some st))) all_counters =
     map (\<lambda>i. Some ((stats_vector st)[i := stats_vector st ! i + 1])) [0..<length all_counters] \<and>
   map (\<lambda>f. f None) all_counters = replicate (length (stats_vector st)) None"
  by (simp add: all_counters_def bump_defs stats_vector_def upt_rec)

end
