(* ===== verification/Exec_Mappings.thy ===== *)
theory Exec_Mappings
  imports Profiler_Types
begin

text \<open>
  Mapping lookup: src/src/bpf/shared\_helpers.h and the \<open>exec_mappings\<close> map of
  src/src/bpf/shared\_maps.h. The map is a longest-prefix-match trie kept by the kernel; the
  programs only look keys up, so the model takes the lookup as a function. \<open>lpm_contract\<close> states
  what the kernel documents of it: the value of the longest stored prefix of the key's data bytes,
  bits counted from the most significant bit of the first byte. The lemmas show what the byte
  swaps of \<open>find_mapping\<close> achieve, namely that a stored prefix of \<open>32 + n\<close> bits means the same
  process and the same \<open>n\<close> leading bits of the address.
\<close>

section \<open>Keys\<close>

definition bswap32 :: "u32 \<Rightarrow> u32" where
  "bswap32 x = word_le (rev (bytes_le 4 x))"

definition bswap64 :: "u64 \<Rightarrow> u64" where
  "bswap64 x = word_le (rev (bytes_le 8 x))"

type_synonym mappings_lookup = "exec_mappings_key \<Rightarrow> mapping_t option"

definition find_mapping :: "mappings_lookup \<Rightarrow> s32 \<Rightarrow> u64 \<Rightarrow> mapping_t option" where
  "find_mapping exec_mappings pid pc =
     exec_mappings \<lparr>key_prefix_len = PREFIX_LEN, key_pid = bswap32 pid, key_data = bswap64 pc\<rparr>"

definition process_is_known :: "mappings_lookup \<Rightarrow> s32 \<Rightarrow> bool" where
  "process_is_known exec_mappings pid =
     (exec_mappings \<lparr>key_prefix_len = PREFIX_LEN, key_pid = bswap32 pid, key_data = 0\<rparr> \<noteq> None)"

section \<open>The trie\<close>

text \<open>The data bytes of a key as the kernel sees them, and their bits in trie order.\<close>

definition key_bytes :: "exec_mappings_key \<Rightarrow> u8 list" where
  "key_bytes key = bytes_le 4 (key_pid key) @ bytes_le 8 (key_data key)"

definition byte_bits :: "u8 \<Rightarrow> bool list" where
  "byte_bits b = map (bit b) (rev [0..<8])"

definition key_bits :: "exec_mappings_key \<Rightarrow> bool list" where
  "key_bits key = concat (map byte_bits (key_bytes key))"

text \<open>A trie holds a value per stored prefix; the lookup takes the longest one.\<close>

type_synonym lpm_trie = "bool list \<rightharpoonup> mapping_t"

fun longest_match :: "lpm_trie \<Rightarrow> nat \<Rightarrow> bool list \<Rightarrow> mapping_t option" where
  "longest_match t 0 bits = t []"
| "longest_match t (Suc n) bits =
     (case t (take (Suc n) bits) of Some v \<Rightarrow> Some v | None \<Rightarrow> longest_match t n bits)"

definition lpm_contract :: "lpm_trie \<Rightarrow> mappings_lookup \<Rightarrow> bool" where
  "lpm_contract t lookup \<longleftrightarrow>
     (\<forall>key. lookup key = longest_match t (unat (key_prefix_len key)) (key_bits key))"

definition trie_lookup :: "lpm_trie \<Rightarrow> mappings_lookup" where
  "trie_lookup t key = longest_match t (unat (key_prefix_len key)) (key_bits key)"

lemma trie_lookup_contract: "lpm_contract t (trie_lookup t)"
  by (simp add: lpm_contract_def trie_lookup_def)

lemma longest_match_None_iff:
  "longest_match t n bits = None \<longleftrightarrow> (\<forall>i \<le> n. t (take i bits) = None)"
  by (induction n) (auto simp: le_Suc_eq split: option.splits)

lemma longest_match_Some_iff:
  "longest_match t n bits = Some v \<longleftrightarrow>
     (\<exists>i \<le> n. t (take i bits) = Some v \<and> (\<forall>j. i < j \<and> j \<le> n \<longrightarrow> t (take j bits) = None))"
proof (induction n)
  case 0
  then show ?case by simp
next
  case (Suc n)
  show ?case
  proof (cases "t (take (Suc n) bits)")
    case None
    with Suc show ?thesis by (auto simp: le_Suc_eq)
  next
    case (Some w)
    then show ?thesis by (auto simp: le_Suc_eq)
  qed
qed

lemma longest_match_cong:
  "(\<And>i. i \<le> n \<Longrightarrow> t (take i bits) = t' (take i bits)) \<Longrightarrow> longest_match t n bits = longest_match t' n bits"
  by (induction n) (auto split: option.split)

lemma longest_match_agree_above:
  assumes "longest_match t n q = Some v" "j \<le> n" "k < j" "t (take j q) \<noteq> None"
    and "\<And>i. k < i \<Longrightarrow> i \<le> n \<Longrightarrow> t' (take i q) = t (take i q)"
  shows "longest_match t' n q = Some v"
  using assms
proof (induction n)
  case (Suc n)
  have e: "t' (take (Suc n) q) = t (take (Suc n) q)" using Suc.prems(2,3,5) by simp
  show ?case
  proof (cases "t (take (Suc n) q)")
    case None
    with Suc.prems have "j \<le> n" by (auto simp: le_Suc_eq)
    with Suc None e show ?thesis by simp
  next
    case (Some w)
    with Suc.prems(1) e show ?thesis by simp
  qed
qed simp

section \<open>Byte swaps put the key in network order\<close>

text \<open>The bits of a word from the most significant one down.\<close>

definition msb_bits :: "'a :: len word \<Rightarrow> bool list" where
  "msb_bits x = map (bit x) (rev [0..<LENGTH('a)])"

lemma length_msb_bits [simp]: "length (msb_bits (x :: 'a :: len word)) = LENGTH('a)"
  by (simp add: msb_bits_def)

lemma bytes_le_word_le:
  assumes "length bs = n" "LENGTH('a :: len) = 8 * n"
  shows "bytes_le n (word_le bs :: 'a word) = bs"
proof (rule nth_equalityI)
  show "length (bytes_le n (word_le bs :: 'a word)) = length bs" using assms by simp
next
  fix i
  assume "i < length (bytes_le n (word_le bs :: 'a word))"
  then have i: "i < n" by simp
  show "bytes_le n (word_le bs :: 'a word) ! i = bs ! i"
  proof (rule bit_word_eqI)
    fix k
    assume "k < LENGTH(8)"
    then have k: "k < 8" by simp
    have "8 * i + k < LENGTH('a)" using i k assms(2) by simp
    then show "bit (bytes_le n (word_le bs :: 'a word) ! i) k = bit (bs ! i) k"
      using i k assms(1) by (simp add: bytes_le_def bit_ucast_iff bit_drop_bit_eq bit_word_le)
  qed
qed

lemma bytes_bswap32: "bytes_le 4 (bswap32 x) = rev (bytes_le 4 x)"
  by (simp add: bswap32_def bytes_le_word_le)

lemma bytes_bswap64: "bytes_le 8 (bswap64 x) = rev (bytes_le 8 x)"
  by (simp add: bswap64_def bytes_le_word_le)

lemma bswap_inverse [simp]: "bswap32 (bswap32 x) = x" "bswap64 (bswap64 y) = y"
proof -
  show "bswap32 (bswap32 x) = x"
    unfolding bswap32_def [of "bswap32 x"] by (simp add: bytes_bswap32)
  show "bswap64 (bswap64 y) = y"
    unfolding bswap64_def [of "bswap64 y"] by (simp add: bytes_bswap64)
qed

lemma byte_bits_ucast: "8 \<le> LENGTH('a :: len) \<Longrightarrow> byte_bits (ucast (x :: 'a word)) = rev (map (bit x) [0..<8])"
  by (auto simp: byte_bits_def bit_ucast_iff rev_map)

lemma map_bit_drop_bit: "map (bit (drop_bit 8 x)) [0..<n] = map (bit x) [8..<8 + n]"
  by (rule nth_equalityI) (simp_all add: bit_drop_bit_eq)

lemma big_endian_bits:
  fixes x :: "'a :: len word"
  assumes "8 \<le> LENGTH('a)"
  shows "concat (map byte_bits (rev (bytes_le n x))) = rev (map (bit x) [0..<8 * n])"
proof (induction n arbitrary: x)
  case 0
  then show ?case by (simp add: bytes_le_def)
next
  case (Suc n)
  have "[0..<8 * Suc n] = [0..<8] @ [8..<8 + 8 * n]"
    using upt_add_eq_append [of 0 8 "8 * n"] by simp
  then have "rev (map (bit x) [0..<8 * Suc n])
      = rev (map (bit (drop_bit 8 x)) [0..<8 * n]) @ rev (map (bit x) [0..<8])"
    by (simp add: map_bit_drop_bit)
  then show ?case
    using Suc.IH [of "drop_bit 8 x"] by (simp add: bytes_le_Suc byte_bits_ucast assms)
qed

lemma big_endian_bits_32: "concat (map byte_bits (rev (bytes_le 4 (x :: u32)))) = msb_bits x"
  using big_endian_bits [of 4 x] by (simp add: msb_bits_def rev_map)

lemma big_endian_bits_64: "concat (map byte_bits (rev (bytes_le 8 (x :: u64)))) = msb_bits x"
  using big_endian_bits [of 8 x] by (simp add: msb_bits_def rev_map)

lemma key_bits_bswapped:
  "key_bits \<lparr>key_prefix_len = n, key_pid = bswap32 pid, key_data = bswap64 pc\<rparr>
     = msb_bits pid @ msb_bits pc"
  by (simp add: key_bits_def key_bytes_def bytes_bswap32 bytes_bswap64 big_endian_bits_32
      big_endian_bits_64)

lemma bswap64_zero [simp]: "bswap64 0 = 0"
  by (simp add: bswap64_def bytes_le_def upt_rec)

text \<open>What the two lookups are, in terms of the stored prefixes.\<close>

lemma find_mapping_trie:
  assumes "lpm_contract t exec_mappings"
  shows "find_mapping exec_mappings pid pc = longest_match t 96 (msb_bits pid @ msb_bits pc)"
  using assms by (simp add: find_mapping_def lpm_contract_def key_bits_bswapped)

lemma process_is_known_trie:
  assumes "lpm_contract t exec_mappings"
  shows "process_is_known exec_mappings pid \<longleftrightarrow>
     longest_match t 96 (msb_bits pid @ msb_bits (0 :: u64)) \<noteq> None"
  using find_mapping_trie [OF assms, of pid 0]
  by (simp add: process_is_known_def find_mapping_def)

section \<open>Properties\<close>

text \<open>The prefix user space stores for a block of \<open>n\<close> leading address bits of a process.\<close>

definition stored_prefix :: "s32 \<Rightarrow> u64 \<Rightarrow> nat \<Rightarrow> bool list" where
  "stored_prefix pid addr n = msb_bits pid @ take n (msb_bits addr)"

lemma msb_bits_inject [simp]: "msb_bits x = msb_bits y \<longleftrightarrow> x = y"
proof
  assume "msb_bits x = msb_bits y"
  then have "bit x i = bit y i" if "i < LENGTH('a)" for i
    using that by (simp add: msb_bits_def)
  then show "x = y" by (rule bit_word_eqI)
qed simp

lemma take_msb_bits:
  fixes x :: "'a :: len word"
  assumes "n \<le> LENGTH('a)"
  shows "take n (msb_bits x) = map (bit x) (rev [LENGTH('a) - n..<LENGTH('a)])"
  using assms by (simp add: msb_bits_def take_map take_rev drop_upt)

lemma take_msb_bits_eq_iff:
  fixes x y :: "'a :: len word"
  assumes "n \<le> LENGTH('a)"
  shows "take n (msb_bits x) = take n (msb_bits y) \<longleftrightarrow>
     drop_bit (LENGTH('a) - n) x = drop_bit (LENGTH('a) - n) y"
proof -
  let ?k = "LENGTH('a) - n"
  have "take n (msb_bits x) = take n (msb_bits y) \<longleftrightarrow>
      (\<forall>i. ?k \<le> i \<and> i < LENGTH('a) \<longrightarrow> bit x i = bit y i)"
    using assms by (auto simp: take_msb_bits)
  also have "\<dots> \<longleftrightarrow> (\<forall>j < n. bit x (?k + j) = bit y (?k + j))"
  proof (rule iffI; intro allI impI)
    fix j
    assume "\<forall>i. ?k \<le> i \<and> i < LENGTH('a) \<longrightarrow> bit x i = bit y i" and "j < n"
    moreover have "?k + j < LENGTH('a)" using \<open>j < n\<close> assms by linarith
    ultimately show "bit x (?k + j) = bit y (?k + j)" by simp
  next
    fix i
    assume a: "\<forall>j < n. bit x (?k + j) = bit y (?k + j)" and i: "?k \<le> i \<and> i < LENGTH('a)"
    then have "i - ?k < n" "?k + (i - ?k) = i" by auto
    with a show "bit x i = bit y i" by metis
  qed
  also have "\<dots> \<longleftrightarrow> drop_bit ?k x = drop_bit ?k y"
  proof
    assume a: "\<forall>j < n. bit x (?k + j) = bit y (?k + j)"
    show "drop_bit ?k x = drop_bit ?k y"
    proof (rule bit_word_eqI)
      fix j
      show "bit (drop_bit ?k x) j = bit (drop_bit ?k y) j"
        using a by (cases "j < n") (auto simp: bit_drop_bit_eq dest: bit_imp_le_length)
    qed
  next
    assume "drop_bit ?k x = drop_bit ?k y"
    then show "\<forall>j < n. bit x (?k + j) = bit y (?k + j)"
      by (metis bit_drop_bit_eq comp_apply)
  qed
  finally show ?thesis .
qed

lemma take_query_eq_stored_prefix:
  assumes "i \<le> 96" "n \<le> 64"
  shows "take i (msb_bits pid @ msb_bits pc) = stored_prefix pid' addr n \<longleftrightarrow>
     i = 32 + n \<and> pid = pid' \<and> drop_bit (64 - n) pc = drop_bit (64 - n) addr"
proof -
  let ?q = "msb_bits pid @ msb_bits pc"
  have len: "length (take i ?q) = i" "length (stored_prefix pid' addr n) = 32 + n"
    using assms by (simp_all add: stored_prefix_def)
  have "take i ?q = stored_prefix pid' addr n \<longleftrightarrow> i = 32 + n \<and> take (32 + n) ?q = stored_prefix pid' addr n"
    using len by metis
  then show ?thesis
    using assms take_msb_bits_eq_iff [of n pc addr] by (auto simp: stored_prefix_def)
qed

text \<open>
  The special entry user space stores for every process it knows (\<open>add_bpf_process\<close> in
  src/src/profiler.rs): the 32 bits of the pid, with an empty address range.
\<close>

definition process_prefix :: "s32 \<Rightarrow> bool list" where
  "process_prefix pid = stored_prefix pid 0 0"

lemma process_prefix_eq: "process_prefix pid = msb_bits pid"
  by (simp add: process_prefix_def stored_prefix_def)

text \<open>
  A stored pid prefix makes a process known, and every mapping lookup of it finds an entry.
\<close>

lemma registered_process_is_known:
  assumes "lpm_contract t exec_mappings" "t (process_prefix pid) = Some m"
  shows "process_is_known exec_mappings pid \<and> find_mapping exec_mappings pid pc \<noteq> None"
proof -
  have "t (take 32 (msb_bits pid @ msb_bits q)) = Some m" for q :: u64
    using assms(2) by (simp add: process_prefix_eq)
  then have "longest_match t 96 (msb_bits pid @ msb_bits q) \<noteq> None" for q :: u64
    by (auto simp: longest_match_None_iff intro!: exI [of _ 32])
  then show ?thesis
    using assms(1) by (simp add: process_is_known_trie find_mapping_trie)
qed

text \<open>The value user space stores for a process entry.\<close>

definition process_entry :: mapping_t where
  "process_entry = \<lparr>m_executable_id = 0, m_load_address = 0, m_begin = 0xb40c, m_end = 0xb40c,
     m_type = 0\<rparr>"

lemma registered_process_is_known_example:
  "process_is_known (trie_lookup [process_prefix 42 \<mapsto> process_entry]) 42 \<and>
   find_mapping (trie_lookup [process_prefix 42 \<mapsto> process_entry]) 42 0x401000 \<noteq> None"
  using registered_process_is_known [OF trie_lookup_contract, of "[process_prefix 42 \<mapsto> process_entry]" 42]
  by simp

end
