(* ===== verification/Binary_Search.thy ===== *)
theory Binary_Search
  imports Profiler_Types
begin

text \<open>
  \<open>find_offset_for_pc\<close> of src/src/bpf/profiler.bpf.c: the bounded binary search for the unwind
  row that covers a program counter, on the 64-bit and 32-bit words of the source. The
  reference is \<open>last_row_le\<close>, a linear scan; the locale \<open>sorted_pages\<close> states what the search
  needs of an unwind table, and the interpretation provides it for the arrays of rows that user
  space writes into the inner maps.
\<close>

section \<open>The search\<close>

text \<open>An inner map: the result of \<open>bpf_map_lookup_elem(inner_map, &index)\<close> per index.\<close>

type_synonym inner_map = "u32 \<Rightarrow> stack_unwind_row_t option"

fun find_offset_loop :: "nat \<Rightarrow> inner_map \<Rightarrow> u16 \<Rightarrow> u64 \<Rightarrow> u64 \<Rightarrow> u64 \<Rightarrow> u64" where
  "find_offset_loop 0 inner pc left right found = BINARY_SEARCH_EXHAUSTED_ITERATIONS"
| "find_offset_loop (Suc i) inner pc left right found =
     (if left \<ge> right then found
      else let mid = ucast ((left + right) div 2) :: u32 in
        (case inner mid of
           None \<Rightarrow> BINARY_SEARCH_DEFAULT
         | Some row \<Rightarrow>
             if pc_low row \<le> pc
             then find_offset_loop i inner pc (ucast (mid + 1)) right (ucast mid)
             else find_offset_loop i inner pc left (ucast mid) found))"

definition find_offset_for_pc :: "inner_map \<Rightarrow> u16 \<Rightarrow> u64 \<Rightarrow> u64 \<Rightarrow> u64" where
  "find_offset_for_pc inner pc left right =
     find_offset_loop MAX_BINARY_SEARCH_DEPTH inner pc left right BINARY_SEARCH_DEFAULT"

text \<open>Unrolling on numerals, for evaluation.\<close>

lemma find_offset_loop_numeral:
  "find_offset_loop (numeral n) inner pc left right found =
     (if left \<ge> right then found
      else let mid = ucast ((left + right) div 2) :: u32 in
        (case inner mid of
           None \<Rightarrow> BINARY_SEARCH_DEFAULT
         | Some row \<Rightarrow>
             if pc_low row \<le> pc
             then find_offset_loop (pred_numeral n) inner pc (ucast (mid + 1)) right (ucast mid)
             else find_offset_loop (pred_numeral n) inner pc left (ucast mid) found))"
  by (simp add: numeral_eq_Suc)

declare find_offset_loop.simps(2) [simp del]

section \<open>Reference: linear scan\<close>

definition row_le :: "inner_map \<Rightarrow> u16 \<Rightarrow> nat \<Rightarrow> bool" where
  "row_le inner pc i = (case inner (of_nat i) of None \<Rightarrow> False | Some row \<Rightarrow> pc_low row \<le> pc)"

fun last_row_le :: "inner_map \<Rightarrow> u16 \<Rightarrow> nat \<Rightarrow> nat \<Rightarrow> nat option" where
  "last_row_le inner pc lo 0 = None"
| "last_row_le inner pc lo (Suc hi) =
     (if lo \<le> hi then (if row_le inner pc hi then Some hi else last_row_le inner pc lo hi)
      else None)"

lemma last_row_le_numeral:
  "last_row_le inner pc lo (numeral n) =
     (let hi = pred_numeral n in
      if lo \<le> hi then (if row_le inner pc hi then Some hi else last_row_le inner pc lo hi)
      else None)"
  by (simp add: numeral_eq_Suc)

lemma last_row_le_Some_iff:
  "last_row_le inner pc lo hi = Some k \<longleftrightarrow>
     lo \<le> k \<and> k < hi \<and> row_le inner pc k \<and> (\<forall>j. k < j \<and> j < hi \<longrightarrow> \<not> row_le inner pc j)"
proof (induction hi)
  case 0
  then show ?case by simp
next
  case (Suc hi)
  then show ?case
    by (cases "lo \<le> hi") (auto simp: less_Suc_eq)
qed

lemma last_row_le_None_iff:
  "last_row_le inner pc lo hi = None \<longleftrightarrow> (\<forall>j. lo \<le> j \<and> j < hi \<longrightarrow> \<not> row_le inner pc j)"
  by (induction hi) (auto simp: less_Suc_eq)

section \<open>Word arithmetic of one iteration\<close>

lemma unat_of_nat_64: "n < 2 ^ 64 \<Longrightarrow> unat (of_nat n :: u64) = n"
  by (simp add: unat_of_nat)

lemma unat_of_nat_32: "n < 2 ^ 32 \<Longrightarrow> unat (of_nat n :: u32) = n"
  by (simp add: unat_of_nat)

lemma ge_of_nat_64:
  "l < 2 ^ 64 \<Longrightarrow> r < 2 ^ 64 \<Longrightarrow> ((of_nat l :: u64) \<ge> of_nat r) = (l \<ge> r)"
  by (simp add: word_le_nat_alt unat_of_nat_64)

lemma mid_word:
  assumes "l < r" "r < 2 ^ 32"
  shows "ucast ((of_nat l + of_nat r :: u64) div 2) = (of_nat ((l + r) div 2) :: u32)"
proof -
  have "unat ((of_nat l + of_nat r :: u64) div 2) = (l + r) div 2"
    using assms by (simp add: unat_div unat_word_ariths unat_of_nat_64)
  then show ?thesis
    using assms by (simp add: word_unat_eq_iff unat_ucast_64_32 unat_of_nat)
qed

lemma mid_next_word:
  assumes "k < 2 ^ 32 - 1"
  shows "(ucast (of_nat k + 1 :: u32) :: u64) = of_nat (Suc k)"
  using assms by (simp add: word_unat_eq_iff unat_word_ariths unat_of_nat_32 unat_of_nat)

lemma mid_found_word:
  assumes "k < 2 ^ 32"
  shows "(ucast (of_nat k :: u32) :: u64) = of_nat k"
  using assms by (simp add: word_unat_eq_iff unat_of_nat_32 unat_of_nat)

text \<open>One iteration with the indices as natural numbers.\<close>

lemma find_offset_loop_done:
  "r \<le> l \<Longrightarrow> l < 2 ^ 32 \<Longrightarrow>
   find_offset_loop (Suc i) inner pc (of_nat l) (of_nat r) f = f"
  by (simp add: find_offset_loop.simps ge_of_nat_64)

lemma find_offset_loop_step:
  assumes "l < r" "r < 2 ^ 32"
  shows "find_offset_loop (Suc i) inner pc (of_nat l) (of_nat r) f =
    (let m = (l + r) div 2 in
      case inner (of_nat m) of
        None \<Rightarrow> BINARY_SEARCH_DEFAULT
      | Some row \<Rightarrow>
          if pc_low row \<le> pc then find_offset_loop i inner pc (of_nat (Suc m)) (of_nat r) (of_nat m)
          else find_offset_loop i inner pc (of_nat l) (of_nat m) f)"
proof -
  let ?m = "(l + r) div 2"
  have "\<not> (of_nat l :: u64) \<ge> of_nat r" using assms by (simp add: ge_of_nat_64)
  moreover have "?m < 2 ^ 32 - 1" using assms by simp
  ultimately show ?thesis
    using mid_word [OF assms] mid_next_word [of ?m] mid_found_word [of ?m]
    by (simp add: find_offset_loop.simps Let_def split: option.split)
qed

section \<open>Bounds: the search ends within its iterations\<close>

lemma find_offset_loop_bounded:
  assumes "r - l < 2 ^ i" "l \<le> r" "r < 2 ^ 32"
  shows "find_offset_loop (Suc i) inner pc (of_nat l) (of_nat r) f
     \<in> insert f (insert BINARY_SEARCH_DEFAULT (of_nat ` {l..<r}))"
  using assms
proof (induction i arbitrary: l r f)
  case 0
  then have "r \<le> l" "l < 2 ^ 32" by simp_all
  then show ?case using find_offset_loop_done [of r l 0] by simp
next
  case (Suc i)
  show ?case
  proof (cases "l < r")
    case False
    with Suc.prems show ?thesis using find_offset_loop_done [of r l "Suc i"] by simp
  next
    case True
    let ?m = "(l + r) div 2"
    have m: "l \<le> ?m" "?m < r" using True by simp_all
    have right: "find_offset_loop (Suc i) inner pc (of_nat (Suc ?m)) (of_nat r) (of_nat ?m)
        \<in> insert (of_nat ?m) (insert BINARY_SEARCH_DEFAULT (of_nat ` {Suc ?m..<r}))"
      using Suc.prems m by (intro Suc.IH) auto
    have left: "find_offset_loop (Suc i) inner pc (of_nat l) (of_nat ?m) f
        \<in> insert f (insert BINARY_SEARCH_DEFAULT (of_nat ` {l..<?m}))"
      using Suc.prems m by (intro Suc.IH) auto
    have sub: "of_nat ` {Suc ?m..<r} \<subseteq> of_nat ` {l..<r}" "of_nat ` {l..<?m} \<subseteq> of_nat ` {l..<r}"
      "of_nat ?m \<in> (of_nat ` {l..<r} :: u64 set)"
      using m by auto
    show ?thesis
      unfolding find_offset_loop_step [OF True Suc.prems(3)] Let_def
      using left right sub by (auto split: option.split simp del: of_nat_Suc)
  qed
qed

section \<open>Functional correctness\<close>

lemma last_row_le_right:
  assumes "l \<le> m" "m < r" "row_le inner pc m"
  shows "last_row_le inner pc l r =
     (case last_row_le inner pc (Suc m) r of None \<Rightarrow> Some m | Some k \<Rightarrow> Some k)"
proof (cases "last_row_le inner pc (Suc m) r")
  case None
  then have "\<forall>j. m < j \<and> j < r \<longrightarrow> \<not> row_le inner pc j"
    by (simp add: last_row_le_None_iff Suc_le_eq)
  with assms have "last_row_le inner pc l r = Some m" by (simp add: last_row_le_Some_iff)
  with None show ?thesis by simp
next
  case (Some k)
  then have "last_row_le inner pc l r = Some k"
    using assms by (auto simp: last_row_le_Some_iff)
  with Some show ?thesis by simp
qed

lemma last_row_le_left:
  assumes "m < r" "\<And>j. m \<le> j \<Longrightarrow> j < r \<Longrightarrow> \<not> row_le inner pc j"
  shows "last_row_le inner pc l r = last_row_le inner pc l m"
proof (cases "last_row_le inner pc l m")
  case None
  then show ?thesis using assms by (metis last_row_le_None_iff not_le_imp_less)
next
  case (Some k)
  then have "last_row_le inner pc l r = Some k"
    using assms by (auto simp: last_row_le_Some_iff) (metis not_le_imp_less)
  with Some show ?thesis by simp
qed

text \<open>
  \<open>page_sorted inner lo hi\<close>: the slice \<open>[lo, hi)\<close> of an inner map is populated and its rows are
  in order of the low half of their program counters.
\<close>

definition page_sorted :: "inner_map \<Rightarrow> nat \<Rightarrow> nat \<Rightarrow> bool" where
  "page_sorted inner lo hi \<longleftrightarrow>
     (\<forall>i. lo \<le> i \<and> i < hi \<longrightarrow> inner (of_nat i) \<noteq> None) \<and>
     (\<forall>i j. lo \<le> i \<and> i \<le> j \<and> j < hi \<longrightarrow>
        pc_low (the (inner (of_nat i))) \<le> pc_low (the (inner (of_nat j))))"

lemma page_sorted_sub: "page_sorted inner lo hi \<Longrightarrow> lo \<le> l \<Longrightarrow> r \<le> hi \<Longrightarrow> page_sorted inner l r"
  by (simp add: page_sorted_def)

lemma page_sorted_populated:
  "page_sorted inner lo hi \<Longrightarrow> lo \<le> i \<Longrightarrow> i < hi \<Longrightarrow> \<exists>row. inner (of_nat i) = Some row"
  by (auto simp: page_sorted_def)

lemma page_sorted_row_le_down:
  assumes "page_sorted inner lo hi" "lo \<le> i" "i \<le> j" "j < hi" "row_le inner pc j"
  shows "row_le inner pc i"
proof -
  obtain ri rj where r: "inner (of_nat i) = Some ri" "inner (of_nat j) = Some rj"
    using assms page_sorted_populated [OF assms(1), of i] page_sorted_populated [OF assms(1), of j]
    by auto
  have "pc_low (the (inner (of_nat i))) \<le> pc_low (the (inner (of_nat j)))"
    using assms unfolding page_sorted_def by blast
  with r assms(5) show ?thesis by (auto simp: row_le_def)
qed

lemma find_offset_loop_correct:
  assumes "page_sorted inner l r" "r - l < 2 ^ i" "l \<le> r" "r < 2 ^ 32"
  shows "find_offset_loop (Suc i) inner pc (of_nat l) (of_nat r) f =
     (case last_row_le inner pc l r of None \<Rightarrow> f | Some k \<Rightarrow> of_nat k)"
  using assms
proof (induction i arbitrary: l r f)
  case 0
  then have "r \<le> l" "l < 2 ^ 32" "last_row_le inner pc l r = None"
    by (auto simp: last_row_le_None_iff)
  then show ?case using find_offset_loop_done [of r l 0] by simp
next
  case (Suc i)
  show ?case
  proof (cases "l < r")
    case False
    with Suc.prems have "r \<le> l" "l < 2 ^ 32" "last_row_le inner pc l r = None"
      by (auto simp: last_row_le_None_iff)
    then show ?thesis using find_offset_loop_done [of r l "Suc i"] by simp
  next
    case True
    let ?m = "(l + r) div 2"
    have m: "l \<le> ?m" "?m < r" using True by simp_all
    obtain row where row: "inner (of_nat ?m) = Some row"
      using page_sorted_populated [OF Suc.prems(1) m] by blast
    note step = find_offset_loop_step [OF True Suc.prems(4), of "Suc i" inner pc f]
    show ?thesis
    proof (cases "row_le inner pc ?m")
      case le: True
      have "page_sorted inner (Suc ?m) r"
        using Suc.prems(1) m by (intro page_sorted_sub [OF Suc.prems(1)]) auto
      then have "find_offset_loop (Suc i) inner pc (of_nat (Suc ?m)) (of_nat r) (of_nat ?m) =
          (case last_row_le inner pc (Suc ?m) r of None \<Rightarrow> of_nat ?m | Some k \<Rightarrow> of_nat k)"
        using Suc.prems m by (intro Suc.IH) auto
      moreover have "pc_low row \<le> pc" using le row by (simp add: row_le_def)
      ultimately show ?thesis
        using row last_row_le_right [OF m le]
        unfolding step Let_def by (auto split: option.splits simp del: of_nat_Suc)
    next
      case gt: False
      have "last_row_le inner pc l r = last_row_le inner pc l ?m"
        using gt m page_sorted_row_le_down [OF Suc.prems(1)] by (intro last_row_le_left) auto
      moreover have "find_offset_loop (Suc i) inner pc (of_nat l) (of_nat ?m) f =
          (case last_row_le inner pc l ?m of None \<Rightarrow> f | Some k \<Rightarrow> of_nat k)"
        using Suc.prems m page_sorted_sub [OF Suc.prems(1)] by (intro Suc.IH) auto
      moreover have "\<not> pc_low row \<le> pc" using gt row by (simp add: row_le_def)
      ultimately show ?thesis using row unfolding step Let_def by simp
    qed
  qed
qed

section \<open>The interface: tables the search may be called on\<close>

text \<open>
  A provider of unwind tables promises that each page it hands out (a slice of the inner map) is
  populated and sorted, has fewer than $2^{16}$ rows and indices below $2^{32}$. That is enough
  for the search to be exactly the linear scan.
\<close>

locale sorted_pages =
  fixes lookup :: "'m \<Rightarrow> inner_map"
    and page :: "'m \<Rightarrow> nat \<Rightarrow> nat \<Rightarrow> bool"
  assumes page_rows: "page m lo hi \<Longrightarrow> page_sorted (lookup m) lo hi"
    and page_bounds: "page m lo hi \<Longrightarrow> lo \<le> hi \<and> hi < 2 ^ 32 \<and> hi - lo < 2 ^ 16"
begin

lemma search_is_scan:
  assumes "page m lo hi"
  shows "find_offset_for_pc (lookup m) pc (of_nat lo) (of_nat hi) =
     (case last_row_le (lookup m) pc lo hi of None \<Rightarrow> BINARY_SEARCH_DEFAULT | Some k \<Rightarrow> of_nat k)"
proof -
  have "MAX_BINARY_SEARCH_DEPTH = Suc 16" by simp
  then show ?thesis
    using find_offset_loop_correct [OF page_rows [OF assms], of 16] page_bounds [OF assms]
    by (simp only: find_offset_for_pc_def)
qed

lemma search_hit_covers:
  assumes "page m lo hi" "find_offset_for_pc (lookup m) pc (of_nat lo) (of_nat hi) = of_nat k"
    and "k < 2 ^ 32"
  shows "lo \<le> k \<and> k < hi \<and> row_le (lookup m) pc k"
proof (cases "last_row_le (lookup m) pc lo hi")
  case None
  with assms search_is_scan have "(of_nat k :: u64) = 0xFABADAFABADA" by simp
  then have "unat (of_nat k :: u64) = unat (0xFABADAFABADA :: u64)" by simp
  with assms(3) show ?thesis by (simp add: unat_of_nat_64)
next
  case (Some j)
  with assms search_is_scan have e: "(of_nat k :: u64) = of_nat j" by simp
  have j: "lo \<le> j \<and> j < hi \<and> row_le (lookup m) pc j"
    using Some by (simp add: last_row_le_Some_iff)
  moreover have "k = j"
  proof -
    have "unat (of_nat k :: u64) = unat (of_nat j :: u64)" using e by simp
    moreover have "j < 2 ^ 32" using j page_bounds [OF assms(1)] by linarith
    ultimately show ?thesis using assms(3) by (simp add: unat_of_nat_64)
  qed
  ultimately show ?thesis by simp
qed

end

text \<open>
  The provider: the array of rows that user space copies into an inner map
  (\<open>add_bpf_unwind_info\<close> in src/src/profiler.rs), read by index as a BPF array map.
\<close>

definition array_lookup :: "stack_unwind_row_t list \<Rightarrow> inner_map" where
  "array_lookup rows k = (if unat k < length rows then Some (rows ! unat k) else None)"

definition is_page :: "stack_unwind_row_t list \<Rightarrow> nat \<Rightarrow> nat \<Rightarrow> bool" where
  "is_page rows lo hi \<longleftrightarrow> lo \<le> hi \<and> hi \<le> length rows \<and> hi < 2 ^ 32 \<and> hi - lo < 2 ^ 16 \<and>
     sorted (map pc_low (take (hi - lo) (drop lo rows)))"

lemma is_page_nth:
  assumes "is_page rows lo hi" "lo \<le> i" "i < hi"
  shows "array_lookup rows (of_nat i) = Some (rows ! i)"
  using assms by (simp add: array_lookup_def is_page_def unat_of_nat_32)

lemma is_page_sorted:
  assumes "is_page rows lo hi" "lo \<le> i" "i \<le> j" "j < hi"
  shows "pc_low (rows ! i) \<le> pc_low (rows ! j)"
proof -
  let ?s = "map pc_low (take (hi - lo) (drop lo rows))"
  have len: "hi \<le> length rows" using assms(1) by (simp add: is_page_def)
  have "?s ! (i - lo) \<le> ?s ! (j - lo)"
    using assms by (intro sorted_nth_mono) (auto simp: is_page_def)
  moreover have "?s ! (k - lo) = pc_low (rows ! k)" if "lo \<le> k" "k < hi" for k
    using that len by simp
  ultimately show ?thesis using assms by simp
qed

interpretation inner_array: sorted_pages array_lookup is_page
proof (unfold_locales, goal_cases)
  case (1 rows lo hi)
  then show ?case
    using is_page_nth [OF 1] is_page_sorted [OF 1] by (simp add: page_sorted_def)
next
  case (2 rows lo hi)
  then show ?case by (simp add: is_page_def)
qed

section \<open>Properties\<close>

text \<open>
  C5. On a page of an unwind table (a populated slice, sorted by the low half of the program
  counter, of fewer than 65536 rows) the bounded binary search returns exactly what a linear scan
  finds: the last row that starts at or before the program counter, and BINARY\_SEARCH\_DEFAULT
  when no row of the page does.
\<close>

theorem find_offset_for_pc_correct:
  assumes "is_page rows lo hi"
  shows "find_offset_for_pc (array_lookup rows) pc (of_nat lo) (of_nat hi) =
     (case last_row_le (array_lookup rows) pc lo hi of
        None \<Rightarrow> BINARY_SEARCH_DEFAULT
      | Some k \<Rightarrow> of_nat k)"
  using assms by (rule inner_array.search_is_scan)

definition example_rows :: "stack_unwind_row_t list" where
  "example_rows =
     [\<lparr>pc_low = 16, cfa_type = 2, rbp_type = 0, cfa_offset = 8, rbp_offset = 0\<rparr>,
      \<lparr>pc_low = 17, cfa_type = 2, rbp_type = 1, cfa_offset = 16, rbp_offset = -16\<rparr>,
      \<lparr>pc_low = 20, cfa_type = 1, rbp_type = 1, cfa_offset = 16, rbp_offset = -16\<rparr>]"

theorem find_offset_for_pc_correct_witness:
  "is_page example_rows 0 3 \<and> find_offset_for_pc (array_lookup example_rows) 18 0 3 = 1"
proof -
  have p: "is_page example_rows 0 3" by (simp add: is_page_def example_rows_def)
  have "last_row_le (array_lookup example_rows) 18 0 3 = Some 1"
    by (simp add: last_row_le_numeral row_le_def array_lookup_def example_rows_def)
  then show ?thesis using p find_offset_for_pc_correct [OF p, of 18] by simp
qed

text \<open>
  Whatever the table holds, searching a slice of fewer than 65536 rows ends within
  MAX\_BINARY\_SEARCH\_DEPTH iterations: the result is an index of the slice or
  BINARY\_SEARCH\_DEFAULT, never BINARY\_SEARCH\_EXHAUSTED\_ITERATIONS.
\<close>

lemma find_offset_for_pc_never_exhausted:
  assumes "lo \<le> hi" "hi < 2 ^ 32" "hi - lo < 2 ^ 16"
  shows "find_offset_for_pc inner pc (of_nat lo) (of_nat hi)
       \<in> insert BINARY_SEARCH_DEFAULT (of_nat ` {lo..<hi}) - {BINARY_SEARCH_EXHAUSTED_ITERATIONS}"
proof -
  have depth: "MAX_BINARY_SEARCH_DEPTH = Suc 16" by simp
  have "find_offset_for_pc inner pc (of_nat lo) (of_nat hi)
       \<in> insert BINARY_SEARCH_DEFAULT (of_nat ` {lo..<hi})"
    using find_offset_loop_bounded [OF assms(3) assms(1) assms(2), of inner pc BINARY_SEARCH_DEFAULT]
    unfolding find_offset_for_pc_def depth insert_absorb2 .
  moreover have "BINARY_SEARCH_EXHAUSTED_ITERATIONS \<noteq> of_nat k" if "k < hi" for k
  proof
    assume "BINARY_SEARCH_EXHAUSTED_ITERATIONS = of_nat k"
    then have "unat (0xBADFADBADFADBAD :: u64) = unat (of_nat k :: u64)" by simp
    with that assms(2) show False by (simp add: unat_of_nat_64)
  qed
  moreover have "BINARY_SEARCH_EXHAUSTED_ITERATIONS \<noteq> BINARY_SEARCH_DEFAULT" by simp
  ultimately show ?thesis
    by (metis DiffI atLeastLessThan_iff imageE insertE singletonD)
qed

lemma find_offset_for_pc_never_exhausted_example:
  "find_offset_for_pc (array_lookup example_rows) 5 0 3 \<noteq> BINARY_SEARCH_EXHAUSTED_ITERATIONS"
  using find_offset_for_pc_never_exhausted [of 0 3 "array_lookup example_rows" 5] by simp

text \<open>A page with a row for each of its program counters.\<close>

definition full_page :: inner_map where
  "full_page k =
     (if k < 65536
      then Some \<lparr>pc_low = ucast k, cfa_type = 2, rbp_type = 0, cfa_offset = 8, rbp_offset = 0\<rparr>
      else None)"

text \<open>
  The bound of 65536 rows is tight: on a page that has a row for each of its 65536 program counters
  the search for the first one runs out of iterations, although row 0 matches.
\<close>

lemma find_offset_for_pc_full_page_exhausts:
  "find_offset_for_pc full_page 0 0 65536 = BINARY_SEARCH_EXHAUSTED_ITERATIONS \<and>
   last_row_le full_page 0 0 1 = Some 0"
  by (simp add: find_offset_for_pc_def find_offset_loop_numeral find_offset_loop.simps(2) full_page_def
      row_le_def)

end
