(* ===== verification/Bpf_State.thy ===== *)
theory Bpf_State
  imports Kernel_Env Unwinder_Stats Exec_Mappings Binary_Search
begin

text \<open>
  The state shared by the BPF programs, one component per map of src/src/bpf/shared\_maps.h,
  src/src/bpf/profiler.bpf.c and src/src/bpf/tracers.bpf.c, as seen by one CPU: per-CPU array maps
  of one entry are options (\<open>None\<close>: the lookup gives NULL), hash maps are partial maps, the
  program array says which slots hold a program, and the output channels are one log of the
  attempts with their return codes, in order. \<open>send_event\<close> is the rate-limited event output of
  src/src/bpf/profiler.bpf.c.
\<close>

datatype channel =
  Ch_events_rb | Ch_events | Ch_stacks_rb | Ch_stacks | Ch_tracer_events_rb | Ch_tracer_events

datatype payload = P_event Event | P_sample "u8 list" | P_tracer tracer_event_t

record bpf_state =
  exec_mappings :: mappings_lookup
  percpu_stats :: percpu_stats
  heap :: "unwind_state_t option"
  executable_to_page :: "page_key_t \<rightharpoonup> page_value_t"
  outer_map :: "u64 \<rightharpoonup> inner_map"
  programs :: "u32 \<Rightarrow> bool"
  rate_limits :: "Event \<rightharpoonup> bool"
  tracked_munmap :: "u64 \<rightharpoonup> u64"
  outputs :: "(channel \<times> payload \<times> int) list"

definition bump :: "(percpu_stats \<Rightarrow> percpu_stats) \<Rightarrow> bpf_state \<Rightarrow> bpf_state" where
  "bump f s = s\<lparr>percpu_stats := f (percpu_stats s)\<rparr>"

text \<open>
  \<open>bpf_ringbuf_output\<close> or \<open>bpf_perf_event_output\<close>: the attempt is logged with the return code.
\<close>

definition emit :: "kernel \<Rightarrow> channel \<Rightarrow> payload \<Rightarrow> bpf_state \<Rightarrow> int \<times> bpf_state" where
  "emit k ch p s =
     (let ret = out_ret k (length (outputs s))
      in (ret, s\<lparr>outputs := outputs s @ [(ch, p, ret)]\<rparr>))"

text \<open>What user space receives: the attempts the kernel accepted.\<close>

definition delivered :: "bpf_state \<Rightarrow> (channel \<times> payload) list" where
  "delivered s = map (\<lambda>(ch, p, r). (ch, p)) (filter (\<lambda>(ch, p, r). 0 \<le> r) (outputs s))"

lemma bump_simps [simp]:
  "exec_mappings (bump f s) = exec_mappings s"
  "percpu_stats (bump f s) = f (percpu_stats s)"
  "heap (bump f s) = heap s"
  "executable_to_page (bump f s) = executable_to_page s"
  "outer_map (bump f s) = outer_map s"
  "programs (bump f s) = programs s"
  "rate_limits (bump f s) = rate_limits s"
  "tracked_munmap (bump f s) = tracked_munmap s"
  "outputs (bump f s) = outputs s"
  by (simp_all add: bump_def)

section \<open>send\_event\<close>

definition event_channel :: "kernel \<Rightarrow> channel" where
  "event_channel k = (if use_ring_buffers (k_config k) then Ch_events_rb else Ch_events)"

definition is_rate_limited :: "bpf_state \<Rightarrow> Event \<Rightarrow> bool" where
  "is_rate_limited s ev = (case rate_limits s ev of None \<Rightarrow> False | Some b \<Rightarrow> b)"

definition send_event :: "kernel \<Rightarrow> Event \<Rightarrow> bpf_state \<Rightarrow> bpf_state" where
  "send_event k ev s =
     (if is_rate_limited s ev then s
      else
        let (ret, s1) = emit k (event_channel k) (P_event ev) s;
            s2 = (if ret < 0 then bump bump_unwind_error_sending_new_process_event s1 else s1)
        in if rate_limit_update_ret k (rate_limits s2) ev = 0
           then s2\<lparr>rate_limits := (rate_limits s2)(ev \<mapsto> True)\<rparr>
           else s2)"

lemma send_event_frame [simp]:
  "exec_mappings (send_event k ev s) = exec_mappings s"
  "heap (send_event k ev s) = heap s"
  "executable_to_page (send_event k ev s) = executable_to_page s"
  "outer_map (send_event k ev s) = outer_map s"
  "programs (send_event k ev s) = programs s"
  "tracked_munmap (send_event k ev s) = tracked_munmap s"
  by (simp_all add: send_event_def emit_def Let_def)

lemma send_event_outputs:
  "outputs (send_event k ev s) =
     (if is_rate_limited s ev then outputs s
      else outputs s @ [(event_channel k, P_event ev, out_ret k (length (outputs s)))])"
  by (simp add: send_event_def emit_def Let_def)

lemma send_event_rate_limits:
  "rate_limits (send_event k ev s) =
     (if \<not> is_rate_limited s ev \<and> rate_limit_update_ret k (rate_limits s) ev = 0
      then (rate_limits s)(ev \<mapsto> True) else rate_limits s)"
  by (simp add: send_event_def emit_def Let_def)

section \<open>Samples in the output log\<close>

fun is_sample :: "payload \<Rightarrow> bool" where
  "is_sample (P_sample bs) = True"
| "is_sample (P_event ev) = False"
| "is_sample (P_tracer ev) = False"

definition sample_log :: "bpf_state \<Rightarrow> (channel \<times> payload \<times> int) list" where
  "sample_log s = filter (\<lambda>(ch, p, r). is_sample p) (outputs s)"

lemma sample_log_bump [simp]: "sample_log (bump f s) = sample_log s"
  by (simp add: sample_log_def)

lemma sample_log_heap [simp]: "sample_log (s\<lparr>heap := h\<rparr>) = sample_log s"
  by (simp add: sample_log_def)

lemma sample_log_send_event [simp]: "sample_log (send_event k ev s) = sample_log s"
  by (simp add: sample_log_def send_event_outputs)

end
