(* ===== verification/Unwinder.thy ===== *)
theory Unwinder
  imports Bpf_State
begin

text \<open>
  The stack walker of src/src/bpf/profiler.bpf.c. \<open>unwind_frame\<close> is the body of the loop of
  \<open>dwarf_unwind\<close>, split at its early returns into the stages the source goes through (mapping, row,
  canonical frame address, frame pointer, return address); a stage gives \<open>Inl s\<close> where the source
  returns 1 with state \<open>s\<close>. \<open>unwind_frames\<close> is the loop, \<open>dwarf_unwind\<close> the program with its tail
  calls, \<open>on_event\<close> the entry point. The tail-call budget is the number of tail calls the kernel
  still allows to the run: when it is used up, \<open>bpf_tail_call\<close> returns and the program falls through.
\<close>

section \<open>Address helpers\<close>

fun previous_instruction_addr :: "arch \<Rightarrow> u64 \<Rightarrow> u64" where
  "previous_instruction_addr X86 addr = addr - 1"
| "previous_instruction_addr Arm64 addr = addr - 4"

fun remove_pac :: "arch \<Rightarrow> u64 \<Rightarrow> u64" where
  "remove_pac X86 addr = addr"
| "remove_pac Arm64 addr = addr AND 0x0000FFFFFFFFFFFF"

definition in_kernel :: "u64 \<Rightarrow> bool" where
  "in_kernel ip = (ip AND push_bit 63 1 \<noteq> 0)"

section \<open>find\_page\<close>

definition find_page ::
    "mapping_t \<Rightarrow> u64 \<Rightarrow> bpf_state \<Rightarrow> (inner_map \<times> u64 \<times> u64) option \<times> bpf_state" where
  "find_page mapping object_relative_pc s =
     (let page_key = \<lparr>pk_executable_id = m_executable_id mapping,
                      pk_file_offset = object_relative_pc\<rparr>;
          not_found = (None, bump bump_unwind_error_page_not_found s)
      in case executable_to_page s page_key of
           None \<Rightarrow> not_found
         | Some found_page \<Rightarrow>
             (case outer_map s (m_executable_id mapping) of
                None \<Rightarrow> not_found
              | Some inner \<Rightarrow>
                  (Some (inner, ucast (pv_low_index found_page), ucast (pv_high_index found_page)), s)))"

section \<open>One frame\<close>

text \<open>Lines 334 to 357: the mapping that contains the program counter.\<close>

definition frame_mapping :: "s32 \<Rightarrow> u64 \<Rightarrow> bpf_state \<Rightarrow> bpf_state + mapping_t \<times> bpf_state" where
  "frame_mapping pid ip s =
     (case find_mapping (exec_mappings s) pid ip of
        None \<Rightarrow> Inl (bump bump_unwind_error_mapping_not_found s)
      | Some mapping \<Rightarrow>
          if ip < m_begin mapping \<or> ip \<ge> m_end mapping
          then Inl (bump bump_unwind_error_mapping_does_not_contain_pc s)
          else if m_type mapping = MAPPING_TYPE_ANON
          then Inl (bump bump_unwind_jit_encountered s)
          else Inr (mapping, if m_type mapping = MAPPING_TYPE_VDSO
                             then bump bump_unwind_vdso_encountered s else s))"

text \<open>
  Lines 380 to 404: the index of the row, falling back to the last row of the previous page.
  The index variables are 64 bits wide and the map key is 32 bits: the lookup reads the low half.
\<close>

definition frame_table_idx :: "inner_map \<Rightarrow> u64 \<Rightarrow> u64 \<Rightarrow> u16 \<Rightarrow> u64 \<Rightarrow> u64 \<Rightarrow> u64 + u64" where
  "frame_table_idx inner object_relative_pc high low low_index high_index =
     (let table_idx = find_offset_for_pc inner low low_index high_index in
      if table_idx = BINARY_SEARCH_DEFAULT \<or> table_idx = BINARY_SEARCH_SHOULD_NEVER_HAPPEN \<or>
         table_idx = BINARY_SEARCH_EXHAUSTED_ITERATIONS
      then
        if table_idx = BINARY_SEARCH_DEFAULT
        then let low_index' = low_index - 1 in
          (case inner (ucast low_index') of
             None \<Rightarrow> Inl table_idx
           | Some previous_row \<Rightarrow>
               if object_relative_pc > PREVIOUS_PAGE high + ucast (pc_low previous_row)
               then Inr low_index' else Inl table_idx)
        else Inl table_idx
      else Inr table_idx)"

text \<open>Lines 359 to 412: the unwind row of the program counter.\<close>

definition frame_row ::
    "kernel \<Rightarrow> s32 \<Rightarrow> u64 \<Rightarrow> mapping_t \<Rightarrow> bpf_state \<Rightarrow> bpf_state + stack_unwind_row_t \<times> bpf_state" where
  "frame_row k pid ip mapping s =
     (let object_relative_pc = ip - m_load_address mapping;
          high = HIGH_PC object_relative_pc;
          low = ucast (LOW_PC object_relative_pc) :: u16
      in case find_page mapping high s of
           (None, s1) \<Rightarrow>
             Inl (send_event k \<lparr>ev_type = EVENT_NEED_UNWIND_INFO, ev_pid = pid,
                                ev_address = ip AND PAGE_MASK\<rparr> s1)
         | (Some (inner, low_index, high_index), s1) \<Rightarrow>
             (case frame_table_idx inner object_relative_pc high low low_index high_index of
                Inl failed \<Rightarrow>
                  Inl (if failed = BINARY_SEARCH_EXHAUSTED_ITERATIONS
                       then bump bump_unwind_error_binary_search_exhausted_iterations s1 else s1)
              | Inr table_idx \<Rightarrow>
                  (case inner (ucast table_idx) of
                     None \<Rightarrow> Inl s1
                   | Some row \<Rightarrow> Inr (row, s1))))"

text \<open>Lines 445 to 451.\<close>

definition push_address :: "unwind_state_t \<Rightarrow> unwind_state_t" where
  "push_address us =
     (let sample = us_sample us; stack = sample_stack sample; n = ulen stack in
      if n < MAX_STACK_DEPTH
      then us\<lparr>us_sample := sample\<lparr>sample_stack :=
              stack\<lparr>addresses := (addresses stack)[unat n := us_ip us], ulen := n + 1\<rparr>\<rparr>\<rparr>
      else us)"

text \<open>
  Lines 480 to 490. The threshold is written \<open>11 ? found_cfa_type == CFA_TYPE_PLT1 : 10\<close>; the
  condition of the conditional operator is the constant 11.
\<close>

definition plt_threshold :: "u8 \<Rightarrow> u64" where
  "plt_threshold found_cfa_type =
     (if (11 :: int) \<noteq> 0 then (if found_cfa_type = CFA_TYPE_PLT1 then 1 else 0) else 10)"

text \<open>
  Lines 461 to 503: the stack pointer of the caller. The row's unsigned offset is first stored in
  an \<open>s16\<close>.
\<close>

definition frame_rsp ::
    "kernel \<Rightarrow> stack_unwind_row_t \<Rightarrow> unwind_state_t \<Rightarrow> bpf_state \<Rightarrow> bpf_state + u64 \<times> bpf_state" where
  "frame_rsp k row us s =
     (let found_cfa_type = cfa_type row;
          found_cfa_offset = cfa_offset row :: s16;
          computed =
            (if found_cfa_type = CFA_TYPE_RBP then Inr (us_bp us + scast found_cfa_offset, s)
             else if found_cfa_type = CFA_TYPE_RSP then Inr (us_sp us + scast found_cfa_offset, s)
             else if found_cfa_type = CFA_TYPE_DEREF_AND_ADD then
               (let offset = ucast (signed_drop_bit 8 found_cfa_offset) :: u8;
                    addition = ucast found_cfa_offset :: u8;
                    (ret, v) = probe_read_user k (us_sp us + ucast offset) 0
                in Inr (v + ucast addition,
                        if ret < 0 then bump bump_unwind_error_previous_rsp_read s else s))
             else if found_cfa_type = CFA_TYPE_CFA_TYPE_UNSUP_EXP then
               Inl (bump bump_unwind_error_unsupported_expression s)
             else if found_cfa_type = CFA_TYPE_PLT1 \<or> found_cfa_type = CFA_TYPE_PLT2 then
               (let threshold = plt_threshold found_cfa_type in
                if threshold = 0 then Inl (bump bump_unwind_error_should_never_happen s)
                else Inr (us_sp us + 8 + push_bit 3 (of_bool (us_ip us AND 15 \<ge> threshold)), s))
             else Inl (bump bump_unwind_error_unsupported_cfa_register s))
      in case computed of
           Inl s1 \<Rightarrow> Inl s1
         | Inr (previous_rsp, s1) \<Rightarrow>
             if previous_rsp = 0 then Inl (bump bump_unwind_error_previous_rsp_zero s1)
             else Inr (previous_rsp, s1))"

text \<open>Lines 505 to 521: the frame pointer of the caller.\<close>

definition frame_rbp ::
    "kernel \<Rightarrow> stack_unwind_row_t \<Rightarrow> unwind_state_t \<Rightarrow> u64 \<Rightarrow> bpf_state \<Rightarrow> bpf_state + u64" where
  "frame_rbp k row us previous_rsp s =
     (let previous_rbp_addr = previous_rsp + scast (rbp_offset row) in
      if rbp_type row = RBP_TYPE_UNCHANGED then Inr (us_bp us)
      else let (ret, v) = probe_read_user k previous_rbp_addr 0 in
        if ret < 0 then Inl (bump bump_unwind_error_previous_rbp_read s) else Inr v)"

text \<open>Lines 523 to 555: the return address.\<close>

definition frame_rip ::
    "kernel \<Rightarrow> stack_unwind_row_t \<Rightarrow> unwind_state_t \<Rightarrow> u64 \<Rightarrow> bpf_state \<Rightarrow> bpf_state + u64" where
  "frame_rip k row us previous_rsp s =
     (let previous_rbp_addr = previous_rsp + scast (rbp_offset row);
          (previous_rip0, previous_rip_addr) =
            (case k_arch k of
               X86 \<Rightarrow> (0, previous_rsp - 8)
             | Arm64 \<Rightarrow>
                 if ulen (sample_stack (us_sample us)) = 0 then (us_lr us, 0)
                 else (0, previous_rbp_addr + 8));
          (err, previous_rip) = probe_read_user k previous_rip_addr previous_rip0
      in if previous_rip = 0
         then Inl (if err = 0 then s else bump bump_unwind_error_previous_rip_zero s)
         else Inr previous_rip)"

datatype frame_outcome = Frame_return | Frame_break | Frame_continue

text \<open>Lines 461 to 565: the registers of the caller, from a row whose actions are supported.\<close>

definition frame_caller ::
    "kernel \<Rightarrow> stack_unwind_row_t \<Rightarrow> unwind_state_t \<Rightarrow> bpf_state
      \<Rightarrow> frame_outcome \<times> unwind_state_t \<times> bpf_state" where
  "frame_caller k row us s =
     (case frame_rsp k row us s of
        Inl s1 \<Rightarrow> (Frame_return, us, s1)
      | Inr (previous_rsp, s1) \<Rightarrow>
          (case frame_rbp k row us previous_rsp s1 of
             Inl s2 \<Rightarrow> (Frame_return, us, s2)
           | Inr previous_rbp \<Rightarrow>
               (case frame_rip k row us previous_rsp s1 of
                  Inl s2 \<Rightarrow> (Frame_return, us, s2)
                | Inr previous_rip \<Rightarrow>
                    (Frame_continue,
                     us\<lparr>us_ip := previous_instruction_addr (k_arch k)
                                  (remove_pac (k_arch k) previous_rip),
                        us_sp := previous_rsp,
                        us_bp := previous_rbp\<rparr>, s1))))"

text \<open>Lines 414 to 565: what the row says.\<close>

definition frame_apply_row ::
    "kernel \<Rightarrow> stack_unwind_row_t \<Rightarrow> unwind_state_t \<Rightarrow> bpf_state
      \<Rightarrow> frame_outcome \<times> unwind_state_t \<times> bpf_state" where
  "frame_apply_row k row us s =
     (if cfa_type row = CFA_TYPE_OFFSET_DID_NOT_FIT
      then (Frame_return, us, bump bump_unwind_error_cfa_offset_did_not_fit s)
      else if cfa_type row = CFA_TYPE_END_OF_FDE_MARKER then (Frame_break, us, s)
      else if rbp_type row = RBP_TYPE_OFFSET_DID_NOT_FIT
      then (Frame_return, us, bump bump_unwind_error_rbp_offset_did_not_fit s)
      else if rbp_type row = RBP_TYPE_UNDEFINED_RETURN_ADDRESS then (Frame_break, us, s)
      else let us1 = push_address us in
        if rbp_type row = RBP_TYPE_REGISTER \<or> rbp_type row = RBP_TYPE_EXPRESSION
        then (Frame_return, us1, bump bump_unwind_error_unsupported_frame_pointer_action s)
        else frame_caller k row us1 s)"

text \<open>Lines 328 to 567: one iteration of the loop.\<close>

definition unwind_frame ::
    "kernel \<Rightarrow> s32 \<Rightarrow> unwind_state_t \<Rightarrow> bpf_state \<Rightarrow> frame_outcome \<times> unwind_state_t \<times> bpf_state" where
  "unwind_frame k pid us s =
     (case frame_mapping pid (us_ip us) s of
        Inl s1 \<Rightarrow> (Frame_return, us, s1)
      | Inr (mapping, s1) \<Rightarrow>
          (case frame_row k pid (us_ip us) mapping s1 of
             Inl s2 \<Rightarrow> (Frame_return, us, s2)
           | Inr (row, s2) \<Rightarrow> frame_apply_row k row us s2))"

fun unwind_frames ::
    "nat \<Rightarrow> kernel \<Rightarrow> s32 \<Rightarrow> unwind_state_t \<Rightarrow> bpf_state
      \<Rightarrow> frame_outcome \<times> unwind_state_t \<times> bpf_state" where
  "unwind_frames 0 k pid us s = (Frame_continue, us, s)"
| "unwind_frames (Suc i) k pid us s =
     (case unwind_frame k pid us s of
        (Frame_continue, us', s') \<Rightarrow> unwind_frames i k pid us' s'
      | (Frame_return, us', s') \<Rightarrow> (Frame_return, us', s')
      | (Frame_break, us', s') \<Rightarrow> (Frame_break, us', s'))"

section \<open>add\_stack\<close>

fun write_words :: "u64 list \<Rightarrow> nat \<Rightarrow> u64 list \<Rightarrow> u64 list" where
  "write_words xs i [] = xs"
| "write_words xs i (w # ws) = write_words (xs[i := w]) (Suc i) ws"

text \<open>The memory image of a \<open>sample_t\<close>.\<close>

definition sample_bytes :: "sample_t \<Rightarrow> u8 list" where
  "sample_bytes sample =
     bytes_le 4 (sample_pid sample) @ bytes_le 4 (sample_tid sample) @
     bytes_le 8 (collected_at sample) @
     bytes_le 4 (ulen (sample_stack sample)) @ bytes_le 4 (klen (sample_stack sample)) @
     concat (map (bytes_le 8) (addresses (sample_stack sample)))"

text \<open>Lines 263 to 270: the kernel stack goes after the user stack.\<close>

definition add_kernel_stack :: "kernel \<Rightarrow> unwind_state_t \<Rightarrow> unwind_state_t" where
  "add_kernel_stack k us =
     (let sample = us_sample us; stack = sample_stack sample; n = ulen stack in
      if n < MAX_STACK_DEPTH
      then let (ret, ws) = get_stack k (unat MAX_STACK_DEPTH * 8) in
        us\<lparr>us_sample := sample\<lparr>sample_stack := stack\<lparr>
             addresses := write_words (addresses stack) (unat n) ws,
             klen := (if ret > 0 then word_of_int (ret div 8) else klen stack)\<rparr>\<rparr>\<rparr>
      else us)"

text \<open>Lines 272 to 280.\<close>

definition fill_sample_header :: "kernel \<Rightarrow> unwind_state_t \<Rightarrow> unwind_state_t" where
  "fill_sample_header k us =
     us\<lparr>us_sample := (us_sample us)\<lparr>sample_pid := per_process_id k, sample_tid := per_thread_id k,
        collected_at := ktime_get_boot_ns k\<rparr>\<rparr>"

text \<open>Lines 282 to 286, computed in 64 bits and stored in 32.\<close>

definition sample_size_of :: "sample_t \<Rightarrow> u32" where
  "sample_size_of sample =
     ucast (of_nat (csize sample_t_layout) - 2 * ucast MAX_STACK_DEPTH * 8 +
            ucast (ulen (sample_stack sample) + klen (sample_stack sample)) * 8 :: u64)"

definition stack_channel :: "kernel \<Rightarrow> channel" where
  "stack_channel k = (if use_ring_buffers (k_config k) then Ch_stacks_rb else Ch_stacks)"

definition add_stack :: "kernel \<Rightarrow> unwind_state_t \<Rightarrow> bpf_state \<Rightarrow> unwind_state_t \<times> bpf_state" where
  "add_stack k us s =
     (let us1 = fill_sample_header k (add_kernel_stack k us);
          sample_size = sample_size_of (us_sample us1)
      in if (ucast sample_size :: u64) > of_nat (csize sample_t_layout) then (us1, s)
         else let (ret, s1) = emit k (stack_channel k)
                    (P_sample (take (unat sample_size) (sample_bytes (us_sample us1)))) s
           in (us1, if ret < 0 then bump bump_unwind_error_failure_sending_stack s1 else s1))"

section \<open>dwarf\_unwind\<close>

text \<open>Lines 570 to 593: the bottom of the stack was reached.\<close>

definition finish_stack :: "kernel \<Rightarrow> unwind_state_t \<Rightarrow> bpf_state \<Rightarrow> bpf_state" where
  "finish_stack k us s =
     (let s1 = (if per_process_id k = per_thread_id k \<and> us_bp us \<noteq> 0
                then bump bump_unwind_bp_non_zero_for_bottom_frame s else s);
          (us1, s2) = add_stack k us s1
      in bump bump_unwind_success_dwarf (s2\<lparr>heap := Some us1\<rparr>))"

text \<open>
  Lines 313 to 601: one invocation, up to the point where it returns (\<open>Inl\<close>) or attempts a tail
  call into itself (\<open>Inr\<close>).
\<close>

definition dwarf_unwind_body :: "kernel \<Rightarrow> bpf_state \<Rightarrow> int \<times> bpf_state + bpf_state" where
  "dwarf_unwind_body k s =
     (case heap s of
        None \<Rightarrow> Inl (1, s)
      | Some us \<Rightarrow>
          (case unwind_frames MAX_STACK_DEPTH_PER_PROGRAM k (per_process_id k) us s of
             (Frame_return, us1, s1) \<Rightarrow> Inl (1, s1\<lparr>heap := Some us1\<rparr>)
           | (Frame_break, us1, s1) \<Rightarrow> Inl (0, finish_stack k us1 s1)
           | (Frame_continue, us1, s1) \<Rightarrow>
               if ulen (sample_stack (us_sample us1)) < MAX_STACK_DEPTH \<and>
                  tail_calls us1 < MAX_TAIL_CALLS
               then Inr (s1\<lparr>heap := Some (us1\<lparr>tail_calls := tail_calls us1 + 1\<rparr>)\<rparr>)
               else Inl (0, bump bump_unwind_error_truncated (s1\<lparr>heap := Some us1\<rparr>))))"

text \<open>
  The program: a tail call that succeeds does not return; one that fails (no budget or no program
  in the slot) falls through to lines 603 to 606.
\<close>

fun dwarf_unwind :: "nat \<Rightarrow> kernel \<Rightarrow> bpf_state \<Rightarrow> int \<times> bpf_state" where
  "dwarf_unwind 0 k s =
     (case dwarf_unwind_body k s of
        Inl r \<Rightarrow> r
      | Inr s1 \<Rightarrow> (0, bump bump_unwind_error_truncated s1))"
| "dwarf_unwind (Suc budget) k s =
     (case dwarf_unwind_body k s of
        Inl r \<Rightarrow> r
      | Inr s1 \<Rightarrow>
          if programs s1 PROGRAM_NATIVE_UNWINDER then dwarf_unwind budget k s1
          else (0, bump bump_unwind_error_truncated s1))"

section \<open>on\_event\<close>

text \<open>The registers the \<open>PT_REGS\<close> accessors read from the context of the perf event.\<close>

record perf_regs =
  PT_REGS_IP :: u64
  PT_REGS_SP :: u64
  PT_REGS_FP :: u64
  PT_REGS_RET :: u64

definition reset_state :: "unwind_state_t \<Rightarrow> unwind_state_t" where
  "reset_state us =
     (let sample = us_sample us in
      us\<lparr>tail_calls := 0,
         us_sample := sample\<lparr>sample_pid := 0, sample_tid := 0, collected_at := 0,
           sample_stack := (sample_stack sample)\<lparr>ulen := 0, klen := 0\<rparr>\<rparr>\<rparr>)"

definition set_initial_state :: "kernel \<Rightarrow> perf_regs \<Rightarrow> unwind_state_t \<Rightarrow> bool \<times> unwind_state_t" where
  "set_initial_state k regs us =
     (let us1 = reset_state us in
      if in_kernel (PT_REGS_IP regs)
      then (case retrieve_task_registers k
                   \<lparr>tr_ip = us_ip us1, tr_sp = us_sp us1, tr_bp = us_bp us1, tr_lr = us_lr us1\<rparr> of
              None \<Rightarrow> (False, us1)
            | Some r \<Rightarrow> (True, us1\<lparr>us_ip := tr_ip r, us_sp := tr_sp r, us_bp := tr_bp r,
                                  us_lr := tr_lr r\<rparr>))
      else (True, us1\<lparr>us_ip := PT_REGS_IP regs, us_sp := PT_REGS_SP regs,
                      us_bp := PT_REGS_FP regs,
                      us_lr := remove_pac (k_arch k) (PT_REGS_RET regs)\<rparr>))"

definition on_event :: "nat \<Rightarrow> kernel \<Rightarrow> perf_regs \<Rightarrow> bpf_state \<Rightarrow> int \<times> bpf_state" where
  "on_event budget k regs s =
     (let pid = per_process_id k in
      if pid = 0 then (0, s)
      else if is_kthread k then (0, s)
      else if process_is_known (exec_mappings s) pid then
        (let s1 = bump bump_unwind_total s in
         case heap s1 of
           None \<Rightarrow> (0, s1)
         | Some us \<Rightarrow>
             let s2 = s1\<lparr>heap := Some (snd (set_initial_state k regs us))\<rparr> in
             (case budget of
                Suc b \<Rightarrow> if programs s2 PROGRAM_NATIVE_UNWINDER then dwarf_unwind b k s2 else (0, s2)
              | 0 \<Rightarrow> (0, s2)))
      else (0, send_event k \<lparr>ev_type = EVENT_NEW_PROCESS, ev_pid = pid, ev_address = 0\<rparr> s))"

declare dwarf_unwind.simps [simp del]
declare unwind_frames.simps(2) [simp del]

end
