(* ===== verification/Unwinder_Safety.thy ===== *)
theory Unwinder_Safety
  imports Unwinder
begin

text \<open>
  Safety of the stack walker: what a frame may touch, the well-formedness of the per-CPU
  unwind state (the user and kernel stack lengths stay within the buffer) and its preservation
  by every operation, and the size of what is sent. The locale \<open>us_invariant\<close> lifts a property
  that the frame step and the tail-call bookkeeping keep to whole runs of the program.
\<close>

section \<open>What a frame leaves unchanged\<close>

text \<open>The counters a frame may touch.\<close>

definition frame_counters :: "(percpu_stats \<Rightarrow> percpu_stats) set" where
  "frame_counters = {bump_unwind_error_mapping_not_found,
     bump_unwind_error_mapping_does_not_contain_pc, bump_unwind_jit_encountered,
     bump_unwind_vdso_encountered, bump_unwind_error_page_not_found,
     bump_unwind_error_binary_search_exhausted_iterations,
     bump_unwind_error_cfa_offset_did_not_fit, bump_unwind_error_rbp_offset_did_not_fit,
     bump_unwind_error_unsupported_frame_pointer_action, bump_unwind_error_previous_rsp_read,
     bump_unwind_error_unsupported_expression, bump_unwind_error_should_never_happen,
     bump_unwind_error_unsupported_cfa_register, bump_unwind_error_previous_rsp_zero,
     bump_unwind_error_previous_rbp_read, bump_unwind_error_previous_rip_zero}"

text \<open>
  The contract of a relation between the states before and after: closed under the only effects a
  frame has, its counters and the events it sends. The client lemmas lift it through the stages of
  a frame to the loop.
\<close>

locale frame_relation =
  fixes R :: "bpf_state \<Rightarrow> bpf_state \<Rightarrow> bool"
  assumes R_refl: "R s s"
    and R_trans: "R s t \<Longrightarrow> R t u \<Longrightarrow> R s u"
    and R_bump: "f \<in> frame_counters \<Longrightarrow> R s (bump f s)"
    and R_event: "R s (send_event k ev s)"
begin

lemma R_bumpI: "R s t \<Longrightarrow> f \<in> frame_counters \<Longrightarrow> R s (bump f t)"
  using R_trans R_bump by blast

lemma R_eventI: "R s t \<Longrightarrow> R s (send_event k ev t)"
  using R_trans R_event by blast

lemmas R_intros = R_refl R_bumpI R_eventI

lemma find_page_R: "find_page m pc s = (r, s') \<Longrightarrow> R s s'"
  by (auto simp: find_page_def Let_def frame_counters_def intro: R_intros split: option.splits)

lemma frame_mapping_R:
  "frame_mapping pid ip s = Inl s' \<Longrightarrow> R s s'"
  "frame_mapping pid ip s = Inr (m, s') \<Longrightarrow> R s s'"
  by (auto simp: frame_mapping_def frame_counters_def intro: R_intros split: option.splits if_splits)

lemma frame_row_R:
  "frame_row k pid ip m s = Inl s' \<Longrightarrow> R s s'"
  "frame_row k pid ip m s = Inr (row, s') \<Longrightarrow> R s s'"
  by (auto simp: frame_row_def Let_def frame_counters_def dest!: find_page_R intro: R_intros
      split: option.splits prod.splits sum.splits if_splits)

lemma frame_rsp_R:
  "frame_rsp k row us s = Inl s' \<Longrightarrow> R s s'"
  "frame_rsp k row us s = Inr (v, s') \<Longrightarrow> R s s'"
  by (auto simp: frame_rsp_def Let_def frame_counters_def intro!: R_intros
      split: prod.splits if_splits)

lemma frame_rbp_R: "frame_rbp k row us rsp s = Inl s' \<Longrightarrow> R s s'"
  by (auto simp: frame_rbp_def Let_def frame_counters_def intro: R_intros
      split: prod.splits if_splits)

lemma frame_rip_R: "frame_rip k row us rsp s = Inl s' \<Longrightarrow> R s s'"
  by (auto simp: frame_rip_def Let_def frame_counters_def intro: R_intros
      split: prod.splits if_splits)

lemmas stage_R = frame_mapping_R frame_row_R frame_rsp_R frame_rbp_R frame_rip_R

lemma frame_caller_R: "frame_caller k row us s = (oc, us', s') \<Longrightarrow> R s s'"
  unfolding frame_caller_def by (auto split: sum.splits prod.splits dest: stage_R intro: R_trans)

lemma frame_apply_row_R: "frame_apply_row k row us s = (oc, us', s') \<Longrightarrow> R s s'"
  unfolding frame_apply_row_def Let_def
  by (auto simp: frame_counters_def intro: R_intros split: if_splits dest: frame_caller_R)

lemma unwind_frame_R: "unwind_frame k pid us s = (oc, us', s') \<Longrightarrow> R s s'"
  unfolding unwind_frame_def
  by (auto split: sum.splits prod.splits dest!: stage_R frame_apply_row_R intro: R_trans)

lemma unwind_frames_R: "unwind_frames n k pid us s = (oc, us', s') \<Longrightarrow> R s s'"
proof (induction n arbitrary: us s)
  case 0
  then show ?case by (simp add: R_refl)
next
  case (Suc n)
  obtain oc1 us1 s1 where f: "unwind_frame k pid us s = (oc1, us1, s1)"
    by (cases "unwind_frame k pid us s")
  with Suc.prems Suc.IH [of us1 s1] unwind_frame_R [OF f] show ?case
    by (cases oc1) (auto simp: unwind_frames.simps(2) intro: R_trans)
qed

end

text \<open>The maps, the heap and the samples sent.\<close>

definition same_maps :: "bpf_state \<Rightarrow> bpf_state \<Rightarrow> bool" where
  "same_maps s s' \<longleftrightarrow>
     exec_mappings s' = exec_mappings s \<and> executable_to_page s' = executable_to_page s \<and>
     outer_map s' = outer_map s \<and> programs s' = programs s \<and>
     tracked_munmap s' = tracked_munmap s \<and> heap s' = heap s \<and>
     sample_log s' = sample_log s"

interpretation maps: frame_relation same_maps
  by unfold_locales (simp_all add: same_maps_def)

text \<open>The counters for attempts, successes and truncations are not touched by a frame.\<close>

definition run_counts :: "unwinder_stats_t \<Rightarrow> u64 \<times> u64 \<times> u64" where
  "run_counts st = (total st, success_dwarf st, error_truncated st)"

definition same_counts :: "bpf_state \<Rightarrow> bpf_state \<Rightarrow> bool" where
  "same_counts s s' \<longleftrightarrow>
     map_option run_counts (percpu_stats s') = map_option run_counts (percpu_stats s)"

lemma frame_counters_run_counts:
  "f \<in> frame_counters \<Longrightarrow> map_option run_counts (f st) = map_option run_counts st"
  by (cases st) (auto simp: frame_counters_def run_counts_def bump_defs)

lemma send_event_run_counts:
  "map_option run_counts (percpu_stats (send_event k ev s)) = map_option run_counts (percpu_stats s)"
  by (cases "percpu_stats s") (simp_all add: send_event_def emit_def Let_def run_counts_def bump_defs)

interpretation counts: frame_relation same_counts
  by unfold_locales (simp_all add: same_counts_def frame_counters_run_counts send_event_run_counts)

lemmas frame_mapping_same_maps = maps.frame_mapping_R
lemmas unwind_frame_same_maps = maps.unwind_frame_R
lemmas unwind_frames_same_maps = maps.unwind_frames_R

section \<open>Well-formed unwind states\<close>

text \<open>
  The address buffer has its declared length and both stack lengths are within their half of it.
\<close>

definition stack_wf :: "unwind_state_t \<Rightarrow> bool" where
  "stack_wf us \<longleftrightarrow>
     length (addresses (sample_stack (us_sample us))) = 2 * unat MAX_STACK_DEPTH \<and>
     ulen (sample_stack (us_sample us)) \<le> MAX_STACK_DEPTH \<and>
     klen (sample_stack (us_sample us)) \<le> MAX_STACK_DEPTH"

definition heap_wf :: "bpf_state \<Rightarrow> bool" where
  "heap_wf s = (case heap s of None \<Rightarrow> True | Some us \<Rightarrow> stack_wf us)"

text \<open>
  What \<open>bpf_get_stack\<close> documents: it writes at most the given number of bytes and returns how many,
  or a negative error.
\<close>

definition get_stack_contract :: "kernel \<Rightarrow> bool" where
  "get_stack_contract k \<longleftrightarrow>
     (\<forall>size. fst (get_stack k size) \<le> int (8 * length (snd (get_stack k size))) \<and>
        8 * length (snd (get_stack k size)) \<le> size)"

lemma get_stack_contractD:
  assumes "get_stack_contract k"
  shows "fst (get_stack k n) \<le> int (8 * length (snd (get_stack k n)))"
    and "8 * length (snd (get_stack k n)) \<le> n"
    and "fst (get_stack k n) \<le> int n"
proof -
  from assms show a: "fst (get_stack k n) \<le> int (8 * length (snd (get_stack k n)))"
    and b: "8 * length (snd (get_stack k n)) \<le> n"
    unfolding get_stack_contract_def by blast+
  from a b show "fst (get_stack k n) \<le> int n" by linarith
qed

lemma stack_wf_regs [simp]:
  "stack_wf (us\<lparr>us_ip := a\<rparr>) = stack_wf us"
  "stack_wf (us\<lparr>us_sp := a\<rparr>) = stack_wf us"
  "stack_wf (us\<lparr>us_bp := a\<rparr>) = stack_wf us"
  "stack_wf (us\<lparr>us_lr := a\<rparr>) = stack_wf us"
  "stack_wf (us\<lparr>tail_calls := a\<rparr>) = stack_wf us"
  by (simp_all add: stack_wf_def)

lemma push_address_wf: "stack_wf us \<Longrightarrow> stack_wf (push_address us)"
proof -
  assume "stack_wf us"
  moreover have "(n :: u32) + 1 \<le> 127" if "n < 127" for n
    using that by (simp add: inc_le)
  ultimately show ?thesis by (simp add: stack_wf_def push_address_def Let_def)
qed

text \<open>Everything but the three registers.\<close>

definition same_sample :: "unwind_state_t \<Rightarrow> unwind_state_t \<Rightarrow> bool" where
  "same_sample us us' \<longleftrightarrow>
     us_sample us' = us_sample us \<and> tail_calls us' = tail_calls us \<and> us_lr us' = us_lr us"

lemma same_sample_refl [simp]: "same_sample us us"
  by (simp add: same_sample_def)

lemma same_sample_wf: "same_sample us us' \<Longrightarrow> stack_wf us' = stack_wf us"
  by (simp add: same_sample_def stack_wf_def)

lemma push_address_simps [simp]:
  "us_ip (push_address us) = us_ip us" "us_sp (push_address us) = us_sp us"
  "us_bp (push_address us) = us_bp us" "us_lr (push_address us) = us_lr us"
  "tail_calls (push_address us) = tail_calls us"
  by (simp_all add: push_address_def Let_def)

lemma frame_caller_us: "frame_caller k row us s = (oc, us', s') \<Longrightarrow> same_sample us us'"
  unfolding frame_caller_def by (auto simp: same_sample_def split: sum.splits prod.splits)

lemma frame_apply_row_us:
  "frame_apply_row k row us s = (oc, us', s') \<Longrightarrow>
   us' = us \<and> oc \<noteq> Frame_continue \<or> same_sample (push_address us) us' \<and> oc \<noteq> Frame_break"
  unfolding frame_apply_row_def Let_def frame_caller_def
  by (auto simp: same_sample_def split: sum.splits prod.splits if_splits)

lemma unwind_frame_us:
  "unwind_frame k pid us s = (oc, us', s') \<Longrightarrow>
   us' = us \<and> oc \<noteq> Frame_continue \<or> same_sample (push_address us) us' \<and> oc \<noteq> Frame_break"
  unfolding unwind_frame_def
  by (auto split: sum.splits prod.splits dest!: frame_apply_row_us)

lemma unwind_frame_wf: "unwind_frame k pid us s = (oc, us', s') \<Longrightarrow> stack_wf us \<Longrightarrow> stack_wf us'"
  by (auto dest!: unwind_frame_us simp: push_address_wf same_sample_wf)

lemma write_words_length [simp]: "length (write_words xs i ws) = length xs"
  by (induction ws arbitrary: xs i) auto

lemma write_words_nth:
  "write_words xs i ws ! j =
     (if i \<le> j \<and> j < i + length ws \<and> j < length xs then ws ! (j - i) else xs ! j)"
proof (induction ws arbitrary: xs i)
  case Nil
  then show ?case by auto
next
  case (Cons w ws)
  then show ?case
    by (cases "j = i"; cases "i < length xs")
      (auto simp: nth_Cons' nth_list_update list_update_beyond)
qed

lemma add_kernel_stack_wf:
  assumes "stack_wf us" "get_stack_contract k"
  shows "stack_wf (add_kernel_stack k us)"
proof -
  obtain ret ws where g: "get_stack k (127 * 8) = (ret, ws)" by (cases "get_stack k (127 * 8)")
  with assms(2) have "ret \<le> 1016" using get_stack_contractD(3) [of k "127 * 8"] by simp
  have "(word_of_int (ret div 8) :: u32) \<le> 127" if "ret > 0"
  proof -
    obtain n where n: "ret div 8 = int n" using \<open>ret > 0\<close> by (metis nonneg_int_cases less_imp_le pos_imp_zdiv_nonneg_iff zero_less_numeral)
    with \<open>ret \<le> 1016\<close> have "n \<le> 127" by linarith
    with n show ?thesis by (simp add: word_le_nat_alt unat_of_nat)
  qed
  with assms(1) g show ?thesis by (auto simp: add_kernel_stack_def stack_wf_def Let_def)
qed

lemma fill_sample_header_wf [simp]: "stack_wf (fill_sample_header k us) = stack_wf us"
  by (simp add: fill_sample_header_def stack_wf_def)

lemma add_stack_us: "fst (add_stack k us s) = fill_sample_header k (add_kernel_stack k us)"
  by (simp add: add_stack_def Let_def split: prod.splits)

lemma add_stack_wf:
  "stack_wf us \<Longrightarrow> get_stack_contract k \<Longrightarrow> stack_wf (fst (add_stack k us s))"
  by (simp add: add_stack_us add_kernel_stack_wf)

lemma finish_stack_heap: "heap (finish_stack k us s) = Some (fst (add_stack k us s))"
  by (simp add: finish_stack_def Let_def add_stack_us split: prod.splits) (metis add_stack_us fst_conv)

section \<open>From frames to runs\<close>

text \<open>
  A property of the unwind state that every step of a run keeps: one frame, the tail-call counter,
  the completion of the sample and the initialisation. The client lemmas lift it to the loop, to
  the program with all its tail calls and to the whole event handler.
\<close>

locale us_invariant =
  fixes pre :: "kernel \<Rightarrow> bool"
    and I :: "unwind_state_t \<Rightarrow> bool"
  assumes I_frame: "I us \<Longrightarrow> unwind_frame k pid us s = (oc, us', s') \<Longrightarrow> I us'"
    and I_tail: "I us \<Longrightarrow> tail_calls us < MAX_TAIL_CALLS \<Longrightarrow> I (us\<lparr>tail_calls := tail_calls us + 1\<rparr>)"
    and I_finish: "pre k \<Longrightarrow> I us \<Longrightarrow> I (fst (add_stack k us s))"
    and I_init: "I us \<Longrightarrow> I (snd (set_initial_state k regs us))"
begin

definition heap_I :: "bpf_state \<Rightarrow> bool" where
  "heap_I s = (case heap s of None \<Rightarrow> True | Some us \<Rightarrow> I us)"

lemma frames_I: "unwind_frames n k pid us s = (oc, us', s') \<Longrightarrow> I us \<Longrightarrow> I us'"
proof (induction n arbitrary: us s)
  case 0
  then show ?case by simp
next
  case (Suc n)
  obtain oc1 us1 s1 where f: "unwind_frame k pid us s = (oc1, us1, s1)"
    by (cases "unwind_frame k pid us s")
  with Suc.prems Suc.IH [of us1 s1] I_frame [OF Suc.prems(2) f] show ?case
    by (cases oc1) (auto simp: unwind_frames.simps(2))
qed

lemma dwarf_unwind_body_I:
  assumes "pre k" "heap_I s"
  shows "(case dwarf_unwind_body k s of Inl r \<Rightarrow> heap_I (snd r) | Inr s1 \<Rightarrow> heap_I s1)"
proof (cases "heap s")
  case None
  with assms show ?thesis by (simp add: dwarf_unwind_body_def)
next
  case (Some us)
  obtain oc us1 s1 where f:
    "unwind_frames MAX_STACK_DEPTH_PER_PROGRAM k (per_process_id k) us s = (oc, us1, s1)"
    by (cases "unwind_frames MAX_STACK_DEPTH_PER_PROGRAM k (per_process_id k) us s")
  from Some assms(2) have "I us" by (simp add: heap_I_def)
  with f have "I us1" by (rule frames_I)
  then show ?thesis
    using Some f assms(1) I_tail [of us1]
    by (cases oc) (auto simp: dwarf_unwind_body_def heap_I_def finish_stack_heap I_finish)
qed

lemma dwarf_unwind_I: "pre k \<Longrightarrow> heap_I s \<Longrightarrow> heap_I (snd (dwarf_unwind budget k s))"
proof (induction budget arbitrary: s)
  case 0
  then show ?case
    using dwarf_unwind_body_I [of k s]
    by (auto simp: dwarf_unwind.simps heap_I_def split: sum.splits)
next
  case (Suc budget)
  then show ?case
    using dwarf_unwind_body_I [of k s]
    by (auto simp: dwarf_unwind.simps heap_I_def split: sum.splits)
qed

lemma on_event_I:
  assumes "pre k" "heap_I s"
  shows "heap_I (snd (on_event budget k regs s))"
proof -
  have init: "heap_I (s'\<lparr>heap := Some (snd (set_initial_state k regs us))\<rparr>)"
    if "heap s = Some us" for us s'
    using that assms(2) by (simp add: heap_I_def I_init)
  have keep: "heap_I s'" if "heap s' = heap s" for s'
    using that assms(2) by (simp add: heap_I_def)
  show ?thesis
    using assms init dwarf_unwind_I
    by (auto simp: on_event_def Let_def keep split: option.splits nat.splits)
qed

end

section \<open>The two invariants of the unwind state\<close>

lemma set_initial_state_stack:
  "ulen (sample_stack (us_sample (snd (set_initial_state k regs us)))) = 0"
  "klen (sample_stack (us_sample (snd (set_initial_state k regs us)))) = 0"
  "addresses (sample_stack (us_sample (snd (set_initial_state k regs us)))) =
     addresses (sample_stack (us_sample us))"
  "tail_calls (snd (set_initial_state k regs us)) = 0"
  by (simp_all add: set_initial_state_def reset_state_def Let_def split: option.split)

lemma add_stack_tail_calls: "tail_calls (fst (add_stack k us s)) = tail_calls us"
  by (simp add: add_stack_us fill_sample_header_def add_kernel_stack_def Let_def split: prod.splits)

interpretation stack_buffer: us_invariant get_stack_contract stack_wf
proof (unfold_locales, goal_cases)
  case (1 us k pid s oc us' s')
  then show ?case by (auto intro: unwind_frame_wf)
next
  case (2 us)
  then show ?case by simp
next
  case (3 k us s)
  then show ?case by (simp add: add_stack_wf)
next
  case (4 us k regs)
  then show ?case by (simp add: stack_wf_def set_initial_state_stack)
qed

lemma unwind_frame_tail_calls:
  "unwind_frame k pid us s = (oc, us', s') \<Longrightarrow> tail_calls us' = tail_calls us"
  by (auto dest!: unwind_frame_us simp: same_sample_def)

interpretation tail_counter: us_invariant "\<lambda>k. True" "\<lambda>us. tail_calls us \<le> MAX_TAIL_CALLS"
proof (unfold_locales, goal_cases)
  case (1 us k pid s oc us' s')
  then show ?case using unwind_frame_tail_calls by metis
next
  case (2 us)
  then show ?case by (simp add: inc_le)
next
  case (3 k us s)
  then show ?case by (simp add: add_stack_tail_calls)
next
  case (4 us k regs)
  then show ?case by (simp add: set_initial_state_stack)
qed

lemma heap_wf_eq: "heap_wf s = stack_buffer.heap_I s"
  by (simp add: heap_wf_def stack_buffer.heap_I_def)

section \<open>The sample that is sent\<close>

lemma sample_size_value:
  assumes "stack_wf us"
  shows "unat (sample_size_of (us_sample us)) =
     24 + 8 * (unat (ulen (sample_stack (us_sample us))) + unat (klen (sample_stack (us_sample us))))"
proof -
  let ?u = "ulen (sample_stack (us_sample us))" and ?k = "klen (sample_stack (us_sample us))"
  have b: "unat ?u \<le> 127" "unat ?k \<le> 127"
    using assms by (simp_all add: stack_wf_def word_le_nat_alt)
  then have "unat (?u + ?k) = unat ?u + unat ?k" by (simp add: unat_word_ariths)
  with b show ?thesis
    by (simp add: sample_size_of_def unat_ucast_64_32 unat_word_ariths)
qed

lemma add_stack_sends:
  assumes "stack_wf us" "get_stack_contract k"
  shows "outputs (snd (add_stack k us s)) = outputs s @
     [(stack_channel k,
       P_sample (take (unat (sample_size_of (us_sample (fst (add_stack k us s)))))
                      (sample_bytes (us_sample (fst (add_stack k us s))))),
       out_ret k (length (outputs s)))]"
proof -
  let ?us = "fill_sample_header k (add_kernel_stack k us)"
  have "stack_wf ?us" using assms by (simp add: add_kernel_stack_wf)
  then have "unat (sample_size_of (us_sample ?us)) \<le> 2056"
    by (simp add: sample_size_value stack_wf_def word_le_nat_alt)
  then have "\<not> (ucast (sample_size_of (us_sample ?us)) :: u64) > 2056"
    by (simp add: word_less_nat_alt)
  then show ?thesis by (simp add: add_stack_us) (simp add: add_stack_def Let_def emit_def)
qed

end
