(* ===== verification/Raw_Sample.thy ===== *)
theory Raw_Sample
  imports Unwinder_Safety
begin

text \<open>
  User space's view of a sample: \<open>RawSample::from_bytes\<close> of src/src/profile/sample.rs, which must
  stay in sync with \<open>sample_t\<close> of src/src/bpf/profiler.h. The round trip shows that parsing the
  bytes \<open>add_stack\<close> sends recovers the header and exactly the two stacks.
\<close>

record raw_sample =
  rs_pid :: s32
  rs_tid :: s32
  rs_collected_at :: u64
  rs_ustack :: "u64 list"
  rs_kstack :: "u64 list"

datatype raw_sample_parsing_error = BeforeStackTooSmall | StackTooSmall | SampleTooLarge

definition slice :: "nat \<Rightarrow> nat \<Rightarrow> 'a list \<Rightarrow> 'a list" where
  "slice lo hi xs = take (hi - lo) (drop lo xs)"

text \<open>\<open>chunks_exact(8)\<close>: a remainder of fewer than 8 bytes is dropped.\<close>

fun chunks8 :: "u8 list \<Rightarrow> u8 list list" where
  "chunks8 bs = (if length bs < 8 then [] else take 8 bs # chunks8 (drop 8 bs))"

declare chunks8.simps [simp del]

definition from_bytes :: "u8 list \<Rightarrow> raw_sample_parsing_error + raw_sample" where
  "from_bytes data =
     (let sample_len = length data in
      if sample_len < 24 then Inl BeforeStackTooSmall
      else if sample_len > 24 + 127 * 2 * 8 then Inl SampleTooLarge
      else
        let pid = word_le (slice 0 4 data) :: s32;
            tid = word_le (slice 4 8 data) :: s32;
            at = word_le (slice 8 16 data) :: u64;
            u = unat (word_le (slice 16 20 data) :: u32);
            kl = unat (word_le (slice 20 24 data) :: u32)
        in if sample_len < 24 + (u + kl) * 8 then Inl StackTooSmall
           else Inr \<lparr>rs_pid = pid, rs_tid = tid, rs_collected_at = at,
             rs_ustack = map word_le (chunks8 (slice 24 (24 + u * 8) data)),
             rs_kstack = map word_le (chunks8 (slice (24 + u * 8) (24 + u * 8 + kl * 8) data))\<rparr>)"

section \<open>Round trip\<close>

lemma concat_words_length [simp]: "length (concat (map (bytes_le 8) (ws :: u64 list))) = 8 * length ws"
  by (induction ws) auto

lemma decode_words [simp]: "map word_le (chunks8 (concat (map (bytes_le 8) ws))) = (ws :: u64 list)"
  by (induction ws) (simp_all add: chunks8.simps)

lemma take_words: "take (8 * n) (concat (map (bytes_le 8) (ws :: u64 list))) = concat (map (bytes_le 8) (take n ws))"
proof (induction ws arbitrary: n)
  case Nil
  then show ?case by simp
next
  case (Cons w ws)
  then show ?case by (cases n) auto
qed

lemma drop_words: "drop (8 * n) (concat (map (bytes_le 8) (ws :: u64 list))) = concat (map (bytes_le 8) (drop n ws))"
proof (induction ws arbitrary: n)
  case Nil
  then show ?case by simp
next
  case (Cons w ws)
  then show ?case by (cases n) auto
qed

text \<open>The bytes before the addresses.\<close>

definition header_bytes :: "sample_t \<Rightarrow> u8 list" where
  "header_bytes sample =
     bytes_le 4 (sample_pid sample) @ bytes_le 4 (sample_tid sample) @
     bytes_le 8 (collected_at sample) @
     bytes_le 4 (ulen (sample_stack sample)) @ bytes_le 4 (klen (sample_stack sample))"

lemma header_bytes_length [simp]: "length (header_bytes sample) = 24"
  by (simp add: header_bytes_def)

lemma header_fields:
  "slice 0 4 (header_bytes sample @ rest) = bytes_le 4 (sample_pid sample)"
  "slice 4 8 (header_bytes sample @ rest) = bytes_le 4 (sample_tid sample)"
  "slice 8 16 (header_bytes sample @ rest) = bytes_le 8 (collected_at sample)"
  "slice 16 20 (header_bytes sample @ rest) = bytes_le 4 (ulen (sample_stack sample))"
  "slice 20 24 (header_bytes sample @ rest) = bytes_le 4 (klen (sample_stack sample))"
  by (simp_all add: slice_def header_bytes_def)

lemma slice_after_header:
  "24 \<le> lo \<Longrightarrow> slice lo hi (header_bytes sample @ rest) = slice (lo - 24) (hi - 24) rest"
  by (simp add: slice_def)

lemma sample_bytes_split:
  "sample_bytes sample =
     header_bytes sample @ concat (map (bytes_le 8) (addresses (sample_stack sample)))"
  by (simp add: sample_bytes_def header_bytes_def)

lemma from_bytes_sample:
  assumes "n = unat (ulen (sample_stack sample))" "m = unat (klen (sample_stack sample))"
    and "length (addresses (sample_stack sample)) = 254" "n \<le> 127" "m \<le> 127"
  shows "from_bytes (take (24 + 8 * (n + m)) (sample_bytes sample)) =
     Inr \<lparr>rs_pid = sample_pid sample, rs_tid = sample_tid sample,
          rs_collected_at = collected_at sample,
          rs_ustack = take n (addresses (sample_stack sample)),
          rs_kstack = take m (drop n (addresses (sample_stack sample)))\<rparr>"
proof -
  let ?as = "take (n + m) (addresses (sample_stack sample))"
  let ?ws = "concat (map (bytes_le 8) ?as)"
  have data: "take (24 + 8 * (n + m)) (sample_bytes sample) = header_bytes sample @ ?ws"
    using take_words [of "n + m" "addresses (sample_stack sample)"] by (simp add: sample_bytes_split)
  have len: "length ?ws = 8 * (n + m)" using assms by simp
  have u: "slice 0 (n * 8) ?ws = concat (map (bytes_le 8) (take n ?as))"
    using take_words [of n ?as] by (simp add: slice_def mult.commute)
  have v: "slice (n * 8) (n * 8 + m * 8) ?ws = concat (map (bytes_le 8) (take m (drop n ?as)))"
    using drop_words [of n ?as] take_words [of m "drop n ?as"] by (simp add: slice_def mult.commute)
  have "take m (drop n ?as) = take m (drop n (addresses (sample_stack sample)))"
    by (simp add: drop_take)
  with u v len assms show ?thesis
    unfolding data from_bytes_def Let_def
    by (simp add: header_fields slice_after_header min_def)
qed

end
