(* ===== verification/Stack_Walk.thy ===== *)
theory Stack_Walk
  imports Raw_Sample "HOL-Library.Monad_Syntax"
begin

text \<open>
  An abstract stack walk and its refinement by the unwinder. Abstractly, a frame is a triple of
  registers; the unwind tables give the row for its program counter, the row either marks the
  bottom of the stack or gives the caller's registers, and a walk is a chain of callers down to
  the bottom. Nothing here counts, sends or copies. The refinement lemmas show that the program,
  split over tail calls of seven frames each and writing into a bounded buffer, follows exactly
  these chains.
\<close>

section \<open>The abstract walk\<close>

record wregs =
  w_ip :: u64
  w_sp :: u64
  w_bp :: u64

definition regs_of :: "unwind_state_t \<Rightarrow> wregs" where
  "regs_of us = \<lparr>w_ip = us_ip us, w_sp = us_sp us, w_bp = us_bp us\<rparr>"

lemma regs_of_simps [simp]:
  "w_ip (regs_of us) = us_ip us" "w_sp (regs_of us) = us_sp us" "w_bp (regs_of us) = us_bp us"
  by (simp_all add: regs_of_def)

definition mapping_at :: "bpf_state \<Rightarrow> s32 \<Rightarrow> u64 \<Rightarrow> mapping_t option" where
  "mapping_at s pid ip = do {
     m \<leftarrow> find_mapping (exec_mappings s) pid ip;
     if m_begin m \<le> ip \<and> ip < m_end m \<and> m_type m \<noteq> MAPPING_TYPE_ANON then Some m else None
   }"

definition row_in :: "bpf_state \<Rightarrow> mapping_t \<Rightarrow> u64 \<Rightarrow> stack_unwind_row_t option" where
  "row_in s m ip = do {
     pv \<leftarrow> executable_to_page s \<lparr>pk_executable_id = m_executable_id m,
            pk_file_offset = HIGH_PC (ip - m_load_address m)\<rparr>;
     inner \<leftarrow> outer_map s (m_executable_id m);
     case frame_table_idx inner (ip - m_load_address m) (HIGH_PC (ip - m_load_address m))
            (ucast (LOW_PC (ip - m_load_address m)))
            (ucast (pv_low_index pv)) (ucast (pv_high_index pv)) of
       Inl _ \<Rightarrow> None
     | Inr i \<Rightarrow> inner (ucast i)
   }"

definition row_at :: "bpf_state \<Rightarrow> s32 \<Rightarrow> u64 \<Rightarrow> stack_unwind_row_t option" where
  "row_at s pid ip = do { m \<leftarrow> mapping_at s pid ip; row_in s m ip }"

definition is_bottom :: "stack_unwind_row_t \<Rightarrow> bool" where
  "is_bottom row \<longleftrightarrow>
     cfa_type row = CFA_TYPE_END_OF_FDE_MARKER \<or>
     (cfa_type row \<noteq> CFA_TYPE_OFFSET_DID_NOT_FIT \<and>
      rbp_type row = RBP_TYPE_UNDEFINED_RETURN_ADDRESS)"

definition is_supported :: "stack_unwind_row_t \<Rightarrow> bool" where
  "is_supported row \<longleftrightarrow>
     cfa_type row \<notin> {CFA_TYPE_END_OF_FDE_MARKER, CFA_TYPE_OFFSET_DID_NOT_FIT} \<and>
     rbp_type row \<notin> {RBP_TYPE_UNDEFINED_RETURN_ADDRESS, RBP_TYPE_OFFSET_DID_NOT_FIT,
       RBP_TYPE_REGISTER, RBP_TYPE_EXPRESSION}"

definition nonzero :: "u64 \<Rightarrow> u64 option" where
  "nonzero v = (if v = 0 then None else Some v)"

definition caller_sp :: "kernel \<Rightarrow> stack_unwind_row_t \<Rightarrow> wregs \<Rightarrow> u64 option" where
  "caller_sp k row r =
     (if cfa_type row = CFA_TYPE_RBP then nonzero (w_bp r + scast (cfa_offset row))
      else if cfa_type row = CFA_TYPE_RSP then nonzero (w_sp r + scast (cfa_offset row))
      else if cfa_type row = CFA_TYPE_DEREF_AND_ADD then
        nonzero (snd (probe_read_user k
                   (w_sp r + ucast (ucast (signed_drop_bit 8 (cfa_offset row)) :: u8)) 0)
                 + ucast (ucast (cfa_offset row) :: u8))
      else if cfa_type row = CFA_TYPE_PLT1 then
        nonzero (w_sp r + 8 + (if w_ip r AND 15 \<ge> 1 then 8 else 0))
      else None)"

definition caller_bp :: "kernel \<Rightarrow> stack_unwind_row_t \<Rightarrow> u64 \<Rightarrow> wregs \<Rightarrow> u64 option" where
  "caller_bp k row cfa r =
     (if rbp_type row = RBP_TYPE_UNCHANGED then Some (w_bp r)
      else case probe_read_user k (cfa + scast (rbp_offset row)) 0 of
        (ret, v) \<Rightarrow> if ret < 0 then None else Some v)"

definition caller_ip :: "kernel \<Rightarrow> stack_unwind_row_t \<Rightarrow> u64 \<Rightarrow> u64 option" where
  "caller_ip k row cfa =
     (let addr = (case k_arch k of X86 \<Rightarrow> cfa - 8 | Arm64 \<Rightarrow> cfa + scast (rbp_offset row) + 8)
      in map_option (\<lambda>ra. previous_instruction_addr (k_arch k) (remove_pac (k_arch k) ra))
           (nonzero (snd (probe_read_user k addr 0))))"

definition caller_of :: "kernel \<Rightarrow> stack_unwind_row_t \<Rightarrow> wregs \<Rightarrow> wregs option" where
  "caller_of k row r = do {
     cfa \<leftarrow> caller_sp k row r;
     bp \<leftarrow> caller_bp k row cfa r;
     ip \<leftarrow> caller_ip k row cfa;
     Some \<lparr>w_ip = ip, w_sp = cfa, w_bp = bp\<rparr>
   }"

datatype frame_kind = Stuck | Bottom | Caller wregs

definition frame_kind :: "kernel \<Rightarrow> bpf_state \<Rightarrow> s32 \<Rightarrow> wregs \<Rightarrow> frame_kind" where
  "frame_kind k s pid r =
     (case row_at s pid (w_ip r) of
        None \<Rightarrow> Stuck
      | Some row \<Rightarrow>
          if is_bottom row then Bottom
          else if is_supported row
          then (case caller_of k row r of None \<Rightarrow> Stuck | Some r' \<Rightarrow> Caller r')
          else Stuck)"

inductive walk_path :: "kernel \<Rightarrow> bpf_state \<Rightarrow> s32 \<Rightarrow> wregs \<Rightarrow> u64 list \<Rightarrow> wregs \<Rightarrow> bool"
  for k s pid where
  path_here: "walk_path k s pid r [] r"
| path_caller: "frame_kind k s pid r = Caller r' \<Longrightarrow> walk_path k s pid r' pcs e \<Longrightarrow>
    walk_path k s pid r (w_ip r # pcs) e"

definition stack_walk :: "kernel \<Rightarrow> bpf_state \<Rightarrow> s32 \<Rightarrow> wregs \<Rightarrow> u64 list \<Rightarrow> wregs \<Rightarrow> bool" where
  "stack_walk k s pid r pcs e \<longleftrightarrow> walk_path k s pid r pcs e \<and> frame_kind k s pid e = Bottom"

inductive_simps walk_path_Nil [simp]: "walk_path k s pid r [] e"
inductive_simps walk_path_Cons: "walk_path k s pid r (pc # pcs) e"

section \<open>One frame refines one step of the walk\<close>

lemma frame_mapping_mapping_at:
  "case frame_mapping pid ip s of
     Inl s' \<Rightarrow> mapping_at s pid ip = None
   | Inr (m, s') \<Rightarrow> mapping_at s pid ip = Some m"
  by (auto simp: frame_mapping_def mapping_at_def split: option.splits)

lemma frame_row_row_in:
  "case frame_row k pid ip m s of
     Inl s' \<Rightarrow> row_in s m ip = None
   | Inr (row, s') \<Rightarrow> row_in s m ip = Some row"
  by (auto simp: frame_row_def row_in_def find_page_def Let_def split: option.splits sum.splits)

lemma row_in_same_maps: "same_maps s s' \<Longrightarrow> row_in s' m ip = row_in s m ip"
  by (simp add: row_in_def same_maps_def)

lemma frame_kind_same_maps: "same_maps s s' \<Longrightarrow> frame_kind k s' pid r = frame_kind k s pid r"
  by (simp add: frame_kind_def row_at_def mapping_at_def row_in_def same_maps_def)

lemma frame_rsp_caller_sp:
  "case frame_rsp k row us s of
     Inl s' \<Rightarrow> caller_sp k row (regs_of us) = None
   | Inr (v, s') \<Rightarrow> caller_sp k row (regs_of us) = Some v"
  by (simp add: frame_rsp_def caller_sp_def regs_of_def plt_threshold_def nonzero_def Let_def
      split: prod.splits)

lemma frame_rbp_caller_bp:
  "case frame_rbp k row us cfa s of
     Inl s' \<Rightarrow> caller_bp k row cfa (regs_of us) = None
   | Inr v \<Rightarrow> caller_bp k row cfa (regs_of us) = Some v"
  by (auto simp: frame_rbp_def caller_bp_def regs_of_def Let_def split: prod.splits)

lemma frame_rip_caller_ip:
  assumes "ulen (sample_stack (us_sample us)) \<noteq> 0"
  shows "case frame_rip k row us cfa s of
     Inl s' \<Rightarrow> caller_ip k row cfa = None
   | Inr ra \<Rightarrow> caller_ip k row cfa =
       Some (previous_instruction_addr (k_arch k) (remove_pac (k_arch k) ra))"
  using assms
  by (cases "k_arch k") (auto simp: frame_rip_def caller_ip_def nonzero_def Let_def split: prod.splits)

lemma push_address_nonzero: "ulen (sample_stack (us_sample (push_address us))) \<noteq> 0"
proof -
  have "(n :: u32) + 1 \<noteq> 0" if "n < 127" for n
    using that by (simp add: word_less_nat_alt unat_eq_zero [symmetric] unat_word_ariths)
  then show ?thesis by (auto simp: push_address_def Let_def)
qed

lemma frame_caller_caller_of:
  assumes "ulen (sample_stack (us_sample us)) \<noteq> 0" "frame_caller k row us s = (oc, us', s')"
  shows "oc = Frame_return \<and> caller_of k row (regs_of us) = None \<or>
     oc = Frame_continue \<and> caller_of k row (regs_of us) = Some (regs_of us')"
proof -
  note rsp = frame_rsp_caller_sp [where k = k and row = row and us = us and s = s]
  note rbp = frame_rbp_caller_bp [where k = k and row = row and us = us]
  note rip = frame_rip_caller_ip [OF assms(1), where k = k and row = row]
  show ?thesis
  proof (cases "frame_rsp k row us s")
    case (Inl s1)
    with assms(2) rsp show ?thesis by (auto simp: frame_caller_def caller_of_def)
  next
    case (Inr p)
    obtain v s1 where p: "p = (v, s1)" by (cases p)
    with Inr assms(2) rsp rbp [where cfa = v and s = s1] rip [where cfa = v and s = s1] show ?thesis
      by (auto simp: frame_caller_def caller_of_def regs_of_def split: sum.splits)
  qed
qed

lemma frame_apply_row_kind:
  assumes "frame_apply_row k row us s = (oc, us', s')"
  shows "is_bottom row \<and> oc = Frame_break \<and> us' = us \<or>
     \<not> is_bottom row \<and> is_supported row \<and> oc = Frame_continue \<and>
       caller_of k row (regs_of us) = Some (regs_of us') \<and> same_sample (push_address us) us' \<or>
     \<not> is_bottom row \<and> (is_supported row \<longrightarrow> caller_of k row (regs_of us) = None) \<and>
       oc = Frame_return"
proof (cases "is_supported row")
  case False
  with assms show ?thesis
    by (auto simp: frame_apply_row_def is_supported_def is_bottom_def split: if_splits)
next
  case True
  then have nb: "\<not> is_bottom row" and fc: "frame_caller k row (push_address us) s = (oc, us', s')"
    using assms by (auto simp: frame_apply_row_def is_supported_def is_bottom_def Let_def)
  have "regs_of (push_address us) = regs_of us" by (simp add: regs_of_def)
  with frame_caller_caller_of [OF push_address_nonzero fc] frame_caller_us [OF fc] nb True
  show ?thesis by auto
qed

lemma unwind_frame_kind:
  assumes "unwind_frame k pid us s = (oc, us', s')"
  shows "case frame_kind k s pid (regs_of us) of
     Stuck \<Rightarrow> oc = Frame_return
   | Bottom \<Rightarrow> oc = Frame_break \<and> us' = us
   | Caller r' \<Rightarrow> oc = Frame_continue \<and> regs_of us' = r' \<and> same_sample (push_address us) us'"
proof -
  note map = frame_mapping_mapping_at [where pid = pid and ip = "us_ip us" and s = s]
  show ?thesis
  proof (cases "frame_mapping pid (us_ip us) s")
    case (Inl s1)
    with assms map show ?thesis by (simp add: unwind_frame_def frame_kind_def row_at_def)
  next
    case (Inr p)
    obtain m s1 where p: "p = (m, s1)" by (cases p)
    have same: "same_maps s s1" using Inr p frame_mapping_same_maps(2) by blast
    have m: "mapping_at s pid (us_ip us) = Some m" using map Inr p by simp
    note row = frame_row_row_in [where k = k and pid = pid and ip = "us_ip us" and m = m and s = s1]
    show ?thesis
    proof (cases "frame_row k pid (us_ip us) m s1")
      case r: (Inl s2)
      with assms Inr p m row row_in_same_maps [OF same] show ?thesis
        by (simp add: unwind_frame_def frame_kind_def row_at_def)
    next
      case r: (Inr q)
      obtain rw s2 where q: "q = (rw, s2)" by (cases q)
      have "row_at s pid (us_ip us) = Some rw"
        using m row r q row_in_same_maps [OF same] by (simp add: row_at_def)
      moreover have "frame_apply_row k rw us s2 = (oc, us', s')"
        using assms Inr p r q by (simp add: unwind_frame_def)
      ultimately show ?thesis
        using frame_apply_row_kind [of k rw us s2 oc us' s']
        by (auto simp: frame_kind_def)
    qed
  qed
qed

lemma walk_path_same_maps:
  assumes "same_maps s s'"
  shows "walk_path k s' pid r pcs e = walk_path k s pid r pcs e"
  by (induction pcs arbitrary: r) (auto simp: walk_path_Cons frame_kind_same_maps [OF assms])

section \<open>The user part of the buffer\<close>

definition user_stack :: "unwind_state_t \<Rightarrow> u64 list" where
  "user_stack us =
     take (unat (ulen (sample_stack (us_sample us)))) (addresses (sample_stack (us_sample us)))"

lemma user_stack_length:
  "stack_wf us \<Longrightarrow> length (user_stack us) = unat (ulen (sample_stack (us_sample us)))"
  by (simp add: user_stack_def stack_wf_def word_le_nat_alt)

lemma user_stack_same_sample: "same_sample us us' \<Longrightarrow> user_stack us' = user_stack us"
  by (simp add: user_stack_def same_sample_def)

lemma user_stack_push:
  assumes "stack_wf us"
  shows "user_stack (push_address us) = take 127 (user_stack us @ [us_ip us])"
proof -
  let ?st = "sample_stack (us_sample us)"
  let ?n = "unat (ulen ?st)"
  have wf: "length (addresses ?st) = 254" "?n \<le> 127"
    using assms by (simp_all add: stack_wf_def word_le_nat_alt)
  show ?thesis
  proof (cases "ulen ?st < 127")
    case True
    then have n: "?n < 127" by (simp add: word_less_nat_alt)
    then have "unat (ulen ?st + 1) = Suc ?n" by (simp add: unat_word_ariths)
    with True n wf show ?thesis
      by (simp add: user_stack_def push_address_def Let_def take_Suc_conv_app_nth)
  next
    case False
    then have "?n = 127" using wf by (simp add: word_less_nat_alt)
    with False wf show ?thesis by (simp add: user_stack_def push_address_def Let_def)
  qed
qed

section \<open>The loop follows the walk\<close>

text \<open>
  \<open>frames_follow n\<close>: seven or fewer frames either stop at the bottom of the walk or advance along
  it, and the buffer receives the program counters passed, up to its capacity.
\<close>

lemma take_append_take: "take n (take n xs @ ys) = take n (xs @ ys)"
  by (simp add: min_def)

lemma unwind_frames_follow:
  assumes "unwind_frames n k pid us s = (oc, us', s')" "stack_wf us"
    and "walk_path k s pid (regs_of us) pcs e" "frame_kind k s pid e = Bottom"
  shows "if length pcs < n
     then oc = Frame_break \<and> regs_of us' = e \<and> user_stack us' = take 127 (user_stack us @ pcs)
     else oc = Frame_continue \<and> walk_path k s pid (regs_of us') (drop n pcs) e \<and>
       user_stack us' = take 127 (user_stack us @ take n pcs)"
  using assms
proof (induction n arbitrary: us s pcs)
  case 0
  then have "user_stack us = take 127 (user_stack us)"
    using user_stack_length [of us] by (simp add: stack_wf_def word_le_nat_alt)
  with 0 show ?case by simp
next
  case (Suc n)
  obtain oc1 us1 s1 where f: "unwind_frame k pid us s = (oc1, us1, s1)"
    by (cases "unwind_frame k pid us s")
  note kind = unwind_frame_kind [OF f]
  have same: "same_maps s s1" using f by (rule unwind_frame_same_maps)
  have wf1: "stack_wf us1" using f Suc.prems(2) by (rule unwind_frame_wf)
  show ?case
  proof (cases pcs)
    case Nil
    then have "e = regs_of us" using Suc.prems(3) by simp
    with kind Suc.prems(4) have "oc1 = Frame_break" "us1 = us" by simp_all
    moreover have "user_stack us = take 127 (user_stack us)"
      using user_stack_length [of us] Suc.prems(2) by (simp add: stack_wf_def word_le_nat_alt)
    ultimately show ?thesis
      using Suc.prems(1) f Nil \<open>e = regs_of us\<close> by (simp add: unwind_frames.simps(2))
  next
    case (Cons pc rest)
    with Suc.prems(3) obtain r' where k1: "frame_kind k s pid (regs_of us) = Caller r'"
      and pc: "pc = us_ip us" and path: "walk_path k s pid r' rest e"
      by (auto simp: walk_path_Cons regs_of_def)
    from kind k1 have c: "oc1 = Frame_continue" "regs_of us1 = r'" "same_sample (push_address us) us1"
      by simp_all
    have us1: "user_stack us1 = take 127 (user_stack us @ [pc])"
      using user_stack_same_sample [OF c(3)] user_stack_push [OF Suc.prems(2)] pc by simp
    have "unwind_frames n k pid us1 s1 = (oc, us', s')"
      using Suc.prems(1) f c(1) by (simp add: unwind_frames.simps(2))
    note IH = Suc.IH [OF this wf1, of rest]
    from IH path c(2) Suc.prems(4) show ?thesis
      unfolding walk_path_same_maps [OF same] frame_kind_same_maps [OF same] us1 Cons
        take_append_take by simp
  qed
qed

text \<open>Conversely, whatever the loop does is a piece of the walk.\<close>

lemma unwind_frames_sound:
  assumes "unwind_frames n k pid us s = (oc, us', s')" "stack_wf us" "oc \<noteq> Frame_return"
  shows "\<exists>pcs. walk_path k s pid (regs_of us) pcs (regs_of us') \<and>
     user_stack us' = take 127 (user_stack us @ pcs) \<and>
     (oc = Frame_break \<longrightarrow> frame_kind k s pid (regs_of us') = Bottom)"
  using assms
proof (induction n arbitrary: us s)
  case 0
  then have "user_stack us' = take 127 (user_stack us)" "us' = us"
    using user_stack_length [of us] by (simp_all add: stack_wf_def word_le_nat_alt)
  with 0 show ?case by (intro exI [of _ "[]"]) simp
next
  case (Suc n)
  obtain oc1 us1 s1 where f: "unwind_frame k pid us s = (oc1, us1, s1)"
    by (cases "unwind_frame k pid us s")
  note kind = unwind_frame_kind [OF f]
  have same: "same_maps s s1" using f by (rule unwind_frame_same_maps)
  have wf1: "stack_wf us1" using f Suc.prems(2) by (rule unwind_frame_wf)
  show ?case
  proof (cases "frame_kind k s pid (regs_of us)")
    case Stuck
    with kind Suc.prems f show ?thesis by (simp add: unwind_frames.simps(2))
  next
    case Bottom
    with kind Suc.prems f have "us' = us" "oc = Frame_break" by (auto simp: unwind_frames.simps(2))
    moreover have "user_stack us = take 127 (user_stack us)"
      using user_stack_length [of us] Suc.prems(2) by (simp add: stack_wf_def word_le_nat_alt)
    ultimately show ?thesis using Bottom by (intro exI [of _ "[]"]) simp
  next
    case (Caller r')
    with kind have c: "oc1 = Frame_continue" "regs_of us1 = r'" "same_sample (push_address us) us1"
      by simp_all
    have us1: "user_stack us1 = take 127 (user_stack us @ [us_ip us])"
      using user_stack_same_sample [OF c(3)] user_stack_push [OF Suc.prems(2)] by simp
    have "unwind_frames n k pid us1 s1 = (oc, us', s')"
      using Suc.prems(1) f c(1) by (simp add: unwind_frames.simps(2))
    from Suc.IH [OF this wf1 Suc.prems(3)] obtain pcs where
      "walk_path k s pid r' pcs (regs_of us')"
      "user_stack us' = take 127 ((user_stack us @ [us_ip us]) @ pcs)"
      "oc = Frame_break \<longrightarrow> frame_kind k s pid (regs_of us') = Bottom"
      unfolding walk_path_same_maps [OF same] frame_kind_same_maps [OF same] us1 c(2) take_append_take
      by blast
    with Caller show ?thesis
      by (intro exI [of _ "us_ip us # pcs"]) (auto simp: walk_path_Cons simp del: take_append)
  qed
qed

lemma walk_path_append:
  "walk_path k s pid r pcs r' \<Longrightarrow> walk_path k s pid r' qs e \<Longrightarrow> walk_path k s pid r (pcs @ qs) e"
  by (induction rule: walk_path.induct) (auto intro: walk_path.intros)

end
