(* ===== verification/Walk_Refinement.thy ===== *)
theory Walk_Refinement
  imports Stack_Walk
begin

text \<open>
  From the abstract walk to the bytes user space receives: the program with its tail calls follows
  the walk to the bottom when the stack has at most 132 frames, gives up otherwise, and sends a
  sample only for a walk that reached the bottom. The sample decodes to the first 127 program
  counters of the walk and the kernel's own stack.
\<close>

section \<open>What a run leaves unchanged\<close>

definition same_tables :: "bpf_state \<Rightarrow> bpf_state \<Rightarrow> bool" where
  "same_tables s s' \<longleftrightarrow>
     exec_mappings s' = exec_mappings s \<and> executable_to_page s' = executable_to_page s \<and>
     outer_map s' = outer_map s \<and> programs s' = programs s \<and> sample_log s' = sample_log s"

lemma same_tables_refl [simp]: "same_tables s s"
  by (simp add: same_tables_def)

lemma same_tables_trans: "same_tables s t \<Longrightarrow> same_tables t u \<Longrightarrow> same_tables s u"
  by (simp add: same_tables_def)

lemma same_tables_simps [simp]:
  "same_tables s (bump f t) = same_tables s t"
  "same_tables s (t\<lparr>heap := h\<rparr>) = same_tables s t"
  by (simp_all add: same_tables_def)

lemma same_maps_tables: "same_maps s s' \<Longrightarrow> same_tables s s'"
  by (simp add: same_maps_def same_tables_def)

lemma frame_kind_same_tables: "same_tables s s' \<Longrightarrow> frame_kind k s' pid r = frame_kind k s pid r"
  by (simp add: frame_kind_def row_at_def mapping_at_def row_in_def same_tables_def)

lemma walk_path_same_tables:
  assumes "same_tables s s'"
  shows "walk_path k s' pid r pcs e = walk_path k s pid r pcs e"
  by (induction pcs arbitrary: r) (auto simp: walk_path_Cons frame_kind_same_tables [OF assms])

lemma walk_path_unique:
  "walk_path k s pid r pcs e \<Longrightarrow> frame_kind k s pid e = Bottom \<Longrightarrow>
   walk_path k s pid r pcs' e' \<Longrightarrow> frame_kind k s pid e' = Bottom \<Longrightarrow> pcs' = pcs \<and> e' = e"
proof (induction arbitrary: pcs' rule: walk_path.induct)
  case (path_here r)
  then show ?case by (cases pcs') (auto simp: walk_path_Cons)
next
  case (path_caller r r' pcs e)
  then show ?case by (cases pcs') (auto simp: walk_path_Cons)
qed

text \<open>What only the initialisation and the completion of the sample write.\<close>

lemma unwind_frame_klen:
  "unwind_frame k pid us s = (oc, us', s') \<Longrightarrow>
   klen (sample_stack (us_sample us')) = klen (sample_stack (us_sample us)) \<and>
   tail_calls us' = tail_calls us"
  by (auto dest!: unwind_frame_us simp: same_sample_def push_address_def Let_def)

lemma unwind_frames_klen:
  "unwind_frames n k pid us s = (oc, us', s') \<Longrightarrow>
   klen (sample_stack (us_sample us')) = klen (sample_stack (us_sample us)) \<and>
   tail_calls us' = tail_calls us"
proof (induction n arbitrary: us s)
  case 0
  then show ?case by simp
next
  case (Suc n)
  obtain oc1 us1 s1 where f: "unwind_frame k pid us s = (oc1, us1, s1)"
    by (cases "unwind_frame k pid us s")
  with Suc.prems Suc.IH [of us1 s1] unwind_frame_klen [OF f] show ?case
    by (cases oc1) (auto simp: unwind_frames.simps(2))
qed

section \<open>One invocation\<close>

text \<open>The state between two invocations of the program.\<close>

definition resumes :: "bpf_state \<Rightarrow> nat \<Rightarrow> unwind_state_t \<Rightarrow> bool" where
  "resumes s t us \<longleftrightarrow> heap s = Some us \<and> stack_wf us \<and> tail_calls us = of_nat t \<and>
     klen (sample_stack (us_sample us)) = 0 \<and> length (user_stack us) = 7 * t"

text \<open>A finished walk: what \<open>finish_stack\<close> is called with.\<close>

definition finishes :: "unwind_state_t \<Rightarrow> u64 list \<Rightarrow> wregs \<Rightarrow> bool" where
  "finishes us pcs e \<longleftrightarrow> stack_wf us \<and> klen (sample_stack (us_sample us)) = 0 \<and> regs_of us = e \<and>
     user_stack us = take 127 pcs"

lemma user_stack_tail_calls [simp]:
  "user_stack (us\<lparr>tail_calls := t\<rparr>) = user_stack us" "regs_of (us\<lparr>tail_calls := t\<rparr>) = regs_of us"
  by (simp_all add: user_stack_def regs_of_def)

lemma user_stack_ulen: "stack_wf us \<Longrightarrow>
   (ulen (sample_stack (us_sample us)) < 127) = (length (user_stack us) < 127)"
  by (simp add: user_stack_length word_less_nat_alt)

lemma of_nat_tail: "t \<le> 18 \<Longrightarrow> (of_nat t :: u64) < 19"
  by (simp add: word_less_nat_alt unat_of_nat)

lemma body_follow_bottom:
  assumes "resumes s t us"
    and "walk_path k s (per_process_id k) (regs_of us) pcs e"
    and "frame_kind k s (per_process_id k) e = Bottom" "length pcs < 7"
  shows "\<exists>us' s'. dwarf_unwind_body k s = Inl (0, finish_stack k us' s') \<and> same_tables s s' \<and>
     finishes us' (user_stack us @ pcs) e"
proof -
  obtain oc us1 s1 where f: "unwind_frames 7 k (per_process_id k) us s = (oc, us1, s1)"
    by (cases "unwind_frames 7 k (per_process_id k) us s")
  have us: "heap s = Some us" "stack_wf us" "klen (sample_stack (us_sample us)) = 0"
    using assms(1) by (simp_all add: resumes_def)
  have "oc = Frame_break" "regs_of us1 = e" "user_stack us1 = take 127 (user_stack us @ pcs)"
    using unwind_frames_follow [OF f us(2) assms(2,3)] assms(4) by auto
  moreover have "stack_wf us1" using stack_buffer.frames_I [OF f us(2)] .
  moreover have "same_tables s s1" using unwind_frames_same_maps [OF f] by (rule same_maps_tables)
  ultimately show ?thesis
    using us(1,3) f unwind_frames_klen [OF f] by (auto simp: dwarf_unwind_body_def finishes_def)
qed

lemma body_follow_resume:
  assumes "resumes s t us" "t \<le> 18"
    and "walk_path k s (per_process_id k) (regs_of us) pcs e"
    and "frame_kind k s (per_process_id k) e = Bottom" "7 \<le> length pcs"
  shows "if t < 18
     then \<exists>us' s'. dwarf_unwind_body k s = Inr s' \<and> same_tables s s' \<and> resumes s' (Suc t) us' \<and>
       user_stack us' = user_stack us @ take 7 pcs \<and>
       walk_path k s (per_process_id k) (regs_of us') (drop 7 pcs) e
     else \<exists>s'. dwarf_unwind_body k s = Inl (0, bump bump_unwind_error_truncated s') \<and>
       same_tables s s'"
proof -
  obtain oc us1 s1 where f: "unwind_frames 7 k (per_process_id k) us s = (oc, us1, s1)"
    by (cases "unwind_frames 7 k (per_process_id k) us s")
  have us: "heap s = Some us" "stack_wf us" "klen (sample_stack (us_sample us)) = 0"
    "length (user_stack us) = 7 * t" "tail_calls us = of_nat t"
    using assms(1) by (simp_all add: resumes_def)
  have follow: "oc = Frame_continue" "walk_path k s (per_process_id k) (regs_of us1) (drop 7 pcs) e"
    "user_stack us1 = take 127 (user_stack us @ take 7 pcs)"
    using unwind_frames_follow [OF f us(2) assms(3,4)] assms(5) by auto
  have wf1: "stack_wf us1" using stack_buffer.frames_I [OF f us(2)] .
  have same: "same_tables s s1" using unwind_frames_same_maps [OF f] by (rule same_maps_tables)
  have keep: "klen (sample_stack (us_sample us1)) = 0" "tail_calls us1 = of_nat t"
    using unwind_frames_klen [OF f] us by simp_all
  have len: "length (user_stack us1) = min 127 (7 * t + 7)"
    using follow(3) us(4) assms(5) by simp
  show ?thesis
  proof (cases "t < 18")
    case True
    let ?us = "us1\<lparr>tail_calls := tail_calls us1 + 1\<rparr>"
    have "dwarf_unwind_body k s = Inr (s1\<lparr>heap := Some ?us\<rparr>)"
      using True f follow(1) us(1) keep len of_nat_tail [of t]
      by (simp add: dwarf_unwind_body_def user_stack_ulen [OF wf1])
    moreover have "user_stack ?us = user_stack us @ take 7 pcs"
      using True us(4) follow(3) by simp
    moreover have "resumes (s1\<lparr>heap := Some ?us\<rparr>) (Suc t) ?us"
      using True wf1 keep len by (simp add: resumes_def add.commute)
    ultimately show ?thesis using True same follow(2) by auto
  next
    case False
    with assms(2) len have "\<not> ulen (sample_stack (us_sample us1)) < 127"
      by (simp add: user_stack_ulen [OF wf1])
    then have "dwarf_unwind_body k s = Inl (0, bump bump_unwind_error_truncated (s1\<lparr>heap := Some us1\<rparr>))"
      using f follow(1) us(1) by (simp add: dwarf_unwind_body_def)
    with False same show ?thesis by auto
  qed
qed

section \<open>The whole program\<close>

lemma dwarf_unwind_Inl: "dwarf_unwind_body k s = Inl r \<Longrightarrow> dwarf_unwind budget k s = r"
  by (cases budget) (simp_all add: dwarf_unwind.simps)

lemma dwarf_unwind_Inr:
  "dwarf_unwind_body k s = Inr s1 \<Longrightarrow> programs s1 PROGRAM_NATIVE_UNWINDER \<Longrightarrow>
   dwarf_unwind (Suc budget) k s = dwarf_unwind budget k s1"
  by (simp add: dwarf_unwind.simps)

lemma dwarf_unwind_complete:
  assumes "resumes s t us" "t \<le> 18" "18 \<le> budget + t" "programs s PROGRAM_NATIVE_UNWINDER"
    and "walk_path k s (per_process_id k) (regs_of us) pcs e"
    and "frame_kind k s (per_process_id k) e = Bottom" "7 * t + length pcs \<le> 132"
  shows "\<exists>us' s'. dwarf_unwind budget k s = (0, finish_stack k us' s') \<and> same_tables s s' \<and>
     finishes us' (user_stack us @ pcs) e"
  using assms
proof (induction budget arbitrary: s t us pcs)
  case 0
  then have "length pcs < 7" by simp
  from body_follow_bottom [OF 0(1,5,6) this] show ?case by (metis dwarf_unwind_Inl)
next
  case (Suc budget)
  show ?case
  proof (cases "length pcs < 7")
    case True
    from body_follow_bottom [OF Suc.prems(1,5,6) True] show ?thesis by (metis dwarf_unwind_Inl)
  next
    case False
    then have "t < 18" using Suc.prems(7) by simp
    with body_follow_resume [OF Suc.prems(1,2,5,6)] False obtain us1 s1 where b:
      "dwarf_unwind_body k s = Inr s1" "same_tables s s1" "resumes s1 (Suc t) us1"
      "user_stack us1 = user_stack us @ take 7 pcs"
      "walk_path k s (per_process_id k) (regs_of us1) (drop 7 pcs) e"
      by auto
    have prog: "programs s1 PROGRAM_NATIVE_UNWINDER" using b(2) Suc.prems(4) by (simp add: same_tables_def)
    have "\<exists>us' s'. dwarf_unwind budget k s1 = (0, finish_stack k us' s') \<and> same_tables s1 s' \<and>
        finishes us' (user_stack us1 @ drop 7 pcs) e"
      using b Suc.prems(3,6,7) \<open>t < 18\<close> False prog
      by (intro Suc.IH [of s1 "Suc t"])
        (simp_all add: walk_path_same_tables [OF b(2)] frame_kind_same_tables [OF b(2)])
    moreover have "user_stack us1 @ drop 7 pcs = user_stack us @ pcs" using b(4) by simp
    ultimately show ?thesis
      unfolding dwarf_unwind_Inr [OF b(1) prog] using same_tables_trans [OF b(2)] by metis
  qed
qed

lemma dwarf_unwind_truncates:
  assumes "resumes s t us" "t \<le> 18"
    and "walk_path k s (per_process_id k) (regs_of us) pcs e"
    and "frame_kind k s (per_process_id k) e = Bottom" "133 \<le> 7 * t + length pcs"
  shows "\<exists>s'. dwarf_unwind budget k s = (0, bump bump_unwind_error_truncated s') \<and> same_tables s s'"
  using assms
proof (induction budget arbitrary: s t us pcs)
  case 0
  then have "7 \<le> length pcs" by simp
  from body_follow_resume [OF 0(1,2,3,4) this] show ?case
    by (auto simp: dwarf_unwind.simps split: if_splits)
next
  case (Suc budget)
  then have len: "7 \<le> length pcs" by simp
  note body = body_follow_resume [OF Suc.prems(1,2,3,4) len]
  show ?case
  proof (cases "t < 18")
    case False
    with body show ?thesis by (auto simp: dwarf_unwind.simps)
  next
    case True
    with body obtain us1 s1 where b:
      "dwarf_unwind_body k s = Inr s1" "same_tables s s1" "resumes s1 (Suc t) us1"
      "walk_path k s (per_process_id k) (regs_of us1) (drop 7 pcs) e"
      by auto
    have "\<exists>s'. dwarf_unwind budget k s1 = (0, bump bump_unwind_error_truncated s') \<and> same_tables s1 s'"
      using b Suc.prems(4,5) True len
      by (intro Suc.IH [of s1 "Suc t" us1 "drop 7 pcs"])
        (simp_all add: walk_path_same_tables [OF b(2)] frame_kind_same_tables [OF b(2)])
    with b show ?thesis by (auto simp: dwarf_unwind.simps intro: same_tables_trans)
  qed
qed

text \<open>Conversely, a run that sends a sample has reached the bottom of a walk.\<close>

definition in_progress :: "bpf_state \<Rightarrow> unwind_state_t \<Rightarrow> bool" where
  "in_progress s us \<longleftrightarrow> heap s = Some us \<and> stack_wf us \<and> klen (sample_stack (us_sample us)) = 0"

lemma body_sound:
  assumes "in_progress s us"
  shows "case dwarf_unwind_body k s of
     Inl (r, s') \<Rightarrow> same_tables s s' \<or>
       (\<exists>us1 s1 pcs. s' = finish_stack k us1 s1 \<and> same_tables s s1 \<and>
          walk_path k s (per_process_id k) (regs_of us) pcs (regs_of us1) \<and>
          frame_kind k s (per_process_id k) (regs_of us1) = Bottom \<and>
          finishes us1 (user_stack us @ pcs) (regs_of us1))
   | Inr s1 \<Rightarrow> same_tables s s1 \<and> (\<exists>us1 pcs. in_progress s1 us1 \<and>
       walk_path k s (per_process_id k) (regs_of us) pcs (regs_of us1) \<and>
       user_stack us1 = take 127 (user_stack us @ pcs))"
proof -
  obtain oc us1 s1 where f: "unwind_frames 7 k (per_process_id k) us s = (oc, us1, s1)"
    by (cases "unwind_frames 7 k (per_process_id k) us s")
  have us: "heap s = Some us" "stack_wf us" "klen (sample_stack (us_sample us)) = 0"
    using assms by (simp_all add: in_progress_def)
  have wf1: "stack_wf us1" using stack_buffer.frames_I [OF f us(2)] .
  have same: "same_tables s s1" using unwind_frames_same_maps [OF f] by (rule same_maps_tables)
  have klen: "klen (sample_stack (us_sample us1)) = 0" using unwind_frames_klen [OF f] us by simp
  note sound = unwind_frames_sound [OF f us(2)]
  show ?thesis
  proof (cases oc)
    case Frame_return
    with f us(1) same show ?thesis by (simp add: dwarf_unwind_body_def)
  next
    case Frame_break
    with sound obtain pcs where "walk_path k s (per_process_id k) (regs_of us) pcs (regs_of us1)"
      "user_stack us1 = take 127 (user_stack us @ pcs)"
      "frame_kind k s (per_process_id k) (regs_of us1) = Bottom" by auto
    moreover from Frame_break f us(1) have "dwarf_unwind_body k s = Inl (0, finish_stack k us1 s1)"
      by (simp add: dwarf_unwind_body_def)
    ultimately show ?thesis using same wf1 klen unfolding finishes_def by auto
  next
    case Frame_continue
    with sound obtain pcs where "walk_path k s (per_process_id k) (regs_of us) pcs (regs_of us1)"
      "user_stack us1 = take 127 (user_stack us @ pcs)" by auto
    with Frame_continue f us(1) same wf1 klen show ?thesis
      by (auto simp: dwarf_unwind_body_def in_progress_def)
  qed
qed

lemma dwarf_unwind_sound:
  assumes "in_progress s us"
  shows "same_tables s (snd (dwarf_unwind budget k s)) \<or>
     (\<exists>us1 s1 pcs. snd (dwarf_unwind budget k s) = finish_stack k us1 s1 \<and> same_tables s s1 \<and>
        walk_path k s (per_process_id k) (regs_of us) pcs (regs_of us1) \<and>
        frame_kind k s (per_process_id k) (regs_of us1) = Bottom \<and>
        finishes us1 (user_stack us @ pcs) (regs_of us1))"
  using assms
proof (induction budget arbitrary: s us)
  case 0
  show ?case
  proof (cases "dwarf_unwind_body k s")
    case (Inl p)
    with body_sound [OF 0, of k] show ?thesis by (cases p) (simp add: dwarf_unwind_Inl)
  next
    case (Inr s1)
    with body_sound [OF 0, of k] show ?thesis by (simp add: dwarf_unwind.simps)
  qed
next
  case (Suc budget)
  note body = body_sound [OF Suc.prems, of k]
  show ?case
  proof (cases "dwarf_unwind_body k s")
    case (Inl p)
    with body show ?thesis by (cases p) (simp add: dwarf_unwind_Inl)
  next
    case (Inr s1)
    with body obtain us1 pcs where b: "same_tables s s1" "in_progress s1 us1"
      "walk_path k s (per_process_id k) (regs_of us) pcs (regs_of us1)"
      "user_stack us1 = take 127 (user_stack us @ pcs)" by auto
    show ?thesis
    proof (cases "programs s1 PROGRAM_NATIVE_UNWINDER")
      case False
      with Inr b(1) show ?thesis by (simp add: dwarf_unwind.simps)
    next
      case True
      have fin: "finishes us2 (user_stack us @ pcs @ pcs2) e" if "finishes us2 (user_stack us1 @ pcs2) e"
        for us2 pcs2 e
        using that b(4) take_append_take [of 127 "user_stack us @ pcs" pcs2] by (simp add: finishes_def)
      show ?thesis
        using Suc.IH [OF b(2)] fin
        unfolding dwarf_unwind_Inr [OF Inr True] walk_path_same_tables [OF b(1)]
          frame_kind_same_tables [OF b(1)]
        by (metis b(1,3) same_tables_trans walk_path_append)
    qed
  qed
qed

section \<open>The bytes of a finished stack\<close>

text \<open>The kernel's call chain, as far as \<open>bpf_get_stack\<close> returns it into the buffer.\<close>

definition kernel_frames :: "kernel \<Rightarrow> u64 list" where
  "kernel_frames k =
     (let (ret, ws) = get_stack k (unat MAX_STACK_DEPTH * 8) in if ret > 0 then take (nat (ret div 8)) ws else [])"

text \<open>
  What user space decodes from the sample of a walk: the first 127 program counters, all of them when there are no more,
  and the kernel's frames only when there are fewer than 127, because line 265 leaves them out of a full buffer.
\<close>

definition sample_of :: "kernel \<Rightarrow> u64 list \<Rightarrow> raw_sample" where
  "sample_of k pcs = \<lparr>rs_pid = per_process_id k, rs_tid = per_thread_id k, rs_collected_at = ktime_get_boot_ns k,
     rs_ustack = take 127 pcs, rs_kstack = (if length pcs < 127 then kernel_frames k else [])\<rparr>"

lemma take_drop_write_words:
  assumes "n + m \<le> length xs" "m \<le> length ws"
  shows "take m (drop n (write_words xs n ws)) = take m ws"
  using assms by (intro nth_equalityI) (auto simp: write_words_nth)

lemma take_write_words: "n \<le> length xs \<Longrightarrow> take n (write_words xs n ws) = take n xs"
  by (intro nth_equalityI) (auto simp: write_words_nth)

lemma small_32: "(n :: nat) \<le> 127 \<Longrightarrow> n < 2 ^ 32"
  by simp

lemma add_kernel_stack_stacks:
  assumes "finishes us pcs e" "get_stack_contract k"
  defines "st \<equiv> sample_stack (us_sample (add_kernel_stack k us))"
  shows "take (unat (ulen st)) (addresses st) = take 127 pcs \<and>
     take (unat (klen st)) (drop (unat (ulen st)) (addresses st)) = (if length pcs < 127 then kernel_frames k else [])"
proof -
  let ?st = "sample_stack (us_sample us)"
  let ?n = "unat (ulen ?st)"
  have wf: "length (addresses ?st) = 254" "?n \<le> 127" "klen ?st = 0"
    and ust: "take ?n (addresses ?st) = take 127 pcs"
    using assms(1) by (simp_all add: finishes_def stack_wf_def word_le_nat_alt user_stack_def)
  have n: "?n = min 127 (length pcs)" using arg_cong [OF ust, of length] wf by simp
  obtain ret ws where g: "get_stack k (127 * 8) = (ret, ws)" by (cases "get_stack k (127 * 8)")
  have ret: "ret \<le> int (8 * length ws)" "8 * length ws \<le> 127 * 8"
    using get_stack_contractD(1,2) [OF assms(2), of "127 * 8"] g by simp_all
  show ?thesis
  proof (cases "?n < 127")
    case False
    then have "\<not> length pcs < 127" using n by auto
    with False n wf ust show ?thesis
      by (simp add: st_def add_kernel_stack_def kernel_frames_def Let_def word_less_nat_alt)
  next
    case True
    let ?m = "nat (ret div 8)"
    have m: "?m \<le> length ws" using ret(1) by linarith
    have "unat (word_of_int (ret div 8) :: u32) = ?m" if "ret > 0"
    proof -
      have "ret div 8 = int ?m" using that by (simp add: pos_imp_zdiv_nonneg_iff)
      moreover have "?m \<le> 127" using m ret(2) by linarith
      ultimately show ?thesis by (metis of_int_of_nat_eq unat_of_nat_32 small_32)
    qed
    with True n wf ust g m ret(2) show ?thesis
      by (simp add: st_def add_kernel_stack_def kernel_frames_def Let_def word_less_nat_alt
          take_write_words take_drop_write_words)
  qed
qed

lemma finish_stack_sample:
  assumes "finishes us pcs e" "get_stack_contract k"
  shows "\<exists>bs ret. sample_log (finish_stack k us s) =
       sample_log s @ [(stack_channel k, P_sample bs, ret)] \<and>
     from_bytes bs = Inr (sample_of k pcs)"
proof -
  let ?us = "fill_sample_header k (add_kernel_stack k us)"
  let ?st = "sample_stack (us_sample ?us)"
  let ?bs = "take (unat (sample_size_of (us_sample ?us))) (sample_bytes (us_sample ?us))"
  have wf: "stack_wf us" using assms(1) by (simp add: finishes_def)
  then have wf1: "stack_wf ?us" using assms(2) by (simp add: add_kernel_stack_wf)
  have st: "?st = sample_stack (us_sample (add_kernel_stack k us))"
    by (simp add: fill_sample_header_def)
  have "from_bytes ?bs = Inr (sample_of k pcs)"
    unfolding sample_size_value [OF wf1]
    using wf1 add_kernel_stack_stacks [OF assms]
    by (subst from_bytes_sample [OF refl refl])
      (simp_all add: stack_wf_def word_le_nat_alt st sample_of_def, simp_all add: fill_sample_header_def)
  moreover have "outputs (finish_stack k us s) = outputs s @
      [(stack_channel k, P_sample ?bs, out_ret k (length (outputs s)))]"
    using add_stack_sends [OF wf assms(2)]
    by (simp add: finish_stack_def Let_def add_stack_us split: prod.splits)
      (metis (no_types, lifting) add_stack_us bump_simps(9) fst_conv snd_conv)
  ultimately show ?thesis by (auto simp: sample_log_def)
qed

section \<open>The event handler\<close>

definition start_regs :: "kernel \<Rightarrow> perf_regs \<Rightarrow> unwind_state_t \<Rightarrow> wregs" where
  "start_regs k regs us = regs_of (snd (set_initial_state k regs us))"

text \<open>The conditions under which the handler starts the unwinder.\<close>

definition unwinds :: "kernel \<Rightarrow> bpf_state \<Rightarrow> bool" where
  "unwinds k s \<longleftrightarrow> per_process_id k \<noteq> 0 \<and> \<not> is_kthread k \<and>
     process_is_known (exec_mappings s) (per_process_id k)"

definition started :: "kernel \<Rightarrow> perf_regs \<Rightarrow> unwind_state_t \<Rightarrow> bpf_state \<Rightarrow> bpf_state" where
  "started k regs us s =
     (bump bump_unwind_total s)\<lparr>heap := Some (snd (set_initial_state k regs us))\<rparr>"

lemma on_event_unwinds:
  assumes "unwinds k s" "heap s = Some us" "programs s PROGRAM_NATIVE_UNWINDER"
  shows "on_event (Suc b) k regs s = dwarf_unwind b k (started k regs us s)"
  using assms by (simp add: on_event_def unwinds_def started_def Let_def)

lemma started_same_tables: "same_tables s (started k regs us s)"
  by (simp add: started_def)

lemma started_resumes:
  assumes "stack_wf us"
  shows "resumes (started k regs us s) 0 (snd (set_initial_state k regs us))"
    and "user_stack (snd (set_initial_state k regs us)) = []"
  using assms
  by (simp_all add: started_def resumes_def stack_wf_def set_initial_state_stack user_stack_def)

lemma on_event_other:
  assumes "\<not> (unwinds k s \<and> (\<exists>us. heap s = Some us) \<and> programs s PROGRAM_NATIVE_UNWINDER \<and>
     (\<exists>b. budget = Suc b))"
  shows "sample_log (snd (on_event budget k regs s)) = sample_log s"
  using assms by (auto simp: on_event_def unwinds_def Let_def split: option.split nat.split)

lemma on_event_reaches_bottom:
  assumes "unwinds k s" "heap s = Some us" "stack_wf us" "programs s PROGRAM_NATIVE_UNWINDER"
    and "19 \<le> budget"
    and "stack_walk k s (per_process_id k) (start_regs k regs us) pcs e" "length pcs \<le> 132"
  shows "\<exists>us' s'. on_event budget k regs s = (0, finish_stack k us' s') \<and>
     sample_log s' = sample_log s \<and> finishes us' pcs e"
proof -
  obtain b where b: "budget = Suc b" "18 \<le> b" using assms(5) by (cases budget) auto
  let ?s = "started k regs us s"
  note same = started_same_tables [of s k regs us]
  note init = started_resumes(1) [OF assms(3), of k regs s] started_resumes(2) [OF assms(3), of k regs]
  have "\<exists>us' s'. dwarf_unwind b k ?s = (0, finish_stack k us' s') \<and> same_tables ?s s' \<and>
      finishes us' ([] @ pcs) e"
    using assms(4,6,7) b(2) init(2) dwarf_unwind_complete [OF init(1), of b k pcs e]
    by (simp add: stack_walk_def start_regs_def walk_path_same_tables [OF same]
        frame_kind_same_tables [OF same]) (simp add: started_def)
  then obtain us' s' where run: "dwarf_unwind b k ?s = (0, finish_stack k us' s')"
    "same_tables ?s s'" "finishes us' pcs e" by auto
  have "sample_log s' = sample_log s"
    using same_tables_trans [OF same run(2)] by (simp add: same_tables_def)
  with run show ?thesis unfolding b(1) on_event_unwinds [OF assms(1,2,4)] by auto
qed

end
