(* ===== verification/Kernel_Offsets.thy ===== *)
theory Kernel_Offsets
  imports Kernel_Env
begin

text \<open>
  CO-RE relocation evaluated on the two kernel headers of the repository: the offsets at which the
  programs read when the running kernel has exactly the types of src/src/bpf/vmlinux\_x86.h or
  src/src/bpf/vmlinux\_arm64.h, and the place at which \<open>retrieve_task_registers\<close> finds the saved
  registers without the helper.
\<close>

text \<open>
  The members libbpf's accessors name: on x86 the registers of \<open>struct pt_regs\<close>, on arm64 those of
  \<open>struct user_pt_regs\<close>, with the frame pointer in x29 and the link register in x30.
\<close>

definition libbpf_accessors :: "arch \<Rightarrow> pt_regs_accessors" where
  "libbpf_accessors a = (case a of
     X86 \<Rightarrow> \<lparr>acc_ip = (''ip'', 0), acc_sp = (''sp'', 0), acc_fp = (''bp'', 0), acc_ret = (''sp'', 0)\<rparr>
   | Arm64 \<Rightarrow> \<lparr>acc_ip = (''pc'', 0), acc_sp = (''sp'', 0), acc_fp = (''regs'', 29),
       acc_ret = (''regs'', 30)\<rparr>)"

lemmas x86_task_struct_defs = x86_task_struct_def x86_task_struct_part1_def x86_task_struct_part2_def

lemma x86_task_stack: "offset_of x86_task_struct [''stack''] = Some 32"
  by (simp add: x86_task_struct_defs layout_eval vmlinux_layout)

lemma x86_task_mm: "offset_of x86_task_struct [''mm''] = Some 840"
  by (simp add: x86_task_struct_defs layout_eval vmlinux_layout)

lemma x86_task_nsproxy: "offset_of x86_task_struct [''nsproxy''] = Some 1352"
  by (simp add: x86_task_struct_defs layout_eval vmlinux_layout)

lemma x86_task_group_leader: "offset_of x86_task_struct [''group_leader''] = Some 1016"
  by (simp add: x86_task_struct_defs layout_eval vmlinux_layout)

lemma x86_task_thread_pid: "offset_of x86_task_struct [''thread_pid''] = Some 1056"
  by (simp add: x86_task_struct_defs layout_eval vmlinux_layout)

lemmas x86_task_offsets = x86_task_stack x86_task_mm x86_task_nsproxy x86_task_group_leader x86_task_thread_pid

lemma x86_other_offsets:
  "offset_of x86_nsproxy [''pid_ns_for_children''] = Some 32"
  "offset_of x86_pid_namespace [''level''] = Some 64"
  "offset_of x86_pid [''numbers''] = Some 96"
  "offset_of x86_upid [''nr''] = Some 0"
  "offset_of x86_pt_regs [''ip''] = Some 128"
  "offset_of x86_pt_regs [''sp''] = Some 152"
  "offset_of x86_pt_regs [''bp''] = Some 32"
  by (simp_all add: x86_nsproxy_def x86_pid_namespace_def x86_pid_def x86_upid_def x86_pt_regs_def
      layout_eval vmlinux_layout)

lemmas arm64_task_struct_defs = arm64_task_struct_def arm64_task_struct_part1_def arm64_task_struct_part2_def

lemma arm64_task_stack: "offset_of arm64_task_struct [''stack''] = Some 32"
  by (simp add: arm64_task_struct_defs layout_eval vmlinux_layout)

lemma arm64_task_mm: "offset_of arm64_task_struct [''mm''] = Some 840"
  by (simp add: arm64_task_struct_defs layout_eval vmlinux_layout)

lemma arm64_task_nsproxy: "offset_of arm64_task_struct [''nsproxy''] = Some 1352"
  by (simp add: arm64_task_struct_defs layout_eval vmlinux_layout)

lemma arm64_task_group_leader: "offset_of arm64_task_struct [''group_leader''] = Some 1016"
  by (simp add: arm64_task_struct_defs layout_eval vmlinux_layout)

lemma arm64_task_thread_pid: "offset_of arm64_task_struct [''thread_pid''] = Some 1056"
  by (simp add: arm64_task_struct_defs layout_eval vmlinux_layout)

lemmas arm64_task_offsets = arm64_task_stack arm64_task_mm arm64_task_nsproxy arm64_task_group_leader arm64_task_thread_pid

lemma arm64_other_offsets:
  "offset_of arm64_nsproxy [''pid_ns_for_children''] = Some 32"
  "offset_of arm64_pid_namespace [''level''] = Some 64"
  "offset_of arm64_pid [''numbers''] = Some 96"
  "offset_of arm64_upid [''nr''] = Some 0"
  "offset_of arm64_user_pt_regs [''pc''] = Some 256"
  "offset_of arm64_user_pt_regs [''sp''] = Some 248"
  "offset_of arm64_user_pt_regs [''regs''] = Some 0"
  by (simp_all add: arm64_nsproxy_def arm64_pid_namespace_def arm64_pid_def arm64_upid_def arm64_user_pt_regs_def
      layout_eval vmlinux_layout)

definition header_relocs :: "arch \<Rightarrow> relocs" where
  "header_relocs a = \<lparr>off_stack = 32, off_mm = 840, off_nsproxy = 1352, off_group_leader = 1016,
     off_thread_pid = 1056, off_pid_ns_for_children = 32, off_level = 64, off_numbers = 96,
     size_upid = 16, off_nr = 0,
     off_ip = (case a of X86 \<Rightarrow> 128 | Arm64 \<Rightarrow> 256),
     off_sp = (case a of X86 \<Rightarrow> 152 | Arm64 \<Rightarrow> 248),
     off_fp = (case a of X86 \<Rightarrow> 32 | Arm64 \<Rightarrow> 232),
     off_ret = (case a of X86 \<Rightarrow> 152 | Arm64 \<Rightarrow> 240)\<rparr>"

section \<open>Properties\<close>

text \<open>
  Every kernel structure member the programs read exists in both kernel headers of the
  repository, so that all CO-RE relocations resolve, and the resolved offsets are those of
  header\_relocs.
\<close>

lemma header_kernels_relocate:
  "relocate (header_btf a) (libbpf_accessors a) = Some (header_relocs a)"
proof (cases a)
  case X86
  then show ?thesis
    by (simp add: relocate_def header_btf_def libbpf_accessors_def reg_offset_def header_relocs_def
        x86_task_offsets x86_other_offsets vmlinux_layout del: offset_of.simps)
next
  case Arm64
  then show ?thesis
    by (simp add: relocate_def header_btf_def libbpf_accessors_def reg_offset_def header_relocs_def
        arm64_task_offsets arm64_other_offsets vmlinux_layout del: offset_of.simps)
qed

text \<open>
  Where the saved user registers are read. Without the helper they are taken from the top of
  the 16 KB kernel stack, 168 bytes (x86) or 336 bytes (arm64) below its end; with the helper
  from where the kernel says. Nothing is retrieved for a kernel thread, without a task, or when the
  stack pointer cannot be read; on x86 the link register keeps its old value.
\<close>

lemma retrieve_task_registers_reads:
  "retrieve_task_registers k old =
     (let task = get_current_task k;
          (err, stack) = probe_read_kernel k (task + off_stack (k_relocs k)) 8;
          regs = (if use_task_pt_regs_helper (k_config k) then task_pt_regs k task
                  else stack + 16384 - (case k_arch k of X86 \<Rightarrow> 168 | Arm64 \<Rightarrow> 336));
          rd = (\<lambda>off. snd (probe_read_kernel k (regs + off) 8))
      in if task = 0 \<or> is_kthread k \<or> (\<not> use_task_pt_regs_helper (k_config k) \<and> err \<noteq> 0) then None
         else Some \<lparr>tr_ip = rd (off_ip (k_relocs k)), tr_sp = rd (off_sp (k_relocs k)),
                    tr_bp = rd (off_fp (k_relocs k)),
                    tr_lr = (case k_arch k of X86 \<Rightarrow> tr_lr old
                             | Arm64 \<Rightarrow> rd (off_ret (k_relocs k)))\<rparr>)"
proof -
  have "THREAD_SIZE - TOP_OF_KERNEL_STACK_PADDING = 16384"
    by (simp add: THREAD_SIZE_def PAGE_SIZE_def THREAD_SIZE_ORDER_def TOP_OF_KERNEL_STACK_PADDING_def)
  then have thread: "x + THREAD_SIZE - TOP_OF_KERNEL_STACK_PADDING = x + 16384" for x
    by (simp add: add_diff_eq [symmetric])
  have "sizeof_pt_regs a = (case a of X86 \<Rightarrow> 168 | Arm64 \<Rightarrow> 336)" for a
    by (cases a) (simp_all add: sizeof_pt_regs_def vmlinux_layout)
  then show ?thesis
    by (cases "k_arch k") (simp_all add: retrieve_task_registers_def pt_regs_ptr_def core_read_ptr_def
        thread Let_def split: prod.split)
qed

end
