(* ===== verification/Example_System.thy ===== *)
theory Example_System
  imports Kernel_Offsets Unwinder
begin

text \<open>
  A small concrete system on which the witnesses evaluate the definitions: an x86 kernel with the
  types of the header, a task with process and thread id 42, and one executable mapped at 0x401000
  with three unwind rows. Its stack has two frames above the bottom function.
\<close>

section \<open>Kernel\<close>

text \<open>The task at 0x10000, its namespace chain and its pid, at the offsets of the header.\<close>

definition example_kernel_memory :: "u64 \<Rightarrow> nat \<Rightarrow> int \<times> u64" where
  "example_kernel_memory a n =
     (if a = 0x10000 + 32 then (0, 0x50000)
      else if a = 0x10000 + 840 then (0, 0x60000)
      else if a = 0x10000 + 1352 then (0, 0x20000)
      else if a = 0x10000 + 1016 then (0, 0x10000)
      else if a = 0x10000 + 1056 then (0, 0x40000)
      else if a = 0x20000 + 32 then (0, 0x30000)
      else if a = 0x30000 + 64 then (0, 0)
      else if a = 0x40000 + 96 then (0, 42)
      else (-14, 0))"

text \<open>The user stack: two return addresses and the saved frame pointer between them.\<close>

definition example_user_memory :: "u64 \<Rightarrow> u64 \<Rightarrow> int \<times> u64" where
  "example_user_memory a old =
     (if a = 0x7000 then (0, 0x402021)
      else if a = 0x7010 then (0, 0)
      else if a = 0x7018 then (0, 0x403031)
      else (-14, old))"

definition example_kernel :: kernel where
  "example_kernel = \<lparr>k_arch = X86, k_config = lightswitch_config, k_relocs = header_relocs X86,
     get_current_task = 0x10000, get_current_pid_tgid = push_bit 32 42 OR 42,
     probe_read_kernel = example_kernel_memory, probe_read_user = example_user_memory,
     task_pt_regs = (\<lambda>t. 0),
     get_stack = (\<lambda>n. if 16 \<le> n then (16, [0xffffffff81000000, 0xffffffff81000010]) else (0, [])),
     ktime_get_boot_ns = 1000, out_ret = (\<lambda>n. 0), rate_limit_update_ret = (\<lambda>m ev. 0),
     munmap_update_ret = (\<lambda>m key. if 500 \<le> card (dom m) \<and> m key = None then -7 else 0)\<rparr>"

lemma example_kernel_ids [simp]:
  "per_process_id example_kernel = 42" "per_thread_id example_kernel = 42"
  "is_kthread example_kernel = False"
  by (simp_all add: per_process_id_def per_thread_id_def pid_nr_def task_level_def is_kthread_def
      core_read_ptr_def core_read_u32_def example_kernel_def example_kernel_memory_def
      header_relocs_def)

text \<open>The registers at the sample.\<close>

definition example_regs :: perf_regs where
  "example_regs = \<lparr>PT_REGS_IP = 0x401010, PT_REGS_SP = 0x7000, PT_REGS_FP = 0x7010,
     PT_REGS_RET = 0x7000\<rparr>"

section \<open>Maps\<close>

definition example_mapping :: mapping_t where
  "example_mapping = \<lparr>m_executable_id = 7, m_load_address = 0x400000, m_begin = 0x401000,
     m_end = 0x404000, m_type = 0\<rparr>"

text \<open>A trie in which the prefix of process 42 holds the mapping.\<close>

definition example_trie :: lpm_trie where
  "example_trie = [process_prefix 42 \<mapsto> example_mapping]"

definition example_table :: "stack_unwind_row_t list" where
  "example_table =
     [\<lparr>pc_low = 0x1000, cfa_type = CFA_TYPE_RSP, rbp_type = RBP_TYPE_UNCHANGED, cfa_offset = 8, rbp_offset = 0\<rparr>,
      \<lparr>pc_low = 0x2000, cfa_type = CFA_TYPE_RBP, rbp_type = RBP_TYPE_OFFSET, cfa_offset = 16, rbp_offset = -16\<rparr>,
      \<lparr>pc_low = 0x3000, cfa_type = CFA_TYPE_END_OF_FDE_MARKER, rbp_type = RBP_TYPE_UNCHANGED, cfa_offset = 0, rbp_offset = 0\<rparr>]"

definition fresh_unwind_state :: unwind_state_t where
  "fresh_unwind_state = \<lparr>us_ip = 0, us_sp = 0, us_bp = 0, us_lr = 0, tail_calls = 0,
     us_sample = \<lparr>sample_pid = 0, sample_tid = 0, collected_at = 0,
       sample_stack = \<lparr>ulen = 0, klen = 0, addresses = replicate 254 0\<rparr>\<rparr>\<rparr>"

definition zero_stats :: unwinder_stats_t where
  "zero_stats = \<lparr>total = 0, success_dwarf = 0, error_truncated = 0,
     error_unsupported_expression = 0, error_unsupported_frame_pointer_action = 0,
     error_unsupported_cfa_register = 0, error_previous_rsp_read = 0, error_previous_rsp_zero = 0,
     error_previous_rip_zero = 0, error_previous_rbp_read = 0, error_should_never_happen = 0,
     error_mapping_not_found = 0, error_mapping_does_not_contain_pc = 0, error_page_not_found = 0,
     error_binary_search_exhausted_iterations = 0, error_sending_new_process_event = 0,
     error_cfa_offset_did_not_fit = 0, error_rbp_offset_did_not_fit = 0,
     error_failure_sending_stack = 0, bp_non_zero_for_bottom_frame = 0, vdso_encountered = 0,
     jit_encountered = 0\<rparr>"

definition example_state :: bpf_state where
  "example_state = \<lparr>exec_mappings = trie_lookup example_trie, percpu_stats = Some zero_stats,
     heap = Some fresh_unwind_state,
     executable_to_page = [\<lparr>pk_executable_id = 7, pk_file_offset = 0\<rparr> \<mapsto> \<lparr>pv_low_index = 0, pv_high_index = 3\<rparr>],
     outer_map = [7 \<mapsto> array_lookup example_table], programs = (\<lambda>i. i = PROGRAM_NATIVE_UNWINDER),
     rate_limits = Map.empty, tracked_munmap = Map.empty, outputs = []\<rparr>"

section \<open>Lookups\<close>

lemma example_contract: "lpm_contract example_trie (exec_mappings example_state)"
  by (simp add: example_state_def trie_lookup_contract)

lemma example_longest_match:
  "longest_match [process_prefix p \<mapsto> m] 96 (msb_bits pid @ msb_bits (pc :: u64)) =
     (if pid = p then Some m else None)"
proof -
  let ?q = "msb_bits pid @ msb_bits pc"
  have at: "([process_prefix p \<mapsto> m]) (take i ?q) = (if pid = p \<and> i = 32 then Some m else None)"
    if "i \<le> 96" for i
    using that take_query_eq_stored_prefix [of i 0 pid pc p 0]
    by (simp add: process_prefix_def del: take_append)
  show ?thesis
  proof (cases "pid = p")
    case True
    with at have "\<exists>i \<le> 96. ([process_prefix p \<mapsto> m]) (take i ?q) = Some m \<and>
        (\<forall>j. i < j \<and> j \<le> 96 \<longrightarrow> ([process_prefix p \<mapsto> m]) (take j ?q) = None)"
      by (intro exI [of _ 32]) (simp del: take_append)
    with True show ?thesis by (simp add: longest_match_Some_iff del: take_append)
  next
    case False
    with at show ?thesis by (simp add: longest_match_None_iff del: take_append)
  qed
qed

lemma example_lookup [simp]:
  "find_mapping (exec_mappings example_state) pid pc = (if pid = 42 then Some example_mapping else None)"
  "process_is_known (exec_mappings example_state) pid = (pid = 42)"
  using find_mapping_trie [OF example_contract, of pid pc] process_is_known_trie [OF example_contract, of pid]
  by (simp_all add: example_trie_def example_longest_match)

end
