(* ===== verification/Profiler_Properties.thy ===== *)
theory Profiler_Properties
  imports Walk_Refinement Example_System
begin

text \<open>
  The properties of the profiler program as a whole (src/src/bpf/profiler.bpf.c): what the event
  handler sends for which stack, what it leaves intact, and what it does with processes and pages it
  does not know.
\<close>

section \<open>The example stack\<close>

lemma example_state_maps [simp]:
  "heap example_state = Some fresh_unwind_state" "programs example_state i = (i = 0)"
  "executable_to_page example_state =
     [\<lparr>pk_executable_id = 7, pk_file_offset = 0\<rparr> \<mapsto> \<lparr>pv_low_index = 0, pv_high_index = 3\<rparr>]"
  "outer_map example_state = [7 \<mapsto> array_lookup example_table]"
  "outputs example_state = []" "sample_log example_state = []" "rate_limits example_state = Map.empty"
  by (simp_all add: example_state_def sample_log_def)

lemma example_wf: "stack_wf fresh_unwind_state" "unwinds example_kernel example_state"
  by (simp_all add: stack_wf_def fresh_unwind_state_def unwinds_def)

lemma example_get_stack: "get_stack_contract example_kernel"
  by (simp add: get_stack_contract_def example_kernel_def)


lemma example_search:
  "find_offset_for_pc (array_lookup example_table) 0x1010 0 3 = 0"
  "find_offset_for_pc (array_lookup example_table) 0x2020 0 3 = 1"
  "find_offset_for_pc (array_lookup example_table) 0x3030 0 3 = 2"
  by (simp_all add: find_offset_for_pc_def find_offset_loop_numeral array_lookup_def example_table_def)

lemma example_rows:
  "row_at example_state 42 0x401010 = Some (example_table ! 0)"
  "row_at example_state 42 0x402020 = Some (example_table ! 1)"
  "row_at example_state 42 0x403030 = Some (example_table ! 2)"
  by (simp_all add: row_at_def mapping_at_def example_mapping_def row_in_def
      HIGH_PC_def LOW_PC_def HIGH_PC_MASK_def LOW_PC_MASK_def frame_table_idx_def example_search
      array_lookup_def, simp_all add: example_table_def)

lemma example_frames:
  "frame_kind example_kernel example_state 42 \<lparr>w_ip = 0x401010, w_sp = 0x7000, w_bp = 0x7010\<rparr> =
     Caller \<lparr>w_ip = 0x402020, w_sp = 0x7008, w_bp = 0x7010\<rparr>"
  "frame_kind example_kernel example_state 42 \<lparr>w_ip = 0x402020, w_sp = 0x7008, w_bp = 0x7010\<rparr> =
     Caller \<lparr>w_ip = 0x403030, w_sp = 0x7020, w_bp = 0\<rparr>"
  "frame_kind example_kernel example_state 42 \<lparr>w_ip = 0x403030, w_sp = 0x7020, w_bp = 0\<rparr> = Bottom"
  by (simp_all add: frame_kind_def example_rows example_table_def is_bottom_def is_supported_def
     caller_of_def caller_sp_def caller_bp_def caller_ip_def nonzero_def example_kernel_def example_user_memory_def)

lemma example_walk:
  "stack_walk example_kernel example_state 42 (start_regs example_kernel example_regs fresh_unwind_state)
     [0x401010, 0x402020] \<lparr>w_ip = 0x403030, w_sp = 0x7020, w_bp = 0\<rparr>"
  by (simp add: stack_walk_def walk_path_Cons start_regs_def example_regs_def set_initial_state_def
     in_kernel_def regs_of_def example_frames)

section \<open>Stacks\<close>

text \<open>
  C2. Completeness of unwinding: for a known user process, if the unwind tables give a walk from the
  sampled registers to the bottom of the stack of at most 132 frames and the kernel allows 19 tail
  calls (its limit is 33), the handler sends exactly one sample, and user space decodes it to the
  process and thread ids, the time, and the stacks. With fewer than 127 frames these are all program
  counters of the walk and the kernel's frames. With 127 frames the kernel's frames are missing, and with 128 to 132 the
  user stack is cut to its first 127 frames as well, although the sample counts as a success.
\<close>

theorem on_event_complete:
  assumes "unwinds k s" "heap s = Some us" "stack_wf us" "programs s PROGRAM_NATIVE_UNWINDER"
    and "get_stack_contract k" "19 \<le> budget"
    and "stack_walk k s (per_process_id k) (start_regs k regs us) pcs e" "length pcs \<le> 132"
  shows "fst (on_event budget k regs s) = 0 \<and>
     (\<exists>bs ret. sample_log (snd (on_event budget k regs s)) =
         sample_log s @ [(stack_channel k, P_sample bs, ret)] \<and>
       from_bytes bs = Inr \<lparr>rs_pid = per_process_id k, rs_tid = per_thread_id k,
         rs_collected_at = ktime_get_boot_ns k, rs_ustack = take 127 pcs,
         rs_kstack = (if length pcs < 127 then kernel_frames k else [])\<rparr>)"
proof -
  obtain us' s' where "on_event budget k regs s = (0, finish_stack k us' s')"
    "sample_log s' = sample_log s" "finishes us' pcs e"
    using on_event_reaches_bottom [OF assms(1-4,6-8)] by auto
  with finish_stack_sample [OF _ assms(5), of us' pcs e s'] show ?thesis by (auto simp: sample_of_def)
qed

theorem on_event_complete_witness:
  "\<exists>bs ret. sample_log (snd (on_event 33 example_kernel example_regs example_state)) =
       [(Ch_stacks, P_sample bs, ret)] \<and>
     from_bytes bs = Inr \<lparr>rs_pid = 42, rs_tid = 42, rs_collected_at = 1000,
       rs_ustack = [0x401010, 0x402020], rs_kstack = [0xffffffff81000000, 0xffffffff81000010]\<rparr>"
proof -
  have "kernel_frames example_kernel = [0xffffffff81000000, 0xffffffff81000010]"
    "ktime_get_boot_ns example_kernel = 1000"
    by (simp_all add: kernel_frames_def example_kernel_def)
  moreover have "stack_channel example_kernel = Ch_stacks"
    by (simp add: stack_channel_def example_kernel_def lightswitch_config_def)
  ultimately show ?thesis
    using on_event_complete [OF example_wf(2) _ example_wf(1) _ example_get_stack, of 33 example_regs
        "[0x401010, 0x402020]"] example_walk by simp
qed

text \<open>
  C1. Soundness of unwinding: whatever the tables, the memory and the kernel's answers, and however
  many tail calls are allowed, one event adds at most one sample, and a sample is only sent for a
  stack that was walked to its bottom from the sampled registers. User space decodes from it the
  program counters of that walk, all of them up to 127 and the first 127 of a longer one, and the kernel's
  frames, which are left out from 127 program counters on.
\<close>

theorem on_event_sound:
  assumes "heap_wf s" "get_stack_contract k"
    and "sample_log (snd (on_event budget k regs s)) \<noteq> sample_log s"
  shows "\<exists>us pcs e bs ret. heap s = Some us \<and>
     stack_walk k s (per_process_id k) (start_regs k regs us) pcs e \<and>
     sample_log (snd (on_event budget k regs s)) =
       sample_log s @ [(stack_channel k, P_sample bs, ret)] \<and>
     from_bytes bs = Inr \<lparr>rs_pid = per_process_id k, rs_tid = per_thread_id k,
         rs_collected_at = ktime_get_boot_ns k, rs_ustack = take 127 pcs,
         rs_kstack = (if length pcs < 127 then kernel_frames k else [])\<rparr>"
proof -
  from on_event_other assms(3) obtain us b where run: "unwinds k s" "heap s = Some us"
    "programs s PROGRAM_NATIVE_UNWINDER" "budget = Suc b" by metis
  have wf: "stack_wf us" using assms(1) run(2) by (simp add: heap_wf_def)
  let ?s = "started k regs us s"
  note same = started_same_tables [of s k regs us]
  note ev = on_event_unwinds [OF run(1-3), of b regs]
  have "in_progress ?s (snd (set_initial_state k regs us))"
    using started_resumes(1) [OF wf, of k regs s] by (simp add: resumes_def in_progress_def)
  from dwarf_unwind_sound [OF this, of b k]
  consider "same_tables ?s (snd (dwarf_unwind b k ?s))"
  | us1 s1 pcs where "snd (dwarf_unwind b k ?s) = finish_stack k us1 s1" "same_tables ?s s1"
      "stack_walk k s (per_process_id k) (start_regs k regs us) pcs (regs_of us1)"
      "finishes us1 pcs (regs_of us1)"
    by (auto simp: stack_walk_def start_regs_def walk_path_same_tables [OF same]
        frame_kind_same_tables [OF same] started_resumes(2) [OF wf])
  then show ?thesis
  proof cases
    case 1
    with same_tables_trans [OF same 1] assms(3) show ?thesis
      unfolding run(4) ev by (simp add: same_tables_def)
  next
    case 2
    have "sample_log s1 = sample_log s"
      using same_tables_trans [OF same 2(2)] by (simp add: same_tables_def)
    with finish_stack_sample [OF 2(4) assms(2), of s1] 2(1,3) run(2) show ?thesis
      unfolding run(4) ev by (auto simp: sample_of_def)
  qed
qed

theorem on_event_sound_witness:
  "\<exists>pcs e bs ret. stack_walk example_kernel example_state 42
       (start_regs example_kernel example_regs fresh_unwind_state) pcs e \<and>
     sample_log (snd (on_event 33 example_kernel example_regs example_state)) =
       [(stack_channel example_kernel, P_sample bs, ret)] \<and>
     (\<exists>kernel. from_bytes bs = Inr \<lparr>rs_pid = 42, rs_tid = 42, rs_collected_at = 1000, rs_ustack = take 127 pcs,
       rs_kstack = kernel\<rparr>)"
proof -
  obtain us' s' where run: "on_event 33 example_kernel example_regs example_state =
      (0, finish_stack example_kernel us' s')" "sample_log s' = []"
      "finishes us' [0x401010, 0x402020] \<lparr>w_ip = 0x403030, w_sp = 0x7020, w_bp = 0\<rparr>"
    using on_event_reaches_bottom [OF example_wf(2) _ example_wf(1), of 33 example_regs] example_walk
    by fastforce
  then have "sample_log (snd (on_event 33 example_kernel example_regs example_state)) \<noteq>
      sample_log example_state"
    using finish_stack_sample [OF run(3) example_get_stack, of s'] by auto
  moreover have "heap_wf example_state" using example_wf(1) by (simp add: heap_wf_def)
  moreover have "ktime_get_boot_ns example_kernel = 1000" by (simp add: example_kernel_def)
  ultimately show ?thesis
    using on_event_sound [of example_state example_kernel 33 example_regs] example_get_stack by fastforce
qed

section \<open>A deep stack\<close>

text \<open>134 activations of the function at 0x401010 above the bottom one.\<close>

definition deep_memory :: "u64 \<Rightarrow> u64 \<Rightarrow> int \<times> u64" where
  "deep_memory a old = (if a = 0x7000 + 8 * 133 then (0, 0x403031) else (0, 0x401011))"

definition deep_kernel :: kernel where
  "deep_kernel = example_kernel\<lparr>probe_read_user := deep_memory\<rparr>"

lemma deep_kernel_ids [simp]:
  "per_process_id deep_kernel = 42" "is_kthread deep_kernel = False"
  by (simp_all add: per_process_id_def pid_nr_def task_level_def is_kthread_def deep_kernel_def
      core_read_ptr_def core_read_u32_def example_kernel_def example_kernel_memory_def
      header_relocs_def)

definition deep_frame :: "nat \<Rightarrow> wregs" where
  "deep_frame i = \<lparr>w_ip = 0x401010, w_sp = 0x7000 + 8 * of_nat i, w_bp = 0x7010\<rparr>"

lemma deep_frame_ip [simp]: "w_ip (deep_frame i) = 0x401010"
  by (simp add: deep_frame_def)

lemma deep_address: "i < 133 \<Longrightarrow> (0x7000 + 8 * of_nat i :: u64) \<noteq> 0x7000 + 8 * 133"
  by (simp add: word_unat_eq_iff unat_word_ariths unat_of_nat_64)

lemma deep_sp: "i < 134 \<Longrightarrow> (0x7000 + 8 * of_nat i + 8 :: u64) \<noteq> 0"
  by (simp add: word_unat_eq_iff unat_word_ariths unat_of_nat_64)

lemma deep_frame_at:
  "sp + 8 \<noteq> 0 \<Longrightarrow>
   frame_kind deep_kernel example_state 42 \<lparr>w_ip = 0x401010, w_sp = sp, w_bp = bp\<rparr> =
     Caller \<lparr>w_ip = (if sp = 0x7000 + 8 * 133 then 0x403030 else 0x401010), w_sp = sp + 8, w_bp = bp\<rparr>"
  by (simp add: frame_kind_def example_rows example_table_def is_bottom_def is_supported_def
     caller_of_def caller_sp_def caller_bp_def caller_ip_def nonzero_def deep_kernel_def
     example_kernel_def deep_memory_def)

definition deep_end :: wregs where
  "deep_end = \<lparr>w_ip = 0x403030, w_sp = 0x7000 + 8 * of_nat 134, w_bp = 0x7010\<rparr>"

lemma deep_sp_Suc: "(0x7000 + 8 * of_nat i + 8 :: u64) = 0x7000 + 8 * of_nat (Suc i)"
  by (simp add: algebra_simps)

lemma deep_frame_kind:
  "i < 133 \<Longrightarrow> frame_kind deep_kernel example_state 42 (deep_frame i) = Caller (deep_frame (Suc i))"
  "frame_kind deep_kernel example_state 42 (deep_frame 133) = Caller deep_end"
  using deep_address [of i] deep_sp [of i] deep_sp [of 133] deep_frame_at
  unfolding deep_frame_def deep_end_def deep_sp_Suc by simp_all

lemma deep_path: "i \<le> 133 \<Longrightarrow>
   walk_path deep_kernel example_state 42 (deep_frame (133 - i)) (replicate (Suc i) 0x401010) deep_end"
proof (induction i)
  case 0
  then show ?case by (simp add: walk_path_Cons deep_frame_kind)
next
  case (Suc i)
  then have "frame_kind deep_kernel example_state 42 (deep_frame (133 - Suc i)) =
      Caller (deep_frame (133 - i))"
    using deep_frame_kind(1) [of "132 - i"] Suc_diff_le [of i 132] by simp
  from path_caller [OF this Suc.IH] Suc.prems show ?case by simp
qed

lemma deep_walk:
  "stack_walk deep_kernel example_state 42 (start_regs deep_kernel example_regs fresh_unwind_state)
     (replicate 134 0x401010) deep_end"
proof -
  have "start_regs deep_kernel example_regs fresh_unwind_state = deep_frame 0"
    by (simp add: start_regs_def example_regs_def set_initial_state_def in_kernel_def regs_of_def
        deep_frame_def)
  moreover have "frame_kind deep_kernel example_state 42 deep_end = Bottom"
    by (simp add: frame_kind_def deep_end_def example_rows example_table_def is_bottom_def)
  ultimately show ?thesis using deep_path [of 133] by (simp add: stack_walk_def)
qed

text \<open>
  C24. Truncation: a stack whose walk has 133 frames or more is not sent at all; the run ends with
  error\_truncated, whatever the number of tail calls the kernel allows beyond the first.
\<close>

theorem on_event_truncates:
  assumes "unwinds k s" "heap s = Some us" "stack_wf us" "programs s PROGRAM_NATIVE_UNWINDER"
    and "stack_walk k s (per_process_id k) (start_regs k regs us) pcs e" "133 \<le> length pcs"
  shows "\<exists>s'. on_event (Suc b) k regs s = (0, bump bump_unwind_error_truncated s') \<and>
     sample_log s' = sample_log s"
proof -
  let ?s = "started k regs us s"
  note same = started_same_tables [of s k regs us]
  note init = started_resumes(1) [OF assms(3), of k regs s] started_resumes(2) [OF assms(3), of k regs]
  have "\<exists>s'. dwarf_unwind b k ?s = (0, bump bump_unwind_error_truncated s') \<and> same_tables ?s s'"
    using assms(5,6) dwarf_unwind_truncates [OF init(1), of k pcs e b]
    by (simp add: stack_walk_def start_regs_def walk_path_same_tables [OF same]
        frame_kind_same_tables [OF same])
  then obtain s' where "dwarf_unwind b k ?s = (0, bump bump_unwind_error_truncated s')" "same_tables ?s s'"
    by auto
  with same_tables_trans [OF same] show ?thesis
    unfolding on_event_unwinds [OF assms(1,2,4)] by (auto simp: same_tables_def)
qed

theorem on_event_truncates_witness:
  "\<exists>s'. on_event 33 deep_kernel example_regs example_state =
       (0, bump bump_unwind_error_truncated s') \<and> sample_log s' = []"
  using on_event_truncates [OF _ _ example_wf(1) _ _, of deep_kernel example_state example_regs
      "replicate 134 0x401010" deep_end 32] deep_walk
  by (simp add: unwinds_def)

end
