(* ===== verification/Accounting.thy ===== *)
theory Accounting
  imports Walk_Refinement Example_System
begin

text \<open>
  The counters of src/src/bpf/shared\_maps.h against what the profiler does: each sample event of a
  known process counts once in total, every sample attempted counts once in success\_dwarf, and a
  run is never both a success and a truncation. Also the bound on tail calls.
\<close>

section \<open>Counting\<close>

definition counted :: "bpf_state \<Rightarrow> bpf_state \<Rightarrow> nat \<Rightarrow> nat \<Rightarrow> bool" where
  "counted s s' n m \<longleftrightarrow>
     map_option run_counts (percpu_stats s') =
       map_option (\<lambda>st. (total st, success_dwarf st + of_nat n, error_truncated st + of_nat m))
         (percpu_stats s) \<and>
     length (sample_log s') = length (sample_log s) + n"

lemma run_counts_map: "map_option run_counts (percpu_stats s') = map_option run_counts (percpu_stats s) \<Longrightarrow>
   map_option (\<lambda>st. (total st, success_dwarf st + a, error_truncated st + b)) (percpu_stats s') =
   map_option (\<lambda>st. (total st, success_dwarf st + a, error_truncated st + b)) (percpu_stats s)"
  by (cases "percpu_stats s"; cases "percpu_stats s'") (simp_all add: run_counts_def)

definition uncounted :: "bpf_state \<Rightarrow> bpf_state \<Rightarrow> bool" where
  "uncounted s s' \<longleftrightarrow> same_counts s s' \<and> sample_log s' = sample_log s"

lemma counted_uncounted: "uncounted s s1 \<Longrightarrow> counted s1 s' n m \<Longrightarrow> counted s s' n m"
  using run_counts_map [of s1 s "of_nat n" "of_nat m"]
  by (auto simp: uncounted_def same_counts_def counted_def)

lemma uncounted_counted: "uncounted s s' \<Longrightarrow> counted s s' 0 0"
  by (cases "percpu_stats s")
    (simp_all add: uncounted_def same_counts_def counted_def run_counts_def)

lemma counted_truncated: "counted s (bump bump_unwind_error_truncated (s\<lparr>heap := h\<rparr>)) 0 1"
  "counted s (bump bump_unwind_error_truncated s) 0 1"
  by (cases "percpu_stats s"; simp add: counted_def run_counts_def bump_defs sample_log_def bump_def)+

lemma uncounted_frames: "unwind_frames n k pid us s = (oc, us', s') \<Longrightarrow> uncounted s s'"
  using counts.unwind_frames_R maps.unwind_frames_R by (auto simp: uncounted_def same_maps_def)

lemma success_run_counts:
  "map_option run_counts (bump_unwind_success_dwarf st) =
     map_option (\<lambda>(t, n, m). (t, n + 1, m)) (map_option run_counts st)"
  by (cases st) (simp_all add: run_counts_def bump_defs)

lemma bottom_run_counts:
  "map_option run_counts (bump_unwind_bp_non_zero_for_bottom_frame st) = map_option run_counts st"
  by (cases st) (simp_all add: run_counts_def bump_defs)

lemma add_stack_counts:
  "map_option run_counts (percpu_stats (snd (add_stack k us t))) =
     map_option run_counts (percpu_stats t)"
  by (cases "percpu_stats t")
    (simp_all add: add_stack_def emit_def Let_def run_counts_def bump_defs bump_def)

lemma finish_stack_eq:
  "finish_stack k us s =
     (let s1 = (if per_process_id k = per_thread_id k \<and> us_bp us \<noteq> 0
                then bump bump_unwind_bp_non_zero_for_bottom_frame s else s)
      in bump bump_unwind_success_dwarf
           ((snd (add_stack k us s1))\<lparr>heap := Some (fst (add_stack k us s1))\<rparr>))"
  by (simp add: finish_stack_def Let_def split: prod.split)

lemma counted_finish:
  assumes "stack_wf us" "get_stack_contract k"
  shows "counted s (finish_stack k us s) 1 0"
proof -
  have log: "length (sample_log (snd (add_stack k us t))) = Suc (length (sample_log t))" for t
    by (simp add: add_stack_sends [OF assms] sample_log_def)
  have "map_option run_counts (percpu_stats (finish_stack k us s)) =
      map_option (\<lambda>(t, n, m). (t, n + 1, m)) (map_option run_counts (percpu_stats s))"
    by (simp add: finish_stack_eq Let_def success_run_counts add_stack_counts bottom_run_counts)
  also have "\<dots> = map_option (\<lambda>st. (total st, success_dwarf st + of_nat 1, error_truncated st + of_nat 0))
      (percpu_stats s)"
    by (cases "percpu_stats s") (simp_all add: run_counts_def)
  finally show ?thesis by (simp add: counted_def finish_stack_eq Let_def log)
qed

section \<open>Runs\<close>

lemma body_counted:
  assumes "heap_wf s" "get_stack_contract k"
  shows "case dwarf_unwind_body k s of
     Inl (r, s') \<Rightarrow> \<exists>n m. n + m \<le> 1 \<and> counted s s' n m
   | Inr s1 \<Rightarrow> uncounted s s1 \<and> heap_wf s1"
proof (cases "heap s")
  case None
  then show ?thesis by (auto simp: dwarf_unwind_body_def uncounted_def same_counts_def
        intro!: exI [of _ 0] uncounted_counted)
next
  case (Some us)
  obtain oc us1 s1 where f: "unwind_frames 7 k (per_process_id k) us s = (oc, us1, s1)"
    by (cases "unwind_frames 7 k (per_process_id k) us s")
  have wf: "stack_wf us" using Some assms(1) by (simp add: heap_wf_def)
  have wf1: "stack_wf us1" using stack_buffer.frames_I [OF f wf] .
  note unc = uncounted_frames [OF f]
  have unc_heap: "uncounted s (s1\<lparr>heap := h\<rparr>)" for h
    using unc by (simp add: uncounted_def same_counts_def)
  show ?thesis
  proof (cases oc)
    case Frame_return
    with f Some show ?thesis
      using uncounted_counted [OF unc_heap] by (force simp: dwarf_unwind_body_def)
  next
    case Frame_break
    with f Some show ?thesis
      using counted_uncounted [OF unc counted_finish [OF wf1 assms(2)]]
      by (force simp: dwarf_unwind_body_def)
  next
    case Frame_continue
    with f Some show ?thesis
      using counted_uncounted [OF unc counted_truncated(1)] unc_heap wf1
      by (force simp: dwarf_unwind_body_def heap_wf_def)
  qed
qed

lemma dwarf_unwind_counted:
  assumes "heap_wf s" "get_stack_contract k"
  shows "\<exists>n m. n + m \<le> 1 \<and> counted s (snd (dwarf_unwind budget k s)) n m"
  using assms(1)
proof (induction budget arbitrary: s)
  case 0
  have trunc: "\<exists>n m. n + m \<le> 1 \<and> counted s (bump bump_unwind_error_truncated s1) n m"
    if "uncounted s s1" for s1
    using counted_uncounted [OF that counted_truncated(2)] by force
  from body_counted [OF 0 assms(2)] trunc show ?case
    by (auto simp: dwarf_unwind.simps split: sum.splits prod.splits)
next
  case (Suc budget)
  have trunc: "\<exists>n m. n + m \<le> 1 \<and> counted s (bump bump_unwind_error_truncated s1) n m"
    if "uncounted s s1" for s1
    using counted_uncounted [OF that counted_truncated(2)] by force
  have rec: "\<exists>n m. n + m \<le> 1 \<and> counted s (snd (dwarf_unwind budget k s1)) n m"
    if "uncounted s s1" "heap_wf s1" for s1
    using Suc.IH [OF that(2)] counted_uncounted [OF that(1)] by blast
  from body_counted [OF Suc.prems assms(2)] trunc rec show ?case
    by (auto simp: dwarf_unwind.simps split: sum.splits prod.splits)
qed

lemma total_run_counts:
  "map_option run_counts (bump_unwind_total st) =
     map_option (\<lambda>(t, n, m). (t + 1, n, m)) (map_option run_counts st)"
  by (cases st) (simp_all add: run_counts_def bump_defs)

lemma on_event_idle_counts:
  assumes "\<not> unwinds k s"
  shows "uncounted s (snd (on_event budget k regs s))"
  using assms
  by (auto simp: on_event_def unwinds_def uncounted_def same_counts_def send_event_run_counts Let_def)

lemma on_event_busy_counts:
  assumes "unwinds k s" "heap_wf s" "get_stack_contract k"
  shows "\<exists>n m. n + m \<le> 1 \<and> counted (bump bump_unwind_total s) (snd (on_event budget k regs s)) n m"
proof -
  let ?t = "bump bump_unwind_total s"
  have idle: "\<exists>n m. n + m \<le> 1 \<and> counted ?t (?t\<lparr>heap := h\<rparr>) n m" for h
    by (intro exI [of _ 0] conjI uncounted_counted) (simp_all add: uncounted_def same_counts_def)
  have idle': "\<exists>n m. n + m \<le> 1 \<and> counted ?t ?t n m"
    by (intro exI [of _ 0] conjI uncounted_counted) (simp_all add: uncounted_def same_counts_def)
  have run: "\<exists>n m. n + m \<le> 1 \<and> counted ?t (snd (dwarf_unwind b k (?t\<lparr>heap := Some us'\<rparr>))) n m"
    if "stack_wf us'" for b us'
  proof -
    have "uncounted ?t (?t\<lparr>heap := Some us'\<rparr>)" by (simp add: uncounted_def same_counts_def)
    moreover have "heap_wf (?t\<lparr>heap := Some us'\<rparr>)" using that by (simp add: heap_wf_def)
    ultimately show ?thesis
      using dwarf_unwind_counted [OF _ assms(3)] counted_uncounted by blast
  qed
  have "stack_wf (snd (set_initial_state k regs us))" if "heap s = Some us" for us
    using that assms(2) by (intro stack_buffer.I_init) (simp add: heap_wf_def)
  with assms(1) idle idle' run show ?thesis
    by (auto simp: on_event_def unwinds_def Let_def split: option.split nat.split)
qed

section \<open>Properties\<close>

text \<open>
  C15. The counters account for the runs: on an event of a known process total grows by one and
  on every other event it does not; success\_dwarf grows by the number of samples the event
  attempted to send; a run is never counted both as a success and as truncated, and truncated runs
  send nothing. (The counters are 64-bit and wrap around.)
\<close>

theorem on_event_accounts:
  assumes "heap_wf s" "get_stack_contract k" "percpu_stats s = Some st"
    and "on_event budget k regs s = (r, s')"
  shows "\<exists>st' n m. percpu_stats s' = Some st' \<and> n + m \<le> 1 \<and>
     total st' = total st + of_bool (unwinds k s) \<and>
     success_dwarf st' = success_dwarf st + of_nat n \<and>
     length (sample_log s') = length (sample_log s) + n \<and>
     error_truncated st' = error_truncated st + of_nat m"
proof (cases "unwinds k s")
  case False
  from on_event_idle_counts [OF False, of budget regs] assms(3) have
    "map_option run_counts (percpu_stats s') = Some (run_counts st)" "sample_log s' = sample_log s"
    by (simp_all add: uncounted_def same_counts_def assms(4))
  with False show ?thesis by (auto simp: run_counts_def intro!: exI [of _ "0 :: nat"])
next
  case True
  from on_event_busy_counts [OF True assms(1,2), of budget regs] obtain n m where
    nm: "n + m \<le> 1" "counted (bump bump_unwind_total s) s' n m"
    by (auto simp: assms(4))
  then show ?thesis
    using True assms(3) by (auto simp: counted_def run_counts_def bump_defs)
qed

lemma example_contracts:
  "heap_wf example_state" "get_stack_contract example_kernel"
  "percpu_stats example_state = Some zero_stats" "unwinds example_kernel example_state"
  by (simp add: heap_wf_def example_state_def stack_wf_def fresh_unwind_state_def,
      simp add: get_stack_contract_def example_kernel_def, simp add: example_state_def,
      simp add: unwinds_def)

theorem on_event_accounts_witness:
  "\<exists>st' n m. percpu_stats (snd (on_event 33 example_kernel example_regs example_state)) = Some st' \<and>
     n + m \<le> 1 \<and> total st' = 1 \<and> success_dwarf st' = of_nat n \<and> error_truncated st' = of_nat m"
  using on_event_accounts [OF example_contracts(1,2,3)] example_contracts(4)
  by (cases "on_event 33 example_kernel example_regs example_state")
    (fastforce simp: zero_stats_def)

section \<open>Tail calls\<close>

lemma unwind_frames_continue:
  assumes "unwind_frames n k pid us s = (Frame_continue, us', s')" "stack_wf us"
  shows "length (user_stack us') = min 127 (length (user_stack us) + n)"
  using assms
proof (induction n arbitrary: us s)
  case 0
  then show ?case using user_stack_length [of us] by (simp add: stack_wf_def word_le_nat_alt)
next
  case (Suc n)
  obtain oc1 us1 s1 where f: "unwind_frame k pid us s = (oc1, us1, s1)"
    by (cases "unwind_frame k pid us s")
  have wf1: "stack_wf us1" using f Suc.prems(2) by (rule unwind_frame_wf)
  from Suc.prems f have c: "oc1 = Frame_continue" "unwind_frames n k pid us1 s1 = (Frame_continue, us', s')"
    by (cases oc1; simp add: unwind_frames.simps(2))+
  have "same_sample (push_address us) us1" using unwind_frame_us [OF f] c(1) by simp
  then have "length (user_stack us1) = min 127 (Suc (length (user_stack us)))"
    using user_stack_same_sample user_stack_push [OF Suc.prems(2)] by simp
  with Suc.IH [OF c(2) wf1] show ?case by simp
qed

lemma body_tail_call:
  assumes "dwarf_unwind_body k s = Inr s1" "heap s = Some us" "stack_wf us"
  shows "\<exists>us1. heap s1 = Some us1 \<and> stack_wf us1 \<and> length (user_stack us1) = length (user_stack us) + 7 \<and>
     length (user_stack us) < 120"
proof -
  obtain oc us1 s2 where f: "unwind_frames 7 k (per_process_id k) us s = (oc, us1, s2)"
    by (cases "unwind_frames 7 k (per_process_id k) us s")
  from f assms have c: "oc = Frame_continue" "ulen (sample_stack (us_sample us1)) < 127"
    "s1 = s2\<lparr>heap := Some (us1\<lparr>tail_calls := tail_calls us1 + 1\<rparr>)\<rparr>"
    by (cases oc; auto simp: dwarf_unwind_body_def split: if_splits)+
  have wf1: "stack_wf us1" using stack_buffer.frames_I [OF f assms(3)] .
  have "length (user_stack us1) = min 127 (length (user_stack us) + 7)"
    using unwind_frames_continue [OF _ assms(3)] f c(1) by blast
  with c(2) user_stack_ulen [OF wf1] have
    "length (user_stack us1) = length (user_stack us) + 7" "length (user_stack us) < 120" by auto
  with c(3) wf1 show ?thesis by auto
qed

lemma dwarf_unwind_budget:
  assumes "heap s = Some us" "stack_wf us"
    and "120 \<le> length (user_stack us) + 7 * b" "120 \<le> length (user_stack us) + 7 * b'"
  shows "dwarf_unwind b k s = dwarf_unwind b' k s"
  using assms
proof (induction b arbitrary: b' s us)
  case 0
  then have "dwarf_unwind_body k s \<noteq> Inr s1" for s1 using body_tail_call [of k s s1 us] by auto
  then obtain r where "dwarf_unwind_body k s = Inl r" by (cases "dwarf_unwind_body k s") auto
  then show ?case by (simp add: dwarf_unwind_Inl)
next
  case (Suc b)
  show ?case
  proof (cases "dwarf_unwind_body k s")
    case (Inl r)
    then show ?thesis by (simp add: dwarf_unwind_Inl)
  next
    case (Inr s1)
    from body_tail_call [OF Inr Suc.prems(1,2)] obtain us1 where us1: "heap s1 = Some us1" "stack_wf us1"
      "length (user_stack us1) = length (user_stack us) + 7" "length (user_stack us) < 120" by auto
    then obtain c where c: "b' = Suc c" using Suc.prems(4) by (cases b') auto
    have "dwarf_unwind b k s1 = dwarf_unwind c k s1"
      using us1 Suc.prems(3,4) c by (intro Suc.IH [OF us1(1,2)]) auto
    with Inr c show ?thesis by (simp add: dwarf_unwind.simps)
  qed
qed

text \<open>
  C25. The unwinder makes at most 18 tail calls after the first: with 19 allowed the outcome of an
  event is the same as with any larger limit, so that neither the kernel's limit of 33 nor
  MAX\_TAIL\_CALLS is ever what stops a walk.
\<close>

theorem on_event_tail_calls:
  assumes "heap_wf s" "19 \<le> budget"
  shows "on_event budget k regs s = on_event 19 k regs s"
proof -
  obtain b where b: "budget = Suc b" "18 \<le> b" using assms(2) by (cases budget) auto
  have run: "dwarf_unwind b k (t\<lparr>heap := Some (snd (set_initial_state k regs us))\<rparr>) =
      dwarf_unwind 18 k (t\<lparr>heap := Some (snd (set_initial_state k regs us))\<rparr>)"
    if "heap s = Some us" for t us
    using that assms(1) b(2)
    by (intro dwarf_unwind_budget [of _ "snd (set_initial_state k regs us)"])
      (simp_all add: heap_wf_def stack_buffer.I_init)
  have "(19 :: nat) = Suc 18" by simp
  with run show ?thesis by (auto simp: on_event_def b(1) Let_def split: option.split)
qed

theorem on_event_tail_calls_witness:
  "on_event 33 example_kernel example_regs example_state = on_event 19 example_kernel example_regs example_state"
  using on_event_tail_calls [OF example_contracts(1), of 33] by simp

end
