(* ===== verification/Events.thy ===== *)
theory Events
  imports Walk_Refinement Example_System
begin

text \<open>
  The events the profiler sends to user space (\<open>send_event\<close> of src/src/bpf/profiler.bpf.c): rate
  limiting, new processes and missing unwind information.
\<close>

section \<open>The event log\<close>

fun event_of :: "payload \<Rightarrow> Event list" where
  "event_of (P_event ev) = [ev]"
| "event_of (P_sample bs) = []"
| "event_of (P_tracer ev) = []"

definition event_log :: "bpf_state \<Rightarrow> Event list" where
  "event_log s = concat (map (\<lambda>(ch, p, r). event_of p) (outputs s))"

lemma event_log_send_event:
  "event_log (send_event k ev s) = event_log s @ (if is_rate_limited s ev then [] else [ev])"
  by (simp add: event_log_def send_event_outputs)

lemma event_log_bump [simp]: "event_log (bump f s) = event_log s"
  by (simp add: event_log_def)

lemma is_rate_limited_bump [simp]: "is_rate_limited (bump f s) ev = is_rate_limited s ev"
  by (simp add: is_rate_limited_def)

text \<open>
  What the kernel documents of an update of the hash map, which is declared with room for \<open>MAX_PROCESSES\<close> entries: it
  succeeds when the key is present or the map is not full. Nothing is assumed of a full map.
\<close>

definition rate_limits_room :: "kernel \<Rightarrow> bool" where
  "rate_limits_room k \<longleftrightarrow>
     (\<forall>m ev. finite (dom m) \<and> (m ev \<noteq> None \<or> card (dom m) < MAX_PROCESSES) \<longrightarrow> rate_limit_update_ret k m ev = 0)"

lemma is_rate_limited_send_event:
  "rate_limit_update_ret k (rate_limits s) ev = 0 \<Longrightarrow>
   is_rate_limited (send_event k ev s) ev' = (ev' = ev \<or> is_rate_limited s ev')"
  by (auto simp: is_rate_limited_def send_event_rate_limits)

lemma is_rate_limited_send_event_other:
  "ev' \<noteq> ev \<Longrightarrow> is_rate_limited (send_event k ev s) ev' = is_rate_limited s ev'"
  by (auto simp: is_rate_limited_def send_event_rate_limits)

lemma send_event_dom: "dom (rate_limits (send_event k ev s)) \<subseteq> insert ev (dom (rate_limits s))"
  by (auto simp: send_event_rate_limits)

text \<open>A sequence of sends, each in its own run.\<close>

fun send_events :: "(kernel \<times> Event) list \<Rightarrow> bpf_state \<Rightarrow> bpf_state" where
  "send_events [] s = s"
| "send_events ((k, ev) # rest) s = send_events rest (send_event k ev s)"

section \<open>Properties\<close>

lemma room_for_event:
  assumes "rate_limits_room k" "finite (dom (rate_limits s))" "\<not> is_rate_limited s ev"
    and "card (insert ev (dom (rate_limits s))) \<le> MAX_PROCESSES"
  shows "rate_limit_update_ret k (rate_limits s) ev = 0"
  using assms unfolding rate_limits_room_def by (cases "ev \<in> dom (rate_limits s)") (auto simp: domIff)

text \<open>Every event that is not rate limited at the start is attempted, room or not.\<close>

lemma send_events_attempted:
  "\<exists>new. event_log (send_events evs s) = event_log s @ new \<and> set new = {ev \<in> snd ` set evs. \<not> is_rate_limited s ev}"
proof (induction evs arbitrary: s)
  case (Cons p rest)
  obtain k ev where p: "p = (k, ev)" by (cases p)
  let ?s = "send_event k ev s"
  from Cons obtain new where new: "event_log (send_events rest ?s) = event_log ?s @ new"
    "set new = {ev' \<in> snd ` set rest. \<not> is_rate_limited ?s ev'}" by blast
  show ?case
  proof (cases "is_rate_limited s ev")
    case True
    then have "?s = s" by (simp add: send_event_def)
    with new p True show ?thesis by (intro exI [of _ new]) auto
  next
    case False
    have "\<not> is_rate_limited ?s ev' \<longleftrightarrow> \<not> is_rate_limited s ev'" if "ev' \<noteq> ev" for ev'
      using is_rate_limited_send_event_other [OF that] by simp
    then have "{ev' \<in> snd ` set rest. \<not> is_rate_limited ?s ev'} - {ev} = {ev' \<in> snd ` set rest. \<not> is_rate_limited s ev'} - {ev}"
      by blast
    then have "insert ev (set new) = {ev' \<in> snd ` set (p # rest). \<not> is_rate_limited s ev'}" using new(2) p False by auto
    then show ?thesis using new p False by (intro exI [of _ "ev # new"]) (simp add: event_log_send_event)
  qed
qed simp

lemma send_events_distinct:
  assumes "list_all (\<lambda>(k, ev). rate_limits_room k) evs" "finite (dom (rate_limits s))"
    and "card (dom (rate_limits s) \<union> snd ` set evs) \<le> MAX_PROCESSES"
  shows "\<exists>new. event_log (send_events evs s) = event_log s @ new \<and> distinct new \<and>
     set new = {ev \<in> snd ` set evs. \<not> is_rate_limited s ev}"
  using assms
proof (induction evs arbitrary: s)
  case (Cons p rest)
  obtain k ev where p: "p = (k, ev)" by (cases p)
  let ?s = "send_event k ev s" and ?all = "dom (rate_limits s) \<union> snd ` set (p # rest)"
  have fin: "finite ?all" using Cons.prems(2) by simp
  have sub: "dom (rate_limits ?s) \<union> snd ` set rest \<subseteq> ?all" using send_event_dom [of k ev s] p by auto
  have "finite (dom (rate_limits ?s))" "card (dom (rate_limits ?s) \<union> snd ` set rest) \<le> MAX_PROCESSES"
    using finite_subset [OF sub fin] card_mono [OF fin sub] Cons.prems(3) by auto
  with Cons obtain new where new: "event_log (send_events rest ?s) = event_log ?s @ new"
    "distinct new" "set new = {ev' \<in> snd ` set rest. \<not> is_rate_limited ?s ev'}" by fastforce
  show ?case
  proof (cases "is_rate_limited s ev")
    case True
    then have "?s = s" by (simp add: send_event_def)
    with new p True show ?thesis by (intro exI [of _ new]) auto
  next
    case False
    have "card (insert ev (dom (rate_limits s))) \<le> card ?all" using fin p by (intro card_mono) auto
    then have "rate_limit_update_ret k (rate_limits s) ev = 0"
      using room_for_event [of k s ev] Cons.prems p False by simp
    with new p False show ?thesis
      by (intro exI [of _ "ev # new"]) (auto simp: event_log_send_event is_rate_limited_send_event)
  qed
qed simp

text \<open>
  C18. Rate limiting over any sequence of sends, from any runs: exactly the events that were not rate
  limited at the start are handed to the output helper, whether or not the helper then fails. Each of them is handed over
  once, however often it is sent, as long as the events sent and those already in rate\_limits fit into the 5000
  entries of that map; beyond them an event may be repeated, but none is suppressed.
\<close>

theorem send_events_once:
  "\<exists>new. event_log (send_events evs s) = event_log s @ new \<and>
     set new = {ev \<in> snd ` set evs. \<not> is_rate_limited s ev} \<and>
     (list_all (\<lambda>(k, ev). rate_limits_room k) evs \<and> finite (dom (rate_limits s)) \<and>
        card (dom (rate_limits s) \<union> snd ` set evs) \<le> 5000 \<longrightarrow> distinct new)"
proof (cases "list_all (\<lambda>(k, ev). rate_limits_room k) evs \<and> finite (dom (rate_limits s)) \<and>
    card (dom (rate_limits s) \<union> snd ` set evs) \<le> 5000")
  case True
  with send_events_distinct [of evs s] show ?thesis by (auto simp: MAX_PROCESSES_def)
next
  case False
  with send_events_attempted [of evs s] show ?thesis by blast
qed

definition example_event :: Event where
  "example_event = \<lparr>ev_type = EVENT_NEW_PROCESS, ev_pid = 43, ev_address = 0\<rparr>"

lemma example_room: "rate_limits_room example_kernel" "rate_limit_update_ret example_kernel m ev = 0"
  by (simp_all add: rate_limits_room_def example_kernel_def)

lemma example_not_limited: "\<not> is_rate_limited example_state ev" "event_log example_state = []"
  by (simp_all add: is_rate_limited_def example_state_def event_log_def)

theorem send_events_once_witness:
  "\<exists>new. event_log (send_events (replicate 3 (example_kernel, example_event)) example_state) = new \<and>
     distinct new \<and> set new = {example_event}"
proof -
  have "rate_limits example_state = Map.empty" by (simp add: example_state_def)
  with send_events_once [of "replicate 3 (example_kernel, example_event)" example_state] show ?thesis
    by (simp add: example_room example_not_limited numeral_3_eq_3 Collect_conv_if)
qed

text \<open>
  A send that fails is not retried: rate\_limits is updated whatever the output returned, so
  that the same event is dropped by every later run until user space clears the entry, although
  user space never received it.
\<close>

lemma failed_event_is_not_retried:
  assumes "\<not> is_rate_limited s ev" "out_ret k (length (outputs s)) < 0"
    and "rate_limit_update_ret k (rate_limits s) ev = 0"
  shows "delivered (send_event k ev s) = delivered s \<and>
     send_event k' ev (send_event k ev s) = send_event k ev s"
proof -
  have "is_rate_limited (send_event k ev s) ev" using assms(3) by (simp add: is_rate_limited_send_event)
  then have "send_event k' ev (send_event k ev s) = send_event k ev s" by (simp add: send_event_def [of k'])
  moreover have "delivered (send_event k ev s) = delivered s"
    using assms(1,2) by (simp add: delivered_def send_event_outputs)
  ultimately show ?thesis by simp
qed

definition full_buffer_kernel :: kernel where
  "full_buffer_kernel = example_kernel\<lparr>out_ret := (\<lambda>n. -28)\<rparr>"

lemma failed_event_is_not_retried_example:
  "delivered (send_event full_buffer_kernel example_event example_state) = [] \<and>
   send_event example_kernel example_event (send_event full_buffer_kernel example_event example_state) =
     send_event full_buffer_kernel example_event example_state"
proof -
  have "rate_limit_update_ret full_buffer_kernel m ev = 0" for m ev
    by (simp add: full_buffer_kernel_def example_kernel_def)
  with failed_event_is_not_retried [of example_state example_event full_buffer_kernel example_kernel]
  show ?thesis
    by (simp add: example_not_limited) (simp add: full_buffer_kernel_def delivered_def example_state_def)
qed

text \<open>
  A process user space does not know is announced once: the first event of it sends NEW\_PROCESS
  with its id, takes no sample, and every later event of the same process changes nothing at all
  until it becomes known or the entry is cleared.
\<close>

lemma new_process_announced_once:
  assumes "per_process_id k \<noteq> 0" "\<not> is_kthread k"
    and "\<not> process_is_known (exec_mappings s) (per_process_id k)"
    and "\<not> is_rate_limited s \<lparr>ev_type = EVENT_NEW_PROCESS, ev_pid = per_process_id k, ev_address = 0\<rparr>"
    and "rate_limit_update_ret k (rate_limits s) \<lparr>ev_type = EVENT_NEW_PROCESS, ev_pid = per_process_id k, ev_address = 0\<rparr> = 0"
    and "per_process_id k' = per_process_id k"
    and "on_event budget k regs s = (r, s')"
  shows "event_log s' = event_log s @
       [\<lparr>ev_type = EVENT_NEW_PROCESS, ev_pid = per_process_id k, ev_address = 0\<rparr>] \<and>
     sample_log s' = sample_log s \<and> percpu_stats s' \<in>
       {percpu_stats s, bump_unwind_error_sending_new_process_event (percpu_stats s)} \<and>
     on_event budget' k' regs' s' = (0, s')"
proof -
  let ?ev = "\<lparr>ev_type = EVENT_NEW_PROCESS, ev_pid = per_process_id k, ev_address = 0\<rparr>"
  have s': "s' = send_event k ?ev s" using assms(1-3,7) by (simp add: on_event_def Let_def)
  have "is_rate_limited s' ?ev" using assms(5) by (simp add: s' is_rate_limited_send_event)
  then have "send_event k' ?ev s' = s'" by (simp add: send_event_def [of k'])
  then have "on_event budget' k' regs' s' = (0, s')"
    using assms(3,6) s' by (simp add: on_event_def Let_def)
  moreover have "percpu_stats s' \<in>
      {percpu_stats s, bump_unwind_error_sending_new_process_event (percpu_stats s)}"
    by (simp add: s' send_event_def emit_def Let_def)
  ultimately show ?thesis using assms(4) by (simp add: s' event_log_send_event)
qed

definition unknown_kernel :: kernel where
  "unknown_kernel = example_kernel\<lparr>probe_read_kernel := (\<lambda>a n.
     if a = 0x40000 + 96 then (0, 43) else example_kernel_memory a n)\<rparr>"

lemma unknown_kernel_ids [simp]: "per_process_id unknown_kernel = 43" "is_kthread unknown_kernel = False"
  by (simp_all add: per_process_id_def pid_nr_def task_level_def is_kthread_def unknown_kernel_def
      core_read_ptr_def core_read_u32_def example_kernel_def example_kernel_memory_def
      header_relocs_def)

lemma new_process_announced_once_example:
  "event_log (snd (on_event 33 unknown_kernel example_regs example_state)) = [example_event] \<and>
   on_event 33 unknown_kernel example_regs (snd (on_event 33 unknown_kernel example_regs example_state)) =
     (0, snd (on_event 33 unknown_kernel example_regs example_state))"
proof -
  have "rate_limit_update_ret unknown_kernel m ev = 0" for m ev
    by (simp add: unknown_kernel_def example_kernel_def)
  with new_process_announced_once [of unknown_kernel example_state unknown_kernel 33 example_regs _ _ 33 example_regs]
  show ?thesis
    by (cases "on_event 33 unknown_kernel example_regs example_state")
      (simp add: example_not_limited example_event_def)
qed

section \<open>Missing unwind information\<close>

lemma and_page_mask: "x AND PAGE_MASK = push_bit 12 (drop_bit 12 x)"
proof -
  have pm: "PAGE_MASK = NOT (mask 12)" by (simp add: PAGE_MASK_def PAGE_SIZE_def mask_eq_exp_minus_1)
  show ?thesis unfolding pm by (auto intro!: bit_word_eqI simp: bit_simps)
qed

text \<open>
  C39. A frame whose mapping is known but whose page has no unwind information ends the walk and asks
  for it: one NEED\_UNWIND\_INFO event for the process with the start of the 4 KB page of the
  program counter (unless that very event is rate limited), and error\_page\_not\_found. All program
  counters of a page give the same event.
\<close>

theorem missing_page_requests_unwind_info:
  assumes "mapping_at s pid (us_ip us) = Some m"
    and "executable_to_page s \<lparr>pk_executable_id = m_executable_id m,
           pk_file_offset = HIGH_PC (us_ip us - m_load_address m)\<rparr> = None \<or>
         outer_map s (m_executable_id m) = None"
    and "unwind_frame k pid us s = (oc, us', s')"
  shows "oc = Frame_return \<and> us' = us \<and>
     event_log s' = event_log s @
       (let ev = \<lparr>ev_type = EVENT_NEED_UNWIND_INFO, ev_pid = pid,
                  ev_address = push_bit 12 (drop_bit 12 (us_ip us))\<rparr>
        in if is_rate_limited s ev then [] else [ev])"
proof -
  from assms(1) have m: "find_mapping (exec_mappings s) pid (us_ip us) = Some m"
    "m_begin m \<le> us_ip us" "us_ip us < m_end m" "m_type m \<noteq> MAPPING_TYPE_ANON"
    by (auto simp: mapping_at_def bind_eq_Some_conv split: if_splits)
  let ?s = "if m_type m = MAPPING_TYPE_VDSO then bump bump_unwind_vdso_encountered s else s"
  have fm: "frame_mapping pid (us_ip us) s = Inr (m, ?s)"
    using m by (simp add: frame_mapping_def not_le not_less)
  have page: "find_page m (HIGH_PC (us_ip us - m_load_address m)) ?s =
      (None, bump bump_unwind_error_page_not_found ?s)"
    using assms(2) by (auto simp: find_page_def Let_def split: option.split)
  have "unwind_frame k pid us s = (Frame_return, us,
      send_event k \<lparr>ev_type = EVENT_NEED_UNWIND_INFO, ev_pid = pid,
         ev_address = push_bit 12 (drop_bit 12 (us_ip us))\<rparr> (bump bump_unwind_error_page_not_found ?s))"
    unfolding unwind_frame_def fm
    by (simp add: frame_row_def Let_def page and_page_mask del: MAPPING_TYPE_VDSO_def)
  with assms(3) show ?thesis by (auto simp: event_log_send_event Let_def)
qed

definition no_unwind_info :: bpf_state where
  "no_unwind_info = example_state\<lparr>executable_to_page := Map.empty\<rparr>"

theorem missing_page_requests_unwind_info_witness:
  "event_log (snd (snd (unwind_frame example_kernel 42 (fresh_unwind_state\<lparr>us_ip := 0x401010\<rparr>)
       no_unwind_info))) =
     [\<lparr>ev_type = EVENT_NEED_UNWIND_INFO, ev_pid = 42, ev_address = 0x401000\<rparr>]"
proof -
  have "exec_mappings no_unwind_info = exec_mappings example_state"
    "executable_to_page no_unwind_info = Map.empty" by (simp_all add: no_unwind_info_def)
  moreover have "event_log no_unwind_info = []" "is_rate_limited no_unwind_info ev = False" for ev
    using example_not_limited by (simp_all add: no_unwind_info_def event_log_def is_rate_limited_def)
  ultimately show ?thesis
    using missing_page_requests_unwind_info [of no_unwind_info 42 "fresh_unwind_state\<lparr>us_ip := 0x401010\<rparr>"
        example_mapping example_kernel]
    by (cases "unwind_frame example_kernel 42 (fresh_unwind_state\<lparr>us_ip := 0x401010\<rparr>) no_unwind_info")
      (simp add: mapping_at_def example_mapping_def Let_def)
qed

end
