(* ===== verification/Tracers.thy ===== *)
theory Tracers
  imports Example_System
begin

text \<open>
  The tracers of src/src/bpf/tracers.bpf.c: process exits and unmapped executable mappings. Each
  tracepoint handler is one function from the kernel's view of the run and the arguments to the new
  state; \<open>tracer_step\<close> is the step relation of the component under any interleaving of threads, and
  \<open>tracer_runs\<close> a run of it.
\<close>

section \<open>Arguments\<close>

record munmap_entry_args =
  common_type :: u16
  common_flags :: u8
  common_preempt_count :: u8
  common_pid :: s32
  syscall_nr :: s32
  mu_addr :: u64
  mu_len :: u64

definition munmap_entry_args_layout :: ctype where
  "munmap_entry_args_layout = CStruct [CField ''common_type'' c_short,
     CField ''common_flags'' c_char, CField ''common_preempt_count'' c_char,
     CField ''common_pid'' c_int, CField ''__syscall_nr'' c_int,
     CField ''addr'' c_long, CField ''len'' c_long]"

record mmap_data_key_t =
  mk_pid_tgid :: u64

definition mmap_data_key_t_layout :: ctype where
  "mmap_data_key_t_layout = CStruct [CField ''pid_tgid'' c_long]"

text \<open>The members of \<open>trace_event_raw_sys_exit\<close> the handler may read.\<close>

record sys_exit_args =
  sx_id :: u64
  sx_ret :: u64

section \<open>Handlers\<close>

definition tracer_channel :: "kernel \<Rightarrow> channel" where
  "tracer_channel k =
     (if use_ring_buffers (k_config k) then Ch_tracer_events_rb else Ch_tracer_events)"

definition current_tgid :: "kernel \<Rightarrow> s32" where
  "current_tgid k = ucast (drop_bit 32 (get_current_pid_tgid k))"

definition tracer_process_exit :: "kernel \<Rightarrow> bpf_state \<Rightarrow> int \<times> bpf_state" where
  "tracer_process_exit k s =
     (if \<not> process_is_known (exec_mappings s) (per_process_id k) then (0, s)
      else if per_process_id k \<noteq> per_thread_id k then (0, s)
      else let (ret, s1) = emit k (tracer_channel k)
                 (P_tracer \<lparr>te_type = TRACER_EVENT_TYPE_PROCESS_EXIT, te_pid = current_tgid k,
                            te_start_address = 0\<rparr>) s
        in if ret < 0 then (0, s1) else (0, s1))"

definition tracer_enter_munmap :: "kernel \<Rightarrow> munmap_entry_args \<Rightarrow> bpf_state \<Rightarrow> int \<times> bpf_state" where
  "tracer_enter_munmap k args s =
     (let start_address = mu_addr args in
      case find_mapping (exec_mappings s) (per_process_id k) start_address of
        None \<Rightarrow> (0, s)
      | Some mapping \<Rightarrow>
          if start_address < m_begin mapping \<or> start_address \<ge> m_end mapping then (0, s)
          else let key = get_current_pid_tgid k in
            if munmap_update_ret k (tracked_munmap s) key = 0
            then (0, s\<lparr>tracked_munmap := (tracked_munmap s)(key \<mapsto> start_address)\<rparr>)
            else (0, s))"

definition tracer_exit_munmap :: "kernel \<Rightarrow> sys_exit_args \<Rightarrow> bpf_state \<Rightarrow> int \<times> bpf_state" where
  "tracer_exit_munmap k ctx s =
     (case tracked_munmap s (get_current_pid_tgid k) of
        None \<Rightarrow> (0, s)
      | Some start_address \<Rightarrow>
          if (ucast (sx_ret ctx) :: s32) \<noteq> 0 then (0, s)
          else let (ret, s1) = emit k (tracer_channel k)
                     (P_tracer \<lparr>te_type = TRACER_EVENT_TYPE_MUNMAP, te_pid = current_tgid k,
                                te_start_address = start_address\<rparr>) s
            in (0, s1))"

section \<open>Interleavings\<close>

datatype tracer_input =
    Process_exit kernel
  | Enter_munmap kernel munmap_entry_args
  | Exit_munmap kernel sys_exit_args

primrec input_kernel :: "tracer_input \<Rightarrow> kernel" where
  "input_kernel (Process_exit k) = k"
| "input_kernel (Enter_munmap k args) = k"
| "input_kernel (Exit_munmap k ctx) = k"

definition input_thread :: "tracer_input \<Rightarrow> u64" where
  "input_thread i = get_current_pid_tgid (input_kernel i)"

inductive tracer_step :: "bpf_state \<Rightarrow> tracer_input \<Rightarrow> bpf_state \<Rightarrow> bool" where
  step_exit: "tracer_process_exit k s = (r, s') \<Longrightarrow> tracer_step s (Process_exit k) s'"
| step_enter_munmap: "tracer_enter_munmap k args s = (r, s') \<Longrightarrow> tracer_step s (Enter_munmap k args) s'"
| step_exit_munmap: "tracer_exit_munmap k ctx s = (r, s') \<Longrightarrow> tracer_step s (Exit_munmap k ctx) s'"

inductive_cases tracer_stepE: "tracer_step s i s'"
inductive_simps tracer_step_simps:
  "tracer_step s (Process_exit k) s'"
  "tracer_step s (Enter_munmap k args) s'"
  "tracer_step s (Exit_munmap k ctx) s'"

inductive tracer_runs :: "bpf_state \<Rightarrow> tracer_input list \<Rightarrow> bpf_state \<Rightarrow> bool" where
  runs_Nil: "tracer_runs s [] s"
| runs_Cons: "tracer_step s i s' \<Longrightarrow> tracer_runs s' is s'' \<Longrightarrow> tracer_runs s (i # is) s''"

inductive_simps tracer_runs_Nil [simp]: "tracer_runs s [] s'"
inductive_simps tracer_runs_Cons: "tracer_runs s (i # is) s''"

lemma tracer_runs_append:
  "tracer_runs s (xs @ ys) s' \<longleftrightarrow> (\<exists>m. tracer_runs s xs m \<and> tracer_runs m ys s')"
  by (induction xs arbitrary: s) (auto simp: tracer_runs_Cons)

text \<open>Every handler returns: the step relation is total and functional.\<close>

lemma tracer_step_functional: "\<exists>!s'. tracer_step s i s'"
  by (cases i) (auto simp: tracer_step_simps intro: prod.exhaust)

section \<open>What a handler changes\<close>

definition tracer_event_log :: "bpf_state \<Rightarrow> tracer_event_t list" where
  "tracer_event_log s =
     concat (map (\<lambda>(ch, p, r). case p of P_tracer ev \<Rightarrow> [ev] | _ \<Rightarrow> []) (outputs s))"

definition is_tracked :: "bpf_state \<Rightarrow> kernel \<Rightarrow> u64 \<Rightarrow> bool" where
  "is_tracked s k addr =
     (case find_mapping (exec_mappings s) (per_process_id k) addr of
        None \<Rightarrow> False
      | Some m \<Rightarrow> m_begin m \<le> addr \<and> addr < m_end m)"

lemma tracer_step_maps:
  "tracer_step s i s' \<Longrightarrow>
     exec_mappings s' = exec_mappings s \<and> percpu_stats s' = percpu_stats s \<and> heap s' = heap s \<and>
     executable_to_page s' = executable_to_page s \<and> outer_map s' = outer_map s \<and>
     programs s' = programs s \<and> rate_limits s' = rate_limits s"
  by (auto elim!: tracer_stepE simp: tracer_process_exit_def tracer_enter_munmap_def
      tracer_exit_munmap_def emit_def Let_def split: option.splits if_splits)

lemma tracer_runs_mappings: "tracer_runs s is s' \<Longrightarrow> exec_mappings s' = exec_mappings s"
  by (induction rule: tracer_runs.induct) (auto dest: tracer_step_maps)

lemma enter_munmap_state:
  "snd (tracer_enter_munmap k args s) =
     (if is_tracked s k (mu_addr args) \<and>
         munmap_update_ret k (tracked_munmap s) (get_current_pid_tgid k) = 0
      then s\<lparr>tracked_munmap := (tracked_munmap s)(get_current_pid_tgid k \<mapsto> mu_addr args)\<rparr> else s)"
  by (auto simp: tracer_enter_munmap_def is_tracked_def Let_def split: option.split)

lemma exit_munmap_state:
  "snd (tracer_exit_munmap k ctx s) =
     (case tracked_munmap s (get_current_pid_tgid k) of
        None \<Rightarrow> s
      | Some a \<Rightarrow> if (ucast (sx_ret ctx) :: s32) = 0
          then s\<lparr>outputs := outputs s @ [(tracer_channel k,
                 P_tracer \<lparr>te_type = TRACER_EVENT_TYPE_MUNMAP, te_pid = current_tgid k,
                           te_start_address = a\<rparr>, out_ret k (length (outputs s)))]\<rparr>
          else s)"
  by (simp add: tracer_exit_munmap_def emit_def Let_def split: option.split)

lemma process_exit_state:
  "snd (tracer_process_exit k s) =
     (if process_is_known (exec_mappings s) (per_process_id k) \<and> per_process_id k = per_thread_id k
      then s\<lparr>outputs := outputs s @ [(tracer_channel k,
             P_tracer \<lparr>te_type = TRACER_EVENT_TYPE_PROCESS_EXIT, te_pid = current_tgid k,
                       te_start_address = 0\<rparr>, out_ret k (length (outputs s)))]\<rparr>
      else s)"
  by (auto simp: tracer_process_exit_def emit_def Let_def)

lemma tracer_step_eq:
  "tracer_step s i s' \<longleftrightarrow>
     s' = (case i of Process_exit k \<Rightarrow> snd (tracer_process_exit k s)
           | Enter_munmap k args \<Rightarrow> snd (tracer_enter_munmap k args s)
           | Exit_munmap k ctx \<Rightarrow> snd (tracer_exit_munmap k ctx s))"
  by (cases i) (auto simp: tracer_step_simps intro!: exI prod.collapse [symmetric])

lemmas tracer_states = tracer_step_eq process_exit_state enter_munmap_state exit_munmap_state

text \<open>A thread's entry is only written by the thread itself.\<close>

lemma tracked_other_thread:
  "tracer_step s i s' \<Longrightarrow> input_thread i \<noteq> t \<Longrightarrow> tracked_munmap s' t = tracked_munmap s t"
  by (cases i) (auto simp: tracer_states input_thread_def split: option.splits)

lemma tracked_other_threads:
  "tracer_runs s is s' \<Longrightarrow> \<forall>i \<in> set is. input_thread i \<noteq> t \<Longrightarrow> tracked_munmap s' t = tracked_munmap s t"
  by (induction rule: tracer_runs.induct) (auto dest: tracked_other_thread)

text \<open>Entries are never removed.\<close>

lemma tracked_dom_mono: "tracer_step s i s' \<Longrightarrow> dom (tracked_munmap s) \<subseteq> dom (tracked_munmap s')"
  by (cases i) (auto simp: tracer_states split: option.splits)

section \<open>Properties\<close>

lemma tracer_event_log_append:
  "outputs s' = outputs s @ [(ch, P_tracer ev, r)] \<Longrightarrow>
   tracer_event_log s' = tracer_event_log s @ [ev]"
  by (simp add: tracer_event_log_def)

lemma tracer_event_log_cong: "outputs s' = outputs s \<Longrightarrow> tracer_event_log s' = tracer_event_log s"
  by (simp add: tracer_event_log_def)

lemma exit_munmap_log:
  "tracer_event_log (snd (tracer_exit_munmap k ctx s)) =
     (case tracked_munmap s (get_current_pid_tgid k) of
        None \<Rightarrow> tracer_event_log s
      | Some a \<Rightarrow> if (ucast (sx_ret ctx) :: s32) = 0
          then tracer_event_log s @ [\<lparr>te_type = TRACER_EVENT_TYPE_MUNMAP, te_pid = current_tgid k,
                 te_start_address = a\<rparr>]
          else tracer_event_log s)"
  by (simp add: exit_munmap_state tracer_event_log_def split: option.split)

lemma enter_munmap_log: "tracer_event_log (snd (tracer_enter_munmap k args s)) = tracer_event_log s"
  by (simp add: enter_munmap_state tracer_event_log_def)

lemma process_exit_log:
  "tracer_event_log (snd (tracer_process_exit k s)) =
     (if process_is_known (exec_mappings s) (per_process_id k) \<and> per_process_id k = per_thread_id k
      then tracer_event_log s @ [\<lparr>te_type = TRACER_EVENT_TYPE_PROCESS_EXIT,
             te_pid = current_tgid k, te_start_address = 0\<rparr>]
      else tracer_event_log s)"
  by (auto simp: process_exit_state tracer_event_log_def)

lemma tracked_after:
  "tracked_munmap (snd (tracer_process_exit k s)) = tracked_munmap s"
  "tracked_munmap (snd (tracer_exit_munmap k ctx s)) = tracked_munmap s"
  "tracked_munmap (snd (tracer_enter_munmap k args s)) =
     (if is_tracked s k (mu_addr args) \<and>
         munmap_update_ret k (tracked_munmap s) (get_current_pid_tgid k) = 0
      then (tracked_munmap s)(get_current_pid_tgid k \<mapsto> mu_addr args) else tracked_munmap s)"
  by (simp_all add: process_exit_state exit_munmap_state enter_munmap_state split: option.split)

text \<open>Inputs for the witnesses: a call on the example mapping, by thread 42 and by another one.\<close>

definition example_args :: munmap_entry_args where
  "example_args = \<lparr>common_type = 0, common_flags = 0, common_preempt_count = 0, common_pid = 42,
     syscall_nr = 11, mu_addr = 0x401000, mu_len = 4096\<rparr>"

definition heap_args :: munmap_entry_args where
  "heap_args = example_args\<lparr>mu_addr := 0x900000\<rparr>"

definition success :: sys_exit_args where
  "success = \<lparr>sx_id = 11, sx_ret = 0\<rparr>"

definition other_thread :: kernel where
  "other_thread = example_kernel\<lparr>get_current_pid_tgid := push_bit 32 42 OR 43\<rparr>"

lemma example_tracked:
  "is_tracked example_state example_kernel 0x401000"
  "\<not> is_tracked example_state example_kernel 0x900000"
  by (simp_all add: is_tracked_def example_mapping_def)

lemma example_update [simp]: "munmap_update_ret example_kernel Map.empty key = 0"
  by (simp add: example_kernel_def)

lemma example_state_tracer [simp]:
  "tracked_munmap example_state = Map.empty" "tracer_event_log example_state = []"
  by (simp_all add: example_state_def tracer_event_log_def)

definition after_example :: bpf_state where
  "after_example = snd (tracer_exit_munmap example_kernel success
     (snd (tracer_process_exit other_thread
       (snd (tracer_enter_munmap example_kernel example_args example_state)))))"

lemma after_example_runs:
  "tracer_runs example_state (Enter_munmap example_kernel example_args #
     [Process_exit other_thread] @ [Exit_munmap example_kernel success]) after_example"
  by (simp add: tracer_runs_Cons tracer_step_eq after_example_def)

lemma after_example_state:
  "tracked_munmap after_example (get_current_pid_tgid example_kernel) = Some 0x401000"
  "exec_mappings after_example = exec_mappings example_state"
  using tracer_runs_mappings [OF after_example_runs]
  by (simp_all add: after_example_def tracked_after enter_munmap_state example_tracked example_args_def)

text \<open>
  C16. A successful munmap of a tracked mapping is reported: when a thread enters munmap with an
  address inside a mapping of its process and the kernel accepts the map update, then whatever the
  other threads do in between, the exit with return value 0 on the same thread sends a MUNMAP event
  that carries exactly that address and the thread group of the caller.
\<close>

theorem munmap_reported:
  assumes "is_tracked s k (mu_addr args)"
    and "munmap_update_ret k (tracked_munmap s) (get_current_pid_tgid k) = 0"
    and "tracer_runs s (Enter_munmap k args # others @ [Exit_munmap k' ctx]) s'"
    and "\<forall>i \<in> set others. input_thread i \<noteq> get_current_pid_tgid k"
    and "get_current_pid_tgid k' = get_current_pid_tgid k" "sx_ret ctx = 0"
  shows "tracer_event_log s' \<noteq> [] \<and> last (tracer_event_log s') =
     \<lparr>te_type = TRACER_EVENT_TYPE_MUNMAP, te_pid = current_tgid k, te_start_address = mu_addr args\<rparr>"
proof -
  let ?s1 = "snd (tracer_enter_munmap k args s)"
  from assms(3) obtain m where runs: "tracer_runs ?s1 others m"
    and s': "s' = snd (tracer_exit_munmap k' ctx m)"
    by (auto simp: tracer_runs_Cons tracer_runs_append tracer_step_eq)
  have "tracked_munmap ?s1 (get_current_pid_tgid k) = Some (mu_addr args)"
    using assms(1,2) by (simp add: enter_munmap_state)
  then have "tracked_munmap m (get_current_pid_tgid k') = Some (mu_addr args)"
    using tracked_other_threads [OF runs assms(4)] assms(5) by simp
  with assms(5,6) show ?thesis by (simp add: s' exit_munmap_log current_tgid_def)
qed

theorem munmap_reported_witness:
  "tracer_event_log after_example \<noteq> [] \<and> last (tracer_event_log after_example) =
     \<lparr>te_type = TRACER_EVENT_TYPE_MUNMAP, te_pid = 42, te_start_address = 0x401000\<rparr>"
  using munmap_reported [OF _ _ after_example_runs]
  by (simp add: example_args_def success_def example_tracked input_thread_def other_thread_def,
      simp add: example_kernel_def current_tgid_def)

text \<open>
  The invariant behind the converse: every entry and every MUNMAP event goes back to a munmap call
  of the same thread group on a tracked mapping.
\<close>

definition entered :: "bpf_state \<Rightarrow> tracer_input list \<Rightarrow> s32 \<Rightarrow> u64 \<Rightarrow> bool" where
  "entered s0 is tgid a \<longleftrightarrow>
     (\<exists>k args. Enter_munmap k args \<in> set is \<and> mu_addr args = a \<and> current_tgid k = tgid \<and>
        is_tracked s0 k a)"

definition munmap_inv :: "bpf_state \<Rightarrow> tracer_input list \<Rightarrow> bpf_state \<Rightarrow> bool" where
  "munmap_inv s0 is s \<longleftrightarrow>
     (\<forall>t a. tracked_munmap s t = Some a \<longrightarrow> entered s0 is (ucast (drop_bit 32 t)) a) \<and>
     (\<forall>ev \<in> set (tracer_event_log s). te_type ev = TRACER_EVENT_TYPE_MUNMAP \<longrightarrow>
        entered s0 is (te_pid ev) (te_start_address ev))"

lemma entered_snoc: "entered s0 is p a \<Longrightarrow> entered s0 (is @ [i]) p a"
  by (auto simp: entered_def)

lemma munmap_inv_step:
  assumes inv: "munmap_inv s0 is s" and maps: "exec_mappings s = exec_mappings s0"
    and step: "tracer_step s i s'"
  shows "munmap_inv s0 (is @ [i]) s'"
proof (cases i)
  case (Process_exit k)
  with inv step show ?thesis
    by (auto simp: munmap_inv_def tracer_step_eq process_exit_log tracked_after
        intro: entered_snoc)
next
  case (Enter_munmap k args)
  have new: "entered s0 (is @ [i]) (ucast (drop_bit 32 (get_current_pid_tgid k))) (mu_addr args)"
    if "is_tracked s k (mu_addr args)"
    using that maps unfolding entered_def Enter_munmap
    by (intro exI [of _ k] exI [of _ args]) (simp add: is_tracked_def current_tgid_def)
  from inv step new Enter_munmap show ?thesis
    by (auto simp: munmap_inv_def tracer_step_eq enter_munmap_log tracked_after
        intro: entered_snoc split: if_splits)
next
  case (Exit_munmap k ctx)
  with inv step show ?thesis
    by (auto simp: munmap_inv_def tracer_step_eq exit_munmap_log tracked_after current_tgid_def
        intro: entered_snoc split: option.splits if_splits)
qed

lemma munmap_inv_runs:
  assumes "tracked_munmap s0 = Map.empty" "tracer_event_log s0 = []"
  shows "tracer_runs s0 is s \<Longrightarrow> munmap_inv s0 is s"
proof (induction "is" arbitrary: s rule: rev_induct)
  case Nil
  with assms show ?case by (simp add: munmap_inv_def)
next
  case (snoc i "is")
  then obtain m where m: "tracer_runs s0 is m" "tracer_step m i s"
    by (auto simp: tracer_runs_append tracer_runs_Cons)
  from munmap_inv_step [OF snoc.IH [OF m(1)] tracer_runs_mappings [OF m(1)] m(2)] show ?case .
qed

text \<open>
  C17. No invented unmaps: in every run of the tracers from an empty map, in any interleaving, each
  MUNMAP event names an address that some thread of the same thread group passed to munmap earlier
  in the run and that lies inside a mapping user space has registered for that caller.
\<close>

theorem munmap_events_are_real:
  assumes "tracked_munmap s0 = Map.empty" "tracer_event_log s0 = []" "tracer_runs s0 is s"
    and "ev \<in> set (tracer_event_log s)" "te_type ev = TRACER_EVENT_TYPE_MUNMAP"
  shows "\<exists>k args. Enter_munmap k args \<in> set is \<and> mu_addr args = te_start_address ev \<and>
     current_tgid k = te_pid ev \<and> is_tracked s0 k (te_start_address ev)"
  using munmap_inv_runs [OF assms(1-3)] assms(4,5) by (auto simp: munmap_inv_def entered_def)

theorem munmap_events_are_real_witness:
  "\<exists>k args. Enter_munmap k args \<in> set (Enter_munmap example_kernel example_args #
       [Process_exit other_thread] @ [Exit_munmap example_kernel success]) \<and>
     mu_addr args = 0x401000 \<and> current_tgid k = 42 \<and> is_tracked example_state k 0x401000"
proof -
  let ?ev = "\<lparr>te_type = TRACER_EVENT_TYPE_MUNMAP, te_pid = 42, te_start_address = 0x401000\<rparr>"
  have "?ev \<in> set (tracer_event_log after_example)"
    by (simp add: after_example_def exit_munmap_log tracked_after example_args_def example_tracked
        success_def) (simp add: example_kernel_def current_tgid_def)
  with munmap_events_are_real [OF _ _ after_example_runs, of ?ev] show ?thesis by simp
qed

text \<open>
  Entries of tracked\_munmap are never removed, so an address can be reported again: after a
  tracked munmap, an untracked one (a non-executable mapping) by the same thread that succeeds sends
  a MUNMAP event with the old address.
\<close>

lemma untracked_munmap_repeats_stale_event:
  assumes "tracked_munmap s (get_current_pid_tgid k) = Some old"
    and "\<not> is_tracked s k (mu_addr args)"
    and "tracer_runs s [Enter_munmap k args, Exit_munmap k ctx] s'" "sx_ret ctx = 0"
  shows "tracer_event_log s' = tracer_event_log s @
     [\<lparr>te_type = TRACER_EVENT_TYPE_MUNMAP, te_pid = current_tgid k, te_start_address = old\<rparr>]"
  using assms by (simp add: tracer_runs_Cons tracer_step_eq enter_munmap_state exit_munmap_log)

lemma untracked_munmap_repeats_stale_event_example:
  "tracer_event_log (snd (tracer_exit_munmap example_kernel success
       (snd (tracer_enter_munmap example_kernel heap_args after_example)))) =
   tracer_event_log after_example @
     [\<lparr>te_type = TRACER_EVENT_TYPE_MUNMAP, te_pid = current_tgid example_kernel,
       te_start_address = 0x401000\<rparr>]"
proof (rule untracked_munmap_repeats_stale_event)
  show "tracked_munmap after_example (get_current_pid_tgid example_kernel) = Some 0x401000"
    by (rule after_example_state)
  show "\<not> is_tracked after_example example_kernel (mu_addr heap_args)"
    using example_tracked(2) after_example_state(2) by (simp add: is_tracked_def heap_args_def)
  show "tracer_runs after_example
      [Enter_munmap example_kernel heap_args, Exit_munmap example_kernel success]
      (snd (tracer_exit_munmap example_kernel success
         (snd (tracer_enter_munmap example_kernel heap_args after_example))))"
    by (simp add: tracer_runs_Cons tracer_step_eq)
  show "sx_ret success = 0" by (simp add: success_def)
qed

text \<open>
  What the kernel documents of an update of a hash map of \<open>n\<close> entries: a new key is refused when
  the map is full.
\<close>

definition full_map_refuses :: "nat \<Rightarrow> kernel \<Rightarrow> bool" where
  "full_map_refuses n k \<longleftrightarrow>
     (\<forall>m key. n \<le> card (dom m) \<and> m key = None \<longrightarrow> munmap_update_ret k m key \<noteq> 0)"

definition tracked_munmap_max_entries :: nat where
  "tracked_munmap_max_entries = 500"

lemma full_map_step:
  assumes "tracked_munmap_max_entries \<le> card (dom (tracked_munmap s))"
    and "full_map_refuses tracked_munmap_max_entries (input_kernel i)" "tracer_step s i s'"
  shows "dom (tracked_munmap s') = dom (tracked_munmap s)"
proof (cases i)
  case (Enter_munmap k args)
  have "tracked_munmap s (get_current_pid_tgid k) \<noteq> None"
    if "munmap_update_ret k (tracked_munmap s) (get_current_pid_tgid k) = 0"
    using that assms(1,2) unfolding full_map_refuses_def Enter_munmap input_kernel.simps by metis
  with assms(3) Enter_munmap show ?thesis by (auto simp: tracer_step_eq tracked_after)
qed (use assms(3) in \<open>simp_all add: tracer_step_eq tracked_after\<close>)

lemma full_map_runs:
  assumes "tracer_runs s is s'" "tracked_munmap_max_entries \<le> card (dom (tracked_munmap s))"
    and "\<forall>i \<in> set is. full_map_refuses tracked_munmap_max_entries (input_kernel i)"
  shows "dom (tracked_munmap s') = dom (tracked_munmap s)"
  using assms
proof (induction rule: tracer_runs.induct)
  case (runs_Cons s i s' "is" s'')
  then have "dom (tracked_munmap s') = dom (tracked_munmap s)" by (intro full_map_step) auto
  with runs_Cons show ?case by simp
qed simp

text \<open>
  The map fills up for good: once it holds its 500 entries, no run of the tracers ever frees
  one, and a thread without an entry gets no MUNMAP event, however often it unmaps code.
\<close>

lemma full_munmap_map_is_silent:
  assumes "tracked_munmap_max_entries \<le> card (dom (tracked_munmap s))"
    and "\<forall>i \<in> set is. full_map_refuses tracked_munmap_max_entries (input_kernel i)"
    and "tracked_munmap s (get_current_pid_tgid k) = None" "tracer_runs s is m"
  shows "tracer_event_log (snd (tracer_exit_munmap k ctx m)) = tracer_event_log m"
proof -
  have "get_current_pid_tgid k \<notin> dom (tracked_munmap m)"
    using full_map_runs [OF assms(4,1,2)] assms(3) by auto
  then have "tracked_munmap m (get_current_pid_tgid k) = None" by auto
  then show ?thesis by (simp add: exit_munmap_log)
qed

lemma full_bound: "n < 500 \<Longrightarrow> n < (2 :: nat) ^ 64"
  by simp

definition full_state :: bpf_state where
  "full_state = example_state\<lparr>tracked_munmap :=
     (\<lambda>t. if t \<in> of_nat ` {..<500} then Some 0x401000 else None)\<rparr>"

lemma full_state_card: "card (dom (tracked_munmap full_state)) = 500"
proof -
  have "inj_on (of_nat :: nat \<Rightarrow> u64) {..<500}"
    by (rule inj_onI) (metis lessThan_iff unat_of_nat_64 full_bound)
  moreover have "dom (tracked_munmap full_state) = of_nat ` {..<500}"
    by (auto simp: full_state_def dom_def split: if_splits)
  ultimately show ?thesis by (simp add: card_image)
qed

lemma full_munmap_map_is_silent_example:
  "tracer_event_log (snd (tracer_exit_munmap example_kernel success
       (snd (tracer_enter_munmap example_kernel example_args full_state)))) =
   tracer_event_log (snd (tracer_enter_munmap example_kernel example_args full_state))"
proof (rule full_munmap_map_is_silent)
  show "tracked_munmap_max_entries \<le> card (dom (tracked_munmap full_state))"
    by (simp add: full_state_card tracked_munmap_max_entries_def)
  show "\<forall>i \<in> set [Enter_munmap example_kernel example_args].
      full_map_refuses tracked_munmap_max_entries (input_kernel i)"
    by (simp add: full_map_refuses_def example_kernel_def tracked_munmap_max_entries_def)
  show "tracked_munmap full_state (get_current_pid_tgid example_kernel) = None"
    by (auto simp: full_state_def example_kernel_def dest!: arg_cong [where f = unat]
        simp: unat_of_nat)
  show "tracer_runs full_state [Enter_munmap example_kernel example_args]
      (snd (tracer_enter_munmap example_kernel example_args full_state))"
    by (simp add: tracer_runs_Cons tracer_step_eq)
qed

text \<open>
  A process exit is reported exactly when user space knows the process and the exiting thread
  is its main thread (both ids in the pid namespace of the task); the event is the only effect, and
  the pid it carries is the thread group id of the initial namespace.
\<close>

lemma process_exit_reported:
  "fst (tracer_process_exit k s) = 0 \<and>
   tracer_event_log (snd (tracer_process_exit k s)) = tracer_event_log s @
     (if process_is_known (exec_mappings s) (per_process_id k) \<and> per_process_id k = per_thread_id k
      then [\<lparr>te_type = TRACER_EVENT_TYPE_PROCESS_EXIT,
             te_pid = ucast (drop_bit 32 (get_current_pid_tgid k)), te_start_address = 0\<rparr>]
      else []) \<and>
   tracked_munmap (snd (tracer_process_exit k s)) = tracked_munmap s \<and>
   exec_mappings (snd (tracer_process_exit k s)) = exec_mappings s"
proof -
  have "fst (tracer_process_exit k s) = 0"
    by (simp add: tracer_process_exit_def emit_def Let_def)
  moreover have "tracked_munmap (snd (tracer_process_exit k s)) = tracked_munmap s"
    "exec_mappings (snd (tracer_process_exit k s)) = exec_mappings s"
    by (simp_all add: process_exit_state)
  ultimately show ?thesis by (simp only: process_exit_log current_tgid_def) auto
qed

end
