(* ===== verification/Features.thy ===== *)
theory Features
  imports Kernel_Env
begin

text \<open>
  Feature detection: src/lightswitch-capabilities/src/bpf/features.bpf.c. The program asks, through
  CO-RE, whether the running kernel's enumerations have certain values; the globals of its data
  section are the record \<open>bpf_features\<close>. The enumerations of the running kernel are a parameter,
  and \<open>header_enums\<close> is the instance given by the kernel headers of the repository.
\<close>

type_synonym kernel_enums = "string \<Rightarrow> (string \<times> int) list"

definition bpf_core_enum_value_exists :: "kernel_enums \<Rightarrow> string \<Rightarrow> string \<Rightarrow> bool" where
  "bpf_core_enum_value_exists enums ty v = (v \<in> set (map fst (enums ty)))"

record bpf_features =
  feature_check_done :: bool
  has_tail_call :: bool
  has_ringbuf :: bool
  has_map_of_maps :: bool
  has_batch_map_operations :: bool
  has_task_pt_regs_helper :: bool

definition initial_features :: bpf_features where
  "initial_features = \<lparr>feature_check_done = False, has_tail_call = False, has_ringbuf = False,
     has_map_of_maps = False, has_batch_map_operations = False, has_task_pt_regs_helper = False\<rparr>"

definition detect_bpf_features :: "kernel_enums \<Rightarrow> bpf_features \<Rightarrow> int \<times> bpf_features" where
  "detect_bpf_features enums g =
     (let g1 = g\<lparr>has_tail_call :=
            bpf_core_enum_value_exists enums ''bpf_func_id'' ''BPF_FUNC_tail_call''\<rparr>;
          g2 = g1\<lparr>has_ringbuf :=
            bpf_core_enum_value_exists enums ''bpf_map_type'' ''BPF_MAP_TYPE_RINGBUF''\<rparr>;
          g3 = g2\<lparr>has_map_of_maps :=
            bpf_core_enum_value_exists enums ''bpf_map_type'' ''BPF_MAP_TYPE_HASH_OF_MAPS''\<rparr>;
          g4 = g3\<lparr>has_batch_map_operations :=
            bpf_core_enum_value_exists enums ''bpf_cmd'' ''BPF_MAP_LOOKUP_AND_DELETE_BATCH''\<rparr>;
          g5 = g4\<lparr>has_task_pt_regs_helper :=
            bpf_core_enum_value_exists enums ''bpf_func_id'' ''BPF_FUNC_task_pt_regs''\<rparr>
      in (0, g5\<lparr>feature_check_done := True\<rparr>))"

definition header_enums :: "arch \<Rightarrow> kernel_enums" where
  "header_enums a ty =
     (if ty = ''bpf_func_id'' then (case a of X86 \<Rightarrow> x86_enum_bpf_func_id | Arm64 \<Rightarrow> arm64_enum_bpf_func_id)
      else if ty = ''bpf_map_type''
      then (case a of X86 \<Rightarrow> x86_enum_bpf_map_type | Arm64 \<Rightarrow> arm64_enum_bpf_map_type)
      else if ty = ''bpf_cmd'' then (case a of X86 \<Rightarrow> x86_enum_bpf_cmd | Arm64 \<Rightarrow> arm64_enum_bpf_cmd)
      else [])"

section \<open>Properties\<close>

text \<open>
  The run tells the features apart: the answer does not depend on what the globals held, a second
  run changes nothing, and the checked flag is set with the answers.
\<close>

lemma detect_bpf_features_eq:
  "detect_bpf_features enums g = (0, \<lparr>feature_check_done = True,
     has_tail_call = bpf_core_enum_value_exists enums ''bpf_func_id'' ''BPF_FUNC_tail_call'',
     has_ringbuf = bpf_core_enum_value_exists enums ''bpf_map_type'' ''BPF_MAP_TYPE_RINGBUF'',
     has_map_of_maps = bpf_core_enum_value_exists enums ''bpf_map_type'' ''BPF_MAP_TYPE_HASH_OF_MAPS'',
     has_batch_map_operations =
       bpf_core_enum_value_exists enums ''bpf_cmd'' ''BPF_MAP_LOOKUP_AND_DELETE_BATCH'',
     has_task_pt_regs_helper =
       bpf_core_enum_value_exists enums ''bpf_func_id'' ''BPF_FUNC_task_pt_regs''\<rparr>)"
  by (cases g) (simp add: detect_bpf_features_def Let_def)

lemmas x86_enums = x86_enum_bpf_func_id_def x86_enum_bpf_func_id_part1_def
  x86_enum_bpf_func_id_part2_def x86_enum_bpf_map_type_def x86_enum_bpf_cmd_def

lemmas arm64_enums = arm64_enum_bpf_func_id_def arm64_enum_bpf_func_id_part1_def
  arm64_enum_bpf_func_id_part2_def arm64_enum_bpf_map_type_def arm64_enum_bpf_cmd_def

text \<open>
  On a kernel that has exactly the enumerations of the headers the programs are compiled
  against, on either architecture, detection finds every feature, whatever the globals held before.
\<close>

lemma header_kernels_have_all_features:
  "detect_bpf_features (header_enums a) g =
     (0, \<lparr>feature_check_done = True, has_tail_call = True, has_ringbuf = True,
          has_map_of_maps = True, has_batch_map_operations = True,
          has_task_pt_regs_helper = True\<rparr>)"
proof (cases a)
  case X86
  then show ?thesis
    by (simp add: detect_bpf_features_eq bpf_core_enum_value_exists_def header_enums_def x86_enums)
next
  case Arm64
  then show ?thesis
    by (simp add: detect_bpf_features_eq bpf_core_enum_value_exists_def header_enums_def arm64_enums)
qed

end
