(* ===== verification/Bpf_Maps.thy ===== *)
theory Bpf_Maps
  imports Features Tracers
begin

text \<open>
  The map declarations of src/src/bpf/shared\_maps.h, src/src/bpf/profiler.bpf.c and
  src/src/bpf/tracers.bpf.c: type, sizes of keys and values, capacity and flags as libbpf reads
  them from the section \<open>.maps\<close>. The sizes that user space changes
  before loading are those of \<open>Settings\<close>.
\<close>

text \<open>The one flag the declarations use, the same on both architectures.\<close>

definition flag_value :: "(string \<times> int) list \<Rightarrow> string \<Rightarrow> int" where
  "flag_value flags name = (case map_of flags name of None \<Rightarrow> -1 | Some v \<Rightarrow> v)"

definition BPF_F_NO_PREALLOC :: int where
  "BPF_F_NO_PREALLOC = flag_value x86_enum_map_flags ''BPF_F_NO_PREALLOC''"

lemma BPF_F_NO_PREALLOC_value:
  "BPF_F_NO_PREALLOC = 1"
  "flag_value arm64_enum_map_flags ''BPF_F_NO_PREALLOC'' = BPF_F_NO_PREALLOC"
  by (simp_all add: BPF_F_NO_PREALLOC_def flag_value_def x86_enum_map_flags_def arm64_enum_map_flags_def)

record map_decl =
  md_type :: string
  md_key :: nat
  md_value :: nat
  md_max_entries :: nat
  md_map_flags :: int

definition ring_buffer :: map_decl where
  "ring_buffer = \<lparr>md_type = ''BPF_MAP_TYPE_RINGBUF'', md_key = 0, md_value = 0,
     md_max_entries = 256 * 1024, md_map_flags = 0\<rparr>"

definition perf_event_array :: map_decl where
  "perf_event_array = \<lparr>md_type = ''BPF_MAP_TYPE_PERF_EVENT_ARRAY'', md_key = csize c_int,
     md_value = csize c_int, md_max_entries = 0, md_map_flags = 0\<rparr>"

section \<open>shared\_maps.h\<close>

definition exec_mappings_decl :: map_decl where
  "exec_mappings_decl = \<lparr>md_type = ''BPF_MAP_TYPE_LPM_TRIE'', md_key = csize exec_mappings_key_layout,
     md_value = csize mapping_t_layout, md_max_entries = MAX_MAPPINGS, md_map_flags = BPF_F_NO_PREALLOC\<rparr>"

definition unwinder_stats_t_layout :: ctype where
  "unwinder_stats_t_layout = CStruct [
     CField ''total'' c_long, CField ''success_dwarf'' c_long, CField ''error_truncated'' c_long,
     CField ''error_unsupported_expression'' c_long,
     CField ''error_unsupported_frame_pointer_action'' c_long,
     CField ''error_unsupported_cfa_register'' c_long, CField ''error_previous_rsp_read'' c_long,
     CField ''error_previous_rsp_zero'' c_long, CField ''error_previous_rip_zero'' c_long,
     CField ''error_previous_rbp_read'' c_long, CField ''error_should_never_happen'' c_long,
     CField ''error_mapping_not_found'' c_long,
     CField ''error_mapping_does_not_contain_pc'' c_long, CField ''error_page_not_found'' c_long,
     CField ''error_binary_search_exhausted_iterations'' c_long,
     CField ''error_sending_new_process_event'' c_long,
     CField ''error_cfa_offset_did_not_fit'' c_long, CField ''error_rbp_offset_did_not_fit'' c_long,
     CField ''error_failure_sending_stack'' c_long, CField ''bp_non_zero_for_bottom_frame'' c_long,
     CField ''vdso_encountered'' c_long, CField ''jit_encountered'' c_long]"

definition percpu_stats_decl :: map_decl where
  "percpu_stats_decl = \<lparr>md_type = ''BPF_MAP_TYPE_PERCPU_ARRAY'', md_key = csize c_int,
     md_value = csize unwinder_stats_t_layout, md_max_entries = 1, md_map_flags = 0\<rparr>"

section \<open>profiler.bpf.c\<close>

definition stacks_rb_decl :: map_decl where "stacks_rb_decl = ring_buffer"

definition stacks_decl :: map_decl where "stacks_decl = perf_event_array"

definition heap_decl :: map_decl where
  "heap_decl = \<lparr>md_type = ''BPF_MAP_TYPE_PERCPU_ARRAY'', md_key = csize c_int,
     md_value = csize unwind_state_t_layout, md_max_entries = 1, md_map_flags = 0\<rparr>"

definition outer_map_decl :: map_decl where
  "outer_map_decl = \<lparr>md_type = ''BPF_MAP_TYPE_HASH_OF_MAPS'', md_key = csize c_long,
     md_value = csize c_int, md_max_entries = MAX_OUTER_UNWIND_MAP_ENTRIES,
     md_map_flags = 0\<rparr>"

definition programs_decl :: map_decl where
  "programs_decl = \<lparr>md_type = ''BPF_MAP_TYPE_PROG_ARRAY'', md_key = csize c_int,
     md_value = csize c_int, md_max_entries = 5, md_map_flags = 0\<rparr>"

definition events_decl :: map_decl where "events_decl = perf_event_array"

definition events_rb_decl :: map_decl where "events_rb_decl = ring_buffer"

definition executable_to_page_decl :: map_decl where
  "executable_to_page_decl = \<lparr>md_type = ''BPF_MAP_TYPE_HASH'', md_key = csize page_key_t_layout,
     md_value = csize page_value_t_layout, md_max_entries = MAX_EXECUTABLE_TO_PAGE_ENTRIES,
     md_map_flags = 0\<rparr>"

definition rate_limits_decl :: map_decl where
  "rate_limits_decl = \<lparr>md_type = ''BPF_MAP_TYPE_HASH'', md_key = csize Event_layout,
     md_value = csize c_bool, md_max_entries = MAX_PROCESSES, md_map_flags = 0\<rparr>"

section \<open>tracers.bpf.c\<close>

definition tracer_events_decl :: map_decl where "tracer_events_decl = perf_event_array"

definition tracer_events_rb_decl :: map_decl where "tracer_events_rb_decl = ring_buffer"

definition tracked_munmap_decl :: map_decl where
  "tracked_munmap_decl = \<lparr>md_type = ''BPF_MAP_TYPE_HASH'', md_key = csize mmap_data_key_t_layout,
     md_value = csize c_long, md_max_entries = tracked_munmap_max_entries,
     md_map_flags = 0\<rparr>"

definition declared_maps :: "map_decl list" where
  "declared_maps = [exec_mappings_decl, percpu_stats_decl, stacks_rb_decl, stacks_decl, heap_decl,
     outer_map_decl, programs_decl, events_decl, events_rb_decl, executable_to_page_decl,
     rate_limits_decl, tracer_events_decl, tracer_events_rb_decl, tracked_munmap_decl]"

section \<open>The declared types\<close>

lemmas map_decls = declared_maps_def exec_mappings_decl_def percpu_stats_decl_def stacks_rb_decl_def
  stacks_decl_def heap_decl_def outer_map_decl_def programs_decl_def events_decl_def
  events_rb_decl_def executable_to_page_decl_def rate_limits_decl_def tracer_events_decl_def
  tracer_events_rb_decl_def tracked_munmap_decl_def ring_buffer_def perf_event_array_def

lemma map_sizes:
  "csize unwinder_stats_t_layout = 176" "csize mmap_data_key_t_layout = 8"
  by (simp_all add: unwinder_stats_t_layout_def mmap_data_key_t_layout_def layout_eval)

lemma capacities:
  "MAX_MAPPINGS = 1000000" "MAX_EXECUTABLE_TO_PAGE_ENTRIES = 500000" "MAX_PROCESSES = 5000"
  "MAX_OUTER_UNWIND_MAP_ENTRIES = 3000" "tracked_munmap_max_entries = 500"
  by (simp_all add: MAX_MAPPINGS_def MAX_PROCESSES_def MAX_EXECUTABLE_TO_PAGE_ENTRIES_def
      MAX_OUTER_UNWIND_MAP_ENTRIES_def tracked_munmap_max_entries_def)

text \<open>The kernel of the headers knows the type of every map on both architectures, and the program array has a slot
  for the unwinder.\<close>

lemma declared_types_known:
  "list_all (\<lambda>d. bpf_core_enum_value_exists (header_enums a) ''bpf_map_type'' (md_type d)) declared_maps"
  by (cases a) (simp_all add: map_decls bpf_core_enum_value_exists_def header_enums_def
      x86_enum_bpf_map_type_def arm64_enum_bpf_map_type_def)

lemma unwinder_slot_declared: "unat PROGRAM_NATIVE_UNWINDER < md_max_entries programs_decl"
  by (simp add: programs_decl_def)

section \<open>Structures shared with the kernel\<close>

text \<open>
  The flags of the map updates and of the perf outputs, which have the same values on both
  architectures: an update may create or replace, and an output goes to the current CPU.
\<close>

lemma operation_flags:
  "flag_value x86_enum_update_flags ''BPF_ANY'' = 0" "flag_value arm64_enum_update_flags ''BPF_ANY'' = 0"
  "flag_value x86_enum_output_flags ''BPF_F_CURRENT_CPU'' = 0xffffffff"
  "flag_value arm64_enum_output_flags ''BPF_F_CURRENT_CPU'' = 0xffffffff"
  by (simp_all add: flag_value_def x86_enum_update_flags_def arm64_enum_update_flags_def
      x86_enum_output_flags_def arm64_enum_output_flags_def)

definition sys_enter_type :: "arch \<Rightarrow> ctype" where
  "sys_enter_type a = (case a of X86 \<Rightarrow> x86_trace_event_raw_sys_enter
     | Arm64 \<Rightarrow> arm64_trace_event_raw_sys_enter)"

definition lpm_key_type :: "arch \<Rightarrow> ctype" where
  "lpm_key_type a = (case a of X86 \<Rightarrow> x86_bpf_lpm_trie_key | Arm64 \<Rightarrow> arm64_bpf_lpm_trie_key)"

text \<open>
  The structures the programs declare for themselves have the layout the kernel headers give to
  what they stand for, on both architectures: the arguments of munmap start where the raw
  system call event keeps its arguments and the calling process is at the same place, and the trie
  key has the prefix length first and its data bytes exactly where struct bpf\_lpm\_trie\_key has
  them, so that the 96 bits after it are what the trie compares.
\<close>

lemma kernel_layouts_agree:
  "offset_of munmap_entry_args_layout [''addr''] = offset_of (sys_enter_type a) [''args''] \<and>
   offset_of munmap_entry_args_layout [''common_pid''] = offset_of (sys_enter_type a) [''ent'', ''pid''] \<and>
   offset_of exec_mappings_key_layout [''prefix_len''] = offset_of (lpm_key_type a) [''prefixlen''] \<and>
   offset_of exec_mappings_key_layout [''pid''] = offset_of (lpm_key_type a) [''data''] \<and>
   unat PREFIX_LEN = 8 * (csize exec_mappings_key_layout - csize (lpm_key_type a))"
proof (cases a)
  case X86
  then show ?thesis
    by (simp add: munmap_entry_args_layout_def exec_mappings_key_layout_def sys_enter_type_def
        lpm_key_type_def x86_trace_event_raw_sys_enter_def x86_trace_entry_def
        x86_bpf_lpm_trie_key_def layout_eval vmlinux_layout)
next
  case Arm64
  then show ?thesis
    by (simp add: munmap_entry_args_layout_def exec_mappings_key_layout_def sys_enter_type_def
        lpm_key_type_def arm64_trace_event_raw_sys_enter_def arm64_trace_entry_def
        arm64_bpf_lpm_trie_key_def layout_eval vmlinux_layout)
qed

end
