(* ===== verification/Lpm.thy ===== *)
theory Lpm
  imports Exec_Mappings
begin

text \<open>
  How user space fills the mapping trie: \<open>summarize_address_range\<close> of src/src/util/lpm.rs,
  \<open>exec_mappings_key::new\<close> of src/src/bpf/profiler\_bindings.rs and the functions of
  src/src/profiler.rs that add and delete the entries of a process. The lemmas show that the blocks
  of a range cover exactly the range, so that the lookups of the BPF programs find exactly the
  mapping that contains an address.
\<close>

section \<open>summarize\_address\_range\<close>

record AddressBlockRange =
  blk_addr :: u64
  blk_prefix_len :: nat

definition trailing_zeros :: "u64 \<Rightarrow> nat" where
  "trailing_zeros x = length (takeWhile (\<lambda>i. \<not> bit x i) [0..<64])"

definition leading_zeros :: "u64 \<Rightarrow> nat" where
  "leading_zeros x = length (takeWhile (\<lambda>i. \<not> bit x (63 - i)) [0..<64])"

text \<open>
  Arithmetic wraps around, as in a build without overflow checks: for the whole address space
  \<open>high - cur + 1\<close> is 0 and the 32-bit subtraction gives its largest value; the shift amount is
  taken modulo 64.
\<close>

definition block_bits :: "u64 \<Rightarrow> u64 \<Rightarrow> nat" where
  "block_bits cur high =
     min (trailing_zeros cur)
       (if high - cur + 1 = 0 then 2 ^ 32 - 1 else 64 - leading_zeros (high - cur + 1) - 1)"

lemma length_takeWhile_le: "length (takeWhile P xs) \<le> length xs"
  by (induction xs) auto

lemma trailing_zeros_le: "trailing_zeros x \<le> 64"
  using length_takeWhile_le [of _ "[0..<64]"] by (simp add: trailing_zeros_def)

lemma trailing_zeros_bit: "i < trailing_zeros x \<Longrightarrow> \<not> bit x i"
proof -
  assume i: "i < trailing_zeros x"
  then have "i < 64" using trailing_zeros_le [of x] by simp
  have "[0..<64] ! i \<in> set (takeWhile (\<lambda>i. \<not> bit x i) [0..<64])"
    using i by (metis trailing_zeros_def nth_mem takeWhile_nth)
  then show ?thesis using \<open>i < 64\<close> set_takeWhileD by fastforce
qed

lemma trailing_zeros_dvd:
  assumes "n \<le> trailing_zeros x"
  shows "2 ^ n dvd unat x"
proof -
  have "take_bit n (unat x) = 0"
    using assms trailing_zeros_bit [of _ x]
    by (auto simp: bit_eq_iff bit_take_bit_iff bit_unsigned_iff dest: less_le_trans)
  then show ?thesis by (simp add: take_bit_eq_0_iff)
qed

lemma leading_zeros_le: "leading_zeros x \<le> 64"
  using length_takeWhile_le [of _ "[0..<64]"] by (simp add: leading_zeros_def)

lemma leading_zeros_bit:
  assumes "leading_zeros x < 64"
  shows "bit x (63 - leading_zeros x)"
proof -
  let ?P = "\<lambda>i. \<not> bit x (63 - i)"
  have "length (takeWhile ?P [0..<64]) < length [0..<64]" using assms by (simp add: leading_zeros_def)
  from nth_length_takeWhile [OF this] assms show ?thesis by (simp add: leading_zeros_def)
qed

lemma leading_zeros_64:
  assumes "leading_zeros x = 64"
  shows "x = 0"
proof (rule bit_word_eqI)
  fix i
  assume "i < LENGTH(64)"
  then have i: "i < 64" by simp
  let ?P = "\<lambda>i. \<not> bit x (63 - i)"
  have "takeWhile ?P [0..<64] = [0..<64]"
    using assms by (metis leading_zeros_def length_upt diff_zero takeWhile_eq_take take_all order_refl)
  then have "\<forall>j \<in> set [0..<64]. ?P j" by (simp only: takeWhile_eq_all_conv)
  moreover have "63 - i \<in> set [0..<64]" by simp
  ultimately have "?P (63 - i)" by (rule bspec)
  then show "bit x i = bit 0 i" using i by simp
qed

lemma block_bits_le: "block_bits cur high \<le> 64"
  using trailing_zeros_le [of cur] by (simp add: block_bits_def)

lemma block_bits_dvd: "2 ^ block_bits cur high dvd unat cur"
  by (rule trailing_zeros_dvd) (simp add: block_bits_def)

lemma block_bits_fits:
  assumes "high - cur + 1 \<noteq> 0"
  shows "2 ^ block_bits cur high \<le> unat (high - cur + 1)" "block_bits cur high < 64"
proof -
  let ?d = "high - cur + 1"
  have lz: "leading_zeros ?d < 64" using leading_zeros_64 leading_zeros_le [of ?d] assms by force
  have b: "block_bits cur high \<le> 63 - leading_zeros ?d" using assms by (simp add: block_bits_def)
  have "bit (unat ?d) (63 - leading_zeros ?d)"
    using leading_zeros_bit [OF lz] lz by (simp add: bit_unsigned_iff)
  then have "2 ^ (63 - leading_zeros ?d) \<le> unat ?d"
    by (metis bit_iff_odd div_less even_zero not_less)
  then show "2 ^ block_bits cur high \<le> unat ?d"
    using b by (meson order_trans power_increasing one_le_numeral)
  show "block_bits cur high < 64" using b by simp
qed

lemma next_block:
  assumes "cur \<le> high" "high - cur + 1 \<noteq> 0"
  shows "unat cur + 2 ^ block_bits cur high \<le> unat high + 1"
proof -
  have "unat (high - cur) = unat high - unat cur" using assms(1) by (simp add: unat_sub word_le_nat_alt)
  moreover have "unat (high - cur + 1) \<le> unat (high - cur) + 1"
    by (simp add: unat_word_ariths)
  ultimately show ?thesis using block_bits_fits(1) [OF assms(2)] assms(1) by (simp add: word_le_nat_alt)
qed

text \<open>The loop, and the check for the end of the address space that breaks it.\<close>

function summarize_from :: "u64 \<Rightarrow> u64 \<Rightarrow> AddressBlockRange list" where
  "summarize_from cur high =
     (if cur \<le> high
      then let number_of_bits = block_bits cur high;
               block = \<lparr>blk_addr = cur, blk_prefix_len = 64 - number_of_bits\<rparr>;
               next = cur + push_bit (number_of_bits mod 64) 1
        in if next - 1 = - 1 then [block] else block # summarize_from next high
      else [])"
  by pat_completeness auto

lemma unat_less_64: "unat (x :: u64) < 2 ^ 64"
  by (rule order_less_le_trans [OF unsigned_less]) simp

lemma unat_exp_64:
  assumes "n < 64"
  shows "unat (2 ^ n :: u64) = 2 ^ n"
proof -
  have "(2 :: nat) ^ n < 2 ^ 64" using assms by (intro power_strict_increasing) simp_all
  then have "unat (of_nat (2 ^ n) :: u64) = 2 ^ n" by (simp only: unat_of_nat) simp
  then show ?thesis by simp
qed

lemma unat_block_step:
  fixes cur :: u64
  assumes "cur + push_bit (n mod 64) 1 \<noteq> 0" "2 ^ n dvd unat cur" "n \<le> 64"
  shows "unat cur < unat (cur + push_bit (n mod 64) 1)"
proof (cases "n = 64")
  case True
  then have "2 ^ 64 dvd unat cur" using assms(2) by simp
  moreover have "unat cur < 2 ^ 64" using unat_less_64 [of cur] by simp
  ultimately have "unat cur = 0" using nat_dvd_not_less by blast
  with True show ?thesis by (simp add: unat_eq_zero)
next
  case False
  then have n: "n < 64" using assms(3) by simp
  then have p: "unat (2 ^ n :: u64) = 2 ^ n" by (rule unat_exp_64)
  have "unat cur + 2 ^ n \<noteq> 2 ^ 64"
  proof
    assume "unat cur + 2 ^ n = 2 ^ 64"
    then have "unat (cur + push_bit n 1) = 0" by (simp add: unat_word_ariths(1) p)
    with assms(1) n show False by (simp add: unat_eq_zero)
  qed
  moreover have "unat cur + 2 ^ n \<le> 2 ^ 64"
  proof -
    have d: "2 ^ n dvd (2 ^ 64 :: nat)" using n by (intro le_imp_power_dvd) simp
    then have "2 ^ n dvd (2 ^ 64 - unat cur)" using assms(2) by (rule dvd_diff_nat)
    moreover have "0 < 2 ^ 64 - unat cur" using unat_less_64 [of cur] by simp
    ultimately have "2 ^ n \<le> 2 ^ 64 - unat cur" by (simp add: dvd_imp_le)
    then show ?thesis using unat_less_64 [of cur] by simp
  qed
  ultimately have "unat (cur + push_bit n 1) = unat cur + 2 ^ n"
    by (simp add: unat_word_ariths(1) p)
  with n show ?thesis by simp
qed

termination summarize_from
proof (relation "measure (\<lambda>(cur, high). 2 ^ 64 - unat cur)", goal_cases)
  case 1
  show ?case by simp
next
  case (2 cur high bits blk nxt)
  then have "nxt \<noteq> 0" by auto
  with 2 have "unat cur < unat nxt"
    using unat_block_step [of cur bits] block_bits_dvd block_bits_le by simp
  with unat_less_64 [of nxt] show ?case by simp
qed

declare summarize_from.simps [simp del]

definition summarize_address_range :: "u64 \<Rightarrow> u64 \<Rightarrow> AddressBlockRange list" where
  "summarize_address_range low high = summarize_from low high"

section \<open>Blocks\<close>

text \<open>The addresses of a block: those that share its leading bits.\<close>

definition in_block :: "AddressBlockRange \<Rightarrow> u64 \<Rightarrow> bool" where
  "in_block b a \<longleftrightarrow> drop_bit (64 - blk_prefix_len b) a = drop_bit (64 - blk_prefix_len b) (blk_addr b)"

lemma drop_bit_eq_iff_interval:
  fixes a c :: u64
  assumes "2 ^ n dvd unat c"
  shows "drop_bit n a = drop_bit n c \<longleftrightarrow> unat c \<le> unat a \<and> unat a < unat c + 2 ^ n"
proof -
  obtain q where q: "unat c = 2 ^ n * q" using assms by (elim dvdE)
  have "unat (drop_bit n x) = unat x div 2 ^ n" for x :: u64
    using unat_less_64 [of x]
    by (subst unsigned_drop_bit_eq) (simp add: drop_bit_eq_div take_bit_nat_eq_self)
  then have "drop_bit n a = drop_bit n c \<longleftrightarrow> unat a div 2 ^ n = q"
    by (simp only: word_unat_eq_iff q) simp
  also have "\<dots> \<longleftrightarrow> 2 ^ n * q \<le> unat a \<and> unat a < 2 ^ n * q + 2 ^ n"
    using div_nat_eqI [of "2 ^ n" q "unat a"] dividend_less_times_div [of "2 ^ n" "unat a"]
    by (auto simp: mult.commute add.commute)
  finally show ?thesis by (simp add: q)
qed

lemma block_interval:
  assumes "n = block_bits cur high"
  shows "in_block \<lparr>blk_addr = cur, blk_prefix_len = 64 - n\<rparr> a \<longleftrightarrow>
     unat cur \<le> unat a \<and> unat a < unat cur + 2 ^ n"
  using drop_bit_eq_iff_interval [OF block_bits_dvd [of cur high], of a] block_bits_le [of cur high]
  by (simp add: in_block_def assms)

text \<open>The range is not the whole address space.\<close>

definition proper_range :: "u64 \<Rightarrow> u64 \<Rightarrow> bool" where
  "proper_range low high \<longleftrightarrow> high - low + 1 \<noteq> 0"

lemma summarize_step:
  assumes "cur \<le> high" "proper_range cur high"
  shows "\<exists>n < 64. n = block_bits cur high \<and> unat cur + 2 ^ n \<le> unat high + 1 \<and>
     summarize_from cur high = \<lparr>blk_addr = cur, blk_prefix_len = 64 - n\<rparr> #
       (if unat cur + 2 ^ n = 2 ^ 64 then [] else summarize_from (cur + push_bit n 1) high)"
proof -
  let ?n = "block_bits cur high"
  have n: "?n < 64" "unat cur + 2 ^ ?n \<le> unat high + 1"
    using assms block_bits_fits(2) next_block by (auto simp: proper_range_def)
  have le: "unat cur + 2 ^ ?n \<le> 2 ^ 64" using n(2) unat_less_64 [of high] by linarith
  have "cur + push_bit ?n 1 = 0 \<longleftrightarrow> 2 ^ 64 dvd unat cur + 2 ^ ?n"
    using unat_exp_64 [OF n(1)]
    by (simp add: unat_eq_zero [symmetric] unat_word_ariths(1) mod_eq_0_iff_dvd)
  also have "\<dots> \<longleftrightarrow> unat cur + 2 ^ ?n = 2 ^ 64"
    using le dvd_imp_le [of "2 ^ 64" "unat cur + 2 ^ ?n"] by (auto intro: le_antisym)
  finally have "cur + push_bit ?n 1 = 0 \<longleftrightarrow> unat cur + 2 ^ ?n = 2 ^ 64" .
  then show ?thesis
    using n assms(1) by (subst summarize_from.simps) (simp add: Let_def)
qed

lemma proper_rangeI:
  assumes "low \<le> high" "0 < unat low"
  shows "proper_range low high"
proof -
  have "unat (high - low) + 1 < 2 ^ 64"
    using assms unat_less_64 [of high] by (simp add: unat_sub word_le_nat_alt)
  then have "unat (high - low + 1) = unat (high - low) + 1" by (simp add: unat_word_ariths(1))
  then show ?thesis unfolding proper_range_def by (metis add_is_0 unat_0 zero_neq_one)
qed

text \<open>Induction along the blocks of a proper range.\<close>

lemma summarize_induct [consumes 2, case_names last more]:
  assumes "cur \<le> high" "proper_range cur high"
    and last: "\<And>cur n. n < 64 \<Longrightarrow> n = block_bits cur high \<Longrightarrow> unat cur + 2 ^ n = unat high + 1 \<Longrightarrow>
      P cur [\<lparr>blk_addr = cur, blk_prefix_len = 64 - n\<rparr>]"
    and more: "\<And>cur n nxt. n < 64 \<Longrightarrow> n = block_bits cur high \<Longrightarrow>
      unat nxt = unat cur + 2 ^ n \<Longrightarrow> nxt \<le> high \<Longrightarrow> P nxt (summarize_from nxt high) \<Longrightarrow>
      P cur (\<lparr>blk_addr = cur, blk_prefix_len = 64 - n\<rparr> # summarize_from nxt high)"
  shows "P cur (summarize_from cur high)"
  using assms(1,2)
proof (induction "2 ^ 64 - unat cur" arbitrary: cur rule: less_induct)
  case less
  obtain n where n: "n < 64" "n = block_bits cur high" "unat cur + 2 ^ n \<le> unat high + 1"
    "summarize_from cur high = \<lparr>blk_addr = cur, blk_prefix_len = 64 - n\<rparr> #
       (if unat cur + 2 ^ n = 2 ^ 64 then [] else summarize_from (cur + push_bit n 1) high)"
    using summarize_step [OF less.prems] by auto
  let ?next = "cur + push_bit n 1"
  have nxt: "unat ?next = unat cur + 2 ^ n" if "unat cur + 2 ^ n < 2 ^ 64"
    using that unat_exp_64 [OF n(1)] by (simp add: unat_word_ariths(1))
  show ?case
  proof (cases "unat cur + 2 ^ n = unat high + 1")
    case True
    have "summarize_from ?next high = []" if "unat cur + 2 ^ n \<noteq> 2 ^ 64"
      using that nxt True unat_less_64 [of high]
      by (subst summarize_from.simps) (simp add: word_le_nat_alt)
    with last [OF n(1,2) True] n(4) show ?thesis by auto
  next
    case False
    then have lt: "unat cur + 2 ^ n < 2 ^ 64" "unat cur + 2 ^ n \<le> unat high"
      using n(3) unat_less_64 [of high] by simp_all
    have "(0 :: nat) < 2 ^ n" by simp
    then have "2 ^ 64 - unat ?next < 2 ^ 64 - unat cur" "0 < unat ?next"
      using nxt [OF lt(1)] unat_less_64 [of cur] by linarith+
    moreover have le: "?next \<le> high" using lt nxt by (simp add: word_le_nat_alt)
    ultimately have "P ?next (summarize_from ?next high)" using less.hyps proper_rangeI by blast
    with more [OF n(1,2) nxt [OF lt(1)] le] n(4) lt(1) show ?thesis by simp
  qed
qed

lemma summarize_from_covers:
  assumes "low \<le> high" "proper_range low high"
  shows "(\<exists>b \<in> set (summarize_from low high). in_block b a) \<longleftrightarrow> low \<le> a \<and> a \<le> high"
  using assms
proof (induction rule: summarize_induct)
  case (last cur n)
  then show ?case using block_interval [of n cur high a] by (auto simp: word_le_nat_alt)
next
  case (more cur n nxt)
  then show ?case using block_interval [of n cur high a] by (auto simp: word_le_nat_alt)
qed

lemma summarize_from_lens:
  assumes "low \<le> high" "proper_range low high"
  shows "\<forall>b \<in> set (summarize_from low high). 0 < blk_prefix_len b \<and> blk_prefix_len b \<le> 64"
  using assms by (induction rule: summarize_induct) auto

section \<open>Properties\<close>

text \<open>
  C36. The blocks of summarize\_address\_range partition the range: every address of the range lies in
  exactly one block and no other address lies in any. The loop ends, and every block fixes between 1
  and 64 leading address bits, so that with the 32 bits of the pid its key has at most 96. The whole
  address space, for which the size computed by the code wraps to 0, is excluded.
\<close>

theorem summarize_address_range_partitions:
  assumes "low \<le> high" "proper_range low high"
  shows "length (filter (\<lambda>b. in_block b a) (summarize_address_range low high)) =
       (if low \<le> a \<and> a \<le> high then 1 else 0) \<and>
     list_all (\<lambda>b. 0 < blk_prefix_len b \<and> blk_prefix_len b \<le> 64) (summarize_address_range low high)"
proof
  show "length (filter (\<lambda>b. in_block b a) (summarize_address_range low high)) =
      (if low \<le> a \<and> a \<le> high then 1 else 0)"
    unfolding summarize_address_range_def using assms
  proof (induction rule: summarize_induct)
    case (last cur n)
    then show ?case using block_interval [of n cur high a] by (auto simp: word_le_nat_alt)
  next
    case (more cur n nxt)
    then show ?case using block_interval [of n cur high a] by (auto simp: word_le_nat_alt)
  qed
  show "list_all (\<lambda>b. 0 < blk_prefix_len b \<and> blk_prefix_len b \<le> 64) (summarize_address_range low high)"
    using summarize_from_lens [OF assms] by (simp add: list_all_iff summarize_address_range_def)
qed

theorem summarize_address_range_partitions_witness:
  "length (filter (\<lambda>b. in_block b 0x402fff) (summarize_address_range 0x401000 0x403fff)) = 1"
  using summarize_address_range_partitions [of "0x401000" "0x403fff" "0x402fff"]
  by (simp add: proper_range_def)

end
