(* ===== verification/Mapping_Registration.thy ===== *)
theory Mapping_Registration
  imports Lpm
begin

text \<open>
  The entries user space keeps in \<open>exec_mappings\<close> for a process: \<open>add_bpf_mapping\<close>,
  \<open>add_bpf_process\<close>, \<open>add_bpf_mappings\<close>, \<open>delete_bpf_mappings\<close> and \<open>delete_bpf_process\<close> of
  src/src/profiler.rs on the trie of the mapping lookup. The kernel may refuse an update (the map is
  full), which is the parameter \<open>accepts\<close>; a refused update is an error of the caller.
\<close>

section \<open>Trie updates\<close>

definition key_new :: "u32 \<Rightarrow> u64 \<Rightarrow> u32 \<Rightarrow> exec_mappings_key option" where
  "key_new pid address prefix_len =
     (if prefix_len \<le> of_nat (csize exec_mappings_key_layout * 8)
      then Some \<lparr>key_prefix_len = prefix_len, key_pid = bswap32 pid, key_data = bswap64 address\<rparr>
      else None)"

text \<open>The stored prefix of a key; more than 96 bits are refused.\<close>

definition key_prefix :: "exec_mappings_key \<Rightarrow> bool list" where
  "key_prefix key = take (unat (key_prefix_len key)) (key_bits key)"

type_synonym acceptance = "lpm_trie \<Rightarrow> bool list \<Rightarrow> bool"

definition add_bpf_mapping ::
    "acceptance \<Rightarrow> exec_mappings_key option \<Rightarrow> mapping_t \<Rightarrow> lpm_trie \<Rightarrow> bool \<times> lpm_trie" where
  "add_bpf_mapping accepts key mapping t =
     (case key of
        None \<Rightarrow> (False, t)
      | Some k \<Rightarrow>
          if unat (key_prefix_len k) \<le> 96 \<and> accepts t (key_prefix k)
          then (True, t(key_prefix k \<mapsto> mapping)) else (False, t))"

definition delete_key :: "exec_mappings_key option \<Rightarrow> lpm_trie \<Rightarrow> lpm_trie" where
  "delete_key key t =
     (case key of
        None \<Rightarrow> t
      | Some k \<Rightarrow> if unat (key_prefix_len k) \<le> 96 then t(key_prefix k := None) else t)"

section \<open>Processes and mappings\<close>

definition add_bpf_process :: "acceptance \<Rightarrow> s32 \<Rightarrow> lpm_trie \<Rightarrow> bool \<times> lpm_trie" where
  "add_bpf_process accepts pid t = add_bpf_mapping accepts (key_new pid 0 32) process_entry t"

definition mapping_blocks :: "mapping_t \<Rightarrow> AddressBlockRange list" where
  "mapping_blocks m = summarize_address_range (m_begin m) (m_end m - 1)"

definition block_key :: "s32 \<Rightarrow> AddressBlockRange \<Rightarrow> exec_mappings_key option" where
  "block_key pid b = key_new pid (blk_addr b) (32 + of_nat (blk_prefix_len b))"

fun add_blocks ::
    "acceptance \<Rightarrow> s32 \<Rightarrow> mapping_t \<Rightarrow> AddressBlockRange list \<Rightarrow> lpm_trie \<Rightarrow> bool \<times> lpm_trie" where
  "add_blocks accepts pid m [] t = (True, t)"
| "add_blocks accepts pid m (b # bs) t =
     (case add_bpf_mapping accepts (block_key pid b) m t of
        (False, t1) \<Rightarrow> (False, t1)
      | (True, t1) \<Rightarrow> add_blocks accepts pid m bs t1)"

fun add_bpf_mappings :: "acceptance \<Rightarrow> s32 \<Rightarrow> mapping_t list \<Rightarrow> lpm_trie \<Rightarrow> bool \<times> lpm_trie" where
  "add_bpf_mappings accepts pid [] t = (True, t)"
| "add_bpf_mappings accepts pid (m # ms) t =
     (case add_blocks accepts pid m (mapping_blocks m) t of
        (False, t1) \<Rightarrow> (False, t1)
      | (True, t1) \<Rightarrow> add_bpf_mappings accepts pid ms t1)"

text \<open>Deleting takes the bounds of the mapping; errors are only logged.\<close>

definition delete_bpf_mappings :: "s32 \<Rightarrow> u64 \<Rightarrow> u64 \<Rightarrow> lpm_trie \<Rightarrow> lpm_trie" where
  "delete_bpf_mappings pid mapping_begin mapping_end t =
     fold (\<lambda>b. delete_key (block_key pid b)) (summarize_address_range mapping_begin (mapping_end - 1)) t"

definition delete_bpf_process :: "s32 \<Rightarrow> lpm_trie \<Rightarrow> lpm_trie" where
  "delete_bpf_process pid t = delete_key (key_new pid 0 32) t"

text \<open>Registering a process: its mappings first, then the entry that makes it known.\<close>

definition register_process :: "acceptance \<Rightarrow> s32 \<Rightarrow> mapping_t list \<Rightarrow> lpm_trie \<Rightarrow> bool \<times> lpm_trie" where
  "register_process accepts pid ms t =
     (let (ok1, t1) = add_bpf_mappings accepts pid ms t;
          (ok2, t2) = add_bpf_process accepts pid t1
      in (ok1 \<and> ok2, t2))"

text \<open>
  The reference for dropping a process: its process entry first, then the blocks of each mapping.
\<close>

definition unregister_process :: "s32 \<Rightarrow> mapping_t list \<Rightarrow> lpm_trie \<Rightarrow> lpm_trie" where
  "unregister_process pid ms t =
     fold (\<lambda>m. delete_bpf_mappings pid (m_begin m) (m_end m)) ms (delete_bpf_process pid t)"

section \<open>The prefixes of a mapping\<close>

definition mapping_wf :: "mapping_t \<Rightarrow> bool" where
  "mapping_wf m \<longleftrightarrow> m_begin m < m_end m"

definition contains_pc :: "mapping_t \<Rightarrow> u64 \<Rightarrow> bool" where
  "contains_pc m pc \<longleftrightarrow> m_begin m \<le> pc \<and> pc < m_end m"

definition mapping_prefixes :: "s32 \<Rightarrow> mapping_t \<Rightarrow> bool list set" where
  "mapping_prefixes pid m =
     (\<lambda>b. stored_prefix pid (blk_addr b) (blk_prefix_len b)) ` set (mapping_blocks m)"

lemma mapping_range:
  assumes "mapping_wf m"
  shows "m_begin m \<le> m_end m - 1" "proper_range (m_begin m) (m_end m - 1)"
    and "(m_begin m \<le> a \<and> a \<le> m_end m - 1) = contains_pc m a"
proof -
  have "unat (m_begin m) < unat (m_end m)" using assms by (simp add: mapping_wf_def word_less_nat_alt)
  then have e: "unat (m_end m - 1) = unat (m_end m) - 1" "0 < unat (m_end m)"
    by (simp_all add: unat_sub word_le_nat_alt Suc_leI)
  then show le: "m_begin m \<le> m_end m - 1"
    using \<open>unat (m_begin m) < unat (m_end m)\<close> by (simp add: word_le_nat_alt)
  have "m_end m - 1 - m_begin m + 1 = m_end m - m_begin m" by simp
  moreover have "m_end m \<noteq> m_begin m" using assms by (auto simp: mapping_wf_def)
  ultimately show "proper_range (m_begin m) (m_end m - 1)" by (simp add: proper_range_def)
  show "(m_begin m \<le> a \<and> a \<le> m_end m - 1) = contains_pc m a"
    using e by (auto simp: contains_pc_def word_le_nat_alt word_less_nat_alt)
qed

lemma blocks_of_mapping:
  assumes "mapping_wf m"
  shows "(\<exists>b \<in> set (mapping_blocks m). in_block b pc) = contains_pc m pc"
    and "b \<in> set (mapping_blocks m) \<Longrightarrow> 0 < blk_prefix_len b \<and> blk_prefix_len b \<le> 64"
  using summarize_from_covers [OF mapping_range(1,2) [OF assms], of pc] mapping_range(3) [OF assms]
    summarize_from_lens [OF mapping_range(1,2) [OF assms]]
  by (auto simp: mapping_blocks_def summarize_address_range_def)

lemma key_new_prefix:
  assumes "n \<le> 64"
  shows "\<exists>k. key_new pid addr (32 + of_nat n) = Some k \<and> unat (key_prefix_len k) = 32 + n \<and>
     key_prefix k = stored_prefix pid addr n"
proof -
  have "unat (of_nat (32 + n) :: u32) = 32 + n" using assms by (simp only: unat_of_nat) simp
  then have u: "unat (32 + of_nat n :: u32) = 32 + n" by simp
  show ?thesis
    using assms u by (simp add: key_new_def key_prefix_def key_bits_bswapped stored_prefix_def
        word_le_nat_alt)
qed

lemma query_in_prefixes:
  assumes "mapping_wf m" "i \<le> 96"
  shows "take i (msb_bits pid @ msb_bits pc) \<in> mapping_prefixes pid' m \<Longrightarrow>
     32 < i \<and> pid = pid' \<and> contains_pc m pc"
    and "contains_pc m pc \<Longrightarrow>
     \<exists>i \<le> 96. 32 < i \<and> take i (msb_bits pid @ msb_bits pc) \<in> mapping_prefixes pid m"
proof -
  have q: "take j (msb_bits pid @ msb_bits pc) = stored_prefix p (blk_addr b) (blk_prefix_len b) \<longleftrightarrow>
      j = 32 + blk_prefix_len b \<and> pid = p \<and> in_block b pc"
    if "b \<in> set (mapping_blocks m)" "j \<le> 96" for b j p
    using that blocks_of_mapping(2) [OF assms(1) that(1)]
    by (subst take_query_eq_stored_prefix) (auto simp: in_block_def)
  show "32 < i \<and> pid = pid' \<and> contains_pc m pc"
    if "take i (msb_bits pid @ msb_bits pc) \<in> mapping_prefixes pid' m"
  proof -
    from that obtain b where b: "b \<in> set (mapping_blocks m)"
      "take i (msb_bits pid @ msb_bits pc) = stored_prefix pid' (blk_addr b) (blk_prefix_len b)"
      by (auto simp: mapping_prefixes_def)
    with q [OF b(1) assms(2)] blocks_of_mapping [OF assms(1)] show ?thesis by auto
  qed
  show "\<exists>i \<le> 96. 32 < i \<and> take i (msb_bits pid @ msb_bits pc) \<in> mapping_prefixes pid m"
    if "contains_pc m pc"
  proof -
    obtain b where b: "b \<in> set (mapping_blocks m)" "in_block b pc"
      using blocks_of_mapping(1) [OF assms(1), of pc] \<open>contains_pc m pc\<close> by blast
    note len = blocks_of_mapping(2) [OF assms(1) b(1)]
    then have "take (32 + blk_prefix_len b) (msb_bits pid @ msb_bits pc) =
        stored_prefix pid (blk_addr b) (blk_prefix_len b)"
      using q [OF b(1), of "32 + blk_prefix_len b" pid] b(2) by simp
    with b(1) len show ?thesis
      by (intro exI [of _ "32 + blk_prefix_len b"]) (simp add: mapping_prefixes_def)
  qed
qed

section \<open>What the operations do to the trie\<close>

lemma add_blocks_result:
  assumes "add_blocks accepts pid m bs t = (True, t')" "\<forall>b \<in> set bs. blk_prefix_len b \<le> 64"
  shows "t' p = (if p \<in> (\<lambda>b. stored_prefix pid (blk_addr b) (blk_prefix_len b)) ` set bs
     then Some m else t p)"
  using assms
proof (induction bs arbitrary: t)
  case Nil
  then show ?case by simp
next
  case (Cons b bs)
  obtain k where k: "block_key pid b = Some k" "key_prefix k = stored_prefix pid (blk_addr b) (blk_prefix_len b)"
    using key_new_prefix [of "blk_prefix_len b" pid "blk_addr b"] Cons.prems(2) by (auto simp: block_key_def)
  from Cons.prems(1) k have "add_blocks accepts pid m bs (t(key_prefix k \<mapsto> m)) = (True, t')"
    by (auto simp: add_bpf_mapping_def split: prod.splits bool.splits if_splits)
  with Cons.IH Cons.prems(2) k show ?case by auto
qed

lemma add_bpf_mappings_result:
  assumes "add_bpf_mappings accepts pid ms t = (True, t')" "\<forall>m \<in> set ms. mapping_wf m"
  shows "(\<exists>m \<in> set ms. p \<in> mapping_prefixes pid m \<and> t' p = Some m) \<or>
     (\<forall>m \<in> set ms. p \<notin> mapping_prefixes pid m) \<and> t' p = t p"
  using assms
proof (induction ms arbitrary: t)
  case Nil
  then show ?case by simp
next
  case (Cons m ms)
  from Cons.prems(1) obtain t1 where
    t1: "add_blocks accepts pid m (mapping_blocks m) t = (True, t1)"
    "add_bpf_mappings accepts pid ms t1 = (True, t')"
    by (auto split: prod.splits bool.splits)
  have "\<forall>b \<in> set (mapping_blocks m). blk_prefix_len b \<le> 64"
    using blocks_of_mapping(2) [of m] Cons.prems(2) by simp
  then have "t1 p = (if p \<in> mapping_prefixes pid m then Some m else t p)"
    unfolding mapping_prefixes_def by (rule add_blocks_result [OF t1(1)])
  with Cons.IH [OF t1(2)] Cons.prems(2) show ?case by auto
qed

lemma add_bpf_process_result:
  "add_bpf_process accepts pid t = (True, t') \<Longrightarrow> t' = t(process_prefix pid \<mapsto> process_entry)"
  using key_new_prefix [of 0 pid 0]
  by (auto simp: add_bpf_process_def add_bpf_mapping_def process_prefix_def split: if_splits)

lemma register_process_result:
  assumes "register_process accepts pid ms t = (True, t')" "\<forall>m \<in> set ms. mapping_wf m"
  shows "(\<exists>m \<in> set ms. p \<in> mapping_prefixes pid m \<and> p \<noteq> process_prefix pid \<and> t' p = Some m) \<or>
     p = process_prefix pid \<and> t' p = Some process_entry \<or>
     (\<forall>m \<in> set ms. p \<notin> mapping_prefixes pid m) \<and> p \<noteq> process_prefix pid \<and> t' p = t p"
proof -
  obtain t1 where t1: "add_bpf_mappings accepts pid ms t = (True, t1)"
    "t' = t1(process_prefix pid \<mapsto> process_entry)"
    using assms(1) add_bpf_process_result
    by (auto simp: register_process_def Let_def split: prod.splits)
  show ?thesis using add_bpf_mappings_result [OF t1(1) assms(2), of p] t1(2) by auto
qed

text \<open>An update that is refused half way has still only touched the process's own prefixes.\<close>

definition process_prefixes :: "s32 \<Rightarrow> mapping_t list \<Rightarrow> bool list set" where
  "process_prefixes pid ms = insert (process_prefix pid) (\<Union>m \<in> set ms. mapping_prefixes pid m)"

lemma add_bpf_mapping_frame:
  assumes "n \<le> 64" "p \<noteq> stored_prefix pid addr n"
  shows "snd (add_bpf_mapping accepts (key_new pid addr (32 + of_nat n)) m t) p = t p"
  using key_new_prefix [OF assms(1), of pid addr] assms(2) by (auto simp: add_bpf_mapping_def)

lemma add_blocks_frame:
  assumes "\<forall>b \<in> set bs. blk_prefix_len b \<le> 64"
    and "p \<notin> (\<lambda>b. stored_prefix pid (blk_addr b) (blk_prefix_len b)) ` set bs"
  shows "snd (add_blocks accepts pid m bs t) p = t p"
  using assms
proof (induction bs arbitrary: t)
  case (Cons b bs)
  obtain ok t1 where t1: "add_bpf_mapping accepts (block_key pid b) m t = (ok, t1)" by fastforce
  have "t1 p = t p"
    using add_bpf_mapping_frame [of "blk_prefix_len b" p pid "blk_addr b" accepts m t] Cons.prems t1
    by (simp add: block_key_def)
  with Cons t1 show ?case by (cases ok) auto
qed simp

lemma add_bpf_mappings_frame:
  assumes "\<forall>m \<in> set ms. mapping_wf m" "p \<notin> (\<Union>m \<in> set ms. mapping_prefixes pid m)"
  shows "snd (add_bpf_mappings accepts pid ms t) p = t p"
  using assms
proof (induction ms arbitrary: t)
  case (Cons m ms)
  obtain ok t1 where t1: "add_blocks accepts pid m (mapping_blocks m) t = (ok, t1)" by fastforce
  have "t1 p = t p"
    using add_blocks_frame [of "mapping_blocks m" p pid accepts m t] blocks_of_mapping(2) [of m] Cons.prems t1
    by (simp add: mapping_prefixes_def)
  with Cons t1 show ?case by (cases ok) auto
qed simp

lemma register_process_frame:
  assumes "\<forall>m \<in> set ms. mapping_wf m" "p \<notin> process_prefixes pid ms"
  shows "snd (register_process accepts pid ms t) p = t p"
  using add_bpf_mappings_frame [of ms p pid accepts t]
    add_bpf_mapping_frame [of 0 p pid 0 accepts process_entry] assms
  by (auto simp: process_prefixes_def process_prefix_def register_process_def add_bpf_process_def Let_def
      case_prod_unfold)

lemma delete_key_result:
  "n \<le> 64 \<Longrightarrow> delete_key (key_new pid addr (32 + of_nat n)) t = t(stored_prefix pid addr n := None)"
  using key_new_prefix [of n pid addr] by (auto simp: delete_key_def)

lemma delete_blocks_result:
  "\<forall>b \<in> set bs. blk_prefix_len b \<le> 64 \<Longrightarrow>
   fold (\<lambda>b. delete_key (block_key pid b)) bs t p =
     (if p \<in> (\<lambda>b. stored_prefix pid (blk_addr b) (blk_prefix_len b)) ` set bs then None else t p)"
  by (induction bs arbitrary: t) (auto simp: block_key_def delete_key_result)

lemma delete_bpf_mappings_result:
  "mapping_wf m \<Longrightarrow> delete_bpf_mappings pid (m_begin m) (m_end m) t p =
     (if p \<in> mapping_prefixes pid m then None else t p)"
  using delete_blocks_result [of "mapping_blocks m" pid t p] blocks_of_mapping(2) [of m]
  by (simp add: delete_bpf_mappings_def mapping_prefixes_def flip: mapping_blocks_def)

lemma unregister_process_result:
  assumes "\<forall>m \<in> set ms. mapping_wf m"
  shows "unregister_process pid ms t p = (if p \<in> process_prefixes pid ms then None else t p)"
proof -
  have "fold (\<lambda>m. delete_bpf_mappings pid (m_begin m) (m_end m)) ms t p =
      (if p \<in> (\<Union>m \<in> set ms. mapping_prefixes pid m) then None else t p)" for t
    using assms by (induction ms arbitrary: t) (auto simp: delete_bpf_mappings_result)
  then show ?thesis
    using delete_key_result [of 0 pid 0 t]
    by (auto simp: unregister_process_def delete_bpf_process_def process_prefixes_def process_prefix_def)
qed

lemma process_prefixesE:
  assumes "p \<in> process_prefixes pid ms" "\<forall>m \<in> set ms. mapping_wf m"
  obtains addr n where "n \<le> 64" "p = stored_prefix pid addr n"
proof -
  have "\<exists>addr n. n \<le> 64 \<and> p = stored_prefix pid addr n"
  proof (cases "p = process_prefix pid")
    case True
    then show ?thesis unfolding process_prefix_def by blast
  next
    case False
    with assms(1) obtain m b where "m \<in> set ms" "b \<in> set (mapping_blocks m)"
      "p = stored_prefix pid (blk_addr b) (blk_prefix_len b)"
      by (auto simp: process_prefixes_def mapping_prefixes_def)
    with blocks_of_mapping(2) [of m b] assms(2) show ?thesis by blast
  qed
  with that show ?thesis by blast
qed

section \<open>Lookups of a registered process\<close>

text \<open>Before it is registered, a process has no entries.\<close>

definition no_entries :: "s32 \<Rightarrow> lpm_trie \<Rightarrow> bool" where
  "no_entries pid t \<longleftrightarrow> (\<forall>i pc. i \<le> 96 \<longrightarrow> t (take i (msb_bits pid @ msb_bits (pc :: u64))) = None)"

text \<open>The mappings of a process do not overlap.\<close>

definition disjoint_mappings :: "mapping_t list \<Rightarrow> bool" where
  "disjoint_mappings ms \<longleftrightarrow> (\<forall>m \<in> set ms. \<forall>m' \<in> set ms. \<forall>a.
     contains_pc m a \<and> contains_pc m' a \<longrightarrow> m = m')"

lemma find_disjoint:
  assumes "disjoint_mappings ms" "m \<in> set ms" "contains_pc m pc"
  shows "find (\<lambda>m. contains_pc m pc) ms = Some m"
proof (cases "find (\<lambda>m. contains_pc m pc) ms")
  case None
  then show ?thesis using assms(2,3) by (auto simp: find_None_iff)
next
  case (Some m')
  then have "m' \<in> set ms" "contains_pc m' pc" by (auto simp: find_Some_iff)
  with assms Some show ?thesis unfolding disjoint_mappings_def by blast
qed

lemma registered_entry:
  fixes pc :: u64
  assumes "register_process accepts pid ms t0 = (True, t)" "\<forall>m \<in> set ms. mapping_wf m"
    and "no_entries pid t0" "i \<le> 96"
  defines "q \<equiv> msb_bits pid @ msb_bits pc"
  shows "t (take i q) = Some v \<Longrightarrow>
     i = 32 \<and> v = process_entry \<or> 32 < i \<and> v \<in> set ms \<and> contains_pc v pc"
    and "t (take 32 q) = Some process_entry"
    and "m \<in> set ms \<Longrightarrow> contains_pc m pc \<Longrightarrow> \<exists>j \<le> 96. 32 < j \<and> t (take j q) \<noteq> None"
proof -
  have pp: "take j q = process_prefix pid \<longleftrightarrow> j = 32" if "j \<le> 96" for j
    using that take_query_eq_stored_prefix [of j 0 pid pc pid 0]
    by (simp add: process_prefix_def q_def del: take_append)
  note res = register_process_result [OF assms(1,2)]
  show "i = 32 \<and> v = process_entry \<or> 32 < i \<and> v \<in> set ms \<and> contains_pc v pc"
    if "t (take i q) = Some v"
  proof -
    have "t0 (take i q) = None" using assms(3,4) by (simp add: no_entries_def q_def del: take_append)
    with res [of "take i q"] that pp [OF assms(4)] query_in_prefixes(1) [OF _ assms(4), of _ pid pc pid] assms(2)
    show ?thesis by (auto simp: q_def simp del: take_append)
  qed
  have "process_prefix pid \<notin> mapping_prefixes pid m" if "m \<in> set ms" for m
    using query_in_prefixes(1) [of m 32 pid pc pid] pp [of 32] that assms(2) by (auto simp: q_def simp del: take_append)
  then show "t (take 32 q) = Some process_entry" using res [of "take 32 q"] pp [of 32] by auto
  show "\<exists>j \<le> 96. 32 < j \<and> t (take j q) \<noteq> None" if "m \<in> set ms" "contains_pc m pc"
  proof -
    have "mapping_wf m" using \<open>m \<in> set ms\<close> assms(2) by simp
    from query_in_prefixes(2) [OF this order_refl \<open>contains_pc m pc\<close>, of pid]
    obtain j where j: "j \<le> 96" "32 < j" "take j q \<in> mapping_prefixes pid m"
      unfolding q_def by blast
    with res [of "take j q"] pp [OF j(1)] \<open>m \<in> set ms\<close> show ?thesis by (intro exI [of _ j]) auto
  qed
qed

lemma registered_lookup:
  assumes "register_process accepts pid ms t0 = (True, t)" "\<forall>m \<in> set ms. mapping_wf m"
    and "disjoint_mappings ms" "no_entries pid t0"
  shows "longest_match t 96 (msb_bits pid @ msb_bits pc) =
     Some (case find (\<lambda>m. contains_pc m pc) ms of Some m \<Rightarrow> m | None \<Rightarrow> process_entry)"
proof -
  let ?q = "msb_bits pid @ msb_bits pc"
  note entry = registered_entry [OF assms(1,2,4), where pc = pc]
  have "longest_match t 96 ?q \<noteq> None"
    using entry(2) [of 32] by (auto simp: longest_match_None_iff simp del: take_append intro!: exI [of _ 32])
  then obtain v where v: "longest_match t 96 ?q = Some v" by auto
  then obtain i where i: "i \<le> 96" "t (take i ?q) = Some v" "\<forall>j. i < j \<and> j \<le> 96 \<longrightarrow> t (take j ?q) = None"
    by (auto simp: longest_match_Some_iff simp del: take_append)
  have "v = (case find (\<lambda>m. contains_pc m pc) ms of Some m \<Rightarrow> m | None \<Rightarrow> process_entry)"
  proof (cases "find (\<lambda>m. contains_pc m pc) ms")
    case None
    then have "\<forall>m \<in> set ms. \<not> contains_pc m pc" by (auto simp: find_None_iff)
    with entry(1) [OF i(1,2)] None show ?thesis by auto
  next
    case (Some m)
    then have m: "m \<in> set ms" "contains_pc m pc" by (auto simp: find_Some_iff)
    from entry(3) [OF order_refl m]
    obtain j where "j \<le> 96" "32 < j" "t (take j ?q) \<noteq> None" by blast
    with i(3) have "32 < i" by (metis not_less order_le_less_trans)
    with entry(1) [OF i(1,2)] have "v \<in> set ms" "contains_pc v pc" by auto
    with m assms(3) Some show ?thesis unfolding disjoint_mappings_def by auto
  qed
  with v show ?thesis by simp
qed

section \<open>The interface: what the BPF programs rely on\<close>

text \<open>
  The readers of the mappings only need two laws of a registered process: the lookup gives the mapping
  that contains the program counter or else the process entry, and the process is known.
\<close>

locale mapping_registry =
  fixes lookup :: "'s \<Rightarrow> s32 \<Rightarrow> u64 \<Rightarrow> mapping_t option"
    and known :: "'s \<Rightarrow> s32 \<Rightarrow> bool"
    and registered :: "'s \<Rightarrow> s32 \<Rightarrow> mapping_t list \<Rightarrow> bool"
  assumes lookup_registered: "registered s pid ms \<Longrightarrow> lookup s pid pc =
      Some (case find (\<lambda>m. contains_pc m pc) ms of Some m \<Rightarrow> m | None \<Rightarrow> process_entry)"
    and known_registered: "registered s pid ms \<Longrightarrow> known s pid"
begin

lemma lookup_containing:
  assumes "registered s pid ms" "lookup s pid pc = Some m" "contains_pc m pc"
  shows "m \<in> set ms \<and> find (\<lambda>m. contains_pc m pc) ms = Some m"
proof (cases "find (\<lambda>m. contains_pc m pc) ms")
  case None
  with assms lookup_registered [OF assms(1), of pc] have "contains_pc process_entry pc" by simp
  then show ?thesis by (auto simp: contains_pc_def process_entry_def)
next
  case (Some m')
  with assms(2) lookup_registered [OF assms(1), of pc] have "m' = m" by simp
  with Some show ?thesis by (auto simp: find_Some_iff)
qed

lemma lookup_outside:
  assumes "registered s pid ms" "find (\<lambda>m. contains_pc m pc) ms = None"
  shows "\<exists>m. lookup s pid pc = Some m \<and> \<not> contains_pc m pc"
  using lookup_registered [OF assms(1), of pc] assms(2)
  by (auto simp: contains_pc_def process_entry_def)

lemma lookup_inside:
  assumes "registered s pid ms" "find (\<lambda>m. contains_pc m pc) ms = Some m"
  shows "lookup s pid pc = Some m \<and> contains_pc m pc"
  using lookup_registered [OF assms(1), of pc] assms(2) by (auto simp: find_Some_iff)

end

definition registered_in :: "mappings_lookup \<Rightarrow> s32 \<Rightarrow> mapping_t list \<Rightarrow> bool" where
  "registered_in lookup pid ms \<longleftrightarrow> (\<exists>accepts t0 t. register_process accepts pid ms t0 = (True, t) \<and>
     list_all mapping_wf ms \<and> disjoint_mappings ms \<and> no_entries pid t0 \<and> lpm_contract t lookup)"

lemma registered_in_lookup:
  assumes "registered_in lookup pid ms"
  shows "find_mapping lookup pid pc =
     Some (case find (\<lambda>m. contains_pc m pc) ms of Some m \<Rightarrow> m | None \<Rightarrow> process_entry)"
  using assms registered_lookup find_mapping_trie by (fastforce simp: registered_in_def list_all_iff)

interpretation registry: mapping_registry find_mapping process_is_known registered_in
proof (unfold_locales, goal_cases)
  case (1 lookup pid ms pc)
  then show ?case by (rule registered_in_lookup)
next
  case (2 lookup pid ms)
  then show ?case
    using registered_in_lookup [OF 2, of 0] by (simp add: process_is_known_def find_mapping_def)
qed

section \<open>Properties of registration\<close>

text \<open>
  C10. Registration and lookup fit together: after user space has registered a process with mappings
  that do not overlap, the lookup of the BPF programs finds for every program counter exactly the
  mapping that contains it, and for a program counter in no mapping the process entry (whose empty
  range contains nothing). The address blocks of summarize\_address\_range, the byte order of the keys
  on both sides and longest-prefix matching are all taken into account.
\<close>

theorem registered_mappings_are_found:
  assumes "register_process accepts pid ms t0 = (True, t)" "list_all mapping_wf ms"
    and "disjoint_mappings ms" "no_entries pid t0" "lpm_contract t exec_mappings"
  shows "find_mapping exec_mappings pid pc =
     Some (case find (\<lambda>m. contains_pc m pc) ms of Some m \<Rightarrow> m | None \<Rightarrow> process_entry)"
  using assms by (intro registry.lookup_registered) (auto simp: registered_in_def)

definition text_mapping :: mapping_t where
  "text_mapping = \<lparr>m_executable_id = 7, m_load_address = 0x400000, m_begin = 0x401000, m_end = 0x404000, m_type = 0\<rparr>"

definition libc_mapping :: mapping_t where
  "libc_mapping = \<lparr>m_executable_id = 8, m_load_address = 0x7f0000000000, m_begin = 0x7f0000028000, m_end = 0x7f00001bd000, m_type = 0\<rparr>"

lemma add_bpf_mapping_accepted:
  "n \<le> 64 \<Longrightarrow> fst (add_bpf_mapping (\<lambda>t p. True) (key_new pid addr (32 + of_nat n)) m t) = True"
  using key_new_prefix [of n pid addr] by (auto simp: add_bpf_mapping_def)

lemma add_blocks_accepted:
  "\<forall>b \<in> set bs. blk_prefix_len b \<le> 64 \<Longrightarrow> \<exists>t'. add_blocks (\<lambda>t p. True) pid m bs t = (True, t')"
proof (induction bs arbitrary: t)
  case (Cons b bs)
  then obtain t1 where "add_bpf_mapping (\<lambda>t p. True) (block_key pid b) m t = (True, t1)"
    using add_bpf_mapping_accepted [of "blk_prefix_len b" pid "blk_addr b" m t]
    by (cases "add_bpf_mapping (\<lambda>t p. True) (block_key pid b) m t") (auto simp: block_key_def)
  with Cons show ?case by simp
qed simp

lemma register_accepted:
  "\<forall>m \<in> set ms. mapping_wf m \<Longrightarrow> \<exists>t'. register_process (\<lambda>t p. True) pid ms t = (True, t')"
proof -
  have "\<exists>t'. add_bpf_mappings (\<lambda>t p. True) pid ms t = (True, t')" if "\<forall>m \<in> set ms. mapping_wf m" for ms t
    using that
  proof (induction ms arbitrary: t)
    case (Cons m ms)
    obtain t1 where "add_blocks (\<lambda>t p. True) pid m (mapping_blocks m) t = (True, t1)"
      using add_blocks_accepted [of "mapping_blocks m" pid m t] blocks_of_mapping(2) [of m] Cons.prems by auto
    with Cons show ?case by simp
  qed simp
  moreover assume "\<forall>m \<in> set ms. mapping_wf m"
  ultimately obtain t1 where "add_bpf_mappings (\<lambda>t p. True) pid ms t = (True, t1)" by blast
  moreover have "\<exists>t2. add_bpf_process (\<lambda>t p. True) pid t1 = (True, t2)"
    using add_bpf_mapping_accepted [of 0 pid 0 process_entry t1]
    by (cases "add_bpf_process (\<lambda>t p. True) pid t1") (simp add: add_bpf_process_def)
  ultimately show ?thesis by (auto simp: register_process_def)
qed

theorem registered_mappings_are_found_witness:
  "\<exists>t. register_process (\<lambda>t p. True) 42 [text_mapping, libc_mapping] Map.empty = (True, t) \<and>
     find_mapping (trie_lookup t) 42 0x402020 = Some text_mapping \<and>
     find_mapping (trie_lookup t) 42 0x7f0000028010 = Some libc_mapping \<and>
     find_mapping (trie_lookup t) 42 0x10 = Some process_entry"
proof -
  let ?ms = "[text_mapping, libc_mapping]"
  have wf: "list_all mapping_wf ?ms" "\<forall>m \<in> set ?ms. mapping_wf m"
    by (simp_all add: mapping_wf_def text_mapping_def libc_mapping_def)
  then obtain t where t: "register_process (\<lambda>t p. True) 42 ?ms Map.empty = (True, t)"
    using register_accepted by blast
  have "disjoint_mappings ?ms"
    by (auto simp: disjoint_mappings_def contains_pc_def text_mapping_def libc_mapping_def
        word_le_nat_alt word_less_nat_alt)
  moreover have "no_entries 42 Map.empty" by (simp add: no_entries_def)
  ultimately have "find_mapping (trie_lookup t) 42 pc =
      Some (case find (\<lambda>m. contains_pc m pc) ?ms of Some m \<Rightarrow> m | None \<Rightarrow> process_entry)" for pc
    using registered_mappings_are_found [OF t wf(1) _ _ trie_lookup_contract] by blast
  with t show ?thesis by (auto simp: contains_pc_def text_mapping_def libc_mapping_def)
qed

text \<open>
  Registering and unregistering round-trips, on the error path too: whatever updates the kernel
  refused, deleting the process entry and the blocks of the mappings restores the trie.
\<close>

lemma unregister_undoes_register:
  assumes "list_all mapping_wf ms" "no_entries pid t0"
  shows "unregister_process pid ms (snd (register_process accepts pid ms t0)) = t0"
proof
  fix p
  have wf: "\<forall>m \<in> set ms. mapping_wf m" using assms(1) by (simp add: list_all_iff)
  show "unregister_process pid ms (snd (register_process accepts pid ms t0)) p = t0 p"
  proof (cases "p \<in> process_prefixes pid ms")
    case True
    then obtain addr n where n: "n \<le> 64" "p = stored_prefix pid addr n" using wf by (rule process_prefixesE)
    then have "p = take (32 + n) (msb_bits pid @ msb_bits addr)" by (simp add: stored_prefix_def)
    then have "t0 p = None" using assms(2) n(1) by (simp add: no_entries_def del: take_append)
    with True show ?thesis by (simp add: unregister_process_result [OF wf])
  next
    case False
    then show ?thesis by (simp add: unregister_process_result [OF wf] register_process_frame [OF wf])
  qed
qed

text \<open>
  Registering a process never changes what the lookup finds for another process, whether the
  kernel accepts the updates or not.
\<close>

lemma registration_is_per_process:
  assumes "list_all mapping_wf ms" "pid' \<noteq> pid"
    and "lpm_contract t0 lookup0" "lpm_contract (snd (register_process accepts pid ms t0)) lookup1"
  shows "find_mapping lookup1 pid' pc = find_mapping lookup0 pid' pc"
proof -
  let ?q = "msb_bits pid' @ msb_bits pc"
  let ?t = "snd (register_process accepts pid ms t0)"
  have wf: "\<forall>m \<in> set ms. mapping_wf m" using assms(1) by (simp add: list_all_iff)
  have "take i ?q \<notin> process_prefixes pid ms" if i: "i \<le> 96" for i
  proof
    assume "take i ?q \<in> process_prefixes pid ms"
    then obtain addr n where "n \<le> 64" "take i ?q = stored_prefix pid addr n"
      using wf by (rule process_prefixesE)
    with take_query_eq_stored_prefix [OF i, of n pid' pc pid addr] assms(2) show False by simp
  qed
  then have "?t (take i ?q) = t0 (take i ?q)" if "i \<le> 96" for i
    using that register_process_frame [OF wf] by blast
  then have "longest_match ?t 96 ?q = longest_match t0 96 ?q" by (rule longest_match_cong)
  then show ?thesis by (simp add: find_mapping_trie [OF assms(3)] find_mapping_trie [OF assms(4)])
qed

lemma registration_is_per_process_example:
  "find_mapping (trie_lookup (snd (register_process (\<lambda>t p. True) 42 [text_mapping] Map.empty))) 43 0x402020 = None"
proof -
  have "list_all mapping_wf [text_mapping]" by (simp add: mapping_wf_def text_mapping_def)
  moreover have "find_mapping (trie_lookup Map.empty) 43 0x402020 = None"
    by (simp add: find_mapping_trie [OF trie_lookup_contract] longest_match_None_iff)
  ultimately show ?thesis
    using registration_is_per_process [OF _ _ trie_lookup_contract trie_lookup_contract,
        where ms = "[text_mapping]" and pid' = 43 and pid = 42 and accepts = "\<lambda>t p. True"
          and pc = "0x402020"] by simp
qed

end
