(* ===== verification/Frame_Properties.thy ===== *)
theory Frame_Properties
  imports Walk_Refinement Example_System
begin

text \<open>
  Properties of single frames and of the state they work on: what each kind of unwind row does, the
  refinement of the abstract walk, and the invariant of the per-CPU buffer.
\<close>

section \<open>One frame against the abstract walk\<close>

text \<open>
  C4. Refinement of one frame: the body of the unwinding loop, with its stages, early returns,
  counters and events, does exactly what the abstract walk says of the registers. It gives up where
  the walk is stuck, stops at the bottom with nothing changed, and otherwise continues with exactly
  the caller's registers, having appended the program counter to the buffer if there was room.
\<close>

theorem unwind_frame_refines_walk:
  assumes "unwind_frame k pid us s = (oc, us', s')" "stack_wf us"
  shows "(case frame_kind k s pid (regs_of us) of
       Stuck \<Rightarrow> oc = Frame_return
     | Bottom \<Rightarrow> oc = Frame_break \<and> us' = us
     | Caller r' \<Rightarrow> oc = Frame_continue \<and> regs_of us' = r' \<and>
         user_stack us' = take 127 (user_stack us @ [us_ip us])) \<and> same_maps s s'"
  using unwind_frame_kind [OF assms(1)] unwind_frame_same_maps [OF assms(1)]
    user_stack_push [OF assms(2)]
  by (auto simp: user_stack_same_sample split: frame_kind.splits)

definition example_us :: unwind_state_t where
  "example_us = fresh_unwind_state\<lparr>us_ip := 0x403030, us_sp := 0x7020\<rparr>"

lemma example_us_wf: "stack_wf example_us"
  by (simp add: example_us_def stack_wf_def fresh_unwind_state_def)

lemma example_bottom: "frame_kind example_kernel example_state 42 (regs_of example_us) = Bottom"
proof -
  have "find_offset_for_pc (array_lookup example_table) 0x3030 0 3 = 2"
    by (simp add: find_offset_for_pc_def find_offset_loop_numeral array_lookup_def example_table_def)
  moreover have "executable_to_page example_state =
      [\<lparr>pk_executable_id = 7, pk_file_offset = 0\<rparr> \<mapsto> \<lparr>pv_low_index = 0, pv_high_index = 3\<rparr>]"
    "outer_map example_state = [7 \<mapsto> array_lookup example_table]"
    by (simp_all add: example_state_def)
  ultimately show ?thesis
    by (simp add: frame_kind_def example_us_def row_at_def mapping_at_def example_mapping_def row_in_def
        HIGH_PC_def LOW_PC_def HIGH_PC_MASK_def LOW_PC_MASK_def frame_table_idx_def array_lookup_def,
        simp add: example_table_def is_bottom_def)
qed

theorem unwind_frame_refines_walk_witness:
  "fst (unwind_frame example_kernel 42 example_us example_state) = Frame_break \<and>
   fst (snd (unwind_frame example_kernel 42 example_us example_state)) = example_us"
  using unwind_frame_refines_walk [OF _ example_us_wf, of example_kernel 42 example_state] example_bottom
  by (cases "unwind_frame example_kernel 42 example_us example_state") simp

section \<open>The buffer\<close>

text \<open>
  C14. The event handler keeps the per-CPU unwind state well-formed: whatever the tables, the user
  memory and the tail-call limit, the address buffer keeps its declared 254 entries and both stack
  lengths stay at most 127, so that no index into the buffer and no sample size is ever out of
  bounds.
\<close>

theorem on_event_preserves_heap_wf:
  assumes "get_stack_contract k" "heap_wf s"
  shows "heap_wf (snd (on_event budget k regs s))"
  using stack_buffer.on_event_I [OF assms(1)] assms(2) by (simp add: heap_wf_eq)

theorem on_event_preserves_heap_wf_witness:
  "heap_wf (snd (on_event 33 example_kernel example_regs example_state))"
  by (rule on_event_preserves_heap_wf)
    (simp_all add: get_stack_contract_def example_kernel_def heap_wf_def example_state_def stack_wf_def
      fresh_unwind_state_def)

text \<open>
  A finished stack is always attempted: the size check before the output never drops a sample.
  What is sent is the header and the two stacks with nothing in between or after, at most the
  2056 bytes of a sample\_t, on the channel the configuration selects.
\<close>

lemma add_stack_always_sends:
  assumes "stack_wf us" "get_stack_contract k"
  shows "\<exists>bs. outputs (snd (add_stack k us s)) = outputs s @
       [(stack_channel k, P_sample bs, out_ret k (length (outputs s)))] \<and>
     length bs = 24 + 8 * (unat (ulen (sample_stack (us_sample (fst (add_stack k us s))))) +
                           unat (klen (sample_stack (us_sample (fst (add_stack k us s)))))) \<and>
     length bs \<le> csize sample_t_layout"
proof -
  let ?us = "fst (add_stack k us s)"
  have wf: "stack_wf ?us" using assms by (rule add_stack_wf)
  then have b: "unat (ulen (sample_stack (us_sample ?us))) \<le> 127"
    "unat (klen (sample_stack (us_sample ?us))) \<le> 127"
    "length (addresses (sample_stack (us_sample ?us))) = 254"
    by (simp_all add: stack_wf_def word_le_nat_alt)
  then have "length (sample_bytes (us_sample ?us)) = 2056" by (simp add: sample_bytes_split)
  with b have "length (take (unat (sample_size_of (us_sample ?us))) (sample_bytes (us_sample ?us))) =
      24 + 8 * (unat (ulen (sample_stack (us_sample ?us))) + unat (klen (sample_stack (us_sample ?us))))"
    unfolding sample_size_value [OF wf] by (simp add: min_def)
  with b show ?thesis unfolding add_stack_sends [OF assms] by auto
qed

lemma add_stack_always_sends_example:
  "\<exists>bs. outputs (snd (add_stack example_kernel fresh_unwind_state example_state)) =
       [(stack_channel example_kernel, P_sample bs, 0)]"
proof -
  have "stack_wf fresh_unwind_state" by (simp add: stack_wf_def fresh_unwind_state_def)
  moreover have "get_stack_contract example_kernel"
    by (simp add: get_stack_contract_def example_kernel_def)
  moreover have "outputs example_state = []" "out_ret example_kernel 0 = 0"
    by (simp_all add: example_state_def example_kernel_def)
  ultimately show ?thesis
    using add_stack_always_sends [of fresh_unwind_state example_kernel example_state] by auto
qed

section \<open>Rows\<close>

text \<open>
  Rows of procedure linkage tables. The threshold is written with the operands of the
  conditional operator out of order, so a row of the second kind always stops the walk with
  error\_should\_never\_happen, and for the first kind the extra word is added as soon as the program
  counter is not 16-byte aligned (threshold 1) instead of from offset 11 on.
\<close>

lemma plt_rows:
  "frame_rsp k (row\<lparr>cfa_type := CFA_TYPE_PLT2\<rparr>) us s =
     Inl (bump bump_unwind_error_should_never_happen s) \<and>
   frame_rsp k (row\<lparr>cfa_type := CFA_TYPE_PLT1\<rparr>) us s =
     (let cfa = (if us_ip us AND 15 = 0 then us_sp us + 8 else us_sp us + 8 + 8)
      in if cfa = 0 then Inl (bump bump_unwind_error_previous_rsp_zero s) else Inr (cfa, s))"
proof -
  have "(us_ip us AND 15 \<ge> 1) = (us_ip us AND 15 \<noteq> 0)"
    by (simp add: word_le_nat_alt Suc_le_eq unat_gt_0)
  then show ?thesis by (auto simp: frame_rsp_def plt_threshold_def Let_def)
qed

text \<open>
  A row that finds the canonical frame address in memory does not stop when the read fails:
  error\_previous\_rsp\_read is counted and the walk goes on with the row's addend, a number below 256,
  as the stack pointer of the caller.
\<close>

lemma failed_cfa_read_continues:
  assumes "cfa_type row = CFA_TYPE_DEREF_AND_ADD"
    and "probe_read_user k (us_sp us + ucast (ucast (signed_drop_bit 8 (cfa_offset row)) :: u8)) 0 = (e, 0)"
    and "e < 0" "(ucast (cfa_offset row) :: u8) \<noteq> 0"
  shows "frame_rsp k row us s =
       Inr (ucast (ucast (cfa_offset row) :: u8), bump bump_unwind_error_previous_rsp_read s) \<and>
     unat (ucast (ucast (cfa_offset row) :: u8) :: u64) < 256"
proof -
  have u: "unat (ucast (x :: u8) :: u64) = unat x" for x
    by (simp add: unsigned_ucast_eq take_bit_nat_eq_self_iff order_less_trans [OF unsigned_less])
  have "unat (x :: u8) < 256" for x using unsigned_less [of x] by simp
  moreover have "(ucast (x :: u8) :: u64) = 0 \<longleftrightarrow> x = 0" for x
    using u [of x] by (metis unat_eq_zero)
  ultimately show ?thesis using assms by (simp add: frame_rsp_def Let_def u)
qed

lemma failed_cfa_read_continues_example:
  "frame_rsp example_kernel \<lparr>pc_low = 0, cfa_type = CFA_TYPE_DEREF_AND_ADD, rbp_type = 0,
       cfa_offset = 0x1008, rbp_offset = 0\<rparr> example_us example_state =
     Inr (8, bump bump_unwind_error_previous_rsp_read example_state)"
  using failed_cfa_read_continues [of "\<lparr>pc_low = 0, cfa_type = CFA_TYPE_DEREF_AND_ADD, rbp_type = 0,
       cfa_offset = 0x1008, rbp_offset = 0\<rparr>" example_kernel example_us "-14" example_state]
  by (simp add: example_kernel_def example_user_memory_def example_us_def)

lemma scast_large_16:
  assumes "0x8000 \<le> (x :: u16)"
  shows "scast x = (ucast x - 65536 :: u64)"
proof -
  have u: "32768 \<le> uint x" "uint x < 65536"
    using assms uint_lt2p [of x] by (simp_all add: word_le_def)
  then have "uint x div 32768 = 1"
    using int_div_pos_eq [of "uint x" 32768 1 "uint x - 32768"] by simp
  then have "bit (uint x) 15" by (simp add: bit_iff_odd)
  moreover have "take_bit 16 (uint x) = uint x" using u by (simp add: take_bit_int_eq_self_iff)
  ultimately have sx: "sint x = uint x - 65536"
    by (simp add: sint_uint signed_take_bit_eq_take_bit_minus)
  have "(scast x :: u64) = word_of_int (uint x - 65536)" unfolding sx [symmetric] by (rule scast_eq)
  also have "\<dots> = word_of_int (uint x) - 65536" by (simp only: of_int_diff of_int_numeral)
  also have "\<dots> = ucast x - 65536" by (simp only: ucast_eq)
  finally show ?thesis .
qed

text \<open>
  Offsets of the canonical frame address from 32768 on are taken as negative: the row stores
  them unsigned in 16 bits, the walker reads them into a signed variable, and the caller's stack
  pointer comes out 65536 bytes too low.
\<close>

lemma large_cfa_offset_goes_down:
  assumes "cfa_type row = CFA_TYPE_RSP" "0x8000 \<le> cfa_offset row"
    and "frame_rsp k row us s = Inr (cfa, s')"
  shows "cfa = us_sp us + ucast (cfa_offset row) - 65536"
  using assms scast_large_16 [OF assms(2)]
  by (simp add: frame_rsp_def Let_def add_diff_eq split: if_splits)

lemma large_cfa_offset_goes_down_example:
  "\<exists>cfa. frame_rsp example_kernel \<lparr>pc_low = 0, cfa_type = CFA_TYPE_RSP, rbp_type = 0,
       cfa_offset = 0x9000, rbp_offset = 0\<rparr> (example_us\<lparr>us_sp := 0x20000\<rparr>) example_state =
     Inr (cfa, example_state) \<and> cfa = 0x19000"
proof -
  let ?row = "\<lparr>pc_low = 0, cfa_type = CFA_TYPE_RSP, rbp_type = 0, cfa_offset = 0x9000, rbp_offset = 0\<rparr>"
  let ?us = "example_us\<lparr>us_sp := 0x20000\<rparr>"
  have "frame_rsp example_kernel ?row ?us example_state = Inr (0x19000, example_state)"
    by (simp add: frame_rsp_def)
  with large_cfa_offset_goes_down [OF _ _ this] show ?thesis by simp
qed

lemma push_address_lr: "push_address (us\<lparr>us_lr := x\<rparr>) = (push_address us)\<lparr>us_lr := x\<rparr>"
  by (simp add: push_address_def Let_def)

lemma frame_caller_lr:
  assumes "ulen (sample_stack (us_sample us)) \<noteq> 0"
  shows "frame_caller k row (us\<lparr>us_lr := x\<rparr>) s =
      (case frame_caller k row us s of (oc, us', s') \<Rightarrow> (oc, us'\<lparr>us_lr := x\<rparr>, s'))"
proof -
  have "frame_rsp k row (us\<lparr>us_lr := x\<rparr>) s = frame_rsp k row us s"
    by (simp add: frame_rsp_def Let_def)
  moreover have "frame_rbp k row (us\<lparr>us_lr := x\<rparr>) rsp t = frame_rbp k row us rsp t" for rsp t
    by (simp add: frame_rbp_def)
  moreover have "frame_rip k row (us\<lparr>us_lr := x\<rparr>) rsp t = frame_rip k row us rsp t" for rsp t
    using assms by (cases "k_arch k") (simp_all add: frame_rip_def)
  ultimately show ?thesis by (simp add: frame_caller_def split: sum.split prod.split)
qed

lemma unwind_frame_lr:
  "unwind_frame k pid (us\<lparr>us_lr := x\<rparr>) s =
      (case unwind_frame k pid us s of (oc, us', s') \<Rightarrow> (oc, us'\<lparr>us_lr := x\<rparr>, s'))"
  by (simp add: unwind_frame_def frame_apply_row_def Let_def push_address_lr
      frame_caller_lr [OF push_address_nonzero] split: sum.split prod.split)

text \<open>
  The link register is never used: the special case for the leaf frame on arm64 tests the stack
  length after the frame itself has been appended, so it is dead code, and the outcome of the loop
  does not depend on the value of lr.
\<close>

lemma link_register_unused:
  "unwind_frames n k pid (us\<lparr>us_lr := x\<rparr>) s =
     (case unwind_frames n k pid us s of (oc, us', s') \<Rightarrow> (oc, us'\<lparr>us_lr := x\<rparr>, s'))"
proof (induction n arbitrary: us s)
  case 0
  then show ?case by simp
next
  case (Suc n)
  have frame: "unwind_frame k pid (us\<lparr>us_lr := x\<rparr>) s =
      (case unwind_frame k pid us s of (oc, us', s') \<Rightarrow> (oc, us'\<lparr>us_lr := x\<rparr>, s'))"
    by (rule unwind_frame_lr)
  obtain oc us' s' where f: "unwind_frame k pid us s = (oc, us', s')" by (cases "unwind_frame k pid us s")
  show ?case
    using frame f Suc.IH [of us' s'] by (cases oc) (simp_all add: unwind_frames.simps(2))
qed

section \<open>The previous page\<close>

lemma HIGH_PC_value:
  assumes "unat pc < 2 ^ 48"
  shows "unat (HIGH_PC pc) = 65536 * (unat pc div 65536)"
proof -
  have mask: "HIGH_PC_MASK = push_bit 16 (mask 32)"
    by (simp add: HIGH_PC_MASK_def mask_eq_exp_minus_1)
  have "HIGH_PC pc = push_bit 16 (take_bit 32 (drop_bit 16 pc))"
    unfolding HIGH_PC_def mask by (auto intro!: bit_word_eqI simp: bit_simps)
  moreover have d: "unat (drop_bit 16 pc) = unat pc div 65536"
    by (simp add: drop_bit_eq_div unat_div)
  moreover have "unat pc div 65536 < 2 ^ 32" using assms by (simp add: div_less_iff_less_mult)
  ultimately show ?thesis
    by (simp add: push_bit_eq_mult unat_word_ariths take_bit_eq_mod unsigned_take_bit_eq)
qed

lemma previous_page_test:
  assumes "unat pc < 2 ^ 48"
  shows "(pc > PREVIOUS_PAGE (HIGH_PC pc) + ucast (low :: u16)) = (HIGH_PC pc \<noteq> 0)"
proof -
  let ?h = "HIGH_PC pc"
  have size: "UNWIND_INFO_PAGE_SIZE = 65536"
    by (simp add: UNWIND_INFO_PAGE_SIZE_def UNWIND_INFO_PAGE_BIT_LEN_def)
  have low: "unat low < 65536" using unsigned_less [of low] by simp
  show ?thesis
  proof (cases "?h = 0")
    case True
    have "unat (PREVIOUS_PAGE 0 + ucast low) = 2 ^ 64 - 65536 + unat low"
      using low by (simp add: PREVIOUS_PAGE_def size unat_sub_if_size word_size)
    then show ?thesis using True assms by (simp add: word_less_nat_alt)
  next
    case False
    have h: "unat ?h = 65536 * (unat pc div 65536)" using assms by (rule HIGH_PC_value)
    then have "unat pc div 65536 \<noteq> 0" using False by (metis mult_0_right unat_eq_zero)
    then have ge: "65536 \<le> unat ?h" using h by simp
    then have "unat (?h - 65536) = unat ?h - 65536"
      by (simp add: unat_sub_if_size word_size)
    moreover have "unat ?h \<le> unat pc" using h by simp
    ultimately have "unat (PREVIOUS_PAGE ?h + ucast low) = unat ?h - 65536 + unat low"
      using low ge assms by (simp add: PREVIOUS_PAGE_def size unat_word_ariths)
    then show ?thesis using False low ge \<open>unat ?h \<le> unat pc\<close> by (simp add: word_less_nat_alt)
  qed
qed

text \<open>
  The fallback to the row before the page: the test that compares program counters decides only
  whether the page is the first one of the object.
\<close>

lemma previous_page_fallback:
  assumes "find_offset_for_pc inner low low_index high_index = BINARY_SEARCH_DEFAULT"
    and "inner (ucast (low_index - 1)) = Some previous_row" "unat pc < 2 ^ 48"
  shows "frame_table_idx inner pc (HIGH_PC pc) low low_index high_index =
     (if HIGH_PC pc = 0 then Inl BINARY_SEARCH_DEFAULT else Inr (low_index - 1))"
  using assms previous_page_test [OF assms(3), of "pc_low previous_row"]
  by (simp add: frame_table_idx_def Let_def)

lemma previous_page_fallback_example:
  "frame_table_idx (array_lookup example_table) 0x50010 (HIGH_PC 0x50010) 0x10 2 3 = Inr 1"
proof -
  have "find_offset_for_pc (array_lookup example_table) 0x10 2 3 = BINARY_SEARCH_DEFAULT"
    by (simp add: find_offset_for_pc_def find_offset_loop_numeral array_lookup_def example_table_def)
  moreover have "array_lookup example_table (ucast (2 - 1 :: u64)) = Some (example_table ! 1)"
    by (simp add: array_lookup_def example_table_def)
  ultimately show ?thesis
    using previous_page_fallback [where inner = "array_lookup example_table" and low = "0x10" and
        low_index = 2 and high_index = 3 and pc = "0x50010"]
    by (simp add: HIGH_PC_def HIGH_PC_MASK_def)
qed

section \<open>Initial registers\<close>

text \<open>
  When the sample interrupts the kernel and the user registers cannot be retrieved, the handler
  ignores the failure: it unwinds from the registers that the previous sample on the same CPU left
  behind, whatever process that was.
\<close>

lemma failed_initialisation_uses_stale_registers:
  assumes "unwinds k s" "heap s = Some us" "programs s PROGRAM_NATIVE_UNWINDER"
    and "in_kernel (PT_REGS_IP regs)"
    and "retrieve_task_registers k
           \<lparr>tr_ip = us_ip us, tr_sp = us_sp us, tr_bp = us_bp us, tr_lr = us_lr us\<rparr> = None"
  shows "fst (set_initial_state k regs us) = False \<and> start_regs k regs us = regs_of us \<and>
     on_event (Suc b) k regs s = dwarf_unwind b k (started k regs us s)"
  using assms
  by (simp add: on_event_unwinds start_regs_def set_initial_state_def reset_state_def regs_of_def Let_def)

definition unreadable_stack_kernel :: kernel where
  "unreadable_stack_kernel = example_kernel\<lparr>probe_read_kernel := (\<lambda>a n.
     if a = 0x10000 + 32 then (-14, 0) else example_kernel_memory a n)\<rparr>"

lemma failed_initialisation_uses_stale_registers_example:
  "start_regs unreadable_stack_kernel (example_regs\<lparr>PT_REGS_IP := 0xffffffff81000000\<rparr>) fresh_unwind_state =
     regs_of fresh_unwind_state"
proof -
  let ?k = unreadable_stack_kernel
  have "retrieve_task_registers ?k old = None" for old
    by (simp add: retrieve_task_registers_def pt_regs_ptr_def unreadable_stack_kernel_def
        example_kernel_def lightswitch_config_def header_relocs_def)
  moreover have "unwinds ?k example_state"
    by (simp add: unwinds_def per_process_id_def pid_nr_def task_level_def is_kthread_def
        unreadable_stack_kernel_def core_read_ptr_def core_read_u32_def example_kernel_def
        example_kernel_memory_def header_relocs_def)
  moreover have "heap example_state = Some fresh_unwind_state" "programs example_state 0"
    by (simp_all add: example_state_def)
  ultimately show ?thesis
    using failed_initialisation_uses_stale_registers [of ?k example_state fresh_unwind_state
        "example_regs\<lparr>PT_REGS_IP := 0xffffffff81000000\<rparr>" 32]
    by (simp add: in_kernel_def)
qed

end
