(* ===== verification/Pages.thy ===== *)
theory Pages
  imports Frame_Properties
begin

text \<open>
  How user space fills the unwind tables: \<open>to_pages\<close> of src/src/unwind\_info/pages.rs, the
  conversion of rows of src/src/bpf/profiler\_bindings.rs, and \<open>add_bpf_unwind_info\<close> and
  \<open>add_bpf_pages\<close> of src/src/profiler.rs. The lemmas follow the page a row is put in; the property
  composes the writer with the lookups of the BPF program: on the pages that hold rows, page lookup,
  binary search and the fallback to the previous page together find the row of the whole table that
  covers the program counter. The pages inserted for gaps do not have this property.
\<close>

section \<open>Rows\<close>

datatype CfaType =
    Cfa_Unknown | Cfa_FramePointerOffset | Cfa_StackPointerOffset | Cfa_UnsupportedExpression
  | Cfa_Plt1 | Cfa_Plt2 | Cfa_DerefAndAdd | Cfa_EndFdeMarker | Cfa_UnsupportedRegisterOffset
  | Cfa_OffsetDidNotFit

datatype RbpType =
    Rbp_Unchanged | Rbp_CfaOffset | Rbp_Register | Rbp_Expression | Rbp_UndefinedReturnAddress
  | Rbp_OffsetDidNotFit

primrec cfa_code :: "CfaType \<Rightarrow> u8" where
  "cfa_code Cfa_Unknown = 0"
| "cfa_code Cfa_FramePointerOffset = 1"
| "cfa_code Cfa_StackPointerOffset = 2"
| "cfa_code Cfa_UnsupportedExpression = 3"
| "cfa_code Cfa_Plt1 = 4"
| "cfa_code Cfa_Plt2 = 5"
| "cfa_code Cfa_DerefAndAdd = 6"
| "cfa_code Cfa_EndFdeMarker = 7"
| "cfa_code Cfa_UnsupportedRegisterOffset = 8"
| "cfa_code Cfa_OffsetDidNotFit = 9"

primrec rbp_code :: "RbpType \<Rightarrow> u8" where
  "rbp_code Rbp_Unchanged = 0"
| "rbp_code Rbp_CfaOffset = 1"
| "rbp_code Rbp_Register = 2"
| "rbp_code Rbp_Expression = 3"
| "rbp_code Rbp_UndefinedReturnAddress = 4"
| "rbp_code Rbp_OffsetDidNotFit = 5"

record CompactUnwindRow =
  cu_pc :: u64
  cu_cfa_type :: CfaType
  cu_rbp_type :: RbpType
  cu_cfa_offset :: u16
  cu_rbp_offset :: s16

definition row_from :: "CompactUnwindRow \<Rightarrow> stack_unwind_row_t" where
  "row_from row =
     \<lparr>pc_low = ucast (cu_pc row AND LOW_PC_MASK), cfa_type = cfa_code (cu_cfa_type row),
      rbp_type = rbp_code (cu_rbp_type row), cfa_offset = cu_cfa_offset row, rbp_offset = cu_rbp_offset row\<rparr>"

text \<open>The contents of the inner map: the rows in their order (\<open>add_bpf_unwind_info\<close>).\<close>

definition add_bpf_unwind_info :: "CompactUnwindRow list \<Rightarrow> inner_map" where
  "add_bpf_unwind_info unwind_info = array_lookup (map row_from unwind_info)"

section \<open>to\_pages\<close>

record Page =
  page_address :: u64
  page_low_index :: u32
  page_high_index :: u32

definition page_size :: u64 where "page_size = 2 ^ 16"

definition low_bits_mask :: u64 where "low_bits_mask = page_size - 1"

definition high_bits_mask :: u64 where "high_bits_mask = - 1 XOR low_bits_mask"

text \<open>Indices are converted with \<open>try_into().unwrap()\<close>: an index of more than 32 bits panics.\<close>

definition push_pages :: "u64 list \<Rightarrow> nat \<Rightarrow> nat \<Rightarrow> Page list \<Rightarrow> Page list option" where
  "push_pages addrs lo hi pages =
     (if lo < 2 ^ 32 \<and> hi < 2 ^ 32
      then Some (pages @ map (\<lambda>a. \<lparr>page_address = a, page_low_index = of_nat lo,
                                   page_high_index = of_nat hi\<rparr>) addrs)
      else None)"

definition step_by_page :: "u64 \<Rightarrow> u64 \<Rightarrow> u64 list" where
  "step_by_page low high =
     map (\<lambda>k. low + of_nat k * page_size) [0..<(unat high - unat low + 65535) div 65536]"

fun to_pages_loop ::
    "nat \<Rightarrow> CompactUnwindRow list \<Rightarrow> u64 option \<Rightarrow> nat \<Rightarrow> Page list \<Rightarrow>
     (u64 option \<times> nat \<times> Page list) option" where
  "to_pages_loop i [] prev_high_pc prev_index pages = Some (prev_high_pc, prev_index, pages)"
| "to_pages_loop i (row # rows) prev_high_pc prev_index pages =
     (let high_pc = cu_pc row AND high_bits_mask in
      case prev_high_pc of
        None \<Rightarrow> to_pages_loop (Suc i) rows (Some high_pc) prev_index pages
      | Some prev_pc_high \<Rightarrow>
          if prev_pc_high + page_size < high_pc
          then (case push_pages (step_by_page prev_pc_high high_pc) prev_index i pages of
                  None \<Rightarrow> None
                | Some pages' \<Rightarrow> to_pages_loop (Suc i) rows (Some high_pc) i pages')
          else if prev_pc_high \<noteq> high_pc
          then (case push_pages [prev_pc_high] prev_index i pages of
                  None \<Rightarrow> None
                | Some pages' \<Rightarrow> to_pages_loop (Suc i) rows (Some high_pc) i pages')
          else to_pages_loop (Suc i) rows prev_high_pc prev_index pages)"

definition to_pages :: "CompactUnwindRow list \<Rightarrow> Page list option" where
  "to_pages unwind_info =
     (case to_pages_loop 0 unwind_info None 0 [] of
        None \<Rightarrow> None
      | Some (None, prev_index, pages) \<Rightarrow> Some pages
      | Some (Some high, prev_index, pages) \<Rightarrow> push_pages [high] prev_index (length unwind_info) pages)"

section \<open>add\_bpf\_pages\<close>

text \<open>The kernel may refuse an update (the hash map is full), which ends the loop with an error.\<close>

type_synonym page_table = "page_key_t \<rightharpoonup> page_value_t"

definition put_page :: "u64 \<Rightarrow> Page \<Rightarrow> page_table \<Rightarrow> page_table" where
  "put_page executable_id page t =
     t(\<lparr>pk_executable_id = executable_id, pk_file_offset = page_address page\<rparr> \<mapsto>
       \<lparr>pv_low_index = page_low_index page, pv_high_index = page_high_index page\<rparr>)"

fun put_pages :: "(page_table \<Rightarrow> page_key_t \<Rightarrow> bool) \<Rightarrow> u64 \<Rightarrow> Page list \<Rightarrow> page_table \<Rightarrow> bool \<times> page_table" where
  "put_pages accepts executable_id [] t = (True, t)"
| "put_pages accepts executable_id (page # pages) t =
     (if accepts t \<lparr>pk_executable_id = executable_id, pk_file_offset = page_address page\<rparr>
      then put_pages accepts executable_id pages (put_page executable_id page t)
      else (False, t))"

definition add_bpf_pages ::
    "(page_table \<Rightarrow> page_key_t \<Rightarrow> bool) \<Rightarrow> CompactUnwindRow list \<Rightarrow> u64 \<Rightarrow> page_table \<Rightarrow>
     (bool \<times> page_table) option" where
  "add_bpf_pages accepts unwind_info executable_id t =
     (case to_pages unwind_info of
        None \<Rightarrow> None
      | Some pages \<Rightarrow> Some (put_pages accepts executable_id pages t))"

text \<open>
  Deleting goes over the addresses of a range in steps of a page, and its end. Missing keys are only
  counted.
\<close>

definition delete_bpf_pages :: "u64 \<Rightarrow> u64 \<Rightarrow> u64 \<Rightarrow> page_table \<Rightarrow> page_table" where
  "delete_bpf_pages start_address end_address executable_id t =
     fold (\<lambda>file_offset t.
         t(\<lparr>pk_executable_id = executable_id, pk_file_offset = file_offset AND HIGH_PC_MASK\<rparr> := None))
       (step_by_page start_address end_address @ [end_address]) t"

lemma put_pages_fold:
  "put_pages accepts executable_id pages t = (True, t') \<Longrightarrow> t' = fold (put_page executable_id) pages t"
  by (induction pages arbitrary: t) (auto split: if_splits)

text \<open>The last page pushed for an address is the one the map holds.\<close>

definition page_at :: "Page list \<Rightarrow> u64 \<Rightarrow> Page option" where
  "page_at pages a = find (\<lambda>p. page_address p = a) (rev pages)"

lemma fold_put_page:
  "fold (put_page executable_id) pages t \<lparr>pk_executable_id = executable_id, pk_file_offset = a\<rparr> =
     (case page_at pages a of
        Some p \<Rightarrow> Some \<lparr>pv_low_index = page_low_index p, pv_high_index = page_high_index p\<rparr>
      | None \<Rightarrow> t \<lparr>pk_executable_id = executable_id, pk_file_offset = a\<rparr>)"
  by (induction pages rule: rev_induct) (auto simp: page_at_def put_page_def)

lemma find_append: "find P (xs @ ys) = (case find P xs of Some x \<Rightarrow> Some x | None \<Rightarrow> find P ys)"
  by (induction xs) auto

lemma page_at_append: "page_at (P @ Q) a = (case page_at Q a of Some p \<Rightarrow> Some p | None \<Rightarrow> page_at P a)"
  by (simp add: page_at_def find_append split: option.split)

lemma page_at_Nil [simp]: "page_at [] a = None"
  by (simp add: page_at_def)

lemma page_at_constant:
  "page_at (map (\<lambda>a. \<lparr>page_address = a, page_low_index = lo, page_high_index = hi\<rparr>) as) a =
     (if a \<in> set as then Some \<lparr>page_address = a, page_low_index = lo, page_high_index = hi\<rparr> else None)"
  by (induction as rule: rev_induct) (auto simp: page_at_def)

section \<open>Page addresses\<close>

definition high_of :: "CompactUnwindRow \<Rightarrow> u64" where
  "high_of row = cu_pc row AND high_bits_mask"

lemma high_bits_mask_eq: "high_bits_mask = NOT (mask 16)"
  by (simp add: high_bits_mask_def low_bits_mask_def page_size_def mask_eq_exp_minus_1)

lemma unat_high:
  fixes pc :: u64
  shows "unat (pc AND high_bits_mask) = 65536 * (unat pc div 65536)"
proof -
  have e: "pc AND high_bits_mask = push_bit 16 (drop_bit 16 pc)"
    unfolding high_bits_mask_eq by (auto intro!: bit_word_eqI simp: bit_simps)
  have "unat pc < 2 ^ 64" using unsigned_less [of pc] by simp
  then show ?thesis
    unfolding e by (simp add: push_bit_eq_mult unat_word_ariths drop_bit_eq_div unat_div)
qed

lemma high_mono: "x \<le> y \<Longrightarrow> (x AND high_bits_mask) \<le> (y AND high_bits_mask)" for x y :: u64
  by (simp add: word_le_nat_alt unat_high div_le_mono)

lemma step_by_page_nth:
  assumes "k * 65536 < unat high - unat low"
  shows "low + of_nat (k * 65536) \<in> set (step_by_page low high)"
    and "unat (low + of_nat (k * 65536)) = unat low + k * 65536"
proof -
  have "unat high < 2 ^ 64" using unsigned_less [of high] by simp
  then have "unat low + k * 65536 < 2 ^ 64" using assms by linarith
  moreover from this have "unat (of_nat (k * 65536) :: u64) = k * 65536" by (intro unat_of_nat_64) simp
  ultimately show "unat (low + of_nat (k * 65536)) = unat low + k * 65536"
    by (simp only: unat_word_ariths(1)) simp
  have "k < (unat high - unat low + 65535) div 65536"
    using assms by (simp add: less_eq_div_iff_mult_less_eq flip: Suc_le_eq)
  then show "low + of_nat (k * 65536) \<in> set (step_by_page low high)"
    unfolding step_by_page_def set_map set_upt
    by (intro image_eqI [where x = k]) (simp_all only: atLeastLessThan_iff, simp_all add: page_size_def)
qed

lemma step_by_page_range:
  assumes "low < high"
  shows "low \<in> set (step_by_page low high)"
    and "a \<in> set (step_by_page low high) \<Longrightarrow> low \<le> a \<and> a < high"
proof -
  let ?d = "unat high - unat low"
  have d: "0 < ?d" "unat low + ?d = unat high" using assms by (simp_all add: word_less_nat_alt)
  then show "low \<in> set (step_by_page low high)" using step_by_page_nth(1) [of 0 high low] by simp
  show "low \<le> a \<and> a < high" if "a \<in> set (step_by_page low high)"
  proof -
    from that obtain k where k: "a = low + of_nat k * page_size" "k \<in> {0..<(?d + 65535) div 65536}"
      unfolding step_by_page_def set_map set_upt by (rule imageE)
    from k(2) have "k < (?d + 65535) div 65536" by (simp only: atLeastLessThan_iff)
    then have lt: "k * 65536 < ?d" by (simp add: less_eq_div_iff_mult_less_eq flip: Suc_le_eq)
    moreover have "a = low + of_nat (k * 65536)" using k(1) by (simp add: page_size_def)
    ultimately have "unat a = unat low + k * 65536" using step_by_page_nth(2) by metis
    with lt d show ?thesis unfolding word_le_nat_alt word_less_nat_alt by linarith
  qed
qed

section \<open>The pages of a table\<close>

text \<open>A slice of the table with exactly the rows of one page.\<close>

definition is_slice :: "CompactUnwindRow list \<Rightarrow> nat \<Rightarrow> nat \<Rightarrow> u64 \<Rightarrow> bool" where
  "is_slice rows lo hi a \<longleftrightarrow> lo < hi \<and> hi \<le> length rows \<and>
     (\<forall>y < length rows. (lo \<le> y \<and> y < hi) = (high_of (rows ! y) = a))"

definition holds_slice :: "CompactUnwindRow list \<Rightarrow> Page list \<Rightarrow> u64 \<Rightarrow> bool" where
  "holds_slice rows pages a \<longleftrightarrow> (\<exists>lo hi. is_slice rows lo hi a \<and>
     page_at pages a = Some \<lparr>page_address = a, page_low_index = of_nat lo, page_high_index = of_nat hi\<rparr>)"

text \<open>The loop after \<open>i\<close> rows: the page it is in began at row \<open>p\<close>, all earlier ones are complete.\<close>

definition loop_inv :: "CompactUnwindRow list \<Rightarrow> nat \<Rightarrow> u64 \<Rightarrow> nat \<Rightarrow> Page list \<Rightarrow> bool" where
  "loop_inv rows i h p pages \<longleftrightarrow> p < i \<and> i \<le> length rows \<and>
     (\<forall>x. p \<le> x \<and> x < i \<longrightarrow> high_of (rows ! x) = h) \<and> (\<forall>x < p. high_of (rows ! x) < h) \<and>
     (\<forall>x < p. holds_slice rows pages (high_of (rows ! x))) \<and>
     (\<forall>a. page_at pages a \<noteq> None \<longrightarrow> a < h)"

lemma sorted_high:
  assumes "sorted (map cu_pc rows)" "x \<le> y" "y < length rows"
  shows "high_of (rows ! x) \<le> high_of (rows ! y)"
  using assms sorted_nth_mono [OF assms(1,2)] by (simp add: high_of_def high_mono)

lemma holds_slice_push:
  assumes "page_at pages' a = None" "holds_slice rows pages a"
  shows "holds_slice rows (pages @ pages') a"
  using assms by (auto simp: holds_slice_def page_at_append)

lemma loop_inv_slice:
  assumes "loop_inv rows i h p pages" "sorted (map cu_pc rows)"
    and "i = length rows \<or> i < length rows \<and> h < high_of (rows ! i)"
  shows "is_slice rows p i h"
proof -
  have "h < high_of (rows ! y)" if "i \<le> y" "y < length rows" for y
    using that assms(3) sorted_high [OF assms(2) that] by auto
  then show ?thesis
    using assms(1) unfolding is_slice_def loop_inv_def
    by (intro conjI allI impI) (auto simp: not_less, metis leI less_irrefl)
qed

lemma loop_inv_push:
  assumes "loop_inv rows i h p pages" "sorted (map cu_pc rows)" "i < length rows"
    and "h < high_of (rows ! i)" "h \<in> set as" "\<forall>a \<in> set as. h \<le> a \<and> a < high_of (rows ! i)"
    and "i < 2 ^ 32"
  shows "\<exists>pages'. push_pages as p i pages = Some pages' \<and>
     loop_inv rows (Suc i) (high_of (rows ! i)) i pages'"
proof -
  let ?new = "map (\<lambda>a. \<lparr>page_address = a, page_low_index = of_nat p, page_high_index = of_nat i\<rparr>) as"
  note inv = assms(1) [unfolded loop_inv_def]
  have new: "page_at ?new a = (if a \<in> set as then Some \<lparr>page_address = a, page_low_index = of_nat p,
      page_high_index = of_nat i\<rparr> else None)" for a
    by (rule page_at_constant)
  have "holds_slice rows (pages @ ?new) (high_of (rows ! x))" if "x < i" for x
  proof (cases "x < p")
    case True
    then have "high_of (rows ! x) < h" using inv by simp
    then have "page_at ?new (high_of (rows ! x)) = None" using assms(6) by (auto simp: new)
    with True inv show ?thesis by (intro holds_slice_push) auto
  next
    case False
    then have "high_of (rows ! x) = h" using inv that by simp
    then show ?thesis
      using loop_inv_slice [OF assms(1,2)] assms(3,4,5) by (auto simp: holds_slice_def page_at_append new)
  qed
  moreover have "a < high_of (rows ! i)" if "page_at (pages @ ?new) a \<noteq> None" for a
  proof (cases "a \<in> set as")
    case True
    then show ?thesis using assms(6) by blast
  next
    case False
    then have "page_at pages a \<noteq> None" using that by (simp add: page_at_append new)
    then have "a < h" using inv by blast
    then show ?thesis using assms(4) by (rule less_trans)
  qed
  moreover have "high_of (rows ! x) < high_of (rows ! i)" if "x < i" for x
    using inv that assms(4) by (cases "x < p") (auto intro: less_trans)
  ultimately have "loop_inv rows (Suc i) (high_of (rows ! i)) i (pages @ ?new)"
    using assms(3) by (auto simp: loop_inv_def less_Suc_eq)
  then show ?thesis using inv assms(7) by (auto simp: push_pages_def)
qed

lemma to_pages_loop_inv:
  assumes "loop_inv rows i h p pages" "sorted (map cu_pc rows)" "length rows < 2 ^ 32"
    and "\<forall>r \<in> set rows. cu_pc r < 2 ^ 48" "rest = drop i rows"
  shows "\<exists>h' p' pages'. to_pages_loop i rest (Some h) p pages = Some (Some h', p', pages') \<and>
     loop_inv rows (length rows) h' p' pages'"
  using assms
proof (induction rest arbitrary: i h p pages)
  case Nil
  then have "i = length rows" by (auto simp: loop_inv_def)
  with Nil show ?case by auto
next
  case (Cons row rest)
  have "\<not> length rows \<le> i" using Cons.prems(5) by auto
  then have lt: "i < length rows" by simp
  then have "drop i rows = rows ! i # drop (Suc i) rows" by (rule Cons_nth_drop_Suc [symmetric])
  with Cons.prems(3,5) lt have i: "i < length rows" "row = rows ! i" "rest = drop (Suc i) rows" "i < 2 ^ 32"
    by simp_all
  let ?h = "high_of row"
  have h: "high_of (rows ! (i - 1)) = h" "i - 1 < i" using Cons.prems(1) by (auto simp: loop_inv_def)
  then have le: "h \<le> ?h" using sorted_high [OF Cons.prems(2), of "i - 1" i] i by simp
  note IH = Cons.IH [OF _ Cons.prems(2,3,4) i(3)]
  note push = loop_inv_push [OF Cons.prems(1,2) i(1), folded i(2), OF _ _ _ i(4)]
  consider "h = ?h" "\<not> h + page_size < ?h" | "h < ?h" "h + page_size < ?h" | "h < ?h" "\<not> h + page_size < ?h"
    | "h = ?h" "h + page_size < ?h"
    using le by (auto simp: order_le_less)
  then show ?case
  proof cases
    case 1
    then have "loop_inv rows (Suc i) h p pages"
      using Cons.prems(1) i by (auto simp: loop_inv_def less_Suc_eq)
    with IH 1 show ?thesis by (simp add: high_of_def Let_def)
  next
    case 2
    have "\<forall>a \<in> set (step_by_page h ?h). h \<le> a \<and> a < ?h" using step_by_page_range(2) [OF 2(1)] by blast
    from push [OF 2(1) step_by_page_range(1) [OF 2(1)] this] IH 2 show ?thesis
      by (auto simp: high_of_def Let_def)
  next
    case 3
    from push [of "[h]"] IH 3 show ?thesis by (auto simp: high_of_def Let_def)
  next
    case 4
    have "cu_pc row < 2 ^ 48" using Cons.prems(4) i by simp
    then have "unat (h + page_size) = unat h + 65536"
      using 4(1) unat_high [of "cu_pc row"]
      by (simp add: high_of_def page_size_def word_less_nat_alt unat_word_ariths)
    with 4 show ?thesis by (simp add: word_less_nat_alt)
  qed
qed

text \<open>
  The tables the unwinder can search: sorted by program counter, which has 48 bits; fewer than
  $2^{32}$ rows, and fewer than $2^{16}$ in each page.
\<close>

definition table_wf :: "CompactUnwindRow list \<Rightarrow> bool" where
  "table_wf rows \<longleftrightarrow> sorted (map cu_pc rows) \<and> list_all (\<lambda>r. cu_pc r < 2 ^ 48) rows \<and>
     length rows < 2 ^ 32 \<and>
     list_all (\<lambda>i. high_of (rows ! i) \<noteq> high_of (rows ! (i + 65535))) [0..<length rows - 65535]"

lemma to_pages_holds:
  assumes "table_wf rows" "x < length rows"
  shows "\<exists>pages. to_pages rows = Some pages \<and> holds_slice rows pages (high_of (rows ! x))"
proof -
  have wf: "sorted (map cu_pc rows)" "length rows < 2 ^ 32" "\<forall>r \<in> set rows. cu_pc r < 2 ^ 48"
    using assms(1) by (simp_all add: table_wf_def list_all_iff)
  obtain r rest where rows: "rows = r # rest" using assms(2) by (cases rows) auto
  then have "loop_inv rows 1 (high_of r) 0 []" by (auto simp: loop_inv_def)
  from to_pages_loop_inv [OF this wf, of rest] rows obtain h p pages where
    loop: "to_pages_loop 1 rest (Some (high_of r)) 0 [] = Some (Some h, p, pages)"
    and inv: "loop_inv rows (length rows) h p pages"
    by auto
  let ?last = "\<lparr>page_address = h, page_low_index = of_nat p, page_high_index = of_nat (length rows)\<rparr>"
  have p: "p < 2 ^ 32" using inv wf(2) by (simp add: loop_inv_def)
  with loop have pages: "to_pages rows = Some (pages @ [?last])"
    using wf(2) rows by (simp add: to_pages_def high_of_def Let_def push_pages_def)
  have last: "page_at [?last] a = (if a = h then Some ?last else None)" for a
    by (simp add: page_at_def)
  have "holds_slice rows (pages @ [?last]) (high_of (rows ! x))"
  proof (cases "x < p")
    case True
    then have "high_of (rows ! x) < h" "holds_slice rows pages (high_of (rows ! x))"
      using inv by (simp_all add: loop_inv_def)
    then show ?thesis by (intro holds_slice_push) (auto simp: last)
  next
    case False
    then have "high_of (rows ! x) = h" using inv assms(2) by (simp add: loop_inv_def)
    with loop_inv_slice [OF inv wf(1)] show ?thesis by (auto simp: holds_slice_def page_at_append last)
  qed
  with pages show ?thesis by blast
qed

text \<open>What the page table holds for an executable whose table was stored.\<close>

definition pages_stored :: "CompactUnwindRow list \<Rightarrow> u64 \<Rightarrow> page_table \<Rightarrow> bool" where
  "pages_stored rows executable_id t \<longleftrightarrow> (\<exists>pages. to_pages rows = Some pages \<and>
     (\<forall>a p. page_at pages a = Some p \<longrightarrow> t \<lparr>pk_executable_id = executable_id, pk_file_offset = a\<rparr> =
        Some \<lparr>pv_low_index = page_low_index p, pv_high_index = page_high_index p\<rparr>))"

lemma add_bpf_pages_stored:
  "add_bpf_pages accepts rows executable_id t0 = Some (True, t) \<Longrightarrow> pages_stored rows executable_id t"
  by (auto simp: add_bpf_pages_def pages_stored_def fold_put_page dest: put_pages_fold split: option.splits)

lemma pages_stored_cong:
  "pages_stored rows executable_id t \<Longrightarrow> \<forall>key. pk_executable_id key = executable_id \<longrightarrow> t' key = t key \<Longrightarrow>
   pages_stored rows executable_id t'"
  by (auto simp: pages_stored_def)

lemma put_pages_other:
  "pk_executable_id key \<noteq> executable_id \<Longrightarrow> snd (put_pages accepts executable_id pages t) key = t key"
  by (induction pages arbitrary: t) (auto simp: put_page_def)

lemma pages_stored_entry:
  assumes "table_wf rows" "x < length rows" "pages_stored rows executable_id t"
  shows "\<exists>lo hi. is_slice rows lo hi (high_of (rows ! x)) \<and>
     t \<lparr>pk_executable_id = executable_id, pk_file_offset = high_of (rows ! x)\<rparr> =
       Some \<lparr>pv_low_index = of_nat lo, pv_high_index = of_nat hi\<rparr>"
  using to_pages_holds [OF assms(1,2)] assms(3) by (fastforce simp: holds_slice_def pages_stored_def)

section \<open>Searching a slice\<close>

text \<open>The reference: the last row of the whole table that starts at or before the program counter.\<close>

definition covering_row :: "CompactUnwindRow list \<Rightarrow> u64 \<Rightarrow> nat option" where
  "covering_row rows pc = find (\<lambda>k. cu_pc (rows ! k) \<le> pc) (rev [0..<length rows])"

lemma find_last_index:
  "k < n \<Longrightarrow> P k \<Longrightarrow> \<forall>j. k < j \<and> j < n \<longrightarrow> \<not> P j \<Longrightarrow> find P (rev [0..<n]) = Some k"
  by (induction n) (auto simp: less_Suc_eq)

lemma quotient_order:
  fixes q q' r r' :: nat
  assumes "r < 65536" "r' < 65536"
  shows "65536 * q + r \<le> 65536 * q' + r' \<longleftrightarrow> q < q' \<or> q = q' \<and> r \<le> r'"
  using assms by linarith

lemma pc_le_iff:
  fixes x y :: u64
  shows "x \<le> y \<longleftrightarrow> (x AND high_bits_mask) < (y AND high_bits_mask) \<or>
     (x AND high_bits_mask) = (y AND high_bits_mask) \<and> (ucast (x AND LOW_PC_MASK) :: u16) \<le> ucast (y AND LOW_PC_MASK)"
proof -
  have low: "unat (ucast (z AND LOW_PC_MASK) :: u16) = unat z mod 65536" for z :: u64
  proof -
    have m: "LOW_PC_MASK = mask 16" by (simp add: LOW_PC_MASK_def mask_eq_exp_minus_1)
    have "(ucast (z AND LOW_PC_MASK) :: u16) = ucast z"
      unfolding m by (auto intro!: bit_word_eqI simp: bit_simps)
    then show ?thesis by (simp add: unsigned_ucast_eq take_bit_eq_mod)
  qed
  have "x \<le> y \<longleftrightarrow> unat x div 65536 < unat y div 65536 \<or>
      unat x div 65536 = unat y div 65536 \<and> unat x mod 65536 \<le> unat y mod 65536"
    using quotient_order [of "unat x mod 65536" "unat y mod 65536" "unat x div 65536" "unat y div 65536"]
    unfolding word_le_nat_alt by simp
  then show ?thesis
    by (simp only: word_less_nat_alt word_le_nat_alt word_unat_eq_iff unat_high low) simp
qed

lemma row_from_pc_low: "pc_low (row_from r) = ucast (cu_pc r AND LOW_PC_MASK)"
  by (simp add: row_from_def)

text \<open>What a slice means for the rows of a sorted table.\<close>

lemma is_sliceD:
  assumes "is_slice rows lo hi a"
  shows "lo < hi" "hi \<le> length rows" "lo \<le> y \<Longrightarrow> y < hi \<Longrightarrow> high_of (rows ! y) = a"
    and "y < length rows \<Longrightarrow> (lo \<le> y \<and> y < hi) = (high_of (rows ! y) = a)"
  using assms order_less_le_trans [of y hi "length rows"] unfolding is_slice_def by blast+

lemma slice_rows:
  assumes "sorted (map cu_pc rows)" "is_slice rows lo hi (pc AND high_bits_mask)" "y < length rows"
  shows "lo \<le> y \<Longrightarrow> y < hi \<Longrightarrow> cu_pc (rows ! y) \<le> pc \<longleftrightarrow> pc_low (row_from (rows ! y)) \<le> ucast (pc AND LOW_PC_MASK)"
    and "y < lo \<Longrightarrow> cu_pc (rows ! y) \<le> pc \<and> high_of (rows ! y) < pc AND high_bits_mask"
    and "hi \<le> y \<Longrightarrow> \<not> cu_pc (rows ! y) \<le> pc"
proof -
  let ?a = "pc AND high_bits_mask"
  note slice = is_sliceD(1,2) [OF assms(2)]
  have mem: "(lo \<le> y \<and> y < hi) = (high_of (rows ! y) = ?a)" using is_sliceD(4) [OF assms(2,3)] .
  have edge: "high_of (rows ! lo) = ?a" "high_of (rows ! (hi - 1)) = ?a"
    using slice is_sliceD(3) [OF assms(2)] by simp_all
  show "cu_pc (rows ! y) \<le> pc \<longleftrightarrow> pc_low (row_from (rows ! y)) \<le> ucast (pc AND LOW_PC_MASK)"
    if "lo \<le> y" "y < hi"
    using that mem pc_le_iff [of "cu_pc (rows ! y)" pc] by (simp add: high_of_def row_from_pc_low)
  show "cu_pc (rows ! y) \<le> pc \<and> high_of (rows ! y) < ?a" if "y < lo"
  proof -
    have "high_of (rows ! y) \<le> ?a" using sorted_high [OF assms(1), of y lo] that slice edge by simp
    then have "high_of (rows ! y) < ?a" using mem that by (simp add: order_less_le)
    then show ?thesis using pc_le_iff [of "cu_pc (rows ! y)" pc] by (simp add: high_of_def)
  qed
  show "\<not> cu_pc (rows ! y) \<le> pc" if "hi \<le> y"
  proof -
    have "?a \<le> high_of (rows ! y)" using sorted_high [OF assms(1), of "hi - 1" y] that assms(3) edge by simp
    then have "?a < high_of (rows ! y)" using mem that by (simp add: order_less_le)
    then show ?thesis using pc_le_iff [of "cu_pc (rows ! y)" pc] by (auto simp: high_of_def)
  qed
qed

lemma slice_is_page:
  assumes "table_wf rows" "is_slice rows lo hi (pc AND high_bits_mask)"
  shows "is_page (map row_from rows) lo hi"
proof -
  note slice = is_sliceD(1,2) [OF assms(2)] and high = is_sliceD(3) [OF assms(2)]
  have wf: "sorted (map cu_pc rows)" "length rows < 2 ^ 32"
    "\<forall>i < length rows - 65535. high_of (rows ! i) \<noteq> high_of (rows ! (i + 65535))"
    using assms(1) by (simp_all add: table_wf_def list_all_iff)
  have "hi - lo < 2 ^ 16"
  proof (rule ccontr)
    assume "\<not> hi - lo < 2 ^ 16"
    then have "lo + 65535 < hi" "lo < length rows - 65535" using slice by auto
    with high [of lo] high [of "lo + 65535"] wf(3) show False by auto
  qed
  moreover have "sorted (map pc_low (take (hi - lo) (drop lo (map row_from rows))))"
  proof -
    let ?s = "map pc_low (take (hi - lo) (drop lo (map row_from rows)))"
    have len: "length ?s = hi - lo" using slice by simp
    have nth: "?s ! i = pc_low (row_from (rows ! (lo + i)))" if "i < hi - lo" for i
      using that slice by simp
    have "?s ! i \<le> ?s ! j" if "i \<le> j" "j < length ?s" for i j
    proof -
      have b: "i < hi - lo" "j < hi - lo" "lo + i < hi" "lo + j < hi" using that unfolding len by linarith+
      have "lo + i < length rows" "lo + j < length rows" using b slice(2) by linarith+
      then have "cu_pc (rows ! (lo + i)) \<le> cu_pc (rows ! (lo + j))"
        using sorted_nth_mono [OF wf(1), of "lo + i" "lo + j"] that(1) by simp
      moreover have "high_of (rows ! (lo + i)) = high_of (rows ! (lo + j))"
        using high [of "lo + i"] high [of "lo + j"] b by simp
      ultimately have "pc_low (row_from (rows ! (lo + i))) \<le> pc_low (row_from (rows ! (lo + j)))"
        using pc_le_iff [of "cu_pc (rows ! (lo + i))" "cu_pc (rows ! (lo + j))"]
        unfolding high_of_def row_from_pc_low by simp
      then show ?thesis unfolding nth [OF b(1)] nth [OF b(2)] .
    qed
    then show ?thesis unfolding sorted_iff_nth_mono by (intro allI impI)
  qed
  ultimately show ?thesis using slice wf(2) by (simp add: is_page_def)
qed

lemma row_le_slice:
  assumes "table_wf rows" "is_slice rows lo hi (pc AND high_bits_mask)" "lo \<le> y" "y < hi"
  shows "row_le (add_bpf_unwind_info rows) (ucast (pc AND LOW_PC_MASK)) y = (cu_pc (rows ! y) \<le> pc)"
proof -
  have "array_lookup (map row_from rows) (of_nat y) = Some (row_from (rows ! y))" "y < length rows"
    using is_page_nth [OF slice_is_page [OF assms(1,2)] assms(3,4)] is_sliceD(2) [OF assms(2)] assms(4)
    by simp_all
  then show ?thesis
    using slice_rows(1) [of rows lo hi pc y] assms
    by (simp add: row_le_def add_bpf_unwind_info_def table_wf_def)
qed

lemma HIGH_PC_eq: "pc < 2 ^ 48 \<Longrightarrow> HIGH_PC pc = pc AND high_bits_mask"
  by (simp add: word_unat_eq_iff [of "HIGH_PC pc"] HIGH_PC_value unat_high word_less_nat_alt)

lemma inner_nth:
  "y < length rows \<Longrightarrow> length rows < 2 ^ 32 \<Longrightarrow>
   add_bpf_unwind_info rows (ucast (of_nat y :: u64)) = Some (row_from (rows ! y))"
  by (simp add: add_bpf_unwind_info_def array_lookup_def unat_ucast_64_32 unat_of_nat)

lemma covering_row_in_slice:
  assumes "table_wf rows" "is_slice rows lo hi (pc AND high_bits_mask)"
  shows "covering_row rows pc =
     (case last_row_le (add_bpf_unwind_info rows) (ucast (pc AND LOW_PC_MASK)) lo hi of
        Some k \<Rightarrow> Some k
      | None \<Rightarrow> if lo = 0 then None else Some (lo - 1))"
proof -
  note bounds = is_sliceD(1,2) [OF assms(2)] and le = row_le_slice [OF assms]
  have "sorted (map cu_pc rows)" using assms(1) by (simp add: table_wf_def)
  note rows = slice_rows [OF this assms(2)]
  show ?thesis
  proof (cases "last_row_le (add_bpf_unwind_info rows) (ucast (pc AND LOW_PC_MASK)) lo hi")
    case (Some k)
    then have k: "lo \<le> k" "k < hi" "cu_pc (rows ! k) \<le> pc" "\<forall>j. k < j \<and> j < hi \<longrightarrow> \<not> cu_pc (rows ! j) \<le> pc"
      using le by (auto simp: last_row_le_Some_iff)
    have "\<forall>j. k < j \<and> j < length rows \<longrightarrow> \<not> cu_pc (rows ! j) \<le> pc"
      using k(4) rows(3) by (metis linorder_not_le)
    then have "covering_row rows pc = Some k"
      unfolding covering_row_def using k bounds by (intro find_last_index) auto
    with Some show ?thesis by simp
  next
    case None
    then have none: "\<forall>j. lo \<le> j \<and> j < length rows \<longrightarrow> \<not> cu_pc (rows ! j) \<le> pc"
      using le rows(3) by (metis last_row_le_None_iff linorder_not_le)
    show ?thesis
    proof (cases lo)
      case 0
      then show ?thesis using None none by (auto simp: covering_row_def find_None_iff)
    next
      case (Suc y)
      then have "covering_row rows pc = Some y"
        unfolding covering_row_def using bounds none rows(2) by (intro find_last_index) auto
      with None Suc show ?thesis by simp
    qed
  qed
qed

lemma frame_table_idx_slice:
  assumes "table_wf rows" "pc < 2 ^ 48" "is_slice rows lo hi (HIGH_PC pc)"
  shows "frame_table_idx (add_bpf_unwind_info rows) pc (HIGH_PC pc) (ucast (LOW_PC pc)) (of_nat lo) (of_nat hi) =
     (case covering_row rows pc of None \<Rightarrow> Inl BINARY_SEARCH_DEFAULT | Some j \<Rightarrow> Inr (of_nat j))"
proof -
  let ?inner = "add_bpf_unwind_info rows" and ?low = "ucast (LOW_PC pc) :: u16"
  have slice: "is_slice rows lo hi (pc AND high_bits_mask)" using assms(2,3) by (simp add: HIGH_PC_eq)
  have wf: "sorted (map cu_pc rows)" "length rows < 2 ^ 32" using assms(1) by (simp_all add: table_wf_def)
  note covering = covering_row_in_slice [OF assms(1) slice, folded LOW_PC_def]
  have search: "find_offset_for_pc ?inner ?low (of_nat lo) (of_nat hi) =
      (case last_row_le ?inner ?low lo hi of None \<Rightarrow> BINARY_SEARCH_DEFAULT | Some k \<Rightarrow> of_nat k)"
    using inner_array.search_is_scan [OF slice_is_page [OF assms(1) slice]]
    by (simp add: add_bpf_unwind_info_def)
  show ?thesis
  proof (cases "last_row_le ?inner ?low lo hi")
    case (Some k)
    then have "k < hi" by (simp add: last_row_le_Some_iff)
    then have "unat (of_nat k :: u64) = k" "k < 2 ^ 32"
      using is_sliceD(2) [OF slice] wf(2) by (simp_all add: unat_of_nat_64)
    with Some search covering show ?thesis by (auto simp: frame_table_idx_def Let_def word_unat_eq_iff)
  next
    case None
    show ?thesis
    proof (cases lo)
      case 0
      have "(ucast (- 1 :: u64) :: u32) = - 1" by (rule bit_word_eqI) (simp add: bit_simps)
      then have "?inner (ucast (of_nat lo - 1 :: u64)) = None"
        using 0 wf(2)
        by (simp add: add_bpf_unwind_info_def array_lookup_def unsigned_minus_1_eq_mask mask_eq_exp_minus_1)
      with 0 None search covering show ?thesis by (simp add: frame_table_idx_def Let_def)
    next
      case (Suc y)
      then have y: "y < length rows" "y < lo" using is_sliceD(1,2) [OF slice] by simp_all
      moreover have "HIGH_PC pc \<noteq> 0" using slice_rows(2) [OF wf(1) slice y] HIGH_PC_eq [OF assms(2)] by auto
      moreover have "(of_nat lo - 1 :: u64) = of_nat y" using Suc by simp
      ultimately show ?thesis
        using None Suc search covering inner_nth [OF y(1) wf(2)] previous_page_test [of pc] assms(2)
        by (simp add: frame_table_idx_def Let_def word_less_nat_alt)
    qed
  qed
qed

lemma frame_row_stored:
  assumes "table_wf rows"
    and "pages_stored rows (m_executable_id mapping) (executable_to_page s)"
    and "outer_map s (m_executable_id mapping) = Some (add_bpf_unwind_info rows)"
    and "ip - m_load_address mapping < 2 ^ 48" "r \<in> set rows"
    and "HIGH_PC (cu_pc r) = HIGH_PC (ip - m_load_address mapping)"
  shows "frame_row k pid ip mapping s =
     (case covering_row rows (ip - m_load_address mapping) of
        None \<Rightarrow> Inl s
      | Some j \<Rightarrow> Inr (row_from (rows ! j), s))"
proof -
  let ?pc = "ip - m_load_address mapping"
  obtain x where x: "x < length rows" "rows ! x = r" using assms(5) by (auto simp: in_set_conv_nth)
  have "cu_pc r < 2 ^ 48" using assms(1,5) by (auto simp: table_wf_def list_all_iff)
  then have high: "high_of (rows ! x) = HIGH_PC ?pc" using assms(6) x(2) by (simp add: high_of_def HIGH_PC_eq)
  obtain lo hi where slice: "is_slice rows lo hi (HIGH_PC ?pc)"
    and page: "executable_to_page s \<lparr>pk_executable_id = m_executable_id mapping, pk_file_offset = HIGH_PC ?pc\<rparr> =
       Some \<lparr>pv_low_index = of_nat lo, pv_high_index = of_nat hi\<rparr>"
    using pages_stored_entry [OF assms(1) x(1) assms(2)] high by auto
  have wf: "length rows < 2 ^ 32" using assms(1) by (simp add: table_wf_def)
  have "ucast (of_nat n :: u32) = (of_nat n :: u64)" if "n < 2 ^ 32" for n
    using that by (simp add: word_unat_eq_iff unat_of_nat)
  then have "find_page mapping (HIGH_PC ?pc) s = (Some (add_bpf_unwind_info rows, of_nat lo, of_nat hi), s)"
    using page assms(3) is_sliceD(1,2) [OF slice] wf by (simp add: find_page_def Let_def)
  moreover have "j < length rows" if "covering_row rows ?pc = Some j" for j
    using that by (auto simp: covering_row_def find_Some_iff rev_nth)
  ultimately show ?thesis
    using frame_table_idx_slice [OF assms(1,4) slice] inner_nth [OF _ wf]
    by (auto simp: frame_row_def Let_def split: option.split)
qed

section \<open>Properties\<close>

text \<open>
  C11. Writer and reader of the unwind tables fit together. When user space has stored a sorted table
  and its pages, and the page of a program counter holds at least one row, then page lookup, binary
  search and the fallback to the previous page find exactly the row that a scan of the whole table
  finds: the last one that starts at or before the program counter, also when that row is in an
  earlier page; when the program counter precedes every row, unwinding stops and no counter changes.
\<close>

theorem frame_row_finds_covering_row:
  assumes "table_wf rows"
    and "add_bpf_pages accepts rows (m_executable_id mapping) t0 = Some (True, executable_to_page s)"
    and "outer_map s (m_executable_id mapping) = Some (add_bpf_unwind_info rows)"
    and "ip - m_load_address mapping < 2 ^ 48" "r \<in> set rows"
    and "HIGH_PC (cu_pc r) = HIGH_PC (ip - m_load_address mapping)"
  shows "frame_row k pid ip mapping s =
     (case covering_row rows (ip - m_load_address mapping) of
        None \<Rightarrow> Inl s
      | Some j \<Rightarrow> Inr (row_from (rows ! j), s))"
  by (rule frame_row_stored [OF assms(1) add_bpf_pages_stored [OF assms(2)] assms(3-6)])

text \<open>
  A function whose first row is at 0xf0010, whose second one (the frame pointer is set up) is at
  0xf8000 and whose code goes on to 0x110000: no row starts in the page of 0x100000.
\<close>

definition gap_table :: "CompactUnwindRow list" where
  "gap_table =
     [\<lparr>cu_pc = 0xf0010, cu_cfa_type = Cfa_StackPointerOffset, cu_rbp_type = Rbp_Unchanged,
       cu_cfa_offset = 8, cu_rbp_offset = 0\<rparr>,
      \<lparr>cu_pc = 0xf8000, cu_cfa_type = Cfa_FramePointerOffset, cu_rbp_type = Rbp_CfaOffset,
       cu_cfa_offset = 16, cu_rbp_offset = -16\<rparr>,
      \<lparr>cu_pc = 0x110000, cu_cfa_type = Cfa_EndFdeMarker, cu_rbp_type = Rbp_Unchanged,
       cu_cfa_offset = 0, cu_rbp_offset = 0\<rparr>]"

definition gap_pages :: page_table where
  "gap_pages =
     [\<lparr>pk_executable_id = 7, pk_file_offset = 0xf0000\<rparr> \<mapsto> \<lparr>pv_low_index = 0, pv_high_index = 2\<rparr>,
      \<lparr>pk_executable_id = 7, pk_file_offset = 0x100000\<rparr> \<mapsto> \<lparr>pv_low_index = 0, pv_high_index = 2\<rparr>,
      \<lparr>pk_executable_id = 7, pk_file_offset = 0x110000\<rparr> \<mapsto> \<lparr>pv_low_index = 2, pv_high_index = 3\<rparr>]"

definition gap_state :: bpf_state where
  "gap_state = example_state\<lparr>executable_to_page := gap_pages,
     outer_map := [7 \<mapsto> add_bpf_unwind_info gap_table]\<rparr>"

definition gap_mapping :: mapping_t where
  "gap_mapping = \<lparr>m_executable_id = 7, m_load_address = 0x400000, m_begin = 0x4f0000, m_end = 0x510000, m_type = 0\<rparr>"

lemma gap_table_pages:
  "to_pages gap_table = Some
     [\<lparr>page_address = 0xf0000, page_low_index = 0, page_high_index = 2\<rparr>,
      \<lparr>page_address = 0x100000, page_low_index = 0, page_high_index = 2\<rparr>,
      \<lparr>page_address = 0x110000, page_low_index = 2, page_high_index = 3\<rparr>]"
  by (simp add: to_pages_def gap_table_def Let_def high_bits_mask_def low_bits_mask_def page_size_def
      push_pages_def step_by_page_def upt_rec)

lemma gap_table_stored: "add_bpf_pages (\<lambda>t key. True) gap_table 7 Map.empty = Some (True, gap_pages)"
  by (simp add: add_bpf_pages_def gap_table_pages put_page_def gap_pages_def)

lemma gap_table_wf: "table_wf gap_table"
  by (simp add: table_wf_def gap_table_def)

theorem frame_row_finds_covering_row_witness:
  "frame_row example_kernel 42 0x4f8004 gap_mapping gap_state = Inr (row_from (gap_table ! 1), gap_state)"
proof -
  have "covering_row gap_table 0xf8004 = Some 1" by (simp add: covering_row_def gap_table_def upt_rec)
  then show ?thesis
    using frame_row_finds_covering_row [OF gap_table_wf, of "\<lambda>t key. True" gap_mapping Map.empty gap_state
        "0x4f8004" "gap_table ! 1" example_kernel 42] gap_table_stored
    by (simp add: gap_mapping_def gap_state_def gap_table_def HIGH_PC_def HIGH_PC_MASK_def)
qed

text \<open>
  The pages that to\_pages inserts for a gap do not fit the reader: they point to the rows of the
  page before the gap, but the search compares only the low halves of the program counters. In a
  function of more than 64 KiB the row of the covering instruction range is the second one, and the
  unwinder takes the first, with another rule for the canonical frame address.
\<close>

lemma gap_page_finds_wrong_row:
  "add_bpf_pages (\<lambda>t key. True) gap_table 7 Map.empty = Some (True, executable_to_page gap_state) \<and>
   frame_row k pid 0x500020 gap_mapping gap_state = Inr (row_from (gap_table ! 0), gap_state) \<and>
   covering_row gap_table (0x500020 - m_load_address gap_mapping) = Some 1 \<and>
   cfa_type (row_from (gap_table ! 0)) = CFA_TYPE_RSP \<and> cfa_type (row_from (gap_table ! 1)) = CFA_TYPE_RBP"
proof (intro conjI)
  show "add_bpf_pages (\<lambda>t key. True) gap_table 7 Map.empty = Some (True, executable_to_page gap_state)"
    by (simp add: gap_table_stored gap_state_def)
  have "find_offset_for_pc (add_bpf_unwind_info gap_table) 0x20 0 2 = 0"
    by (simp add: find_offset_for_pc_def find_offset_loop_numeral add_bpf_unwind_info_def array_lookup_def
        gap_table_def row_from_def LOW_PC_MASK_def)
  then have idx: "frame_table_idx (add_bpf_unwind_info gap_table) 0x100020 0x100000 0x20 0 2 = Inr 0"
    by (simp add: frame_table_idx_def)
  have "add_bpf_unwind_info gap_table 0 = Some (row_from (gap_table ! 0))"
    by (simp add: add_bpf_unwind_info_def array_lookup_def gap_table_def)
  then show "frame_row k pid 0x500020 gap_mapping gap_state = Inr (row_from (gap_table ! 0), gap_state)"
    using idx by (simp add: frame_row_def find_page_def gap_mapping_def gap_state_def gap_pages_def Let_def
        HIGH_PC_def HIGH_PC_MASK_def LOW_PC_def LOW_PC_MASK_def)
  show "covering_row gap_table (0x500020 - m_load_address gap_mapping) = Some 1"
    by (simp add: covering_row_def gap_table_def gap_mapping_def upt_rec)
qed (simp_all add: gap_table_def row_from_def)

section \<open>Deleting pages\<close>

lemma fold_delete_pages:
  "fold (\<lambda>file_offset t. t(\<lparr>pk_executable_id = executable_id, pk_file_offset = f file_offset\<rparr> := None)) offsets t key =
     (if pk_executable_id key = executable_id \<and> pk_file_offset key \<in> f ` set offsets then None else t key)"
  for key :: page_key_t
  by (induction offsets arbitrary: t) (cases key; auto)+

lemma delete_bpf_pages_other:
  "pk_executable_id key \<noteq> executable_id \<Longrightarrow> delete_bpf_pages start_address end_address executable_id t key = t key"
  unfolding delete_bpf_pages_def fold_delete_pages [where f = "\<lambda>x. x AND HIGH_PC_MASK"] by simp

lemma HIGH_PC_le:
  assumes "x \<le> stop" "stop < 2 ^ 48"
  shows "unat (HIGH_PC x) = 65536 * (unat x div 65536)"
  using assms by (intro HIGH_PC_value) (simp add: word_le_nat_alt word_less_nat_alt)

lemma page_of_range:
  assumes "start \<le> stop" "stop < 2 ^ 48" "x = stop \<or> x \<in> set (step_by_page start stop)"
  shows "HIGH_PC start \<le> HIGH_PC x \<and> HIGH_PC x \<le> HIGH_PC stop"
proof -
  have "step_by_page start stop = []" if "start = stop" using that by (simp add: step_by_page_def)
  then have le: "start \<le> x" "x \<le> stop"
    using assms(1,3) step_by_page_range(2) [of start stop x]
    by (cases "start = stop"; auto simp: order_le_less)+
  then show ?thesis
    using HIGH_PC_le [OF _ assms(2)] assms(1) by (simp add: word_le_nat_alt div_le_mono)
qed

lemma page_of_range_reached:
  assumes "start \<le> stop" "stop < 2 ^ 48" "a = HIGH_PC a" "HIGH_PC start \<le> a" "a < HIGH_PC stop"
  shows "a \<in> HIGH_PC ` set (step_by_page start stop)"
proof -
  note high = HIGH_PC_le [OF _ assms(2)]
  let ?k = "unat a div 65536 - unat start div 65536"
  have "a \<le> stop" using high [of stop] assms(5) by (simp add: word_le_nat_alt word_less_nat_alt)
  then have ua: "unat a = 65536 * (unat a div 65536)" using high assms(3) by metis
  then have k: "unat start div 65536 + ?k = unat a div 65536" "unat a div 65536 < unat stop div 65536"
    using assms(4,5) high [OF assms(1)] high [of stop]
    by (simp_all add: word_le_nat_alt word_less_nat_alt)
  then have "unat start + ?k * 65536 < unat stop"
    using div_mult_mod_eq [of "unat start" 65536] div_mult_mod_eq [of "unat stop" 65536]
      mod_less_divisor [of 65536 "unat start"] by linarith
  then have lt: "?k * 65536 < unat stop - unat start" by simp
  let ?x = "start + of_nat (?k * 65536) :: u64"
  have ux: "unat ?x = unat start + ?k * 65536" by (rule step_by_page_nth(2) [OF lt])
  then have "?x \<le> stop" using lt unfolding word_le_nat_alt by linarith
  then have "unat (HIGH_PC ?x) = 65536 * ((unat start + ?k * 65536) div 65536)" using high ux by simp
  also have "\<dots> = unat a" using k(1) ua by simp
  finally have "a = HIGH_PC ?x" by (simp add: word_unat_eq_iff)
  with step_by_page_nth(1) [OF lt] show ?thesis by auto
qed

lemma deleted_pages:
  assumes "start \<le> stop" "stop < 2 ^ 48"
  shows "a \<in> HIGH_PC ` set (step_by_page start stop @ [stop]) \<longleftrightarrow>
     a = HIGH_PC a \<and> HIGH_PC start \<le> a \<and> a \<le> HIGH_PC stop"
proof -
  have "HIGH_PC (HIGH_PC x) = HIGH_PC x" for x by (simp add: HIGH_PC_def and.assoc)
  then show ?thesis
    using page_of_range [OF assms] page_of_range_reached [OF assms, of a]
    by (cases "a = HIGH_PC stop") (auto simp: order_less_le)
qed

text \<open>
  Deleting the pages of an address range removes exactly the entries of the executable whose page
  meets the range, the pages of both ends included.
\<close>

lemma delete_bpf_pages_exact:
  assumes "start_address \<le> end_address" "end_address < 2 ^ 48"
  shows "delete_bpf_pages start_address end_address executable_id t key =
     (if pk_executable_id key = executable_id \<and> pk_file_offset key = HIGH_PC (pk_file_offset key) \<and>
         HIGH_PC start_address \<le> pk_file_offset key \<and> pk_file_offset key \<le> HIGH_PC end_address
      then None else t key)"
  using deleted_pages [OF assms, of "pk_file_offset key"]
    fold_delete_pages [of executable_id HIGH_PC "step_by_page start_address end_address @ [end_address]" t key]
  unfolding delete_bpf_pages_def HIGH_PC_def [symmetric] by presburger

lemma delete_bpf_pages_exact_example:
  "delete_bpf_pages 0xf0010 0x110000 7 gap_pages \<lparr>pk_executable_id = 7, pk_file_offset = 0x100000\<rparr> = None"
  using delete_bpf_pages_exact [of "0xf0010" "0x110000" 7 gap_pages
      "\<lparr>pk_executable_id = 7, pk_file_offset = 0x100000\<rparr>"]
  by (simp add: HIGH_PC_def HIGH_PC_MASK_def)

end
