(* ===== verification/Persist.thy ===== *)
theory Persist
  imports Pages
begin

text \<open>
  src/src/unwind\_info/persist.rs: the file format in which unwind tables are cached. The writer works on
  a seekable buffer (bytes and position), and writes the header twice; the reader works on the bytes of
  the file. The digest is SHA-256 of the package ring, a parameter of which only its first eight bytes
  are used. Rows and header are packed C structures, copied byte by byte.
\<close>

section \<open>Bytes of rows and headers\<close>

definition MAGIC_NUMBER :: u32 where "MAGIC_NUMBER = 0x1357531"
definition VERSION :: u32 where "VERSION = 2"

record Header =
  magic :: u32
  version :: u32
  unwind_info_digest :: u64
  unwind_info_len :: u64

definition header_as_bytes :: "Header \<Rightarrow> u8 list" where
  "header_as_bytes h = bytes_le 4 (magic h) @ bytes_le 4 (version h) @ bytes_le 8 (unwind_info_digest h) @
     bytes_le 8 (unwind_info_len h)"

definition header_size :: nat where "header_size = 24"

definition header_from_bytes :: "u8 list \<Rightarrow> Header" where
  "header_from_bytes bs =
     \<lparr>magic = word_le (slice 0 4 bs), version = word_le (slice 4 8 bs),
      unwind_info_digest = word_le (slice 8 16 bs), unwind_info_len = word_le (slice 16 24 bs)\<rparr>"

definition row_bytes :: "CompactUnwindRow \<Rightarrow> u8 list" where
  "row_bytes r = bytes_le 8 (cu_pc r) @ [cfa_code (cu_cfa_type r), rbp_code (cu_rbp_type r)] @
     bytes_le 2 (cu_cfa_offset r) @ bytes_le 2 (cu_rbp_offset r)"

definition unwind_row_size :: nat where "unwind_row_size = 14"

text \<open>
  Copying arbitrary bytes into a row may give an enumeration a value it does not have, which is
  undefined behaviour in Rust: there is no row then.
\<close>

definition cfa_of_code :: "u8 \<Rightarrow> CfaType option" where
  "cfa_of_code c = find (\<lambda>t. cfa_code t = c)
     [Cfa_Unknown, Cfa_FramePointerOffset, Cfa_StackPointerOffset, Cfa_UnsupportedExpression, Cfa_Plt1,
      Cfa_Plt2, Cfa_DerefAndAdd, Cfa_EndFdeMarker, Cfa_UnsupportedRegisterOffset, Cfa_OffsetDidNotFit]"

definition rbp_of_code :: "u8 \<Rightarrow> RbpType option" where
  "rbp_of_code c = find (\<lambda>t. rbp_code t = c)
     [Rbp_Unchanged, Rbp_CfaOffset, Rbp_Register, Rbp_Expression, Rbp_UndefinedReturnAddress,
      Rbp_OffsetDidNotFit]"

definition row_from_bytes :: "u8 list \<Rightarrow> CompactUnwindRow option" where
  "row_from_bytes bs =
     (case (cfa_of_code (bs ! 8), rbp_of_code (bs ! 9)) of
        (Some c, Some r) \<Rightarrow>
          Some \<lparr>cu_pc = word_le (slice 0 8 bs), cu_cfa_type = c, cu_rbp_type = r,
                cu_cfa_offset = word_le (slice 10 12 bs), cu_rbp_offset = word_le (slice 12 14 bs)\<rparr>
      | _ \<Rightarrow> None)"

section \<open>The writer\<close>

record cursor =
  cur_data :: "u8 list"
  cur_pos :: nat

text \<open>Writing overwrites from the position and extends the buffer where needed.\<close>

definition write_all :: "u8 list \<Rightarrow> cursor \<Rightarrow> cursor" where
  "write_all bs c =
     \<lparr>cur_data = take (cur_pos c) (cur_data c) @ bs @ drop (cur_pos c + length bs) (cur_data c),
      cur_pos = cur_pos c + length bs\<rparr>"

definition seek_start :: "cursor \<Rightarrow> cursor" where
  "seek_start c = c\<lparr>cur_pos := 0\<rparr>"

definition write_header :: "nat \<Rightarrow> u64 option \<Rightarrow> cursor \<Rightarrow> cursor" where
  "write_header len digest c =
     write_all (header_as_bytes \<lparr>magic = MAGIC_NUMBER, version = VERSION,
       unwind_info_digest = (case digest of None \<Rightarrow> 0 | Some d \<Rightarrow> d), unwind_info_len = of_nat len\<rparr>) c"

definition digest_of :: "(u8 list \<Rightarrow> u8 list) \<Rightarrow> u8 list \<Rightarrow> u64" where
  "digest_of sha256 bs = word_le (take 8 (sha256 bs))"

definition write_unwind_info ::
    "(u8 list \<Rightarrow> u8 list) \<Rightarrow> CompactUnwindRow list \<Rightarrow> cursor \<Rightarrow> u64 \<times> cursor" where
  "write_unwind_info sha256 unwind_info c =
     (digest_of sha256 (concat (map row_bytes unwind_info)),
      fold (\<lambda>row. write_all (row_bytes row)) unwind_info c)"

definition writer_write :: "(u8 list \<Rightarrow> u8 list) \<Rightarrow> CompactUnwindRow list \<Rightarrow> cursor \<Rightarrow> cursor" where
  "writer_write sha256 unwind_info c =
     (let c1 = write_header 0 None c;
          (digest, c2) = write_unwind_info sha256 unwind_info c1
      in write_header (length unwind_info) (Some digest) (seek_start c2))"

section \<open>The reader\<close>

datatype ReaderError = Bad_magic_number | Bad_version | Out_of_range | Bad_digest

definition parse_header :: "u8 list \<Rightarrow> ReaderError + Header" where
  "parse_header data =
     (if length data < header_size then Inl Out_of_range
      else let header = header_from_bytes (take header_size data) in
        if magic header \<noteq> MAGIC_NUMBER then Inl Bad_magic_number
        else if version header \<noteq> VERSION then Inl Bad_version
        else Inr header)"

text \<open>The loop over the rows.\<close>

fun read_rows :: "nat \<Rightarrow> u8 list \<Rightarrow> (ReaderError + CompactUnwindRow list) execution" where
  "read_rows 0 data = Returns (Inr [])"
| "read_rows (Suc n) data =
     (if length data < unwind_row_size then Returns (Inl Out_of_range)
      else case row_from_bytes (take unwind_row_size data) of
          None \<Rightarrow> Undefined_behaviour
        | Some row \<Rightarrow>
            (case read_rows n (drop unwind_row_size data) of
               Returns (Inr rows) \<Rightarrow> Returns (Inr (row # rows))
             | r \<Rightarrow> r))"

text \<open>
  The vector is allocated for the number of rows in the header, which panics when its bytes exceed \<open>isize::MAX\<close>; below
  that the memory is taken to suffice.
\<close>

definition reader_unwind_info ::
    "(u8 list \<Rightarrow> u8 list) \<Rightarrow> bool \<Rightarrow> u8 list \<Rightarrow> Header \<Rightarrow> (ReaderError + CompactUnwindRow list) execution" where
  "reader_unwind_info sha256 check_digest data header =
     (let len = unat (unwind_info_len header);
          unwind_info_data = drop header_size data
      in if 2 ^ 63 \<le> len * unwind_row_size then Panics
         else case read_rows len unwind_info_data of
           Returns (Inr rows) \<Rightarrow>
             Returns (if check_digest \<and>
                unwind_info_digest header \<noteq> digest_of sha256 (take (len * unwind_row_size) unwind_info_data)
             then Inl Bad_digest else Inr rows)
         | r \<Rightarrow> r)"

definition read_unwind_info ::
    "(u8 list \<Rightarrow> u8 list) \<Rightarrow> bool \<Rightarrow> u8 list \<Rightarrow> (ReaderError + CompactUnwindRow list) execution" where
  "read_unwind_info sha256 check_digest data =
     (case parse_header data of
        Inl e \<Rightarrow> Returns (Inl e)
      | Inr header \<Rightarrow> reader_unwind_info sha256 check_digest data header)"

section \<open>Round trips of the parts\<close>

lemma cfa_of_code [simp]: "cfa_of_code (cfa_code t) = Some t"
  by (cases t) (simp_all add: cfa_of_code_def)

lemma rbp_of_code [simp]: "rbp_of_code (rbp_code t) = Some t"
  by (cases t) (simp_all add: rbp_of_code_def)

lemma length_row_bytes [simp]: "length (row_bytes r) = unwind_row_size"
  by (simp add: row_bytes_def unwind_row_size_def)

lemma length_header_as_bytes [simp]: "length (header_as_bytes h) = header_size"
  by (simp add: header_as_bytes_def header_size_def)

lemma word_le_bytes_le_16 [simp]: "word_le (bytes_le 2 (x :: u16)) = x"
  by (rule word_le_bytes_le) simp

lemma row_roundtrip [simp]: "row_from_bytes (row_bytes r) = Some r"
  by (simp add: row_from_bytes_def row_bytes_def slice_def nth_append)

lemma header_roundtrip [simp]: "header_from_bytes (header_as_bytes h) = h"
  by (simp add: header_from_bytes_def header_as_bytes_def slice_def)

lemma read_rows_roundtrip: "read_rows (length rows) (concat (map row_bytes rows) @ rest) = Returns (Inr rows)"
  by (induction rows) simp_all

lemma write_all_end: "cur_pos c = length (cur_data c) \<Longrightarrow>
   write_all bs c = \<lparr>cur_data = cur_data c @ bs, cur_pos = length (cur_data c @ bs)\<rparr>"
  by (simp add: write_all_def)

lemma write_rows_end:
  "cur_pos c = length (cur_data c) \<Longrightarrow>
   fold (\<lambda>row. write_all (row_bytes row)) rows c =
     \<lparr>cur_data = cur_data c @ concat (map row_bytes rows), cur_pos = length (cur_data c @ concat (map row_bytes rows))\<rparr>"
proof (induction rows arbitrary: c)
  case Nil
  then show ?case by simp
next
  case (Cons r rows)
  then show ?case by (simp add: write_all_end)
qed

definition written_header :: "(u8 list \<Rightarrow> u8 list) \<Rightarrow> CompactUnwindRow list \<Rightarrow> Header" where
  "written_header sha256 rows = \<lparr>magic = MAGIC_NUMBER, version = VERSION,
     unwind_info_digest = digest_of sha256 (concat (map row_bytes rows)), unwind_info_len = of_nat (length rows)\<rparr>"

definition empty_file :: cursor where
  "empty_file = \<lparr>cur_data = [], cur_pos = 0\<rparr>"

text \<open>What is in a new file after writing: one header and the rows.\<close>

lemma written_file:
  "cur_data (writer_write sha256 rows empty_file) =
     header_as_bytes (written_header sha256 rows) @ concat (map row_bytes rows)"
  by (simp add: writer_write_def write_header_def write_unwind_info_def empty_file_def write_all_end write_rows_end
      Let_def seek_start_def write_all_def [of _ "\<lparr>cur_data = _, cur_pos = 0\<rparr>"] written_header_def)

lemma parse_written_header:
  "parse_header (header_as_bytes (written_header sha256 rows) @ rest) = Inr (written_header sha256 rows)"
  by (simp add: parse_header_def written_header_def Let_def)

lemma length_rows_bytes [simp]: "length (concat (map row_bytes rows)) = length rows * unwind_row_size"
  by (induction rows) simp_all

lemma unat_written_len:
  "length rows * unwind_row_size < 2 ^ 63 \<Longrightarrow> unat (unwind_info_len (written_header sha256 rows)) = length rows"
  by (simp add: written_header_def unwind_row_size_def unat_of_nat_64)

lemma written_digest:
  "unwind_info_digest (written_header sha256 rows) = digest_of sha256 (concat (map row_bytes rows))"
  by (simp add: written_header_def)

section \<open>Properties\<close>

text \<open>
  C23. A table written to a new file is read back exactly, with and without checking the digest, and
  whatever the digest function is. The dummy header that is written first leaves no trace.
\<close>

theorem written_table_is_read_back:
  assumes "length rows * unwind_row_size < 2 ^ 63"
  shows "read_unwind_info sha256 check_digest (cur_data (writer_write sha256 rows empty_file)) = Returns (Inr rows)"
  using read_rows_roundtrip [of rows "[]"] unat_written_len [OF assms, of sha256] assms
  by (simp add: read_unwind_info_def written_file parse_written_header reader_unwind_info_def Let_def
      written_digest)

theorem written_table_is_read_back_witness:
  "read_unwind_info id True (cur_data (writer_write id gap_table empty_file)) = Returns (Inr gap_table)"
  using written_table_is_read_back [of gap_table id True] by (simp add: gap_table_def unwind_row_size_def)

lemma read_rows_truncated:
  "n < length rows * unwind_row_size \<Longrightarrow>
   read_rows (length rows) (take n (concat (map row_bytes rows))) = Returns (Inl Out_of_range)"
proof (induction rows arbitrary: n)
  case (Cons r rows)
  show ?case
  proof (cases "n < unwind_row_size")
    case True
    then show ?thesis by simp
  next
    case False
    then have "read_rows (length rows) (take (n - unwind_row_size) (concat (map row_bytes rows))) = Returns (Inl Out_of_range)"
      using Cons by simp
    with False show ?thesis by simp
  qed
qed simp

text \<open>Whether the bytes of so many rows have values of the enumerations in the places of the types.\<close>

fun rows_decode :: "nat \<Rightarrow> u8 list \<Rightarrow> bool" where
  "rows_decode 0 data \<longleftrightarrow> True"
| "rows_decode (Suc n) data \<longleftrightarrow> data ! 8 \<le> 9 \<and> data ! 9 \<le> 5 \<and> rows_decode n (drop unwind_row_size data)"

lemma cfa_of_code_None: "cfa_of_code c = None \<longleftrightarrow> \<not> c \<le> 9"
  by (simp add: cfa_of_code_def word_le_nat_alt word_unat_eq_iff)

lemma rbp_of_code_None: "rbp_of_code c = None \<longleftrightarrow> \<not> c \<le> 5"
  by (simp add: rbp_of_code_def word_le_nat_alt word_unat_eq_iff)

lemma read_rows_complete:
  "length data = n * unwind_row_size \<Longrightarrow>
   (if rows_decode n data then \<exists>rows. read_rows n data = Returns (Inr rows) else read_rows n data = Undefined_behaviour)"
proof (induction n data rule: rows_decode.induct)
  case (2 n data)
  have nth: "take unwind_row_size data ! 8 = data ! 8" "take unwind_row_size data ! 9 = data ! 9"
    by (simp_all add: unwind_row_size_def)
  have "row_from_bytes (take unwind_row_size data) = None \<longleftrightarrow> \<not> (data ! 8 \<le> 9 \<and> data ! 9 \<le> 5)"
    using cfa_of_code_None [of "data ! 8"] rbp_of_code_None [of "data ! 9"]
    by (auto simp: row_from_bytes_def nth split: option.split)
  with 2 show ?case
    by (cases "row_from_bytes (take unwind_row_size data)"; cases "rows_decode n (drop unwind_row_size data)") auto
qed simp

text \<open>
  C30. Damaged files are rejected. A file cut off anywhere is out of range, whatever its length. A file
  whose rows were replaced by other bytes of the same length, which the digest function tells apart, is rejected for its
  digest when digests are checked, as long as the bytes are values of the enumerations; bytes that are not are undefined
  behaviour before the digest is even looked at.
\<close>

theorem damaged_file_is_rejected:
  assumes "length rows * unwind_row_size < 2 ^ 63"
    and "content = cur_data (writer_write sha256 rows empty_file)"
  shows "(n < length content \<longrightarrow> read_unwind_info sha256 check_digest (take n content) = Returns (Inl Out_of_range)) \<and>
     (length body = length rows * unwind_row_size \<and>
      digest_of sha256 body \<noteq> digest_of sha256 (concat (map row_bytes rows)) \<longrightarrow>
      read_unwind_info sha256 True (take header_size content @ body) =
        (if rows_decode (length rows) body then Returns (Inl Bad_digest) else Undefined_behaviour))"
proof (intro conjI impI)
  let ?h = "header_as_bytes (written_header sha256 rows)"
  note len = unat_written_len [OF assms(1), of sha256]
  have content: "content = ?h @ concat (map row_bytes rows)" unfolding assms(2) by (rule written_file)
  show "read_unwind_info sha256 check_digest (take n content) = Returns (Inl Out_of_range)" if "n < length content"
  proof (cases "n < header_size")
    case True
    then show ?thesis by (simp add: read_unwind_info_def parse_header_def content)
  next
    case False
    then have "take n content = ?h @ take (n - header_size) (concat (map row_bytes rows))" by (simp add: content)
    moreover have "n - header_size < length rows * unwind_row_size" using that False by (simp add: content)
    ultimately show ?thesis
      using read_rows_truncated len assms(1)
      by (simp add: read_unwind_info_def parse_written_header reader_unwind_info_def Let_def)
  qed
  assume body: "length body = length rows * unwind_row_size \<and>
    digest_of sha256 body \<noteq> digest_of sha256 (concat (map row_bytes rows))"
  then have "unwind_info_digest (written_header sha256 rows) \<noteq> digest_of sha256 body"
    unfolding written_digest by metis
  then show "read_unwind_info sha256 True (take header_size content @ body) =
      (if rows_decode (length rows) body then Returns (Inl Bad_digest) else Undefined_behaviour)"
    using body len assms(1) read_rows_complete [of body "length rows"]
    by (auto simp: content read_unwind_info_def parse_written_header reader_unwind_info_def Let_def)
qed

theorem damaged_file_is_rejected_witness:
  "read_unwind_info id True (take 40 (cur_data (writer_write id gap_table empty_file))) = Returns (Inl Out_of_range)"
proof -
  have "40 < length (cur_data (writer_write id gap_table empty_file))"
    by (simp add: written_file header_size_def unwind_row_size_def) (simp add: gap_table_def)
  then show ?thesis
    using damaged_file_is_rejected [of gap_table "cur_data (writer_write id gap_table empty_file)" id 40 True]
    by (simp add: unwind_row_size_def) (simp add: gap_table_def)
qed

text \<open>
  The number of rows is believed before the digest is checked: a file that consists only of a valid
  header with a huge number of rows makes the reader panic when it allocates the vector.
\<close>

lemma huge_length_panics:
  "read_unwind_info sha256 check_digest (header_as_bytes \<lparr>magic = MAGIC_NUMBER, version = VERSION,
     unwind_info_digest = d, unwind_info_len = 2 ^ 60\<rparr>) = Panics"
proof -
  have "unat (2 ^ 60 :: u64) = 2 ^ 60" using unat_of_nat_64 [of "2 ^ 60"] by simp
  then show ?thesis
    by (simp add: read_unwind_info_def parse_header_def reader_unwind_info_def Let_def unwind_row_size_def)
qed

end
