(* ===== verification/Optimize.thy ===== *)
theory Optimize
  imports Pages
begin

text \<open>
  src/src/unwind\_info/optimize.rs: the two in-place compactions that user space applies to an unwind
  table before it is stored. Both overwrite the front of the vector while they read it, so the model
  has the vector, the two indices and the panic of an index out of range. The lemmas relate the loops
  to plain list functions and these to \<open>rule_at\<close>, the unwinding rule a table gives for a program
  counter, which is what the tables are for.
\<close>

section \<open>The loops\<close>

text \<open>
  Both functions are this loop over \<open>i\<close>: it may step the write index back (\<open>pop\<close>), and writes the row
  unless it is redundant. \<open>usize\<close> arithmetic wraps; a write out of range panics (\<open>None\<close>).
\<close>

type_synonym row_test = "CompactUnwindRow option \<Rightarrow> CompactUnwindRow \<Rightarrow> bool"

fun compact_loop ::
    "row_test \<Rightarrow> row_test \<Rightarrow> nat \<Rightarrow> nat \<Rightarrow> CompactUnwindRow list \<Rightarrow> u64 \<Rightarrow> CompactUnwindRow option \<Rightarrow>
     (CompactUnwindRow list \<times> u64) option" where
  "compact_loop pop redundant 0 i unwind_info new_i last_row = Some (unwind_info, new_i)"
| "compact_loop pop redundant (Suc n) i unwind_info new_i last_row =
     (let row = unwind_info ! i;
          new_i1 = (if pop last_row row then new_i - 1 else new_i)
      in if redundant last_row row
         then compact_loop pop redundant n (Suc i) unwind_info new_i1 (Some row)
         else if unat new_i1 < length unwind_info
         then compact_loop pop redundant n (Suc i) (unwind_info[unat new_i1 := row]) (new_i1 + 1) (Some row)
         else None)"

definition compact :: "row_test \<Rightarrow> row_test \<Rightarrow> CompactUnwindRow list \<Rightarrow> CompactUnwindRow list option" where
  "compact pop redundant unwind_info =
     (case compact_loop pop redundant (length unwind_info) 0 unwind_info 0 None of
        None \<Rightarrow> None
      | Some (rows, new_i) \<Rightarrow> Some (take (unat new_i) rows))"

definition previous_is_redundant_marker :: row_test where
  "previous_is_redundant_marker last_row row =
     (case last_row of
        None \<Rightarrow> False
      | Some l \<Rightarrow> cu_cfa_type l = Cfa_EndFdeMarker \<and> cu_pc l = cu_pc row)"

definition current_is_redundant_marker :: row_test where
  "current_is_redundant_marker last_row row =
     (case last_row of
        None \<Rightarrow> False
      | Some l \<Rightarrow> cu_cfa_type row = Cfa_EndFdeMarker \<and> cu_pc l = cu_pc row)"

definition remove_unnecesary_markers :: "CompactUnwindRow list \<Rightarrow> CompactUnwindRow list option" where
  "remove_unnecesary_markers = compact previous_is_redundant_marker current_is_redundant_marker"

definition is_redundant :: row_test where
  "is_redundant last_row row =
     (case last_row of
        None \<Rightarrow> False
      | Some l \<Rightarrow> cu_cfa_type row = cu_cfa_type l \<and> cu_cfa_offset row = cu_cfa_offset l \<and>
          cu_rbp_type row = cu_rbp_type l \<and> cu_rbp_offset row = cu_rbp_offset l)"

definition remove_redundant :: "CompactUnwindRow list \<Rightarrow> CompactUnwindRow list option" where
  "remove_redundant = compact (\<lambda>last_row row. False) is_redundant"

text \<open>The rows that user space makes up itself (src/src/unwind\_info/types.rs).\<close>

definition frame_setup :: "u64 \<Rightarrow> CompactUnwindRow" where
  "frame_setup pc = \<lparr>cu_pc = pc, cu_cfa_type = Cfa_FramePointerOffset, cu_rbp_type = Rbp_CfaOffset,
     cu_cfa_offset = 16, cu_rbp_offset = -16\<rparr>"

definition stop_unwinding :: "u64 \<Rightarrow> CompactUnwindRow" where
  "stop_unwinding last_addr = \<lparr>cu_pc = last_addr, cu_cfa_type = Cfa_EndFdeMarker, cu_rbp_type = Rbp_Unchanged,
     cu_cfa_offset = 0, cu_rbp_offset = 0\<rparr>"

section \<open>The loop on lists\<close>

fun compact_list :: "row_test \<Rightarrow> row_test \<Rightarrow> CompactUnwindRow list \<Rightarrow> CompactUnwindRow option \<Rightarrow>
    CompactUnwindRow list \<Rightarrow> CompactUnwindRow list" where
  "compact_list pop redundant out last_row [] = out"
| "compact_list pop redundant out last_row (row # rows) =
     compact_list pop redundant
       ((if pop last_row row then butlast out else out) @ (if redundant last_row row then [] else [row]))
       (Some row) rows"

text \<open>The loop never steps back from the front.\<close>

fun pops_safely :: "row_test \<Rightarrow> row_test \<Rightarrow> CompactUnwindRow list \<Rightarrow> CompactUnwindRow option \<Rightarrow>
    CompactUnwindRow list \<Rightarrow> bool" where
  "pops_safely pop redundant out last_row [] = True"
| "pops_safely pop redundant out last_row (row # rows) =
     ((pop last_row row \<longrightarrow> out \<noteq> []) \<and>
      pops_safely pop redundant
        ((if pop last_row row then butlast out else out) @ (if redundant last_row row then [] else [row]))
        (Some row) rows)"

lemma unat_pred_64: "n < 2 ^ 64 \<Longrightarrow> 0 < n \<Longrightarrow> unat (of_nat n - 1 :: u64) = n - 1"
  by (cases n) (simp_all add: unat_of_nat_64)

lemma compact_loop_list:
  assumes "length unwind_info < 2 ^ 64" "take (length out) unwind_info = out" "drop i unwind_info = rows"
    and "length out \<le> i" "i + length rows = length unwind_info" "pops_safely pop redundant out last_row rows"
  shows "\<exists>v. compact_loop pop redundant (length rows) i unwind_info (of_nat (length out)) last_row =
       Some (v, of_nat (length (compact_list pop redundant out last_row rows))) \<and>
     take (length (compact_list pop redundant out last_row rows)) v = compact_list pop redundant out last_row rows \<and>
     length (compact_list pop redundant out last_row rows) < 2 ^ 64"
  using assms
proof (induction rows arbitrary: out i unwind_info last_row)
  case Nil
  then show ?case by simp
next
  case (Cons row rows)
  define o1 where "o1 = (if pop last_row row then butlast out else out)"
  have i: "i < length unwind_info" "unwind_info ! i = row" "drop (Suc i) unwind_info = rows"
    using Cons.prems(3,5) nth_via_drop [OF Cons.prems(3)] tl_drop [of i unwind_info]
    by (simp_all add: drop_Suc)
  have "length o1 \<le> length out" by (simp add: o1_def)
  then have len: "length o1 \<le> i" "length o1 < 2 ^ 64" using Cons.prems(1,4) i(1) by linarith+
  have o1: "take (length o1) unwind_info = o1"
  proof -
    have "take (length o1) unwind_info = take (length o1) out"
      using Cons.prems(2) \<open>length o1 \<le> length out\<close> by (metis min.absorb1 take_take)
    then show ?thesis by (simp add: o1_def butlast_conv_take)
  qed
  have safe: "pop last_row row \<longrightarrow> out \<noteq> []"
    "pops_safely pop redundant (o1 @ (if redundant last_row row then [] else [row])) (Some row) rows"
    using Cons.prems(6) by (simp_all add: o1_def)
  have idx: "(if pop last_row row then of_nat (length out) - 1 else of_nat (length out)) = (of_nat (length o1) :: u64)"
    using safe(1) by (simp add: o1_def of_nat_diff Suc_leI)
  have list: "compact_list pop redundant out last_row (row # rows) =
      compact_list pop redundant (o1 @ (if redundant last_row row then [] else [row])) (Some row) rows"
    by (simp add: o1_def)
  show ?case
  proof (cases "redundant last_row row")
    case True
    then have "compact_loop pop redundant (length (row # rows)) i unwind_info (of_nat (length out)) last_row =
        compact_loop pop redundant (length rows) (Suc i) unwind_info (of_nat (length o1)) (Some row)"
      using i idx by (simp add: Let_def)
    then show ?thesis
      unfolding list using Cons.IH [of unwind_info o1 "Suc i" "Some row"] Cons.prems(1,5) i o1 len safe True
      by simp
  next
    case False
    let ?v = "unwind_info[length o1 := row]"
    have "compact_loop pop redundant (length (row # rows)) i unwind_info (of_nat (length out)) last_row =
        compact_loop pop redundant (length rows) (Suc i) ?v (of_nat (length (o1 @ [row]))) (Some row)"
      using i idx len False by (simp add: Let_def unat_of_nat_64 add.commute)
    moreover have "take (length (o1 @ [row])) ?v = o1 @ [row]"
      using o1 i len by (simp add: take_Suc_conv_app_nth)
    moreover have "drop (Suc i) ?v = rows" using i len by (simp add: drop_update_cancel)
    ultimately show ?thesis
      unfolding list using Cons.IH [of ?v "o1 @ [row]" "Suc i" "Some row"] Cons.prems(1,5) len safe False
      by simp
  qed
qed

lemma compact_eq:
  assumes "length unwind_info < 2 ^ 64" "pops_safely pop redundant [] None unwind_info"
  shows "compact pop redundant unwind_info = Some (compact_list pop redundant [] None unwind_info)"
  using compact_loop_list [of unwind_info "[]" 0 unwind_info pop redundant None] assms
  by (auto simp: compact_def unat_of_nat_64)

section \<open>What a table means\<close>

text \<open>The unwinding rule of a row, and the one a table gives for a program counter.\<close>

type_synonym unwind_rule = "CfaType \<times> u16 \<times> RbpType \<times> s16"

definition rule_of :: "CompactUnwindRow \<Rightarrow> unwind_rule" where
  "rule_of r = (cu_cfa_type r, cu_cfa_offset r, cu_rbp_type r, cu_rbp_offset r)"

fun rule_at :: "CompactUnwindRow list \<Rightarrow> u64 \<Rightarrow> unwind_rule option" where
  "rule_at [] pc = None"
| "rule_at (r # rs) pc =
     (case rule_at rs pc of
        Some rule \<Rightarrow> Some rule
      | None \<Rightarrow> if cu_pc r \<le> pc then Some (rule_of r) else None)"

lemma rule_at_append:
  "rule_at (xs @ ys) pc = (case rule_at ys pc of Some rule \<Rightarrow> Some rule | None \<Rightarrow> rule_at xs pc)"
  by (induction xs) (auto split: option.split)

lemma rule_at_None_iff: "rule_at rs pc = None \<longleftrightarrow> (\<forall>r \<in> set rs. \<not> cu_pc r \<le> pc)"
proof (induction rs)
  case (Cons r rs)
  then show ?case by (cases "rule_at rs pc") simp_all
qed simp

lemma covering_row_snoc:
  "covering_row (xs @ [x]) pc = (if cu_pc x \<le> pc then Some (length xs) else covering_row xs pc)"
proof -
  have "find (\<lambda>k. cu_pc ((xs @ [x]) ! k) \<le> pc) (rev [0..<length xs]) =
      find (\<lambda>k. cu_pc (xs ! k) \<le> pc) (rev [0..<length xs])"
    by (rule find_cong) (auto simp: nth_append)
  then show ?thesis by (simp add: covering_row_def)
qed

text \<open>It is the rule of the row that the BPF program looks for (\<open>covering_row\<close>).\<close>

lemma rule_at_covering_row:
  "rule_at rows pc = map_option (\<lambda>j. rule_of (rows ! j)) (covering_row rows pc)"
proof (induction rows rule: rev_induct)
  case Nil
  then show ?case by (simp add: covering_row_def)
next
  case (snoc x xs)
  have "j < length xs" if "covering_row xs pc = Some j" for j
    using that by (auto simp: covering_row_def find_Some_iff rev_nth)
  with snoc show ?case
    by (cases "covering_row xs pc") (auto simp: covering_row_snoc rule_at_append nth_append)
qed

section \<open>Redundant rows\<close>

fun dedup_from :: "CompactUnwindRow \<Rightarrow> CompactUnwindRow list \<Rightarrow> CompactUnwindRow list" where
  "dedup_from l [] = []"
| "dedup_from l (r # rs) = (if rule_of r = rule_of l then dedup_from r rs else r # dedup_from r rs)"

lemma is_redundant_iff: "is_redundant (Some l) r \<longleftrightarrow> rule_of r = rule_of l"
  by (simp add: is_redundant_def rule_of_def)

lemma pops_safely_never: "pops_safely (\<lambda>last_row row. False) redundant out last_row rows"
  by (induction rows arbitrary: out last_row) auto

lemma compact_list_redundant:
  "compact_list (\<lambda>last_row row. False) is_redundant out (Some l) rows = out @ dedup_from l rows"
  by (induction rows arbitrary: out l) (auto simp: is_redundant_iff)

definition dedup :: "CompactUnwindRow list \<Rightarrow> CompactUnwindRow list" where
  "dedup rows = (case rows of [] \<Rightarrow> [] | r # rs \<Rightarrow> r # dedup_from r rs)"

lemma remove_redundant_eq:
  assumes "length rows < 2 ^ 64"
  shows "remove_redundant rows = Some (dedup rows)"
proof -
  have "compact_list (\<lambda>last_row row. False) is_redundant [] None rows = dedup rows"
    by (cases rows) (simp_all add: dedup_def compact_list_redundant is_redundant_def)
  then show ?thesis
    using compact_eq [OF assms pops_safely_never] by (simp add: remove_redundant_def)
qed

lemma rule_at_dedup_from:
  assumes "rule_of k = rule_of l" "sorted (map cu_pc (k # l # rs))"
  shows "rule_at (k # dedup_from l rs) pc = rule_at (k # rs) pc"
  using assms
proof (induction rs arbitrary: k l)
  case Nil
  then show ?case by simp
next
  case (Cons r rs)
  show ?case
  proof (cases "rule_of r = rule_of l")
    case True
    with Cons.prems Cons.IH [of k r] have "rule_at (k # dedup_from l (r # rs)) pc = rule_at (k # rs) pc"
      by simp
    also have "\<dots> = rule_at (k # r # rs) pc"
      using Cons.prems True by (auto split: option.split dest: order_trans)
    finally show ?thesis .
  next
    case False
    with Cons.prems Cons.IH [of r r] show ?thesis by simp
  qed
qed

lemma rule_at_dedup: "sorted (map cu_pc rows) \<Longrightarrow> rule_at (dedup rows) pc = rule_at rows pc"
  using rule_at_dedup_from by (cases rows) (auto simp: dedup_def)

lemma dedup_from_subset: "set (dedup_from l rs) \<subseteq> set rs"
  by (induction rs arbitrary: l) auto

lemma dedup_subset: "set (dedup rows) \<subseteq> set rows"
proof (cases rows)
  case (Cons r rs)
  then show ?thesis using dedup_from_subset [of r rs] by (auto simp: dedup_def)
qed (simp add: dedup_def)

lemma sorted_dedup_from: "sorted (map cu_pc rs) \<Longrightarrow> sorted (map cu_pc (dedup_from l rs))"
proof (induction rs arbitrary: l)
  case (Cons r rs)
  then show ?case using dedup_from_subset [of r rs] by auto
qed simp

lemma sorted_dedup: "sorted (map cu_pc rows) \<Longrightarrow> sorted (map cu_pc (dedup rows))"
proof (cases rows)
  case (Cons r rs)
  moreover assume "sorted (map cu_pc rows)"
  ultimately show ?thesis
    using sorted_dedup_from [of rs r] dedup_from_subset [of r rs] by (auto simp: dedup_def)
qed (simp add: dedup_def)

lemma length_dedup: "length (dedup rows) \<le> length rows"
proof -
  have "length (dedup_from l rs) \<le> length rs" for l rs
    by (induction rs arbitrary: l) (auto simp: le_SucI)
  then show ?thesis by (cases rows) (auto simp: dedup_def)
qed

section \<open>Markers\<close>

definition is_marker :: "CompactUnwindRow \<Rightarrow> bool" where
  "is_marker r \<longleftrightarrow> cu_cfa_type r = Cfa_EndFdeMarker"

fun drop_markers :: "CompactUnwindRow list \<Rightarrow> CompactUnwindRow list" where
  "drop_markers (r # r' # rs) =
     (if is_marker r \<and> cu_pc r = cu_pc r' then drop_markers (r' # rs) else r # drop_markers (r' # rs))"
| "drop_markers rs = rs"

text \<open>Two neighbours at the same program counter are a marker and a row of the next function.\<close>

fun markers_wf :: "CompactUnwindRow list \<Rightarrow> bool" where
  "markers_wf (r # r' # rs) \<longleftrightarrow>
     (cu_pc r = cu_pc r' \<longrightarrow> is_marker r \<and> \<not> is_marker r') \<and> markers_wf (r' # rs)"
| "markers_wf rs \<longleftrightarrow> True"

lemma marker_tests:
  "previous_is_redundant_marker (Some l) r \<longleftrightarrow> is_marker l \<and> cu_pc l = cu_pc r"
  "current_is_redundant_marker (Some l) r \<longleftrightarrow> is_marker r \<and> cu_pc l = cu_pc r"
  by (simp_all add: previous_is_redundant_marker_def current_is_redundant_marker_def is_marker_def)

lemma compact_list_markers:
  assumes "markers_wf (l # rows)"
  shows "compact_list previous_is_redundant_marker current_is_redundant_marker (out @ [l]) (Some l) rows =
       out @ drop_markers (l # rows) \<and>
     pops_safely previous_is_redundant_marker current_is_redundant_marker (out @ [l]) (Some l) rows"
  using assms
proof (induction rows arbitrary: out l)
  case Nil
  then show ?case by simp
next
  case (Cons r rows)
  have wf: "markers_wf (r # rows)" and keep: "\<not> current_is_redundant_marker (Some l) r"
    using Cons.prems by (auto simp: marker_tests)
  show ?case
  proof (cases "is_marker l \<and> cu_pc l = cu_pc r")
    case True
    with keep Cons.IH [OF wf, of out] show ?thesis by (simp add: marker_tests(1))
  next
    case False
    then have "drop_markers (l # r # rows) = l # drop_markers (r # rows)"
      "\<not> previous_is_redundant_marker (Some l) r"
      by (auto simp: marker_tests)
    with keep Cons.IH [OF wf, of "out @ [l]"] show ?thesis by (simp del: drop_markers.simps)
  qed
qed

lemma remove_markers_eq:
  assumes "length rows < 2 ^ 64" "markers_wf rows"
  shows "remove_unnecesary_markers rows = Some (drop_markers rows)"
proof (cases rows)
  case Nil
  then show ?thesis by (simp add: remove_unnecesary_markers_def compact_def)
next
  case (Cons r rs)
  have none: "previous_is_redundant_marker None r = False" "current_is_redundant_marker None r = False"
    by (simp_all add: previous_is_redundant_marker_def current_is_redundant_marker_def)
  show ?thesis
    using compact_eq [OF assms(1), of previous_is_redundant_marker current_is_redundant_marker]
      compact_list_markers [of r rs "[]"] assms(2) Cons none
    by (simp add: remove_unnecesary_markers_def)
qed

lemma rule_at_drop_markers: "rule_at (drop_markers rows) pc = rule_at rows pc"
  by (induction rows rule: drop_markers.induct) (auto split: option.split)

lemma drop_markers_subset: "set (drop_markers rows) \<subseteq> set rows"
  by (induction rows rule: drop_markers.induct) auto

lemma length_drop_markers: "length (drop_markers rows) \<le> length rows"
  by (induction rows rule: drop_markers.induct) auto

lemma sorted_drop_markers: "sorted (map cu_pc rows) \<Longrightarrow> sorted (map cu_pc (drop_markers rows))"
proof (induction rows rule: drop_markers.induct)
  case (1 r r' rs)
  then show ?case using drop_markers_subset [of "r' # rs"] by auto
qed simp_all

section \<open>Properties\<close>

lemma distinct_adj_dedup_from: "rule_of k = rule_of l \<Longrightarrow> distinct_adj (map rule_of (k # dedup_from l rs))"
proof (induction rs arbitrary: k l)
  case (Cons r rs)
  then show ?case using Cons.IH [of k r] Cons.IH [of r r] by (cases "rule_of r = rule_of l") simp_all
qed simp

lemma distinct_adj_dedup: "distinct_adj (map rule_of (dedup rows))"
  using distinct_adj_dedup_from by (cases rows) (auto simp: dedup_def)

text \<open>
  remove\_redundant is a correct compression of a sorted table: it does not panic, every program
  counter keeps its unwinding rule, the result is sorted and no longer than the input, and it is as
  short as it can be, since no two neighbouring rows have the same rule.
\<close>

lemma remove_redundant_preserves_rules:
  assumes "sorted (map cu_pc rows)" "length rows < 2 ^ 64"
  shows "\<exists>rows'. remove_redundant rows = Some rows' \<and> (\<forall>pc. rule_at rows' pc = rule_at rows pc) \<and>
     sorted (map cu_pc rows') \<and> length rows' \<le> length rows \<and> distinct_adj (map rule_of rows')"
  using assms remove_redundant_eq rule_at_dedup sorted_dedup length_dedup distinct_adj_dedup by blast

lemma constructor_fields [simp]:
  "cu_pc (frame_setup pc) = pc" "cu_pc (stop_unwinding pc) = pc"
  "is_marker (stop_unwinding pc)" "\<not> is_marker (frame_setup pc)"
  "rule_of (frame_setup pc) = (Cfa_FramePointerOffset, 16, Rbp_CfaOffset, -16)"
  "rule_of (stop_unwinding pc) = (Cfa_EndFdeMarker, 0, Rbp_Unchanged, 0)"
  by (simp_all add: frame_setup_def stop_unwinding_def is_marker_def rule_of_def)

lemma remove_redundant_preserves_rules_example:
  "\<exists>rows'. remove_redundant [frame_setup 0x10, frame_setup 0x20, stop_unwinding 0x30] = Some rows' \<and>
     rule_at rows' 0x25 = Some (rule_of (frame_setup 0x20)) \<and> length rows' \<le> 3"
  using remove_redundant_preserves_rules [of "[frame_setup 0x10, frame_setup 0x20, stop_unwinding 0x30]"] by auto

lemma strict_drop_markers:
  assumes "markers_wf rows" "sorted (map cu_pc rows)"
  shows "sorted_wrt (<) (map cu_pc (drop_markers rows))"
  using assms
proof (induction rows rule: drop_markers.induct)
  case (1 r r' rs)
  show ?case
  proof (cases "is_marker r \<and> cu_pc r = cu_pc r'")
    case True
    with 1 show ?thesis by simp
  next
    case False
    with "1.prems" have "cu_pc r < cu_pc r'" by (auto simp: order_le_less)
    then have "\<forall>x \<in> set (drop_markers (r' # rs)). cu_pc r < cu_pc x"
      using drop_markers_subset [of "r' # rs"] "1.prems"(2) by (auto dest!: subsetD intro: less_le_trans)
    with False 1 show ?thesis by auto
  qed
qed simp_all

text \<open>
  remove\_unnecesary\_markers is correct on the tables it is meant for (sorted, and rows at the
  same program counter are only the end marker of a function followed by the first row of the next):
  it does not panic, every program counter keeps its unwinding rule, and afterwards program counters
  are strictly increasing.
\<close>

lemma remove_unnecesary_markers_preserves_rules:
  assumes "sorted (map cu_pc rows)" "markers_wf rows" "length rows < 2 ^ 64"
  shows "\<exists>rows'. remove_unnecesary_markers rows = Some rows' \<and> (\<forall>pc. rule_at rows' pc = rule_at rows pc) \<and>
     sorted_wrt (<) (map cu_pc rows') \<and> length rows' \<le> length rows"
  using assms remove_markers_eq rule_at_drop_markers strict_drop_markers length_drop_markers by blast

lemma remove_unnecesary_markers_preserves_rules_example:
  "\<exists>rows'. remove_unnecesary_markers [frame_setup 0x10, stop_unwinding 0x20, frame_setup 0x20] = Some rows' \<and>
     rule_at rows' 0x20 = Some (rule_of (frame_setup 0x20))"
  using remove_unnecesary_markers_preserves_rules [of "[frame_setup 0x10, stop_unwinding 0x20, frame_setup 0x20]"]
  by auto

text \<open>
  Two end markers at the same program counter break remove\_unnecesary\_markers: both are removed,
  so that the rule before them extends past the end of the function; a row that follows at the same
  program counter makes it remove the row before the markers as well, and panic when there is none.
\<close>

lemma repeated_markers_lose_rows:
  assumes "is_marker m" "is_marker m'" "cu_pc m' = cu_pc m" "cu_pc a \<noteq> cu_pc m"
    and "cu_pc b = cu_pc m" "\<not> is_marker b" "\<not> is_marker a"
  shows "remove_unnecesary_markers [a, m, m'] = Some [a] \<and>
     remove_unnecesary_markers [a, m, m', b] = Some [b] \<and>
     remove_unnecesary_markers [m, m', b] = None"
proof -
  have "\<not> unat (- 1 :: u64) < Suc (Suc (Suc 0))" by (simp add: unsigned_minus_1_eq_mask mask_eq_exp_minus_1)
  with assms show ?thesis
    by (simp add: remove_unnecesary_markers_def compact_def numeral_eq_Suc Let_def
        previous_is_redundant_marker_def current_is_redundant_marker_def is_marker_def)
qed

lemma repeated_markers_lose_rows_example:
  "remove_unnecesary_markers [frame_setup 0x10, stop_unwinding 0x20, stop_unwinding 0x20] = Some [frame_setup 0x10]"
  using repeated_markers_lose_rows [of "stop_unwinding 0x20" "stop_unwinding 0x20" "frame_setup 0x10" "frame_setup 0x20"]
  by simp

end
