(* ===== verification/Unwind_Convert.thy ===== *)
theory Unwind_Convert
  imports Optimize
begin

text \<open>
  src/src/unwind\_info/convert.rs: from the frame descriptions of an executable to its compact unwind
  table. Reading \<open>.eh_frame\<close> is the work of the packages object and gimli; what they give for a
  file, an error or the frame description entries with their rows of rules, is the argument of the model.
  \<open>converted_rule\<close> says which converted row a program counter gets; that these rows mean what the entries mean is
  the subject of \<open>Dwarf_Semantics\<close>.
\<close>

section \<open>What gimli gives\<close>

type_synonym register = u16
type_synonym s64 = "64 word"

datatype dwarf_op = RegisterOffset register s64 | Deref | PlusConstant u64 | Other_op

text \<open>An expression: its bytes and its decoded operations, \<open>None\<close> for a decoding error.\<close>

record expression =
  ex_data :: "u8 list"
  ex_ops :: "dwarf_op option list"

text \<open>\<open>CfaExpression None\<close>: the expression could not be read.\<close>

datatype CfaRule = RegisterAndOffset register s64 | CfaExpression "expression option"

text \<open>\<open>Other_rule\<close> stands for the rules that the conversion does not tell apart: values computed from the frame address, by
  an expression or by the architecture, and constants.\<close>

datatype RegisterRule = Undefined | Same_value | Offset s64 | In_register register | In_expression | Other_rule

text \<open>A row: start address, rule of the frame address, rules of frame pointer and return address.\<close>

record gimli_row =
  gr_start_address :: u64
  gr_cfa :: CfaRule
  gr_frame_pointer :: RegisterRule
  gr_return_address :: RegisterRule

text \<open>An entry. A row that fails is \<open>None\<close>; \<open>None\<close> for all rows: the entry cannot be read again.\<close>

record fde =
  fde_initial_address :: u64
  fde_len :: u64
  fde_rows :: "gimli_row option list option"

text \<open>What the file of an executable is found to be, in the order of the checks.\<close>

datatype elf_file =
    Not_readable | Not_parsed | No_eh_frame_section | No_text_section | Not_decompressed | Frame_entries "fde list"

definition fde_end :: "fde \<Rightarrow> u64" where
  "fde_end f = fde_initial_address f + fde_len f"

section \<open>Rows\<close>

definition X86_FP :: register where "X86_FP = 6"
definition X86_SP :: register where "X86_SP = 7"
definition ARM64_FP :: register where "ARM64_FP = 29"
definition ARM64_SP :: register where "ARM64_SP = 31"

text \<open>The byte codes of the two expressions, with the numbers of the DWARF standard.\<close>

definition PLT1 :: "u8 list" where
  "PLT1 = [0x77, 0x08, 0x80, 0x00, 0x3f, 0x1a, 0x3b, 0x2a, 0x33, 0x24, 0x22]"

definition PLT2 :: "u8 list" where
  "PLT2 = [0x77, 0x08, 0x80, 0x00, 0x3f, 0x1a, 0x3a, 0x2a, 0x33, 0x24, 0x22]"

text \<open>The shape \<open>*(register + offset) + addition\<close>, with nothing after it.\<close>

fun deref_operands :: "dwarf_op option list \<Rightarrow> (register \<times> s64 \<times> u64) option" where
  "deref_operands [Some (RegisterOffset register off), Some Deref, Some (PlusConstant addition)] =
     Some (register, off, addition)"
| "deref_operands _ = None"

definition convert_expression :: "register \<Rightarrow> expression \<Rightarrow> CfaType \<times> u16" where
  "convert_expression stack_pointer e =
     (if ex_data e = PLT1 then (Cfa_Plt1, 0)
      else if ex_data e = PLT2 then (Cfa_Plt2, 0)
      else case deref_operands (ex_ops e) of
          Some (register, off, addition) \<Rightarrow>
            if register = stack_pointer
            then (Cfa_DerefAndAdd, push_bit 8 (ucast off) OR ucast addition)
            else (Cfa_UnsupportedExpression, 0)
        | None \<Rightarrow> (Cfa_UnsupportedExpression, 0))"

definition convert_cfa :: "register \<Rightarrow> register \<Rightarrow> CfaRule \<Rightarrow> CfaType \<times> u16" where
  "convert_cfa frame_pointer stack_pointer rule =
     (case rule of
        RegisterAndOffset register off \<Rightarrow>
          let t = (if register = frame_pointer then Cfa_FramePointerOffset
                   else if register = stack_pointer then Cfa_StackPointerOffset
                   else Cfa_UnsupportedRegisterOffset)
          in if 0 \<le> sint off \<and> sint off < 2 ^ 16 then (t, ucast off) else (Cfa_OffsetDidNotFit, 0)
      | CfaExpression None \<Rightarrow> (Cfa_UnsupportedExpression, 0)
      | CfaExpression (Some e) \<Rightarrow> convert_expression stack_pointer e)"

definition convert_frame_pointer :: "RegisterRule \<Rightarrow> RbpType \<times> s16" where
  "convert_frame_pointer rule =
     (case rule of
        Undefined \<Rightarrow> (Rbp_Unchanged, 0)
      | Offset off \<Rightarrow>
          if - (2 ^ 15) \<le> sint off \<and> sint off < 2 ^ 15 then (Rbp_CfaOffset, ucast off)
          else (Rbp_OffsetDidNotFit, 0)
      | In_register _ \<Rightarrow> (Rbp_Register, 0)
      | In_expression \<Rightarrow> (Rbp_Expression, 0)
      | _ \<Rightarrow> (Rbp_Unchanged, 0))"

text \<open>Whether the executable is one for 64-bit ARM decides the register numbers.\<close>

definition convert_row :: "bool \<Rightarrow> (u64 \<times> u64) option \<Rightarrow> gimli_row \<Rightarrow> CompactUnwindRow" where
  "convert_row aarch64 first_frame_override row =
     (let fp = (if aarch64 then ARM64_FP else X86_FP);
          sp = (if aarch64 then ARM64_SP else X86_SP);
          (cfa, cfa_off) = convert_cfa fp sp (gr_cfa row);
          (rbp, rbp_off) = convert_frame_pointer (gr_frame_pointer row);
          rbp' = (if gr_return_address row = Undefined then Rbp_UndefinedReturnAddress else rbp);
          compact_row = \<lparr>cu_pc = gr_start_address row, cu_cfa_type = cfa, cu_rbp_type = rbp',
                         cu_cfa_offset = cfa_off, cu_rbp_offset = rbp_off\<rparr>
      in case first_frame_override of
           None \<Rightarrow> compact_row
         | Some (start, _) \<Rightarrow>
             if cu_pc compact_row = start then stop_unwinding (cu_pc compact_row) else compact_row)"

section \<open>process and compact\_unwind\_info\<close>

datatype UnwindData = Function u64 u64 | Instruction CompactUnwindRow

fun process_fdes :: "bool \<Rightarrow> (u64 \<times> u64) option \<Rightarrow> fde list \<Rightarrow> UnwindData list option" where
  "process_fdes aarch64 override [] = Some []"
| "process_fdes aarch64 override (f # fs) =
     (case fde_rows f of
        None \<Rightarrow> None
      | Some rows \<Rightarrow>
          (case process_fdes aarch64 override fs of
             None \<Rightarrow> None
           | Some evs \<Rightarrow>
               Some (Function (fde_initial_address f) (fde_end f) #
                 map (\<lambda>r. Instruction (convert_row aarch64 override r)) (List.map_filter id rows) @ evs)))"

datatype convert_error =
    File_error | ParsingObjectFile | NoEhFrameSection | NoTextSection | Decompression_error | Gimli_error
  | NoFunctionsFoundInEhFrameData

definition process :: "bool \<Rightarrow> (u64 \<times> u64) option \<Rightarrow> elf_file \<Rightarrow> convert_error + UnwindData list" where
  "process aarch64 override file =
     (case file of
        Not_readable \<Rightarrow> Inl File_error
      | Not_parsed \<Rightarrow> Inl ParsingObjectFile
      | No_eh_frame_section \<Rightarrow> Inl NoEhFrameSection
      | No_text_section \<Rightarrow> Inl NoTextSection
      | Not_decompressed \<Rightarrow> Inl Decompression_error
      | Frame_entries fdes \<Rightarrow>
          (case process_fdes aarch64 override (sort_key fde_initial_address fdes) of
             None \<Rightarrow> Inl Gimli_error
           | Some evs \<Rightarrow> Inr evs))"

text \<open>The callback: the marker of a function is added when the next function begins.\<close>

fun callback :: "UnwindData \<Rightarrow> CompactUnwindRow list \<times> u64 option \<Rightarrow> CompactUnwindRow list \<times> u64 option" where
  "callback (Function start_addr end_addr) (unwind_info, last_function_end_addr) =
     ((case last_function_end_addr of
         Some addr \<Rightarrow> unwind_info @ [stop_unwinding addr]
       | None \<Rightarrow> unwind_info),
      Some end_addr)"
| "callback (Instruction row) (unwind_info, last_function_end_addr) =
     (unwind_info @ [row], last_function_end_addr)"

definition compact_unwind_info ::
    "bool \<Rightarrow> (u64 \<times> u64) option \<Rightarrow> elf_file \<Rightarrow> (convert_error + CompactUnwindRow list) execution" where
  "compact_unwind_info aarch64 override file =
     (case process aarch64 override file of
        Inl e \<Rightarrow> Returns (Inl e)
      | Inr evs \<Rightarrow>
          (case fold callback evs ([], None) of
             (unwind_info, None) \<Rightarrow> Returns (Inl NoFunctionsFoundInEhFrameData)
           | (unwind_info, Some last_function_end_addr) \<Rightarrow>
               (case remove_unnecesary_markers (unwind_info @ [stop_unwinding last_function_end_addr]) of
                  None \<Rightarrow> Panics
                | Some rows \<Rightarrow>
                    (case remove_redundant rows of None \<Rightarrow> Panics | Some rows' \<Rightarrow> Returns (Inr rows')))))"

section \<open>The table before it is optimised\<close>

definition converted_rows :: "bool \<Rightarrow> (u64 \<times> u64) option \<Rightarrow> fde \<Rightarrow> CompactUnwindRow list" where
  "converted_rows aarch64 override f =
     (case fde_rows f of None \<Rightarrow> [] | Some rows \<Rightarrow> map (convert_row aarch64 override) (List.map_filter id rows))"

definition full_table :: "bool \<Rightarrow> (u64 \<times> u64) option \<Rightarrow> fde list \<Rightarrow> CompactUnwindRow list" where
  "full_table aarch64 override fdes =
     concat (map (\<lambda>f. converted_rows aarch64 override f @ [stop_unwinding (fde_end f)]) fdes)"

lemma fold_callback_rows:
  "fold callback (map (\<lambda>r. Instruction (g r)) rs) (u, e) = (u @ map g rs, e)"
  by (induction rs arbitrary: u) auto

lemma process_fdes_table:
  assumes "process_fdes aarch64 override fdes = Some evs"
  shows "fold callback evs (u, Some e) =
     (let table = full_table aarch64 override fdes;
          last_end = (if fdes = [] then e else fde_end (last fdes))
      in if fdes = [] then (u, Some e)
         else (u @ [stop_unwinding e] @ butlast table, Some last_end))"
  using assms
proof (induction fdes arbitrary: evs u e)
  case Nil
  then show ?case by (simp add: full_table_def)
next
  case (Cons f fs)
  then obtain rows evs' where rows: "fde_rows f = Some rows" "process_fdes aarch64 override fs = Some evs'"
    "evs = Function (fde_initial_address f) (fde_end f) #
       map (\<lambda>r. Instruction (convert_row aarch64 override r)) (List.map_filter id rows) @ evs'"
    by (auto split: option.splits)
  show ?case
    using Cons.IH [OF rows(2), of "u @ stop_unwinding e # converted_rows aarch64 override f" "fde_end f"] rows
    by (auto simp: fold_callback_rows full_table_def converted_rows_def Let_def butlast_append)
qed

lemma process_fdes_start:
  assumes "process_fdes aarch64 override fdes = Some evs" "fdes \<noteq> []"
  shows "\<exists>u e. fold callback evs ([], None) = (u, Some e) \<and> u @ [stop_unwinding e] = full_table aarch64 override fdes"
proof -
  obtain f fs where fdes: "fdes = f # fs" using assms(2) by (cases fdes) auto
  then obtain rows evs' where rows: "fde_rows f = Some rows" "process_fdes aarch64 override fs = Some evs'"
    "evs = Function (fde_initial_address f) (fde_end f) #
       map (\<lambda>r. Instruction (convert_row aarch64 override r)) (List.map_filter id rows) @ evs'"
    using assms(1) by (auto split: option.splits)
  then have step: "fold callback evs ([], None) =
      fold callback evs' (converted_rows aarch64 override f, Some (fde_end f))"
    by (simp add: fold_callback_rows converted_rows_def)
  show ?thesis
  proof (cases fs rule: rev_cases)
    case Nil
    with step fdes rows show ?thesis by (simp add: full_table_def)
  next
    case (snoc gs g)
    then have "butlast (full_table aarch64 override fs) @ [stop_unwinding (fde_end g)] = full_table aarch64 override fs"
      by (simp add: full_table_def butlast_append)
    then show ?thesis
      unfolding step process_fdes_table [OF rows(2)] using fdes snoc by (simp add: Let_def full_table_def)
  qed
qed

lemma compact_unwind_info_table:
  assumes "process aarch64 override (Frame_entries fdes) = Inr evs" "fdes \<noteq> []"
  shows "compact_unwind_info aarch64 override (Frame_entries fdes) =
     (case remove_unnecesary_markers (full_table aarch64 override (sort_key fde_initial_address fdes)) of
        None \<Rightarrow> Panics
      | Some rows \<Rightarrow> (case remove_redundant rows of None \<Rightarrow> Panics | Some rows' \<Rightarrow> Returns (Inr rows')))"
proof -
  have "process_fdes aarch64 override (sort_key fde_initial_address fdes) = Some evs"
    using assms(1) by (simp add: process_def split: option.splits)
  moreover have "sort_key fde_initial_address fdes \<noteq> []" using assms(2) by (metis length_0_conv length_sort)
  ultimately obtain u e where
    "fold callback evs ([], None) = (u, Some e)"
    "u @ [stop_unwinding e] = full_table aarch64 override (sort_key fde_initial_address fdes)"
    using process_fdes_start by blast
  with assms(1) show ?thesis by (simp add: compact_unwind_info_def)
qed

section \<open>Well-formed frame descriptions\<close>

text \<open>
  The rows of an entry begin at its start, have increasing addresses below its end, and none fails;
  the first one is not replaced by a marker unless no function ends there.
\<close>

definition fde_wf :: "bool \<Rightarrow> (u64 \<times> u64) option \<Rightarrow> fde \<Rightarrow> bool" where
  "fde_wf aarch64 override f \<longleftrightarrow>
     (case fde_rows f of
        None \<Rightarrow> False
      | Some rows \<Rightarrow> rows \<noteq> [] \<and> list_all (\<lambda>r. r \<noteq> None) rows \<and>
          gr_start_address (the (hd rows)) = fde_initial_address f \<and>
          sorted_wrt (<) (map (\<lambda>r. gr_start_address (the r)) rows) \<and>
          list_all (\<lambda>r. gr_start_address (the r) < fde_end f) rows)"

fun fdes_wf :: "bool \<Rightarrow> (u64 \<times> u64) option \<Rightarrow> fde list \<Rightarrow> bool" where
  "fdes_wf aarch64 override [] = True"
| "fdes_wf aarch64 override (f # fs) =
     (fde_wf aarch64 override f \<and> fdes_wf aarch64 override fs \<and>
      list_all (\<lambda>g. fde_end f \<le> fde_initial_address g) fs \<and>
      (case override of None \<Rightarrow> True | Some (start, _) \<Rightarrow> start \<noteq> fde_end f))"

lemma convert_row_fields:
  "cu_pc (convert_row aarch64 override r) = gr_start_address r"
  "is_marker (convert_row aarch64 override r) \<longleftrightarrow>
     (\<exists>start n. override = Some (start, n) \<and> gr_start_address r = start)"
proof -
  have expr: "fst (convert_expression sp e) \<noteq> Cfa_EndFdeMarker" for sp e
    by (simp add: convert_expression_def split: option.split prod.split)
  have cfa: "fst (convert_cfa fp sp rule) \<noteq> Cfa_EndFdeMarker" for fp sp rule
    using expr by (simp add: convert_cfa_def Let_def split: CfaRule.split option.split)
  show "cu_pc (convert_row aarch64 override r) = gr_start_address r"
    by (auto simp: convert_row_def Let_def split: prod.split option.split)
  show "is_marker (convert_row aarch64 override r) \<longleftrightarrow>
      (\<exists>start n. override = Some (start, n) \<and> gr_start_address r = start)"
    using cfa [of "if aarch64 then ARM64_FP else X86_FP" "if aarch64 then ARM64_SP else X86_SP" "gr_cfa r"]
    by (auto simp: convert_row_def Let_def is_marker_def stop_unwinding_def split: prod.splits option.splits)
qed

lemma map_filter_all_Some: "list_all (\<lambda>r. r \<noteq> None) rows \<Longrightarrow> List.map_filter id rows = map the rows"
  by (induction rows) (auto simp: List.map_filter_simps)

text \<open>What well-formedness means for the converted rows of an entry.\<close>

lemma converted_rows_wf:
  assumes "fde_wf aarch64 override f"
  shows "converted_rows aarch64 override f \<noteq> []"
    and "cu_pc (hd (converted_rows aarch64 override f)) = fde_initial_address f"
    and "sorted_wrt (<) (map cu_pc (converted_rows aarch64 override f))"
    and "r \<in> set (converted_rows aarch64 override f) \<Longrightarrow> fde_initial_address f \<le> cu_pc r \<and> cu_pc r < fde_end f"
proof -
  obtain rows where rows: "fde_rows f = Some rows" "rows \<noteq> []" "list_all (\<lambda>r. r \<noteq> None) rows"
    "gr_start_address (the (hd rows)) = fde_initial_address f"
    "sorted_wrt (<) (map (\<lambda>r. gr_start_address (the r)) rows)"
    "list_all (\<lambda>r. gr_start_address (the r) < fde_end f) rows"
    using assms by (auto simp: fde_wf_def split: option.splits)
  then have conv: "converted_rows aarch64 override f = map (\<lambda>r. convert_row aarch64 override (the r)) rows"
    by (simp add: converted_rows_def map_filter_all_Some)
  show "converted_rows aarch64 override f \<noteq> []"
    "cu_pc (hd (converted_rows aarch64 override f)) = fde_initial_address f"
    "sorted_wrt (<) (map cu_pc (converted_rows aarch64 override f))"
    using rows by (simp_all add: conv convert_row_fields hd_map comp_def)
  show "fde_initial_address f \<le> cu_pc r \<and> cu_pc r < fde_end f" if "r \<in> set (converted_rows aarch64 override f)"
    using that rows(2,4,5,6)
    by (cases rows) (auto simp: conv convert_row_fields list_all_iff order_le_less)
qed

section \<open>The specification\<close>

text \<open>
  The rule of a program counter: inside a function that of its last row at or before it; after the
  end of a function and outside all others, stop; before all functions, none.
\<close>

definition converted_rule :: "bool \<Rightarrow> (u64 \<times> u64) option \<Rightarrow> fde list \<Rightarrow> u64 \<Rightarrow> unwind_rule option" where
  "converted_rule aarch64 override fdes pc =
     (case find (\<lambda>f. fde_initial_address f \<le> pc \<and> pc < fde_end f) fdes of
        Some f \<Rightarrow> rule_at (converted_rows aarch64 override f) pc
      | None \<Rightarrow> if list_ex (\<lambda>f. fde_end f \<le> pc) fdes then Some (rule_of (stop_unwinding 0)) else None)"

lemma full_table_Cons:
  "full_table aarch64 override (f # fs) =
     converted_rows aarch64 override f @ stop_unwinding (fde_end f) # full_table aarch64 override fs"
  by (simp add: full_table_def)

lemma full_table_bounds:
  assumes "fdes_wf aarch64 override fdes" "\<forall>f \<in> set fdes. a \<le> fde_initial_address f" "r \<in> set (full_table aarch64 override fdes)"
  shows "a \<le> cu_pc r"
  using assms
proof (induction fdes)
  case (Cons f fs)
  then have wf: "fde_wf aarch64 override f" by simp
  have "fde_initial_address f < fde_end f"
    using converted_rows_wf(1,4) [OF wf] by (metis hd_in_set order_le_less_trans)
  with Cons converted_rows_wf(4) [OF wf] show ?case
    by (auto simp: full_table_Cons dest: order_trans order_le_less_trans less_imp_le)
qed (simp add: full_table_def)

lemma full_table_sorted:
  assumes "fdes_wf aarch64 override fdes"
  shows "sorted (map cu_pc (full_table aarch64 override fdes))"
  using assms
proof (induction fdes)
  case (Cons f fs)
  then have wf: "fde_wf aarch64 override f" by simp
  have later: "\<forall>r \<in> set (full_table aarch64 override fs). fde_end f \<le> cu_pc r"
    using Cons.prems full_table_bounds [of aarch64 override fs "fde_end f"] by (auto simp: list_all_iff)
  have block: "sorted (map cu_pc (converted_rows aarch64 override f))"
    using converted_rows_wf(3) [OF wf] by (simp add: strict_sorted_imp_sorted)
  have before: "cu_pc r \<le> fde_end f" if "r \<in> set (converted_rows aarch64 override f)" for r
    using converted_rows_wf(4) [OF wf that] by (auto simp: less_imp_le)
  show ?case
    using Cons later block before by (auto simp: full_table_Cons sorted_append intro: order_trans)
qed (simp add: full_table_def)

lemma markers_wf_append:
  assumes "markers_wf xs" "markers_wf ys"
    and "xs \<noteq> [] \<Longrightarrow> ys \<noteq> [] \<Longrightarrow> cu_pc (last xs) = cu_pc (hd ys) \<Longrightarrow> is_marker (last xs) \<and> \<not> is_marker (hd ys)"
  shows "markers_wf (xs @ ys)"
  using assms
proof (induction xs)
  case (Cons x xs)
  then show ?case by (cases xs; cases ys) auto
qed simp

lemma markers_wf_strict: "sorted_wrt (<) (map cu_pc rows) \<Longrightarrow> markers_wf rows"
  by (induction rows rule: markers_wf.induct) auto

lemma full_table_markers:
  assumes "fdes_wf aarch64 override fdes"
  shows "markers_wf (full_table aarch64 override fdes)"
  using assms
proof (induction fdes)
  case (Cons f fs)
  then have wf: "fde_wf aarch64 override f" by simp
  have m1: "markers_wf (converted_rows aarch64 override f @ [stop_unwinding (fde_end f)])"
    using converted_rows_wf(3,4) [OF wf] by (intro markers_wf_strict) (auto simp: sorted_wrt_append)
  have m2: "markers_wf (full_table aarch64 override fs)" using Cons by simp
  have m3: "\<not> is_marker (hd (full_table aarch64 override fs))"
    if "full_table aarch64 override fs \<noteq> []" "fde_end f = cu_pc (hd (full_table aarch64 override fs))"
  proof -
    from that(1) obtain g gs where g: "fs = g # gs" by (cases fs) (auto simp: full_table_def)
    then have "converted_rows aarch64 override g \<noteq> []" using Cons.prems converted_rows_wf(1) by simp
    then have hd: "hd (full_table aarch64 override fs) \<in> set (converted_rows aarch64 override g)"
      using g by (simp add: full_table_Cons hd_append)
    then obtain r where r: "hd (full_table aarch64 override fs) = convert_row aarch64 override r"
      by (auto simp: converted_rows_def split: option.splits)
    with that(2) Cons.prems show ?thesis by (auto simp: convert_row_fields split: option.splits)
  qed
  have "markers_wf ((converted_rows aarch64 override f @ [stop_unwinding (fde_end f)]) @
      full_table aarch64 override fs)"
    using m3 by (intro markers_wf_append [OF m1 m2]) simp
  then show ?case by (simp add: full_table_Cons)
qed (simp add: full_table_def)

lemma full_table_rule:
  assumes "fdes_wf aarch64 override fdes"
  shows "rule_at (full_table aarch64 override fdes) pc = converted_rule aarch64 override fdes pc"
  using assms
proof (induction fdes)
  case Nil
  then show ?case by (simp add: full_table_def converted_rule_def)
next
  case (Cons f fs)
  then have wf: "fde_wf aarch64 override f" and IH: "rule_at (full_table aarch64 override fs) pc = converted_rule aarch64 override fs pc"
    by simp_all
  have order: "fde_end f \<le> fde_initial_address g" if "g \<in> set fs" for g
    using Cons.prems that by (simp add: list_all_iff)
  have nonempty: "fde_initial_address g < fde_end g" if "g \<in> set (f # fs)" for g
  proof -
    have "fde_wf aarch64 override g" using Cons.prems that by (induction fs) auto
    then show ?thesis using converted_rows_wf(1,4) by (metis hd_in_set order_le_less_trans)
  qed
  show ?case
  proof (cases "fde_end f \<le> pc")
    case True
    have "rule_at (converted_rows aarch64 override g) pc \<noteq> None"
      if "g \<in> set fs" "fde_initial_address g \<le> pc" for g
    proof -
      have "fde_wf aarch64 override g" using Cons.prems that(1) by (induction fs) auto
      then show ?thesis using converted_rows_wf(1,2) that(2) by (metis hd_in_set rule_at_None_iff)
    qed
    note found = this
    show ?thesis
    proof (cases "find (\<lambda>f. fde_initial_address f \<le> pc \<and> pc < fde_end f) fs")
      case None
      with True IH show ?thesis by (auto simp: full_table_Cons rule_at_append converted_rule_def)
    next
      case (Some g)
      then have "g \<in> set fs" "fde_initial_address g \<le> pc" by (auto simp: find_Some_iff)
      with found obtain rule where "rule_at (converted_rows aarch64 override g) pc = Some rule" by blast
      with True Some IH show ?thesis by (auto simp: full_table_Cons rule_at_append converted_rule_def)
    qed
  next
    case False
    have "rule_at (full_table aarch64 override fs) pc = None"
      using full_table_bounds [of aarch64 override fs "fde_end f"] Cons.prems False order
      by (force simp: rule_at_None_iff)
    moreover have "find (\<lambda>f. fde_initial_address f \<le> pc \<and> pc < fde_end f) fs = None"
      using False order by (force simp: find_None_iff)
    moreover have "\<not> list_ex (\<lambda>f. fde_end f \<le> pc) (f # fs)"
      using False order nonempty by (force simp: list_ex_iff)
    moreover have "rule_at (converted_rows aarch64 override f) pc = None" if "\<not> fde_initial_address f \<le> pc"
      using that converted_rows_wf(4) [OF wf] by (auto simp: rule_at_None_iff dest: order_trans)
    ultimately show ?thesis
      using False by (auto simp: full_table_Cons rule_at_append converted_rule_def split: option.splits)
  qed
qed

section \<open>Properties\<close>

lemma process_fdes_wf: "fdes_wf aarch64 override fdes \<Longrightarrow> \<exists>evs. process_fdes aarch64 override fdes = Some evs"
  by (induction fdes) (auto simp: fde_wf_def split: option.splits)

lemma compact_unwind_info_spec:
  assumes "fdes_wf aarch64 override (sort_key fde_initial_address fdes)" "fdes \<noteq> []"
    and "length (full_table aarch64 override (sort_key fde_initial_address fdes)) < 2 ^ 64"
  shows "\<exists>rows. compact_unwind_info aarch64 override (Frame_entries fdes) = Returns (Inr rows) \<and>
     rows = dedup (drop_markers (full_table aarch64 override (sort_key fde_initial_address fdes))) \<and>
     (\<forall>pc. rule_at rows pc = converted_rule aarch64 override (sort_key fde_initial_address fdes) pc) \<and>
     sorted (map cu_pc rows) \<and> distinct_adj (map rule_of rows)"
proof -
  let ?table = "full_table aarch64 override (sort_key fde_initial_address fdes)"
  obtain evs where "process aarch64 override (Frame_entries fdes) = Inr evs"
    using process_fdes_wf [OF assms(1)] by (auto simp: process_def)
  note pipeline = compact_unwind_info_table [OF this assms(2)]
  have markers: "remove_unnecesary_markers ?table = Some (drop_markers ?table)"
    using assms by (intro remove_markers_eq full_table_markers)
  have "length (drop_markers ?table) < 2 ^ 64" using length_drop_markers [of ?table] assms(3) by linarith
  then have redundant: "remove_redundant (drop_markers ?table) = Some (dedup (drop_markers ?table))"
    by (rule remove_redundant_eq)
  have sorted: "sorted (map cu_pc (drop_markers ?table))"
    using assms(1) by (intro sorted_drop_markers full_table_sorted)
  have "rule_at (dedup (drop_markers ?table)) pc =
      converted_rule aarch64 override (sort_key fde_initial_address fdes) pc" for pc
    using rule_at_dedup [OF sorted] rule_at_drop_markers full_table_rule [OF assms(1)] by simp
  with pipeline markers redundant sorted_dedup [OF sorted] distinct_adj_dedup show ?thesis by auto
qed

definition example_fdes :: "fde list" where
  "example_fdes =
     [\<lparr>fde_initial_address = 0x2000, fde_len = 0x100, fde_rows = Some
        [Some \<lparr>gr_start_address = 0x2000, gr_cfa = RegisterAndOffset 7 8, gr_frame_pointer = Undefined,
               gr_return_address = Offset (-8)\<rparr>]\<rparr>,
      \<lparr>fde_initial_address = 0x1000, fde_len = 0x1000, fde_rows = Some
        [Some \<lparr>gr_start_address = 0x1000, gr_cfa = RegisterAndOffset 7 8, gr_frame_pointer = Undefined,
               gr_return_address = Offset (-8)\<rparr>,
         Some \<lparr>gr_start_address = 0x1004, gr_cfa = RegisterAndOffset 6 16, gr_frame_pointer = Offset (-16),
               gr_return_address = Offset (-8)\<rparr>]\<rparr>]"

lemma example_fdes_sorted: "sort_key fde_initial_address example_fdes = rev example_fdes"
  by (simp add: example_fdes_def)

lemma example_fdes_wf: "fdes_wf False override (rev example_fdes) \<longleftrightarrow>
   (case override of None \<Rightarrow> True | Some (start, _) \<Rightarrow> start \<noteq> 0x2000 \<and> start \<noteq> 0x2100)"
  by (auto simp: example_fdes_def fde_wf_def fde_end_def split: option.split)

lemma example_fdes_table:
  "length (full_table False None (rev example_fdes)) < 2 ^ 64"
  "dedup (drop_markers (full_table False None (rev example_fdes))) =
     [\<lparr>cu_pc = 0x1000, cu_cfa_type = Cfa_StackPointerOffset, cu_rbp_type = Rbp_Unchanged, cu_cfa_offset = 8, cu_rbp_offset = 0\<rparr>,
      frame_setup 0x1004,
      \<lparr>cu_pc = 0x2000, cu_cfa_type = Cfa_StackPointerOffset, cu_rbp_type = Rbp_Unchanged, cu_cfa_offset = 8, cu_rbp_offset = 0\<rparr>,
      stop_unwinding 0x2100]"
  by (simp_all add: full_table_def example_fdes_def converted_rows_def List.map_filter_simps fde_end_def
      convert_row_def convert_cfa_def convert_frame_pointer_def X86_FP_def X86_SP_def stop_unwinding_def frame_setup_def
      is_marker_def rule_of_def dedup_def)

lemma marker_pair_removed:
  assumes "\<not> is_marker a" "\<not> is_marker b" "is_marker m" "is_marker m'" "cu_pc m' = cu_pc m"
    and "cu_pc a \<noteq> cu_pc b" "cu_pc b \<noteq> cu_pc m" "cu_pc m \<noteq> cu_pc e"
  shows "remove_unnecesary_markers [a, b, m, m', e] = Some [a, b, e]"
  using assms compact_eq [of "[a, b, m, m', e]" previous_is_redundant_marker current_is_redundant_marker]
  by (simp add: remove_unnecesary_markers_def previous_is_redundant_marker_def current_is_redundant_marker_def
      is_marker_def)

text \<open>
  The override that should stop unwinding at the first frame is lost when another function ends
  where the first frame's function begins: the end marker and the override row are two markers at the
  same program counter, both are removed, and the program counter gets the last rule of the function
  before it.
\<close>

lemma adjacent_override_is_lost:
  "\<exists>rows. compact_unwind_info False (Some (0x2000, 0x2100)) (Frame_entries example_fdes) = Returns (Inr rows) \<and>
     rule_at rows 0x2000 = Some (Cfa_FramePointerOffset, 16, Rbp_CfaOffset, -16) \<and>
     converted_rule False (Some (0x2000, 0x2100)) (rev example_fdes) 0x2000 = Some (rule_of (stop_unwinding 0x2000))"
proof -
  let ?o = "Some (0x2000 :: u64, 0x2100 :: u64)"
  define a b m e where "a = \<lparr>cu_pc = 0x1000, cu_cfa_type = Cfa_StackPointerOffset, cu_rbp_type = Rbp_Unchanged,
      cu_cfa_offset = 8, cu_rbp_offset = 0\<rparr>" and "b = (frame_setup 0x1004)"
    and "m = stop_unwinding 0x2000" and "e = stop_unwinding 0x2100"
  have table: "full_table False ?o (rev example_fdes) = [a, b, m, m, e]"
    by (simp add: full_table_def example_fdes_def converted_rows_def List.map_filter_simps fde_end_def
        convert_row_def convert_cfa_def convert_frame_pointer_def X86_FP_def X86_SP_def a_def b_def m_def e_def
        frame_setup_def)
  have "process_fdes False ?o (rev example_fdes) \<noteq> None" by (simp add: example_fdes_def)
  then obtain evs where "process False ?o (Frame_entries example_fdes) = Inr evs"
    by (auto simp: process_def example_fdes_sorted)
  moreover have "example_fdes \<noteq> []" by (simp add: example_fdes_def)
  ultimately have c: "compact_unwind_info False ?o (Frame_entries example_fdes) =
      (case remove_unnecesary_markers [a, b, m, m, e] of
         None \<Rightarrow> Panics
       | Some rows \<Rightarrow> (case remove_redundant rows of None \<Rightarrow> Panics | Some rows' \<Rightarrow> Returns (Inr rows')))"
    using compact_unwind_info_table [of False ?o example_fdes] by (simp add: example_fdes_sorted table)
  have "remove_unnecesary_markers [a, b, m, m, e] = Some [a, b, e]"
    by (rule marker_pair_removed) (simp_all add: b_def m_def e_def, simp_all add: a_def is_marker_def)
  moreover have "remove_redundant [a, b, e] = Some [a, b, e]"
    by (simp add: remove_redundant_eq dedup_def a_def b_def e_def rule_of_def frame_setup_def stop_unwinding_def)
  ultimately have "compact_unwind_info False ?o (Frame_entries example_fdes) = Returns (Inr [a, b, e])" using c by simp
  moreover have "rule_at [a, b, e] 0x2000 = Some (Cfa_FramePointerOffset, 16, Rbp_CfaOffset, -16)"
    by (simp add: a_def b_def e_def)
  moreover have "converted_rule False ?o (rev example_fdes) 0x2000 = Some (rule_of (stop_unwinding 0x2000))"
    by (simp add: converted_rule_def example_fdes_def fde_end_def converted_rows_def List.map_filter_simps
        convert_row_def convert_cfa_def convert_frame_pointer_def X86_FP_def X86_SP_def)
  ultimately show ?thesis by blast
qed

end
