(* ===== verification/Unwind_Cache.thy ===== *)
theory Unwind_Cache
  imports Persist Unwind_Convert
begin

text \<open>
  src/src/unwind\_info/manager.rs: unwind tables cached in files, one per executable, with the oldest
  ones evicted. The directory is a map from executables to file contents; the heap of usages is the list of
  its records by age (the order of records of the same age, which a binary heap leaves open, is that of
  insertion at the front). Generating the table of an executable is a parameter, as are SHA-256 and the
  time of a call; operations on files of the directory do not fail. What a call returns is an \<open>execution\<close>: a panic of the
  reader or of the conversion, and undefined behaviour in the reader, are not errors that the manager could handle.
\<close>

section \<open>State and operations\<close>

record Usage =
  us_executable_id :: u64
  us_instant :: nat

record UnwindInfoManager =
  cache_files :: "u64 \<rightharpoonup> u8 list"
  usage_tracking :: "Usage list"
  max_cached_files :: nat

datatype FetchUnwindInfoError = Fetch_not_found | Fetch_reader ReaderError | Fetch_write convert_error

definition read_from_cache ::
    "(u8 list \<Rightarrow> u8 list) \<Rightarrow> bool \<Rightarrow> u64 \<Rightarrow> UnwindInfoManager \<Rightarrow>
     (FetchUnwindInfoError + CompactUnwindRow list) execution" where
  "read_from_cache sha256 check_digest executable_id s =
     (case cache_files s executable_id of
        None \<Rightarrow> Returns (Inl Fetch_not_found)
      | Some data \<Rightarrow>
          and_then (read_unwind_info sha256 check_digest data)
            (\<lambda>r. case r of Inl e \<Rightarrow> Returns (Inl (Fetch_reader e)) | Inr rows \<Rightarrow> Returns (Inr rows)))"

text \<open>The file is created, or truncated, before the table is generated.\<close>

definition write_to_cache ::
    "(u8 list \<Rightarrow> u8 list) \<Rightarrow> (u64 \<Rightarrow> (convert_error + CompactUnwindRow list) execution) \<Rightarrow> u64 \<Rightarrow> UnwindInfoManager \<Rightarrow>
     (FetchUnwindInfoError + CompactUnwindRow list) execution \<times> UnwindInfoManager" where
  "write_to_cache sha256 generate executable_id s =
     (let s1 = s\<lparr>cache_files := (cache_files s)(executable_id \<mapsto> [])\<rparr> in
      case generate executable_id of
        Returns (Inl e) \<Rightarrow> (Returns (Inl (Fetch_write e)), s1)
      | Returns (Inr rows) \<Rightarrow>
          (Returns (Inr rows),
           s1\<lparr>cache_files := (cache_files s1)(executable_id \<mapsto> cur_data (writer_write sha256 rows empty_file))\<rparr>)
      | Panics \<Rightarrow> (Panics, s1)
      | Undefined_behaviour \<Rightarrow> (Undefined_behaviour, s1))"

definition maybe_evict :: "UnwindInfoManager \<Rightarrow> UnwindInfoManager" where
  "maybe_evict s =
     (if max_cached_files s < length (usage_tracking s)
      then case usage_tracking s of
             [] \<Rightarrow> s
           | oldest # rest \<Rightarrow>
               s\<lparr>usage_tracking := rest, cache_files := (cache_files s)(us_executable_id oldest := None)\<rparr>
      else s)"

definition bump_usage :: "u64 \<Rightarrow> nat \<Rightarrow> UnwindInfoManager \<Rightarrow> UnwindInfoManager" where
  "bump_usage executable_id instant s =
     maybe_evict (s\<lparr>usage_tracking := insort_key us_instant
       \<lparr>us_executable_id = executable_id, us_instant = instant\<rparr> (usage_tracking s)\<rparr>)"

definition fetch_unwind_info ::
    "(u8 list \<Rightarrow> u8 list) \<Rightarrow> (u64 \<Rightarrow> (convert_error + CompactUnwindRow list) execution) \<Rightarrow> bool \<Rightarrow> nat \<Rightarrow> u64 \<Rightarrow>
     UnwindInfoManager \<Rightarrow> (FetchUnwindInfoError + CompactUnwindRow list) execution \<times> UnwindInfoManager" where
  "fetch_unwind_info sha256 generate check_digest now executable_id s =
     (case read_from_cache sha256 check_digest executable_id s of
        Returns (Inr rows) \<Rightarrow> (Returns (Inr rows), s)
      | Returns (Inl e) \<Rightarrow>
          (case write_to_cache sha256 generate executable_id s of
             (Returns (Inr rows), s1) \<Rightarrow> (Returns (Inr rows), bump_usage executable_id now s1)
           | (unwind_info, s1) \<Rightarrow> (unwind_info, s1))
      | Panics \<Rightarrow> (Panics, s)
      | Undefined_behaviour \<Rightarrow> (Undefined_behaviour, s))"

text \<open>
  At start the files of the directory are taken over with their ages. A name that is not Unicode is skipped;
  one that is not an executable identifier, or whose creation time is not available, ends the loop with an
  error, which the constructor ignores.
\<close>

datatype direntry = Name_not_unicode | Entry_error | Cached_file u64 nat

fun bump_already_present :: "direntry list \<Rightarrow> UnwindInfoManager \<Rightarrow> bool \<times> UnwindInfoManager" where
  "bump_already_present [] s = (True, s)"
| "bump_already_present (Name_not_unicode # entries) s = bump_already_present entries s"
| "bump_already_present (Entry_error # entries) s = (False, s)"
| "bump_already_present (Cached_file executable_id created # entries) s =
     bump_already_present entries (bump_usage executable_id created s)"

definition manager_new :: "(u64 \<rightharpoonup> u8 list) \<Rightarrow> direntry list \<Rightarrow> nat \<Rightarrow> UnwindInfoManager" where
  "manager_new files entries limit =
     snd (bump_already_present entries \<lparr>cache_files = files, usage_tracking = [], max_cached_files = limit\<rparr>)"

section \<open>The invariant\<close>

text \<open>
  Usages are by age and within the limit, and every file has one, apart from the files of the executables
  in \<open>untracked\<close>.
\<close>

definition cache_inv :: "u64 set \<Rightarrow> UnwindInfoManager \<Rightarrow> bool" where
  "cache_inv untracked s \<longleftrightarrow> sorted (map us_instant (usage_tracking s)) \<and>
     length (usage_tracking s) \<le> max_cached_files s \<and>
     dom (cache_files s) \<subseteq> us_executable_id ` set (usage_tracking s) \<union> untracked"

lemma cache_inv_bound:
  assumes "cache_inv untracked s" "finite untracked"
  shows "finite (dom (cache_files s)) \<and> card (dom (cache_files s)) \<le> max_cached_files s + card untracked"
proof -
  let ?ids = "us_executable_id ` set (usage_tracking s)"
  have sub: "dom (cache_files s) \<subseteq> ?ids \<union> untracked" using assms by (simp add: cache_inv_def)
  have "card (dom (cache_files s)) \<le> card (?ids \<union> untracked)" using assms(2) by (intro card_mono [OF _ sub]) simp
  also have "\<dots> \<le> card ?ids + card untracked" by (rule card_Un_le)
  also have "card ?ids \<le> length (usage_tracking s)" by (meson card_image_le card_length finite_set order_trans)
  also have "length (usage_tracking s) \<le> max_cached_files s" using assms by (simp add: cache_inv_def)
  finally show ?thesis using finite_subset [OF sub] assms(2) by simp
qed

lemma bump_usage_inv:
  assumes "sorted (map us_instant (usage_tracking s))" "length (usage_tracking s) \<le> max_cached_files s"
    and "dom (cache_files s) \<subseteq> insert executable_id (us_executable_id ` set (usage_tracking s) \<union> untracked)"
  shows "cache_inv (untracked - {executable_id}) (bump_usage executable_id instant s)"
proof -
  let ?u = "insort_key us_instant \<lparr>us_executable_id = executable_id, us_instant = instant\<rparr> (usage_tracking s)"
  have u: "sorted (map us_instant ?u)" "length ?u = Suc (length (usage_tracking s))"
    "dom (cache_files s) \<subseteq> us_executable_id ` set ?u \<union> (untracked - {executable_id})"
    using assms(1,3) by (auto simp: sorted_insort_key set_insort_key)
  then obtain oldest rest where c: "?u = oldest # rest" by (cases ?u) auto
  show ?thesis
    using u assms(2) unfolding bump_usage_def maybe_evict_def cache_inv_def c by auto
qed

lemma bump_usage_max [simp]: "max_cached_files (bump_usage executable_id instant s) = max_cached_files s"
  by (simp add: bump_usage_def maybe_evict_def split: list.split)

lemma bump_usage_files:
  "cache_files (bump_usage executable_id instant s) i = cache_files s i \<or> cache_files (bump_usage executable_id instant s) i = None"
  by (auto simp: bump_usage_def maybe_evict_def split: list.splits)

text \<open>What is read back from a file that was just written.\<close>

lemma read_written:
  assumes "cache_files s executable_id = Some (cur_data (writer_write sha256 rows empty_file))"
    and "length rows * unwind_row_size < 2 ^ 63"
  shows "read_from_cache sha256 check_digest executable_id s = Returns (Inr rows)"
  using read_rows_roundtrip [of rows "[]"] unat_written_len [OF assms(2), of sha256] assms
  by (simp add: read_from_cache_def read_unwind_info_def written_file parse_written_header
      reader_unwind_info_def Let_def written_digest)

lemma read_empty_file:
  "cache_files s executable_id = Some [] \<Longrightarrow>
   read_from_cache sha256 check_digest executable_id s = Returns (Inl (Fetch_reader Out_of_range))"
  by (simp add: read_from_cache_def read_unwind_info_def parse_header_def header_size_def)

section \<open>Runs of the manager\<close>

text \<open>The executables whose files are taken over: those before the first entry that ends the loop.\<close>

fun taken_over :: "direntry list \<Rightarrow> u64 set" where
  "taken_over [] = {}"
| "taken_over (Name_not_unicode # entries) = taken_over entries"
| "taken_over (Entry_error # entries) = {}"
| "taken_over (Cached_file executable_id created # entries) = insert executable_id (taken_over entries)"

text \<open>
  The manager is created over any directory, listed in any way, and then serves requests. The last argument collects the
  executables whose files it does not track: those of the directory that were not taken over, and those whose table could not
  be generated.
\<close>

inductive manager_run :: "(u8 list \<Rightarrow> u8 list) \<Rightarrow> nat \<Rightarrow> UnwindInfoManager \<Rightarrow> u64 set \<Rightarrow> bool"
  for sha256 and limit where
  created: "manager_run sha256 limit (manager_new files entries limit) (dom files - taken_over entries)"
    if "finite (dom files)"
| fetched: "manager_run sha256 limit s' untracked"
    if "manager_run sha256 limit s untracked"
       "fetch_unwind_info sha256 generate check_digest now executable_id s = (Returns (Inr rows), s')"
| not_fetched: "manager_run sha256 limit s' (insert executable_id untracked)"
    if "manager_run sha256 limit s untracked"
       "fetch_unwind_info sha256 generate check_digest now executable_id s = (r, s')" "r = Panics \<or> r = Returns (Inl e)"

lemma bump_already_present_inv:
  assumes "sorted (map us_instant (usage_tracking s))" "length (usage_tracking s) \<le> max_cached_files s"
    and "dom (cache_files s) \<subseteq> us_executable_id ` set (usage_tracking s) \<union> taken_over entries \<union> untracked"
  shows "cache_inv untracked (snd (bump_already_present entries s)) \<and>
     max_cached_files (snd (bump_already_present entries s)) = max_cached_files s"
  using assms
proof (induction entries s rule: bump_already_present.induct)
  case (4 executable_id created entries s)
  let ?rest = "taken_over entries \<union> untracked"
  have "cache_inv (?rest - {executable_id}) (bump_usage executable_id created s)"
    using 4(2-4) by (intro bump_usage_inv) auto
  then have "sorted (map us_instant (usage_tracking (bump_usage executable_id created s)))"
    "length (usage_tracking (bump_usage executable_id created s)) \<le> max_cached_files s"
    "dom (cache_files (bump_usage executable_id created s)) \<subseteq>
       us_executable_id ` set (usage_tracking (bump_usage executable_id created s)) \<union> ?rest"
    by (auto simp: cache_inv_def)
  with 4(1) show ?case by (simp add: Un_assoc)
qed (auto simp: cache_inv_def)

lemma write_to_cache_state [simp]:
  "usage_tracking (snd (write_to_cache sha256 generate executable_id s)) = usage_tracking s"
  "max_cached_files (snd (write_to_cache sha256 generate executable_id s)) = max_cached_files s"
  "dom (cache_files (snd (write_to_cache sha256 generate executable_id s))) = insert executable_id (dom (cache_files s))"
  by (simp_all add: write_to_cache_def Let_def split: sum.split execution.split)

text \<open>What a request does to the manager: nothing, a file that is not tracked, or a file that is.\<close>

lemma fetch_unwind_info_state:
  assumes "fetch_unwind_info sha256 generate check_digest now executable_id s = (r, s')"
  obtains "s' = s" "\<And>e. r \<noteq> Returns (Inl e)"
  | s1 where "snd (write_to_cache sha256 generate executable_id s) = s1" "s' = bump_usage executable_id now s1"
      "\<exists>rows. r = Returns (Inr rows)"
  | "snd (write_to_cache sha256 generate executable_id s) = s'" "\<And>rows. r \<noteq> Returns (Inr rows)"
proof (cases "\<exists>e. read_from_cache sha256 check_digest executable_id s = Returns (Inl e)")
  case False
  then have "s' = s \<and> (\<forall>e. r \<noteq> Returns (Inl e))"
    using assms by (auto simp: fetch_unwind_info_def split: execution.splits sum.splits)
  then show thesis by (intro that(1)) auto
next
  case True
  obtain w s1 where w: "write_to_cache sha256 generate executable_id s = (w, s1)" by fastforce
  show thesis
  proof (cases "\<exists>rows. w = Returns (Inr rows)")
    case True
    then have "s' = bump_usage executable_id now s1" "\<exists>rows. r = Returns (Inr rows)"
      using assms w \<open>\<exists>e. read_from_cache _ _ _ _ = _\<close> by (auto simp: fetch_unwind_info_def)
    then show thesis by (intro that(2) [of s1]) (simp_all add: w)
  next
    case False
    then have "s' = s1 \<and> r = w"
      using assms w \<open>\<exists>e. read_from_cache _ _ _ _ = _\<close> by (auto simp: fetch_unwind_info_def split: execution.splits sum.splits)
    with False show thesis by (intro that(3)) (auto simp: w)
  qed
qed

lemma fetch_inv:
  assumes "cache_inv untracked s" "fetch_unwind_info sha256 generate check_digest now executable_id s = (r, s')"
  shows "cache_inv (insert executable_id untracked) s' \<and> (\<forall>rows. r = Returns (Inr rows) \<longrightarrow> cache_inv untracked s') \<and>
     max_cached_files s' = max_cached_files s"
  using assms(2)
proof (cases rule: fetch_unwind_info_state)
  case 1
  then show ?thesis using assms(1) by (auto simp: cache_inv_def)
next
  case (2 s1)
  have "usage_tracking s1 = usage_tracking s" "max_cached_files s1 = max_cached_files s"
    "dom (cache_files s1) = insert executable_id (dom (cache_files s))"
    unfolding 2(1) [symmetric] by simp_all
  then have "cache_inv (untracked - {executable_id}) s'" unfolding 2(2)
    using assms(1) by (intro bump_usage_inv) (auto simp: cache_inv_def)
  then show ?thesis using \<open>max_cached_files s1 = _\<close> 2(2) by (auto simp: cache_inv_def)
next
  case 3
  have "usage_tracking s' = usage_tracking s" "max_cached_files s' = max_cached_files s"
    "dom (cache_files s') = insert executable_id (dom (cache_files s))"
    unfolding 3(1) [symmetric] by simp_all
  then show ?thesis using assms(1) 3(2) by (auto simp: cache_inv_def)
qed

lemma manager_run_inv:
  "manager_run sha256 limit s untracked \<Longrightarrow>
   finite untracked \<and> cache_inv untracked s \<and> max_cached_files s = limit"
proof (induction rule: manager_run.induct)
  case (created files entries)
  then show ?case
    using bump_already_present_inv [of "\<lparr>cache_files = files, usage_tracking = [], max_cached_files = limit\<rparr>" entries
        "dom files - taken_over entries"]
    by (auto simp: manager_new_def)
next
  case (fetched s untracked generate check_digest now executable_id rows s')
  then show ?case using fetch_inv [of untracked s sha256 generate check_digest now executable_id _ s'] by blast
next
  case (not_fetched s untracked generate check_digest now executable_id r s' e)
  then show ?case using fetch_inv [of untracked s sha256 generate check_digest now executable_id r s'] by simp
qed

section \<open>Properties\<close>

text \<open>
  A file is honest when reading it, with or without its digest, does not go wrong (no length for which memory
  cannot be reserved, no byte that is none of its enumeration), and what is read, if anything, is the table that is generated.
  A file that was damaged otherwise is honest: reading it is an error.
\<close>

definition file_honest ::
    "(u8 list \<Rightarrow> u8 list) \<Rightarrow> (convert_error + CompactUnwindRow list) execution \<Rightarrow> u8 list \<Rightarrow> bool" where
  "file_honest sha256 generated data \<longleftrightarrow>
     (\<forall>check_digest. \<exists>r. read_unwind_info sha256 check_digest data = Returns r \<and>
        (\<forall>rows. r = Inr rows \<longrightarrow> generated = Returns (Inr rows)))"

definition cache_honest ::
    "(u8 list \<Rightarrow> u8 list) \<Rightarrow> (u64 \<Rightarrow> (convert_error + CompactUnwindRow list) execution) \<Rightarrow> UnwindInfoManager \<Rightarrow> bool" where
  "cache_honest sha256 generate s \<longleftrightarrow>
     (\<forall>i data. cache_files s i = Some data \<longrightarrow> file_honest sha256 (generate i) data)"

lemma file_honest_empty: "file_honest sha256 generated []"
  by (simp add: file_honest_def read_unwind_info_def parse_header_def header_size_def)

lemma file_honest_written:
  assumes "length rows * unwind_row_size < 2 ^ 63"
  shows "file_honest sha256 (Returns (Inr rows)) (cur_data (writer_write sha256 rows empty_file))"
  using read_rows_roundtrip [of rows "[]"] unat_written_len [OF assms, of sha256] assms
  by (simp add: file_honest_def read_unwind_info_def written_file parse_written_header reader_unwind_info_def Let_def written_digest)

text \<open>Honesty of the file of one executable is kept by requests for any.\<close>

definition honest_at ::
    "(u8 list \<Rightarrow> u8 list) \<Rightarrow> (convert_error + CompactUnwindRow list) execution \<Rightarrow> u64 \<Rightarrow> UnwindInfoManager \<Rightarrow> bool" where
  "honest_at sha256 generated i s \<longleftrightarrow> (\<forall>data. cache_files s i = Some data \<longrightarrow> file_honest sha256 generated data)"

lemma cache_honest_at: "cache_honest sha256 generate s \<longleftrightarrow> (\<forall>i. honest_at sha256 (generate i) i s)"
  by (simp add: cache_honest_def honest_at_def)

lemma honest_at_bump: "honest_at sha256 g i s \<Longrightarrow> honest_at sha256 g i (bump_usage executable_id now s)"
  using bump_usage_files [of executable_id now s i] by (auto simp: honest_at_def)

lemma honest_at_write:
  assumes "honest_at sha256 g i s"
    and "executable_id = i \<Longrightarrow> generate i = g \<and> (\<forall>rows. g = Returns (Inr rows) \<longrightarrow> length rows * unwind_row_size < 2 ^ 63)"
  shows "honest_at sha256 g i (snd (write_to_cache sha256 generate executable_id s))"
proof (cases "executable_id = i")
  case True
  then have g: "generate executable_id = g" "\<forall>rows. g = Returns (Inr rows) \<longrightarrow> length rows * unwind_row_size < 2 ^ 63"
    using assms(2) by simp_all
  then show ?thesis using True file_honest_empty file_honest_written
    by (simp add: honest_at_def write_to_cache_def Let_def split: execution.split sum.split)
qed (use assms(1) in \<open>simp add: honest_at_def write_to_cache_def Let_def split: execution.split sum.split\<close>)

lemma honest_at_fetch:
  assumes "honest_at sha256 g i s"
    and "executable_id = i \<Longrightarrow> generate i = g \<and> (\<forall>rows. g = Returns (Inr rows) \<longrightarrow> length rows * unwind_row_size < 2 ^ 63)"
    and "fetch_unwind_info sha256 generate check_digest now executable_id s = (r, s')"
  shows "honest_at sha256 g i s'"
proof -
  have written: "honest_at sha256 g i (snd (write_to_cache sha256 generate executable_id s))"
    by (rule honest_at_write) (use assms(1,2) in simp_all)
  from assms(3) show ?thesis
  proof (cases rule: fetch_unwind_info_state)
    case 1
    then show ?thesis using assms(1) by simp
  next
    case (2 s1)
    then show ?thesis using honest_at_bump [OF written] by metis
  next
    case 3
    then show ?thesis using written by metis
  qed
qed

lemma fetch_honest:
  assumes "honest_at sha256 (generate executable_id) executable_id s"
    and "fetch_unwind_info sha256 generate check_digest now executable_id s = (r, s')"
  shows "r = and_then (generate executable_id)
     (\<lambda>g. case g of Inl e \<Rightarrow> Returns (Inl (Fetch_write e)) | Inr rows \<Rightarrow> Returns (Inr rows))"
proof -
  obtain f where f: "read_from_cache sha256 check_digest executable_id s = Returns f"
    "\<And>rows. f = Inr rows \<Longrightarrow> generate executable_id = Returns (Inr rows)"
  proof (cases "cache_files s executable_id")
    case None
    then show thesis by (intro that [of "Inl Fetch_not_found"]) (simp_all add: read_from_cache_def)
  next
    case (Some data)
    then obtain r' where "read_unwind_info sha256 check_digest data = Returns r'"
      "\<And>rows. r' = Inr rows \<Longrightarrow> generate executable_id = Returns (Inr rows)"
      using assms(1) unfolding honest_at_def file_honest_def by metis
    then show thesis using Some that by (cases r') (auto simp: read_from_cache_def)
  qed
  show ?thesis
  proof (cases f)
    case (Inr rows)
    then show ?thesis using f assms(2) by (simp add: fetch_unwind_info_def)
  next
    case (Inl e)
    then show ?thesis using f(1) assms(2)
      by (auto simp: fetch_unwind_info_def write_to_cache_def Let_def split: execution.splits sum.splits)
  qed
qed

text \<open>
  C22. The cache is transparent. When every file of the directory is honest (reading it neither panics nor is undefined, and
  the table read from it, if reading succeeds, is the one that would be generated), a request returns
  exactly what generating returns, its errors and its panic included, whether the file is missing,
  damaged, cached, or evicted on the way; and the files stay honest.
\<close>

theorem cache_is_transparent:
  assumes "cache_honest sha256 generate s"
    and "\<forall>i rows. generate i = Returns (Inr rows) \<longrightarrow> length rows * unwind_row_size < 2 ^ 63"
    and "fetch_unwind_info sha256 generate check_digest now executable_id s = (r, s')"
  shows "r = (case generate executable_id of
       Returns (Inl e) \<Rightarrow> Returns (Inl (Fetch_write e))
     | Returns (Inr rows) \<Rightarrow> Returns (Inr rows)
     | Panics \<Rightarrow> Panics
     | Undefined_behaviour \<Rightarrow> Undefined_behaviour) \<and>
     cache_honest sha256 generate s'"
  using fetch_honest [of sha256 generate executable_id s check_digest now r s']
    honest_at_fetch [of sha256 _ _ s executable_id generate check_digest now r s'] assms
  by (auto simp: cache_honest_at split: execution.splits sum.splits)

text \<open>
  C29. The cache keeps its limit: over any directory at start and whatever is requested, with
  whichever outcomes, there are never more files than the limit, apart from those that are not tracked: the files of the
  directory that the takeover at start did not reach, because an entry before them ended it, and the
  files of executables whose table could not be generated. Every other file has its usage, the usages are within the limit and
  in the order of their age.
\<close>

theorem cache_stays_within_limit:
  assumes "manager_run sha256 limit s untracked"
  shows "finite (dom (cache_files s)) \<and> card (dom (cache_files s)) \<le> limit + card untracked \<and>
     dom (cache_files s) - untracked \<subseteq> us_executable_id ` set (usage_tracking s) \<and>
     length (usage_tracking s) \<le> limit \<and> sorted (map us_instant (usage_tracking s))"
  using manager_run_inv [OF assms] cache_inv_bound [of untracked s] by (auto simp: cache_inv_def)

definition example_manager :: UnwindInfoManager where
  "example_manager = manager_new [1 \<mapsto> [], 2 \<mapsto> [], 3 \<mapsto> []] [Cached_file 3 30, Cached_file 1 10, Cached_file 2 20] 2"

lemma example_manager_state:
  "usage_tracking example_manager = [\<lparr>us_executable_id = 2, us_instant = 20\<rparr>, \<lparr>us_executable_id = 3, us_instant = 30\<rparr>]"
  "cache_files example_manager = [2 \<mapsto> [], 3 \<mapsto> []]" "max_cached_files example_manager = 2"
  by (auto simp: example_manager_def manager_new_def bump_usage_def maybe_evict_def)

theorem cache_stays_within_limit_witness:
  "card (dom (cache_files example_manager)) \<le> 2 + card ({} :: u64 set)"
proof -
  have "manager_run id 2 example_manager (dom [1 \<mapsto> [], 2 \<mapsto> [], 3 \<mapsto> []] - {3, 1, 2})"
    using manager_run.created [of "[1 \<mapsto> [], 2 \<mapsto> [], 3 \<mapsto> []]" id 2 "[Cached_file 3 30, Cached_file 1 10, Cached_file 2 20]"]
    unfolding example_manager_def by simp
  then have "manager_run id 2 example_manager {}" by simp
  from cache_stays_within_limit [OF this] show ?thesis by blast
qed

text \<open>
  A foreign file in the directory, listed first, ends the takeover at once: no file of an earlier run is tracked, none of them
  is ever evicted, and the limit does not count them.
\<close>

lemma foreign_file_stops_takeover:
  "manager_new files (Entry_error # entries) limit = \<lparr>cache_files = files, usage_tracking = [], max_cached_files = limit\<rparr>"
  by (simp add: manager_new_def)

lemma insort_key_newest: "\<forall>y \<in> set ys. f y < f x \<Longrightarrow> insort_key f x ys = ys @ [x]"
  by (induction ys) auto

text \<open>What a new table does to the directory: it is added, and the oldest file goes when the cache is full.\<close>

lemma bump_usage_newest:
  assumes "\<forall>u \<in> set (usage_tracking s). us_instant u < now"
  shows "bump_usage executable_id now s =
     (if length (usage_tracking s) < max_cached_files s
      then s\<lparr>usage_tracking := usage_tracking s @ [\<lparr>us_executable_id = executable_id, us_instant = now\<rparr>]\<rparr>
      else let us = usage_tracking s @ [\<lparr>us_executable_id = executable_id, us_instant = now\<rparr>] in
        s\<lparr>usage_tracking := tl us, cache_files := (cache_files s)(us_executable_id (hd us) := None)\<rparr>)"
  using assms by (auto simp: bump_usage_def maybe_evict_def insort_key_newest Let_def split: list.split)

text \<open>
  A table that is generated stays cached. When it was not in the cache, or its file was damaged, and
  it is not tracked already, the request returns what is generated, and a later request returns the same
  rows without generating anything or changing the cache, whether digests are checked or not. At most one
  file of another executable is removed meanwhile, the one of the oldest usage, and only when the cache is full.
\<close>

lemma generated_table_stays_cached:
  assumes "read_from_cache sha256 check_digest executable_id s = Returns (Inl e)" "generate executable_id = Returns (Inr rows)"
    and "length rows * unwind_row_size < 2 ^ 63" "0 < max_cached_files s"
    and "length (usage_tracking s) \<le> max_cached_files s"
    and "\<forall>u \<in> set (usage_tracking s). us_instant u < now \<and> us_executable_id u \<noteq> executable_id"
    and "fetch_unwind_info sha256 generate check_digest now executable_id s = (r, s')"
  shows "r = Returns (Inr rows) \<and>
     fetch_unwind_info sha256 generate' check_digest' now' executable_id s' = (Returns (Inr rows), s') \<and>
     (\<forall>i. i \<noteq> executable_id \<longrightarrow> cache_files s' i = cache_files s i \<or>
        (cache_files s' i = None \<and> length (usage_tracking s) = max_cached_files s \<and>
         i = us_executable_id (hd (usage_tracking s))))"
proof -
  let ?file = "cur_data (writer_write sha256 rows empty_file)"
  let ?s1 = "s\<lparr>cache_files := (cache_files s)(executable_id \<mapsto> ?file)\<rparr>"
  have r: "r = Returns (Inr rows)" and s': "s' = bump_usage executable_id now ?s1"
    using assms(1,2,7) by (auto simp: fetch_unwind_info_def write_to_cache_def Let_def)
  have bump: "s' = (if length (usage_tracking s) < max_cached_files s
      then ?s1\<lparr>usage_tracking := usage_tracking s @ [\<lparr>us_executable_id = executable_id, us_instant = now\<rparr>]\<rparr>
      else let us = usage_tracking s @ [\<lparr>us_executable_id = executable_id, us_instant = now\<rparr>] in
        ?s1\<lparr>usage_tracking := tl us, cache_files := (cache_files ?s1)(us_executable_id (hd us) := None)\<rparr>)"
    unfolding s' using bump_usage_newest [of ?s1 now executable_id] assms(6) by simp
  have oldest: "us_executable_id (hd (usage_tracking s)) \<noteq> executable_id" "usage_tracking s \<noteq> []"
    if "\<not> length (usage_tracking s) < max_cached_files s"
    using that assms(4,6) by (cases "usage_tracking s"; auto)+
  have "cache_files s' executable_id = Some ?file" unfolding bump using oldest by (auto simp: Let_def)
  then have "fetch_unwind_info sha256 generate' check_digest' now' executable_id s' = (Returns (Inr rows), s')"
    using read_written [OF _ assms(3)] by (simp add: fetch_unwind_info_def)
  moreover have "cache_files s' i = cache_files s i \<or>
      (cache_files s' i = None \<and> length (usage_tracking s) = max_cached_files s \<and> i = us_executable_id (hd (usage_tracking s)))"
    if "i \<noteq> executable_id" for i
    unfolding bump using that oldest assms(5) by (auto simp: Let_def)
  ultimately show ?thesis using r by blast
qed

lemma gap_table_small: "length gap_table * unwind_row_size < 2 ^ 63"
  by (simp add: gap_table_def unwind_row_size_def)

lemma generated_table_stays_cached_example:
  "\<exists>s'. fetch_unwind_info id (\<lambda>_. Returns (Inr gap_table)) True 40 7 example_manager = (Returns (Inr gap_table), s') \<and>
     fetch_unwind_info id (\<lambda>_. Returns (Inl Gimli_error)) True 50 7 s' = (Returns (Inr gap_table), s')"
proof -
  have missing: "read_from_cache id True 7 example_manager = Returns (Inl Fetch_not_found)"
    by (simp add: read_from_cache_def example_manager_state)
  obtain r s' where f: "fetch_unwind_info id (\<lambda>_. Returns (Inr gap_table)) True 40 7 example_manager = (r, s')" by fastforce
  show ?thesis
    using generated_table_stays_cached [OF missing _ gap_table_small _ _ _ f, of "\<lambda>_. Returns (Inl Gimli_error)" True 50] f
    by (simp add: example_manager_state)
qed

theorem cache_is_transparent_witness:
  "fst (fetch_unwind_info id (\<lambda>_. Returns (Inr gap_table)) True 40 2 example_manager) = Returns (Inr gap_table)"
proof -
  have "cache_honest id (\<lambda>_. Returns (Inr gap_table)) example_manager"
    using file_honest_empty by (auto simp: cache_honest_def example_manager_state split: if_splits)
  moreover obtain r s' where f: "fetch_unwind_info id (\<lambda>_. Returns (Inr gap_table)) True 40 2 example_manager = (r, s')" by fastforce
  ultimately show ?thesis
    using cache_is_transparent [of id "\<lambda>_. Returns (Inr gap_table)" example_manager True 40 2 r s'] gap_table_small by simp
qed

text \<open>
  A table that cannot be generated leaves an empty file behind that is not tracked, so it is never
  evicted while the program runs, and every later request fails to read it and generates again.
\<close>

lemma failed_generation_leaves_untracked_file:
  assumes "read_from_cache sha256 check_digest executable_id s = Returns (Inl e)" "generate executable_id = Returns (Inl e')"
    and "fetch_unwind_info sha256 generate check_digest now executable_id s = (r, s')"
  shows "r = Returns (Inl (Fetch_write e')) \<and> cache_files s' executable_id = Some [] \<and>
     usage_tracking s' = usage_tracking s \<and>
     read_from_cache sha256 check_digest' executable_id s' = Returns (Inl (Fetch_reader Out_of_range))"
  using assms by (auto simp: fetch_unwind_info_def write_to_cache_def Let_def read_empty_file)

lemma failed_generation_leaves_untracked_file_example:
  "\<exists>s'. fetch_unwind_info id (\<lambda>_. Returns (Inl Gimli_error)) True 40 7 example_manager = (Returns (Inl (Fetch_write Gimli_error)), s') \<and>
     cache_files s' 7 = Some [] \<and> usage_tracking s' = usage_tracking example_manager"
proof -
  have missing: "read_from_cache id True 7 example_manager = Returns (Inl Fetch_not_found)"
    by (simp add: read_from_cache_def example_manager_state)
  obtain r s' where f: "fetch_unwind_info id (\<lambda>_. Returns (Inl Gimli_error)) True 40 7 example_manager = (r, s')" by fastforce
  show ?thesis using failed_generation_leaves_untracked_file [OF missing _ f, of Gimli_error] f by simp
qed

text \<open>
  Regenerating a damaged file adds a second usage of the same executable. When the cache is full and
  the first one is the oldest of all, the file that was just written is the one that is removed.
\<close>

lemma regenerated_file_evicts_itself:
  assumes "read_from_cache sha256 check_digest executable_id s = Returns (Inl e)" "generate executable_id = Returns (Inr rows)"
    and "usage_tracking s = u # us" "us_executable_id u = executable_id"
    and "length (usage_tracking s) = max_cached_files s" "\<forall>u \<in> set (usage_tracking s). us_instant u < now"
  shows "\<exists>s'. fetch_unwind_info sha256 generate check_digest now executable_id s = (Returns (Inr rows), s') \<and>
     cache_files s' executable_id = None \<and>
     read_from_cache sha256 check_digest executable_id s' = Returns (Inl Fetch_not_found)"
proof -
  let ?s1 = "s\<lparr>cache_files := (cache_files s)(executable_id \<mapsto> cur_data (writer_write sha256 rows empty_file))\<rparr>"
  have "fetch_unwind_info sha256 generate check_digest now executable_id s = (Returns (Inr rows), bump_usage executable_id now ?s1)"
    using assms(1,2) by (simp add: fetch_unwind_info_def write_to_cache_def Let_def)
  moreover have "cache_files (bump_usage executable_id now ?s1) executable_id = None"
    using bump_usage_newest [of ?s1 now executable_id] assms(3-6) by (simp add: Let_def)
  ultimately show ?thesis by (simp add: read_from_cache_def)
qed

lemma regenerated_file_evicts_itself_example:
  "\<exists>s'. fetch_unwind_info id (\<lambda>_. Returns (Inr gap_table)) True 40 2 example_manager = (Returns (Inr gap_table), s') \<and>
     cache_files s' 2 = None"
proof -
  have damaged: "read_from_cache id True 2 example_manager = Returns (Inl (Fetch_reader Out_of_range))"
    by (rule read_empty_file) (simp add: example_manager_state)
  show ?thesis
    using regenerated_file_evicts_itself [OF damaged, of "\<lambda>_. Returns (Inr gap_table)" gap_table
        "\<lparr>us_executable_id = 2, us_instant = 20\<rparr>" "[\<lparr>us_executable_id = 3, us_instant = 30\<rparr>]" 40]
    by (auto simp: example_manager_state)
qed

end
