(* ===== verification/Numerals.thy ===== *)
theory Numerals
  imports Prelude
begin

text \<open>
  Numbers as text, as the standard library of Rust reads and prints them: \<open>char::to_digit\<close>,
  \<open>from_str_radix\<close> and \<open>parse\<close> of the unsigned types, the formats \<open>{}\<close>, \<open>{:x}\<close> and \<open>{:02x}\<close>, and the
  string functions \<open>split\<close>, \<open>trim\<close> and \<open>trim_end\<close>. A Rust string is the list of its UTF-8 bytes.
\<close>

section \<open>Digits\<close>

definition to_digit :: "nat \<Rightarrow> char \<Rightarrow> nat option" where
  "to_digit radix c =
     (let n = of_char c :: nat;
          d = (if 48 \<le> n \<and> n \<le> 57 then n - 48
               else if 97 \<le> n \<and> n \<le> 122 then n - 87
               else if 65 \<le> n \<and> n \<le> 90 then n - 55 else radix)
      in if d < radix then Some d else None)"

definition digit_char :: "nat \<Rightarrow> char" where
  "digit_char d = char_of (if d < 10 then d + 48 else d + 87)"

lemma digit_char_0 [simp]: "digit_char 0 = CHR ''0''"
  by code_simp

lemma digit_char_numeral [simp]:
  "digit_char (Suc 0) = CHR ''1''" "digit_char 1 = CHR ''1''" "digit_char 2 = CHR ''2''"
  "digit_char 3 = CHR ''3''" "digit_char 4 = CHR ''4''" "digit_char 5 = CHR ''5''" "digit_char 6 = CHR ''6''"
  "digit_char 7 = CHR ''7''" "digit_char 8 = CHR ''8''" "digit_char 9 = CHR ''9''" "digit_char 10 = CHR ''a''"
  "digit_char 11 = CHR ''b''" "digit_char 12 = CHR ''c''" "digit_char 13 = CHR ''d''"
  "digit_char 14 = CHR ''e''" "digit_char 15 = CHR ''f''"
  by code_simp+

lemma to_digit_digit_char [simp]: "d < radix \<Longrightarrow> radix \<le> 16 \<Longrightarrow> to_digit radix (digit_char d) = Some d"
  by (auto simp: to_digit_def digit_char_def Let_def)

lemma digit_char_inject: "d < 16 \<Longrightarrow> e < 16 \<Longrightarrow> digit_char d = digit_char e \<longleftrightarrow> d = e"
  by (metis le_refl option.inject to_digit_digit_char)

lemma digit_char_not_sign [simp]: "d < 16 \<Longrightarrow> digit_char d \<noteq> CHR ''+''" "d < 16 \<Longrightarrow> digit_char d \<noteq> CHR ''-''"
  by (auto simp: digit_char_def dest!: arg_cong [where f = "of_char :: char \<Rightarrow> nat"])

section \<open>Reading\<close>

text \<open>Every step multiplies and adds with a check for overflow; \<open>limit\<close> is the largest value of the type.\<close>

fun digits_value :: "nat \<Rightarrow> nat \<Rightarrow> nat \<Rightarrow> string \<Rightarrow> nat option" where
  "digits_value radix limit acc [] = Some acc"
| "digits_value radix limit acc (c # cs) =
     (case to_digit radix c of
        None \<Rightarrow> None
      | Some d \<Rightarrow> if acc * radix + d \<le> limit then digits_value radix limit (acc * radix + d) cs else None)"

fun from_str_radix :: "nat \<Rightarrow> nat \<Rightarrow> string \<Rightarrow> nat option" where
  "from_str_radix radix limit [] = None"
| "from_str_radix radix limit (c # cs) =
     (if cs = [] \<and> (c = CHR ''+'' \<or> c = CHR ''-'') then None
      else digits_value radix limit 0 (if c = CHR ''+'' then cs else c # cs))"

abbreviation "U32_MAX \<equiv> 2 ^ 32 - 1 :: nat"
abbreviation "U64_MAX \<equiv> 2 ^ 64 - 1 :: nat"

definition parse_u32 :: "string \<Rightarrow> nat option" where "parse_u32 = from_str_radix 10 U32_MAX"
definition parse_u64 :: "string \<Rightarrow> nat option" where "parse_u64 = from_str_radix 10 U64_MAX"

section \<open>Printing\<close>

fun fmt_radix :: "nat \<Rightarrow> nat \<Rightarrow> string" where
  "fmt_radix radix n =
     (if radix < 2 \<or> n < radix then [digit_char n]
      else fmt_radix radix (n div radix) @ [digit_char (n mod radix)])"

declare fmt_radix.simps [simp del]

definition fmt_dec :: "nat \<Rightarrow> string" where "fmt_dec n = fmt_radix 10 n"
definition fmt_hex :: "nat \<Rightarrow> string" where "fmt_hex n = fmt_radix 16 n"

text \<open>\<open>{:02x}\<close> of a byte\<close>

definition fmt_byte :: "u8 \<Rightarrow> string" where
  "fmt_byte b = [digit_char (unat b div 16), digit_char (unat b mod 16)]"

lemma fmt_radix_not_Nil [simp]: "fmt_radix radix n \<noteq> []"
  by (subst fmt_radix.simps) simp

lemma digits_value_append:
  "digits_value radix limit acc (cs @ ds) =
     (case digits_value radix limit acc cs of None \<Rightarrow> None | Some v \<Rightarrow> digits_value radix limit v ds)"
  by (induction radix limit acc cs rule: digits_value.induct) (auto split: option.splits)

lemma digits_value_fmt_radix:
  assumes "2 \<le> radix" "radix \<le> 16" "n \<le> limit"
  shows "digits_value radix limit 0 (fmt_radix radix n) = Some n"
  using assms
proof (induction radix n rule: fmt_radix.induct)
  case (1 radix n)
  show ?case
  proof (cases "n < radix")
    case True
    with 1 show ?thesis by (simp add: fmt_radix.simps [of radix n])
  next
    case False
    with 1 have ih: "digits_value radix limit 0 (fmt_radix radix (n div radix)) = Some (n div radix)"
      using div_le_dividend [of n radix] by simp
    from False 1(2,3,4) ih show ?thesis
      by (simp add: fmt_radix.simps [of radix n] digits_value_append)
  qed
qed

lemma set_fmt_radix: "2 \<le> radix \<Longrightarrow> radix \<le> 16 \<Longrightarrow> set (fmt_radix radix n) \<subseteq> digit_char ` {..<radix}"
  by (induction radix n rule: fmt_radix.induct) (subst fmt_radix.simps, auto)

lemma from_str_radix_fmt_radix:
  assumes "2 \<le> radix" "radix \<le> 16" "n \<le> limit"
  shows "from_str_radix radix limit (fmt_radix radix n) = Some n"
proof -
  obtain c cs where c: "fmt_radix radix n = c # cs" by (cases "fmt_radix radix n") simp_all
  then have "c \<in> digit_char ` {..<radix}" using set_fmt_radix [OF assms(1,2), of n] by auto
  then have "c \<noteq> CHR ''+''" "c \<noteq> CHR ''-''" using assms(2) by auto
  then show ?thesis using digits_value_fmt_radix [OF assms] c by simp
qed

lemma fmt_radix_inject:
  assumes "2 \<le> radix" "radix \<le> 16" "fmt_radix radix m = fmt_radix radix n"
  shows "m = n"
proof -
  have "from_str_radix radix (m + n) (fmt_radix radix m) = Some m" "from_str_radix radix (m + n) (fmt_radix radix n) = Some n"
    by (rule from_str_radix_fmt_radix [OF assms(1,2)], simp)+
  with assms(3) show ?thesis by (metis option.inject)
qed

text \<open>What is read fits the type.\<close>

lemma digits_value_le: "digits_value radix limit acc cs = Some v \<Longrightarrow> acc \<le> limit \<Longrightarrow> v \<le> limit"
  by (induction radix limit acc cs rule: digits_value.induct) (auto split: option.splits if_splits)

lemma from_str_radix_le: "from_str_radix radix limit cs = Some v \<Longrightarrow> v \<le> limit"
  by (cases cs) (auto simp del: digits_value.simps split: if_splits dest: digits_value_le)

section \<open>Splitting and trimming\<close>

text \<open>\<open>split\<close> yields at least one part, and one more than there are separators.\<close>

fun split_on :: "'a \<Rightarrow> 'a list \<Rightarrow> 'a list list" where
  "split_on sep [] = [[]]"
| "split_on sep (c # cs) =
     (if c = sep then [] # split_on sep cs
      else case split_on sep cs of [] \<Rightarrow> [[c]] | part # parts \<Rightarrow> (c # part) # parts)"

text \<open>The white space of ASCII.\<close>

definition is_whitespace :: "char \<Rightarrow> bool" where
  "is_whitespace c \<longleftrightarrow> (let n = of_char c :: nat in (9 \<le> n \<and> n \<le> 13) \<or> n = 32)"

definition trim_end :: "string \<Rightarrow> string" where
  "trim_end s = rev (dropWhile is_whitespace (rev s))"

definition trim :: "string \<Rightarrow> string" where
  "trim s = trim_end (dropWhile is_whitespace s)"

fun join :: "string \<Rightarrow> string list \<Rightarrow> string" where
  "join sep [] = []"
| "join sep [s] = s"
| "join sep (s # ss) = s @ sep @ join sep ss"

lemma split_on_not_Nil [simp]: "split_on sep cs \<noteq> []"
  by (cases cs) (auto split: list.splits)

lemma split_on_absent: "sep \<notin> set cs \<Longrightarrow> split_on sep cs = [cs]"
  by (induction cs) auto

lemma split_on_append_sep: "sep \<notin> set cs \<Longrightarrow> split_on sep (cs @ sep # ds) = cs # split_on sep ds"
  by (induction cs) auto

lemma split_on_join:
  assumes "ss \<noteq> []" "\<forall>s \<in> set ss. sep \<notin> set s"
  shows "split_on sep (join [sep] ss) = ss"
  using assms
proof (induction ss)
  case (Cons s ss)
  then show ?case by (cases ss) (simp_all add: split_on_absent split_on_append_sep)
qed simp

lemma trim_end_append: "s = [] \<or> \<not> is_whitespace (last s) \<Longrightarrow> \<forall>c \<in> set w. is_whitespace c \<Longrightarrow> trim_end (s @ w) = s"
  by (cases s rule: rev_cases) (simp_all add: trim_end_def dropWhile_append)

lemma trim_idle: "s = [] \<or> \<not> is_whitespace (hd s) \<and> \<not> is_whitespace (last s) \<Longrightarrow> trim s = s"
  using trim_end_append [of s "[]"] by (cases s) (auto simp: trim_def trim_end_def)

lemma digit_char_not_whitespace [simp]: "d < 16 \<Longrightarrow> \<not> is_whitespace (digit_char d)"
  by (simp add: is_whitespace_def digit_char_def)

lemma fmt_dec_plain: "c \<in> set (fmt_dec n) \<Longrightarrow> \<not> is_whitespace c \<and> c \<noteq> CHR ''-'' \<and> c \<noteq> CHR '','' \<and> c \<noteq> CHR '' '' \<and> c \<noteq> CHR 0x0A"
proof -
  assume "c \<in> set (fmt_dec n)"
  then obtain d where d: "c = digit_char d" "d < 10" using set_fmt_radix [of 10 n] by (auto simp: fmt_dec_def)
  then have "48 \<le> (of_char c :: nat)" by (simp add: digit_char_def)
  with d show ?thesis by (auto simp: is_whitespace_def Let_def)
qed

end
