(* ===== verification/Build_Id.thy ===== *)
theory Build_Id
  imports Numerals
begin

text \<open>
  Build ids and the 8-byte executable ids derived from them: src/lightswitch-object/src/buildid.rs. The
  encoder of the \<open>data_encoding\<close> crate is a parameter, \<open>hexlower\<close>; a panic is the result \<open>None\<close>.
\<close>

section \<open>Strings in UTF-8\<close>

text \<open>
  One step of \<open>str::from_utf8\<close>: the length of the first character, or how many bytes are wrong, \<open>None\<close> when
  the input ends within a character.
\<close>

definition in_range :: "u8 \<Rightarrow> u8 \<Rightarrow> u8 \<Rightarrow> bool" where
  "in_range lo hi b \<longleftrightarrow> lo \<le> b \<and> b \<le> hi"

fun utf8_rest :: "nat \<Rightarrow> (u8 \<Rightarrow> bool) list \<Rightarrow> u8 list \<Rightarrow> nat option + nat" where
  "utf8_rest n [] bs = Inr n"
| "utf8_rest n (p # ps) [] = Inl None"
| "utf8_rest n (p # ps) (b # bs) = (if p b then utf8_rest (Suc n) ps bs else Inl (Some n))"

definition utf8_char :: "u8 \<Rightarrow> u8 list \<Rightarrow> nat option + nat" where
  "utf8_char b bs =
     (let cont = in_range 0x80 0xBF in
      if b < 0x80 then Inr 1
      else if in_range 0xC2 0xDF b then utf8_rest 1 [cont] bs
      else if b = 0xE0 then utf8_rest 1 [in_range 0xA0 0xBF, cont] bs
      else if in_range 0xE1 0xEC b \<or> in_range 0xEE 0xEF b then utf8_rest 1 [cont, cont] bs
      else if b = 0xED then utf8_rest 1 [in_range 0x80 0x9F, cont] bs
      else if b = 0xF0 then utf8_rest 1 [in_range 0x90 0xBF, cont, cont] bs
      else if in_range 0xF1 0xF3 b then utf8_rest 1 [cont, cont, cont] bs
      else if b = 0xF4 then utf8_rest 1 [in_range 0x80 0x8F, cont, cont] bs
      else Inl (Some 1))"

text \<open>The error holds the length of the valid prefix and the number of wrong bytes after it.\<close>

fun utf8_loop :: "nat \<Rightarrow> nat \<Rightarrow> u8 list \<Rightarrow> (nat \<times> nat option) + unit" where
  "utf8_loop valid skip [] = Inr ()"
| "utf8_loop valid (Suc skip) (b # bs) = utf8_loop valid skip bs"
| "utf8_loop valid 0 (b # bs) =
     (case utf8_char b bs of Inl e \<Rightarrow> Inl (valid, e) | Inr n \<Rightarrow> utf8_loop (valid + n) (n - 1) bs)"

definition char_of_byte :: "u8 \<Rightarrow> char" where "char_of_byte b = char_of (unat b)"

definition from_utf8 :: "u8 list \<Rightarrow> (nat \<times> nat option) + string" where
  "from_utf8 bs = (case utf8_loop 0 0 bs of Inl e \<Rightarrow> Inl e | Inr u \<Rightarrow> Inr (map char_of_byte bs))"

definition fmt_utf8_error :: "nat \<times> nat option \<Rightarrow> string" where
  "fmt_utf8_error = (\<lambda>(valid_up_to, error_len).
     case error_len of
       Some n \<Rightarrow> ''invalid utf-8 sequence of '' @ fmt_dec n @ '' bytes from index '' @ fmt_dec valid_up_to
     | None \<Rightarrow> ''incomplete utf-8 byte sequence from index '' @ fmt_dec valid_up_to)"

section \<open>Build ids\<close>

datatype BuildIdFlavour = Gnu_id | Go_id | Sha256_id

record BuildId =
  bi_flavour :: BuildIdFlavour
  bi_data :: "u8 list"

datatype BuildIdError = TooSmall

definition MIN_BUILD_ID_BYTES :: nat where "MIN_BUILD_ID_BYTES = 8"

definition gnu_from_bytes :: "u8 list \<Rightarrow> BuildIdError + BuildId" where
  "gnu_from_bytes bytes =
     (if length bytes < MIN_BUILD_ID_BYTES then Inl TooSmall else Inr \<lparr>bi_flavour = Gnu_id, bi_data = bytes\<rparr>)"

definition go_from_bytes :: "u8 list \<Rightarrow> BuildIdError + BuildId" where
  "go_from_bytes bytes =
     (if length bytes < MIN_BUILD_ID_BYTES then Inl TooSmall else Inr \<lparr>bi_flavour = Go_id, bi_data = bytes\<rparr>)"

definition sha256_from_digest :: "u8 list \<Rightarrow> BuildIdError + BuildId" where
  "sha256_from_digest digest = Inr \<lparr>bi_flavour = Sha256_id, bi_data = digest\<rparr>"

definition from_be_bytes :: "u8 list \<Rightarrow> u64" where
  "from_be_bytes bytes = fold (\<lambda>b v. v * 256 + ucast b) bytes 0"

text \<open>The slice \<open>data[..8]\<close> panics on shorter data.\<close>

definition executable_id_of :: "BuildId \<Rightarrow> u64 option" where
  "executable_id_of b = (if length (bi_data b) < 8 then None else Some (from_be_bytes (take 8 (bi_data b))))"

definition build_id_short :: "(u8 list \<Rightarrow> string) \<Rightarrow> BuildId \<Rightarrow> string" where
  "build_id_short hexlower b =
     (case bi_flavour b of
        Gnu_id \<Rightarrow> fold (\<lambda>el res. res @ fmt_byte el) (bi_data b) []
      | Go_id \<Rightarrow> (case from_utf8 (bi_data b) of
            Inr res \<Rightarrow> res
          | Inl e \<Rightarrow> ''error converting go build id: '' @ fmt_utf8_error e)
      | Sha256_id \<Rightarrow> hexlower (bi_data b))"

fun fmt_flavour :: "BuildIdFlavour \<Rightarrow> string" where
  "fmt_flavour Gnu_id = ''gnu''"
| "fmt_flavour Go_id = ''go''"
| "fmt_flavour Sha256_id = ''sha256''"

definition build_id_formatted :: "(u8 list \<Rightarrow> string) \<Rightarrow> BuildId \<Rightarrow> string" where
  "build_id_formatted hexlower b = fmt_flavour (bi_flavour b) @ ''-'' @ build_id_short hexlower b"

section \<open>Executable ids\<close>

datatype ParseBuildIdError = NotEven | Parse | Fit

definition fmt_executable_id :: "u64 \<Rightarrow> string" where
  "fmt_executable_id i = fmt_hex (unat i)"

definition executable_id_from_str :: "string \<Rightarrow> ParseBuildIdError + u64" where
  "executable_id_from_str s = (case from_str_radix 16 U64_MAX s of None \<Rightarrow> Inl Parse | Some i \<Rightarrow> Inr (of_nat i))"

section \<open>Hexadecimal digits\<close>

text \<open>What the documentation of the encoder promises: two lower-case digits for every byte.\<close>

definition hexlower_ok :: "(u8 list \<Rightarrow> string) \<Rightarrow> bool" where
  "hexlower_ok hexlower \<longleftrightarrow> (\<forall>bytes. hexlower bytes = concat (map fmt_byte bytes))"

lemma fold_append_bytes: "fold (\<lambda>el res. res @ fmt_byte el) bytes acc = acc @ concat (map fmt_byte bytes)"
  by (induction bytes arbitrary: acc) simp_all

text \<open>The last \<open>k\<close> digits.\<close>

fun fixed_hex :: "nat \<Rightarrow> nat \<Rightarrow> string" where
  "fixed_hex 0 n = []"
| "fixed_hex (Suc k) n = fixed_hex k (n div 16) @ [digit_char (n mod 16)]"

definition be_value :: "u8 list \<Rightarrow> nat" where
  "be_value bytes = fold (\<lambda>b v. v * 256 + unat b) bytes 0"

lemma be_value_snoc [simp]: "be_value [] = 0" "be_value (bytes @ [b]) = be_value bytes * 256 + unat b"
  by (simp_all add: be_value_def)

lemma byte_less: "unat (b :: u8) < 256"
  using unsigned_less [of b] by simp

lemma be_value_less: "be_value bytes < 256 ^ length bytes"
proof (induction bytes rule: rev_induct)
  case (snoc b bytes)
  then have "be_value bytes * 256 + 256 \<le> 256 ^ length bytes * 256" by (simp flip: add_mult_distrib2 Suc_le_eq add: mult.commute)
  with byte_less [of b] show ?case by simp
qed simp

lemma from_be_bytes_snoc [simp]: "from_be_bytes [] = 0" "from_be_bytes (bytes @ [b]) = from_be_bytes bytes * 256 + ucast b"
  by (simp_all add: from_be_bytes_def)

lemma from_be_bytes_of_nat: "from_be_bytes bytes = of_nat (be_value bytes)"
  by (induction bytes rule: rev_induct) simp_all

lemma unat_from_be_bytes:
  assumes "length bytes \<le> 8"
  shows "unat (from_be_bytes bytes) = be_value bytes"
proof -
  have "be_value bytes < 256 ^ length bytes" by (rule be_value_less)
  also have "\<dots> \<le> 256 ^ 8" by (rule power_increasing) (use assms in simp_all)
  finally show ?thesis by (simp add: from_be_bytes_of_nat unsigned_of_nat take_bit_nat_eq_self_iff)
qed

lemma fixed_hex_be_value: "fixed_hex (2 * length bytes) (be_value bytes) = concat (map fmt_byte bytes)"
proof (induction bytes rule: rev_induct)
  case (snoc b bytes)
  have "(v * 256 + n) div 16 = v * 16 + n div 16" "(v * 256 + n) mod 16 = n mod 16" for v n :: nat
    using div_mult_self1 [of 16 n "v * 16"] mod_mult_self1 [of n "v * 16" 16] by (simp_all add: ac_simps)
  moreover have "unat b div 16 < 16" using byte_less [of b] by (simp add: less_mult_imp_div_less)
  ultimately show ?case using snoc by (simp add: fmt_byte_def)
qed simp

lemma fixed_hex_pad:
  assumes "n < 16 ^ k" "0 < k"
  shows "length (fmt_hex n) \<le> k \<and> fixed_hex k n = replicate (k - length (fmt_hex n)) (CHR ''0'') @ fmt_hex n"
  using assms
proof (induction k arbitrary: n)
  case (Suc k)
  have zeros: "fixed_hex j 0 = replicate j (CHR ''0'')" for j
    by (induction j) (simp_all add: replicate_append_same)
  show ?case
  proof (cases "n < 16")
    case True
    then show ?thesis by (simp add: fmt_hex_def fmt_radix.simps [of 16 n] zeros)
  next
    case False
    then have "k \<noteq> 0" using Suc.prems(1) by (cases k) simp_all
    moreover have "n div 16 < 16 ^ k" using Suc.prems(1) by (simp add: less_mult_imp_div_less mult.commute)
    ultimately have "length (fmt_hex (n div 16)) \<le> k \<and>
        fixed_hex k (n div 16) = replicate (k - length (fmt_hex (n div 16))) (CHR ''0'') @ fmt_hex (n div 16)"
      using Suc.IH by simp
    with False show ?thesis by (simp add: fmt_hex_def fmt_radix.simps [of 16 n])
  qed
qed simp

lemma fmt_byte_inject [simp]: "fmt_byte a = fmt_byte b \<longleftrightarrow> a = b"
proof
  assume "fmt_byte a = fmt_byte b"
  then have "unat a div 16 = unat b div 16" "unat a mod 16 = unat b mod 16"
    using byte_less [of a] byte_less [of b] by (auto simp: fmt_byte_def digit_char_inject less_mult_imp_div_less)
  then show "a = b" by (metis div_mult_mod_eq unsigned_word_eqI)
qed simp

lemma concat_fmt_byte_inject: "concat (map fmt_byte xs) = concat (map fmt_byte ys) \<longleftrightarrow> xs = ys"
proof (induction xs arbitrary: ys)
  case Nil
  then show ?case by (cases ys) (simp_all add: fmt_byte_def)
next
  case (Cons x xs)
  have "length (fmt_byte b) = 2" "fmt_byte b \<noteq> []" for b by (simp_all add: fmt_byte_def)
  then show ?case using Cons.IH by (cases ys) (auto simp: append_eq_append_conv)
qed

lemma map_char_of_byte_inject: "map char_of_byte xs = map char_of_byte ys \<longleftrightarrow> xs = ys"
proof -
  have "of_char (char_of_byte b) = unat b" for b :: u8
    using byte_less [of b] by (simp add: char_of_byte_def)
  then have "inj char_of_byte" by (metis injI unsigned_word_eqI)
  then show ?thesis by (simp add: inj_map_eq_map)
qed

lemma hexlower_ok_example: "hexlower_ok (\<lambda>bytes. concat (map fmt_byte bytes))"
  by (simp add: hexlower_ok_def)

lemma build_id_short_hex:
  "hexlower_ok hexlower \<Longrightarrow> bi_flavour b \<noteq> Go_id \<Longrightarrow> build_id_short hexlower b = concat (map fmt_byte (bi_data b))"
  by (cases "bi_flavour b") (simp_all add: build_id_short_def fold_append_bytes hexlower_ok_def)

section \<open>Properties\<close>

text \<open>The executable id of a build id that was read from bytes is there: no slice is out of range.\<close>

lemma read_build_id_has_id:
  assumes "gnu_from_bytes bytes = Inr b \<or> go_from_bytes bytes = Inr b"
  shows "executable_id_of b = Some (from_be_bytes (take 8 bytes))"
  using assms by (auto simp: gnu_from_bytes_def go_from_bytes_def executable_id_of_def MIN_BUILD_ID_BYTES_def split: if_splits)

text \<open>
  Executable ids survive being printed and parsed: \<open>ExecutableId::from_str\<close> reads what \<open>Display\<close> writes,
  for each of the $2^{64}$ ids.
\<close>

lemma executable_id_roundtrip: "executable_id_from_str (fmt_executable_id i) = Inr i"
proof -
  have "unat i < 2 ^ 64" using unsigned_less [of i] by simp
  then have "unat i \<le> U64_MAX" by simp
  from from_str_radix_fmt_radix [OF _ _ this, of 16] show ?thesis
    by (simp add: executable_id_from_str_def fmt_executable_id_def fmt_hex_def)
qed

text \<open>
  The executable id is what the first eight bytes of a build id look like in hexadecimal, as the comment in
  \<open>id\<close> wants: for GNU and SHA-256 build ids the first sixteen digits of the printed build id are the digits of
  the printed executable id, after the zeros that the latter leaves out.
\<close>

lemma executable_id_is_hex_prefix:
  assumes "hexlower_ok hexlower" "bi_flavour b \<noteq> Go_id" "executable_id_of b = Some i"
  shows "\<exists>zeros. take 16 (build_id_short hexlower b) = replicate zeros (CHR ''0'') @ fmt_executable_id i"
proof -
  let ?bytes = "take 8 (bi_data b)"
  have len: "length ?bytes = 8" and i: "i = from_be_bytes ?bytes"
    using assms(3) by (auto simp: executable_id_of_def split: if_splits)
  have "length (concat (map fmt_byte bytes)) = 2 * length bytes" for bytes
    by (induction bytes) (simp_all add: fmt_byte_def)
  then have "take 16 (concat (map fmt_byte (?bytes @ drop 8 (bi_data b)))) = concat (map fmt_byte ?bytes)"
    using len unfolding map_append concat_append by simp
  then have "take 16 (build_id_short hexlower b) = fixed_hex 16 (be_value ?bytes)"
    using fixed_hex_be_value [of ?bytes] len build_id_short_hex [OF assms(1,2)] by (simp del: map_append)
  moreover have "be_value ?bytes < 16 ^ 16" using be_value_less [of ?bytes] len by simp
  moreover have "unat i = be_value ?bytes" using unat_from_be_bytes [of ?bytes] len i by simp
  ultimately show ?thesis using fixed_hex_pad [of "be_value ?bytes" 16] by (auto simp: fmt_executable_id_def)
qed

definition example_build_id :: BuildId where
  "example_build_id = \<lparr>bi_flavour = Gnu_id, bi_data = [0xbe, 0xef, 0xca, 0xfe, 0x01, 0x23, 0x45, 0x67]\<rparr>"

lemma executable_id_is_hex_prefix_example:
  "executable_id_of example_build_id = Some 0xbeefcafe01234567 \<and>
   (\<exists>zeros. take 16 (build_id_short (\<lambda>bytes. concat (map fmt_byte bytes)) example_build_id) =
      replicate zeros (CHR ''0'') @ fmt_executable_id 0xbeefcafe01234567)"
  using executable_id_is_hex_prefix [OF hexlower_ok_example, of example_build_id "0xbeefcafe01234567"]
  by (simp add: example_build_id_def executable_id_of_def from_be_bytes_def)

text \<open>Leading zeros are not printed: the representations differ when the first digit is zero.\<close>

lemma executable_id_drops_zeros:
  "fmt_executable_id (from_be_bytes [0x01, 0x23, 0x45, 0x67, 0x89, 0xab, 0xcd, 0xef]) = ''123456789abcdef'' \<and>
   build_id_short hexlower \<lparr>bi_flavour = Gnu_id, bi_data = [0x01, 0x23, 0x45, 0x67, 0x89, 0xab, 0xcd, 0xef]\<rparr> = ''0123456789abcdef''"
proof
  show "fmt_executable_id (from_be_bytes [0x01, 0x23, 0x45, 0x67, 0x89, 0xab, 0xcd, 0xef]) = ''123456789abcdef''"
    by (simp add: from_be_bytes_def fmt_executable_id_def fmt_hex_def fmt_radix.simps)
  show "build_id_short hexlower \<lparr>bi_flavour = Gnu_id, bi_data = [0x01, 0x23, 0x45, 0x67, 0x89, 0xab, 0xcd, 0xef]\<rparr> = ''0123456789abcdef''"
    by (simp add: build_id_short_def fmt_byte_def)
qed

text \<open>
  Printed build ids identify: two build ids with the same text, of whatever flavours, are the same, as long as
  the bytes of Go build ids are valid UTF-8. Debug information is stored and looked up under this text.
\<close>

lemma build_id_formatted_inject:
  assumes "hexlower_ok hexlower"
    and "bi_flavour a = Go_id \<Longrightarrow> utf8_loop 0 0 (bi_data a) = Inr ()"
    and "bi_flavour b = Go_id \<Longrightarrow> utf8_loop 0 0 (bi_data b) = Inr ()"
    and "build_id_formatted hexlower a = build_id_formatted hexlower b"
  shows "a = b"
proof -
  have flavour: "bi_flavour a = bi_flavour b"
    using assms(4) by (cases "bi_flavour a"; cases "bi_flavour b") (simp_all add: build_id_formatted_def)
  with assms(4) have short: "build_id_short hexlower a = build_id_short hexlower b"
    by (simp add: build_id_formatted_def)
  have "bi_data a = bi_data b"
  proof (cases "bi_flavour a = Go_id")
    case True
    with flavour short assms(2,3) show ?thesis
      by (simp add: build_id_short_def from_utf8_def map_char_of_byte_inject)
  next
    case False
    with flavour short show ?thesis by (simp add: build_id_short_hex [OF assms(1)] concat_fmt_byte_inject)
  qed
  with flavour show ?thesis by (cases a; cases b) simp
qed

lemma build_id_formatted_inject_example:
  "build_id_formatted (\<lambda>bytes. concat (map fmt_byte bytes)) example_build_id \<noteq>
   build_id_formatted (\<lambda>bytes. concat (map fmt_byte bytes)) (example_build_id\<lparr>bi_flavour := Sha256_id\<rparr>)"
  using build_id_formatted_inject [OF hexlower_ok_example, of example_build_id "example_build_id\<lparr>bi_flavour := Sha256_id\<rparr>"]
  by (auto simp: example_build_id_def)

end
