(* ===== verification/Process_Exit.thy ===== *)
theory Process_Exit
  imports Mapping_Registration Unwind_Cache Build_Id
begin

text \<open>
  How user space drops what it stored for a process: \<open>mark_as_deleted\<close> of src/src/process.rs with its
  reference counts, and \<open>delete_bpf_native_unwind_all\<close>, \<open>handle_process_exit\<close> and \<open>handle_munmap\<close>
  of src/src/profiler.rs, on the mapping trie, the page table and the unwind tables. Locks and log
  messages have no effect on the model.
\<close>

section \<open>Processes, mappings and object files\<close>

datatype ExecutableMappingType = FileBacked | Anonymous | Vdso | Kernel

datatype ProcessStatus = Running | Exited

record ExecutableMapping =
  em_executable_id :: u64
  em_build_id :: "BuildId option"
  em_kind :: ExecutableMappingType
  em_start_addr :: u64
  em_end_addr :: u64
  em_offset :: u64
  em_load_address :: u64
  em_soft_delete :: bool

record ProcessInfo =
  pi_status :: ProcessStatus
  pi_mappings :: "ExecutableMapping list"
  pi_last_used :: nat

record KnownExecutableInfo =
  unwind_info_rows :: nat
  unwind_info_start_address :: u64
  unwind_info_end_address :: u64
  ke_last_used :: nat

record ElfLoad =
  p_offset :: u64
  p_vaddr :: u64
  p_filesz :: u64

datatype Runtime = CLike | Go "(u64 \<times> u64) list" | Zig u64 u64 | V8

text \<open>Object files without their reference count, which is a member of its own below.\<close>

record ObjectFileInfo =
  of_path :: string
  elf_load_segments :: "ElfLoad list"
  is_vdso :: bool
  runtime :: Runtime

text \<open>
  The members of the profiler the handlers use, and the BPF maps. \<open>object_files\<close> and \<open>references\<close> are the
  object files and their reference counts; times are in milliseconds.
\<close>

record profiler =
  procs :: "s32 \<rightharpoonup> ProcessInfo"
  object_files :: "u64 \<rightharpoonup> ObjectFileInfo"
  references :: "u64 \<rightharpoonup> int"
  last_executable_eviction :: nat
  last_process_eviction :: nat
  known_executables :: "u64 \<rightharpoonup> KnownExecutableInfo"
  mapping_trie :: lpm_trie
  unwind_info_manager :: UnwindInfoManager
  page_entries :: page_table
  unwind_tables :: "u64 \<rightharpoonup> inner_map"

text \<open>The entry stored for a mapping (lines 1376 to 1411 of \<open>add_unwind_info_for_process\<close>).\<close>

definition bpf_mapping :: "ExecutableMapping \<Rightarrow> mapping_t" where
  "bpf_mapping e =
     (if em_kind e = Anonymous
      then \<lparr>m_executable_id = 0, m_load_address = 0, m_begin = em_start_addr e, m_end = em_end_addr e,
            m_type = MAPPING_TYPE_ANON\<rparr>
      else \<lparr>m_executable_id = em_executable_id e, m_load_address = em_load_address e,
            m_begin = em_start_addr e, m_end = em_end_addr e,
            m_type = (if em_kind e = Vdso then MAPPING_TYPE_VDSO else MAPPING_TYPE_FILE)\<rparr>)"

section \<open>The handlers\<close>

definition mark_as_deleted ::
    "ExecutableMapping \<Rightarrow> (u64 \<rightharpoonup> int) \<Rightarrow> bool \<times> ExecutableMapping \<times> (u64 \<rightharpoonup> int)" where
  "mark_as_deleted e refs =
     (if em_soft_delete e then (False, e, refs)
      else let e' = e\<lparr>em_soft_delete := True\<rparr> in
        (case refs (em_executable_id e) of
           None \<Rightarrow> (False, e', refs)
         | Some n \<Rightarrow>
             if n = 0 then (False, e', refs)
             else (n - 1 = 0, e', refs(em_executable_id e \<mapsto> n - 1))))"

definition delete_bpf_native_unwind_all ::
    "s32 \<Rightarrow> ExecutableMapping \<Rightarrow> KnownExecutableInfo \<Rightarrow> profiler \<Rightarrow> profiler" where
  "delete_bpf_native_unwind_all pid e info s =
     s\<lparr>mapping_trie := delete_bpf_mappings pid (em_start_addr e) (em_end_addr e) (mapping_trie s),
       page_entries := delete_bpf_pages (unwind_info_start_address info) (unwind_info_end_address info)
         (em_executable_id e) (page_entries s),
       unwind_tables := (unwind_tables s)(em_executable_id e := None),
       known_executables := (known_executables s)(em_executable_id e := None)\<rparr>"

text \<open>Both handlers mark a mapping and drop its data when the last reference is gone.\<close>

definition drop_mapping :: "s32 \<Rightarrow> ExecutableMapping \<Rightarrow> profiler \<Rightarrow> ExecutableMapping \<times> profiler" where
  "drop_mapping pid e s =
     (let (last, e', refs) = mark_as_deleted e (references s); s1 = s\<lparr>references := refs\<rparr> in
      if last
      then (case known_executables s1 (em_executable_id e) of
              None \<Rightarrow> (e', s1)
            | Some info \<Rightarrow> (e', delete_bpf_native_unwind_all pid e' info s1))
      else (e', s1))"

fun drop_mappings ::
    "s32 \<Rightarrow> (ExecutableMapping \<Rightarrow> bool) \<Rightarrow> ExecutableMapping list \<Rightarrow> profiler \<Rightarrow>
     ExecutableMapping list \<times> profiler" where
  "drop_mappings pid selected [] s = ([], s)"
| "drop_mappings pid selected (e # es) s =
     (let (e', s1) = (if selected e then drop_mapping pid e s else (e, s));
          (es', s2) = drop_mappings pid selected es s1
      in (e' # es', s2))"

definition handle_process_exit :: "s32 \<Rightarrow> profiler \<Rightarrow> profiler" where
  "handle_process_exit pid s =
     (case procs s pid of
        None \<Rightarrow> s
      | Some proc_info \<Rightarrow>
          let s1 = s\<lparr>mapping_trie := delete_bpf_process pid (mapping_trie s)\<rparr>;
              (es, s2) = drop_mappings pid (\<lambda>e. True) (pi_mappings proc_info) s1
          in s2\<lparr>procs := (procs s2)(pid \<mapsto> proc_info\<lparr>pi_status := Exited, pi_mappings := es\<rparr>)\<rparr>)"

definition handle_munmap :: "s32 \<Rightarrow> u64 \<Rightarrow> profiler \<Rightarrow> profiler" where
  "handle_munmap pid start_address s =
     (case procs s pid of
        None \<Rightarrow> s
      | Some proc_info \<Rightarrow>
          let (es, s2) = drop_mappings pid
                (\<lambda>e. em_start_addr e \<le> start_address \<and> start_address \<le> em_end_addr e)
                (pi_mappings proc_info) s
          in s2\<lparr>procs := (procs s2)(pid \<mapsto> proc_info\<lparr>pi_mappings := es\<rparr>)\<rparr>)"

section \<open>What dropping a mapping does\<close>

lemma bpf_mapping_bounds [simp]: "m_begin (bpf_mapping e) = em_start_addr e" "m_end (bpf_mapping e) = em_end_addr e"
  by (simp_all add: bpf_mapping_def)

text \<open>The last reference to a known executable.\<close>

definition last_reference :: "profiler \<Rightarrow> ExecutableMapping \<Rightarrow> bool" where
  "last_reference s e \<longleftrightarrow> \<not> em_soft_delete e \<and> references s (em_executable_id e) = Some 1 \<and>
     known_executables s (em_executable_id e) \<noteq> None"

lemma drop_mapping_trie:
  "mapping_trie (snd (drop_mapping pid e s)) =
     (if last_reference s e then delete_bpf_mappings pid (em_start_addr e) (em_end_addr e) (mapping_trie s)
      else mapping_trie s)"
  by (auto simp: drop_mapping_def mark_as_deleted_def last_reference_def delete_bpf_native_unwind_all_def
      Let_def split: option.splits)

lemma drop_mapping_frame:
  assumes "executable_id \<noteq> em_executable_id e"
  shows "references (snd (drop_mapping pid e s)) executable_id = references s executable_id"
    and "known_executables (snd (drop_mapping pid e s)) executable_id = known_executables s executable_id"
    and "unwind_tables (snd (drop_mapping pid e s)) executable_id = unwind_tables s executable_id"
  using assms
  by (auto simp: drop_mapping_def mark_as_deleted_def delete_bpf_native_unwind_all_def Let_def split: option.splits)

lemma drop_mapping_last:
  assumes "last_reference s e"
  shows "references (snd (drop_mapping pid e s)) (em_executable_id e) = Some 0"
    and "known_executables (snd (drop_mapping pid e s)) (em_executable_id e) = None"
    and "unwind_tables (snd (drop_mapping pid e s)) (em_executable_id e) = None"
  using assms
  by (auto simp: drop_mapping_def mark_as_deleted_def delete_bpf_native_unwind_all_def last_reference_def Let_def)

lemma last_reference_frame:
  "em_executable_id e' \<noteq> em_executable_id e \<Longrightarrow>
   last_reference (snd (drop_mapping pid e s)) e' = last_reference s e'"
  by (simp add: last_reference_def drop_mapping_frame)

lemma drop_mappings_Cons:
  "snd (drop_mappings pid selected (e # es) s) =
     snd (drop_mappings pid selected es (if selected e then snd (drop_mapping pid e s) else s))"
  by (simp add: Let_def case_prod_unfold)

declare drop_mappings.simps(2) [simp del]

lemma drop_mappings_frame:
  assumes "executable_id \<notin> em_executable_id ` set es"
  shows "known_executables (snd (drop_mappings pid selected es s)) executable_id = known_executables s executable_id"
    and "unwind_tables (snd (drop_mappings pid selected es s)) executable_id = unwind_tables s executable_id"
  using assms by (induction es arbitrary: s) (auto simp: drop_mappings_Cons drop_mapping_frame)

text \<open>Every mapping is the last reference to its own executable: all their blocks are deleted.\<close>

lemma drop_all_last:
  assumes "list_all (last_reference s) es" "distinct (map em_executable_id es)"
  shows "mapping_trie (snd (drop_mappings pid (\<lambda>e. True) es s)) =
       fold (\<lambda>m. delete_bpf_mappings pid (m_begin m) (m_end m)) (map bpf_mapping es) (mapping_trie s)"
    and "e \<in> set es \<Longrightarrow>
       known_executables (snd (drop_mappings pid (\<lambda>e. True) es s)) (em_executable_id e) = None \<and>
       unwind_tables (snd (drop_mappings pid (\<lambda>e. True) es s)) (em_executable_id e) = None"
proof -
  have later: "list_all (last_reference (snd (drop_mapping pid e s))) es"
    if "list_all (last_reference s) es" "em_executable_id e \<notin> em_executable_id ` set es" for e s es
    using that by (auto simp: list_all_iff) (metis imageI last_reference_frame)
  show "mapping_trie (snd (drop_mappings pid (\<lambda>e. True) es s)) =
       fold (\<lambda>m. delete_bpf_mappings pid (m_begin m) (m_end m)) (map bpf_mapping es) (mapping_trie s)"
    using assms by (induction es arbitrary: s) (auto simp: drop_mappings_Cons drop_mapping_trie later)
  show "known_executables (snd (drop_mappings pid (\<lambda>e. True) es s)) (em_executable_id e) = None \<and>
      unwind_tables (snd (drop_mappings pid (\<lambda>e. True) es s)) (em_executable_id e) = None" if "e \<in> set es"
    using assms that
  proof (induction es arbitrary: s)
    case (Cons x es)
    show ?case
    proof (cases "e = x")
      case True
      with Cons.prems show ?thesis by (simp add: drop_mappings_Cons drop_mappings_frame drop_mapping_last)
    next
      case False
      with Cons.prems show ?thesis using Cons.IH later by (simp add: drop_mappings_Cons)
    qed
  qed simp
qed

text \<open>
  An executable with more references than the process has mappings of it is not dropped.
\<close>

definition kept :: "profiler \<Rightarrow> ExecutableMapping list \<Rightarrow> u64 \<Rightarrow> bool" where
  "kept s es executable_id \<longleftrightarrow> (\<exists>n. references s executable_id = Some n \<and>
     int (length (filter (\<lambda>e. em_executable_id e = executable_id) es)) < n)"

lemma kept_drop_mapping:
  assumes "kept s (e # es) executable_id"
  shows "kept (snd (drop_mapping pid e s)) es executable_id"
    and "last_reference s e \<Longrightarrow> em_executable_id e \<noteq> executable_id"
proof -
  show "kept (snd (drop_mapping pid e s)) es executable_id"
  proof (cases "em_executable_id e = executable_id")
    case True
    then show ?thesis
      using assms by (auto simp: kept_def drop_mapping_def mark_as_deleted_def Let_def)
  next
    case False
    then show ?thesis using assms by (simp add: kept_def drop_mapping_frame)
  qed
qed (use assms in \<open>auto simp: kept_def last_reference_def\<close>)

lemma drop_mappings_kept:
  assumes "kept s es executable_id" "list_all (mapping_wf \<circ> bpf_mapping) es"
    and "\<forall>e \<in> set es. em_executable_id e \<noteq> executable_id \<longrightarrow> p \<notin> mapping_prefixes pid (bpf_mapping e)"
  shows "mapping_trie (snd (drop_mappings pid (\<lambda>e. True) es s)) p = mapping_trie s p"
  using assms
proof (induction es arbitrary: s)
  case (Cons e es)
  have "mapping_trie (snd (drop_mapping pid e s)) p = mapping_trie s p"
    using Cons.prems kept_drop_mapping(2) [OF Cons.prems(1)] delete_bpf_mappings_result [of "bpf_mapping e"]
    by (auto simp: drop_mapping_trie)
  with Cons kept_drop_mapping(1) [OF Cons.prems(1)] show ?case by (simp add: drop_mappings_Cons)
qed simp

lemma handle_process_exit_trie:
  assumes "procs s pid = Some info"
  shows "mapping_trie (handle_process_exit pid s) = mapping_trie (snd (drop_mappings pid (\<lambda>e. True)
       (pi_mappings info) (s\<lparr>mapping_trie := delete_bpf_process pid (mapping_trie s)\<rparr>)))"
    and "known_executables (handle_process_exit pid s) = known_executables (snd (drop_mappings pid (\<lambda>e. True)
       (pi_mappings info) (s\<lparr>mapping_trie := delete_bpf_process pid (mapping_trie s)\<rparr>)))"
    and "unwind_tables (handle_process_exit pid s) = unwind_tables (snd (drop_mappings pid (\<lambda>e. True)
       (pi_mappings info) (s\<lparr>mapping_trie := delete_bpf_process pid (mapping_trie s)\<rparr>)))"
  using assms by (simp_all add: handle_process_exit_def Let_def case_prod_unfold)

lemma exit_keeps_prefixes:
  fixes pc :: u64
  assumes "procs s pid = Some info" "e \<in> set (pi_mappings info)"
    and "kept s (pi_mappings info) (em_executable_id e)"
    and "list_all (mapping_wf \<circ> bpf_mapping) (pi_mappings info)"
    and "disjoint_mappings (map bpf_mapping (pi_mappings info))" "em_kind e \<noteq> Anonymous"
    and "contains_pc (bpf_mapping e) pc" "32 < i" "i \<le> 96"
  shows "mapping_trie (handle_process_exit pid s) (take i (msb_bits pid @ msb_bits pc)) =
     mapping_trie s (take i (msb_bits pid @ msb_bits pc))" (is "_ (take i ?q) = _")
proof -
  let ?es = "pi_mappings info" and ?s1 = "s\<lparr>mapping_trie := delete_bpf_process pid (mapping_trie s)\<rparr>"
  have "take i ?q \<notin> mapping_prefixes pid (bpf_mapping e')"
    if "e' \<in> set ?es" "em_executable_id e' \<noteq> em_executable_id e" for e'
  proof
    assume "take i ?q \<in> mapping_prefixes pid (bpf_mapping e')"
    then have "contains_pc (bpf_mapping e') pc"
      using query_in_prefixes(1) [OF _ assms(9)] assms(4) that(1) by (simp add: list_all_iff)
    then have "bpf_mapping e' = bpf_mapping e"
      using assms(2,5,7) that(1) unfolding disjoint_mappings_def by auto
    with assms(6) that(2) show False by (auto simp: bpf_mapping_def split: if_splits)
  qed
  moreover have "kept ?s1 ?es (em_executable_id e)" using assms(3) by (simp add: kept_def)
  ultimately have "mapping_trie (snd (drop_mappings pid (\<lambda>e. True) ?es ?s1)) (take i ?q) = mapping_trie ?s1 (take i ?q)"
    using assms(4) by (intro drop_mappings_kept) blast+
  then have "mapping_trie (handle_process_exit pid s) (take i ?q) = delete_bpf_process pid (mapping_trie s) (take i ?q)"
    unfolding handle_process_exit_trie(1) [OF assms(1)] by (simp del: take_append)
  also have "\<dots> = mapping_trie s (take i ?q)"
    using take_query_eq_stored_prefix [OF assms(9), of 0 pid pc pid 0] assms(8)
      delete_key_result [of 0 pid 0 "mapping_trie s"]
    by (simp add: delete_bpf_process_def del: take_append)
  finally show ?thesis .
qed

section \<open>Properties\<close>

text \<open>
  C28. Registering a process and its exit round-trip, on the error path too: when each mapping of the
  process is the last reference to its own known executable, then whatever updates the kernel refused
  while the process was registered, its exit leaves the trie exactly as it was before, and the unwind
  tables of its executables are gone.
\<close>

theorem process_exit_undoes_registration:
  assumes "procs s pid = Some info" "list_all (last_reference s) (pi_mappings info)"
    and "distinct (map em_executable_id (pi_mappings info))"
    and "list_all (mapping_wf \<circ> bpf_mapping) (pi_mappings info)" "no_entries pid t0"
    and "mapping_trie s = snd (register_process accepts pid (map bpf_mapping (pi_mappings info)) t0)"
  shows "mapping_trie (handle_process_exit pid s) = t0 \<and>
     list_all (\<lambda>e. known_executables (handle_process_exit pid s) (em_executable_id e) = None \<and>
       unwind_tables (handle_process_exit pid s) (em_executable_id e) = None) (pi_mappings info)"
proof -
  let ?es = "pi_mappings info" and ?s1 = "s\<lparr>mapping_trie := delete_bpf_process pid (mapping_trie s)\<rparr>"
  have "list_all (last_reference ?s1) ?es" using assms(2) by (simp add: list_all_iff last_reference_def)
  note drop = drop_all_last [OF this assms(3)]
  have "mapping_trie (handle_process_exit pid s) = unregister_process pid (map bpf_mapping ?es) (mapping_trie s)"
    by (simp add: handle_process_exit_trie [OF assms(1)] drop(1) unregister_process_def)
  also have "\<dots> = t0"
    unfolding assms(6) using assms(4,5) by (intro unregister_undoes_register) (simp_all add: list_all_iff)
  finally show ?thesis
    using drop(2) by (simp add: handle_process_exit_trie [OF assms(1)] list_all_iff)
qed

definition example_mapping_info :: ExecutableMapping where
  "example_mapping_info = \<lparr>em_executable_id = 7, em_build_id = Some example_build_id, em_kind = FileBacked,
     em_start_addr = 0x401000, em_end_addr = 0x404000, em_offset = 0x1000, em_load_address = 0x400000, em_soft_delete = False\<rparr>"

definition example_profiler :: "(lpm_trie \<Rightarrow> bool list \<Rightarrow> bool) \<Rightarrow> int \<Rightarrow> profiler" where
  "example_profiler accepts n =
     \<lparr>procs = [42 \<mapsto> \<lparr>pi_status = Running, pi_mappings = [example_mapping_info], pi_last_used = 0\<rparr>],
      object_files = [7 \<mapsto> \<lparr>of_path = ''/bin/true'', elf_load_segments = [\<lparr>p_offset = 0x1000, p_vaddr = 0x1000,
        p_filesz = 0x3000\<rparr>], is_vdso = False, runtime = CLike\<rparr>],
      references = [7 \<mapsto> n], last_executable_eviction = 0, last_process_eviction = 0,
      known_executables = [7 \<mapsto> \<lparr>unwind_info_rows = 3, unwind_info_start_address = 0x1000,
        unwind_info_end_address = 0x3fff, ke_last_used = 0\<rparr>],
      mapping_trie = snd (register_process accepts 42 [bpf_mapping example_mapping_info] Map.empty),
      unwind_info_manager = manager_new Map.empty [] 1000, page_entries = Map.empty, unwind_tables = [7 \<mapsto> \<lambda>i. None]\<rparr>"

lemma example_mapping_wf: "mapping_wf (bpf_mapping example_mapping_info)"
  by (simp add: mapping_wf_def example_mapping_info_def)

lemma no_entries_empty: "no_entries pid Map.empty"
  by (simp add: no_entries_def)

theorem process_exit_undoes_registration_witness:
  "mapping_trie (handle_process_exit 42 (example_profiler (\<lambda>t p. length p < 50) 1)) = Map.empty"
  using process_exit_undoes_registration [of "example_profiler (\<lambda>t p. length p < 50) 1" 42
      "\<lparr>pi_status = Running, pi_mappings = [example_mapping_info], pi_last_used = 0\<rparr>" Map.empty "\<lambda>t p. length p < 50"]
    example_mapping_wf no_entries_empty
  by (simp add: example_profiler_def last_reference_def) (simp add: example_mapping_info_def)

text \<open>
  The exit of a process leaves its mappings behind when their executable is referenced elsewhere:
  if the executable of a mapping has more references than the exiting process has mappings of it,
  then after the exit the lookup still finds the mapping for its program counters, and a later process
  with the same pid starts with it.
\<close>

lemma process_exit_keeps_shared_mappings:
  assumes "procs s pid = Some info" "e \<in> set (pi_mappings info)"
    and "kept s (pi_mappings info) (em_executable_id e)"
    and "register_process accepts pid (map bpf_mapping (pi_mappings info)) t0 = (True, mapping_trie s)"
    and "list_all (mapping_wf \<circ> bpf_mapping) (pi_mappings info)"
    and "disjoint_mappings (map bpf_mapping (pi_mappings info))" "em_kind e \<noteq> Anonymous"
    and "no_entries pid t0" "contains_pc (bpf_mapping e) pc"
    and "lpm_contract (mapping_trie (handle_process_exit pid s)) lookup"
  shows "find_mapping lookup pid pc = Some (bpf_mapping e)"
proof -
  let ?es = "pi_mappings info" and ?q = "msb_bits pid @ msb_bits pc"
  let ?t = "mapping_trie s" and ?t' = "mapping_trie (handle_process_exit pid s)"
  have wf: "\<forall>m \<in> set (map bpf_mapping ?es). mapping_wf m" using assms(5) by (simp add: list_all_iff)
  have same: "?t' (take i ?q) = ?t (take i ?q)" if "32 < i" "i \<le> 96" for i
    using exit_keeps_prefixes [OF assms(1,2,3,5,6,7,9) that] .
  have e: "bpf_mapping e \<in> set (map bpf_mapping ?es)" using assms(2) by simp
  have "longest_match ?t 96 ?q = Some (bpf_mapping e)"
    using registered_lookup [OF assms(4) wf assms(6,8), of pc] find_disjoint [OF assms(6) e assms(9)] by simp
  moreover obtain j where "j \<le> 96" "32 < j" "?t (take j ?q) \<noteq> None"
    using registered_entry(3) [OF assms(4) wf assms(8) order_refl e assms(9)] by blast
  ultimately have "longest_match ?t' 96 ?q = Some (bpf_mapping e)"
    using longest_match_agree_above [where k = 32 and t' = ?t'] same by blast
  then show ?thesis using find_mapping_trie [OF assms(10)] by simp
qed

lemma example_registered:
  "register_process (\<lambda>t p. True) 42 [bpf_mapping example_mapping_info] Map.empty =
     (True, mapping_trie (example_profiler (\<lambda>t p. True) n))"
  using register_accepted [of "[bpf_mapping example_mapping_info]" 42 Map.empty] example_mapping_wf
  by (auto simp: example_profiler_def)

lemma process_exit_keeps_shared_mappings_example:
  "find_mapping (trie_lookup (mapping_trie (handle_process_exit 42 (example_profiler (\<lambda>t p. True) 2)))) 42 0x402020 =
     Some (bpf_mapping example_mapping_info)"
proof -
  let ?s = "example_profiler (\<lambda>t p. True) 2"
  let ?info = "\<lparr>pi_status = Running, pi_mappings = [example_mapping_info], pi_last_used = 0\<rparr>"
  have "procs ?s 42 = Some ?info" by (simp add: example_profiler_def)
  moreover have "kept ?s [example_mapping_info] (em_executable_id example_mapping_info)"
    by (simp add: kept_def example_profiler_def) (simp add: example_mapping_info_def)
  moreover have "disjoint_mappings [bpf_mapping example_mapping_info]" by (simp add: disjoint_mappings_def)
  moreover have "em_kind example_mapping_info \<noteq> Anonymous"
    "contains_pc (bpf_mapping example_mapping_info) 0x402020"
    by (simp_all add: contains_pc_def example_mapping_info_def)
  ultimately show ?thesis
    using process_exit_keeps_shared_mappings [OF _ _ _ _ _ _ _ _ _ trie_lookup_contract,
        of ?s 42 ?info example_mapping_info "\<lambda>t p. True" Map.empty "0x402020"]
      example_registered example_mapping_wf no_entries_empty
    by simp
qed

text \<open>
  What a munmap event does to a process with one mapping that is the last reference to its
  executable: the entries of the mapping are deleted exactly when the unmapped address is at least
  its start and at most its end. The end itself is not an address of the mapping: unmapping what
  starts right after a mapping drops the mapping and its unwind tables as well.
\<close>

lemma handle_munmap_includes_end:
  assumes "procs s pid = Some info" "pi_mappings info = [e]" "last_reference s e" "mapping_wf (bpf_mapping e)"
  shows "(mapping_trie (handle_munmap pid start_address s) p =
       (if em_start_addr e \<le> start_address \<and> start_address \<le> em_end_addr e \<and>
           p \<in> mapping_prefixes pid (bpf_mapping e)
        then None else mapping_trie s p)) \<and>
     unwind_tables (handle_munmap pid (em_end_addr e) s) (em_executable_id e) = None"
proof -
  have le: "em_start_addr e \<le> em_end_addr e" using assms(4) by (simp add: mapping_wf_def)
  have "mapping_trie (handle_munmap pid start_address s) =
      (if em_start_addr e \<le> start_address \<and> start_address \<le> em_end_addr e
       then delete_bpf_mappings pid (em_start_addr e) (em_end_addr e) (mapping_trie s) else mapping_trie s)"
    using assms(1,2,3) drop_mapping_trie [of pid e s]
    by (auto simp: handle_munmap_def drop_mappings.simps(2) Let_def split: prod.splits)
  moreover have "unwind_tables (handle_munmap pid (em_end_addr e) s) (em_executable_id e) = None"
    using assms(1,2) drop_mapping_last(3) [OF assms(3), of pid] le
    by (auto simp: handle_munmap_def drop_mappings.simps(2) Let_def split: prod.splits)
  ultimately show ?thesis using delete_bpf_mappings_result [OF assms(4), of pid] by simp
qed

lemma handle_munmap_includes_end_example:
  "unwind_tables (handle_munmap 42 0x404000 (example_profiler (\<lambda>t p. True) 1)) 7 = None \<and>
   \<not> contains_pc (bpf_mapping example_mapping_info) 0x404000"
  using handle_munmap_includes_end [of "example_profiler (\<lambda>t p. True) 1" 42
      "\<lparr>pi_status = Running, pi_mappings = [example_mapping_info], pi_last_used = 0\<rparr>" example_mapping_info] example_mapping_wf
  by (simp add: example_profiler_def last_reference_def) (simp add: contains_pc_def example_mapping_info_def)

end
