(* ===== verification/Unwind_Loader.thy ===== *)
theory Unwind_Loader
  imports Process_Exit
begin

text \<open>
  How user space loads unwind tables into the BPF maps: \<open>add_unwind_information_for_executable\<close> and
  \<open>maybe_evict_executables\<close> of src/src/profiler.rs, on the profiler state with its cache of tables, its
  book of loaded executables and the BPF maps. What the functions ask from the outside is a record of
  parameters.
\<close>

section \<open>Surroundings\<close>

text \<open>
  The parameters: SHA-256, the architecture, what the packages object and gimli find in the file of a path, the
  floating-point estimate of the size of so many rows, the limit of the memory, which updates the kernel
  accepts, the time, and the order in which the hash map of loaded executables is iterated.
\<close>

record loader_env =
  le_sha256 :: "u8 list \<Rightarrow> u8 list"
  le_arm64 :: bool
  le_files :: "string \<Rightarrow> elf_file"
  unwind_info_size_mb :: "nat \<Rightarrow> u32"
  max_native_unwind_info_size_mb :: s32
  accepts_page :: "page_table \<Rightarrow> page_key_t \<Rightarrow> bool"
  accepts_table :: "u64 \<Rightarrow> bool"
  maps_table :: "u64 \<Rightarrow> bool"
  le_now :: nat
  le_order :: "(u64 \<rightharpoonup> KnownExecutableInfo) \<Rightarrow> u64 list"

text \<open>Iterating a hash map visits every key once.\<close>

definition order_ok :: "loader_env \<Rightarrow> (u64 \<rightharpoonup> KnownExecutableInfo) \<Rightarrow> bool" where
  "order_ok env known \<longleftrightarrow> distinct (le_order env known) \<and> set (le_order env known) = dom known"

datatype AddUnwindInformationResult = Success | AlreadyLoaded

text \<open>
  Two ways not to return come with the errors: \<open>Loader_panic\<close> stands for the calls of \<open>unwrap\<close> that fail and for panics
  in the conversion or in the cache, \<open>Loader_undefined\<close> for undefined behaviour in the reader of the cache.
\<close>

datatype AddUnwindInformationError =
    Eviction | TooLarge string nat | NoUnwindInfoKnownNaughty | NoUnwindInfo FetchUnwindInfoError string
  | Empty_unwind_info | BpfUnwindInfo | BpfPages | Loader_panic | Loader_undefined

definition MAX_UNWIND_INFO_SIZE :: nat where "MAX_UNWIND_INFO_SIZE = 7000000"

section \<open>Evicting executables\<close>

definition can_evict_executable :: "nat \<Rightarrow> profiler \<Rightarrow> bool" where
  "can_evict_executable now s \<longleftrightarrow> 500 \<le> now - last_executable_eviction s"

definition is_outer_map_full :: "loader_env \<Rightarrow> profiler \<Rightarrow> bool" where
  "is_outer_map_full env s \<longleftrightarrow> MAX_OUTER_UNWIND_MAP_ENTRIES \<le> length (le_order env (known_executables s))"

definition last_used_executables :: "loader_env \<Rightarrow> profiler \<Rightarrow> u64 list" where
  "last_used_executables env s =
     sort_key (\<lambda>i. ke_last_used (the (known_executables s i))) (le_order env (known_executables s))"

text \<open>Megabytes are added up in 32 bits; sums wrap around, as they do in release builds.\<close>

definition unwind_info_memory_usage :: "loader_env \<Rightarrow> profiler \<Rightarrow> u32" where
  "unwind_info_memory_usage env s =
     sum_list (map (\<lambda>i. unwind_info_size_mb env (unwind_info_rows (the (known_executables s i))))
       (le_order env (known_executables s)))"

fun pick_for_memory :: "u32 \<Rightarrow> u32 \<Rightarrow> u32 \<Rightarrow> u64 list \<Rightarrow> u64 list" where
  "pick_for_memory unwind_size_mb to_free_mb could_be_freed_mb [] = []"
| "pick_for_memory unwind_size_mb to_free_mb could_be_freed_mb (i # is) =
     (if to_free_mb \<le> could_be_freed_mb then []
      else i # pick_for_memory unwind_size_mb to_free_mb (could_be_freed_mb + unwind_size_mb) is)"

definition evict_executable :: "nat \<Rightarrow> u64 \<Rightarrow> profiler \<Rightarrow> profiler" where
  "evict_executable now executable_id s =
     (let s1 = s\<lparr>last_executable_eviction := now\<rparr> in
      case known_executables s executable_id of
        None \<Rightarrow> s1
      | Some info \<Rightarrow>
          s1\<lparr>page_entries := delete_bpf_pages (unwind_info_start_address info) (unwind_info_end_address info)
              executable_id (page_entries s),
            unwind_tables := (unwind_tables s)(executable_id := None),
            known_executables := (known_executables s)(executable_id := None)\<rparr>)"

definition maybe_evict_executables :: "loader_env \<Rightarrow> nat \<Rightarrow> profiler \<Rightarrow> bool \<times> profiler" where
  "maybe_evict_executables env new_len s =
     (let full = (if is_outer_map_full env s then take 1 (last_used_executables env s) else []);
          total_memory_used_after_mb = unwind_info_memory_usage env s + unwind_info_size_mb env new_len;
          exceeding_mb = total_memory_used_after_mb - max_native_unwind_info_size_mb env;
          to_free_mb = (if 0 \<le> sint exceeding_mb then exceeding_mb else 0);
          should_evict = (full \<noteq> [] \<or> to_free_mb \<noteq> 0)
      in if should_evict \<and> \<not> can_evict_executable (le_now env) s then (False, s)
         else let executables_to_evict = full @ pick_for_memory (unwind_info_size_mb env new_len) to_free_mb 0
                    (last_used_executables env s)
              in (True, fold (evict_executable (le_now env)) executables_to_evict s))"

section \<open>Loading a table\<close>

definition contains :: "string \<Rightarrow> string \<Rightarrow> bool" where
  "contains hay needle \<longleftrightarrow> list_ex (\<lambda>i. take (length needle) (drop i hay) = needle) [0..<Suc (length hay)]"

definition known_naughty :: "string \<Rightarrow> bool" where
  "known_naughty path \<longleftrightarrow> contains path ''libicudata.so'' \<or> contains path ''libnss_dns.so''"

definition go_unwind_info :: "(u64 \<times> u64) list \<Rightarrow> u64 \<Rightarrow> u64 \<Rightarrow> CompactUnwindRow list" where
  "go_unwind_info stop_frames start_address end_address =
     sort_key cu_pc (concat (map (\<lambda>(lo, hi). [stop_unwinding lo, frame_setup hi]) stop_frames) @
       [frame_setup start_address, stop_unwinding end_address])"

definition fetch_table ::
    "loader_env \<Rightarrow> string \<Rightarrow> u64 \<Rightarrow> (u64 \<times> u64) option \<Rightarrow> profiler \<Rightarrow>
     (FetchUnwindInfoError + CompactUnwindRow list) execution \<times> profiler" where
  "fetch_table env path executable_id override s =
     (case fetch_unwind_info (le_sha256 env)
         (\<lambda>_. compact_unwind_info (le_arm64 env) override (le_files env path)) False (le_now env) executable_id
         (unwind_info_manager s) of
        (r, manager) \<Rightarrow> (r, s\<lparr>unwind_info_manager := manager\<rparr>))"

definition runtime_unwind_info ::
    "loader_env \<Rightarrow> u64 \<Rightarrow> ObjectFileInfo \<Rightarrow> u64 \<Rightarrow> u64 \<Rightarrow> profiler \<Rightarrow>
     (FetchUnwindInfoError + CompactUnwindRow list) execution \<times> profiler" where
  "runtime_unwind_info env executable_id info start_address end_address s =
     (case runtime info of
        Go stop_frames \<Rightarrow> (Returns (Inr (go_unwind_info stop_frames start_address end_address)), s)
      | Zig start_low_address start_high_address \<Rightarrow>
          fetch_table env (of_path info) executable_id (Some (start_low_address, start_high_address)) s
      | CLike \<Rightarrow>
          if is_vdso info \<and> le_arm64 env
          then (Returns (Inr [frame_setup start_address, stop_unwinding end_address]), s)
          else fetch_table env (of_path info) executable_id None s
      | V8 \<Rightarrow> (Returns (Inr [frame_setup start_address, stop_unwinding end_address]), s))"

text \<open>An inner map as it is created: so many rows of zero bytes.\<close>

definition empty_inner_map :: "nat \<Rightarrow> inner_map" where
  "empty_inner_map n = array_lookup (replicate n \<lparr>pc_low = 0, cfa_type = 0, rbp_type = 0, cfa_offset = 0, rbp_offset = 0\<rparr>)"

text \<open>Storing the rows, their pages and the entry in the book; a failure leaves what was already stored.\<close>

definition store_unwind_info ::
    "loader_env \<Rightarrow> u64 \<Rightarrow> CompactUnwindRow list \<Rightarrow> profiler \<Rightarrow>
     (AddUnwindInformationError + AddUnwindInformationResult) \<times> profiler" where
  "store_unwind_info env executable_id unwind_info s =
     (if \<not> accepts_table env executable_id then (Inl Loader_panic, s)
      else if \<not> maps_table env executable_id
      then (Inl BpfUnwindInfo, s\<lparr>unwind_tables := (unwind_tables s)(executable_id \<mapsto> empty_inner_map (length unwind_info))\<rparr>)
      else
        let s1 = s\<lparr>unwind_tables := (unwind_tables s)(executable_id \<mapsto> add_bpf_unwind_info unwind_info)\<rparr> in
        case add_bpf_pages (accepts_page env) unwind_info executable_id (page_entries s1) of
          None \<Rightarrow> (Inl Loader_panic, s1)
        | Some (False, t) \<Rightarrow> (Inl BpfPages, s1\<lparr>page_entries := t\<rparr>)
        | Some (True, t) \<Rightarrow>
            (Inr Success, s1\<lparr>page_entries := t, known_executables := (known_executables s1)(executable_id \<mapsto>
               \<lparr>unwind_info_rows = length unwind_info, unwind_info_start_address = cu_pc (hd unwind_info),
                unwind_info_end_address = cu_pc (last unwind_info), ke_last_used = le_now env\<rparr>)\<rparr>))"

definition add_unwind_information_for_executable ::
    "loader_env \<Rightarrow> u64 \<Rightarrow> u64 \<Rightarrow> u64 \<Rightarrow> profiler \<Rightarrow>
     (AddUnwindInformationError + AddUnwindInformationResult) \<times> profiler" where
  "add_unwind_information_for_executable env executable_id start_address end_address s =
     (if known_executables s executable_id \<noteq> None then (Inr AlreadyLoaded, s)
      else case object_files s executable_id of
        None \<Rightarrow> (Inl Loader_panic, s)
      | Some info \<Rightarrow>
          (case runtime_unwind_info env executable_id info start_address end_address s of
             (Panics, s1) \<Rightarrow> (Inl Loader_panic, s1)
           | (Undefined_behaviour, s1) \<Rightarrow> (Inl Loader_undefined, s1)
           | (Returns (Inl e), s1) \<Rightarrow>
               (Inl (if known_naughty (of_path info) then NoUnwindInfoKnownNaughty else NoUnwindInfo e (of_path info)), s1)
           | (Returns (Inr unwind_info), s1) \<Rightarrow>
               (case maybe_evict_executables env (length unwind_info) s1 of
                  (False, s2) \<Rightarrow> (Inl Eviction, s2)
                | (True, s2) \<Rightarrow>
                    if unwind_info = [] then (Inl Empty_unwind_info, s2)
                    else if MAX_UNWIND_INFO_SIZE < length unwind_info
                    then (Inl (TooLarge (of_path info) (length unwind_info)), s2)
                    else store_unwind_info env executable_id unwind_info s2)))"

section \<open>What is loaded\<close>

text \<open>The executable is in the book, and the BPF maps hold its table and pages.\<close>

definition loaded :: "profiler \<Rightarrow> u64 \<Rightarrow> CompactUnwindRow list \<Rightarrow> bool" where
  "loaded s executable_id rows \<longleftrightarrow>
     rows \<noteq> [] \<and> length rows \<le> MAX_UNWIND_INFO_SIZE \<and>
     (\<exists>t. known_executables s executable_id = Some
        \<lparr>unwind_info_rows = length rows, unwind_info_start_address = cu_pc (hd rows),
         unwind_info_end_address = cu_pc (last rows), ke_last_used = t\<rparr>) \<and>
     unwind_tables s executable_id = Some (add_bpf_unwind_info rows) \<and>
     pages_stored rows executable_id (page_entries s)"

text \<open>Two states agree on what is loaded for an executable.\<close>

definition same_loaded :: "u64 \<Rightarrow> profiler \<Rightarrow> profiler \<Rightarrow> bool" where
  "same_loaded executable_id s s' \<longleftrightarrow>
     known_executables s' executable_id = known_executables s executable_id \<and>
     unwind_tables s' executable_id = unwind_tables s executable_id \<and>
     (\<forall>key. pk_executable_id key = executable_id \<longrightarrow> page_entries s' key = page_entries s key)"

lemma same_loaded_refl [simp]: "same_loaded executable_id s s"
  by (simp add: same_loaded_def)

lemma same_loaded_trans [trans]:
  "same_loaded executable_id s s' \<Longrightarrow> same_loaded executable_id s' s'' \<Longrightarrow> same_loaded executable_id s s''"
  by (simp add: same_loaded_def)

lemma loaded_same: "loaded s executable_id rows \<Longrightarrow> same_loaded executable_id s s' \<Longrightarrow> loaded s' executable_id rows"
  unfolding loaded_def same_loaded_def using pages_stored_cong by metis

text \<open>A step forgets an executable, or keeps what is loaded for it.\<close>

definition keeps_or_forgets :: "profiler \<Rightarrow> profiler \<Rightarrow> bool" where
  "keeps_or_forgets s s' \<longleftrightarrow> (\<forall>i. known_executables s' i = None \<or> same_loaded i s s')"

lemma keeps_or_forgets_refl [simp]: "keeps_or_forgets s s"
  by (simp add: keeps_or_forgets_def)

lemma keeps_or_forgets_trans:
  "keeps_or_forgets s s' \<Longrightarrow> keeps_or_forgets s' s'' \<Longrightarrow> keeps_or_forgets s s''"
  unfolding keeps_or_forgets_def by (metis same_loaded_def same_loaded_trans)

lemma keeps_or_forgets_dom: "keeps_or_forgets s s' \<Longrightarrow> dom (known_executables s') \<subseteq> dom (known_executables s)"
  unfolding keeps_or_forgets_def same_loaded_def by (metis domIff subsetI)

lemma keeps_or_forgets_fold: "(\<And>x s. x \<in> set xs \<Longrightarrow> keeps_or_forgets s (f x s)) \<Longrightarrow> keeps_or_forgets s (fold f xs s)"
proof (induction xs arbitrary: s)
  case (Cons x xs)
  then show ?case using keeps_or_forgets_trans [of s "f x s"] by simp
qed simp

lemma evict_executable_keeps: "keeps_or_forgets s (evict_executable now executable_id s)"
  by (auto simp: keeps_or_forgets_def same_loaded_def evict_executable_def delete_bpf_pages_other Let_def
      split: option.splits if_splits)

lemma maybe_evict_executables_keeps: "keeps_or_forgets s (snd (maybe_evict_executables env n s))"
  using keeps_or_forgets_fold [of _ "evict_executable (le_now env)" s] evict_executable_keeps
  by (simp add: maybe_evict_executables_def Let_def del: fold_append)

lemma runtime_unwind_info_same:
  "runtime_unwind_info env executable_id info a b s = (r, s') \<Longrightarrow>
   known_executables s' = known_executables s \<and> unwind_tables s' = unwind_tables s \<and> page_entries s' = page_entries s \<and>
   object_files s' = object_files s \<and> last_executable_eviction s' = last_executable_eviction s"
  by (auto simp: runtime_unwind_info_def fetch_table_def split: Runtime.splits if_splits prod.splits)

lemma store_unwind_info_other:
  assumes "i \<noteq> executable_id"
  shows "same_loaded i s (snd (store_unwind_info env executable_id rows s))"
  using assms put_pages_other [of _ executable_id "accepts_page env" _ "page_entries s"]
  by (auto simp: same_loaded_def store_unwind_info_def add_bpf_pages_def Let_def split: option.split bool.split prod.split)
    (metis snd_conv)+

lemma store_unwind_info_loads:
  assumes "store_unwind_info env executable_id rows s = (Inr r, s')" "rows \<noteq> []" "length rows \<le> MAX_UNWIND_INFO_SIZE"
  shows "loaded s' executable_id rows"
  using assms
  by (auto simp: store_unwind_info_def Let_def loaded_def add_bpf_pages_stored
      split: if_splits option.splits prod.splits bool.splits)

lemma store_unwind_info_fails:
  "store_unwind_info env executable_id rows s = (Inl e, s') \<Longrightarrow> known_executables s' = known_executables s"
  by (auto simp: store_unwind_info_def Let_def split: if_splits option.splits prod.splits bool.splits)

text \<open>Dropping mappings, when a process exits or unmaps them, forgets or keeps executables.\<close>

lemma drop_mapping_keeps: "keeps_or_forgets s (snd (drop_mapping pid e s))"
  by (auto simp: keeps_or_forgets_def same_loaded_def drop_mapping_def delete_bpf_native_unwind_all_def
      mark_as_deleted_def delete_bpf_pages_other Let_def split: option.split)

lemma drop_mappings_keeps: "keeps_or_forgets s (snd (drop_mappings pid selected es s))"
proof (induction es arbitrary: s)
  case (Cons e es)
  have "keeps_or_forgets s (snd (if selected e then drop_mapping pid e s else (e, s)))"
    using drop_mapping_keeps by simp
  from keeps_or_forgets_trans [OF this Cons] show ?case by (simp add: drop_mappings_Cons split: if_splits)
qed simp

lemma keeps_procs [simp]: "keeps_or_forgets s (s'\<lparr>procs := ps\<rparr>) = keeps_or_forgets s s'"
  by (simp add: keeps_or_forgets_def same_loaded_def)

lemma same_tables_keeps:
  "keeps_or_forgets s s' \<Longrightarrow> known_executables s'' = known_executables s' \<Longrightarrow> unwind_tables s'' = unwind_tables s' \<Longrightarrow>
   page_entries s'' = page_entries s' \<Longrightarrow> keeps_or_forgets s s''"
  by (simp add: keeps_or_forgets_def same_loaded_def)

lemma handle_munmap_keeps: "keeps_or_forgets s (handle_munmap pid a s)"
  unfolding handle_munmap_def
  by (auto simp: Let_def split_def split: option.split intro: same_tables_keeps [OF drop_mappings_keeps])

lemma handle_process_exit_keeps: "keeps_or_forgets s (handle_process_exit pid s)"
proof (cases "procs s pid")
  case (Some info)
  let ?s1 = "s\<lparr>mapping_trie := delete_bpf_process pid (mapping_trie s)\<rparr>"
  have "keeps_or_forgets s ?s1" by (rule same_tables_keeps [of s s]) simp_all
  from keeps_or_forgets_trans [OF this drop_mappings_keeps] show ?thesis
    using Some by (simp add: handle_process_exit_def Let_def split_def)
qed (simp add: handle_process_exit_def)

section \<open>Runs of user space\<close>

text \<open>
  Loading, process exits and unmappings in any order, from a state in which nothing is loaded, and in between anything
  that leaves the book, the tables and the pages alone, such as adding processes and their mappings. \<open>good\<close> is
  what is known of the tables that loading gets for an executable.
\<close>

inductive user_run :: "(u64 \<Rightarrow> CompactUnwindRow list \<Rightarrow> bool) \<Rightarrow> profiler \<Rightarrow> bool"
  for good where
  started: "user_run good s" if "known_executables s = Map.empty"
| load: "user_run good s'"
    if "user_run good s" "\<And>known. finite (dom known) \<Longrightarrow> order_ok env known"
       "\<And>info rows s1. object_files s i = Some info \<Longrightarrow> runtime_unwind_info env i info a b s = (Returns (Inr rows), s1) \<Longrightarrow> good i rows"
       "add_unwind_information_for_executable env i a b s = (r, s')"
| exit: "user_run good (handle_process_exit pid s)" if "user_run good s"
| munmap: "user_run good (handle_munmap pid a s)" if "user_run good s"
| other: "user_run good s'"
    if "user_run good s" "known_executables s' = known_executables s" "unwind_tables s' = unwind_tables s"
       "page_entries s' = page_entries s"

definition book_inv :: "(u64 \<Rightarrow> CompactUnwindRow list \<Rightarrow> bool) \<Rightarrow> profiler \<Rightarrow> bool" where
  "book_inv good s \<longleftrightarrow> finite (dom (known_executables s)) \<and>
     card (dom (known_executables s)) \<le> MAX_OUTER_UNWIND_MAP_ENTRIES \<and>
     (\<forall>i. known_executables s i \<noteq> None \<longrightarrow> (\<exists>rows. good i rows \<and> loaded s i rows))"

lemma book_inv_keeps: "book_inv good s \<Longrightarrow> keeps_or_forgets s s' \<Longrightarrow> book_inv good s'"
proof -
  assume inv: "book_inv good s" and keeps: "keeps_or_forgets s s'"
  note dom = keeps_or_forgets_dom [OF keeps]
  have "card (dom (known_executables s')) \<le> card (dom (known_executables s))"
    using inv dom by (intro card_mono) (simp_all add: book_inv_def)
  moreover have "\<exists>rows. good i rows \<and> loaded s' i rows" if "known_executables s' i \<noteq> None" for i
  proof -
    have "same_loaded i s s'" using keeps that unfolding keeps_or_forgets_def by metis
    moreover from this have "known_executables s i \<noteq> None" using that by (simp add: same_loaded_def)
    ultimately show ?thesis using inv loaded_same unfolding book_inv_def by blast
  qed
  ultimately show "book_inv good s'"
    using inv finite_subset [OF dom] by (auto simp: book_inv_def)
qed

text \<open>When the outer map is full, the executable that was used least recently makes room.\<close>

lemma evict_executable_known: "known_executables (evict_executable now i s) = (known_executables s)(i := None)"
  by (auto simp: evict_executable_def Let_def split: option.split)

lemma fold_evict_known:
  "known_executables (fold (evict_executable now) is s) = (\<lambda>i. if i \<in> set is then None else known_executables s i)"
  by (induction "is" arbitrary: s) (auto simp: evict_executable_known fun_eq_iff)

definition full_victim :: "loader_env \<Rightarrow> profiler \<Rightarrow> u64 list" where
  "full_victim env s = (if is_outer_map_full env s then take 1 (last_used_executables env s) else [])"

lemma maybe_evict_True:
  assumes "maybe_evict_executables env n s = (True, s')"
  shows "\<exists>us. s' = fold (evict_executable (le_now env)) (full_victim env s @ us) s"
  using assms unfolding maybe_evict_executables_def full_victim_def [symmetric] Let_def
  by (auto simp del: fold_append split: if_split_asm)

lemma maybe_evict_makes_room:
  assumes "maybe_evict_executables env n s = (True, s')" "order_ok env (known_executables s)"
    and "finite (dom (known_executables s))" "card (dom (known_executables s)) \<le> MAX_OUTER_UNWIND_MAP_ENTRIES"
  shows "card (dom (known_executables s')) < MAX_OUTER_UNWIND_MAP_ENTRIES"
proof -
  let ?known = "known_executables s"
  have len: "length (le_order env ?known) = card (dom ?known)"
    using assms(2) distinct_card by (fastforce simp: order_ok_def)
  obtain us where fold: "s' = fold (evict_executable (le_now env)) (full_victim env s @ us) s"
    using maybe_evict_True [OF assms(1)] by blast
  have s': "known_executables s' = (\<lambda>i. if i \<in> set (full_victim env s @ us) then None else ?known i)"
    unfolding fold by (rule fold_evict_known)
  have sub: "dom (known_executables s') \<subseteq> dom ?known" unfolding s' by (auto split: if_splits)
  show ?thesis
  proof (cases "is_outer_map_full env s")
    case False
    then show ?thesis using card_mono [OF assms(3) sub] len by (simp add: is_outer_map_full_def)
  next
    case True
    then have "last_used_executables env s \<noteq> []"
      by (auto simp: is_outer_map_full_def last_used_executables_def MAX_OUTER_UNWIND_MAP_ENTRIES_def
          dest: arg_cong [where f = length])
    then obtain i rest where l: "last_used_executables env s = i # rest" by (cases "last_used_executables env s") auto
    then have "i \<in> set (last_used_executables env s)" by simp
    then have "i \<in> dom ?known" using assms(2) by (simp add: last_used_executables_def order_ok_def)
    moreover have "i \<notin> dom (known_executables s')" unfolding s' using True l by (simp add: full_victim_def domIff)
    ultimately have "dom (known_executables s') \<subset> dom ?known" using sub by blast
    from psubset_card_mono [OF assms(3) this] show ?thesis using assms(4) by simp
  qed
qed

lemma store_unwind_info_dom:
  "dom (known_executables (snd (store_unwind_info env i rows s))) \<subseteq> insert i (dom (known_executables s))"
  by (auto simp: store_unwind_info_def Let_def split: option.splits prod.splits bool.splits if_splits)

lemma store_unwind_info_inv:
  assumes "store_unwind_info env i rows s = (r, s')" "rows \<noteq> []" "length rows \<le> MAX_UNWIND_INFO_SIZE"
    and "book_inv good s" "card (dom (known_executables s)) < MAX_OUTER_UNWIND_MAP_ENTRIES"
    and "known_executables s i = None" "good i rows"
  shows "book_inv good s'"
proof -
  have fin: "finite (dom (known_executables s))" using assms(4) by (simp add: book_inv_def)
  have sub: "dom (known_executables s') \<subseteq> insert i (dom (known_executables s))"
    using store_unwind_info_dom [of env i rows s] assms(1) by simp
  have "card (dom (known_executables s')) \<le> card (insert i (dom (known_executables s)))"
    by (rule card_mono [OF _ sub]) (simp add: fin)
  also have "\<dots> \<le> Suc (card (dom (known_executables s)))" by (simp add: card_insert_if fin)
  finally have card: "card (dom (known_executables s')) \<le> MAX_OUTER_UNWIND_MAP_ENTRIES" using assms(5) by simp
  have "\<exists>rows. good j rows \<and> loaded s' j rows" if "known_executables s' j \<noteq> None" for j
  proof (cases "j = i")
    case True
    then have "known_executables s' i \<noteq> known_executables s i" using that assms(6) by simp
    then obtain ok where "r = Inr ok" using assms(1) store_unwind_info_fails [of env i rows s _ s'] by (cases r) auto
    then show ?thesis using store_unwind_info_loads [OF _ assms(2,3)] assms(1,7) True by blast
  next
    case False
    have "same_loaded j s s'" using store_unwind_info_other [OF False, of s env rows] assms(1) by simp
    moreover from this have "known_executables s j \<noteq> None" using that by (simp add: same_loaded_def)
    ultimately show ?thesis using assms(4) loaded_same unfolding book_inv_def by blast
  qed
  then show ?thesis using card finite_subset [OF sub] fin by (simp add: book_inv_def)
qed

lemma add_unwind_information_inv:
  assumes inv: "book_inv good s" and order: "\<And>known. finite (dom known) \<Longrightarrow> order_ok env known"
    and good: "\<And>info rows s1. object_files s i = Some info \<Longrightarrow> runtime_unwind_info env i info a b s = (Returns (Inr rows), s1) \<Longrightarrow> good i rows"
    and step: "add_unwind_information_for_executable env i a b s = (r, s')"
  shows "book_inv good s'"
proof (cases "known_executables s i = None \<and> object_files s i \<noteq> None")
  case False
  then have "s' = s" using step by (auto simp: add_unwind_information_for_executable_def split: if_splits)
  with inv show ?thesis by simp
next
  case True
  then obtain info where info: "object_files s i = Some info" and new: "known_executables s i = None" by auto
  obtain u s1 where u: "runtime_unwind_info env i info a b s = (u, s1)" by fastforce
  note same = runtime_unwind_info_same [OF u]
  have keeps: "keeps_or_forgets s s1" by (rule same_tables_keeps [of s s]) (simp_all add: same)
  show ?thesis
  proof (cases "\<exists>rows. u = Returns (Inr rows)")
    case False
    then have "s' = s1" using step new info u
      by (auto simp: add_unwind_information_for_executable_def split: execution.splits sum.splits)
    with book_inv_keeps [OF inv keeps] show ?thesis by simp
  next
    case True
    then obtain rows where Inr: "u = Returns (Inr rows)" by blast
    obtain ok s2 where ev: "maybe_evict_executables env (length rows) s1 = (ok, s2)" by fastforce
    have keeps2: "keeps_or_forgets s s2"
      using keeps_or_forgets_trans [OF keeps maybe_evict_executables_keeps [of s1 env "length rows"]] ev by simp
    note inv2 = book_inv_keeps [OF inv keeps2]
    have s': "s' = s2 \<or> ok \<and> rows \<noteq> [] \<and> length rows \<le> MAX_UNWIND_INFO_SIZE \<and> store_unwind_info env i rows s2 = (r, s')"
      using step new info u Inr ev
      by (auto simp: add_unwind_information_for_executable_def split: if_splits bool.splits)
    have "card (dom (known_executables s2)) < MAX_OUTER_UNWIND_MAP_ENTRIES" if ok
      using maybe_evict_makes_room [of env "length rows" s1 s2] ev that inv same order by (simp add: book_inv_def)
    moreover have "known_executables s2 i = None" using keeps_or_forgets_dom [OF keeps2] new by (auto simp: domIff)
    moreover have "good i rows" using good [OF info] u Inr by blast
    ultimately show ?thesis using s' inv2 store_unwind_info_inv [of env i rows s2 r s' good] by blast
  qed
qed

lemma user_run_inv: "user_run good s \<Longrightarrow> book_inv good s"
proof (induction rule: user_run.induct)
  case (started s)
  then show ?case by (simp add: book_inv_def)
next
  case (load s env i a b r s')
  then show ?case by (intro add_unwind_information_inv [of good s env i a b r s']) auto
next
  case (other s s')
  then show ?case using book_inv_keeps [OF other(5) same_tables_keeps [OF keeps_or_forgets_refl other(2-4)]] by simp
qed (simp_all add: book_inv_keeps [OF _ handle_process_exit_keeps] book_inv_keeps [OF _ handle_munmap_keeps])

section \<open>Properties\<close>

text \<open>
  C7. User space and the BPF maps agree on what is loaded. After any sequence of loads, whatever
  fails in them, of evictions, process exits and unmappings, every executable that user space takes for
  loaded has its complete table in the outer map and all its pages in the page map, and it is a table
  that loading got for this executable; and there are never more of them than the outer map has entries.
\<close>

theorem loaded_tables_are_in_the_maps:
  assumes "user_run good s"
  shows "finite (dom (known_executables s)) \<and> card (dom (known_executables s)) \<le> MAX_OUTER_UNWIND_MAP_ENTRIES \<and>
     (\<forall>i. known_executables s i \<noteq> None \<longrightarrow> (\<exists>rows. good i rows \<and> rows \<noteq> [] \<and>
        unwind_tables s i = Some (add_bpf_unwind_info rows) \<and> pages_stored rows i (page_entries s)))"
  using user_run_inv [OF assms] by (fastforce simp: book_inv_def loaded_def)

definition example_env :: loader_env where
  "example_env = \<lparr>le_sha256 = id, le_arm64 = False, le_files = (\<lambda>_. Frame_entries example_fdes), unwind_info_size_mb = (\<lambda>n. of_nat (n div 16000)),
     max_native_unwind_info_size_mb = 100, accepts_page = (\<lambda>t k. True), accepts_table = (\<lambda>_. True),
     maps_table = (\<lambda>_. True), le_now = 1000, le_order = (\<lambda>known. sorted_list_of_set (dom known))\<rparr>"

lemma example_order: "finite (dom known) \<Longrightarrow> order_ok example_env known"
  by (simp add: order_ok_def example_env_def)

lemma example_evicts_nothing:
  assumes "known_executables s = Map.empty" "n < 16000"
  shows "maybe_evict_executables example_env n s = (True, s)"
  using assms
  by (simp add: maybe_evict_executables_def example_env_def is_outer_map_full_def MAX_OUTER_UNWIND_MAP_ENTRIES_def
      unwind_info_memory_usage_def last_used_executables_def)

definition v8_state :: profiler where
  "v8_state = (example_profiler (\<lambda>t p. True) 1)\<lparr>known_executables := Map.empty,
     object_files := [7 \<mapsto> \<lparr>of_path = ''/usr/bin/node'', elf_load_segments = [], is_vdso = False, runtime = V8\<rparr>]\<rparr>"

definition v8_rows :: "CompactUnwindRow list" where
  "v8_rows = [frame_setup 0x401000, stop_unwinding 0x404000]"

lemma v8_pages: "to_pages v8_rows = Some [\<lparr>page_address = 0x400000, page_low_index = 0, page_high_index = 2\<rparr>]"
  by (simp add: to_pages_def v8_rows_def Let_def high_bits_mask_def low_bits_mask_def page_size_def push_pages_def
      frame_setup_def stop_unwinding_def)

lemma v8_rows_of_runtime:
  "runtime_unwind_info example_env 7 \<lparr>of_path = p, elf_load_segments = es, is_vdso = v, runtime = V8\<rparr> 0x401000 0x404000 s =
     (Returns (Inr v8_rows), s)"
  by (simp add: runtime_unwind_info_def v8_rows_def)

lemma v8_loads:
  "\<exists>s'. add_unwind_information_for_executable example_env 7 0x401000 0x404000 v8_state = (Inr Success, s') \<and>
     known_executables s' 7 \<noteq> None"
proof -
  have len: "length v8_rows = 2" "v8_rows \<noteq> []" by (simp_all add: v8_rows_def)
  have "\<exists>s'. store_unwind_info example_env 7 v8_rows v8_state = (Inr Success, s') \<and> known_executables s' 7 \<noteq> None"
    by (simp add: store_unwind_info_def add_bpf_pages_def v8_pages Let_def example_env_def)
  with len show ?thesis
    by (simp add: add_unwind_information_for_executable_def v8_rows_of_runtime example_evicts_nothing
        MAX_UNWIND_INFO_SIZE_def v8_state_def)
qed

theorem loaded_tables_are_in_the_maps_witness:
  "\<exists>s'. add_unwind_information_for_executable example_env 7 0x401000 0x404000 v8_state = (Inr Success, s') \<and>
     unwind_tables s' 7 = Some (add_bpf_unwind_info v8_rows) \<and> pages_stored v8_rows 7 (page_entries s')"
proof -
  obtain s' where s': "add_unwind_information_for_executable example_env 7 0x401000 0x404000 v8_state = (Inr Success, s')"
    "known_executables s' 7 \<noteq> None" using v8_loads by blast
  have "user_run (\<lambda>i rows. rows = v8_rows) v8_state" by (rule user_run.started) (simp add: v8_state_def)
  then have "user_run (\<lambda>i rows. rows = v8_rows) s'"
    by (rule user_run.load [OF _ example_order _ s'(1)]) (auto simp: v8_state_def v8_rows_of_runtime)
  from loaded_tables_are_in_the_maps [OF this] s' show ?thesis by blast
qed

text \<open>
  The eviction counts the size of the new table for every table it evicts. When the memory limit
  is exceeded and the table to load is small enough to be rounded to zero megabytes, nothing it evicts
  seems to help, so every loaded executable is evicted.
\<close>

lemma small_table_evicts_everything:
  assumes "order_ok env (known_executables s)" "can_evict_executable (le_now env) s"
    and "unwind_info_size_mb env n = 0" "0 < sint (unwind_info_memory_usage env s - max_native_unwind_info_size_mb env)"
  shows "\<exists>s'. maybe_evict_executables env n s = (True, s') \<and> known_executables s' = Map.empty"
proof -
  let ?free = "unwind_info_memory_usage env s - max_native_unwind_info_size_mb env"
  have free: "?free \<noteq> 0" using assms(4) by auto
  then have pick: "pick_for_memory 0 ?free 0 is = is" for "is" by (induction "is") auto
  have "set (last_used_executables env s) = dom (known_executables s)"
    using assms(1) by (simp add: last_used_executables_def order_ok_def)
  then have "known_executables (fold (evict_executable (le_now env)) (us @ last_used_executables env s) s) = Map.empty" for us
    unfolding fold_evict_known by (auto simp: fun_eq_iff domIff)
  then show ?thesis
    using assms(2-4) pick free
    by (simp add: maybe_evict_executables_def Let_def del: fold_append)
qed

lemma small_table_evicts_everything_example:
  "\<exists>s'. maybe_evict_executables example_env 100 ((example_profiler (\<lambda>t p. True) 1)\<lparr>known_executables :=
     [7 \<mapsto> \<lparr>unwind_info_rows = 4000000, unwind_info_start_address = 0x1000, unwind_info_end_address = 0x3fff, ke_last_used = 0\<rparr>]\<rparr>) =
       (True, s') \<and> known_executables s' = Map.empty"
  by (rule small_table_evicts_everything)
    (simp_all add: order_ok_def can_evict_executable_def unwind_info_memory_usage_def example_env_def example_profiler_def)

section \<open>Synthesised tables\<close>

lemma evict_no_page: "page_entries s key = None \<Longrightarrow> page_entries (evict_executable now i s) key = None"
  unfolding evict_executable_def Let_def delete_bpf_pages_def
  by (simp add: fold_delete_pages [where f = "\<lambda>x. x AND HIGH_PC_MASK"] del: fold_append split: option.split)

lemma fold_evict_no_page: "page_entries s key = None \<Longrightarrow> page_entries (fold (evict_executable now) is s) key = None"
  by (induction "is" arbitrary: s) (simp_all add: evict_no_page)

lemma two_row_pages:
  assumes "start \<le> stop" "to_pages [frame_setup start, stop_unwinding stop] = Some pages" "page_at pages a \<noteq> None"
  shows "start AND high_bits_mask \<le> a"
proof -
  let ?lo = "start AND high_bits_mask" and ?hi = "stop AND high_bits_mask"
  note mono = high_mono [OF assms(1)]
  obtain p where p: "p \<in> set pages" "page_address p = a"
    using assms(3) by (auto simp: page_at_def find_None_iff)
  have "x \<in> set (step_by_page ?lo ?hi) \<Longrightarrow> ?lo \<le> x" for x
    using step_by_page_range(2) [of ?lo ?hi x] mono by (cases "?lo < ?hi") (auto simp: step_by_page_def)
  with p assms(2) mono show ?thesis
    by (auto simp: to_pages_def push_pages_def frame_setup_def stop_unwinding_def Let_def split: if_splits)
qed

lemma store_no_page:
  assumes "store_unwind_info env i rows s = (Inr Success, s')" "to_pages rows = Some pages" "page_at pages a = None"
    and "page_entries s \<lparr>pk_executable_id = i, pk_file_offset = a\<rparr> = None"
  shows "page_entries s' \<lparr>pk_executable_id = i, pk_file_offset = a\<rparr> = None"
proof -
  obtain t where t: "put_pages (accepts_page env) i pages (page_entries s) = (True, t)" "page_entries s' = t"
    using assms(1,2) by (auto simp: store_unwind_info_def add_bpf_pages_def Let_def split: if_splits prod.splits bool.splits)
  from put_pages_fold [OF t(1)] show ?thesis using t(2) assms(3,4) by (simp add: fold_put_page)
qed

text \<open>
  The rows that are synthesised for the vDSO on arm64 are never found. They are stored at the
  addresses of the mapping, but the mapping's load address is its start, so the unwinder looks for
  addresses relative to it: the page is missing, and unwinding stops with a request for unwind information,
  which is never fulfilled because the executable counts as loaded.
\<close>

lemma synthesised_vdso_rows_are_not_found:
  assumes "object_files s i = Some info" "is_vdso info" "runtime info = CLike" "le_arm64 env"
    and "known_executables s i = None" "\<forall>key. pk_executable_id key = i \<longrightarrow> page_entries s key = None"
    and "start \<le> stop" "stop < 2 ^ 48"
    and "add_unwind_information_for_executable env i start stop s = (Inr Success, s')"
    and "em_executable_id e = i" "em_kind e = Vdso" "em_load_address e = start"
    and "executable_to_page b = page_entries s'" "ip - start < HIGH_PC start"
  shows "frame_row k pid ip (bpf_mapping e) b =
       Inl (send_event k \<lparr>ev_type = EVENT_NEED_UNWIND_INFO, ev_pid = pid, ev_address = ip AND PAGE_MASK\<rparr>
         (bump bump_unwind_error_page_not_found b)) \<and>
     add_unwind_information_for_executable env' i start stop s' = (Inr AlreadyLoaded, s')"
proof -
  let ?rows = "[frame_setup start, stop_unwinding stop]" and ?rel = "ip - start"
  have run: "runtime_unwind_info env i info start stop s = (Returns (Inr ?rows), s)"
    using assms(2-4) by (simp add: runtime_unwind_info_def)
  obtain s2 where ev: "maybe_evict_executables env 2 s = (True, s2)" and
    store: "store_unwind_info env i ?rows s2 = (Inr Success, s')"
    using assms(1,5,9) run
    by (auto simp: add_unwind_information_for_executable_def numeral_2_eq_2 split: prod.splits bool.splits if_splits)
  obtain us where s2: "s2 = fold (evict_executable (le_now env)) us s" using maybe_evict_True [OF ev] by blast
  have none: "page_entries s2 key = None" if "pk_executable_id key = i" for key
    unfolding s2 using assms(6) that by (intro fold_evict_no_page) simp
  obtain pages where pages: "to_pages ?rows = Some pages"
    using store by (auto simp: store_unwind_info_def add_bpf_pages_def Let_def split: if_splits option.splits)
  have high: "HIGH_PC start = start AND high_bits_mask" using assms(7,8) by (intro HIGH_PC_eq) (rule order_le_less_trans)
  have "HIGH_PC ?rel \<le> ?rel" by (simp add: HIGH_PC_def word_and_le2)
  then have "HIGH_PC ?rel < HIGH_PC start" using assms(14) by (rule order_le_less_trans)
  then have "page_at pages (HIGH_PC ?rel) = None"
    using two_row_pages [OF assms(7) pages, of "HIGH_PC ?rel"] unfolding high by (metis linorder_not_le)
  from store_no_page [OF store pages this] none
  have "page_entries s' \<lparr>pk_executable_id = i, pk_file_offset = HIGH_PC ?rel\<rparr> = None" by simp
  moreover have "known_executables s' i \<noteq> None"
    using store by (auto simp: store_unwind_info_def Let_def split: if_splits option.splits prod.splits bool.splits)
  ultimately show ?thesis
    using assms(10-13)
    by (simp add: frame_row_def find_page_def bpf_mapping_def Let_def add_unwind_information_for_executable_def)
qed

definition vdso_mapping :: ExecutableMapping where
  "vdso_mapping = \<lparr>em_executable_id = 7, em_build_id = None, em_kind = Vdso, em_start_addr = 0xffff90001000,
     em_end_addr = 0xffff90002000, em_offset = 0, em_load_address = 0xffff90001000, em_soft_delete = False\<rparr>"

definition vdso_state :: profiler where
  "vdso_state = (example_profiler (\<lambda>t p. True) 1)\<lparr>known_executables := Map.empty, object_files := [7 \<mapsto>
     \<lparr>of_path = ''dumped-vdso'', elf_load_segments = [], is_vdso = True, runtime = CLike\<rparr>]\<rparr>"

lemma vdso_loads:
  "\<exists>s'. add_unwind_information_for_executable (example_env\<lparr>le_arm64 := True\<rparr>) 7 0xffff90001000 0xffff90002000 vdso_state =
     (Inr Success, s')"
proof -
  let ?rows = "[frame_setup 0xffff90001000, stop_unwinding 0xffff90002000]"
  have "to_pages ?rows = Some [\<lparr>page_address = 0xffff90000000, page_low_index = 0, page_high_index = 2\<rparr>]"
    by (simp add: to_pages_def Let_def high_bits_mask_def low_bits_mask_def page_size_def push_pages_def)
  then have "\<exists>s'. store_unwind_info (example_env\<lparr>le_arm64 := True\<rparr>) 7 ?rows s = (Inr Success, s')" for s
    by (simp add: store_unwind_info_def add_bpf_pages_def Let_def example_env_def)
  moreover have "maybe_evict_executables (example_env\<lparr>le_arm64 := True\<rparr>) 2 vdso_state = (True, vdso_state)"
    by (simp add: maybe_evict_executables_def example_env_def is_outer_map_full_def MAX_OUTER_UNWIND_MAP_ENTRIES_def
        unwind_info_memory_usage_def last_used_executables_def vdso_state_def)
  ultimately show ?thesis
    by (simp add: add_unwind_information_for_executable_def runtime_unwind_info_def vdso_state_def
        MAX_UNWIND_INFO_SIZE_def numeral_2_eq_2)
qed

lemma synthesised_vdso_rows_are_not_found_example:
  "\<exists>s'. add_unwind_information_for_executable (example_env\<lparr>le_arm64 := True\<rparr>) 7 0xffff90001000 0xffff90002000 vdso_state =
       (Inr Success, s') \<and>
     (\<exists>s''. frame_row example_kernel 42 0xffff90001400 (bpf_mapping vdso_mapping)
        (example_state\<lparr>executable_to_page := page_entries s'\<rparr>) = Inl s'')"
proof -
  obtain s' where s': "add_unwind_information_for_executable (example_env\<lparr>le_arm64 := True\<rparr>) 7 0xffff90001000
    0xffff90002000 vdso_state = (Inr Success, s')" using vdso_loads by blast
  have "frame_row example_kernel 42 0xffff90001400 (bpf_mapping vdso_mapping)
      (example_state\<lparr>executable_to_page := page_entries s'\<rparr>) =
     Inl (send_event example_kernel \<lparr>ev_type = EVENT_NEED_UNWIND_INFO, ev_pid = 42, ev_address = 0xffff90001400 AND PAGE_MASK\<rparr>
       (bump bump_unwind_error_page_not_found (example_state\<lparr>executable_to_page := page_entries s'\<rparr>)))"
    using synthesised_vdso_rows_are_not_found [OF _ _ _ _ _ _ _ _ s', of _ vdso_mapping
        "example_state\<lparr>executable_to_page := page_entries s'\<rparr>" "0xffff90001400" example_kernel 42 example_env]
    by (simp add: vdso_state_def vdso_mapping_def example_profiler_def HIGH_PC_def HIGH_PC_MASK_def)
  with s' show ?thesis by blast
qed

end
