(* ===== verification/Process_Registry.thy ===== *)
theory Process_Registry
  imports Unwind_Loader
begin

text \<open>
  How user space gets to know processes: \<open>add_proc\<close>, \<open>add_unwind_info_for_process\<close>,
  \<open>maybe_evict_process\<close> and the two event handlers of src/src/profiler.rs, and the address functions of
  src/src/process.rs. What procfs and the ELF reader return for a process is a list of maps.
\<close>

section \<open>Addresses\<close>

definition for_address :: "ExecutableMapping list \<Rightarrow> u64 \<Rightarrow> ExecutableMapping option" where
  "for_address mappings virtual_address =
     find (\<lambda>m. em_start_addr m \<le> virtual_address \<and> virtual_address < em_end_addr m) mappings"

text \<open>Additions and subtractions wrap around, as they do in release builds.\<close>

fun normalize_in_segments :: "u64 \<Rightarrow> ElfLoad list \<Rightarrow> u64 option" where
  "normalize_in_segments off [] = None"
| "normalize_in_segments off (segment # segments) =
     (if p_offset segment \<le> off \<and> off < p_offset segment + p_filesz segment
      then Some (off - p_offset segment + p_vaddr segment)
      else normalize_in_segments off segments)"

definition normalized_address :: "ObjectFileInfo \<Rightarrow> u64 \<Rightarrow> ExecutableMapping \<Rightarrow> u64 option" where
  "normalized_address obj virtual_address mapping =
     (if em_kind mapping = Kernel then Some (virtual_address - em_offset mapping)
      else normalize_in_segments (virtual_address - em_start_addr mapping + em_offset mapping) (elf_load_segments obj))"

definition load_address :: "u64 \<Rightarrow> u64 \<Rightarrow> ElfLoad \<Rightarrow> u64" where
  "load_address sys_page_size map_start first_elf_load =
     (let v = p_vaddr first_elf_load AND NOT (sys_page_size - 1)
      in if v \<le> map_start then map_start - v else 0)"

section \<open>Reading the maps of a process\<close>

record elf_object =
  eo_id :: u64
  eo_build_id :: BuildId
  eo_elf_loads :: "ElfLoad list"
  eo_path :: string
  eo_runtime :: Runtime

text \<open>The object file is \<open>None\<close> when the file is deleted or cannot be opened, parsed or identified.\<close>

datatype MMapPath = Path_map "elf_object option" | Anonymous_map | Vdso_map "elf_object option" | Other_map

record MemoryMap =
  mm_start :: u64
  mm_end :: u64
  mm_offset :: u64
  mm_execute :: bool
  mm_pathname :: MMapPath

text \<open>The entry of an object file is created with one reference, or its references are counted up.\<close>

definition reference_object :: "elf_object \<Rightarrow> profiler \<Rightarrow> profiler" where
  "reference_object obj s =
     (case references s (eo_id obj) of
        None \<Rightarrow> s\<lparr>object_files := (object_files s)(eo_id obj \<mapsto>
            \<lparr>of_path = eo_path obj, elf_load_segments = eo_elf_loads obj, is_vdso = False, runtime = eo_runtime obj\<rparr>),
          references := (references s)(eo_id obj \<mapsto> 1)\<rparr>
      | Some n \<Rightarrow> s\<lparr>references := (references s)(eo_id obj \<mapsto> n + 1)\<rparr>)"

text \<open>That of the vDSO is overwritten.\<close>

definition insert_vdso :: "elf_object \<Rightarrow> profiler \<Rightarrow> profiler" where
  "insert_vdso obj s =
     s\<lparr>object_files := (object_files s)(eo_id obj \<mapsto>
         \<lparr>of_path = eo_path obj, elf_load_segments = eo_elf_loads obj, is_vdso = True, runtime = CLike\<rparr>),
       references := (references s)(eo_id obj \<mapsto> 1)\<rparr>"

definition add_map :: "u64 \<Rightarrow> MemoryMap \<Rightarrow> ExecutableMapping list \<times> profiler \<Rightarrow> ExecutableMapping list \<times> profiler" where
  "add_map sys_page_size m = (\<lambda>(mappings, s).
     let mapping = \<lparr>em_executable_id = 0, em_build_id = None, em_kind = Anonymous, em_start_addr = mm_start m,
           em_end_addr = mm_end m, em_offset = mm_offset m, em_load_address = 0, em_soft_delete = False\<rparr>
     in if \<not> mm_execute m then (mappings, s)
        else case mm_pathname m of
            Path_map (Some obj) \<Rightarrow>
              (case eo_elf_loads obj of
                 [] \<Rightarrow> (mappings, s)
               | first_elf_load # _ \<Rightarrow>
                   (mappings @ [mapping\<lparr>em_executable_id := eo_id obj, em_build_id := Some (eo_build_id obj),
                      em_kind := FileBacked, em_load_address := load_address sys_page_size (mm_start m) first_elf_load\<rparr>],
                    reference_object obj s))
          | Anonymous_map \<Rightarrow> (mappings @ [mapping], s)
          | Vdso_map (Some obj) \<Rightarrow>
              (mappings @ [mapping\<lparr>em_executable_id := eo_id obj, em_build_id := Some (eo_build_id obj),
                 em_kind := Vdso, em_load_address := mm_start m\<rparr>], insert_vdso obj s)
          | _ \<Rightarrow> (mappings, s))"

section \<open>Evicting processes\<close>

text \<open>The page size of the system, the time, and the order in which the hash map of processes is iterated.\<close>

record proc_env =
  pe_page_size :: u64
  pe_now :: nat
  pe_order :: "(s32 \<rightharpoonup> ProcessInfo) \<Rightarrow> s32 list"

definition proc_order_ok :: "proc_env \<Rightarrow> (s32 \<rightharpoonup> ProcessInfo) \<Rightarrow> bool" where
  "proc_order_ok env ps \<longleftrightarrow> distinct (pe_order env ps) \<and> set (pe_order env ps) = dom ps"

definition can_evict_process :: "nat \<Rightarrow> profiler \<Rightarrow> bool" where
  "can_evict_process now s \<longleftrightarrow> 500 \<le> now - last_process_eviction s"

definition running_procs :: "proc_env \<Rightarrow> profiler \<Rightarrow> s32 list" where
  "running_procs env s = filter (\<lambda>pid. pi_status (the (procs s pid)) = Running) (pe_order env (procs s))"

definition maybe_evict_process :: "proc_env \<Rightarrow> bool \<Rightarrow> profiler \<Rightarrow> bool \<times> profiler" where
  "maybe_evict_process env if_too_many_procs s =
     (let should_evict = (if if_too_many_procs then MAX_PROCESSES \<le> length (running_procs env s) else True)
      in if should_evict \<and> \<not> can_evict_process (pe_now env) s then (False, s)
         else if should_evict
         then case sort_key (\<lambda>pid. pi_last_used (the (procs s pid))) (running_procs env s) of
                [] \<Rightarrow> (True, s)
              | pid # _ \<Rightarrow> (True, (handle_process_exit pid s)\<lparr>last_process_eviction := pe_now env\<rparr>)
         else (True, s))"

datatype AddProcessError = Eviction_error | ProcfsRace

text \<open>
  \<open>maps\<close> is \<open>None\<close> when the process is gone already. The key that the mappings are sorted by is the same
  for all of them, so they stay in the order of procfs. Threads are registered last; when they cannot be
  read the process is already stored.
\<close>

definition add_proc ::
    "proc_env \<Rightarrow> s32 \<Rightarrow> MemoryMap list option \<Rightarrow> bool \<Rightarrow> profiler \<Rightarrow> (AddProcessError + unit) \<times> profiler" where
  "add_proc env pid maps threads_read s =
     (case maps of
        None \<Rightarrow> (Inl ProcfsRace, s)
      | Some maps \<Rightarrow>
          (case maybe_evict_process env True s of
             (False, s1) \<Rightarrow> (Inl Eviction_error, s1)
           | (True, s1) \<Rightarrow>
               let (mappings, s2) = fold (add_map (pe_page_size env)) maps ([], s1);
                   s3 = s2\<lparr>procs := (procs s2)(pid \<mapsto>
                     \<lparr>pi_status = Running, pi_mappings = mappings, pi_last_used = pe_now env\<rparr>)\<rparr>
               in (if threads_read then Inr () else Inl ProcfsRace, s3)))"

section \<open>Storing the mappings of a process\<close>

text \<open>\<open>Registry_panic\<close>: loading did not return, because of a panic or of undefined behaviour.\<close>

datatype collected = Collected "mapping_t list" | Returned | Registry_panic

fun collect_bpf_mappings :: "loader_env \<Rightarrow> ExecutableMapping list \<Rightarrow> profiler \<Rightarrow> collected \<times> profiler" where
  "collect_bpf_mappings env [] s = (Collected [], s)"
| "collect_bpf_mappings env (e # es) s =
     (let cons = (\<lambda>(r, s). (case r of Collected ms \<Rightarrow> Collected (bpf_mapping e # ms) | _ \<Rightarrow> r, s)) in
      if em_kind e = Anonymous then cons (collect_bpf_mappings env es s)
      else if em_build_id e = None then (Registry_panic, s)
      else if object_files s (em_executable_id e) = None then collect_bpf_mappings env es s
      else case add_unwind_information_for_executable env (em_executable_id e) (em_start_addr e) (em_end_addr e) s of
          (Inr _, s1) \<Rightarrow> cons (collect_bpf_mappings env es s1)
        | (Inl Loader_panic, s1) \<Rightarrow> (Registry_panic, s1)
        | (Inl Loader_undefined, s1) \<Rightarrow> (Registry_panic, s1)
        | (Inl _, s1) \<Rightarrow> (Returned, s1))"

definition add_unwind_info_for_process ::
    "loader_env \<Rightarrow> proc_env \<Rightarrow> acceptance \<Rightarrow> s32 \<Rightarrow> profiler \<Rightarrow> profiler option" where
  "add_unwind_info_for_process env penv accepts pid s =
     (case procs s pid of
        None \<Rightarrow> None
      | Some info \<Rightarrow>
          (case collect_bpf_mappings env (pi_mappings info) s of
             (Registry_panic, s1) \<Rightarrow> None
           | (Returned, s1) \<Rightarrow> Some s1
           | (Collected ms, s1) \<Rightarrow>
               (case register_process accepts pid ms (mapping_trie s1) of
                  (ok, t) \<Rightarrow>
                    let s2 = s1\<lparr>mapping_trie := t\<rparr>
                    in Some (if ok then s2 else snd (maybe_evict_process penv False (handle_process_exit pid s2))))))"

section \<open>Events\<close>

record filter_config =
  exclude_self :: bool
  own_pid :: s32
  filter_pids :: "s32 list"

definition should_profile :: "filter_config \<Rightarrow> s32 \<Rightarrow> bool" where
  "should_profile c pid =
     (if exclude_self c \<and> pid = own_pid c then False
      else if filter_pids c = [] then True else pid \<in> set (filter_pids c))"

text \<open>\<open>None\<close> is a panic, or undefined behaviour.\<close>

definition event_new_proc ::
    "filter_config \<Rightarrow> loader_env \<Rightarrow> proc_env \<Rightarrow> acceptance \<Rightarrow> s32 \<Rightarrow> MemoryMap list option \<Rightarrow> bool \<Rightarrow> profiler \<Rightarrow>
     profiler option" where
  "event_new_proc c env penv accepts pid maps threads_read s =
     (if \<not> should_profile c pid then Some s
      else if procs s pid \<noteq> None then add_unwind_info_for_process env penv accepts pid s
      else case add_proc penv pid maps threads_read s of
          (Inr _, s1) \<Rightarrow> add_unwind_info_for_process env penv accepts pid s1
        | (Inl _, s1) \<Rightarrow> Some s1)"

definition event_need_unwind_info :: "loader_env \<Rightarrow> s32 \<Rightarrow> u64 \<Rightarrow> profiler \<Rightarrow> profiler option" where
  "event_need_unwind_info env pid addr s =
     (case procs s pid of
        None \<Rightarrow> Some s
      | Some info \<Rightarrow>
          (case for_address (pi_mappings info) addr of
             None \<Rightarrow> Some s
           | Some m \<Rightarrow>
               (case add_unwind_information_for_executable env (em_executable_id m) (em_start_addr m) (em_end_addr m) s of
                  (Inl Loader_panic, _) \<Rightarrow> None
                | (Inl Loader_undefined, _) \<Rightarrow> None
                | (_, s1) \<Rightarrow> Some s1)))"

section \<open>Addresses that the unwinder and user space use\<close>

text \<open>
  Where the dynamic loader maps a segment: page by page, from the page of the segment's file offset on, which
  is congruent to its address.
\<close>

definition maps_segment :: "u64 \<Rightarrow> ExecutableMapping \<Rightarrow> ElfLoad \<Rightarrow> bool" where
  "maps_segment sys_page_size m seg \<longleftrightarrow>
     em_offset m = p_offset seg AND NOT (sys_page_size - 1) \<and>
     p_vaddr seg AND (sys_page_size - 1) = p_offset seg AND (sys_page_size - 1)"

lemma and_not_mask: "x AND NOT m = x - (x AND m)" for x m :: u64
proof -
  have "(x AND m) + (x AND NOT m) = (x AND m) OR (x AND NOT m)"
    by (rule disjunctive_add_eq_or) (rule bit_word_eqI, simp add: bit_simps)
  also have "\<dots> = x" by (rule bit_word_eqI) (auto simp: bit_simps)
  finally show ?thesis by (simp add: algebra_simps)
qed

text \<open>
  C38. Unwinder and symboliser use the same addresses. For an address in the mapping of the first
  executable segment of a file, the address relative to the load address, with which the unwinder searches
  the unwind table, is the one that user space stores as the normalised address, the address in the ELF file.
\<close>

theorem bpf_address_is_normalized_address:
  assumes "elf_load_segments obj = seg # segs" "em_kind m = FileBacked" "maps_segment sys_page_size m seg"
    and "em_load_address m = load_address sys_page_size (em_start_addr m) seg"
    and "p_vaddr seg AND NOT (sys_page_size - 1) \<le> em_start_addr m"
    and "p_offset seg \<le> va - em_start_addr m + em_offset m"
    and "va - em_start_addr m + em_offset m < p_offset seg + p_filesz seg"
  shows "normalized_address obj va m = Some (va - m_load_address (bpf_mapping m))"
proof -
  let ?mask = "sys_page_size - 1"
  have "va - em_start_addr m + em_offset m - p_offset seg + p_vaddr seg =
      va - (em_start_addr m - (p_vaddr seg AND NOT ?mask))"
    using assms(3) by (simp add: maps_segment_def and_not_mask algebra_simps)
  then show ?thesis
    using assms by (simp add: normalized_address_def load_address_def Let_def bpf_mapping_def)
qed

definition example_object :: ObjectFileInfo where
  "example_object = \<lparr>of_path = ''/bin/true'',
     elf_load_segments = [\<lparr>p_offset = 0x1040, p_vaddr = 0x2040, p_filesz = 0x1f00\<rparr>,
       \<lparr>p_offset = 0x4000, p_vaddr = 0x205000, p_filesz = 0x1000\<rparr>], is_vdso = False, runtime = CLike\<rparr>"

definition example_segment_mapping :: ExecutableMapping where
  "example_segment_mapping = \<lparr>em_executable_id = 7, em_build_id = Some example_build_id, em_kind = FileBacked,
     em_start_addr = 0x55550002000, em_end_addr = 0x55550004000, em_offset = 0x1000,
     em_load_address = 0x55550000000, em_soft_delete = False\<rparr>"

theorem bpf_address_is_normalized_address_witness:
  "normalized_address example_object 0x55550002150 example_segment_mapping =
     Some (0x55550002150 - m_load_address (bpf_mapping example_segment_mapping))"
  by (rule bpf_address_is_normalized_address [where sys_page_size = 4096 and
        seg = "\<lparr>p_offset = 0x1040, p_vaddr = 0x2040, p_filesz = 0x1f00\<rparr>" and
        segs = "[\<lparr>p_offset = 0x4000, p_vaddr = 0x205000, p_filesz = 0x1000\<rparr>]"])
    (simp_all add: example_object_def example_segment_mapping_def maps_segment_def load_address_def Let_def)

text \<open>
  They differ in every other executable segment. The load address is computed from the first
  executable segment for all mappings of a file: in the mapping of a second one the unwinder searches with
  addresses of the first, while the normalised address is right.
\<close>

lemma second_segment_addresses_differ:
  "(let m = example_segment_mapping\<lparr>em_start_addr := 0x55550205000, em_end_addr := 0x55550206000, em_offset := 0x4000,
        em_load_address := load_address 4096 0x55550205000 (hd (elf_load_segments example_object))\<rparr>
    in maps_segment 4096 m (elf_load_segments example_object ! 1) \<and>
       normalized_address example_object 0x55550205010 m = Some 0x205010 \<and>
       0x55550205010 - m_load_address (bpf_mapping m) = 0x2010)"
  by (simp add: example_object_def example_segment_mapping_def maps_segment_def load_address_def Let_def
      normalized_address_def bpf_mapping_def)

section \<open>Storing mappings\<close>

lemma for_address_bpf:
  "find (\<lambda>m. contains_pc m pc) (map bpf_mapping es) = map_option bpf_mapping (for_address es pc)"
  by (induction es) (auto simp: for_address_def contains_pc_def)

text \<open>What collecting mappings keeps of the profiler.\<close>

definition same_processes :: "profiler \<Rightarrow> profiler \<Rightarrow> bool" where
  "same_processes s s' \<longleftrightarrow> procs s' = procs s \<and> object_files s' = object_files s \<and> references s' = references s \<and>
     mapping_trie s' = mapping_trie s"

lemma same_processes_refl [simp]: "same_processes s s"
  by (simp add: same_processes_def)

lemma same_processes_trans: "same_processes s s' \<Longrightarrow> same_processes s' s'' \<Longrightarrow> same_processes s s''"
  by (simp add: same_processes_def)

lemma evict_executable_processes [simp]:
  "procs (evict_executable now i s) = procs s" "object_files (evict_executable now i s) = object_files s"
  "references (evict_executable now i s) = references s" "mapping_trie (evict_executable now i s) = mapping_trie s"
  by (simp_all add: evict_executable_def Let_def split: option.split)

lemma fold_evict_processes: "same_processes s (fold (evict_executable now) is s)"
  by (induction "is" arbitrary: s) (simp_all add: same_processes_def)

lemma maybe_evict_executables_processes: "same_processes s (snd (maybe_evict_executables env n s))"
  using fold_evict_processes by (simp add: maybe_evict_executables_def Let_def del: fold_append)

lemma store_unwind_info_processes: "same_processes s (snd (store_unwind_info env i rows s))"
  by (auto simp: same_processes_def store_unwind_info_def Let_def split: option.split prod.split bool.split)

lemma runtime_unwind_info_processes: "same_processes s (snd (runtime_unwind_info env i info a b s))"
  by (auto simp: same_processes_def runtime_unwind_info_def fetch_table_def split: Runtime.split prod.split)

lemma add_unwind_information_processes:
  "same_processes s (snd (add_unwind_information_for_executable env i a b s))"
proof (cases "known_executables s i = None \<and> object_files s i \<noteq> None")
  case True
  then obtain info where info: "object_files s i = Some info" "known_executables s i = None" by auto
  obtain u s1 where u: "runtime_unwind_info env i info a b s = (u, s1)" by fastforce
  then have s1: "same_processes s s1" using runtime_unwind_info_processes [of s env i info a b] by simp
  show ?thesis
  proof (cases "\<exists>rows. u = Returns (Inr rows)")
    case True
    then obtain rows where Inr: "u = Returns (Inr rows)" by blast
    obtain ok s2 where ev: "maybe_evict_executables env (length rows) s1 = (ok, s2)" by fastforce
    have s2: "same_processes s s2"
      using same_processes_trans [OF s1 maybe_evict_executables_processes [of s1 env "length rows"]] ev by simp
    with same_processes_trans [OF s2 store_unwind_info_processes [of s2 env i rows]] Inr info u ev show ?thesis
      by (simp add: add_unwind_information_for_executable_def split: bool.split)
  qed (use s1 info u in \<open>auto simp: add_unwind_information_for_executable_def split: execution.split sum.split\<close>)
qed (auto simp: add_unwind_information_for_executable_def)

lemma collect_bpf_mappings_processes: "same_processes s (snd (collect_bpf_mappings env es s))"
proof (induction es arbitrary: s)
  case (Cons e es)
  let ?add = "add_unwind_information_for_executable env (em_executable_id e) (em_start_addr e) (em_end_addr e) s"
  have "same_processes s (snd (collect_bpf_mappings env es (snd ?add)))"
    using same_processes_trans [OF add_unwind_information_processes Cons] .
  with Cons add_unwind_information_processes [of s env] show ?case
    by (auto simp: Let_def split: prod.split sum.split AddUnwindInformationError.split) (metis snd_conv)+
qed simp

lemma collect_all:
  assumes "collect_bpf_mappings env es s = (Collected ms, s')"
    and "\<forall>e \<in> set es. em_kind e \<noteq> Anonymous \<longrightarrow> object_files s (em_executable_id e) \<noteq> None"
  shows "ms = map bpf_mapping es"
  using assms
proof (induction es arbitrary: s ms)
  case (Cons e es)
  let ?add = "add_unwind_information_for_executable env (em_executable_id e) (em_start_addr e) (em_end_addr e) s"
  have add: "object_files (snd ?add) = object_files s"
    using add_unwind_information_processes [of s env] by (simp add: same_processes_def)
  show ?case
  proof (cases "em_kind e = Anonymous")
    case True
    with Cons show ?thesis by (auto simp: Let_def split: prod.splits collected.splits)
  next
    case False
    from False Cons.prems obtain ok s1 ms1 where "?add = (Inr ok, s1)" "ms = bpf_mapping e # ms1"
      "collect_bpf_mappings env es s1 = (Collected ms1, s')"
      by (auto simp: Let_def split: if_splits prod.splits sum.splits collected.splits AddUnwindInformationError.splits)
    with Cons.IH [of s1 ms1] Cons.prems(2) add show ?thesis by simp
  qed
qed simp

text \<open>
  C27. After a process is registered, the unwinder and user space take the same mapping for every address:
  the lookup in the BPF map gives the entry of the mapping that user space finds in its own list, or, when there is
  none, the entry of the process alone.
\<close>

theorem registered_process_agrees:
  assumes "procs s pid = Some info" "collect_bpf_mappings env (pi_mappings info) s = (Collected ms, s1)"
    and "\<forall>e \<in> set (pi_mappings info). em_kind e \<noteq> Anonymous \<longrightarrow> object_files s (em_executable_id e) \<noteq> None"
    and "register_process accepts pid ms (mapping_trie s1) = (True, t)" "no_entries pid (mapping_trie s)"
    and "list_all (mapping_wf \<circ> bpf_mapping) (pi_mappings info)" "disjoint_mappings (map bpf_mapping (pi_mappings info))"
    and "lpm_contract t lookup"
  shows "\<exists>s'. add_unwind_info_for_process env penv accepts pid s = Some s' \<and> mapping_trie s' = t \<and>
     (\<forall>pc. find_mapping lookup pid pc =
        Some (case for_address (pi_mappings info) pc of Some e \<Rightarrow> bpf_mapping e | None \<Rightarrow> process_entry))"
proof -
  have ms: "ms = map bpf_mapping (pi_mappings info)" by (rule collect_all [OF assms(2,3)])
  have trie: "mapping_trie s1 = mapping_trie s"
    using collect_bpf_mappings_processes [of s env "pi_mappings info"] assms(2) by (simp add: same_processes_def)
  have "registered_in lookup pid ms"
    unfolding registered_in_def using assms(4-8) trie ms by (auto simp: list_all_iff)
  then have "find_mapping lookup pid pc =
      Some (case for_address (pi_mappings info) pc of Some e \<Rightarrow> bpf_mapping e | None \<Rightarrow> process_entry)" for pc
    using registered_in_lookup [of lookup pid ms pc] by (simp add: ms for_address_bpf split: option.split)
  then show ?thesis
    using assms(1,2,4) by (simp add: add_unwind_info_for_process_def Let_def)
qed

definition example_penv :: proc_env where
  "example_penv = \<lparr>pe_page_size = 4096, pe_now = 1000, pe_order = (\<lambda>ps. sorted_list_of_set (dom ps))\<rparr>"

definition unregistered :: profiler where
  "unregistered = (example_profiler (\<lambda>t p. True) 1)\<lparr>mapping_trie := Map.empty\<rparr>"

definition example_info :: ProcessInfo where
  "example_info = \<lparr>pi_status = Running, pi_mappings = [example_mapping_info], pi_last_used = 0\<rparr>"

lemma unregistered_process: "procs unregistered 42 = Some example_info" "mapping_trie unregistered = Map.empty"
  by (simp_all add: unregistered_def example_profiler_def example_info_def)

lemma example_collected:
  "collect_bpf_mappings example_env (pi_mappings example_info) unregistered =
     (Collected [bpf_mapping example_mapping_info], unregistered)"
  by (simp add: example_info_def Let_def unregistered_def example_profiler_def example_mapping_info_def
      add_unwind_information_for_executable_def)

theorem registered_process_agrees_witness:
  "\<exists>t. find_mapping (trie_lookup t) 42 0x402020 = Some (bpf_mapping example_mapping_info) \<and>
     map_option mapping_trie (add_unwind_info_for_process example_env example_penv (\<lambda>t p. True) 42 unregistered) = Some t"
proof -
  obtain t where t: "register_process (\<lambda>t p. True) 42 [bpf_mapping example_mapping_info] (mapping_trie unregistered) = (True, t)"
    using register_accepted [of "[bpf_mapping example_mapping_info]" 42 Map.empty] example_mapping_wf unregistered_process
    by auto
  have obj: "\<forall>e \<in> set (pi_mappings example_info). em_kind e \<noteq> Anonymous \<longrightarrow>
      object_files unregistered (em_executable_id e) \<noteq> None"
    by (simp add: example_info_def example_mapping_info_def unregistered_def example_profiler_def)
  have "for_address (pi_mappings example_info) 0x402020 = Some example_mapping_info"
    by (simp add: for_address_def example_info_def example_mapping_info_def)
  moreover have "list_all (mapping_wf \<circ> bpf_mapping) (pi_mappings example_info)"
    "disjoint_mappings (map bpf_mapping (pi_mappings example_info))"
    using example_mapping_wf by (simp_all add: example_info_def disjoint_mappings_def)
  ultimately show ?thesis
    using registered_process_agrees [OF unregistered_process(1) example_collected obj t _ _ _ trie_lookup_contract, of example_penv]
      unregistered_process(2) no_entries_empty
    by (intro exI [of _ t]) fastforce
qed

text \<open>
  One executable without unwind information hides the whole process. When the conversion fails for
  a mapping, nothing of the process is stored in the BPF map of mappings, not even that it is
  known: none of its code is unwound, and it is announced again and again.
\<close>

lemma one_failing_executable_hides_process:
  assumes "procs s pid = Some info" "pi_mappings info = e # es" "em_kind e \<noteq> Anonymous" "em_build_id e \<noteq> None"
    and "object_files s (em_executable_id e) = Some obj" "runtime obj = CLike" "\<not> is_vdso obj"
    and "known_executables s (em_executable_id e) = None" "cache_files (unwind_info_manager s) (em_executable_id e) = None"
    and "compact_unwind_info (le_arm64 env) None (le_files env (of_path obj)) = Returns (Inl err)"
    and "no_entries pid (mapping_trie s)" "lpm_contract (mapping_trie s) lookup"
  shows "\<exists>s'. add_unwind_info_for_process env penv accepts pid s = Some s' \<and> mapping_trie s' = mapping_trie s \<and>
     \<not> process_is_known lookup pid"
proof -
  have read: "read_from_cache (le_sha256 env) False (em_executable_id e) (unwind_info_manager s) = Returns (Inl Fetch_not_found)"
    using assms(9) by (simp add: read_from_cache_def)
  have "fst (add_unwind_information_for_executable env (em_executable_id e) (em_start_addr e) (em_end_addr e) s) =
      Inl (if known_naughty (of_path obj) then NoUnwindInfoKnownNaughty else NoUnwindInfo (Fetch_write err) (of_path obj))"
    using assms(5-8,10) read
    by (simp add: add_unwind_information_for_executable_def runtime_unwind_info_def fetch_table_def
        fetch_unwind_info_def write_to_cache_def Let_def)
  then have "fst (collect_bpf_mappings env (pi_mappings info) s) = Returned"
    using assms(2-5) by (auto simp: Let_def split: prod.splits)
  then obtain s1 where s1: "collect_bpf_mappings env (pi_mappings info) s = (Returned, s1)"
    by (cases "collect_bpf_mappings env (pi_mappings info) s") auto
  then have "mapping_trie s1 = mapping_trie s"
    using collect_bpf_mappings_processes [of s env "pi_mappings info"] by (simp add: same_processes_def)
  moreover have "\<not> process_is_known lookup pid"
    using assms(11) process_is_known_trie [OF assms(12), of pid]
    by (simp add: no_entries_def longest_match_None_iff del: take_append)
  ultimately show ?thesis using assms(1) s1 by (simp add: add_unwind_info_for_process_def)
qed

lemma one_failing_executable_hides_process_example:
  "map_option mapping_trie (add_unwind_info_for_process (example_env\<lparr>le_files := \<lambda>_. Frame_entries []\<rparr>) example_penv (\<lambda>t p. True) 42
     (unregistered\<lparr>known_executables := Map.empty\<rparr>)) = Some Map.empty"
proof -
  have "compact_unwind_info False None (Frame_entries []) = Returns (Inl NoFunctionsFoundInEhFrameData)"
    by (simp add: compact_unwind_info_def process_def)
  then show ?thesis
    using one_failing_executable_hides_process [of "unregistered\<lparr>known_executables := Map.empty\<rparr>" 42 example_info
        example_mapping_info "[]" "the (object_files unregistered 7)" "example_env\<lparr>le_files := \<lambda>_. Frame_entries []\<rparr>"
        NoFunctionsFoundInEhFrameData "trie_lookup Map.empty" example_penv "\<lambda>t p. True"]
      no_entries_empty trie_lookup_contract unregistered_process
    by (auto simp: example_info_def example_mapping_info_def unregistered_def example_profiler_def
        example_env_def manager_new_def)
qed

end
