(* ===== verification/Frames.thy ===== *)
theory Frames
  imports Numerals
begin

text \<open>
  Frames of processed stacks and their text: src/src/profile/frame.rs. The \<open>Debug\<close> format of strings is that
  of the standard library; characters beyond ASCII are taken to be printable.
\<close>

datatype SymbolizationError = Generic string

record SymbolizedFrame =
  sf_name :: string
  sf_inlined :: bool
  sf_filename :: "string option"
  sf_line :: "nat option"

record Frame =
  fr_virtual_address :: u64
  fr_file_offset :: "u64 option"
  fr_symbolization_result :: "(SymbolizationError + SymbolizedFrame) option"

definition with_error :: "u64 \<Rightarrow> string \<Rightarrow> Frame" where
  "with_error virtual_address msg =
     \<lparr>fr_virtual_address = virtual_address, fr_file_offset = None, fr_symbolization_result = Some (Inl (Generic msg))\<rparr>"

fun fmt_symbolization_error :: "SymbolizationError \<Rightarrow> string" where
  "fmt_symbolization_error (Generic msg) = ''Symbolization error '' @ msg"

section \<open>Text\<close>

abbreviation "double_quote \<equiv> CHR 0x22"
abbreviation "backslash \<equiv> CHR 0x5C"

definition escape_debug :: "char \<Rightarrow> string" where
  "escape_debug c =
     (let n = of_char c :: nat in
      if n = 0 then [backslash, CHR ''0'']
      else if n = 9 then [backslash, CHR ''t'']
      else if n = 10 then [backslash, CHR ''n'']
      else if n = 13 then [backslash, CHR ''r'']
      else if c = double_quote \<or> c = backslash then [backslash, c]
      else if n < 32 \<or> n = 127 then [backslash, CHR ''u'', CHR 0x7B] @ fmt_hex n @ [CHR 0x7D]
      else [c])"

fun fmt_debug_error :: "SymbolizationError \<Rightarrow> string" where
  "fmt_debug_error (Generic msg) = ''Generic('' @ [double_quote] @ concat (map escape_debug msg) @ [double_quote] @ '')''"

definition format_all_info :: "bool \<Rightarrow> Frame \<Rightarrow> string" where
  "format_all_info only_show_function_name fr =
     (case fr_symbolization_result fr of
        Some (Inr s) \<Rightarrow>
          (if sf_inlined s then ''[inlined] '' else '''') @ sf_name s @
          (if only_show_function_name then ''''
           else '' ('' @ (case sf_filename s of Some f \<Rightarrow> f | None \<Rightarrow> ''<no file>'') @ '':'' @
                (case sf_line s of Some num \<Rightarrow> fmt_dec num | None \<Rightarrow> ''<no line>'') @ '')'')
      | Some (Inl e) \<Rightarrow> ''error: '' @ fmt_debug_error e
      | None \<Rightarrow> ''frame not symbolized'')"

definition fmt_frame :: "Frame \<Rightarrow> string" where
  "fmt_frame fr = format_all_info True fr"

text \<open>The text of an error is on one line, whatever the message is.\<close>

lemma escape_debug_no_newline: "CHR 0x0A \<notin> set (escape_debug c)"
proof -
  have "d < 16 \<Longrightarrow> digit_char d \<noteq> CHR 0x0A" for d
    using digit_char_not_whitespace [of d] by (auto simp: is_whitespace_def)
  then have "CHR 0x0A \<notin> set (fmt_hex n)" for n
    using set_fmt_radix [of 16 n] by (fastforce simp: fmt_hex_def)
  then show ?thesis by (auto simp: escape_debug_def Let_def)
qed

lemma fmt_debug_error_no_newline: "CHR 0x0A \<notin> set (fmt_debug_error e)"
  by (cases e) (simp add: escape_debug_no_newline)

end
