(* ===== verification/Aggregator.thy ===== *)
theory Aggregator
  imports Raw_Sample Process_Registry Frames
begin

text \<open>
  What user space makes of samples: \<open>aggregate\<close> of src/src/aggregator.rs counts equal samples,
  \<open>RawAggregatedSample::process\<close> of src/src/profile/sample.rs and \<open>raw_to_processed\<close> of
  src/src/profile/convert.rs translate addresses. The hash of the standard library is a parameter; the order in
  which a hash map is emptied is that of insertion here, and no theorem depends on it. Counts are natural
  numbers: there are fewer than $2^{64}$ samples.
\<close>

section \<open>Aggregation\<close>

text \<open>What \<open>hash\<close> feeds to the hasher; the time of collection is left out.\<close>

type_synonym sample_key = "s32 \<times> u64 list \<times> s32 \<times> u64 list"

definition hashed_fields :: "raw_sample \<Rightarrow> sample_key" where
  "hashed_fields s = (rs_pid s, rs_kstack s, rs_tid s, rs_ustack s)"

record RawAggregatedSample =
  ras_sample :: raw_sample
  ras_count :: nat

text \<open>\<open>entry(hash).and_modify(count += 1).or_insert(sample, 1)\<close>\<close>

fun count_sample :: "u64 \<Rightarrow> raw_sample \<Rightarrow> (u64 \<times> RawAggregatedSample) list \<Rightarrow> (u64 \<times> RawAggregatedSample) list" where
  "count_sample h sample [] = [(h, \<lparr>ras_sample = sample, ras_count = 1\<rparr>)]"
| "count_sample h sample ((h', a) # entries) =
     (if h' = h then (h', a\<lparr>ras_count := ras_count a + 1\<rparr>) # entries else (h', a) # count_sample h sample entries)"

definition aggregate_step ::
    "(sample_key \<Rightarrow> u64) \<Rightarrow> raw_sample \<Rightarrow> (u64 \<times> RawAggregatedSample) list \<Rightarrow> (u64 \<times> RawAggregatedSample) list" where
  "aggregate_step hash sample entries =
     (if rs_ustack sample = [] \<and> rs_kstack sample = [] then entries
      else count_sample (hash (hashed_fields sample)) sample entries)"

definition aggregate :: "(sample_key \<Rightarrow> u64) \<Rightarrow> raw_sample list \<Rightarrow> RawAggregatedSample list" where
  "aggregate hash raw_samples =
     (if raw_samples = [] then [] else map snd (fold (aggregate_step hash) raw_samples []))"

section \<open>Processing\<close>

definition KERNEL_PID :: s32 where "KERNEL_PID = 0"

record AggregatedSample =
  as_pid :: s32
  as_tid :: s32
  as_ustack :: "Frame list"
  as_kstack :: "Frame list"
  as_count :: nat

datatype process_error = Process_not_found | Kernel_not_found | No_stack_present

fun process_stack :: "ExecutableMapping list \<Rightarrow> (u64 \<rightharpoonup> ObjectFileInfo) \<Rightarrow> u64 list \<Rightarrow> Frame list" where
  "process_stack mappings objs [] = []"
| "process_stack mappings objs (va # vas) =
     (case for_address mappings va of
        None \<Rightarrow> process_stack mappings objs vas
      | Some m \<Rightarrow>
          \<lparr>fr_virtual_address = va, fr_file_offset =
             (case objs (em_executable_id m) of Some obj \<Rightarrow> normalized_address obj va m | None \<Rightarrow> None),
           fr_symbolization_result = None\<rparr>
          # process_stack mappings objs vas)"

definition process_sample ::
    "(s32 \<rightharpoonup> ProcessInfo) \<Rightarrow> (u64 \<rightharpoonup> ObjectFileInfo) \<Rightarrow> RawAggregatedSample \<Rightarrow> process_error + AggregatedSample" where
  "process_sample ps objs a =
     (let sample = ras_sample a in
      case ps (rs_pid sample) of
        None \<Rightarrow> Inl Process_not_found
      | Some info \<Rightarrow>
          let ustack = process_stack (pi_mappings info) objs (rs_ustack sample) in
          case ps KERNEL_PID of
            None \<Rightarrow> Inl Kernel_not_found
          | Some kernel_info \<Rightarrow>
              let kstack = process_stack (pi_mappings kernel_info) objs (rs_kstack sample) in
              if ustack = [] \<and> kstack = [] then Inl No_stack_present
              else Inr \<lparr>as_pid = rs_pid sample, as_tid = rs_tid sample, as_ustack = ustack, as_kstack = kstack,
                        as_count = ras_count a\<rparr>)"

definition raw_to_processed ::
    "(s32 \<rightharpoonup> ProcessInfo) \<Rightarrow> (u64 \<rightharpoonup> ObjectFileInfo) \<Rightarrow> RawAggregatedSample list \<Rightarrow> AggregatedSample list" where
  "raw_to_processed ps objs raw_profile =
     List.map_filter (\<lambda>a. case process_sample ps objs a of Inr s \<Rightarrow> Some s | Inl e \<Rightarrow> None) raw_profile"

section \<open>Counting\<close>

definition has_stack :: "raw_sample \<Rightarrow> bool" where
  "has_stack s \<longleftrightarrow> rs_ustack s \<noteq> [] \<or> rs_kstack s \<noteq> []"

lemma aggregate_fold: "fold (aggregate_step hash) ss es =
   fold (\<lambda>s. count_sample (hash (hashed_fields s)) s) (filter has_stack ss) es"
  by (induction ss arbitrary: es) (simp_all add: aggregate_step_def has_stack_def)

lemma count_sample_sum:
  "sum_list (map (ras_count \<circ> snd) (count_sample h s es)) = Suc (sum_list (map (ras_count \<circ> snd) es))"
  by (induction h s es rule: count_sample.induct) simp_all

text \<open>What is counted for a hash, and the sample kept for it: the first one.\<close>

lemma count_sample_lookup:
  "map_of (count_sample h s es) h' =
     (if h' = h then Some (case map_of es h of None \<Rightarrow> \<lparr>ras_sample = s, ras_count = 1\<rparr>
        | Some a \<Rightarrow> a\<lparr>ras_count := ras_count a + 1\<rparr>) else map_of es h')"
  by (induction h s es rule: count_sample.induct) auto

lemma count_sample_keys:
  "set (map fst (count_sample h s es)) = insert h (set (map fst es))"
  "distinct (map fst es) \<Longrightarrow> distinct (map fst (count_sample h s es))"
  by (induction h s es rule: count_sample.induct) auto

lemma fold_count_lookup:
  "map_of (fold (\<lambda>s. count_sample (hash (hashed_fields s)) s) ss []) h =
     (case filter (\<lambda>s. hash (hashed_fields s) = h) ss of
        [] \<Rightarrow> None
      | s # rest \<Rightarrow> Some \<lparr>ras_sample = s, ras_count = Suc (length rest)\<rparr>)"
proof (induction ss rule: rev_induct)
  case (snoc s ss)
  then show ?case
    by (cases "filter (\<lambda>s. hash (hashed_fields s) = h) ss") (auto simp: count_sample_lookup)
qed simp

lemma fold_count_distinct: "distinct (map fst (fold (\<lambda>s. count_sample (hash (hashed_fields s)) s) ss []))"
  by (induction ss rule: rev_induct) (simp_all add: count_sample_keys)

lemma aggregate_eq:
  "aggregate hash ss = map snd (fold (\<lambda>s. count_sample (hash (hashed_fields s)) s) (filter has_stack ss) [])"
  by (simp add: aggregate_def aggregate_fold)

lemma aggregate_member:
  "a \<in> set (aggregate hash ss) \<longleftrightarrow>
     (\<exists>h s rest. filter (\<lambda>s. hash (hashed_fields s) = h) (filter has_stack ss) = s # rest \<and>
        a = \<lparr>ras_sample = s, ras_count = Suc (length rest)\<rparr>)"
proof -
  let ?es = "fold (\<lambda>s. count_sample (hash (hashed_fields s)) s) (filter has_stack ss) []"
  have "a \<in> set (aggregate hash ss) \<longleftrightarrow> (\<exists>h. map_of ?es h = Some a)"
    using fold_count_distinct [of hash "filter has_stack ss"] by (force simp: aggregate_eq)
  moreover have "map_of ?es h = Some a \<longleftrightarrow> (\<exists>s rest. filter (\<lambda>s. hash (hashed_fields s) = h) (filter has_stack ss) = s # rest \<and>
        a = \<lparr>ras_sample = s, ras_count = Suc (length rest)\<rparr>)" for h
    unfolding fold_count_lookup
    by (cases "filter (\<lambda>s. hash (hashed_fields s) = h) (filter has_stack ss)") (auto simp del: filter_filter)
  ultimately show ?thesis by simp
qed

lemma filter_eq_Cons_member: "filter P xs = x # rest \<Longrightarrow> x \<in> set xs \<and> P x"
  using filter_set [of P xs] by (cases "x \<in> set (filter P xs)") auto

lemma aggregate_total: "sum_list (map ras_count (aggregate hash ss)) = length (filter has_stack ss)"
proof -
  have "sum_list (map (ras_count \<circ> snd) (fold (\<lambda>s. count_sample (hash (hashed_fields s)) s) ks es)) =
      length ks + sum_list (map (ras_count \<circ> snd) es)" for ks es
    by (induction ks arbitrary: es) (simp_all add: count_sample_sum)
  from this [of "filter has_stack ss" "[]"] show ?thesis by (simp add: aggregate_eq)
qed

section \<open>Properties\<close>

text \<open>
  Aggregation loses no sample, whatever the hash does: the counts of a profile add up to the number of
  samples that have a stack, and every sample in the profile is one of these.
\<close>

lemma aggregate_conserves_samples:
  "sum_list (map ras_count (aggregate hash ss)) = length (filter has_stack ss) \<and>
   ras_sample ` set (aggregate hash ss) \<subseteq> set (filter has_stack ss)"
  using aggregate_total by (auto simp: aggregate_member dest!: filter_eq_Cons_member)

text \<open>
  C37. Aggregation counts equal samples, when the hash has no collisions on the samples at hand: each
  combination of process, thread and stacks that occurs among the samples with a stack has exactly
  one entry, whose count is the number of its samples, whenever they were collected.
\<close>

theorem aggregate_counts_equal_samples:
  assumes "inj_on hash (hashed_fields ` set ss)" "s \<in> set ss" "has_stack s"
  shows "\<exists>a \<in> set (aggregate hash ss). hashed_fields (ras_sample a) = hashed_fields s \<and>
       ras_count a = length (filter (\<lambda>s'. hashed_fields s' = hashed_fields s) ss) \<and>
       (\<forall>b \<in> set (aggregate hash ss). hashed_fields (ras_sample b) = hashed_fields s \<longrightarrow> b = a)"
proof -
  let ?h = "hash (hashed_fields s)"
  have same: "hash (hashed_fields s') = ?h \<longleftrightarrow> hashed_fields s' = hashed_fields s" if "s' \<in> set ss" for s'
    using assms(1,2) that by (auto dest: inj_onD)
  have stack: "has_stack s'" if "hashed_fields s' = hashed_fields s" for s'
    using that assms(3) by (simp add: hashed_fields_def has_stack_def)
  have f: "filter (\<lambda>s. hash (hashed_fields s) = ?h) (filter has_stack ss) = filter (\<lambda>s'. hashed_fields s' = hashed_fields s) ss"
    using same stack by (auto simp: filter_filter intro!: filter_cong)
  obtain x rest where x: "filter (\<lambda>s'. hashed_fields s' = hashed_fields s) ss = x # rest"
    using assms(2) by (cases "filter (\<lambda>s'. hashed_fields s' = hashed_fields s) ss") (auto simp: filter_empty_conv)
  let ?a = "\<lparr>ras_sample = x, ras_count = Suc (length rest)\<rparr>"
  have mem: "?a \<in> set (aggregate hash ss)" unfolding aggregate_member using f x by (intro exI [of _ ?h] exI [of _ x] exI [of _ rest]) simp
  have key: "hashed_fields (ras_sample ?a) = hashed_fields s" using filter_eq_Cons_member [OF x] by simp
  have uniq: "b = ?a" if b: "b \<in> set (aggregate hash ss)" "hashed_fields (ras_sample b) = hashed_fields s" for b
  proof -
    obtain h y r where y: "filter (\<lambda>s. hash (hashed_fields s) = h) (filter has_stack ss) = y # r"
      "b = \<lparr>ras_sample = y, ras_count = Suc (length r)\<rparr>" using b(1) unfolding aggregate_member by blast
    then have "h = ?h" using filter_eq_Cons_member [OF y(1)] b(2) by simp
    then show ?thesis using y f x by simp
  qed
  have count: "ras_count ?a = length (filter (\<lambda>s'. hashed_fields s' = hashed_fields s) ss)" unfolding x by simp
  show ?thesis by (rule bexI [OF _ mem], intro conjI key count ballI impI) (rule uniq)
qed

definition example_samples :: "raw_sample list" where
  "example_samples =
     [\<lparr>rs_pid = 42, rs_tid = 43, rs_collected_at = 1, rs_ustack = [0x402020], rs_kstack = []\<rparr>,
      \<lparr>rs_pid = 42, rs_tid = 43, rs_collected_at = 2, rs_ustack = [], rs_kstack = []\<rparr>,
      \<lparr>rs_pid = 42, rs_tid = 44, rs_collected_at = 3, rs_ustack = [0x402020], rs_kstack = []\<rparr>,
      \<lparr>rs_pid = 42, rs_tid = 43, rs_collected_at = 4, rs_ustack = [0x402020], rs_kstack = []\<rparr>]"

definition example_hash :: "sample_key \<Rightarrow> u64" where
  "example_hash = (\<lambda>(pid, kstack, tid, ustack). ucast tid + of_nat (length ustack) * 0x100000000)"

theorem aggregate_counts_equal_samples_witness:
  "\<exists>a \<in> set (aggregate example_hash example_samples).
     hashed_fields (ras_sample a) = (42, [], 43, [0x402020]) \<and> ras_count a = 2"
proof -
  let ?s = "hd example_samples"
  have "inj_on example_hash (hashed_fields ` set example_samples)"
    by (simp add: inj_on_def example_hash_def example_samples_def hashed_fields_def)
  moreover have "?s \<in> set example_samples" "has_stack ?s" "hashed_fields ?s = (42, [], 43, [0x402020])"
    "length (filter (\<lambda>s'. hashed_fields s' = hashed_fields ?s) example_samples) = 2"
    by (simp_all add: example_samples_def has_stack_def hashed_fields_def)
  ultimately show ?thesis using aggregate_counts_equal_samples [of example_hash example_samples ?s] by auto
qed

text \<open>The normalised address of an address in a list of mappings.\<close>

definition file_offset_at :: "ExecutableMapping list \<Rightarrow> (u64 \<rightharpoonup> ObjectFileInfo) \<Rightarrow> u64 \<Rightarrow> u64 option" where
  "file_offset_at ms objs va =
     Option.bind (for_address ms va) (\<lambda>m. Option.bind (objs (em_executable_id m)) (\<lambda>obj. normalized_address obj va m))"

definition mapped_frames :: "ExecutableMapping list \<Rightarrow> (u64 \<rightharpoonup> ObjectFileInfo) \<Rightarrow> u64 list \<Rightarrow> Frame list" where
  "mapped_frames ms objs vas = map (\<lambda>va. \<lparr>fr_virtual_address = va, fr_file_offset = file_offset_at ms objs va,
       fr_symbolization_result = None\<rparr>)
     (filter (\<lambda>va. for_address ms va \<noteq> None) vas)"

lemma process_stack_eq: "process_stack ms objs vas = mapped_frames ms objs vas"
  by (induction vas) (auto simp: mapped_frames_def file_offset_at_def split: option.split)

text \<open>
  Processing keeps the identity, the count and, in order, every frame whose address is in a mapping of
  the process or of the kernel, with the address normalised in that mapping. It fails for an unknown
  process, when nothing is known of the kernel, and when no frame is left.
\<close>

lemma process_sample_result:
  "process_sample ps objs a =
     (case (ps (rs_pid (ras_sample a)), ps KERNEL_PID) of
        (None, _) \<Rightarrow> Inl Process_not_found
      | (Some info, None) \<Rightarrow> Inl Kernel_not_found
      | (Some info, Some kernel_info) \<Rightarrow>
          if filter (\<lambda>va. for_address (pi_mappings info) va \<noteq> None) (rs_ustack (ras_sample a)) = [] \<and>
             filter (\<lambda>va. for_address (pi_mappings kernel_info) va \<noteq> None) (rs_kstack (ras_sample a)) = []
          then Inl No_stack_present
          else Inr \<lparr>as_pid = rs_pid (ras_sample a), as_tid = rs_tid (ras_sample a),
                    as_ustack = mapped_frames (pi_mappings info) objs (rs_ustack (ras_sample a)),
                    as_kstack = mapped_frames (pi_mappings kernel_info) objs (rs_kstack (ras_sample a)),
                    as_count = ras_count a\<rparr>)"
  by (simp add: process_sample_def process_stack_eq mapped_frames_def Let_def split: option.split)

text \<open>
  When the kernel's modules could not be read at start, no sample is ever processed, not even those
  that have only user frames.
\<close>

lemma no_kernel_no_profile:
  assumes "ps KERNEL_PID = None"
  shows "raw_to_processed ps objs raw_profile = []"
proof -
  have "(case process_sample ps objs a of Inr s \<Rightarrow> Some s | Inl e \<Rightarrow> None) = None" for a
    using assms by (simp add: process_sample_def Let_def split: option.split)
  then show ?thesis by (simp add: raw_to_processed_def List.map_filter_def)
qed

lemma no_kernel_no_profile_example:
  "raw_to_processed [42 \<mapsto> example_info] (\<lambda>_. None) (aggregate example_hash example_samples) = []"
  by (rule no_kernel_no_profile) (simp add: KERNEL_PID_def)

end
