(* ===== verification/Pprof.thy ===== *)
theory Pprof
  imports Numerals "HOL-Library.Signed_Division" "HOL-Library.Sublist"
begin

text \<open>
  The builder of pprof profiles: src/lightswitch-proto/src/profile.rs. Strings, functions, mappings and
  locations are kept in tables and referred to by number. Numbers of entries are natural numbers: no table
  has $2^{63}$ of them. Members of the protobuf messages that the builder leaves at zero or false (columns,
  \<open>is_folded\<close>, \<open>has_functions\<close> and its siblings, \<open>start_line\<close>, \<open>drop_frames\<close>, \<open>keep_frames\<close>) are left out. A
  panic is the result \<open>None\<close>.
\<close>

section \<open>Messages\<close>

record pprof_Mapping =
  pm_id :: u64
  pm_memory_start :: u64
  pm_memory_limit :: u64
  pm_file_offset :: u64
  pm_filename :: nat
  pm_build_id :: nat

record pprof_Line =
  pl_function_id :: nat
  pl_line :: nat

record pprof_Location =
  loc_id :: nat
  loc_mapping_id :: nat
  loc_address :: u64
  loc_line :: "pprof_Line list"

record pprof_Function =
  pf_id :: nat
  pf_name :: nat
  pf_system_name :: nat
  pf_filename :: nat

record pprof_Label =
  lb_key :: nat
  lb_str :: nat
  lb_num :: int
  lb_num_unit :: nat

record pprof_Sample =
  smp_location_id :: "nat list"
  smp_value :: "int list"
  smp_label :: "pprof_Label list"

record pprof_ValueType =
  vt_type :: nat
  vt_unit :: nat

record pprof_Profile =
  pr_sample_type :: "pprof_ValueType list"
  pr_sample :: "pprof_Sample list"
  pr_mapping :: "pprof_Mapping list"
  pr_location :: "pprof_Location list"
  pr_function :: "pprof_Function list"
  pr_string_table :: "string list"
  pr_time_nanos :: int
  pr_duration_nanos :: int
  pr_period_type :: pprof_ValueType
  pr_period :: int
  pr_comment :: "nat list"

section \<open>The builder\<close>

record PprofBuilder =
  pb_time_nanos :: int
  pb_duration :: nat
  freq_in_hz :: int
  known_mappings :: "u64 \<rightharpoonup> nat"
  pb_mappings :: "pprof_Mapping list"
  known_strings :: "string \<rightharpoonup> nat"
  string_table :: "string list"
  known_locations :: "u64 \<times> nat \<rightharpoonup> nat"
  pb_locations :: "pprof_Location list"
  known_functions :: "nat \<rightharpoonup> nat"
  pb_functions :: "pprof_Function list"
  pb_samples :: "pprof_Sample list"

datatype LabelStringOrNumber = Label_String string | Label_Number int string

datatype PprofError =
    NullFunction | NullLocation | NullMapping
  | StringNotFound nat | FunctionNotFound nat | LocationNotFound nat | MappingNotFound nat
  | NullFunctionId nat | NullMappingId nat

text \<open>Conversions to \<open>i64\<close> keep the lowest 64 bits.\<close>

definition as_i64 :: "int \<Rightarrow> int" where "as_i64 x = signed_take_bit 63 x"

text \<open>\<open>profile_start\<close> is in nanoseconds since the epoch.\<close>

definition pprof_new :: "nat \<Rightarrow> nat \<Rightarrow> u64 \<Rightarrow> PprofBuilder" where
  "pprof_new profile_start duration freq =
     \<lparr>pb_time_nanos = as_i64 (int profile_start), pb_duration = duration, freq_in_hz = sint freq,
      known_mappings = Map.empty, pb_mappings = [], known_strings = Map.empty, string_table = [],
      known_locations = Map.empty, pb_locations = [], known_functions = Map.empty, pb_functions = [], pb_samples = []\<rparr>"

text \<open>
  \<open>match known.entry(key) { Occupied(o) => *o.get(), Vacant(v) => ... }\<close>, the step that the four tables
  share; numbers start at \<open>base\<close>.
\<close>

definition intern :: "nat \<Rightarrow> 'k \<Rightarrow> 'e \<Rightarrow> ('k \<rightharpoonup> nat) \<Rightarrow> 'e list \<Rightarrow> nat \<times> ('k \<rightharpoonup> nat) \<times> 'e list" where
  "intern base key e known tab =
     (case known key of
        Some i \<Rightarrow> (i, known, tab)
      | None \<Rightarrow> let i = length tab + base in (i, known(key \<mapsto> i), tab @ [e]))"

definition string_id :: "PprofBuilder \<Rightarrow> string \<Rightarrow> nat option" where
  "string_id b s = known_strings b s"

definition init_strings :: "PprofBuilder \<Rightarrow> PprofBuilder" where
  "init_strings b =
     (if string_table b = [] then b\<lparr>known_strings := (known_strings b)('''' \<mapsto> 0), string_table := ['''']\<rparr> else b)"

definition get_or_insert_string :: "string \<Rightarrow> PprofBuilder \<Rightarrow> nat \<times> PprofBuilder" where
  "get_or_insert_string s b =
     (let b1 = init_strings b;
          (i, known, tab) = intern 0 s s (known_strings b1) (string_table b1)
      in (i, b1\<lparr>known_strings := known, string_table := tab\<rparr>))"

definition add_function :: "string \<Rightarrow> string option \<Rightarrow> PprofBuilder \<Rightarrow> nat \<times> PprofBuilder" where
  "add_function func_name filename b =
     (let i = length (pb_functions b) + 1;
          (name_idx, b1) = get_or_insert_string func_name b;
          (filename_idx, b2) = get_or_insert_string (case filename of Some f \<Rightarrow> f | None \<Rightarrow> '''') b1;
          function = \<lparr>pf_id = i, pf_name = name_idx, pf_system_name = name_idx, pf_filename = filename_idx\<rparr>;
          (i', known, tab) = intern 1 name_idx function (known_functions b2) (pb_functions b2)
      in (i', b2\<lparr>known_functions := known, pb_functions := tab\<rparr>))"

definition add_line :: "string \<Rightarrow> string option \<Rightarrow> nat option \<Rightarrow> PprofBuilder \<Rightarrow> (pprof_Line \<times> nat) \<times> PprofBuilder" where
  "add_line func_name file_name line b =
     (let (function_id, b1) = add_function func_name file_name b
      in ((\<lparr>pl_function_id = function_id, pl_line = (case line of Some l \<Rightarrow> l | None \<Rightarrow> 0)\<rparr>, function_id), b1))"

definition add_location :: "u64 \<Rightarrow> nat \<Rightarrow> pprof_Line list \<Rightarrow> PprofBuilder \<Rightarrow> nat \<times> PprofBuilder" where
  "add_location address mapping_id lines b =
     (let location = \<lparr>loc_id = length (pb_locations b) + 1, loc_mapping_id = mapping_id, loc_address = address, loc_line = lines\<rparr>;
          (i, known, tab) = intern 1 (address, mapping_id) location (known_locations b) (pb_locations b)
      in (i, b\<lparr>known_locations := known, pb_locations := tab\<rparr>))"

definition add_mapping :: "u64 \<Rightarrow> u64 \<Rightarrow> u64 \<Rightarrow> u64 \<Rightarrow> string \<Rightarrow> string \<Rightarrow> PprofBuilder \<Rightarrow> nat \<times> PprofBuilder" where
  "add_mapping i start stop off filename build_id b =
     (let (filename_idx, b1) = get_or_insert_string filename b;
          (build_id_idx, b2) = get_or_insert_string build_id b1;
          mapping = \<lparr>pm_id = i, pm_memory_start = start, pm_memory_limit = stop, pm_file_offset = off,
                     pm_filename = filename_idx, pm_build_id = build_id_idx\<rparr>;
          (i', known, tab) = intern 1 i mapping (known_mappings b2) (pb_mappings b2)
      in (i', b2\<lparr>known_mappings := known, pb_mappings := tab\<rparr>))"

text \<open>The product wraps around in release builds; divisions by zero and overflowing divisions panic.\<close>

definition i64_div :: "int \<Rightarrow> int \<Rightarrow> int option" where
  "i64_div x y = (if y = 0 \<or> (y = -1 \<and> x = - (2 ^ 63)) then None else Some (x sdiv y))"

definition add_sample :: "nat list \<Rightarrow> int \<Rightarrow> pprof_Label list \<Rightarrow> PprofBuilder \<Rightarrow> PprofBuilder option" where
  "add_sample location_ids count labels b =
     (case i64_div (as_i64 (count * 1000000000)) (freq_in_hz b) of
        None \<Rightarrow> None
      | Some nanos \<Rightarrow> Some (b\<lparr>pb_samples := pb_samples b @
          [\<lparr>smp_location_id = location_ids, smp_value = [count, nanos], smp_label = labels\<rparr>]\<rparr>))"

definition new_label :: "string \<Rightarrow> LabelStringOrNumber \<Rightarrow> PprofBuilder \<Rightarrow> pprof_Label \<times> PprofBuilder" where
  "new_label key v b =
     (let (key_idx, b1) = get_or_insert_string key b
      in case v of
           Label_String s \<Rightarrow>
             (let (str, b2) = get_or_insert_string s b1
              in (\<lparr>lb_key = key_idx, lb_str = str, lb_num = 0, lb_num_unit = 0\<rparr>, b2))
         | Label_Number num unit \<Rightarrow>
             (let (unit_idx, b2) = get_or_insert_string unit b1
              in (\<lparr>lb_key = key_idx, lb_str = 0, lb_num = num, lb_num_unit = unit_idx\<rparr>, b2)))"

definition pprof_build :: "PprofBuilder \<Rightarrow> pprof_Profile option" where
  "pprof_build b =
     (let (samples_idx, b1) = get_or_insert_string ''samples'' b;
          (count_idx, b2) = get_or_insert_string ''count'' b1;
          (cpu_idx, b3) = get_or_insert_string ''cpu'' b2;
          (nanoseconds_idx, b4) = get_or_insert_string ''nanoseconds'' b3;
          (comment_idx, b5) = get_or_insert_string ''lightswitch'' b4;
          sample_type = \<lparr>vt_type = samples_idx, vt_unit = count_idx\<rparr>;
          period_type = \<lparr>vt_type = cpu_idx, vt_unit = nanoseconds_idx\<rparr>
      in case i64_div 1000000000 (freq_in_hz b5) of
           None \<Rightarrow> None
         | Some period \<Rightarrow> Some
             \<lparr>pr_sample_type = [sample_type, period_type], pr_sample = pb_samples b5, pr_mapping = pb_mappings b5,
              pr_location = pb_locations b5, pr_function = pb_functions b5, pr_string_table = string_table b5,
              pr_time_nanos = pb_time_nanos b5, pr_duration_nanos = as_i64 (int (pb_duration b5)),
              pr_period_type = period_type, pr_period = period, pr_comment = [comment_idx]\<rparr>)"

section \<open>Validation\<close>

definition nth_opt :: "'a list \<Rightarrow> nat \<Rightarrow> 'a option" where
  "nth_opt xs i = (if i < length xs then Some (xs ! i) else None)"

text \<open>\<open>for x in xs { check(x)?; }\<close>\<close>

fun check_all :: "('a \<Rightarrow> 'e + unit) \<Rightarrow> 'a list \<Rightarrow> 'e + unit" where
  "check_all check [] = Inr ()"
| "check_all check (x # xs) = (case check x of Inl e \<Rightarrow> Inl e | Inr u \<Rightarrow> check_all check xs)"

definition validate_line :: "PprofBuilder \<Rightarrow> pprof_Line \<Rightarrow> PprofError + unit" where
  "validate_line b line =
     (let function_id = pl_function_id line in
      if function_id = 0 then Inl NullFunction
      else case nth_opt (pb_functions b) (function_id - 1) of
          Some function \<Rightarrow>
            if pf_id function = 0 then Inl (NullFunctionId function_id)
            else case nth_opt (string_table b) (pf_name function) of
                Some s \<Rightarrow> Inr ()
              | None \<Rightarrow> Inl (StringNotFound (pf_name function))
        | None \<Rightarrow> Inl (FunctionNotFound function_id))"

definition validate_location :: "PprofBuilder \<Rightarrow> pprof_Location \<Rightarrow> PprofError + unit" where
  "validate_location b location =
     (let mapping_id = loc_mapping_id location in
      if mapping_id = 0 then Inl NullMapping
      else case nth_opt (pb_mappings b) (mapping_id - 1) of
          Some mapping \<Rightarrow>
            if pm_id mapping = 0 then Inl (NullMappingId mapping_id)
            else check_all (validate_line b) (loc_line location)
        | None \<Rightarrow> Inl (MappingNotFound mapping_id))"

definition validate_location_id :: "PprofBuilder \<Rightarrow> nat \<Rightarrow> PprofError + unit" where
  "validate_location_id b location_id =
     (if location_id = 0 then Inl NullLocation
      else case nth_opt (pb_locations b) (location_id - 1) of
          Some location \<Rightarrow> validate_location b location
        | None \<Rightarrow> Inl (LocationNotFound location_id))"

definition validate :: "PprofBuilder \<Rightarrow> PprofError + unit" where
  "validate b = check_all (\<lambda>sample. check_all (validate_location_id b) (smp_location_id sample)) (pb_samples b)"

section \<open>Tables\<close>

text \<open>
  The contract of a table whose entries are referred to by number: adding a value yields a number that
  stands for it, numbers keep their meaning, and no value has two of them.
\<close>

locale numbering =
  fixes wf :: "'s \<Rightarrow> bool"
    and value_of :: "'s \<Rightarrow> nat \<Rightarrow> 'v option"
    and add :: "'a \<Rightarrow> 's \<Rightarrow> nat \<times> 's"
    and val :: "'a \<Rightarrow> 'v"
  assumes add_wf: "wf s \<Longrightarrow> add a s = (i, s') \<Longrightarrow> wf s'"
    and add_value: "wf s \<Longrightarrow> add a s = (i, s') \<Longrightarrow> value_of s' i = Some (val a)"
    and add_keeps: "wf s \<Longrightarrow> add a s = (i, s') \<Longrightarrow> value_of s j = Some v \<Longrightarrow> value_of s' j = Some v"
    and value_unique: "wf s \<Longrightarrow> value_of s i = Some v \<Longrightarrow> value_of s j = Some v \<Longrightarrow> i = j"
begin

lemma same_number_iff:
  assumes "wf s" "add a s = (i, s1)" "add a' s1 = (j, s2)"
  shows "i = j \<longleftrightarrow> val a = val a'"
proof -
  have wf1: "wf s1" and wf2: "wf s2" using add_wf assms by blast+
  have i: "value_of s2 i = Some (val a)" using add_keeps [OF wf1 assms(3)] add_value [OF assms(1,2)] by blast
  have j: "value_of s2 j = Some (val a')" by (rule add_value [OF wf1 assms(3)])
  show ?thesis using i j value_unique [OF wf2, of i _ j] by auto
qed

lemma add_known:
  assumes "wf s" "value_of s j = Some (val a)" "add a s = (i, s')"
  shows "i = j"
  using add_wf [OF assms(1,3)] add_value [OF assms(1,3)] add_keeps [OF assms(1,3,2)] value_unique by blast

end

definition interned :: "nat \<Rightarrow> ('e \<Rightarrow> 'k) \<Rightarrow> ('k \<rightharpoonup> nat) \<Rightarrow> 'e list \<Rightarrow> bool" where
  "interned base key known tab \<longleftrightarrow>
     (\<forall>k i. known k = Some i \<longleftrightarrow> base \<le> i \<and> (\<exists>e. nth_opt tab (i - base) = Some e \<and> key e = k))"

lemma nth_opt_append: "nth_opt (xs @ ys) i = (if i < length xs then Some (xs ! i) else nth_opt ys (i - length xs))"
  by (auto simp: nth_opt_def nth_append)

lemma nth_opt_prefix: "prefix xs ys \<Longrightarrow> nth_opt xs i = Some x \<Longrightarrow> nth_opt ys i = Some x"
  by (auto simp: prefix_def nth_opt_def nth_append split: if_splits)

lemma nth_opt_mem: "nth_opt xs i = Some x \<Longrightarrow> x \<in> set xs"
  by (auto simp: nth_opt_def split: if_splits)

lemma nth_opt_Nil [simp]: "nth_opt [] i = None"
  by (simp add: nth_opt_def)

lemma nth_opt_single: "nth_opt [x] i = (if i = 0 then Some x else None)"
  by (simp add: nth_opt_def)

lemma interned_empty: "interned base key Map.empty []"
  by (simp add: interned_def)

lemma interned_unique:
  assumes "interned base key known tab" "nth_opt tab i = Some e" "nth_opt tab j = Some e'" "key e = key e'"
  shows "i = j"
proof -
  have "known (key e) = Some (i + base)" "known (key e) = Some (j + base)"
    using assms by (auto simp: interned_def)
  then show ?thesis by simp
qed

lemma intern_interned:
  assumes "interned base key known tab" "key e = k" "intern base k e known tab = (i, known', tab')"
  shows "interned base key known' tab'"
    and "base \<le> i \<and> (\<exists>e'. nth_opt tab' (i - base) = Some e' \<and> key e' = k)"
    and "prefix tab tab'" and "set tab' \<subseteq> insert e (set tab)"
proof -
  show "base \<le> i \<and> (\<exists>e'. nth_opt tab' (i - base) = Some e' \<and> key e' = k)"
    "prefix tab tab'" "set tab' \<subseteq> insert e (set tab)"
    using assms by (auto simp: intern_def interned_def Let_def nth_opt_append nth_opt_single split: option.splits)
  show "interned base key known' tab'"
  proof (cases "known k")
    case None
    then have fresh: "\<not> (base \<le> j \<and> (\<exists>e. nth_opt tab (j - base) = Some e \<and> key e = k))" for j
      using assms(1) by (metis interned_def option.distinct(1))
    have eqs: "known' = known(k \<mapsto> length tab + base)" "tab' = tab @ [e]"
      using assms(3) None by (auto simp: intern_def Let_def)
    show ?thesis unfolding interned_def eqs
    proof (intro allI)
      fix k' j
      show "(known(k \<mapsto> length tab + base)) k' = Some j \<longleftrightarrow>
          base \<le> j \<and> (\<exists>e'. nth_opt (tab @ [e]) (j - base) = Some e' \<and> key e' = k')"
        using assms(1,2) fresh [of j]
        by (cases "j - base < length tab")
          (auto simp: interned_def nth_opt_def nth_append less_Suc_eq)
    qed
  qed (use assms in \<open>simp add: intern_def\<close>)
qed

section \<open>Well-formed builders\<close>

definition builder_wf :: "PprofBuilder \<Rightarrow> bool" where
  "builder_wf b \<longleftrightarrow>
     interned 0 (\<lambda>s. s) (known_strings b) (string_table b) \<and>
     (string_table b \<noteq> [] \<longrightarrow> hd (string_table b) = '''') \<and>
     interned 1 pm_id (known_mappings b) (pb_mappings b) \<and>
     interned 1 (\<lambda>l. (loc_address l, loc_mapping_id l)) (known_locations b) (pb_locations b) \<and>
     interned 1 pf_name (known_functions b) (pb_functions b) \<and>
     (\<forall>f \<in> set (pb_functions b). pf_id f \<noteq> 0 \<and> pf_name f < length (string_table b))"

text \<open>Tables only grow, and the samples and the frequency are touched by nothing but \<open>add_sample\<close>.\<close>

definition grows :: "PprofBuilder \<Rightarrow> PprofBuilder \<Rightarrow> bool" where
  "grows b b' \<longleftrightarrow>
     prefix (string_table b) (string_table b') \<and> prefix (pb_mappings b) (pb_mappings b') \<and>
     prefix (pb_locations b) (pb_locations b') \<and> prefix (pb_functions b) (pb_functions b') \<and>
     freq_in_hz b' = freq_in_hz b \<and> pb_time_nanos b' = pb_time_nanos b \<and> pb_duration b' = pb_duration b"

lemma grows_refl [simp]: "grows b b"
  by (simp add: grows_def)

lemma grows_trans: "grows a b \<Longrightarrow> grows b c \<Longrightarrow> grows a c"
  by (auto simp: grows_def intro: prefix_order.trans)

lemma builder_wf_new: "builder_wf (pprof_new start duration freq)"
  by (simp add: builder_wf_def pprof_new_def interned_empty)

lemma init_strings_wf: "builder_wf b \<Longrightarrow> builder_wf (init_strings b) \<and> string_table (init_strings b) \<noteq> []"
  by (auto simp: init_strings_def builder_wf_def interned_def nth_opt_single)

lemma init_strings_same [simp]:
  "pb_mappings (init_strings b) = pb_mappings b" "pb_locations (init_strings b) = pb_locations b"
  "pb_functions (init_strings b) = pb_functions b" "pb_samples (init_strings b) = pb_samples b"
  "known_mappings (init_strings b) = known_mappings b" "known_locations (init_strings b) = known_locations b"
  "known_functions (init_strings b) = known_functions b"
  "freq_in_hz (init_strings b) = freq_in_hz b" "pb_time_nanos (init_strings b) = pb_time_nanos b"
  "pb_duration (init_strings b) = pb_duration b" "prefix (string_table b) (string_table (init_strings b))"
  by (simp_all add: init_strings_def)

lemma get_or_insert_string_same:
  assumes "get_or_insert_string s b = (i, b')"
  shows "pb_mappings b' = pb_mappings b" "pb_locations b' = pb_locations b" "pb_functions b' = pb_functions b"
    "pb_samples b' = pb_samples b" "known_mappings b' = known_mappings b" "known_locations b' = known_locations b"
    "known_functions b' = known_functions b" "freq_in_hz b' = freq_in_hz b" "pb_time_nanos b' = pb_time_nanos b"
    "pb_duration b' = pb_duration b"
  using assms by (auto simp: get_or_insert_string_def Let_def split: prod.splits)

lemma get_or_insert_string_result:
  assumes wf: "builder_wf b" and r: "get_or_insert_string s b = (i, b')"
  shows "builder_wf b'" "nth_opt (string_table b') i = Some s" "grows b b'" "string_table b' \<noteq> []"
proof -
  let ?b1 = "init_strings b"
  obtain known tab where step: "intern 0 s s (known_strings ?b1) (string_table ?b1) = (i, known, tab)"
    and b': "b' = ?b1\<lparr>known_strings := known, string_table := tab\<rparr>"
    using r by (auto simp: get_or_insert_string_def Let_def split: prod.splits)
  have wf1: "builder_wf ?b1" and ne: "string_table ?b1 \<noteq> []" using init_strings_wf [OF wf] by simp_all
  then have "interned 0 (\<lambda>s. s) (known_strings ?b1) (string_table ?b1)" by (simp add: builder_wf_def)
  note t = intern_interned [OF this refl step]
  from t(2) show "nth_opt (string_table b') i = Some s" by (simp add: b')
  have "hd tab = ''''" "length (string_table ?b1) \<le> length tab"
    using t(3) wf1 ne by (auto simp: builder_wf_def prefix_def)
  then show "builder_wf b'" using wf1 t(1) by (auto simp: builder_wf_def b' intro: less_le_trans)
  show "string_table b' \<noteq> []" using t(3) ne by (auto simp: b' prefix_def)
  have "prefix (string_table b) tab" using t(3) init_strings_same(11) prefix_order.trans by blast
  then show "grows b b'" by (simp add: grows_def b')
qed

text \<open>What the numbers of the tables stand for.\<close>

definition numbered :: "'e list \<Rightarrow> nat \<Rightarrow> 'e option" where
  "numbered tab i = (if i = 0 then None else nth_opt tab (i - 1))"

definition string_at :: "PprofBuilder \<Rightarrow> nat \<Rightarrow> string option" where
  "string_at b i = nth_opt (string_table b) i"

definition function_name :: "PprofBuilder \<Rightarrow> nat \<Rightarrow> string option" where
  "function_name b i = (case numbered (pb_functions b) i of None \<Rightarrow> None | Some f \<Rightarrow> string_at b (pf_name f))"

definition mapping_executable :: "PprofBuilder \<Rightarrow> nat \<Rightarrow> u64 option" where
  "mapping_executable b i = map_option pm_id (numbered (pb_mappings b) i)"

definition location_key :: "PprofBuilder \<Rightarrow> nat \<Rightarrow> (u64 \<times> nat) option" where
  "location_key b i = map_option (\<lambda>l. (loc_address l, loc_mapping_id l)) (numbered (pb_locations b) i)"

lemma numbered_prefix: "prefix xs ys \<Longrightarrow> numbered xs i = Some x \<Longrightarrow> numbered ys i = Some x"
  by (auto simp: numbered_def nth_opt_prefix split: if_splits)

lemma interned_numbered_unique:
  assumes "interned 1 key known tab" "numbered tab i = Some e" "numbered tab j = Some e'" "key e = key e'"
  shows "i = j"
  using interned_unique [OF assms(1), of "i - 1" e "j - 1" e'] assms(2-4) by (auto simp: numbered_def split: if_splits)

lemma grows_values:
  assumes "grows b b'"
  shows "string_at b i = Some s \<Longrightarrow> string_at b' i = Some s"
    and "numbered (pb_functions b) i = Some f \<Longrightarrow> numbered (pb_functions b') i = Some f"
    and "numbered (pb_mappings b) i = Some m \<Longrightarrow> numbered (pb_mappings b') i = Some m"
    and "numbered (pb_locations b) i = Some l \<Longrightarrow> numbered (pb_locations b') i = Some l"
    and "function_name b i = Some s \<Longrightarrow> function_name b' i = Some s"
    and "mapping_executable b i = Some x \<Longrightarrow> mapping_executable b' i = Some x"
    and "location_key b i = Some k \<Longrightarrow> location_key b' i = Some k"
  using assms by (auto simp: grows_def string_at_def function_name_def mapping_executable_def location_key_def
    nth_opt_prefix numbered_prefix split: option.splits dest: numbered_prefix [of _ "pb_functions b'" i])

lemma add_function_result:
  assumes wf: "builder_wf b" and r: "add_function name file b = (i, b')"
  shows "builder_wf b'" "grows b b'" "function_name b' i = Some name"
    "pb_mappings b' = pb_mappings b" "pb_locations b' = pb_locations b" "pb_samples b' = pb_samples b"
proof -
  let ?file = "case file of Some f \<Rightarrow> f | None \<Rightarrow> ''''"
  obtain n b1 where n: "get_or_insert_string name b = (n, b1)" by fastforce
  obtain f b2 where f: "get_or_insert_string ?file b1 = (f, b2)" by fastforce
  let ?fn = "\<lparr>pf_id = length (pb_functions b) + 1, pf_name = n, pf_system_name = n, pf_filename = f\<rparr>"
  obtain known tab where step: "intern 1 n ?fn (known_functions b2) (pb_functions b2) = (i, known, tab)"
    and b': "b' = b2\<lparr>known_functions := known, pb_functions := tab\<rparr>"
    using r by (auto simp: add_function_def n f Let_def split: prod.splits)
  note b1 = get_or_insert_string_result [OF wf n]
  note b2 = get_or_insert_string_result [OF b1(1) f]
  have "interned 1 pf_name (known_functions b2) (pb_functions b2)" using b2(1) by (simp add: builder_wf_def)
  note t = intern_interned [OF this _ step, simplified]
  have name: "string_at b2 n = Some name" using b1(2) b2(3) by (simp add: string_at_def grows_values(1) [unfolded string_at_def])
  then have "n < length (string_table b2)" by (simp add: string_at_def nth_opt_def split: if_splits)
  with b2(1) t(1,4) show "builder_wf b'" by (auto simp: builder_wf_def b')
  have "grows b2 b'" using t(3) by (simp add: grows_def b')
  with b1(3) b2(3) show "grows b b'" by (blast intro: grows_trans)
  from t(2) name show "function_name b' i = Some name"
    by (auto simp: function_name_def numbered_def string_at_def b')
  show "pb_mappings b' = pb_mappings b" "pb_locations b' = pb_locations b" "pb_samples b' = pb_samples b"
    by (simp_all add: b' get_or_insert_string_same [OF f] get_or_insert_string_same [OF n])
qed

lemma add_mapping_result:
  assumes wf: "builder_wf b" and r: "add_mapping x start stop off filename build_id b = (i, b')"
  shows "builder_wf b'" "grows b b'" "mapping_executable b' i = Some x" "pm_id ` set (pb_mappings b') \<subseteq> insert x (pm_id ` set (pb_mappings b))"
    "pb_functions b' = pb_functions b" "pb_locations b' = pb_locations b" "pb_samples b' = pb_samples b"
proof -
  obtain f b1 where f: "get_or_insert_string filename b = (f, b1)" by fastforce
  obtain g b2 where g: "get_or_insert_string build_id b1 = (g, b2)" by fastforce
  let ?m = "\<lparr>pm_id = x, pm_memory_start = start, pm_memory_limit = stop, pm_file_offset = off, pm_filename = f, pm_build_id = g\<rparr>"
  obtain known tab where step: "intern 1 x ?m (known_mappings b2) (pb_mappings b2) = (i, known, tab)"
    and b': "b' = b2\<lparr>known_mappings := known, pb_mappings := tab\<rparr>"
    using r by (auto simp: add_mapping_def f g Let_def split: prod.splits)
  note b1 = get_or_insert_string_result [OF wf f]
  note b2 = get_or_insert_string_result [OF b1(1) g]
  have "interned 1 pm_id (known_mappings b2) (pb_mappings b2)" using b2(1) by (simp add: builder_wf_def)
  note t = intern_interned [OF this _ step, simplified]
  note same = get_or_insert_string_same [OF g] get_or_insert_string_same [OF f]
  from b2(1) t(1) show "builder_wf b'" by (simp add: builder_wf_def b')
  have "grows b2 b'" using t(3) by (simp add: grows_def b')
  with b1(3) b2(3) show "grows b b'" by (blast intro: grows_trans)
  from t(2) show "mapping_executable b' i = Some x" by (auto simp: mapping_executable_def numbered_def b')
  show "pm_id ` set (pb_mappings b') \<subseteq> insert x (pm_id ` set (pb_mappings b))"
    using t(4) by (auto simp: b' same)
  show "pb_functions b' = pb_functions b" "pb_locations b' = pb_locations b" "pb_samples b' = pb_samples b"
    by (simp_all add: b' same)
qed

lemma add_location_result:
  assumes wf: "builder_wf b" and r: "add_location a m lines b = (i, b')"
  shows "builder_wf b'" "grows b b'" "location_key b' i = Some (a, m)"
    "set (pb_locations b') \<subseteq>
       insert \<lparr>loc_id = length (pb_locations b) + 1, loc_mapping_id = m, loc_address = a, loc_line = lines\<rparr> (set (pb_locations b))"
    "pb_functions b' = pb_functions b" "pb_mappings b' = pb_mappings b" "pb_samples b' = pb_samples b"
    "string_table b' = string_table b"
proof -
  let ?l = "\<lparr>loc_id = length (pb_locations b) + 1, loc_mapping_id = m, loc_address = a, loc_line = lines\<rparr>"
  obtain known tab where step: "intern 1 (a, m) ?l (known_locations b) (pb_locations b) = (i, known, tab)"
    and b': "b' = b\<lparr>known_locations := known, pb_locations := tab\<rparr>"
    using r by (auto simp: add_location_def Let_def split: prod.splits)
  have "interned 1 (\<lambda>l. (loc_address l, loc_mapping_id l)) (known_locations b) (pb_locations b)"
    using wf by (simp add: builder_wf_def)
  note t = intern_interned [OF this _ step, simplified]
  from wf t(1) show "builder_wf b'" by (simp add: builder_wf_def b')
  from t(3) show "grows b b'" by (simp add: grows_def b')
  from t(2) show "location_key b' i = Some (a, m)" by (auto simp: location_key_def numbered_def b')
  from t(4) show "set (pb_locations b') \<subseteq> insert ?l (set (pb_locations b))" by (simp add: b')
qed (use r in \<open>auto simp: add_location_def Let_def split: prod.splits\<close>)

interpretation pprof_strings: numbering builder_wf string_at get_or_insert_string "\<lambda>s. s"
proof unfold_locales
  fix b i j and s :: string
  assume "builder_wf b" "string_at b i = Some s" "string_at b j = Some s"
  then show "i = j" using interned_unique [of 0 "\<lambda>s. s" "known_strings b" "string_table b" i s j s]
    by (simp add: builder_wf_def string_at_def)
qed (auto simp: string_at_def dest: get_or_insert_string_result(1,2) grows_values(1) [OF get_or_insert_string_result(3), unfolded string_at_def])

interpretation pprof_functions: numbering builder_wf function_name "\<lambda>(name, file). add_function name file" fst
proof unfold_locales
  fix b i j s
  assume wf: "builder_wf b" and "function_name b i = Some s" "function_name b j = Some s"
  then obtain f g where f: "numbered (pb_functions b) i = Some f" "string_at b (pf_name f) = Some s"
    and g: "numbered (pb_functions b) j = Some g" "string_at b (pf_name g) = Some s"
    by (auto simp: function_name_def split: option.splits)
  have "pf_name f = pf_name g" by (rule pprof_strings.value_unique [OF wf f(2) g(2)])
  then show "i = j" using interned_numbered_unique [OF _ f(1) g(1)] wf by (auto simp: builder_wf_def)
qed (auto split: prod.splits dest: add_function_result(1,3) grows_values(5) [OF add_function_result(2)])

interpretation pprof_mappings: numbering builder_wf mapping_executable
  "\<lambda>(x, start, stop, off, filename, build_id). add_mapping x start stop off filename build_id" fst
proof unfold_locales
  fix b i j x
  assume "builder_wf b" "mapping_executable b i = Some x" "mapping_executable b j = Some x"
  then show "i = j" unfolding builder_wf_def mapping_executable_def
    using interned_numbered_unique [of pm_id] by fastforce
qed (auto split: prod.splits dest: add_mapping_result(1,3) grows_values(6) [OF add_mapping_result(2)])

interpretation pprof_locations: numbering builder_wf location_key
  "\<lambda>(address, mapping_id, lines). add_location address mapping_id lines" "\<lambda>(address, mapping_id, lines). (address, mapping_id)"
proof unfold_locales
  fix b i j k
  assume "builder_wf b" "location_key b i = Some k" "location_key b j = Some k"
  then show "i = j" unfolding builder_wf_def location_key_def
    using interned_numbered_unique [of "\<lambda>l. (loc_address l, loc_mapping_id l)"] by fastforce
qed (auto split: prod.splits dest: add_location_result(1,3) grows_values(7) [OF add_location_result(2)])

section \<open>References between the tables\<close>

definition refs_wf :: "PprofBuilder \<Rightarrow> bool" where
  "refs_wf b \<longleftrightarrow>
     (\<forall>l \<in> set (pb_locations b). mapping_executable b (loc_mapping_id l) \<noteq> None \<and>
        (\<forall>line \<in> set (loc_line l). function_name b (pl_function_id line) \<noteq> None)) \<and>
     (\<forall>smp \<in> set (pb_samples b). \<forall>i \<in> set (smp_location_id smp). location_key b i \<noteq> None)"

lemma values_cong:
  "string_table b' = string_table b \<Longrightarrow> string_at b' = string_at b"
  "string_table b' = string_table b \<Longrightarrow> pb_functions b' = pb_functions b \<Longrightarrow> function_name b' = function_name b"
  "pb_mappings b' = pb_mappings b \<Longrightarrow> mapping_executable b' = mapping_executable b"
  "pb_locations b' = pb_locations b \<Longrightarrow> location_key b' = location_key b"
proof -
  show s: "string_at b' = string_at b" if "string_table b' = string_table b" using that by (simp add: fun_eq_iff string_at_def)
  then show "function_name b' = function_name b" if "string_table b' = string_table b" "pb_functions b' = pb_functions b"
    using that by (auto simp: fun_eq_iff function_name_def split: option.split)
qed (simp_all add: fun_eq_iff mapping_executable_def location_key_def)

lemma grows_refs:
  assumes "refs_wf b" "grows b b'" "pb_locations b' = pb_locations b" "pb_samples b' = pb_samples b"
  shows "refs_wf b'"
proof -
  have "function_name b i \<noteq> None \<Longrightarrow> function_name b' i \<noteq> None" "mapping_executable b i \<noteq> None \<Longrightarrow> mapping_executable b' i \<noteq> None"
    "location_key b i \<noteq> None \<Longrightarrow> location_key b' i \<noteq> None" for i
    using grows_values(5-7) [OF assms(2)] by force+
  with assms(1,3,4) show ?thesis by (simp add: refs_wf_def)
qed

lemma refs_wf_new: "refs_wf (pprof_new start duration freq)"
  by (simp add: refs_wf_def pprof_new_def)

lemma add_location_refs:
  assumes "builder_wf b" "refs_wf b" "add_location a m lines b = (i, b')" "mapping_executable b m \<noteq> None"
    and "\<forall>line \<in> set lines. function_name b (pl_function_id line) \<noteq> None"
  shows "refs_wf b'"
proof -
  note r = add_location_result [OF assms(1,3)]
  have same: "mapping_executable b' = mapping_executable b" "function_name b' = function_name b"
    by (rule values_cong, simp_all add: r)+
  have "mapping_executable b (loc_mapping_id l) \<noteq> None \<and> (\<forall>line \<in> set (loc_line l). function_name b (pl_function_id line) \<noteq> None)"
    if "l \<in> set (pb_locations b')" for l
    using that r(4) assms(2,4,5) by (auto simp: refs_wf_def)
  moreover have "location_key b' i \<noteq> None" if "location_key b i \<noteq> None" for i
    using that grows_values(7) [OF r(2)] by force
  ultimately show ?thesis using assms(2) by (simp add: refs_wf_def same r(7))
qed

lemma add_sample_result:
  assumes "add_sample ids count labels b = Some b'"
  shows "b' = b\<lparr>pb_samples := pb_samples b' \<rparr>"
    and "\<exists>nanos. i64_div (as_i64 (count * 1000000000)) (freq_in_hz b) = Some nanos \<and>
       pb_samples b' = pb_samples b @ [\<lparr>smp_location_id = ids, smp_value = [count, nanos], smp_label = labels\<rparr>]"
  using assms by (auto simp: add_sample_def split: option.splits)

lemma add_sample_wf:
  assumes "add_sample ids count labels b = Some b'" "builder_wf b" "refs_wf b" "\<forall>i \<in> set ids. location_key b i \<noteq> None"
  shows "builder_wf b'" "refs_wf b'" "grows b b'"
proof -
  obtain ss where b': "b' = b\<lparr>pb_samples := ss\<rparr>" using add_sample_result(1) [OF assms(1)] by metis
  have same: "mapping_executable b' = mapping_executable b" "function_name b' = function_name b" "location_key b' = location_key b"
    by (rule values_cong, simp_all add: b')+
  show "builder_wf b'" "grows b b'" using assms(2) by (simp_all add: b' builder_wf_def grows_def)
  have "pb_locations b' = pb_locations b" by (simp add: b')
  then show "refs_wf b'" using assms(3,4) add_sample_result(2) [OF assms(1)] by (auto simp: refs_wf_def same)
qed

lemma check_all_ok: "(\<And>x. x \<in> set xs \<Longrightarrow> check x = Inr ()) \<Longrightarrow> check_all check xs = Inr ()"
  by (induction xs) simp_all

lemma validate_line_ok:
  assumes "builder_wf b" "function_name b (pl_function_id line) \<noteq> None"
  shows "validate_line b line = Inr ()"
proof -
  from assms(2) obtain f where f: "numbered (pb_functions b) (pl_function_id line) = Some f" "string_at b (pf_name f) \<noteq> None"
    by (auto simp: function_name_def split: option.splits)
  then have "f \<in> set (pb_functions b)" by (auto simp: numbered_def split: if_splits dest: nth_opt_mem)
  with assms(1) have "pf_id f \<noteq> 0" by (simp add: builder_wf_def)
  with f show ?thesis by (auto simp: validate_line_def numbered_def string_at_def split: if_splits)
qed

lemma validate_location_ok:
  assumes "builder_wf b" "refs_wf b" "0 \<notin> pm_id ` set (pb_mappings b)" "l \<in> set (pb_locations b)"
  shows "validate_location b l = Inr ()"
proof -
  from assms(2,4) obtain m where m: "numbered (pb_mappings b) (loc_mapping_id l) = Some m"
    by (auto simp: refs_wf_def mapping_executable_def)
  have "check_all (validate_line b) (loc_line l) = Inr ()"
    using assms by (auto simp: refs_wf_def intro!: check_all_ok validate_line_ok)
  then show ?thesis using m assms(3)
    by (auto simp: validate_location_def numbered_def Let_def split: if_splits dest: nth_opt_mem)
qed

text \<open>A builder whose references are all in range passes its own validation.\<close>

lemma validate_ok:
  assumes "builder_wf b" "refs_wf b" "0 \<notin> pm_id ` set (pb_mappings b)"
  shows "validate b = Inr ()"
proof -
  have "validate_location_id b i = Inr ()" if i: "location_key b i \<noteq> None" for i
  proof -
    from i obtain l where l: "numbered (pb_locations b) i = Some l" by (auto simp: location_key_def)
    then have "validate_location b l = Inr ()"
      using validate_location_ok [OF assms] by (auto simp: numbered_def split: if_splits dest: nth_opt_mem)
    with l show ?thesis by (auto simp: validate_location_id_def numbered_def split: if_splits)
  qed
  then show ?thesis using assms(2) by (auto simp: validate_def refs_wf_def intro!: check_all_ok)
qed

section \<open>Properties\<close>

text \<open>
  The string table of a profile: whatever strings are inserted, in whatever order, the number returned for
  a string stands for it from then on, \<open>string_id\<close> finds that number, equal strings get the same number and
  different ones different numbers, and the first entry is the empty string.
\<close>

fun insert_strings :: "string list \<Rightarrow> PprofBuilder \<Rightarrow> nat list \<times> PprofBuilder" where
  "insert_strings [] b = ([], b)"
| "insert_strings (s # ss) b =
     (let (i, b1) = get_or_insert_string s b; (is, b2) = insert_strings ss b1 in (i # is, b2))"

lemma insert_strings_result:
  "builder_wf b \<Longrightarrow> insert_strings ss b = (is, b') \<Longrightarrow>
     builder_wf b' \<and> grows b b' \<and> map (string_at b') is = map Some ss \<and> (ss \<noteq> [] \<longrightarrow> string_table b' \<noteq> [])"
proof (induction ss arbitrary: b "is")
  case (Cons s ss)
  obtain i b1 js where step: "get_or_insert_string s b = (i, b1)" "insert_strings ss b1 = (js, b')" "is = i # js"
    using Cons.prems(2) by (auto split: prod.splits)
  note r = get_or_insert_string_result [OF Cons.prems(1) step(1)]
  have ih: "builder_wf b' \<and> grows b1 b' \<and> map (string_at b') js = map Some ss"
    using Cons.IH [OF r(1) step(2)] by blast
  have "string_at b' i = Some s" using r(2) ih grows_values(1) [of b1 b' i s] by (simp add: string_at_def)
  moreover have "string_table b' \<noteq> []" using r(4) ih by (auto simp: grows_def)
  ultimately show ?case using ih r(3) step(3) grows_trans [of b b1 b'] by simp
qed simp

lemma string_table_roundtrip:
  assumes "insert_strings ss (pprof_new start duration freq) = (is, b)" "ss \<noteq> []"
  shows "map (\<lambda>i. string_table b ! i) is = ss \<and> map (string_id b) ss = map Some is \<and>
     (\<forall>j k. j < length ss \<longrightarrow> k < length ss \<longrightarrow> (is ! j = is ! k \<longleftrightarrow> ss ! j = ss ! k)) \<and> string_table b ! 0 = ''''"
proof -
  note r = insert_strings_result [OF builder_wf_new assms(1)]
  have len: "length is = length ss" using r by (auto dest: map_eq_imp_length_eq)
  have at: "string_at b (is ! j) = Some (ss ! j)" if "j < length ss" for j
    using r that len by (metis nth_map)
  have wf: "builder_wf b" using r by blast
  have "known_strings b (ss ! j) = Some (is ! j)" if "j < length ss" for j
    using wf at [OF that] by (auto simp: builder_wf_def interned_def string_at_def)
  moreover have "is ! j = is ! k \<longleftrightarrow> ss ! j = ss ! k" if "j < length ss" "k < length ss" for j k
    using at [OF that(1)] at [OF that(2)] pprof_strings.value_unique [OF wf] by auto
  moreover have "string_table b ! (is ! j) = ss ! j" if "j < length ss" for j
    using at [OF that] by (auto simp: string_at_def nth_opt_def split: if_splits)
  moreover have "string_table b ! 0 = ''''" using r wf assms(2) by (auto simp: builder_wf_def hd_conv_nth)
  ultimately show ?thesis using len by (auto simp: string_id_def intro!: nth_equalityI)
qed

lemma string_table_roundtrip_example:
  "\<exists>is b. insert_strings [''hi'', ''salut'', ''hi''] (pprof_new 0 5 27) = (is, b) \<and> is = [1, Suc 1, 1] \<and>
     map (\<lambda>i. string_table b ! i) is = [''hi'', ''salut'', ''hi''] \<and> string_table b ! 0 = ''''"
proof -
  obtain "is" b where r: "insert_strings [''hi'', ''salut'', ''hi''] (pprof_new 0 5 27) = (is, b)" by fastforce
  moreover have "is = [1, Suc 1, 1]"
    using r by (auto simp add: get_or_insert_string_def init_strings_def pprof_new_def intern_def Let_def)
  ultimately show ?thesis using string_table_roundtrip [OF r] by auto
qed

text \<open>
  Functions are told apart by their names alone: a second function of the same name, in another file, gets
  the entry of the first one, file name included.
\<close>

lemma second_file_is_lost:
  assumes "builder_wf b" "add_function name file1 b = (i, b1)" "add_function name file2 b1 = (j, b2)"
  shows "j = i \<and> numbered (pb_functions b2) j = numbered (pb_functions b1) i \<and> numbered (pb_functions b1) i \<noteq> None"
proof -
  have "i = j" using pprof_functions.same_number_iff [OF assms(1), of "(name, file1)" i b1 "(name, file2)" j b2] assms by simp
  moreover obtain f where f: "numbered (pb_functions b1) i = Some f"
    using add_function_result(3) [OF assms(1,2)] by (auto simp: function_name_def split: option.splits)
  moreover have "numbered (pb_functions b2) i = Some f"
    using grows_values(2) [OF add_function_result(2) [OF add_function_result(1) [OF assms(1,2)] assms(3)] f] .
  ultimately show ?thesis by simp
qed

text \<open>
  The number of nanoseconds of a sample is the count over the frequency, while the product fits in 64 bits;
  from 9223372037 on it does not.
\<close>

lemma sample_nanoseconds:
  assumes "0 \<le> count" "count \<le> 9223372036" "0 < freq"
  shows "i64_div (as_i64 (count * 1000000000)) freq = Some (count * 1000000000 div freq)"
proof -
  have "count * 1000000000 < 2 ^ 63" using assms(2) by simp
  then have "as_i64 (count * 1000000000) = count * 1000000000"
    using assms(1) by (simp add: as_i64_def signed_take_bit_int_eq_self)
  with assms show ?thesis by (simp add: i64_div_def signed_divide_int_def sgn_if)
qed

lemma sample_nanoseconds_overflow: "i64_div (as_i64 (9223372037 * 1000000000)) 19 = Some (- 485440633511029032)"
  by (simp add: i64_div_def as_i64_def signed_divide_int_def)

end
