(* ===== verification/Metadata.thy ===== *)
theory Metadata
  imports Numerals
begin

text \<open>
  The labels of tasks: src/lightswitch-metadata/src (\<open>types.rs\<close>, \<open>task_metadata.rs\<close>, \<open>system_metadata.rs\<close>,
  \<open>taskname.rs\<close>, \<open>metadata_provider.rs\<close>). What procfs and \<open>uname\<close> return are parameters, and so is the cache
  of the \<open>lru\<close> crate: \<open>lc_get\<close> and \<open>lc_push\<close> on a state of their own.
\<close>

datatype MetadataLabelValue = Meta_String string | Meta_Number int string

record MetadataLabel =
  ml_key :: string
  ml_value :: MetadataLabelValue

record TaskKey =
  tk_pid :: s32
  tk_tid :: s32

definition from_string_value :: "string \<Rightarrow> string \<Rightarrow> MetadataLabel" where
  "from_string_value key v = \<lparr>ml_key = key, ml_value = Meta_String v\<rparr>"

definition from_number_value :: "string \<Rightarrow> int \<Rightarrow> string \<Rightarrow> MetadataLabel" where
  "from_number_value key v unit = \<lparr>ml_key = key, ml_value = Meta_Number v unit\<rparr>"

section \<open>Task names\<close>

record TaskName =
  main_thread :: string
  current_thread :: string

definition errored :: TaskName where
  "errored = \<lparr>main_thread = ''<could not fetch process name>'', current_thread = ''<could not fetch thread name>''\<rparr>"

text \<open>What procfs says of a task: its thread group and its command name; \<open>None\<close> when it cannot be read.\<close>

record task_stat =
  ts_tgid :: s32
  ts_comm :: string

definition for_task :: "(s32 \<Rightarrow> task_stat option) \<Rightarrow> s32 \<Rightarrow> TaskName option" where
  "for_task procfs task_id =
     (case procfs task_id of
        None \<Rightarrow> None
      | Some task \<Rightarrow>
          (case procfs (ts_tgid task) of
             None \<Rightarrow> None
           | Some main_task \<Rightarrow> Some
               \<lparr>main_thread = ts_comm main_task,
                current_thread = (if task_id = ts_tgid task then ''<main thread>'' else ts_comm task)\<rparr>))"

section \<open>Providers\<close>

definition task_metadata :: "(s32 \<Rightarrow> task_stat option) \<Rightarrow> TaskKey \<Rightarrow> MetadataLabel list" where
  "task_metadata procfs k =
     (let task_name = (case for_task procfs (tk_tid k) of Some n \<Rightarrow> n | None \<Rightarrow> errored)
      in [from_number_value ''pid'' (sint (tk_tid k)) ''task-id'',
          from_string_value ''thread.name'' (current_thread task_name),
          from_string_value ''process.name'' (main_thread task_name),
          from_number_value ''pid'' (sint (tk_pid k)) ''task-tgid''])"

record utsname =
  uts_release :: string
  uts_machine :: string
  uts_nodename :: string

definition system_metadata :: "utsname option \<Rightarrow> MetadataLabel list option" where
  "system_metadata uname =
     map_option (\<lambda>u. [from_string_value ''kernel.release'' (uts_release u),
        from_string_value ''kernel.architecture'' (uts_machine u), from_string_value ''hostname'' (uts_nodename u)]) uname"

text \<open>
  \<open>GlobalMetadataProvider\<close> without its cache: what the host answers, and the providers that were registered.
  A provider that fails yields \<open>None\<close> and is skipped.
\<close>

record providers =
  pv_procfs :: "s32 \<Rightarrow> task_stat option"
  pv_uname :: "utsname option"
  custom_system_metadata_providers :: "MetadataLabel list option list"
  custom_task_metadata_providers :: "(TaskKey \<Rightarrow> MetadataLabel list option) list"

definition labels_or_nothing :: "MetadataLabel list option \<Rightarrow> MetadataLabel list" where
  "labels_or_nothing r = (case r of Some ls \<Rightarrow> ls | None \<Rightarrow> [])"

definition get_labels :: "providers \<Rightarrow> TaskKey \<Rightarrow> MetadataLabel list" where
  "get_labels p k =
     task_metadata (pv_procfs p) k @ labels_or_nothing (system_metadata (pv_uname p)) @
     concat (map labels_or_nothing (custom_system_metadata_providers p)) @
     concat (map (\<lambda>provider. labels_or_nothing (provider k)) (custom_task_metadata_providers p))"

section \<open>The cache\<close>

record 'c lru_ops =
  lc_get :: "TaskKey \<Rightarrow> 'c \<Rightarrow> MetadataLabel list option \<times> 'c"
  lc_push :: "TaskKey \<Rightarrow> MetadataLabel list \<Rightarrow> 'c \<Rightarrow> 'c"
  lc_contains :: "TaskKey \<Rightarrow> 'c \<Rightarrow> bool"

definition get_metadata :: "'c lru_ops \<Rightarrow> providers \<Rightarrow> TaskKey \<Rightarrow> 'c \<Rightarrow> MetadataLabel list \<times> 'c" where
  "get_metadata ops p k c =
     (case lc_get ops k c of
        (Some cached_labels, c1) \<Rightarrow> (cached_labels, c1)
      | (None, c1) \<Rightarrow> (let labels = get_labels p k in (labels, lc_push ops k labels c1)))"

definition register_task :: "'c lru_ops \<Rightarrow> providers \<Rightarrow> TaskKey \<Rightarrow> 'c \<Rightarrow> 'c" where
  "register_task ops p k c = (if lc_contains ops k c then c else lc_push ops k (get_labels p k) c)"

text \<open>
  The behaviour of the cache that its documentation promises, for some view of its content: a lookup returns
  the content and does not change it, and a push changes the content at one key and may drop others.
\<close>

definition lru_ok :: "'c lru_ops \<Rightarrow> ('c \<Rightarrow> TaskKey \<rightharpoonup> MetadataLabel list) \<Rightarrow> bool" where
  "lru_ok ops content \<longleftrightarrow>
     (\<forall>k c. fst (lc_get ops k c) = content c k \<and> content (snd (lc_get ops k c)) = content c) \<and>
     (\<forall>k ls c k' ls'. content (lc_push ops k ls c) k' = Some ls' \<longrightarrow> ((content c)(k \<mapsto> ls)) k' = Some ls') \<and>
     (\<forall>k c. lc_contains ops k c = (content c k \<noteq> None))"

text \<open>Calls on the provider: with the host as it is at the time of the call.\<close>

datatype metadata_call = Register_task providers TaskKey | Get_metadata providers TaskKey

fun metadata_step :: "'c lru_ops \<Rightarrow> metadata_call \<Rightarrow> 'c \<Rightarrow> 'c" where
  "metadata_step ops (Register_task p k) c = register_task ops p k c"
| "metadata_step ops (Get_metadata p k) c = snd (get_metadata ops p k c)"

fun call_labels :: "metadata_call \<Rightarrow> TaskKey \<times> MetadataLabel list" where
  "call_labels (Register_task p k) = (k, get_labels p k)"
| "call_labels (Get_metadata p k) = (k, get_labels p k)"

lemma lru_push:
  "lru_ok ops content \<Longrightarrow> content (lc_push ops k ls c) k' = Some ls' \<Longrightarrow> ((content c)(k \<mapsto> ls)) k' = Some ls'"
  unfolding lru_ok_def by blast

lemma lru_get: "lru_ok ops content \<Longrightarrow> lc_get ops k c = (r, c') \<Longrightarrow> r = content c k \<and> content c' = content c"
  unfolding lru_ok_def by (metis fst_conv snd_conv)

lemma metadata_step_content:
  assumes "lru_ok ops content" "content (metadata_step ops call c) k = Some ls"
  shows "content c k = Some ls \<or> (k, ls) = call_labels call"
proof (cases call)
  case (Register_task p k')
  then show ?thesis using assms(2) lru_push [OF assms(1), of k' "get_labels p k'" c k ls]
    by (auto simp: register_task_def split: if_splits)
next
  case (Get_metadata p k')
  obtain r c1 where g: "lc_get ops k' c = (r, c1)" by fastforce
  show ?thesis using assms(2) Get_metadata g lru_get [OF assms(1) g] lru_push [OF assms(1), of k' "get_labels p k'" c1 k ls]
    by (auto simp: get_metadata_def Let_def split: option.splits if_splits)
qed

lemma metadata_calls_content:
  assumes "lru_ok ops content" "content c = Map.empty"
  shows "content (fold (metadata_step ops) calls c) k = Some ls \<Longrightarrow> (k, ls) \<in> call_labels ` set calls"
proof (induction calls arbitrary: k ls rule: rev_induct)
  case (snoc call calls)
  then show ?case using metadata_step_content [OF assms(1), of call "fold (metadata_step ops) calls c" k ls] by auto
qed (simp add: assms(2))

text \<open>
  The labels given for a task are what the providers said of that task, at this call or at an earlier one:
  the cache of whatever size never mixes up tasks.
\<close>

lemma labels_are_of_the_task:
  assumes "lru_ok ops content" "content c = Map.empty"
  shows "(k, fst (get_metadata ops p k (fold (metadata_step ops) calls c))) \<in>
    call_labels ` set (calls @ [Get_metadata p k])"
proof -
  let ?c = "fold (metadata_step ops) calls c"
  have "fst (lc_get ops k ?c) = content ?c k" using assms(1) by (simp add: lru_ok_def)
  then show ?thesis using metadata_calls_content [OF assms, of calls k]
    by (cases "lc_get ops k ?c"; cases "fst (lc_get ops k ?c)") (auto simp: get_metadata_def Let_def)
qed

text \<open>A cache of one entry, on a host with one process.\<close>

definition one_entry_ops :: "(TaskKey \<times> MetadataLabel list) option lru_ops" where
  "one_entry_ops =
     \<lparr>lc_get = \<lambda>k c. (case c of Some (k', ls) \<Rightarrow> if k' = k then Some ls else None | None \<Rightarrow> None, c),
      lc_push = \<lambda>k ls c. Some (k, ls),
      lc_contains = \<lambda>k c. (case c of Some (k', ls) \<Rightarrow> k' = k | None \<Rightarrow> False)\<rparr>"

definition one_entry_content :: "(TaskKey \<times> MetadataLabel list) option \<Rightarrow> TaskKey \<rightharpoonup> MetadataLabel list" where
  "one_entry_content c = (case c of Some (k, ls) \<Rightarrow> [k \<mapsto> ls] | None \<Rightarrow> Map.empty)"

lemma one_entry_ok: "lru_ok one_entry_ops one_entry_content"
  by (auto simp: lru_ok_def one_entry_ops_def one_entry_content_def map_le_def split: option.split)

definition example_providers :: providers where
  "example_providers = \<lparr>pv_procfs = [42 \<mapsto> \<lparr>ts_tgid = 42, ts_comm = ''true''\<rparr>], pv_uname = None,
     custom_system_metadata_providers = [], custom_task_metadata_providers = []\<rparr>"

lemma labels_are_of_the_task_example:
  "(\<lparr>tk_pid = 42, tk_tid = 42\<rparr>,
    fst (get_metadata one_entry_ops (example_providers\<lparr>pv_procfs := \<lambda>_. None\<rparr>) \<lparr>tk_pid = 42, tk_tid = 42\<rparr>
      (fold (metadata_step one_entry_ops) [Register_task example_providers \<lparr>tk_pid = 42, tk_tid = 42\<rparr>] None))) \<in>
   {(\<lparr>tk_pid = 42, tk_tid = 42\<rparr>, get_labels example_providers \<lparr>tk_pid = 42, tk_tid = 42\<rparr>),
    (\<lparr>tk_pid = 42, tk_tid = 42\<rparr>, get_labels (example_providers\<lparr>pv_procfs := \<lambda>_. None\<rparr>) \<lparr>tk_pid = 42, tk_tid = 42\<rparr>)}"
  using labels_are_of_the_task [OF one_entry_ok, of None "\<lparr>tk_pid = 42, tk_tid = 42\<rparr>"
    "example_providers\<lparr>pv_procfs := \<lambda>_. None\<rparr>" "[Register_task example_providers \<lparr>tk_pid = 42, tk_tid = 42\<rparr>]"]
  by (auto simp: one_entry_content_def)

text \<open>Two labels of every task have the key \<open>pid\<close>; only their units tell the thread from the process.\<close>

lemma pid_label_twice: "length (filter (\<lambda>l. ml_key l = ''pid'') (task_metadata procfs k)) = 2"
  by (simp add: task_metadata_def Let_def from_number_value_def from_string_value_def)

end
