(* ===== verification/Pprof_Convert.thy ===== *)
theory Pprof_Convert
  imports Aggregator Pprof Metadata
begin

text \<open>
  \<open>to_pprof\<close> of src/src/profile/convert.rs: processed samples to a pprof profile. The printer of SHA-256
  digests and the source of the labels of a task are parameters, as in \<open>Build_Id\<close> and \<open>Metadata\<close>; the time at
  which the conversion runs is an argument. A panic is the result \<open>None\<close>; paths are valid UTF-8.
\<close>

section \<open>Frames\<close>

definition frame_address :: "ObjectFileInfo \<Rightarrow> ExecutableMapping \<Rightarrow> Frame \<Rightarrow> u64 option" where
  "frame_address obj m fr =
     (case fr_file_offset fr of
        Some a \<Rightarrow> Some a
      | None \<Rightarrow> normalized_address obj (fr_virtual_address fr) m)"

definition kernel_lines :: "Frame \<Rightarrow> PprofBuilder \<Rightarrow> pprof_Line list \<times> PprofBuilder" where
  "kernel_lines fr b =
     (case fr_symbolization_result fr of
        Some (Inr s) \<Rightarrow> (let ((line, _), b1) = add_line (sf_name s) None None b in ([line], b1))
      | Some (Inl e) \<Rightarrow> (let ((line, _), b1) = add_line (fmt_symbolization_error e) None None b in ([line], b1))
      | None \<Rightarrow> ([], b))"

definition user_lines :: "Frame \<Rightarrow> PprofBuilder \<Rightarrow> pprof_Line list \<times> PprofBuilder" where
  "user_lines fr b =
     (case fr_symbolization_result fr of
        Some (Inr s) \<Rightarrow> (let ((line, _), b1) = add_line (sf_name s) (sf_filename s) (sf_line s) b in ([line], b1))
      | Some (Inl e) \<Rightarrow> (let ((line, _), b1) = add_line (fmt_symbolization_error e) None None b in ([line], b1))
      | None \<Rightarrow> ([], b))"

definition kernel_frame ::
    "(u8 list \<Rightarrow> string) \<Rightarrow> (s32 \<rightharpoonup> ProcessInfo) \<Rightarrow> (u64 \<rightharpoonup> ObjectFileInfo) \<Rightarrow> Frame \<Rightarrow>
     nat list \<times> PprofBuilder \<Rightarrow> (nat list \<times> PprofBuilder) option" where
  "kernel_frame hexlower ps objs kframe = (\<lambda>(location_ids, b).
     case ps KERNEL_PID of
       None \<Rightarrow> Some (location_ids, b)
     | Some info \<Rightarrow>
         (case for_address (pi_mappings info) (fr_virtual_address kframe) of
            None \<Rightarrow> Some (location_ids, b)
          | Some m \<Rightarrow>
              (case objs (em_executable_id m) of
                 None \<Rightarrow> Some (location_ids, b)
               | Some obj \<Rightarrow>
                   (case frame_address obj m kframe of
                      None \<Rightarrow> Some (location_ids, b)
                    | Some normalized_addr \<Rightarrow>
                        (case em_build_id m of
                           None \<Rightarrow> None
                         | Some build_id \<Rightarrow>
                             let (mapping_id, b1) = add_mapping (em_executable_id m) (em_start_addr m) (em_end_addr m) 0
                                   (of_path obj) (build_id_formatted hexlower build_id) b;
                                 (lines, b2) = kernel_lines kframe b1;
                                 (location, b3) = add_location normalized_addr mapping_id lines b2
                             in Some (location_ids @ [location], b3))))))"

definition user_frame ::
    "(u8 list \<Rightarrow> string) \<Rightarrow> (s32 \<rightharpoonup> ProcessInfo) \<Rightarrow> (u64 \<rightharpoonup> ObjectFileInfo) \<Rightarrow> s32 \<Rightarrow> Frame \<Rightarrow>
     nat list \<times> PprofBuilder \<Rightarrow> (nat list \<times> PprofBuilder) option" where
  "user_frame hexlower ps objs pid uframe = (\<lambda>(location_ids, b).
     case ps pid of
       None \<Rightarrow> Some (location_ids, b)
     | Some info \<Rightarrow>
         (case for_address (pi_mappings info) (fr_virtual_address uframe) of
            None \<Rightarrow> Some (location_ids, b)
          | Some m \<Rightarrow>
              (case objs (em_executable_id m) of
                 None \<Rightarrow> Some (location_ids, b)
               | Some obj \<Rightarrow>
                   (case frame_address obj m uframe of
                      None \<Rightarrow> Some (location_ids, b)
                    | Some normalized_addr \<Rightarrow>
                        let build_id = (case em_build_id m of Some i \<Rightarrow> build_id_formatted hexlower i | None \<Rightarrow> ''no-build-id'');
                            (mapping_id, b1) = add_mapping (em_executable_id m) (em_start_addr m) (em_end_addr m) (em_offset m)
                              (last (split_on (CHR ''/'') (of_path obj))) build_id b;
                            (lines, b2) = user_lines uframe b1;
                            (location, b3) = add_location normalized_addr mapping_id lines b2
                        in Some (location_ids @ [location], b3)))))"

section \<open>Samples\<close>

fun fold_option :: "('a \<Rightarrow> 's \<Rightarrow> 's option) \<Rightarrow> 'a list \<Rightarrow> 's \<Rightarrow> 's option" where
  "fold_option f [] s = Some s"
| "fold_option f (x # xs) s = (case f x s of None \<Rightarrow> None | Some s1 \<Rightarrow> fold_option f xs s1)"

fun profile_label :: "MetadataLabelValue \<Rightarrow> LabelStringOrNumber" where
  "profile_label (Meta_Number v unit) = Label_Number v unit"
| "profile_label (Meta_String v) = Label_String v"

fun new_labels :: "MetadataLabel list \<Rightarrow> PprofBuilder \<Rightarrow> pprof_Label list \<times> PprofBuilder" where
  "new_labels [] b = ([], b)"
| "new_labels (l # ls) b =
     (let (label, b1) = new_label (ml_key l) (profile_label (ml_value l)) b; (labels, b2) = new_labels ls b1
      in (label # labels, b2))"

text \<open>The builder, the labels of the threads seen so far, and the state of the metadata provider.\<close>

record 'm conversion =
  cv_pprof :: PprofBuilder
  cv_task_to_labels :: "s32 \<rightharpoonup> pprof_Label list"
  cv_metadata :: 'm

record 'm pprof_env =
  pe_hexlower :: "u8 list \<Rightarrow> string"
  pe_get_metadata :: "TaskKey \<Rightarrow> 'm \<Rightarrow> MetadataLabel list \<times> 'm"

definition task_labels :: "'m pprof_env \<Rightarrow> s32 \<Rightarrow> s32 \<Rightarrow> 'm conversion \<Rightarrow> pprof_Label list \<times> 'm conversion" where
  "task_labels env pid tid s =
     (case cv_task_to_labels s tid of
        Some labels \<Rightarrow> (labels, s)
      | None \<Rightarrow>
          let (metadata, m1) = pe_get_metadata env \<lparr>tk_pid = pid, tk_tid = tid\<rparr> (cv_metadata s);
              (labels, b1) = new_labels metadata (cv_pprof s)
          in (labels, s\<lparr>cv_pprof := b1, cv_task_to_labels := (cv_task_to_labels s)(tid \<mapsto> labels), cv_metadata := m1\<rparr>))"

definition convert_sample ::
    "'m pprof_env \<Rightarrow> (s32 \<rightharpoonup> ProcessInfo) \<Rightarrow> (u64 \<rightharpoonup> ObjectFileInfo) \<Rightarrow> AggregatedSample \<Rightarrow>
     'm conversion \<Rightarrow> 'm conversion option" where
  "convert_sample env ps objs sample s =
     (case fold_option (kernel_frame (pe_hexlower env) ps objs) (as_kstack sample) ([], cv_pprof s) of
        None \<Rightarrow> None
      | Some (kernel_ids, b1) \<Rightarrow>
          (case fold_option (user_frame (pe_hexlower env) ps objs (as_pid sample)) (as_ustack sample) (kernel_ids, b1) of
             None \<Rightarrow> None
           | Some (location_ids, b2) \<Rightarrow>
               let (labels, s1) = task_labels env (as_pid sample) (as_tid sample) (s\<lparr>cv_pprof := b2\<rparr>)
               in map_option (\<lambda>b3. s1\<lparr>cv_pprof := b3\<rparr>)
                    (add_sample location_ids (as_i64 (int (as_count sample))) labels (cv_pprof s1))))"

definition pprof_builder ::
    "'m pprof_env \<Rightarrow> (s32 \<rightharpoonup> ProcessInfo) \<Rightarrow> (u64 \<rightharpoonup> ObjectFileInfo) \<Rightarrow> nat \<Rightarrow> nat \<Rightarrow> u64 \<Rightarrow>
     AggregatedSample list \<Rightarrow> 'm \<Rightarrow> 'm conversion option" where
  "pprof_builder env ps objs now duration freq profile md =
     fold_option (convert_sample env ps objs) profile
       \<lparr>cv_pprof = pprof_new now duration freq, cv_task_to_labels = Map.empty, cv_metadata = md\<rparr>"

definition to_pprof ::
    "'m pprof_env \<Rightarrow> (s32 \<rightharpoonup> ProcessInfo) \<Rightarrow> (u64 \<rightharpoonup> ObjectFileInfo) \<Rightarrow> nat \<Rightarrow> nat \<Rightarrow> u64 \<Rightarrow>
     AggregatedSample list \<Rightarrow> 'm \<Rightarrow> pprof_Profile option" where
  "to_pprof env ps objs now duration freq profile md =
     Option.bind (pprof_builder env ps objs now duration freq profile md) (\<lambda>s. pprof_build (cv_pprof s))"

section \<open>What a profile says\<close>

text \<open>The executable and the address that a location of a profile stands for, and its function.\<close>

definition location_in :: "pprof_Profile \<Rightarrow> nat \<Rightarrow> (u64 \<times> u64) option" where
  "location_in p i =
     (case numbered (pr_location p) i of
        None \<Rightarrow> None
      | Some l \<Rightarrow> map_option (\<lambda>m. (pm_id m, loc_address l)) (numbered (pr_mapping p) (loc_mapping_id l)))"

definition function_in :: "pprof_Profile \<Rightarrow> nat \<Rightarrow> string option" where
  "function_in p i =
     (case numbered (pr_location p) i of
        None \<Rightarrow> None
      | Some l \<Rightarrow>
          (case loc_line l of
             [] \<Rightarrow> None
           | line # _ \<Rightarrow>
               (case numbered (pr_function p) (pl_function_id line) of
                  None \<Rightarrow> None
                | Some f \<Rightarrow> nth_opt (pr_string_table p) (pf_name f))))"

text \<open>What a frame of a sample should become: \<open>None\<close> when it is in no known mapping of a known object file.\<close>

definition frame_location ::
    "(s32 \<rightharpoonup> ProcessInfo) \<Rightarrow> (u64 \<rightharpoonup> ObjectFileInfo) \<Rightarrow> s32 \<Rightarrow> Frame \<Rightarrow> (u64 \<times> u64) option" where
  "frame_location ps objs pid fr =
     Option.bind (ps pid) (\<lambda>info.
       Option.bind (for_address (pi_mappings info) (fr_virtual_address fr)) (\<lambda>m.
         Option.bind (objs (em_executable_id m)) (\<lambda>obj.
           map_option (Pair (em_executable_id m)) (frame_address obj m fr))))"

definition frame_symbol :: "Frame \<Rightarrow> string option" where
  "frame_symbol fr =
     map_option (\<lambda>r. case r of Inr s \<Rightarrow> sf_name s | Inl e \<Rightarrow> fmt_symbolization_error e) (fr_symbolization_result fr)"

definition sample_locations ::
    "(s32 \<rightharpoonup> ProcessInfo) \<Rightarrow> (u64 \<rightharpoonup> ObjectFileInfo) \<Rightarrow> AggregatedSample \<Rightarrow> (u64 \<times> u64) list" where
  "sample_locations ps objs sample =
     List.map_filter (frame_location ps objs KERNEL_PID) (as_kstack sample) @
     List.map_filter (frame_location ps objs (as_pid sample)) (as_ustack sample)"

text \<open>The symbols of the frames are those of their executable and address.\<close>

definition symbols_agree ::
    "(u64 \<times> u64 \<Rightarrow> string option) \<Rightarrow> (Frame \<Rightarrow> (u64 \<times> u64) option) \<Rightarrow> Frame list \<Rightarrow> bool" where
  "symbols_agree symf loc frs \<longleftrightarrow> (\<forall>fr \<in> set frs. \<forall>l. loc fr = Some l \<longrightarrow> symf l = frame_symbol fr)"

definition sample_symbols_agree ::
    "(u64 \<times> u64 \<Rightarrow> string option) \<Rightarrow> (s32 \<rightharpoonup> ProcessInfo) \<Rightarrow> (u64 \<rightharpoonup> ObjectFileInfo) \<Rightarrow> AggregatedSample \<Rightarrow> bool" where
  "sample_symbols_agree symf ps objs sample \<longleftrightarrow>
     symbols_agree symf (frame_location ps objs KERNEL_PID) (as_kstack sample) \<and>
     symbols_agree symf (frame_location ps objs (as_pid sample)) (as_ustack sample)"

section \<open>Placing a frame\<close>

definition located :: "PprofBuilder \<Rightarrow> nat \<Rightarrow> (u64 \<times> u64) option" where
  "located b i =
     (case location_key b i of None \<Rightarrow> None | Some (a, m) \<Rightarrow> map_option (\<lambda>x. (x, a)) (mapping_executable b m))"

lemma located_grows: "grows b b' \<Longrightarrow> located b i = Some l \<Longrightarrow> located b' i = Some l"
  by (auto simp: located_def grows_values split: option.splits prod.splits dest: grows_values(7))

definition line_name :: "PprofBuilder \<Rightarrow> pprof_Location \<Rightarrow> string option" where
  "line_name b l = (case loc_line l of [] \<Rightarrow> None | line # _ \<Rightarrow> function_name b (pl_function_id line))"

text \<open>The functions of the locations, when the symbol of a frame is a function of its executable and address.\<close>

definition names_ok :: "(u64 \<times> u64 \<Rightarrow> string option) \<Rightarrow> PprofBuilder \<Rightarrow> bool" where
  "names_ok symf b \<longleftrightarrow>
     (\<forall>l \<in> set (pb_locations b). \<forall>x. mapping_executable b (loc_mapping_id l) = Some x \<longrightarrow> line_name b l = symf (x, loc_address l))"

lemma line_name_grows:
  assumes "grows b b'" "\<forall>line \<in> set (loc_line l). function_name b (pl_function_id line) \<noteq> None"
  shows "line_name b' l = line_name b l"
  using assms grows_values(5) [OF assms(1)] by (cases "loc_line l") (auto simp: line_name_def)

lemma names_ok_grows:
  assumes "names_ok symf b" "grows b b'" "refs_wf b" "pb_locations b' = pb_locations b"
  shows "names_ok symf b'"
  unfolding names_ok_def assms(4)
proof (intro ballI allI impI)
  fix l x
  assume l: "l \<in> set (pb_locations b)" and x: "mapping_executable b' (loc_mapping_id l) = Some x"
  from l assms(3) obtain y where y: "mapping_executable b (loc_mapping_id l) = Some y"
    and lines: "\<forall>line \<in> set (loc_line l). function_name b (pl_function_id line) \<noteq> None"
    by (auto simp: refs_wf_def)
  have "y = x" using grows_values(6) [OF assms(2) y] x by simp
  then show "line_name b' l = symf (x, loc_address l)"
    using assms(1) l y line_name_grows [OF assms(2) lines] by (simp add: names_ok_def)
qed

text \<open>What adding the line of a frame does.\<close>

definition lines_added :: "string option \<Rightarrow> PprofBuilder \<Rightarrow> pprof_Line list \<Rightarrow> PprofBuilder \<Rightarrow> bool" where
  "lines_added name b ls b' \<longleftrightarrow>
     builder_wf b' \<and> grows b b' \<and> pb_mappings b' = pb_mappings b \<and> pb_locations b' = pb_locations b \<and>
     pb_samples b' = pb_samples b \<and>
     (case name of None \<Rightarrow> ls = [] | Some n \<Rightarrow> \<exists>line. ls = [line] \<and> function_name b' (pl_function_id line) = Some n)"

lemma add_line_lines_added:
  assumes "builder_wf b" "add_line name file line b = ((l, i), b')"
  shows "lines_added (Some name) b [l] b'"
proof -
  have f: "add_function name file b = (pl_function_id l, b')"
    using assms(2) by (auto simp: add_line_def split: prod.splits)
  show ?thesis using add_function_result [OF assms(1) f] by (simp add: lines_added_def)
qed

lemma lines_added_frame:
  assumes "builder_wf b"
  shows "kernel_lines fr b = (ls, b') \<Longrightarrow> lines_added (frame_symbol fr) b ls b'"
    and "user_lines fr b = (ls, b') \<Longrightarrow> lines_added (frame_symbol fr) b ls b'"
  using assms by (auto simp: kernel_lines_def user_lines_def frame_symbol_def split: option.splits sum.splits prod.splits
    intro: add_line_lines_added) (simp_all add: lines_added_def)

definition placed ::
    "(u64 \<times> u64 \<Rightarrow> string option) \<Rightarrow> (u64 \<times> u64) \<Rightarrow> string option \<Rightarrow> PprofBuilder \<Rightarrow> nat \<Rightarrow> PprofBuilder \<Rightarrow> bool" where
  "placed symf l name b i b' \<longleftrightarrow>
     builder_wf b' \<and> refs_wf b' \<and> grows b b' \<and> pb_samples b' = pb_samples b \<and> located b' i = Some l \<and>
     pm_id ` set (pb_mappings b') \<subseteq> insert (fst l) (pm_id ` set (pb_mappings b)) \<and>
     (names_ok symf b \<longrightarrow> symf l = name \<longrightarrow> names_ok symf b')"

lemma location_placed:
  assumes wf: "builder_wf b" and refs: "refs_wf b"
    and m: "add_mapping x start stop off file bid b = (m, b1)"
    and ls: "lines_added name b1 ls b2" and loc: "add_location a m ls b2 = (i, b3)"
  shows "placed symf (x, a) name b i b3"
proof -
  note m = add_mapping_result [OF wf m]
  have b2: "builder_wf b2" "grows b1 b2" "pb_mappings b2 = pb_mappings b1" "pb_locations b2 = pb_locations b1"
    "pb_samples b2 = pb_samples b1" using ls by (simp_all add: lines_added_def)
  note r = add_location_result [OF b2(1) loc]
  have x: "mapping_executable b2 m = Some x" by (rule grows_values(6) [OF b2(2) m(3)])
  have refs2: "refs_wf b2" using grows_refs [OF refs, of b2] grows_trans [OF m(2) b2(2)] m(6,7) b2(4,5) by simp
  have known: "\<forall>line \<in> set ls. function_name b2 (pl_function_id line) \<noteq> None"
    using ls by (auto simp: lines_added_def split: option.splits)
  have refs3: "refs_wf b3" using add_location_refs [OF b2(1) refs2 loc] x known by simp
  have same: "mapping_executable b3 = mapping_executable b2" "function_name b3 = function_name b2"
    by (rule values_cong, simp_all add: r)+
  have "names_ok symf b3" if names: "names_ok symf b" and symf: "symf (x, a) = name"
  proof -
    have "names_ok symf b2"
      using names_ok_grows [OF names _ refs, of b2] grows_trans [OF m(2) b2(2)] m(6) b2(4) by simp
    moreover have "line_name b3 l = line_name b2 l" for l
      by (simp add: line_name_def same split: list.split)
    moreover have "line_name b2 \<lparr>loc_id = k, loc_mapping_id = m, loc_address = a, loc_line = ls\<rparr> = name" for k
      using ls by (auto simp: lines_added_def line_name_def split: option.splits)
    ultimately show ?thesis using r(4) x symf by (auto simp: names_ok_def same)
  qed
  moreover have "located b3 i = Some (x, a)" using r(3) x by (simp add: located_def same)
  ultimately show ?thesis using m r b2 refs3 grows_trans [OF grows_trans [OF m(2) b2(2)] r(2)] by (simp add: placed_def)
qed

text \<open>A frame adds one location, or nothing when it is in no mapping of an object file.\<close>

definition frame_step ::
    "(u64 \<times> u64 \<Rightarrow> string option) \<Rightarrow> (u64 \<times> u64) option \<Rightarrow> string option \<Rightarrow> nat list \<times> PprofBuilder \<Rightarrow> nat list \<times> PprofBuilder \<Rightarrow> bool" where
  "frame_step symf l name = (\<lambda>(ids, b) (ids', b').
     case l of None \<Rightarrow> ids' = ids \<and> b' = b | Some l \<Rightarrow> \<exists>i. ids' = ids @ [i] \<and> placed symf l name b i b')"

lemma kernel_frame_step:
  assumes "builder_wf b" "refs_wf b" "kernel_frame hexlower ps objs fr (ids, b) = Some (ids', b')"
  shows "frame_step symf (frame_location ps objs KERNEL_PID fr) (frame_symbol fr) (ids, b) (ids', b')"
  using assms
  by (auto simp: kernel_frame_def frame_step_def frame_location_def Let_def split: option.splits prod.splits
    intro!: location_placed lines_added_frame(1) add_mapping_result(1))

lemma user_frame_step:
  assumes "builder_wf b" "refs_wf b" "user_frame hexlower ps objs pid fr (ids, b) = Some (ids', b')"
  shows "frame_step symf (frame_location ps objs pid fr) (frame_symbol fr) (ids, b) (ids', b')"
  using assms
  by (auto simp: user_frame_def frame_step_def frame_location_def Let_def split: option.splits prod.splits
    intro!: location_placed lines_added_frame(2) add_mapping_result(1))

section \<open>Stacks\<close>

text \<open>What a stretch of the conversion may do to the builder.\<close>

definition progress :: "(u64 \<times> u64 \<Rightarrow> string option) \<Rightarrow> (u64 \<times> u64) list \<Rightarrow> bool \<Rightarrow> PprofBuilder \<Rightarrow> PprofBuilder \<Rightarrow> bool" where
  "progress symf ls agree b b' \<longleftrightarrow>
     builder_wf b' \<and> refs_wf b' \<and> grows b b' \<and>
     pm_id ` set (pb_mappings b') \<subseteq> fst ` set ls \<union> pm_id ` set (pb_mappings b) \<and>
     (names_ok symf b \<longrightarrow> agree \<longrightarrow> names_ok symf b')"

lemma progress_trans:
  "progress symf ls p a b \<Longrightarrow> progress symf ms q b c \<Longrightarrow> progress symf (ls @ ms) (p \<and> q) a c"
  unfolding progress_def set_append image_Un by (blast intro: grows_trans)

lemma symbols_agree_Cons:
  "symbols_agree symf loc (fr # frs) \<longleftrightarrow>
     (case loc fr of None \<Rightarrow> True | Some l \<Rightarrow> symf l = frame_symbol fr) \<and> symbols_agree symf loc frs"
  by (cases "loc fr") (auto simp: symbols_agree_def)

lemma located_stack_grows: "grows b b' \<Longrightarrow> map (located b) ids = map Some ls \<Longrightarrow> map (located b') ids = map Some ls"
  by (induction ids arbitrary: ls) (auto simp: Cons_eq_map_conv located_grows)

lemma frames_progress:
  assumes step: "\<And>fr ids b ids' b'. builder_wf b \<Longrightarrow> refs_wf b \<Longrightarrow> f fr (ids, b) = Some (ids', b') \<Longrightarrow>
      frame_step symf (loc fr) (frame_symbol fr) (ids, b) (ids', b')"
  shows "builder_wf b \<Longrightarrow> refs_wf b \<Longrightarrow> fold_option f frs (ids, b) = Some (ids', b') \<Longrightarrow>
      map (located b) ids = map Some ls \<Longrightarrow>
      progress symf (List.map_filter loc frs) (symbols_agree symf loc frs) b b' \<and> pb_samples b' = pb_samples b \<and>
      map (located b') ids' = map Some (ls @ List.map_filter loc frs)"
proof (induction frs arbitrary: ids b ls)
  case Nil
  then show ?case by (simp add: progress_def List.map_filter_def)
next
  case (Cons fr frs)
  obtain ids1 b1 where f: "f fr (ids, b) = Some (ids1, b1)" and rest: "fold_option f frs (ids1, b1) = Some (ids', b')"
    using Cons.prems(3) by (auto split: option.splits)
  note s = step [OF Cons.prems(1,2) f]
  show ?case
  proof (cases "loc fr")
    case None
    with s have "ids1 = ids" "b1 = b" by (simp_all add: frame_step_def)
    with Cons.IH [of b ids ls] Cons.prems rest None show ?thesis
      by (simp add: map_filter_simps symbols_agree_Cons)
  next
    case (Some l)
    with s obtain i where ids1: "ids1 = ids @ [i]" and p: "placed symf l (frame_symbol fr) b i b1"
      by (auto simp: frame_step_def)
    have old: "map (located b1) ids = map Some ls"
      using located_stack_grows [OF _ Cons.prems(4)] p by (simp add: placed_def)
    have "progress symf (List.map_filter loc frs) (symbols_agree symf loc frs) b1 b' \<and> pb_samples b' = pb_samples b1 \<and>
        map (located b') ids' = map Some ((ls @ [l]) @ List.map_filter loc frs)"
      using Cons.IH [of b1 ids1 "ls @ [l]"] rest p old by (simp add: placed_def ids1)
    moreover have "progress symf [l] (symf l = frame_symbol fr) b b1" "pb_samples b1 = pb_samples b"
      using p by (auto simp: placed_def progress_def)
    ultimately show ?thesis
      using Some progress_trans [of symf "[l]" "symf l = frame_symbol fr" b b1 "List.map_filter loc frs" "symbols_agree symf loc frs" b']
      by (simp add: map_filter_simps symbols_agree_Cons)
  qed
qed

lemma kernel_frames_progress:
  assumes "builder_wf b" "refs_wf b" "fold_option (kernel_frame hexlower ps objs) frs (ids, b) = Some (ids', b')" "map (located b) ids = map Some ls"
  shows "progress symf (List.map_filter (frame_location ps objs KERNEL_PID) frs) (symbols_agree symf (frame_location ps objs KERNEL_PID) frs) b b' \<and>
    pb_samples b' = pb_samples b \<and> map (located b') ids' = map Some (ls @ List.map_filter (frame_location ps objs KERNEL_PID) frs)"
  by (rule frames_progress [OF _ assms]) (rule kernel_frame_step)

lemma user_frames_progress:
  assumes "builder_wf b" "refs_wf b" "fold_option (user_frame hexlower ps objs pid) frs (ids, b) = Some (ids', b')" "map (located b) ids = map Some ls"
  shows "progress symf (List.map_filter (frame_location ps objs pid) frs) (symbols_agree symf (frame_location ps objs pid) frs) b b' \<and>
    pb_samples b' = pb_samples b \<and> map (located b') ids' = map Some (ls @ List.map_filter (frame_location ps objs pid) frs)"
  by (rule frames_progress [OF _ assms]) (rule user_frame_step)

text \<open>Labels only add strings.\<close>

definition strings_only :: "PprofBuilder \<Rightarrow> PprofBuilder \<Rightarrow> bool" where
  "strings_only b b' \<longleftrightarrow>
     builder_wf b' \<and> grows b b' \<and> pb_mappings b' = pb_mappings b \<and> pb_locations b' = pb_locations b \<and>
     pb_functions b' = pb_functions b \<and> pb_samples b' = pb_samples b"

lemma strings_only_trans: "strings_only a b \<Longrightarrow> strings_only b c \<Longrightarrow> strings_only a c"
  by (auto simp: strings_only_def intro: grows_trans)

lemma strings_only_refl: "builder_wf b \<Longrightarrow> strings_only b b"
  by (simp add: strings_only_def)

lemma get_or_insert_strings_only: "builder_wf b \<Longrightarrow> get_or_insert_string s b = (i, b') \<Longrightarrow> strings_only b b'"
  using get_or_insert_string_result [of b s i b'] get_or_insert_string_same [of s b i b'] by (simp add: strings_only_def)

lemma new_label_strings_only:
  assumes "builder_wf b" "new_label key v b = (l, b')"
  shows "strings_only b b'"
proof -
  obtain i b1 where k: "get_or_insert_string key b = (i, b1)" by fastforce
  note one = get_or_insert_strings_only [OF assms(1) k]
  have "strings_only b1 b'" using assms(2) one k
    by (cases v) (auto simp: new_label_def strings_only_def split: prod.splits
      intro: get_or_insert_strings_only [unfolded strings_only_def, THEN conjunct1]
      dest: get_or_insert_string_result get_or_insert_string_same)
  with one show ?thesis by (rule strings_only_trans)
qed

lemma new_labels_strings_only: "builder_wf b \<Longrightarrow> new_labels ls b = (labels, b') \<Longrightarrow> strings_only b b'"
proof (induction ls arbitrary: b labels)
  case (Cons l ls)
  obtain x b1 xs where "new_label (ml_key l) (profile_label (ml_value l)) b = (x, b1)" "new_labels ls b1 = (xs, b')"
    using Cons.prems(2) by (auto split: prod.splits)
  then show ?case using new_label_strings_only Cons.IH Cons.prems(1) strings_only_trans
    by (metis strings_only_def)
qed (simp add: strings_only_refl)

lemma task_labels_strings_only:
  "builder_wf (cv_pprof s) \<Longrightarrow> task_labels env pid tid s = (labels, s') \<Longrightarrow> strings_only (cv_pprof s) (cv_pprof s')"
  by (auto simp: task_labels_def Let_def split: option.splits prod.splits intro: strings_only_refl new_labels_strings_only)

lemma strings_only_progress:
  assumes "strings_only b b'" "refs_wf b"
  shows "progress symf [] True b b'" "pb_samples b' = pb_samples b"
  using assms grows_refs [of b b'] names_ok_grows [of symf b b'] by (auto simp: strings_only_def progress_def)

section \<open>Samples\<close>

definition sample_converted ::
    "PprofBuilder \<Rightarrow> (s32 \<rightharpoonup> ProcessInfo) \<Rightarrow> (u64 \<rightharpoonup> ObjectFileInfo) \<Rightarrow> AggregatedSample \<Rightarrow> pprof_Sample \<Rightarrow> bool" where
  "sample_converted b ps objs sample smp \<longleftrightarrow>
     map (located b) (smp_location_id smp) = map Some (sample_locations ps objs sample) \<and>
     (\<exists>nanos. i64_div (as_i64 (as_i64 (int (as_count sample)) * 1000000000)) (freq_in_hz b) = Some nanos \<and>
        smp_value smp = [as_i64 (int (as_count sample)), nanos])"

lemma sample_converted_grows: "grows b b' \<Longrightarrow> sample_converted b ps objs sample smp \<Longrightarrow> sample_converted b' ps objs sample smp"
  using located_stack_grows [of b b'] by (auto simp: sample_converted_def grows_def)

lemma sample_location_known: "l \<in> set (sample_locations ps objs sample) \<Longrightarrow> objs (fst l) \<noteq> None"
  by (auto simp: sample_locations_def List.map_filter_def frame_location_def bind_eq_Some_conv)

lemma convert_sample_result:
  assumes wf: "builder_wf (cv_pprof s)" "refs_wf (cv_pprof s)" and c: "convert_sample env ps objs sample s = Some s'"
  shows "progress symf (sample_locations ps objs sample) (sample_symbols_agree symf ps objs sample) (cv_pprof s) (cv_pprof s')"
    and "\<exists>smp. pb_samples (cv_pprof s') = pb_samples (cv_pprof s) @ [smp] \<and> sample_converted (cv_pprof s') ps objs sample smp"
proof -
  let ?kl = "List.map_filter (frame_location ps objs KERNEL_PID) (as_kstack sample)"
  let ?ul = "List.map_filter (frame_location ps objs (as_pid sample)) (as_ustack sample)"
  obtain kids b1 ids b2 where
    k: "fold_option (kernel_frame (pe_hexlower env) ps objs) (as_kstack sample) ([], cv_pprof s) = Some (kids, b1)" and
    u: "fold_option (user_frame (pe_hexlower env) ps objs (as_pid sample)) (as_ustack sample) (kids, b1) = Some (ids, b2)"
    using c by (auto simp: convert_sample_def split: option.splits)
  obtain labels s1 where t: "task_labels env (as_pid sample) (as_tid sample) (s\<lparr>cv_pprof := b2\<rparr>) = (labels, s1)" by fastforce
  obtain b3 where a: "add_sample ids (as_i64 (int (as_count sample))) labels (cv_pprof s1) = Some b3" and s': "cv_pprof s' = b3"
    using c by (auto simp: convert_sample_def k u t)
  have 1: "progress symf ?kl (symbols_agree symf (frame_location ps objs KERNEL_PID) (as_kstack sample)) (cv_pprof s) b1 \<and>
      pb_samples b1 = pb_samples (cv_pprof s) \<and> map (located b1) kids = map Some ([] @ ?kl)"
    by (rule kernel_frames_progress [OF wf k]) simp_all
  then have 2: "progress symf ?ul (symbols_agree symf (frame_location ps objs (as_pid sample)) (as_ustack sample)) b1 b2 \<and>
      pb_samples b2 = pb_samples b1 \<and> map (located b2) ids = map Some (?kl @ ?ul)"
    by (intro user_frames_progress [OF _ _ u]) (simp_all add: progress_def)
  then have wf2: "builder_wf b2" "refs_wf b2" by (simp_all add: progress_def)
  then have so: "strings_only b2 (cv_pprof s1)" using task_labels_strings_only [OF _ t] by simp
  note 3 = strings_only_progress [OF so wf2(2)]
  have wf3: "builder_wf (cv_pprof s1)" "refs_wf (cv_pprof s1)" "grows b2 (cv_pprof s1)" using 3(1) by (simp_all add: progress_def)
  have stack: "map (located (cv_pprof s1)) ids = map Some (?kl @ ?ul)" using located_stack_grows [OF wf3(3)] 2 by blast
  have ids: "\<forall>i \<in> set ids. location_key (cv_pprof s1) i \<noteq> None"
  proof
    fix i
    assume "i \<in> set ids"
    then have "located (cv_pprof s1) i \<in> set (map (located (cv_pprof s1)) ids)" by simp
    then have "located (cv_pprof s1) i \<noteq> None" unfolding stack by auto
    then show "location_key (cv_pprof s1) i \<noteq> None" by (auto simp: located_def split: option.splits)
  qed
  note 4 = add_sample_wf [OF a wf3(1,2) ids]
  have "b3 = (cv_pprof s1)\<lparr>pb_samples := pb_samples b3\<rparr>" by (rule add_sample_result(1) [OF a])
  then have same: "pb_locations b3 = pb_locations (cv_pprof s1)" "pb_mappings b3 = pb_mappings (cv_pprof s1)"
    by (metis PprofBuilder.select_convs PprofBuilder.surjective PprofBuilder.update_convs(12))+
  have 5: "progress symf [] True (cv_pprof s1) b3"
    using 4 names_ok_grows [OF _ 4(3) wf3(2) same(1), of symf] by (simp add: progress_def same)
  have "progress symf (((?kl @ ?ul) @ []) @ [])
      (((symbols_agree symf (frame_location ps objs KERNEL_PID) (as_kstack sample) \<and>
         symbols_agree symf (frame_location ps objs (as_pid sample)) (as_ustack sample)) \<and> True) \<and> True) (cv_pprof s) b3"
    using 1 2 3(1) 5 by (blast intro: progress_trans)
  then show "progress symf (sample_locations ps objs sample) (sample_symbols_agree symf ps objs sample) (cv_pprof s) (cv_pprof s')"
    by (simp add: sample_locations_def sample_symbols_agree_def s')
  have "map (located b3) ids = map Some (sample_locations ps objs sample)"
    using located_stack_grows [OF 4(3) stack] by (simp add: sample_locations_def)
  moreover obtain nanos where "i64_div (as_i64 (as_i64 (int (as_count sample)) * 1000000000)) (freq_in_hz (cv_pprof s1)) = Some nanos"
    "pb_samples b3 = pb_samples (cv_pprof s1) @ [\<lparr>smp_location_id = ids, smp_value = [as_i64 (int (as_count sample)), nanos], smp_label = labels\<rparr>]"
    using add_sample_result(2) [OF a] by blast
  moreover have "freq_in_hz b3 = freq_in_hz (cv_pprof s1)" using 4(3) by (simp add: grows_def)
  ultimately show "\<exists>smp. pb_samples (cv_pprof s') = pb_samples (cv_pprof s) @ [smp] \<and> sample_converted (cv_pprof s') ps objs sample smp"
    using 1 2 3(2) by (auto simp: sample_converted_def s')
qed

definition conversion_inv ::
    "(s32 \<rightharpoonup> ProcessInfo) \<Rightarrow> (u64 \<rightharpoonup> ObjectFileInfo) \<Rightarrow> AggregatedSample list \<Rightarrow> PprofBuilder \<Rightarrow> bool" where
  "conversion_inv ps objs samples b \<longleftrightarrow>
     builder_wf b \<and> refs_wf b \<and> pm_id ` set (pb_mappings b) \<subseteq> dom objs \<and>
     list_all2 (sample_converted b ps objs) samples (pb_samples b)"

lemma convert_sample_inv:
  assumes "conversion_inv ps objs samples (cv_pprof s)" "convert_sample env ps objs sample s = Some s'"
  shows "conversion_inv ps objs (samples @ [sample]) (cv_pprof s')"
    and "names_ok symf (cv_pprof s) \<Longrightarrow> sample_symbols_agree symf ps objs sample \<Longrightarrow> names_ok symf (cv_pprof s')"
proof -
  have wf: "builder_wf (cv_pprof s)" "refs_wf (cv_pprof s)" using assms(1) by (simp_all add: conversion_inv_def)
  note r = convert_sample_result [OF wf assms(2)]
  show "names_ok symf (cv_pprof s')" if "names_ok symf (cv_pprof s)" "sample_symbols_agree symf ps objs sample"
    using r(1) [of symf] that by (simp add: progress_def)
  have p: "builder_wf (cv_pprof s')" "refs_wf (cv_pprof s')" "grows (cv_pprof s) (cv_pprof s')"
    "pm_id ` set (pb_mappings (cv_pprof s')) \<subseteq> fst ` set (sample_locations ps objs sample) \<union> pm_id ` set (pb_mappings (cv_pprof s))"
    using r(1) by (simp_all add: progress_def)
  moreover have "fst ` set (sample_locations ps objs sample) \<subseteq> dom objs"
    by (auto dest: sample_location_known)
  moreover have "list_all2 (sample_converted (cv_pprof s') ps objs) samples (pb_samples (cv_pprof s))"
    using assms(1) sample_converted_grows [OF p(3)] by (auto simp: conversion_inv_def elim: list_all2_mono)
  moreover have "pm_id ` set (pb_mappings (cv_pprof s)) \<subseteq> dom objs" using assms(1) by (simp add: conversion_inv_def)
  ultimately have "pm_id ` set (pb_mappings (cv_pprof s')) \<subseteq> dom objs"
    "list_all2 (sample_converted (cv_pprof s') ps objs) samples (pb_samples (cv_pprof s))" by blast+
  then show "conversion_inv ps objs (samples @ [sample]) (cv_pprof s')"
    using r(2) p(1,2) by (auto simp only: conversion_inv_def intro!: list_all2_appendI list.rel_intros)
qed

lemma convert_samples_inv:
  "fold_option (convert_sample env ps objs) todo s = Some s' \<Longrightarrow> conversion_inv ps objs samples (cv_pprof s) \<Longrightarrow>
     conversion_inv ps objs (samples @ todo) (cv_pprof s') \<and>
     (names_ok symf (cv_pprof s) \<longrightarrow> (\<forall>sample \<in> set todo. sample_symbols_agree symf ps objs sample) \<longrightarrow> names_ok symf (cv_pprof s'))"
proof (induction todo arbitrary: s samples)
  case (Cons sample todo)
  obtain s1 where s1: "convert_sample env ps objs sample s = Some s1" "fold_option (convert_sample env ps objs) todo s1 = Some s'"
    using Cons.prems(1) by (auto split: option.splits)
  show ?case
    using Cons.IH [OF s1(2) convert_sample_inv(1) [OF Cons.prems(2) s1(1)]] convert_sample_inv(2) [OF Cons.prems(2) s1(1), of symf]
    by auto
qed simp

lemma pprof_builder_inv:
  assumes "pprof_builder env ps objs now duration freq profile md = Some s"
  shows "conversion_inv ps objs profile (cv_pprof s)"
    and "\<forall>sample \<in> set profile. sample_symbols_agree symf ps objs sample \<Longrightarrow> names_ok symf (cv_pprof s)"
proof -
  let ?s = "\<lparr>cv_pprof = pprof_new now duration freq, cv_task_to_labels = Map.empty, cv_metadata = md\<rparr>"
  have "conversion_inv ps objs [] (cv_pprof ?s)" "names_ok symf (cv_pprof ?s)"
    by (simp_all add: conversion_inv_def builder_wf_new refs_wf_new names_ok_def) (simp_all add: pprof_new_def)
  note r = convert_samples_inv [OF assms [unfolded pprof_builder_def] this(1), of symf] this
  show "conversion_inv ps objs profile (cv_pprof s)"
    and "\<forall>sample \<in> set profile. sample_symbols_agree symf ps objs sample \<Longrightarrow> names_ok symf (cv_pprof s)"
    using r by auto
qed

section \<open>No panic\<close>

definition kernel_build_ids :: "(s32 \<rightharpoonup> ProcessInfo) \<Rightarrow> bool" where
  "kernel_build_ids ps \<longleftrightarrow>
     (case ps KERNEL_PID of None \<Rightarrow> True | Some info \<Rightarrow> list_all (\<lambda>m. em_build_id m \<noteq> None) (pi_mappings info))"

lemma fold_option_total: "(\<And>x s. \<exists>s'. f x s = Some s') \<Longrightarrow> \<exists>s'. fold_option f xs s = Some s'"
proof (induction xs arbitrary: s)
  case (Cons x xs)
  obtain s1 where "f x s = Some s1" using Cons.prems by blast
  with Cons show ?case by simp
qed simp

lemma kernel_frame_total:
  assumes "kernel_build_ids ps"
  shows "\<exists>s'. kernel_frame hexlower ps objs fr s = Some s'"
proof -
  have "em_build_id m \<noteq> None" if "ps KERNEL_PID = Some info" "for_address (pi_mappings info) va = Some m" for info va m
    using assms that by (auto simp: kernel_build_ids_def for_address_def list_all_iff find_Some_iff)
  then show ?thesis by (cases s) (fastforce simp: kernel_frame_def Let_def split: option.split prod.split)
qed

lemma user_frame_total: "\<exists>s'. user_frame hexlower ps objs pid fr s = Some s'"
  by (cases s) (auto simp: user_frame_def Let_def split: option.split prod.split)

lemma convert_sample_total:
  assumes "kernel_build_ids ps" "builder_wf (cv_pprof s)" "refs_wf (cv_pprof s)" "0 < freq_in_hz (cv_pprof s)"
  shows "\<exists>s'. convert_sample env ps objs sample s = Some s'"
proof -
  obtain kids b1 where k: "fold_option (kernel_frame (pe_hexlower env) ps objs) (as_kstack sample) ([], cv_pprof s) = Some (kids, b1)"
    using fold_option_total [OF kernel_frame_total [OF assms(1)]] by fastforce
  obtain ids b2 where u: "fold_option (user_frame (pe_hexlower env) ps objs (as_pid sample)) (as_ustack sample) (kids, b1) = Some (ids, b2)"
    using fold_option_total [OF user_frame_total] by fastforce
  obtain labels s1 where t: "task_labels env (as_pid sample) (as_tid sample) (s\<lparr>cv_pprof := b2\<rparr>) = (labels, s1)" by fastforce
  note 1 = kernel_frames_progress [where symf = "\<lambda>_. None" and ls = "[]", OF assms(2,3) k]
  then have "builder_wf b1" "refs_wf b1" "map (located b1) kids = map Some (List.map_filter (frame_location ps objs KERNEL_PID) (as_kstack sample))"
    by (simp_all add: progress_def)
  note 2 = user_frames_progress [where symf = "\<lambda>_. None", OF this(1,2) u this(3)]
  have b2: "builder_wf b2" "refs_wf b2" "freq_in_hz b2 = freq_in_hz (cv_pprof s)"
    using 1 2 by (simp_all add: progress_def grows_def)
  then have "freq_in_hz (cv_pprof s1) = freq_in_hz (cv_pprof s)"
    using task_labels_strings_only [OF _ t] by (simp add: strings_only_def grows_def)
  then show ?thesis using assms(4) by (auto simp: convert_sample_def k u t add_sample_def i64_div_def)
qed

lemma convert_samples_total:
  assumes "kernel_build_ids ps"
  shows "conversion_inv ps objs samples (cv_pprof s) \<Longrightarrow> 0 < freq_in_hz (cv_pprof s) \<Longrightarrow>
    \<exists>s'. fold_option (convert_sample env ps objs) todo s = Some s' \<and> freq_in_hz (cv_pprof s') = freq_in_hz (cv_pprof s)"
proof (induction todo arbitrary: s samples)
  case (Cons sample todo)
  have wf: "builder_wf (cv_pprof s)" "refs_wf (cv_pprof s)" using Cons.prems(1) by (simp_all add: conversion_inv_def)
  obtain s1 where s1: "convert_sample env ps objs sample s = Some s1"
    using convert_sample_total [OF assms wf Cons.prems(2)] by blast
  have "freq_in_hz (cv_pprof s1) = freq_in_hz (cv_pprof s)"
    using convert_sample_result(1) [OF wf s1, of "\<lambda>_. None"] by (simp add: progress_def grows_def)
  then show ?case using Cons.IH [OF convert_sample_inv(1) [OF Cons.prems(1) s1]] Cons.prems(2) s1 by auto
qed simp

lemma pprof_builder_total:
  assumes "kernel_build_ids ps" "0 < sint freq"
  shows "\<exists>s. pprof_builder env ps objs now duration freq profile md = Some s \<and> freq_in_hz (cv_pprof s) = sint freq"
proof -
  let ?s = "\<lparr>cv_pprof = pprof_new now duration freq, cv_task_to_labels = Map.empty, cv_metadata = md\<rparr>"
  have "conversion_inv ps objs [] (cv_pprof ?s)"
    by (simp add: conversion_inv_def builder_wf_new refs_wf_new) (simp add: pprof_new_def)
  from convert_samples_total [OF assms(1) this, of env profile] assms(2) show ?thesis
    by (simp add: pprof_builder_def pprof_new_def)
qed

lemma pprof_build_result:
  assumes "builder_wf b" "0 < freq_in_hz b"
  shows "\<exists>p b'. pprof_build b = Some p \<and> strings_only b b' \<and> pr_sample p = pb_samples b' \<and> pr_mapping p = pb_mappings b' \<and>
     pr_location p = pb_locations b' \<and> pr_function p = pb_functions b' \<and> pr_string_table p = string_table b'"
proof -
  obtain i1 b1 where 1: "get_or_insert_string ''samples'' b = (i1, b1)" by fastforce
  obtain i2 b2 where 2: "get_or_insert_string ''count'' b1 = (i2, b2)" by fastforce
  obtain i3 b3 where 3: "get_or_insert_string ''cpu'' b2 = (i3, b3)" by fastforce
  obtain i4 b4 where 4: "get_or_insert_string ''nanoseconds'' b3 = (i4, b4)" by fastforce
  obtain i5 b5 where 5: "get_or_insert_string ''lightswitch'' b4 = (i5, b5)" by fastforce
  have wf: "builder_wf b1" "builder_wf b2" "builder_wf b3" "builder_wf b4"
    using get_or_insert_string_result(1) assms(1) 1 2 3 4 by blast+
  have so: "strings_only b b5"
    using get_or_insert_strings_only [OF assms(1) 1] get_or_insert_strings_only [OF wf(1) 2] get_or_insert_strings_only [OF wf(2) 3]
      get_or_insert_strings_only [OF wf(3) 4] get_or_insert_strings_only [OF wf(4) 5] by (blast intro: strings_only_trans)
  then have "freq_in_hz b5 = freq_in_hz b" by (simp add: strings_only_def grows_def)
  with assms(2) so show ?thesis by (intro exI [of _ b5] exI) (auto simp: pprof_build_def Let_def 1 2 3 4 5 i64_div_def)
qed

text \<open>The meaning of a location is the same in the builder and in the profile.\<close>

lemma to_pprof_result:
  assumes "kernel_build_ids ps" "0 < sint freq"
  obtains s p where "pprof_builder env ps objs now duration freq profile md = Some s"
    "to_pprof env ps objs now duration freq profile md = Some p"
    "pr_sample p = pb_samples (cv_pprof s)" "location_in p = located (cv_pprof s)"
    "\<And>i l. l \<in> set (pb_locations (cv_pprof s)) \<Longrightarrow> numbered (pr_location p) i = Some l \<Longrightarrow> function_in p i = line_name (cv_pprof s) l"
    "pr_location p = pb_locations (cv_pprof s)"
proof -
  obtain s where s: "pprof_builder env ps objs now duration freq profile md = Some s" "freq_in_hz (cv_pprof s) = sint freq"
    using pprof_builder_total [OF assms, of env objs now duration profile md] by blast
  have wf: "builder_wf (cv_pprof s)" "refs_wf (cv_pprof s)" using pprof_builder_inv(1) [OF s(1)] by (simp_all add: conversion_inv_def)
  obtain p b where p: "pprof_build (cv_pprof s) = Some p" "strings_only (cv_pprof s) b" "pr_sample p = pb_samples b"
    "pr_mapping p = pb_mappings b" "pr_location p = pb_locations b" "pr_function p = pb_functions b" "pr_string_table p = string_table b"
    using pprof_build_result [OF wf(1)] assms(2) s(2) by auto
  have same: "pb_samples b = pb_samples (cv_pprof s)" "pb_mappings b = pb_mappings (cv_pprof s)" "pb_locations b = pb_locations (cv_pprof s)"
    "grows (cv_pprof s) b" using p(2) by (simp_all add: strings_only_def)
  have loc: "location_in p i = located (cv_pprof s) i" for i
    by (auto simp: location_in_def located_def location_key_def mapping_executable_def p same option.map_comp comp_def split: option.split)
  have "function_in p i = line_name (cv_pprof s) l" if l: "l \<in> set (pb_locations (cv_pprof s))" "numbered (pr_location p) i = Some l" for i l
  proof -
    have "function_in p i = line_name b l"
      using l(2) by (auto simp: function_in_def line_name_def function_name_def string_at_def p split: list.split option.split)
    also have "\<dots> = line_name (cv_pprof s) l"
      using line_name_grows [OF same(4)] wf(2) l(1) by (simp add: refs_wf_def)
    finally show ?thesis .
  qed
  moreover have "to_pprof env ps objs now duration freq profile md = Some p" by (simp add: to_pprof_def s p(1))
  ultimately show thesis using that [OF s(1), of p] p(3,5) same loc by (simp add: fun_eq_iff)
qed

lemma located_unique:
  assumes "builder_wf b" "located b i = Some l" "located b j = Some l"
  shows "i = j"
proof -
  obtain m n where i: "location_key b i = Some (snd l, m)" "mapping_executable b m = Some (fst l)"
    and j: "location_key b j = Some (snd l, n)" "mapping_executable b n = Some (fst l)"
    using assms(2,3) by (auto simp: located_def split: option.splits)
  have "m = n" by (rule pprof_mappings.value_unique [OF assms(1) i(2) j(2)])
  with i j show ?thesis using pprof_locations.value_unique [OF assms(1) i(1)] by simp
qed

section \<open>Properties\<close>

text \<open>
  C12. A profile in pprof format says what the samples said. The conversion does not panic when the frequency is
  positive and the mappings of the kernel have build ids; the profile has one sample for each given one, in
  order, with its count, and the locations of the sample, read through the tables of the profile, are the
  executable and the address of each frame in a known mapping of a known object file, kernel frames
  first.
\<close>

theorem to_pprof_keeps_stacks:
  assumes "kernel_build_ids ps" "0 < sint freq"
  shows "\<exists>p. to_pprof env ps objs now duration freq profile md = Some p \<and>
    list_all2 (\<lambda>sample smp. map (location_in p) (smp_location_id smp) = map Some (sample_locations ps objs sample) \<and>
       hd (smp_value smp) = as_i64 (int (as_count sample))) profile (pr_sample p)"
proof -
  obtain s p where r: "pprof_builder env ps objs now duration freq profile md = Some s"
    "to_pprof env ps objs now duration freq profile md = Some p"
    "pr_sample p = pb_samples (cv_pprof s)" "location_in p = located (cv_pprof s)"
    by (rule to_pprof_result [OF assms, of env objs now duration profile md])
  have "list_all2 (sample_converted (cv_pprof s) ps objs) profile (pr_sample p)"
    using pprof_builder_inv(1) [OF r(1)] r(3) by (simp add: conversion_inv_def)
  then show ?thesis using r(2,4) by (auto simp: sample_converted_def elim!: list_all2_mono)
qed

text \<open>
  C19. The builder that a profile is built from passes its own validation: every number in a sample is that of a
  location, every location has a mapping, and every line a function with a name. The executable id zero is
  that of anonymous mappings and must not be the id of an object file.
\<close>

theorem to_pprof_validates:
  assumes "pprof_builder env ps objs now duration freq profile md = Some s" "objs 0 = None"
  shows "validate (cv_pprof s) = Inr ()"
  using pprof_builder_inv(1) [OF assms(1)] assms(2) by (intro validate_ok) (auto simp: conversion_inv_def)

text \<open>
  C20. The functions in a profile are the symbols of the frames, when frames at the same address of the same
  executable have the same symbol: for each sample the functions of its locations are the symbols of its
  frames.
\<close>

theorem to_pprof_keeps_symbols:
  assumes "kernel_build_ids ps" "0 < sint freq" "\<forall>sample \<in> set profile. sample_symbols_agree symf ps objs sample"
  shows "\<exists>p. to_pprof env ps objs now duration freq profile md = Some p \<and>
    list_all2 (\<lambda>sample smp. map (function_in p) (smp_location_id smp) = map symf (sample_locations ps objs sample))
      profile (pr_sample p)"
proof -
  obtain s p where r: "pprof_builder env ps objs now duration freq profile md = Some s"
    "to_pprof env ps objs now duration freq profile md = Some p"
    "pr_sample p = pb_samples (cv_pprof s)" "location_in p = located (cv_pprof s)"
    "\<And>i l. l \<in> set (pb_locations (cv_pprof s)) \<Longrightarrow> numbered (pr_location p) i = Some l \<Longrightarrow> function_in p i = line_name (cv_pprof s) l"
    "pr_location p = pb_locations (cv_pprof s)"
    by (rule to_pprof_result [OF assms(1,2), of env objs now duration profile md]) (rule that)
  have names: "names_ok symf (cv_pprof s)" by (rule pprof_builder_inv(2) [OF r(1) assms(3)])
  have fn: "function_in p i = symf l" if l: "located (cv_pprof s) i = Some l" for i l
  proof -
    from l obtain loc where loc: "numbered (pb_locations (cv_pprof s)) i = Some loc"
      "mapping_executable (cv_pprof s) (loc_mapping_id loc) = Some (fst l)" "loc_address loc = snd l"
      by (auto simp: located_def location_key_def split: option.splits)
    then have "loc \<in> set (pb_locations (cv_pprof s))" by (auto simp: numbered_def split: if_splits dest: nth_opt_mem)
    with loc names r(5) [of loc i] r(6) show ?thesis by (simp add: names_ok_def)
  qed
  have "map (function_in p) ids = map symf ls" if "map (located (cv_pprof s)) ids = map Some ls" for ids ls
    using that by (induction ids arbitrary: ls) (auto simp: Cons_eq_map_conv fn)
  moreover have "list_all2 (sample_converted (cv_pprof s) ps objs) profile (pr_sample p)"
    using pprof_builder_inv(1) [OF r(1)] r(3) by (simp add: conversion_inv_def)
  ultimately show ?thesis using r(2) by (auto simp: sample_converted_def elim!: list_all2_mono)
qed

text \<open>
  A profile has one location for an address of an executable, and with it one function: frames that differ only
  in their symbol, such as a function and the functions inlined into it, become the same location.
\<close>

lemma same_address_same_location:
  assumes "kernel_build_ids ps" "0 < sint freq" "n < length profile"
    and "j < length (sample_locations ps objs (profile ! n))" "k < length (sample_locations ps objs (profile ! n))"
    and "sample_locations ps objs (profile ! n) ! j = sample_locations ps objs (profile ! n) ! k"
  shows "\<exists>p. to_pprof env ps objs now duration freq profile md = Some p \<and>
    smp_location_id (pr_sample p ! n) ! j = smp_location_id (pr_sample p ! n) ! k"
proof -
  obtain s p where r: "pprof_builder env ps objs now duration freq profile md = Some s"
    "to_pprof env ps objs now duration freq profile md = Some p" "pr_sample p = pb_samples (cv_pprof s)"
    by (rule to_pprof_result [OF assms(1,2), of env objs now duration profile md])
  have wf: "builder_wf (cv_pprof s)" and "list_all2 (sample_converted (cv_pprof s) ps objs) profile (pr_sample p)"
    using pprof_builder_inv(1) [OF r(1)] r(3) by (simp_all add: conversion_inv_def)
  then have "sample_converted (cv_pprof s) ps objs (profile ! n) (pr_sample p ! n)"
    using assms(3) by (simp add: list_all2_conv_all_nth)
  then have ids: "map (located (cv_pprof s)) (smp_location_id (pr_sample p ! n)) = map Some (sample_locations ps objs (profile ! n))"
    by (simp add: sample_converted_def)
  have "length (smp_location_id (pr_sample p ! n)) = length (sample_locations ps objs (profile ! n))"
    using map_eq_imp_length_eq [OF ids] by simp
  then have "located (cv_pprof s) (smp_location_id (pr_sample p ! n) ! i) = Some (sample_locations ps objs (profile ! n) ! i)"
    if "i < length (sample_locations ps objs (profile ! n))" for i
    using arg_cong [OF ids, of "\<lambda>xs. xs ! i"] that by simp
  then show ?thesis using r(2) assms(4,5,6) located_unique [OF wf] by metis
qed

section \<open>An example\<close>

definition pprof_procs :: "s32 \<rightharpoonup> ProcessInfo" where
  "pprof_procs =
     [KERNEL_PID \<mapsto> \<lparr>pi_status = Running, pi_mappings =
        [\<lparr>em_executable_id = 9, em_build_id = Some example_build_id, em_kind = Kernel, em_start_addr = 0xffffffff81000000,
          em_end_addr = 0xffffffff82000000, em_offset = 0, em_load_address = 0, em_soft_delete = False\<rparr>], pi_last_used = 0\<rparr>,
      42 \<mapsto> \<lparr>pi_status = Running, pi_mappings =
        [\<lparr>em_executable_id = 7, em_build_id = None, em_kind = FileBacked, em_start_addr = 0x401000,
          em_end_addr = 0x404000, em_offset = 0x1000, em_load_address = 0x400000, em_soft_delete = False\<rparr>], pi_last_used = 0\<rparr>]"

definition pprof_objs :: "u64 \<rightharpoonup> ObjectFileInfo" where
  "pprof_objs =
     [9 \<mapsto> \<lparr>of_path = ''[vmlinux]'', elf_load_segments = [], is_vdso = False, runtime = CLike\<rparr>,
      7 \<mapsto> \<lparr>of_path = ''/bin/true'', elf_load_segments = [\<lparr>p_offset = 0x1000, p_vaddr = 0x1000, p_filesz = 0x3000\<rparr>],
           is_vdso = False, runtime = CLike\<rparr>]"

definition pprof_example_env :: "unit pprof_env" where
  "pprof_example_env = \<lparr>pe_hexlower = \<lambda>bytes. concat (map fmt_byte bytes), pe_get_metadata = \<lambda>k m. ([], m)\<rparr>"

definition unsymbolized :: "u64 \<Rightarrow> Frame" where
  "unsymbolized va = \<lparr>fr_virtual_address = va, fr_file_offset = None, fr_symbolization_result = None\<rparr>"

definition pprof_sample :: AggregatedSample where
  "pprof_sample = \<lparr>as_pid = 42, as_tid = 43, as_ustack = [unsymbolized 0x402020, unsymbolized 0x500000, unsymbolized 0x401010],
     as_kstack = [unsymbolized 0xffffffff81000010], as_count = 3\<rparr>"

lemma pprof_sample_locations:
  "sample_locations pprof_procs pprof_objs pprof_sample = [(9, 0xffffffff81000010), (7, 0x2020), (7, 0x1010)]"
  by (simp add: sample_locations_def pprof_sample_def frame_location_def frame_address_def pprof_procs_def pprof_objs_def
    unsymbolized_def for_address_def normalized_address_def KERNEL_PID_def)

lemma pprof_example_ok: "kernel_build_ids pprof_procs" "0 < sint (19 :: u64)" "pprof_objs 0 = None"
  by (simp_all add: kernel_build_ids_def pprof_procs_def pprof_objs_def KERNEL_PID_def)

theorem to_pprof_keeps_stacks_witness:
  "\<exists>p smp. to_pprof pprof_example_env pprof_procs pprof_objs 0 5 19 [pprof_sample] () = Some p \<and> pr_sample p = [smp] \<and>
     map (location_in p) (smp_location_id smp) = [Some (9, 0xffffffff81000010), Some (7, 0x2020), Some (7, 0x1010)] \<and>
     hd (smp_value smp) = 3"
proof -
  have "as_i64 3 = 3" by (simp add: as_i64_def signed_take_bit_int_eq_self)
  then show ?thesis
    using to_pprof_keeps_stacks [OF pprof_example_ok(1,2), of pprof_example_env pprof_objs 0 5 "[pprof_sample]" "()"]
    by (auto simp: pprof_sample_locations list_all2_Cons1) (simp add: pprof_sample_def)
qed

theorem to_pprof_validates_witness:
  "\<exists>s. pprof_builder pprof_example_env pprof_procs pprof_objs 0 5 19 [pprof_sample] () = Some s \<and> validate (cv_pprof s) = Inr ()"
  using pprof_builder_total [OF pprof_example_ok(1,2), of pprof_example_env pprof_objs 0 5 "[pprof_sample]" "()"]
    to_pprof_validates [where env = pprof_example_env and objs = pprof_objs, OF _ pprof_example_ok(3)] by blast

definition symbolized :: "u64 \<Rightarrow> string \<Rightarrow> bool \<Rightarrow> u64 \<Rightarrow> Frame" where
  "symbolized va name inlined addr = \<lparr>fr_virtual_address = va, fr_file_offset = Some addr,
     fr_symbolization_result = Some (Inr \<lparr>sf_name = name, sf_inlined = inlined, sf_filename = None, sf_line = None\<rparr>)\<rparr>"

definition symbolized_sample :: AggregatedSample where
  "symbolized_sample = pprof_sample\<lparr>as_ustack := [symbolized 0x402020 ''work'' False 0x2000, symbolized 0x401010 ''main'' False 0x1000],
     as_kstack := []\<rparr>"

lemma symbolized_sample_locations: "sample_locations pprof_procs pprof_objs symbolized_sample = [(7, 0x2000), (7, 0x1000)]"
  by (simp add: sample_locations_def symbolized_sample_def pprof_sample_def frame_location_def frame_address_def pprof_procs_def
    pprof_objs_def symbolized_def for_address_def KERNEL_PID_def)

theorem to_pprof_keeps_symbols_witness:
  "\<exists>p smp. to_pprof pprof_example_env pprof_procs pprof_objs 0 5 19 [symbolized_sample] () = Some p \<and> pr_sample p = [smp] \<and>
     map (function_in p) (smp_location_id smp) = [Some ''work'', Some ''main'']"
proof -
  let ?sym = "(\<lambda>l. if l = (7, 0x2000) then Some ''work'' else Some ''main'') :: u64 \<times> u64 \<Rightarrow> string option"
  have "sample_symbols_agree ?sym pprof_procs pprof_objs symbolized_sample"
    by (simp add: sample_symbols_agree_def symbols_agree_Cons symbolized_sample_def pprof_sample_def frame_symbol_def frame_location_def
      frame_address_def pprof_procs_def pprof_objs_def symbolized_def for_address_def KERNEL_PID_def) (simp add: symbols_agree_def)
  then show ?thesis
    using to_pprof_keeps_symbols [OF pprof_example_ok(1,2), of "[symbolized_sample]" ?sym pprof_objs pprof_example_env 0 5 "()"]
    by (auto simp: symbolized_sample_locations list_all2_Cons1)
qed

text \<open>A function and what is inlined into it: both frames become one location.\<close>

lemma inlined_frame_hides_function:
  "\<exists>p. to_pprof pprof_example_env pprof_procs pprof_objs 0 5 19
       [pprof_sample\<lparr>as_ustack := [symbolized 0x402020 ''inlined'' True 0x2000, symbolized 0x402020 ''outer'' False 0x2000], as_kstack := []\<rparr>] ()
     = Some p \<and> smp_location_id (pr_sample p ! 0) ! 0 = smp_location_id (pr_sample p ! 0) ! 1"
proof -
  let ?s = "pprof_sample\<lparr>as_ustack := [symbolized 0x402020 ''inlined'' True 0x2000, symbolized 0x402020 ''outer'' False 0x2000], as_kstack := []\<rparr>"
  have "sample_locations pprof_procs pprof_objs ?s = [(7, 0x2000), (7, 0x2000)]"
    by (simp add: sample_locations_def pprof_sample_def frame_location_def frame_address_def pprof_procs_def
      pprof_objs_def symbolized_def for_address_def KERNEL_PID_def)
  with same_address_same_location [OF pprof_example_ok(1,2), of 0 "[?s]" 0 pprof_objs 1 pprof_example_env 0 5 "()"] show ?thesis
    by simp
qed

end
