(* ===== verification/Ksyms.thy ===== *)
theory Ksyms
  imports Frames
begin

text \<open>
  The symbols of the kernel: src/src/ksym.rs, \<open>kernel_addresses\<close> of src/src/kernel.rs and
  \<open>symbolize_kernel_stack\<close> of src/src/profile/convert.rs. The argument of \<open>KsymIter\<close> is the text of
  \<open>/proc/kallsyms\<close>; reading it does not fail.
\<close>

section \<open>Reading \<open>/proc/kallsyms\<close>\<close>

record Ksym =
  start_addr :: u64
  symbol_name :: string

text \<open>The lines that \<open>read_line\<close> yields, each with its newline.\<close>

fun lines_of :: "string \<Rightarrow> string list" where
  "lines_of [] = []"
| "lines_of (c # cs) =
     (if c = CHR 0x0A then [c] # lines_of cs
      else case lines_of cs of [] \<Rightarrow> [[c]] | line # rest \<Rightarrow> (c # line) # rest)"

definition parse_ksym :: "string \<Rightarrow> Ksym option" where
  "parse_ksym line =
     (case split_on (CHR '' '') line of
        addr_str # symbol_type # name # _ \<Rightarrow>
          if symbol_type = ''T'' \<or> symbol_type = ''t'' \<or> symbol_type = ''W'' \<or> symbol_type = ''D''
          then map_option (\<lambda>a. \<lparr>start_addr = of_nat a, symbol_name = trim name\<rparr>) (from_str_radix 16 U64_MAX addr_str)
          else None
      | _ \<Rightarrow> None)"

definition ksym_iter :: "string \<Rightarrow> Ksym list" where
  "ksym_iter kallsyms = List.map_filter parse_ksym (lines_of kallsyms)"

section \<open>The address range of the kernel\<close>

fun kernel_addresses_loop :: "u64 option \<Rightarrow> u64 option \<Rightarrow> Ksym list \<Rightarrow> (u64 \<times> u64) option" where
  "kernel_addresses_loop (Some start) (Some stop) ksyms = Some (start, stop)"
| "kernel_addresses_loop start stop [] = None"
| "kernel_addresses_loop start stop (k # ksyms) =
     kernel_addresses_loop
       (if symbol_name k = ''_stext'' then Some (start_addr k) else start)
       (if symbol_name k = ''_etext'' then Some (start_addr k) else stop) ksyms"

definition kernel_addresses :: "string \<Rightarrow> (u64 \<times> u64) option" where
  "kernel_addresses kallsyms = kernel_addresses_loop None None (ksym_iter kallsyms)"

section \<open>Symbolising kernel stacks\<close>

text \<open>\<open>slice::binary_search_by\<close> of the standard library: \<open>Inr\<close> an index that matches, \<open>Inl\<close> where to insert.\<close>

function binary_search_loop :: "u64 list \<Rightarrow> u64 \<Rightarrow> nat \<Rightarrow> nat \<Rightarrow> nat" where
  "binary_search_loop xs x base n =
     (if n \<le> 1 then base
      else let half = n div 2; mid = base + half
           in binary_search_loop xs x (if x < xs ! mid then base else mid) (n - half))"
  by pat_completeness auto
termination by (relation "measure (\<lambda>(xs, x, base, n). n)") auto

declare binary_search_loop.simps [simp del]

definition binary_search :: "u64 list \<Rightarrow> u64 \<Rightarrow> nat + nat" where
  "binary_search xs x =
     (if xs = [] then Inl 0
      else let base = binary_search_loop xs x 0 (length xs)
           in if xs ! base = x then Inr base else Inl (base + (if xs ! base < x then 1 else 0)))"

definition ksym_for :: "Ksym list \<Rightarrow> u64 \<Rightarrow> Ksym" where
  "ksym_for ksyms virtual_address =
     (case binary_search (map start_addr ksyms) virtual_address of
        Inr idx \<Rightarrow> ksyms ! idx
      | Inl idx \<Rightarrow>
          if 0 < idx then ksyms ! (idx - 1)
          else \<lparr>start_addr = of_nat idx, symbol_name = ''<not found '' @ fmt_dec (unat virtual_address) @ ''>''\<rparr>)"

definition symbolize_kernel_stack :: "Ksym list \<Rightarrow> Frame list \<Rightarrow> Frame list" where
  "symbolize_kernel_stack ksyms kernel_stack =
     map (\<lambda>fr. \<lparr>fr_virtual_address = fr_virtual_address fr, fr_file_offset = None, fr_symbolization_result =
          Some (Inr \<lparr>sf_name = symbol_name (ksym_for ksyms (fr_virtual_address fr)), sf_inlined = False, sf_filename = None,
            sf_line = None\<rparr>)\<rparr>) kernel_stack"

section \<open>Searching\<close>

text \<open>What the documentation of the search promises, and the symbol that a client finds with it.\<close>

locale slice_search =
  fixes search :: "u64 list \<Rightarrow> u64 \<Rightarrow> nat + nat"
  assumes found: "sorted xs \<Longrightarrow> search xs x = Inr i \<Longrightarrow> i < length xs \<and> xs ! i = x"
    and missing: "sorted xs \<Longrightarrow> search xs x = Inl i \<Longrightarrow> i \<le> length xs \<and> (\<forall>j < i. xs ! j < x) \<and> (\<forall>j < length xs. i \<le> j \<longrightarrow> x < xs ! j)"
begin

definition predecessor :: "u64 list \<Rightarrow> u64 \<Rightarrow> nat option" where
  "predecessor xs x = (case search xs x of Inr i \<Rightarrow> Some i | Inl i \<Rightarrow> if 0 < i then Some (i - 1) else None)"

lemma predecessor_Some:
  assumes "sorted xs" "predecessor xs x = Some i"
  shows "i < length xs \<and> xs ! i \<le> x \<and> (\<forall>y \<in> set xs. y \<le> x \<longrightarrow> y \<le> xs ! i)"
proof (cases "search xs x")
  case (Inr j)
  then show ?thesis using assms found [OF assms(1) Inr] by (auto simp: predecessor_def)
next
  case (Inl j)
  have j: "0 < j" "i = j - 1" using assms(2) Inl by (auto simp: predecessor_def split: if_splits)
  note m = missing [OF assms(1) Inl]
  have "y \<le> xs ! i" if "y \<in> set xs" "y \<le> x" for y
  proof -
    obtain k where k: "k < length xs" "xs ! k = y" using \<open>y \<in> set xs\<close> by (auto simp: in_set_conv_nth)
    then have "k < j" using m \<open>y \<le> x\<close> by (metis linorder_not_less)
    then have "k \<le> i" using j by simp
    then show ?thesis using sorted_nth_mono [OF assms(1), of k i] k(2) m j by auto
  qed
  moreover have "i < length xs" "xs ! i < x" using m j by auto
  ultimately show ?thesis by (simp add: less_imp_le)
qed

lemma predecessor_None: "sorted xs \<Longrightarrow> predecessor xs x = None \<Longrightarrow> y \<in> set xs \<Longrightarrow> x < y"
  using missing [of xs x 0] by (auto simp: predecessor_def in_set_conv_nth split: sum.splits if_splits)

end

lemma binary_search_loop_bounds:
  assumes "sorted xs" "0 < n" "base + n \<le> length xs" "\<forall>j < base. xs ! j \<le> x"
    and "0 < base \<longrightarrow> xs ! base \<le> x" "\<forall>j < length xs. base + n \<le> j \<longrightarrow> x < xs ! j"
  defines "r \<equiv> binary_search_loop xs x base n"
  shows "r < length xs \<and> (\<forall>j < r. xs ! j \<le> x) \<and> (0 < r \<longrightarrow> xs ! r \<le> x) \<and> (\<forall>j < length xs. r < j \<longrightarrow> x < xs ! j)"
  unfolding r_def using assms(1-6)
proof (induction xs x base n rule: binary_search_loop.induct)
  case (1 xs x base n)
  show ?case
  proof (cases "n \<le> 1")
    case True
    then show ?thesis using "1.prems" by (auto simp: binary_search_loop.simps [of xs x base n])
  next
    case False
    define mid where "mid = base + n div 2"
    have mid: "base < mid" "mid < base + n" using False by (auto simp: mid_def)
    let ?base = "if x < xs ! mid then base else mid"
    have "xs ! j \<le> xs ! mid" if "j < mid" for j
      using sorted_nth_mono [OF "1.prems"(1), of j mid] that mid "1.prems"(3) by simp
    then have "\<forall>j < ?base. xs ! j \<le> x"
      using "1.prems"(4) by (auto simp: not_less intro: order_trans)
    moreover have "\<forall>j < length xs. ?base + (n - n div 2) \<le> j \<longrightarrow> x < xs ! j"
    proof (intro allI impI)
      fix j
      assume j: "j < length xs" "?base + (n - n div 2) \<le> j"
      show "x < xs ! j"
      proof (cases "x < xs ! mid")
        case True
        then have "mid \<le> j" using j(2) by (auto simp: mid_def)
        then show ?thesis using True sorted_nth_mono [OF "1.prems"(1), of mid j] j(1) by auto
      next
        case False
        then show ?thesis using "1.prems"(6) j by (auto simp: mid_def)
      qed
    qed
    moreover have "?base + (n - n div 2) \<le> length xs" using "1.prems"(3) by (auto simp: mid_def)
    moreover have "0 < ?base \<longrightarrow> xs ! ?base \<le> x" using "1.prems"(5) by auto
    moreover have "binary_search_loop xs x base n = binary_search_loop xs x ?base (n - n div 2)"
      using False by (subst binary_search_loop.simps) (simp add: Let_def mid_def)
    moreover have "0 < n - n div 2" using False by simp
    ultimately show ?thesis using "1.IH" [OF False refl mid_def "1.prems"(1)] by presburger
  qed
qed

interpretation rust_search: slice_search binary_search
proof
  fix xs :: "u64 list" and x i
  assume s: "sorted xs"
  let ?b = "binary_search_loop xs x 0 (length xs)"
  have b: "?b < length xs \<and> (\<forall>j < ?b. xs ! j \<le> x) \<and> (0 < ?b \<longrightarrow> xs ! ?b \<le> x) \<and> (\<forall>j < length xs. ?b < j \<longrightarrow> x < xs ! j)"
    if "xs \<noteq> []" using binary_search_loop_bounds [OF s, of "length xs" 0 x] that by simp
  show "i < length xs \<and> xs ! i = x" if "binary_search xs x = Inr i"
    using that b by (auto simp: binary_search_def Let_def split: if_splits)
  show "i \<le> length xs \<and> (\<forall>j < i. xs ! j < x) \<and> (\<forall>j < length xs. i \<le> j \<longrightarrow> x < xs ! j)" if r: "binary_search xs x = Inl i"
  proof (cases "xs = []")
    case True
    then show ?thesis using r by (simp add: binary_search_def)
  next
    case False
    have ne: "xs ! ?b \<noteq> x" and i: "i = ?b + (if xs ! ?b < x then 1 else 0)"
      using r False by (auto simp: binary_search_def Let_def split: if_splits)
    show ?thesis
    proof (cases "xs ! ?b < x")
      case True
      then have "xs ! j < x" if "j < i" for j
        using sorted_nth_mono [OF s, of j ?b] that i b [OF False] by auto
      then show ?thesis using True i b [OF False] by auto
    next
      case gt: False
      then have zero: "?b = 0" and first: "x < xs ! 0" using ne b [OF False] by auto
      have "x < xs ! j" if "j < length xs" for j
        using first sorted_nth_mono [OF s, of 0 j] that by simp
      then show ?thesis using gt i zero by simp
    qed
  qed
qed

section \<open>Properties\<close>

definition nearest_symbols :: "Ksym list \<Rightarrow> u64 \<Rightarrow> string set" where
  "nearest_symbols ksyms va =
     {symbol_name k | k. k \<in> set ksyms \<and> start_addr k \<le> va \<and>
        (\<forall>k' \<in> set ksyms. start_addr k' \<le> va \<longrightarrow> start_addr k' \<le> start_addr k)}"

definition frame_name :: "Frame \<Rightarrow> string" where
  "frame_name fr = (case fr_symbolization_result fr of Some (Inr s) \<Rightarrow> sf_name s | _ \<Rightarrow> '''')"

lemma ksym_for_predecessor:
  "ksym_for ksyms va =
     (case rust_search.predecessor (map start_addr ksyms) va of
        Some i \<Rightarrow> ksyms ! i
      | None \<Rightarrow> \<lparr>start_addr = 0, symbol_name = ''<not found '' @ fmt_dec (unat va) @ ''>''\<rparr>)"
  by (auto simp: ksym_for_def rust_search.predecessor_def split: sum.splits)

text \<open>
  C33. Kernel frames get the name of the nearest symbol: when the symbols are in the order of their addresses, the
  name of a frame is that of a symbol with the greatest start address not above the address of the frame,
  and the text \<open>not found\<close> when all symbols are above it. Addresses stay as they are.
\<close>

theorem kernel_symbols_are_nearest:
  assumes "sorted (map start_addr ksyms)"
  shows "list_all2 (\<lambda>fr fr'. fr_virtual_address fr' = fr_virtual_address fr \<and>
      (if \<forall>k \<in> set ksyms. fr_virtual_address fr < start_addr k
       then frame_name fr' = ''<not found '' @ fmt_dec (unat (fr_virtual_address fr)) @ ''>''
       else frame_name fr' \<in> nearest_symbols ksyms (fr_virtual_address fr)))
    stack (symbolize_kernel_stack ksyms stack)"
proof -
  have "if \<forall>k \<in> set ksyms. va < start_addr k then symbol_name (ksym_for ksyms va) = ''<not found '' @ fmt_dec (unat va) @ ''>''
      else symbol_name (ksym_for ksyms va) \<in> nearest_symbols ksyms va" for va
  proof (cases "rust_search.predecessor (map start_addr ksyms) va")
    case None
    then have "\<forall>k \<in> set ksyms. va < start_addr k" using rust_search.predecessor_None [OF assms None] by simp
    then show ?thesis using None by (simp add: ksym_for_predecessor)
  next
    case (Some i)
    note p = rust_search.predecessor_Some [OF assms Some]
    then have i: "i < length ksyms" "start_addr (ksyms ! i) \<le> va" by auto
    then have "symbol_name (ksyms ! i) \<in> nearest_symbols ksyms va"
      using p by (auto simp: nearest_symbols_def intro!: exI [of _ "ksyms ! i"])
    moreover have "\<not> (\<forall>k \<in> set ksyms. va < start_addr k)" using i nth_mem [OF i(1)] by (auto simp: not_less)
    ultimately show ?thesis using Some by (auto simp: ksym_for_predecessor)
  qed
  then show ?thesis by (simp add: symbolize_kernel_stack_def list_all2_conv_all_nth frame_name_def)
qed

theorem kernel_symbols_are_nearest_witness:
  "frame_name (symbolize_kernel_stack
      [\<lparr>start_addr = 0x1000, symbol_name = ''_stext''\<rparr>, \<lparr>start_addr = 0x2000, symbol_name = ''do_idle''\<rparr>]
      [\<lparr>fr_virtual_address = 0x2010, fr_file_offset = None, fr_symbolization_result = None\<rparr>] ! 0) = ''do_idle''"
  using kernel_symbols_are_nearest [of "[\<lparr>start_addr = 0x1000, symbol_name = ''_stext''\<rparr>, \<lparr>start_addr = 0x2000, symbol_name = ''do_idle''\<rparr>]"
    "[\<lparr>fr_virtual_address = 0x2010, fr_file_offset = None, fr_symbolization_result = None\<rparr>]"]
  by (auto simp: nearest_symbols_def list_all2_Cons1)

text \<open>
  The symbols are searched in the order of the file, which is not that of the addresses where modules are
  loaded below the kernel: here a symbol of a module is taken for that of a kernel function.
\<close>

lemma unsorted_symbols_mislead:
  "symbol_name (ksym_for
      [\<lparr>start_addr = 0x8000, symbol_name = ''_stext''\<rparr>, \<lparr>start_addr = 0x9000, symbol_name = ''do_idle''\<rparr>,
       \<lparr>start_addr = 0x1000, symbol_name = ''mod_init''\<rparr>, \<lparr>start_addr = 0x2000, symbol_name = ''mod_exit''\<rparr>] 0x9010) = ''mod_exit''"
  by (simp add: ksym_for_def binary_search_def binary_search_loop.simps)

text \<open>A line of the file, with an address padded by zeros.\<close>

record kallsyms_entry =
  ke_zeros :: nat
  ke_addr :: u64
  ke_type :: string
  ke_name :: string

definition kallsyms_line :: "kallsyms_entry \<Rightarrow> string" where
  "kallsyms_line e =
     replicate (ke_zeros e) (CHR ''0'') @ fmt_hex (unat (ke_addr e)) @ '' '' @ ke_type e @ '' '' @ ke_name e @ [CHR 0x0A]"

definition entry_wf :: "kallsyms_entry \<Rightarrow> bool" where
  "entry_wf e \<longleftrightarrow>
     CHR '' '' \<notin> set (ke_type e) \<and> CHR 0x0A \<notin> set (ke_type e) \<and> ke_name e \<noteq> [] \<and>
     \<not> is_whitespace (hd (ke_name e)) \<and> \<not> is_whitespace (last (ke_name e)) \<and>
     CHR '' '' \<notin> set (ke_name e) \<and> CHR 0x0A \<notin> set (ke_name e)"

definition entry_listed :: "kallsyms_entry \<Rightarrow> bool" where
  "entry_listed e \<longleftrightarrow> ke_type e \<in> {''T'', ''t'', ''W'', ''D''}"

lemma lines_of_line: "CHR 0x0A \<notin> set l \<Longrightarrow> lines_of (l @ CHR 0x0A # cs) = (l @ [CHR 0x0A]) # lines_of cs"
  by (induction l) auto

lemma from_str_radix_zeros:
  assumes "n \<le> limit"
  shows "from_str_radix 16 limit (replicate z (CHR ''0'') @ fmt_hex n) = Some n"
proof (cases z)
  case 0
  then show ?thesis using from_str_radix_fmt_radix [of 16 n limit] assms by (simp add: fmt_hex_def)
next
  case (Suc k)
  have "to_digit 16 (CHR ''0'') = Some 0" using to_digit_digit_char [of 0 16] by simp
  then have "digits_value 16 limit 0 (replicate m (CHR ''0'')) = Some 0" for m by (induction m) simp_all
  then have "digits_value 16 limit 0 (replicate z (CHR ''0'') @ fmt_hex n) = Some n"
    using digits_value_fmt_radix [of 16 n limit] assms unfolding digits_value_append fmt_hex_def by simp
  then show ?thesis unfolding Suc by (simp add: fmt_hex_def)
qed

lemma fmt_hex_plain: "CHR '' '' \<notin> set (fmt_hex n)" "CHR 0x0A \<notin> set (fmt_hex n)"
proof -
  have "\<not> is_whitespace c" if "c \<in> set (fmt_hex n)" for c
    using that set_fmt_radix [of 16 n] by (auto simp: fmt_hex_def)
  moreover have "is_whitespace (CHR '' '')" "is_whitespace (CHR 0x0A)" by (simp_all add: is_whitespace_def)
  ultimately show "CHR '' '' \<notin> set (fmt_hex n)" "CHR 0x0A \<notin> set (fmt_hex n)" by blast+
qed

lemma parse_ksym_line:
  assumes "entry_wf e"
  shows "parse_ksym (kallsyms_line e) =
    (if entry_listed e then Some \<lparr>start_addr = ke_addr e, symbol_name = ke_name e\<rparr> else None)"
proof -
  have addr: "from_str_radix 16 U64_MAX (replicate (ke_zeros e) (CHR ''0'') @ fmt_hex (unat (ke_addr e))) = Some (unat (ke_addr e))"
  proof (rule from_str_radix_zeros)
    have "unat (ke_addr e) < 2 ^ 64" using unsigned_less [of "ke_addr e"] by simp
    then show "unat (ke_addr e) \<le> U64_MAX" by simp
  qed
  have "trim (ke_name e @ [CHR 0x0A]) = ke_name e"
    using assms trim_end_append [of "ke_name e" "[CHR 0x0A]"]
    by (cases "ke_name e") (auto simp: trim_def entry_wf_def is_whitespace_def)
  moreover have "split_on (CHR '' '') (kallsyms_line e) =
      [replicate (ke_zeros e) (CHR ''0'') @ fmt_hex (unat (ke_addr e)), ke_type e, ke_name e @ [CHR 0x0A]]"
    using assms fmt_hex_plain(1) [of "unat (ke_addr e)"]
      split_on_append_sep [of "CHR '' ''" "replicate (ke_zeros e) (CHR ''0'') @ fmt_hex (unat (ke_addr e))"]
    by (simp add: kallsyms_line_def entry_wf_def split_on_append_sep split_on_absent)
  ultimately show ?thesis using addr by (auto simp: parse_ksym_def entry_listed_def)
qed

text \<open>
  Every symbol of the listed types is read from \<open>/proc/kallsyms\<close>, in the order of the file, with its address
  and its name, and no other line is.
\<close>

lemma kallsyms_is_read:
  assumes "list_all entry_wf es"
  shows "ksym_iter (concat (map kallsyms_line es)) =
    map (\<lambda>e. \<lparr>start_addr = ke_addr e, symbol_name = ke_name e\<rparr>) (filter entry_listed es)"
  using assms
proof (induction es)
  case (Cons e es)
  have "CHR 0x0A \<notin> set (butlast (kallsyms_line e))"
    using Cons.prems fmt_hex_plain(2) [of "unat (ke_addr e)"] by (auto simp: kallsyms_line_def entry_wf_def butlast_append)
  moreover have "kallsyms_line e = butlast (kallsyms_line e) @ [CHR 0x0A]" by (simp add: kallsyms_line_def butlast_append)
  ultimately have "lines_of (kallsyms_line e @ cs) = kallsyms_line e # lines_of cs" for cs
    using lines_of_line [of "butlast (kallsyms_line e)" cs] by (metis append.assoc append_Cons append_Nil)
  with Cons parse_ksym_line [of e] show ?case by (simp add: ksym_iter_def)
qed (simp add: ksym_iter_def)

lemma kallsyms_is_read_example:
  "ksym_iter (kallsyms_line \<lparr>ke_zeros = 16, ke_addr = 0, ke_type = ''A'', ke_name = ''fixed_percpu_data''\<rparr> @
      kallsyms_line \<lparr>ke_zeros = 0, ke_addr = 0xffffffffa2000000, ke_type = ''T'', ke_name = ''startup_64''\<rparr>) =
   [\<lparr>start_addr = 0xffffffffa2000000, symbol_name = ''startup_64''\<rparr>]"
  using kallsyms_is_read [of "[\<lparr>ke_zeros = 16, ke_addr = 0, ke_type = ''A'', ke_name = ''fixed_percpu_data''\<rparr>,
      \<lparr>ke_zeros = 0, ke_addr = 0xffffffffa2000000, ke_type = ''T'', ke_name = ''startup_64''\<rparr>]"]
  by (simp add: entry_wf_def entry_listed_def is_whitespace_def)

text \<open>The kernel spans from \<open>_stext\<close> to \<open>_etext\<close>, when each occurs once.\<close>

lemma kernel_addresses_found:
  "kernel_addresses_loop a b ks = Some (start, stop) \<Longrightarrow> a = None \<or> (\<exists>k \<in> set seen. symbol_name k = ''_stext'' \<and> start_addr k = the a) \<Longrightarrow>
     b = None \<or> (\<exists>k \<in> set seen. symbol_name k = ''_etext'' \<and> start_addr k = the b) \<Longrightarrow>
     (\<exists>k \<in> set (seen @ ks). symbol_name k = ''_stext'' \<and> start_addr k = start) \<and>
     (\<exists>k \<in> set (seen @ ks). symbol_name k = ''_etext'' \<and> start_addr k = stop)"
proof (induction ks arbitrary: a b seen)
  case Nil
  then show ?case by (cases a; cases b) auto
next
  case (Cons k ks)
  show ?case
  proof (cases "a \<noteq> None \<and> b \<noteq> None")
    case True
    then show ?thesis using Cons.prems by auto
  next
    case False
    then have "kernel_addresses_loop (if symbol_name k = ''_stext'' then Some (start_addr k) else a)
        (if symbol_name k = ''_etext'' then Some (start_addr k) else b) ks = Some (start, stop)"
      using Cons.prems(1) by (cases a; cases b) (auto simp only: kernel_addresses_loop.simps option.distinct simp_thms)
    from Cons.IH [OF this, of "seen @ [k]"] Cons.prems(2,3) show ?thesis by auto
  qed
qed

end
