(* ===== verification/Symbolize.thy ===== *)
theory Symbolize
  imports Pprof_Convert Ksyms "HOL-Library.AList"
begin

text \<open>
  Local symbolisation: \<open>symbolize_native_stack_blaze\<close> of src/src/usym.rs, and \<open>fetch_symbols_for_profile\<close>,
  \<open>symbolize_user_stack\<close> and \<open>symbolize_profile\<close> of src/src/profile/convert.rs. The symboliser of the \<open>blazesym\<close>
  crate is a parameter. Hash maps are association lists: a map and its clone are iterated in the
  same order, which is that of insertion here.
\<close>

section \<open>The symboliser\<close>

record CodeInfo =
  ci_file :: string
  ci_line :: "nat option"

record InlinedFn =
  if_name :: string
  if_code_info :: "CodeInfo option"

datatype Symbolized = Sym string u64 "CodeInfo option" "InlinedFn list" | Unknown string

text \<open>For the path of an object file and offsets into it, an error or a result for each offset.\<close>

type_synonym symbolizer = "string \<Rightarrow> u64 list \<Rightarrow> string + Symbolized list"

record FrameAddress =
  fa_virtual_address :: u64
  fa_file_offset :: u64

definition symbolized_frame :: "u64 \<Rightarrow> u64 \<Rightarrow> string \<Rightarrow> bool \<Rightarrow> CodeInfo option \<Rightarrow> Frame" where
  "symbolized_frame virtual_address addr name inlined code_info =
     \<lparr>fr_virtual_address = virtual_address, fr_file_offset = Some addr, fr_symbolization_result =
        Some (Inr \<lparr>sf_name = name, sf_inlined = inlined, sf_filename = map_option ci_file code_info,
          sf_line = Option.bind code_info ci_line\<rparr>)\<rparr>"

fun frames_of_symbol :: "u64 \<Rightarrow> Symbolized \<Rightarrow> Frame list" where
  "frames_of_symbol virtual_address (Sym name addr code_info inlined) =
     map (\<lambda>f. symbolized_frame virtual_address addr (if_name f) True (if_code_info f)) (rev inlined) @
     [symbolized_frame virtual_address addr name False code_info]"
| "frames_of_symbol virtual_address (Unknown r) =
     [\<lparr>fr_virtual_address = virtual_address, fr_file_offset = None,
       fr_symbolization_result = Some (Inl (Generic (''<blazesym: unknown symbol due to '' @ r @ ''>'')))\<rparr>]"

definition symbolize_native_stack_blaze :: "symbolizer \<Rightarrow> FrameAddress list \<Rightarrow> string \<Rightarrow> Frame list list" where
  "symbolize_native_stack_blaze blaze address_pairs object_path =
     (case blaze object_path (map fa_file_offset address_pairs) of
        Inl e \<Rightarrow> replicate (length address_pairs) [with_error 0xBAD (''<blazesym: failed to symbolize due to '' @ e)]
      | Inr syms \<Rightarrow> map (\<lambda>(symbol, virtual_address). frames_of_symbol virtual_address symbol)
          (zip syms (map fa_virtual_address address_pairs)))"

section \<open>Fetching the symbols of a profile\<close>

type_synonym symbols = "(string \<times> (FrameAddress \<times> Frame list) list) list"

definition insert_address :: "string \<Rightarrow> FrameAddress \<Rightarrow> symbols \<Rightarrow> symbols" where
  "insert_address path fa m =
     AList.update path (AList.update fa [] (case map_of m path of Some inner \<Rightarrow> inner | None \<Rightarrow> [])) m"

definition collect_frame ::
    "ExecutableMapping list \<Rightarrow> (u64 \<rightharpoonup> ObjectFileInfo) \<Rightarrow> Frame \<Rightarrow> symbols \<Rightarrow> symbols" where
  "collect_frame ms objs fr m =
     (case for_address ms (fr_virtual_address fr) of
        None \<Rightarrow> m
      | Some mapping \<Rightarrow>
          (case fr_file_offset fr of
             None \<Rightarrow> m
           | Some off \<Rightarrow>
               (case objs (em_executable_id mapping) of
                  Some obj \<Rightarrow> insert_address (of_path obj) \<lparr>fa_virtual_address = fr_virtual_address fr, fa_file_offset = off\<rparr> m
                | None \<Rightarrow> m)))"

definition collect_sample ::
    "(s32 \<rightharpoonup> ProcessInfo) \<Rightarrow> (u64 \<rightharpoonup> ObjectFileInfo) \<Rightarrow> AggregatedSample \<Rightarrow> symbols \<Rightarrow> symbols" where
  "collect_sample ps objs sample m =
     (if as_ustack sample = [] then m
      else case ps (as_pid sample) of
          None \<Rightarrow> m
        | Some info \<Rightarrow> fold (collect_frame (pi_mappings info) objs) (as_ustack sample) m)"

definition symbolize_addresses :: "symbolizer \<Rightarrow> string \<Rightarrow> (FrameAddress \<times> Frame list) list \<Rightarrow> (FrameAddress \<times> Frame list) list" where
  "symbolize_addresses blaze path inner =
     fold (\<lambda>((frame_address, _), symbolized_frame) m. AList.update frame_address symbolized_frame m)
       (zip inner (symbolize_native_stack_blaze blaze (map fst inner) path)) inner"

definition fetch_symbols_for_profile ::
    "symbolizer \<Rightarrow> (s32 \<rightharpoonup> ProcessInfo) \<Rightarrow> (u64 \<rightharpoonup> ObjectFileInfo) \<Rightarrow> AggregatedSample list \<Rightarrow> symbols" where
  "fetch_symbols_for_profile blaze ps objs profile =
     map (\<lambda>(path, inner). (path, symbolize_addresses blaze path inner)) (fold (collect_sample ps objs) profile [])"

section \<open>Symbolising stacks\<close>

definition symbolize_user_frame ::
    "symbols \<Rightarrow> (s32 \<rightharpoonup> ProcessInfo) \<Rightarrow> (u64 \<rightharpoonup> ObjectFileInfo) \<Rightarrow> s32 \<Rightarrow> Frame \<Rightarrow> Frame list" where
  "symbolize_user_frame addresses_per_sample ps objs pid fr =
     (case ps pid of
        None \<Rightarrow> [with_error (fr_virtual_address fr) ''<could not find process>'']
      | Some info \<Rightarrow>
          (case for_address (pi_mappings info) (fr_virtual_address fr) of
             None \<Rightarrow> [with_error (fr_virtual_address fr) ''<could not find mapping>'']
           | Some mapping \<Rightarrow>
               (case fr_file_offset fr of
                  None \<Rightarrow> []
                | Some off \<Rightarrow>
                    (case objs (em_executable_id mapping) of
                       None \<Rightarrow> []
                     | Some obj \<Rightarrow>
                         (case map_of addresses_per_sample (of_path obj) of
                            Some v \<Rightarrow>
                              (case map_of v \<lparr>fa_virtual_address = fr_virtual_address fr, fa_file_offset = off\<rparr> of
                                 Some frames \<Rightarrow> frames
                               | None \<Rightarrow> [with_error (fr_virtual_address fr) ''<failed to fetch symbol for addr>''])
                          | None \<Rightarrow> [with_error (fr_virtual_address fr) ''<failed to symbolize>''])))))"

definition symbolize_user_stack ::
    "symbols \<Rightarrow> (s32 \<rightharpoonup> ProcessInfo) \<Rightarrow> (u64 \<rightharpoonup> ObjectFileInfo) \<Rightarrow> s32 \<Rightarrow> Frame list \<Rightarrow> Frame list" where
  "symbolize_user_stack addresses_per_sample ps objs pid native_stack =
     concat (map (symbolize_user_frame addresses_per_sample ps objs pid) native_stack)"

definition symbolize_profile ::
    "symbolizer \<Rightarrow> string \<Rightarrow> (s32 \<rightharpoonup> ProcessInfo) \<Rightarrow> (u64 \<rightharpoonup> ObjectFileInfo) \<Rightarrow> AggregatedSample list \<Rightarrow> AggregatedSample list" where
  "symbolize_profile blaze kallsyms ps objs profile =
     (let addresses_per_sample = fetch_symbols_for_profile blaze ps objs profile;
          ksyms = ksym_iter kallsyms
      in map (\<lambda>sample. \<lparr>as_pid = as_pid sample, as_tid = as_tid sample,
           as_ustack = symbolize_user_stack addresses_per_sample ps objs (as_pid sample) (as_ustack sample),
           as_kstack = symbolize_kernel_stack ksyms (as_kstack sample), as_count = as_count sample\<rparr>) profile)"

section \<open>One frame at a time\<close>

text \<open>
  What the documentation of the symboliser promises: for an object file either an error, or for each offset its
  own result.
\<close>

definition blaze_ok :: "symbolizer \<Rightarrow> (string \<Rightarrow> string + (u64 \<Rightarrow> Symbolized)) \<Rightarrow> bool" where
  "blaze_ok blaze one \<longleftrightarrow>
     (\<forall>path offsets. blaze path offsets = (case one path of Inl e \<Rightarrow> Inl e | Inr g \<Rightarrow> Inr (map g offsets)))"

definition address_symbols :: "(string \<Rightarrow> string + (u64 \<Rightarrow> Symbolized)) \<Rightarrow> string \<Rightarrow> FrameAddress \<Rightarrow> Frame list" where
  "address_symbols one path fa =
     (case one path of
        Inl e \<Rightarrow> [with_error 0xBAD (''<blazesym: failed to symbolize due to '' @ e)]
      | Inr g \<Rightarrow> frames_of_symbol (fa_virtual_address fa) (g (fa_file_offset fa)))"

text \<open>The frames that a frame becomes, without the tables of the profile.\<close>

definition frame_symbols ::
    "(string \<Rightarrow> string + (u64 \<Rightarrow> Symbolized)) \<Rightarrow> (s32 \<rightharpoonup> ProcessInfo) \<Rightarrow> (u64 \<rightharpoonup> ObjectFileInfo) \<Rightarrow> s32 \<Rightarrow> Frame \<Rightarrow> Frame list" where
  "frame_symbols one ps objs pid fr =
     (case ps pid of
        None \<Rightarrow> [with_error (fr_virtual_address fr) ''<could not find process>'']
      | Some info \<Rightarrow>
          (case for_address (pi_mappings info) (fr_virtual_address fr) of
             None \<Rightarrow> [with_error (fr_virtual_address fr) ''<could not find mapping>'']
           | Some mapping \<Rightarrow>
               (case (fr_file_offset fr, objs (em_executable_id mapping)) of
                  (Some off, Some obj) \<Rightarrow>
                    address_symbols one (of_path obj) \<lparr>fa_virtual_address = fr_virtual_address fr, fa_file_offset = off\<rparr>
                | _ \<Rightarrow> [])))"

lemma symbolize_native_stack_one:
  assumes "blaze_ok blaze one"
  shows "symbolize_native_stack_blaze blaze pairs path = map (address_symbols one path) pairs"
proof (cases "one path")
  case (Inl e)
  then show ?thesis using assms
    by (simp add: blaze_ok_def symbolize_native_stack_blaze_def address_symbols_def [abs_def] map_replicate_const)
next
  case (Inr g)
  then show ?thesis using assms
    by (simp add: blaze_ok_def symbolize_native_stack_blaze_def address_symbols_def zip_map_map zip_same_conv_map)
qed

lemma fold_update_zip:
  assumes "distinct (map fst inner)"
  shows "map_of (fold (\<lambda>((k, _), v) m. AList.update k v m) (zip inner (map f (map fst inner))) m) k =
    (if k \<in> set (map fst inner) then Some (f k) else map_of m k)"
  using assms
proof (induction inner arbitrary: m)
  case (Cons e inner)
  then show ?case by (cases e) (auto simp: update_conv')
qed simp

lemma symbolize_addresses_map_of:
  assumes "blaze_ok blaze one" "distinct (map fst inner)" "fa \<in> set (map fst inner)"
  shows "map_of (symbolize_addresses blaze path inner) fa = Some (address_symbols one path fa)"
  using fold_update_zip [OF assms(2), of "address_symbols one path" inner fa] assms
  by (simp add: symbolize_addresses_def symbolize_native_stack_one)

text \<open>The addresses that were collected: every table has distinct keys, and the frames of a sample are in them.\<close>

definition addresses_wf :: "symbols \<Rightarrow> bool" where
  "addresses_wf m \<longleftrightarrow> distinct (map fst m) \<and> (\<forall>path inner. map_of m path = Some inner \<longrightarrow> distinct (map fst inner))"

definition has_address :: "symbols \<Rightarrow> string \<Rightarrow> FrameAddress \<Rightarrow> bool" where
  "has_address m path fa \<longleftrightarrow> (\<exists>inner. map_of m path = Some inner \<and> fa \<in> set (map fst inner))"

lemma insert_address_wf: "addresses_wf m \<Longrightarrow> addresses_wf (insert_address path fa m)"
  by (auto simp: addresses_wf_def insert_address_def update_conv' distinct_update split: option.splits)

lemma insert_address_has: "has_address (insert_address path fa m) path' fa' \<longleftrightarrow> path' = path \<and> fa' = fa \<or> has_address m path' fa'"
  by (cases "map_of m path") (auto simp: has_address_def insert_address_def update_conv' dom_update)

definition wanted :: "(s32 \<rightharpoonup> ProcessInfo) \<Rightarrow> (u64 \<rightharpoonup> ObjectFileInfo) \<Rightarrow> s32 \<Rightarrow> Frame \<Rightarrow> string \<Rightarrow> FrameAddress \<Rightarrow> bool" where
  "wanted ps objs pid fr path fa \<longleftrightarrow>
     (\<exists>info mapping obj. ps pid = Some info \<and> for_address (pi_mappings info) (fr_virtual_address fr) = Some mapping \<and>
        objs (em_executable_id mapping) = Some obj \<and> path = of_path obj \<and> fa_virtual_address fa = fr_virtual_address fr \<and>
        fr_file_offset fr = Some (fa_file_offset fa))"

lemma collect_frame_wf: "addresses_wf m \<Longrightarrow> addresses_wf (collect_frame ms objs fr m)"
  by (auto simp: collect_frame_def insert_address_wf split: option.splits)

lemma collect_frame_has:
  assumes "ps pid = Some info"
  shows "has_address (collect_frame (pi_mappings info) objs fr m) path fa \<longleftrightarrow> wanted ps objs pid fr path fa \<or> has_address m path fa"
  using assms by (cases fa) (auto simp: collect_frame_def insert_address_has wanted_def split: option.splits)

lemma collect_sample_has:
  "has_address (collect_sample ps objs sample m) path fa \<longleftrightarrow>
     (\<exists>fr \<in> set (as_ustack sample). wanted ps objs (as_pid sample) fr path fa) \<or> has_address m path fa"
proof (cases "ps (as_pid sample)")
  case (Some info)
  have "has_address (fold (collect_frame (pi_mappings info) objs) frs m) path fa \<longleftrightarrow>
      (\<exists>fr \<in> set frs. wanted ps objs (as_pid sample) fr path fa) \<or> has_address m path fa" for frs m
    by (induction frs arbitrary: m) (auto simp: collect_frame_has [of ps "as_pid sample", OF Some])
  then show ?thesis using Some by (auto simp: collect_sample_def)
qed (auto simp: collect_sample_def wanted_def)

lemma collect_sample_wf: "addresses_wf m \<Longrightarrow> addresses_wf (collect_sample ps objs sample m)"
proof -
  have "addresses_wf m \<Longrightarrow> addresses_wf (fold (collect_frame ms objs) frs m)" for ms frs m
    by (induction frs arbitrary: m) (simp_all add: collect_frame_wf)
  then show "addresses_wf m \<Longrightarrow> addresses_wf (collect_sample ps objs sample m)"
    by (simp add: collect_sample_def split: option.split)
qed

lemma collected:
  "addresses_wf m \<Longrightarrow> addresses_wf (fold (collect_sample ps objs) profile m) \<and>
     (\<forall>path fa. has_address (fold (collect_sample ps objs) profile m) path fa \<longleftrightarrow>
        (\<exists>sample \<in> set profile. \<exists>fr \<in> set (as_ustack sample). wanted ps objs (as_pid sample) fr path fa) \<or> has_address m path fa)"
  by (induction profile arbitrary: m) (auto simp: collect_sample_has collect_sample_wf)

lemma map_of_map_key: "map_of (map (\<lambda>(k, v). (k, f k v)) m) k = map_option (f k) (map_of m k)"
  by (induction m) auto

lemma fetched:
  assumes "blaze_ok blaze one" "sample \<in> set profile" "fr \<in> set (as_ustack sample)" "wanted ps objs (as_pid sample) fr path fa"
  shows "\<exists>v. map_of (fetch_symbols_for_profile blaze ps objs profile) path = Some v \<and> map_of v fa = Some (address_symbols one path fa)"
proof -
  let ?m = "fold (collect_sample ps objs) profile []"
  have "addresses_wf ?m \<and> has_address ?m path fa"
    using collected [of "[]" ps objs profile] assms(2-4) by (auto simp: addresses_wf_def)
  then obtain inner where inner: "map_of ?m path = Some inner" "fa \<in> set (map fst inner)" "distinct (map fst inner)"
    unfolding has_address_def addresses_wf_def by blast
  then show ?thesis using symbolize_addresses_map_of [OF assms(1) inner(3,2), of path]
    by (simp add: fetch_symbols_for_profile_def map_of_map_key)
qed

lemma symbolize_profile_framewise:
  assumes "blaze_ok blaze one"
  shows "symbolize_profile blaze kallsyms ps objs profile =
    map (\<lambda>sample. sample\<lparr>as_ustack := concat (map (frame_symbols one ps objs (as_pid sample)) (as_ustack sample)),
       as_kstack := symbolize_kernel_stack (ksym_iter kallsyms) (as_kstack sample)\<rparr>) profile"
proof -
  have "symbolize_user_frame (fetch_symbols_for_profile blaze ps objs profile) ps objs (as_pid sample) fr =
      frame_symbols one ps objs (as_pid sample) fr" if s: "sample \<in> set profile" "fr \<in> set (as_ustack sample)" for sample fr
  proof -
    have "\<exists>v. map_of (fetch_symbols_for_profile blaze ps objs profile) (of_path obj) = Some v \<and>
        map_of v \<lparr>fa_virtual_address = fr_virtual_address fr, fa_file_offset = off\<rparr> =
          Some (address_symbols one (of_path obj) \<lparr>fa_virtual_address = fr_virtual_address fr, fa_file_offset = off\<rparr>)"
      if "ps (as_pid sample) = Some info" "for_address (pi_mappings info) (fr_virtual_address fr) = Some mapping"
        "objs (em_executable_id mapping) = Some obj" "fr_file_offset fr = Some off" for info mapping obj off
      using fetched [OF assms s, of ps objs "of_path obj" "\<lparr>fa_virtual_address = fr_virtual_address fr, fa_file_offset = off\<rparr>"] that
      by (auto simp: wanted_def)
    then show ?thesis by (fastforce simp: symbolize_user_frame_def frame_symbols_def split: option.split)
  qed
  then have "symbolize_user_stack (fetch_symbols_for_profile blaze ps objs profile) ps objs (as_pid sample) (as_ustack sample) =
      concat (map (frame_symbols one ps objs (as_pid sample)) (as_ustack sample))" if "sample \<in> set profile" for sample
    using that by (simp add: symbolize_user_stack_def cong: map_cong)
  then show ?thesis by (auto simp: symbolize_profile_def Let_def)
qed

section \<open>Properties\<close>

text \<open>
  C13. Symbolising a profile in bulk, with one request per object file, is the same as symbolising each frame on
  its own: with a symboliser whose result for an offset does not depend on the other offsets, each user frame
  of each sample becomes the frames of its own address in its own object file, inlined functions before the
  function they are in, or an error frame, or nothing when it has no offset or object file; frames stay in
  order, and identities and counts are kept.
\<close>

theorem bulk_symbolization_is_framewise:
  assumes "blaze_ok blaze one"
  shows "symbolize_profile blaze kallsyms ps objs profile =
    map (\<lambda>sample. sample\<lparr>as_ustack := concat (map (frame_symbols one ps objs (as_pid sample)) (as_ustack sample)),
       as_kstack := symbolize_kernel_stack (ksym_iter kallsyms) (as_kstack sample)\<rparr>) profile"
  using assms by (rule symbolize_profile_framewise)

definition example_one :: "string \<Rightarrow> string + (u64 \<Rightarrow> Symbolized)" where
  "example_one path = Inr (\<lambda>off. if off < 0x2000 then Sym ''main'' 0x1000 None []
     else Sym ''outer'' 0x2000 None [\<lparr>if_name = ''inlined'', if_code_info = Some \<lparr>ci_file = ''a.c'', ci_line = Some 7\<rparr>\<rparr>])"

definition example_blaze :: symbolizer where
  "example_blaze path offsets = (case example_one path of Inl e \<Rightarrow> Inl e | Inr g \<Rightarrow> Inr (map g offsets))"

lemma example_blaze_ok: "blaze_ok example_blaze example_one"
  by (simp add: blaze_ok_def example_blaze_def)

definition processed_sample :: AggregatedSample where
  "processed_sample = pprof_sample\<lparr>as_ustack :=
     [\<lparr>fr_virtual_address = 0x402020, fr_file_offset = Some 0x2020, fr_symbolization_result = None\<rparr>,
      \<lparr>fr_virtual_address = 0x401010, fr_file_offset = Some 0x1010, fr_symbolization_result = None\<rparr>], as_kstack := []\<rparr>"

lemma processed_sample_symbols:
  "concat (map (frame_symbols example_one pprof_procs pprof_objs 42) (as_ustack processed_sample)) =
     [symbolized_frame 0x402020 0x2000 ''inlined'' True (Some \<lparr>ci_file = ''a.c'', ci_line = Some 7\<rparr>),
      symbolized 0x402020 ''outer'' False 0x2000, symbolized 0x401010 ''main'' False 0x1000]"
  by (simp add: frame_symbols_def processed_sample_def pprof_sample_def pprof_procs_def pprof_objs_def for_address_def
    address_symbols_def example_one_def KERNEL_PID_def) (simp add: symbolized_frame_def symbolized_def)

theorem bulk_symbolization_is_framewise_witness:
  "map frame_name (as_ustack (symbolize_profile example_blaze '''' pprof_procs pprof_objs [processed_sample] ! 0)) =
     [''inlined'', ''outer'', ''main'']"
proof -
  have "as_pid processed_sample = 42" by (simp add: processed_sample_def pprof_sample_def)
  then show ?thesis using bulk_symbolization_is_framewise [OF example_blaze_ok, of "''''" pprof_procs pprof_objs "[processed_sample]"]
    processed_sample_symbols by (simp add: frame_name_def symbolized_frame_def symbolized_def)
qed

text \<open>
  An inlined function hides the function it is in when a locally symbolised profile is written in pprof format: all
  frames of an address carry the start of the symbol as their offset, so they become one location.
\<close>

lemma symbol_frames_share_location:
  assumes "fr \<in> set (frames_of_symbol va (Sym name addr code_info inlined))"
  shows "fr_virtual_address fr = va \<and> fr_file_offset fr = Some addr"
  using assms by (auto simp: symbolized_frame_def)

lemma inlined_function_hides_caller:
  "\<exists>p. to_pprof pprof_example_env pprof_procs pprof_objs 0 5 19
         (symbolize_profile example_blaze '''' pprof_procs pprof_objs [processed_sample]) () = Some p \<and>
       smp_location_id (pr_sample p ! 0) ! 0 = smp_location_id (pr_sample p ! 0) ! 1"
proof -
  let ?profile = "symbolize_profile example_blaze '''' pprof_procs pprof_objs [processed_sample]"
  have pid: "as_pid processed_sample = 42" "as_kstack processed_sample = []" by (simp_all add: processed_sample_def pprof_sample_def)
  have "?profile = [processed_sample\<lparr>as_ustack :=
     [symbolized_frame 0x402020 0x2000 ''inlined'' True (Some \<lparr>ci_file = ''a.c'', ci_line = Some 7\<rparr>),
      symbolized 0x402020 ''outer'' False 0x2000, symbolized 0x401010 ''main'' False 0x1000]\<rparr>]"
    unfolding symbolize_profile_framewise [OF example_blaze_ok]
    using processed_sample_symbols pid by (simp add: symbolize_kernel_stack_def)
  then have "sample_locations pprof_procs pprof_objs (?profile ! 0) = [(7, 0x2000), (7, 0x2000), (7, 0x1000)]"
    by (simp add: sample_locations_def pid frame_location_def frame_address_def pprof_procs_def pprof_objs_def symbolized_frame_def
      symbolized_def for_address_def KERNEL_PID_def)
  moreover have "length ?profile = 1" by (simp add: symbolize_profile_def)
  ultimately show ?thesis
    using same_address_same_location [OF pprof_example_ok(1,2), of 0 ?profile 0 pprof_objs 1 pprof_example_env 0 5 "()"] by simp
qed

end
