(* ===== verification/Collector.thy ===== *)
theory Collector
  imports Symbolize
begin

text \<open>
  What becomes of profiles: the collectors of src/src/collector.rs. The HTTP client and the protobuf encoder are
  left out: what \<open>StreamingCollector\<close> does is the profile that it posts. A hash map is emptied in the order of
  insertion here. Counts are natural numbers.
\<close>

section \<open>AggregatorCollector\<close>

record AggregatorCollector =
  ac_profiles :: "AggregatedSample list list"
  ac_procs :: "s32 \<rightharpoonup> ProcessInfo"
  ac_objs :: "u64 \<rightharpoonup> ObjectFileInfo"

definition aggregator_new :: AggregatorCollector where
  "aggregator_new = \<lparr>ac_profiles = [], ac_procs = Map.empty, ac_objs = Map.empty\<rparr>"

definition aggregator_collect ::
    "RawAggregatedSample list \<Rightarrow> (s32 \<rightharpoonup> ProcessInfo) \<Rightarrow> (u64 \<rightharpoonup> ObjectFileInfo) \<Rightarrow> AggregatorCollector \<Rightarrow> AggregatorCollector" where
  "aggregator_collect raw_profile ps objs c =
     c\<lparr>ac_profiles := ac_profiles c @ [raw_to_processed ps objs raw_profile],
       ac_procs := ac_procs c ++ ps, ac_objs := ac_objs c ++ objs\<rparr>"

definition without_count :: "AggregatedSample \<Rightarrow> AggregatedSample" where
  "without_count s = s\<lparr>as_count := 0\<rparr>"

text \<open>\<open>*samples_count.entry(key).or_insert(0) += n\<close>\<close>

fun add_count :: "AggregatedSample \<Rightarrow> nat \<Rightarrow> (AggregatedSample \<times> nat) list \<Rightarrow> (AggregatedSample \<times> nat) list" where
  "add_count key n [] = [(key, n)]"
| "add_count key n ((key', m) # entries) =
     (if key' = key then (key', m + n) # entries else (key', m) # add_count key n entries)"

definition samples_count :: "AggregatedSample list list \<Rightarrow> (AggregatedSample \<times> nat) list" where
  "samples_count profiles =
     fold (\<lambda>profile. fold (\<lambda>sample. add_count (without_count sample) (as_count sample)) profile) profiles []"

definition aggregator_finish :: "AggregatorCollector \<Rightarrow> AggregatedSample list" where
  "aggregator_finish c = map (\<lambda>(sample, count). sample\<lparr>as_count := count\<rparr>) (samples_count (ac_profiles c))"

section \<open>NullCollector and StreamingCollector\<close>

definition null_collect :: "RawAggregatedSample list \<Rightarrow> (s32 \<rightharpoonup> ProcessInfo) \<Rightarrow> (u64 \<rightharpoonup> ObjectFileInfo) \<Rightarrow> unit \<Rightarrow> unit" where
  "null_collect profile ps objs c = c"

definition null_finish :: "unit \<Rightarrow> AggregatedSample list" where
  "null_finish c = []"

record 'm StreamingCollector =
  sc_local_symbolizer :: bool
  sc_profile_duration :: nat
  sc_profile_frequency_hz :: u64
  sc_metadata :: 'm
  sc_posted :: "pprof_Profile option list"

text \<open>The symboliser, the text of \<open>/proc/kallsyms\<close> and the time are those of the moment of the call.\<close>

record stream_env =
  se_blaze :: symbolizer
  se_kallsyms :: string
  se_now :: nat

definition streaming_profile ::
    "stream_env \<Rightarrow> 'm pprof_env \<Rightarrow> RawAggregatedSample list \<Rightarrow> (s32 \<rightharpoonup> ProcessInfo) \<Rightarrow> (u64 \<rightharpoonup> ObjectFileInfo) \<Rightarrow>
     'm StreamingCollector \<Rightarrow> pprof_Profile option" where
  "streaming_profile env penv raw ps objs c =
     (let profile = raw_to_processed ps objs raw;
          profile = (if sc_local_symbolizer c then symbolize_profile (se_blaze env) (se_kallsyms env) ps objs profile else profile)
      in to_pprof penv ps objs (se_now env) (sc_profile_duration c) (sc_profile_frequency_hz c) profile (sc_metadata c))"

definition streaming_collect ::
    "stream_env \<Rightarrow> 'm pprof_env \<Rightarrow> RawAggregatedSample list \<Rightarrow> (s32 \<rightharpoonup> ProcessInfo) \<Rightarrow> (u64 \<rightharpoonup> ObjectFileInfo) \<Rightarrow>
     'm StreamingCollector \<Rightarrow> 'm StreamingCollector" where
  "streaming_collect env penv raw ps objs c = c\<lparr>sc_posted := sc_posted c @ [streaming_profile env penv raw ps objs c]\<rparr>"

definition streaming_finish :: "'m StreamingCollector \<Rightarrow> AggregatedSample list" where
  "streaming_finish c = []"

section \<open>Counting\<close>

definition total_count :: "AggregatedSample list \<Rightarrow> nat" where
  "total_count profile = sum_list (map as_count profile)"

definition count_of :: "AggregatedSample \<Rightarrow> AggregatedSample list \<Rightarrow> nat" where
  "count_of key profile = total_count (filter (\<lambda>s. without_count s = key) profile)"

lemma count_of_append [simp]: "count_of k [] = 0" "count_of k (xs @ ys) = count_of k xs + count_of k ys"
  by (simp_all add: count_of_def total_count_def)

lemma count_of_Cons: "count_of k (s # ss) = (if without_count s = k then as_count s else 0) + count_of k ss"
  by (simp add: count_of_def total_count_def)

lemma without_count_idem [simp]: "without_count (without_count s) = without_count s" "without_count (s\<lparr>as_count := n\<rparr>) = without_count s"
  by (simp_all add: without_count_def)

lemma add_count_lookup:
  "map_of (add_count k n es) k' = (if k' = k then Some (n + (case map_of es k of Some m \<Rightarrow> m | None \<Rightarrow> 0)) else map_of es k')"
  by (induction k n es rule: add_count.induct) auto

lemma add_count_keys:
  "set (map fst (add_count k n es)) = insert k (set (map fst es))"
  "distinct (map fst es) \<Longrightarrow> distinct (map fst (add_count k n es))"
  by (induction k n es rule: add_count.induct) auto

lemma samples_count_concat:
  "samples_count profiles = fold (\<lambda>sample. add_count (without_count sample) (as_count sample)) (concat profiles) []"
proof -
  have "fold (\<lambda>profile. fold f profile) profiles es = fold f (concat profiles) es" for f :: "AggregatedSample \<Rightarrow> 'x \<Rightarrow> 'x" and es
    by (induction profiles arbitrary: es) simp_all
  then show ?thesis by (simp add: samples_count_def)
qed

abbreviation "add_sample_count \<equiv> \<lambda>sample. add_count (without_count sample) (as_count sample)"

lemma fold_add_count_distinct: "distinct (map fst es) \<Longrightarrow> distinct (map fst (fold add_sample_count ss es))"
  by (induction ss arbitrary: es) (simp_all add: add_count_keys(2))

lemma fold_add_count_keys: "set (map fst (fold add_sample_count ss es)) = set (map fst es) \<union> without_count ` set ss"
proof (induction ss arbitrary: es)
  case (Cons s ss)
  show ?case using Cons.IH [of "add_sample_count s es"] by (simp add: add_count_keys(1) [simplified])
qed simp

lemma fold_add_count_lookup:
  "(case map_of (fold add_sample_count ss es) k of Some m \<Rightarrow> m | None \<Rightarrow> 0) =
     (case map_of es k of Some m \<Rightarrow> m | None \<Rightarrow> 0) + count_of k ss"
proof (induction ss arbitrary: es)
  case (Cons s ss)
  show ?case using Cons.IH [of "add_sample_count s es"] by (simp add: add_count_lookup count_of_Cons)
qed simp

lemma samples_count_result:
  shows "distinct (map fst (samples_count profiles))"
    and "set (map fst (samples_count profiles)) = without_count ` set (concat profiles)"
    and "(case map_of (samples_count profiles) k of Some m \<Rightarrow> m | None \<Rightarrow> 0) = count_of k (concat profiles)"
  using fold_add_count_distinct [of "[]" "concat profiles"] fold_add_count_keys [of "concat profiles" "[]"]
    fold_add_count_lookup [of "concat profiles" "[]" k]
  by (simp_all add: samples_count_concat)

lemma count_of_entries:
  assumes "distinct (map fst es)" "\<forall>e \<in> set es. without_count (fst e) = fst e"
  shows "count_of k (map (\<lambda>(sample, count). sample\<lparr>as_count := count\<rparr>) es) = (case map_of es k of Some m \<Rightarrow> m | None \<Rightarrow> 0)"
  using assms
proof (induction es)
  case (Cons e es)
  then have "map_of es (fst e) = None" by (simp add: map_of_eq_None_iff)
  with Cons show ?case by (cases e) (auto simp: count_of_Cons)
qed simp

lemma finish_keys:
  "map without_count (aggregator_finish c) = map fst (samples_count (ac_profiles c))"
proof -
  have "without_count (fst e) = fst e" if "e \<in> set (samples_count (ac_profiles c))" for e
  proof -
    have "fst e \<in> without_count ` set (concat (ac_profiles c))"
      using samples_count_result(2) [of "ac_profiles c"] that by force
    then show ?thesis by force
  qed
  then show ?thesis by (auto simp: aggregator_finish_def)
qed

lemma finish_count: "count_of k (aggregator_finish c) = count_of k (concat (ac_profiles c))"
proof -
  have "\<forall>e \<in> set (samples_count (ac_profiles c)). without_count (fst e) = fst e"
    using samples_count_result(2) [of "ac_profiles c"] by force
  from count_of_entries [OF samples_count_result(1) this] show ?thesis
    by (simp add: aggregator_finish_def samples_count_result(3))
qed

lemma total_count_by_key:
  assumes "finite K" "without_count ` set profile \<subseteq> K"
  shows "total_count profile = (\<Sum>k \<in> K. count_of k profile)"
  using assms
proof (induction profile)
  case (Cons s ss)
  have "(\<Sum>k \<in> K. count_of k (s # ss)) = (\<Sum>k \<in> K. if without_count s = k then as_count s else 0) + (\<Sum>k \<in> K. count_of k ss)"
    by (simp add: count_of_Cons sum.distrib)
  also have "(\<Sum>k \<in> K. if without_count s = k then as_count s else 0) = as_count s"
    using Cons.prems by (simp add: sum.delta)
  finally show ?case using Cons by (simp add: total_count_def)
qed (simp add: total_count_def)

lemma finish_total: "total_count (aggregator_finish c) = total_count (concat (ac_profiles c))"
proof -
  let ?K = "without_count ` set (concat (ac_profiles c))"
  have "without_count ` set (aggregator_finish c) = ?K"
    using arg_cong [OF finish_keys, of set c] samples_count_result(2) [of "ac_profiles c"] by simp
  then show ?thesis
    using total_count_by_key [of ?K "aggregator_finish c"] total_count_by_key [of ?K "concat (ac_profiles c)"] finish_count
    by simp
qed

section \<open>The contract of collectors\<close>

text \<open>The calls that a collector gets: profiles, with the processes and object files known at the time.\<close>

type_synonym collect_call = "RawAggregatedSample list \<times> (s32 \<rightharpoonup> ProcessInfo) \<times> (u64 \<rightharpoonup> ObjectFileInfo)"

definition collect_all ::
    "(RawAggregatedSample list \<Rightarrow> (s32 \<rightharpoonup> ProcessInfo) \<Rightarrow> (u64 \<rightharpoonup> ObjectFileInfo) \<Rightarrow> 'c \<Rightarrow> 'c) \<Rightarrow> collect_call list \<Rightarrow> 'c \<Rightarrow> 'c" where
  "collect_all collect calls c = fold (\<lambda>(raw, ps, objs). collect raw ps objs) calls c"

text \<open>What a collector returns in the end comes from the profiles it was given.\<close>

locale profile_collector =
  fixes start :: 'c
    and collect :: "RawAggregatedSample list \<Rightarrow> (s32 \<rightharpoonup> ProcessInfo) \<Rightarrow> (u64 \<rightharpoonup> ObjectFileInfo) \<Rightarrow> 'c \<Rightarrow> 'c"
    and finish :: "'c \<Rightarrow> AggregatedSample list"
  assumes start_empty: "finish start = []"
    and collect_samples: "without_count ` set (finish (collect raw ps objs c)) \<subseteq>
      without_count ` set (finish c) \<union> without_count ` set (raw_to_processed ps objs raw)"
    and collect_total: "total_count (finish (collect raw ps objs c)) \<le> total_count (finish c) + total_count (raw_to_processed ps objs raw)"
begin

lemma nothing_invented:
  "without_count ` set (finish (collect_all collect calls start)) \<subseteq>
     without_count ` (\<Union>(raw, ps, objs) \<in> set calls. set (raw_to_processed ps objs raw))"
proof (induction calls rule: rev_induct)
  case (snoc call calls)
  obtain raw ps objs where call: "call = (raw, ps, objs)" by (cases call)
  have "without_count ` set (finish (collect_all collect (calls @ [call]) start)) \<subseteq>
      without_count ` set (finish (collect_all collect calls start)) \<union> without_count ` set (raw_to_processed ps objs raw)"
    using collect_samples [of raw ps objs "collect_all collect calls start"] by (simp add: collect_all_def call)
  also have "\<dots> \<subseteq> without_count ` (\<Union>(raw, ps, objs) \<in> set (calls @ [call]). set (raw_to_processed ps objs raw))"
    using snoc unfolding call by (simp add: image_Un) blast
  finally show ?case .
qed (simp add: collect_all_def start_empty)

lemma nothing_counted_twice:
  "total_count (finish (collect_all collect calls start)) \<le> (\<Sum>(raw, ps, objs) \<leftarrow> calls. total_count (raw_to_processed ps objs raw))"
proof (induction calls rule: rev_induct)
  case (snoc call calls)
  obtain raw ps objs where call: "call = (raw, ps, objs)" by (cases call)
  show ?case using snoc collect_total [of raw ps objs "collect_all collect calls start"]
    by (simp add: collect_all_def call)
qed (simp add: collect_all_def start_empty total_count_def)

end

interpretation null: profile_collector "()" null_collect null_finish
  by unfold_locales (simp_all add: null_finish_def total_count_def)

interpretation streaming: profile_collector c "streaming_collect env penv" streaming_finish
  by unfold_locales (simp_all add: streaming_finish_def total_count_def)

interpretation aggregating: profile_collector aggregator_new aggregator_collect aggregator_finish
proof unfold_locales
  show "aggregator_finish aggregator_new = []" by (simp add: aggregator_finish_def aggregator_new_def samples_count_def)
  fix raw ps objs c
  have keys: "without_count ` set (aggregator_finish c) = without_count ` set (concat (ac_profiles c))" for c
    using arg_cong [OF finish_keys, of set c] samples_count_result(2) [of "ac_profiles c"] by simp
  show "without_count ` set (aggregator_finish (aggregator_collect raw ps objs c)) \<subseteq>
      without_count ` set (aggregator_finish c) \<union> without_count ` set (raw_to_processed ps objs raw)"
    by (auto simp: keys) (auto simp: aggregator_collect_def)
  show "total_count (aggregator_finish (aggregator_collect raw ps objs c)) \<le>
      total_count (aggregator_finish c) + total_count (raw_to_processed ps objs raw)"
    by (simp add: finish_total) (simp add: aggregator_collect_def total_count_def)
qed

section \<open>Properties\<close>

lemma collected_profiles:
  "ac_profiles (collect_all aggregator_collect calls aggregator_new) = map (\<lambda>(raw, ps, objs). raw_to_processed ps objs raw) calls"
  by (induction calls rule: rev_induct) (auto simp: collect_all_def aggregator_collect_def aggregator_new_def)

lemma count_of_concat: "count_of k (concat ps) = (\<Sum>p \<leftarrow> ps. count_of k p)"
  by (induction ps) simp_all

lemma total_count_concat: "total_count (concat ps) = (\<Sum>p \<leftarrow> ps. total_count p)"
  by (induction ps) (simp_all add: total_count_def)

text \<open>
  C21. The profile that is written to disk counts what was collected: after any number of profiles, with whatever
  processes and object files were known at the time, each combination of identity and stacks is there
  once, its count is the sum of its counts over all profiles, and nothing else is there.
\<close>

theorem collected_profile_is_exact:
  "distinct (map without_count (aggregator_finish (collect_all aggregator_collect calls aggregator_new))) \<and>
    (\<forall>k. count_of k (aggregator_finish (collect_all aggregator_collect calls aggregator_new)) =
       (\<Sum>(raw, ps, objs) \<leftarrow> calls. count_of k (raw_to_processed ps objs raw))) \<and>
    total_count (aggregator_finish (collect_all aggregator_collect calls aggregator_new)) =
      (\<Sum>(raw, ps, objs) \<leftarrow> calls. total_count (raw_to_processed ps objs raw))"
  by (simp add: finish_keys samples_count_result(1) finish_count finish_total collected_profiles
      count_of_concat total_count_concat comp_def case_prod_unfold)

end
