(* ===== verification/Reference_Counts.thy ===== *)
theory Reference_Counts
  imports Process_Registry
begin

text \<open>
  The reference counts of object files, over all that user space does with processes: adding,
  storing, evicting, exits and unmappings. The runs themselves are those of \<open>Session\<close>.
\<close>

section \<open>Live mappings\<close>

definition live :: "u64 \<Rightarrow> ExecutableMapping list \<Rightarrow> nat" where
  "live i es = length (filter (\<lambda>e. em_executable_id e = i \<and> \<not> em_soft_delete e) es)"

definition live_total :: "u64 \<Rightarrow> (s32 \<rightharpoonup> ProcessInfo) \<Rightarrow> nat" where
  "live_total i ps = (\<Sum>pid \<in> dom ps. live i (pi_mappings (the (ps pid))))"

definition ref_count :: "(u64 \<rightharpoonup> int) \<Rightarrow> u64 \<Rightarrow> int" where
  "ref_count refs i = (case refs i of None \<Rightarrow> 0 | Some n \<Rightarrow> n)"

lemma live_simps [simp]:
  "live i [] = 0" "live i (es @ es') = live i es + live i es'"
  "live i (e # es) = (if em_executable_id e = i \<and> \<not> em_soft_delete e then 1 else 0) + live i es"
  by (simp_all add: live_def)

lemma ref_count_update [simp]: "ref_count (refs(j \<mapsto> n)) i = (if i = j then n else ref_count refs i)"
  by (simp add: ref_count_def)

lemma live_total_update:
  assumes "finite (dom ps)"
  shows "live_total i (ps(pid \<mapsto> info)) + live i (case ps pid of None \<Rightarrow> [] | Some old \<Rightarrow> pi_mappings old) =
     live_total i ps + live i (pi_mappings info)"
proof -
  let ?f = "\<lambda>ps p. live i (pi_mappings (the (ps p)))"
  have rest: "(\<Sum>p \<in> dom ps - {pid}. ?f (ps(pid \<mapsto> info)) p) = (\<Sum>p \<in> dom ps - {pid}. ?f ps p)"
    by (rule sum.cong) auto
  have new: "live_total i (ps(pid \<mapsto> info)) = live i (pi_mappings info) + (\<Sum>p \<in> dom ps - {pid}. ?f ps p)"
    using sum.insert_remove [of "dom ps" "?f (ps(pid \<mapsto> info))" pid] assms rest by (simp add: live_total_def)
  show ?thesis
  proof (cases "ps pid")
    case None
    then have "dom ps - {pid} = dom ps" by auto
    with new None show ?thesis by (simp add: live_total_def)
  next
    case (Some old)
    then have "live_total i ps = live i (pi_mappings old) + (\<Sum>p \<in> dom ps - {pid}. ?f ps p)"
      using sum.remove [of "dom ps" pid "?f ps"] assms by (simp add: live_total_def domI)
    with new Some show ?thesis by simp
  qed
qed

text \<open>No count exceeds the number of live mappings, and those of the executables in \<open>exacts\<close> are exact.\<close>

definition ref_inv :: "u64 set \<Rightarrow> profiler \<Rightarrow> bool" where
  "ref_inv exacts s \<longleftrightarrow> finite (dom (procs s)) \<and>
     (\<forall>i. 0 \<le> ref_count (references s) i \<and> ref_count (references s) i \<le> int (live_total i (procs s))) \<and>
     (\<forall>i \<in> exacts. ref_count (references s) i = int (live_total i (procs s)))"

section \<open>Dropping mappings\<close>

lemma drop_mapping_references:
  assumes "drop_mapping pid e s = (e', s')"
  shows "em_executable_id e' = em_executable_id e" "em_soft_delete e'" "procs s' = procs s"
    "references s' = (case references s (em_executable_id e) of
       Some n \<Rightarrow> if em_soft_delete e \<or> n = 0 then references s else (references s)(em_executable_id e \<mapsto> n - 1)
     | None \<Rightarrow> references s)"
  using assms
  by (auto simp: drop_mapping_def mark_as_deleted_def delete_bpf_native_unwind_all_def Let_def split: option.splits if_splits)

text \<open>Every live mapping that is dropped takes one reference, as long as there are any.\<close>

lemma drop_mappings_references:
  assumes "drop_mappings pid selected es s = (es', s')" "0 \<le> ref_count (references s) i"
  shows "procs s' = procs s \<and> live i es' \<le> live i es \<and>
     ref_count (references s') i = max 0 (ref_count (references s) i - int (live i es) + int (live i es'))"
  using assms
proof (induction es arbitrary: s es' s')
  case (Cons e es)
  obtain e1 s1 where one: "(if selected e then drop_mapping pid e s else (e, s)) = (e1, s1)" by fastforce
  obtain es1 where rest: "drop_mappings pid selected es s1 = (es1, s')" "es' = e1 # es1"
    using Cons.prems(1) one by (auto simp: drop_mappings.simps(2) Let_def split: prod.splits)
  have step: "procs s1 = procs s \<and> live i [e1] \<le> live i [e] \<and>
      ref_count (references s1) i = max 0 (ref_count (references s) i - int (live i [e]) + int (live i [e1]))"
  proof (cases "selected e")
    case True
    then have drop: "drop_mapping pid e s = (e1, s1)" using one by simp
    from drop_mapping_references [OF drop] Cons.prems(2) show ?thesis
      by (auto simp: ref_count_def split: option.splits if_splits)
  qed (use one Cons.prems(2) in auto)
  from Cons.IH [OF rest(1)] step rest(2) show ?case by (auto simp: max_def split: if_splits)
qed simp

lemma drop_mappings_all_live: "drop_mappings pid (\<lambda>e. True) es s = (es', s') \<Longrightarrow> live i es' = 0"
proof (induction es arbitrary: s es')
  case (Cons e es)
  then show ?case
    using drop_mapping_references(2) by (fastforce simp: drop_mappings.simps(2) Let_def split: prod.splits)
qed simp

lemma live_le_total:
  assumes "finite (dom ps)" "ps pid = Some info"
  shows "live i (pi_mappings info) \<le> live_total i ps"
  using assms member_le_sum [of pid "dom ps" "\<lambda>p. live i (pi_mappings (the (ps p)))"]
  by (simp add: live_total_def domI)

text \<open>Both handlers store the mappings that are left for the process.\<close>

lemma drop_and_store_inv:
  assumes inv: "ref_inv exacts s" and info: "procs s pid = Some info"
    and s1: "procs s1 = procs s" "references s1 = references s"
    and drop: "drop_mappings pid selected (pi_mappings info) s1 = (es, s2)" and info': "pi_mappings info' = es"
  shows "ref_inv exacts (s2\<lparr>procs := (procs s2)(pid \<mapsto> info')\<rparr>)"
proof -
  have fin: "finite (dom (procs s))" and pos: "0 \<le> ref_count (references s1) i" for i
    using inv s1 by (simp_all add: ref_inv_def)
  have refs: "procs s2 = procs s" "live i es \<le> live i (pi_mappings info)"
    "ref_count (references s2) i = max 0 (ref_count (references s) i - int (live i (pi_mappings info)) + int (live i es))" for i
    using drop_mappings_references [OF drop pos] s1 by simp_all
  have total: "live_total i ((procs s)(pid \<mapsto> info')) + live i (pi_mappings info) = live_total i (procs s) + live i es" for i
    using live_total_update [OF fin, of i pid info'] info info' by simp
  have bounds: "live i (pi_mappings info) \<le> live_total i (procs s)"
    "0 \<le> ref_count (references s) i" "ref_count (references s) i \<le> int (live_total i (procs s))" for i
    using live_le_total [OF fin info] inv by (simp_all add: ref_inv_def)
  have "ref_count (references s2) i \<le> int (live_total i ((procs s)(pid \<mapsto> info')))" for i
    using refs(3) [of i] total [of i] bounds [of i] by linarith
  moreover have "ref_count (references s2) i = int (live_total i ((procs s)(pid \<mapsto> info')))" if "i \<in> exacts" for i
  proof -
    have "ref_count (references s) i = int (live_total i (procs s))" using inv that by (simp add: ref_inv_def)
    with refs(3) [of i] total [of i] bounds(1) [of i] show ?thesis by linarith
  qed
  ultimately show ?thesis using refs(1,3) fin by (simp add: ref_inv_def)
qed

lemma handle_munmap_ref_inv:
  assumes "ref_inv exacts s"
  shows "ref_inv exacts (handle_munmap pid a s)"
proof (cases "procs s pid")
  case (Some info)
  obtain es s2 where d: "drop_mappings pid (\<lambda>e. em_start_addr e \<le> a \<and> a \<le> em_end_addr e) (pi_mappings info) s = (es, s2)"
    by fastforce
  from drop_and_store_inv [OF assms Some refl refl d, of "info\<lparr>pi_mappings := es\<rparr>"] show ?thesis
    using Some d by (simp add: handle_munmap_def)
qed (use assms in \<open>simp add: handle_munmap_def\<close>)

lemma handle_process_exit_ref_inv:
  assumes "ref_inv exacts s"
  shows "ref_inv exacts (handle_process_exit pid s)"
proof (cases "procs s pid")
  case (Some info)
  let ?s1 = "s\<lparr>mapping_trie := delete_bpf_process pid (mapping_trie s)\<rparr>"
  obtain es s2 where d: "drop_mappings pid (\<lambda>e. True) (pi_mappings info) ?s1 = (es, s2)" by fastforce
  from drop_and_store_inv [OF assms Some _ _ d, of "info\<lparr>pi_status := Exited, pi_mappings := es\<rparr>"] show ?thesis
    using Some d by (simp add: handle_process_exit_def Let_def)
qed (use assms in \<open>simp add: handle_process_exit_def\<close>)

lemma ref_inv_cong: "ref_inv exacts s \<Longrightarrow> procs s' = procs s \<Longrightarrow> references s' = references s \<Longrightarrow> ref_inv exacts s'"
  by (simp add: ref_inv_def)

lemma maybe_evict_process_ref_inv: "ref_inv exacts s \<Longrightarrow> ref_inv exacts (snd (maybe_evict_process env b s))"
  by (auto simp: maybe_evict_process_def Let_def split: list.split
      intro: ref_inv_cong [OF handle_process_exit_ref_inv])

section \<open>Adding mappings\<close>

text \<open>Every executable mapping of a file is counted; the vDSO is not, so it must not be in \<open>exacts\<close>.\<close>

definition counts_map :: "u64 set \<Rightarrow> MemoryMap \<Rightarrow> bool" where
  "counts_map exacts m \<longleftrightarrow> (case mm_pathname m of Vdso_map (Some obj) \<Rightarrow> eo_id obj \<notin> exacts | _ \<Rightarrow> True)"

lemma add_map_references:
  assumes "add_map ps m (ms, s) = (ms', s')" "0 \<le> ref_count (references s) i"
  shows "procs s' = procs s \<and> 0 \<le> ref_count (references s') i \<and>
     ref_count (references s') i \<le> ref_count (references s) i + int (live i ms') - int (live i ms) \<and>
     (counts_map exacts m \<and> i \<in> exacts \<and> i \<noteq> 0 \<longrightarrow>
        ref_count (references s') i = ref_count (references s) i + int (live i ms') - int (live i ms))"
  using assms
  by (auto simp: add_map_def counts_map_def reference_object_def insert_vdso_def ref_count_def Let_def
      split: if_splits MMapPath.splits option.splits list.splits)

lemma fold_add_map_references:
  assumes "fold (add_map ps) maps (ms, s) = (ms', s')" "0 \<le> ref_count (references s) i"
  shows "procs s' = procs s \<and> 0 \<le> ref_count (references s') i \<and>
     ref_count (references s') i \<le> ref_count (references s) i + int (live i ms') - int (live i ms) \<and>
     (list_all (counts_map exacts) maps \<and> i \<in> exacts \<and> i \<noteq> 0 \<longrightarrow>
        ref_count (references s') i = ref_count (references s) i + int (live i ms') - int (live i ms))"
  using assms
proof (induction maps arbitrary: ms s)
  case (Cons m maps)
  obtain ms1 s1 where one: "add_map ps m (ms, s) = (ms1, s1)" by fastforce
  with Cons.prems have "fold (add_map ps) maps (ms1, s1) = (ms', s')" by simp
  with Cons.IH [of ms1 s1] add_map_references [OF one Cons.prems(2), of exacts] show ?case by auto
qed simp

lemma maybe_evict_process_procs:
  "procs s pid = None \<Longrightarrow> procs (snd (maybe_evict_process env b s)) pid = None"
proof -
  have "procs (handle_process_exit p s) pid = None" if "procs s pid = None" for p
  proof (cases "procs s p")
    case (Some info)
    have "procs (snd (drop_mappings p selected es t)) = procs t" for selected es t
    proof (induction es arbitrary: t)
      case (Cons e es)
      then show ?case using drop_mapping_references(3) [of p e t] by (simp add: drop_mappings_Cons) (metis prod.collapse)
    qed simp
    with Some that show ?thesis by (auto simp: handle_process_exit_def Let_def split_def)
  qed (simp add: handle_process_exit_def that)
  then show "procs s pid = None \<Longrightarrow> procs (snd (maybe_evict_process env b s)) pid = None"
    by (simp add: maybe_evict_process_def Let_def split: list.split)
qed

lemma add_proc_ref_inv:
  assumes inv: "ref_inv exacts s" and new: "procs s pid = None" and maps: "list_all (counts_map exacts) maps" "0 \<notin> exacts"
    and add: "add_proc env pid (Some maps) threads_read s = (r, s')"
  shows "ref_inv exacts s'"
proof -
  obtain ok s1 where ev: "maybe_evict_process env True s = (ok, s1)" by fastforce
  have inv1: "ref_inv exacts s1" using maybe_evict_process_ref_inv [OF inv, of env True] ev by simp
  have new1: "procs s1 pid = None" using maybe_evict_process_procs [OF new, of env True] ev by simp
  show ?thesis
  proof (cases ok)
    case False
    then show ?thesis using add ev inv1 by (simp add: add_proc_def)
  next
    case True
    obtain ms s2 where f: "fold (add_map (pe_page_size env)) maps ([], s1) = (ms, s2)" by fastforce
    let ?info = "\<lparr>pi_status = Running, pi_mappings = ms, pi_last_used = pe_now env\<rparr>"
    have s': "s' = s2\<lparr>procs := (procs s2)(pid \<mapsto> ?info)\<rparr>" using add ev True f by (simp add: add_proc_def split: if_splits)
    have fin: "finite (dom (procs s1))" and pos: "0 \<le> ref_count (references s1) i" for i
      using inv1 by (simp_all add: ref_inv_def)
    have refs: "procs s2 = procs s1" "0 \<le> ref_count (references s2) i"
      "ref_count (references s2) i \<le> ref_count (references s1) i + int (live i ms)"
      "i \<in> exacts \<Longrightarrow> ref_count (references s2) i = ref_count (references s1) i + int (live i ms)" for i
      using fold_add_map_references [OF f pos, of i exacts] maps by auto
    have total: "live_total i ((procs s1)(pid \<mapsto> ?info)) = live_total i (procs s1) + live i ms" for i
      using live_total_update [OF fin, of i pid ?info] new1 by simp
    have "ref_count (references s2) i \<le> int (live_total i (procs s1)) + int (live i ms)" for i
      using refs(3) [of i] inv1 by (auto simp: ref_inv_def intro: order_trans)
    then show ?thesis
      unfolding s' using refs(1,2,4) fin total inv1 by (simp add: ref_inv_def)
  qed
qed

lemma add_unwind_info_ref_inv:
  assumes inv: "ref_inv exacts s" and add: "add_unwind_info_for_process env penv accepts pid s = Some s'"
  shows "ref_inv exacts s'"
proof -
  obtain info where info: "procs s pid = Some info" using add by (auto simp: add_unwind_info_for_process_def split: option.splits)
  obtain c s1 where c: "collect_bpf_mappings env (pi_mappings info) s = (c, s1)" by fastforce
  have "ref_inv exacts s1"
    using collect_bpf_mappings_processes [of s env "pi_mappings info"] c
    by (intro ref_inv_cong [OF inv]) (simp_all add: same_processes_def)
  then have "ref_inv exacts (s1\<lparr>mapping_trie := t\<rparr>)" for t by (rule ref_inv_cong) simp_all
  with \<open>ref_inv exacts s1\<close> add info c show ?thesis
    by (auto simp: add_unwind_info_for_process_def Let_def maybe_evict_process_ref_inv handle_process_exit_ref_inv
        split: collected.splits prod.splits)
qed

lemma event_need_unwind_info_processes:
  "event_need_unwind_info env pid addr s = Some s' \<Longrightarrow> same_processes s s'"
  using add_unwind_information_processes [of s env]
  by (auto simp: event_need_unwind_info_def split: option.splits prod.splits sum.splits AddUnwindInformationError.splits)
    (metis same_processes_refl snd_conv)+

section \<open>Examples and findings\<close>

definition example_maps :: "MemoryMap list" where
  "example_maps = [\<lparr>mm_start = 0x401000, mm_end = 0x404000, mm_offset = 0x1000, mm_execute = True, mm_pathname = Path_map (Some
     \<lparr>eo_id = 7, eo_build_id = example_build_id, eo_elf_loads = [\<lparr>p_offset = 0x1000, p_vaddr = 0x1000, p_filesz = 0x3000\<rparr>],
      eo_path = ''/bin/true'', eo_runtime = CLike\<rparr>)\<rparr>]"

definition no_processes :: profiler where
  "no_processes = unregistered\<lparr>procs := Map.empty, object_files := Map.empty, references := Map.empty,
     known_executables := Map.empty, unwind_tables := Map.empty\<rparr>"

lemma example_add_proc:
  "\<exists>s'. add_proc example_penv pid (Some example_maps) True no_processes = (Inr (), s') \<and>
     procs s' = [pid \<mapsto> \<lparr>pi_status = Running, pi_mappings = [example_mapping_info], pi_last_used = 1000\<rparr>]"
  by (simp add: add_proc_def maybe_evict_process_def running_procs_def example_penv_def no_processes_def
      MAX_PROCESSES_def example_maps_def add_map_def reference_object_def load_address_def example_mapping_info_def Let_def)

text \<open>
  The vDSO is not counted: each process that maps it sets its count to one again. When the last process
  that was added exits, the unwind table of the vDSO is removed although another process still maps it.
\<close>

lemma vdso_is_dropped_while_mapped:
  assumes "procs s p = Some info" "e \<in> set (pi_mappings info)" "em_executable_id e = eo_id obj" "\<not> em_soft_delete e"
    and "pid \<noteq> p" "maybe_evict_process penv True s = (True, s)" "known_executables s (eo_id obj) = Some known"
    and "mm_execute m" "mm_pathname m = Vdso_map (Some obj)"
    and "add_proc penv pid (Some [m]) True s = (Inr (), s1)"
  shows "procs (handle_process_exit pid s1) p = Some info \<and>
     known_executables (handle_process_exit pid s1) (eo_id obj) = None \<and>
     unwind_tables (handle_process_exit pid s1) (eo_id obj) = None"
proof -
  let ?e = "\<lparr>em_executable_id = eo_id obj, em_build_id = Some (eo_build_id obj), em_kind = Vdso, em_start_addr = mm_start m,
    em_end_addr = mm_end m, em_offset = mm_offset m, em_load_address = mm_start m, em_soft_delete = False\<rparr>"
  have s1: "s1 = (insert_vdso obj s)\<lparr>procs := (procs s)(pid \<mapsto>
      \<lparr>pi_status = Running, pi_mappings = [?e], pi_last_used = pe_now penv\<rparr>)\<rparr>"
    using assms(6,8-10) by (simp add: add_proc_def add_map_def insert_vdso_def Let_def)
  show ?thesis
    unfolding s1 using assms(1,5,7)
    by (simp add: handle_process_exit_def drop_mappings.simps(2) drop_mapping_def mark_as_deleted_def insert_vdso_def
        delete_bpf_native_unwind_all_def Let_def)
qed

definition vdso_object :: elf_object where
  "vdso_object = \<lparr>eo_id = 7, eo_build_id = example_build_id, eo_elf_loads = [], eo_path = ''dumped-vdso'', eo_runtime = CLike\<rparr>"

definition vdso_map :: MemoryMap where
  "vdso_map = \<lparr>mm_start = 0x7fff1000, mm_end = 0x7fff2000, mm_offset = 0, mm_execute = True, mm_pathname = Vdso_map (Some vdso_object)\<rparr>"

lemma vdso_is_dropped_while_mapped_example:
  "\<exists>s1. add_proc example_penv 43 (Some [vdso_map]) True (example_profiler (\<lambda>t p. True) 1) = (Inr (), s1) \<and>
     unwind_tables (handle_process_exit 43 s1) 7 = None"
proof -
  let ?s = "example_profiler (\<lambda>t p. True) 1"
  have ev: "maybe_evict_process example_penv True ?s = (True, ?s)"
    by (simp add: maybe_evict_process_def running_procs_def example_penv_def MAX_PROCESSES_def example_profiler_def)
  then obtain s1 where s1: "add_proc example_penv 43 (Some [vdso_map]) True ?s = (Inr (), s1)"
    by (simp add: add_proc_def split_def Let_def)
  have p: "procs ?s 42 = Some example_info" by (simp add: example_profiler_def example_info_def)
  have k: "known_executables ?s (eo_id vdso_object) \<noteq> None" by (simp add: example_profiler_def vdso_object_def)
  then obtain known where k: "known_executables ?s (eo_id vdso_object) = Some known" by blast
  have "unwind_tables (handle_process_exit 43 s1) (eo_id vdso_object) = None"
    using vdso_is_dropped_while_mapped [OF p _ _ _ _ ev k _ _ s1, of example_mapping_info]
    by (simp add: example_info_def example_mapping_info_def vdso_map_def vdso_object_def)
  with s1 show ?thesis by (simp add: vdso_object_def)
qed

lemma drop_mapping_range:
  "em_start_addr (fst (drop_mapping pid e s)) = em_start_addr e" "em_end_addr (fst (drop_mapping pid e s)) = em_end_addr e"
  "em_executable_id (fst (drop_mapping pid e s)) = em_executable_id e"
  by (simp_all add: drop_mapping_def mark_as_deleted_def Let_def split: option.split)

lemma drop_mappings_ranges:
  "map (\<lambda>e. (em_start_addr e, em_end_addr e, em_executable_id e)) (fst (drop_mappings pid selected es s)) =
   map (\<lambda>e. (em_start_addr e, em_end_addr e, em_executable_id e)) es"
  by (induction es arbitrary: s) (simp_all add: drop_mappings.simps(2) drop_mapping_range Let_def split_def)

text \<open>
  A process identifier is never read twice. The entry of a process stays when it exits or is evicted,
  so a later process with the same identifier, or the evicted process itself, is registered with the old
  mappings, whatever its maps are.
\<close>

lemma reused_pid_keeps_old_mappings:
  assumes "procs s pid = Some info"
  shows "\<exists>info'. procs (handle_process_exit pid s) pid = Some info' \<and>
     map (\<lambda>e. (em_start_addr e, em_end_addr e, em_executable_id e)) (pi_mappings info') =
       map (\<lambda>e. (em_start_addr e, em_end_addr e, em_executable_id e)) (pi_mappings info) \<and>
     event_new_proc c env penv accepts pid maps threads_read (handle_process_exit pid s) =
       (if should_profile c pid then add_unwind_info_for_process env penv accepts pid (handle_process_exit pid s)
        else Some (handle_process_exit pid s))"
  using assms drop_mappings_ranges [of pid "\<lambda>e. True" "pi_mappings info" "s\<lparr>mapping_trie := delete_bpf_process pid (mapping_trie s)\<rparr>"]
  by (auto simp: handle_process_exit_def event_new_proc_def Let_def split_def)

lemma reused_pid_keeps_old_mappings_example:
  "\<exists>info'. procs (handle_process_exit 42 unregistered) 42 = Some info' \<and>
     map (\<lambda>e. (em_start_addr e, em_end_addr e, em_executable_id e)) (pi_mappings info') = [(0x401000, 0x404000, 7)]"
proof -
  have "map (\<lambda>e. (em_start_addr e, em_end_addr e, em_executable_id e)) (pi_mappings example_info) = [(0x401000, 0x404000, 7)]"
    by (simp add: example_info_def example_mapping_info_def)
  moreover obtain info' where "procs (handle_process_exit 42 unregistered) 42 = Some info'"
    "map (\<lambda>e. (em_start_addr e, em_end_addr e, em_executable_id e)) (pi_mappings info') =
       map (\<lambda>e. (em_start_addr e, em_end_addr e, em_executable_id e)) (pi_mappings example_info)"
    using reused_pid_keeps_old_mappings [OF unregistered_process(1),
        of "\<lparr>exclude_self = False, own_pid = 1, filter_pids = []\<rparr>" example_env example_penv "\<lambda>t p. True" "Some []" True] by blast
  ultimately show ?thesis by simp
qed

end
