(* ===== verification/Kernel_Modules.thy ===== *)
theory Kernel_Modules
  imports Ksyms Aggregator Reference_Counts
begin

text \<open>
  The code of the kernel: src/src/kernel.rs, src/lightswitch-object/src/kernel.rs and \<open>add_kernel_modules\<close> of
  src/src/profiler.rs. What is read from \<open>/proc\<close> and \<open>/sys\<close> is a parameter, and so are the ELF headers and notes
  that the object crate finds there.
\<close>

section \<open>Notes\<close>

definition bytes_of :: "string \<Rightarrow> u8 list" where
  "bytes_of s = map (\<lambda>c. of_nat (of_char c)) s"

record elf_note =
  note_name :: "u8 list"
  n_type :: u32
  note_desc :: "u8 list"

definition ELF_NOTE_GNU :: "u8 list" where "ELF_NOTE_GNU = bytes_of ''GNU''"
definition NT_GNU_BUILD_ID :: u32 where "NT_GNU_BUILD_ID = 3"

datatype kernel_error = Io_error | Object_error | Build_id_too_small | No_build_id_note | No_kernel_addresses |
  Utf8_error | Parse_int_error | No_kaslr_offset

text \<open>\<open>None\<close> where the object crate yields an error instead of a note.\<close>

fun find_build_id_note :: "elf_note option list \<Rightarrow> kernel_error + BuildId" where
  "find_build_id_note [] = Inl No_build_id_note"
| "find_build_id_note (None # notes) = find_build_id_note notes"
| "find_build_id_note (Some note # notes) =
     (if note_name note \<noteq> ELF_NOTE_GNU \<or> n_type note \<noteq> NT_GNU_BUILD_ID then find_build_id_note notes
      else case gnu_from_bytes (note_desc note) of Inl e \<Rightarrow> Inl Build_id_too_small | Inr b \<Rightarrow> Inr b)"

type_synonym note_reader = "u8 list \<Rightarrow> elf_note option list option"

definition parse_gnu_build_id_from_notes :: "note_reader \<Rightarrow> u8 list \<Rightarrow> kernel_error + BuildId" where
  "parse_gnu_build_id_from_notes read_notes data =
     (case read_notes data of None \<Rightarrow> Inl Object_error | Some notes \<Rightarrow> find_build_id_note notes)"

definition parse_vm_core_info_line :: "u8 list \<Rightarrow> (u8 list \<times> u8 list) list" where
  "parse_vm_core_info_line data =
     List.map_filter (\<lambda>key_val. case split_on 0x3D key_val of a # b # _ \<Rightarrow> Some (a, b) | _ \<Rightarrow> None) (split_on 0x0A data)"

section \<open>The offset of the kernel image\<close>

definition VMCORE_INFO_NAME :: "u8 list" where "VMCORE_INFO_NAME = bytes_of ''VMCOREINFO''"
definition KERNEL_OFFSET :: "u8 list" where "KERNEL_OFFSET = bytes_of ''KERNELOFFSET''"

text \<open>
  The program headers of \<open>/proc/kcore\<close>: whether they are of type \<open>PT_NOTE\<close>, and their notes; \<open>None\<close> where their data
  cannot be read. The header of the file itself may not be readable.
\<close>

datatype kcore_kind = Elf64 "(bool \<times> elf_note option list option) list option" | Other_kind | Unknown_kind

text \<open>\<open>None\<close> is a panic.\<close>

definition kaslr_of_note :: "elf_note \<Rightarrow> (kernel_error + u64) option" where
  "kaslr_of_note note =
     (case find (\<lambda>(key, val). key = KERNEL_OFFSET) (parse_vm_core_info_line (note_desc note)) of
        None \<Rightarrow> None
      | Some (key, val) \<Rightarrow> Some
          (case from_utf8 val of
             Inl e \<Rightarrow> Inl Utf8_error
           | Inr s \<Rightarrow> (case from_str_radix 16 U64_MAX s of None \<Rightarrow> Inl Parse_int_error | Some n \<Rightarrow> Inr (of_nat n))))"

fun kaslr_of_notes :: "elf_note option list \<Rightarrow> (kernel_error + u64) option option" where
  "kaslr_of_notes [] = None"
| "kaslr_of_notes (None # notes) = kaslr_of_notes notes"
| "kaslr_of_notes (Some note # notes) =
     (if note_name note = VMCORE_INFO_NAME then Some (kaslr_of_note note) else kaslr_of_notes notes)"

fun kaslr_of_headers :: "(bool \<times> elf_note option list option) list \<Rightarrow> (kernel_error + u64) option" where
  "kaslr_of_headers [] = Some (Inl No_kaslr_offset)"
| "kaslr_of_headers ((False, notes) # headers) = kaslr_of_headers headers"
| "kaslr_of_headers ((True, None) # headers) = Some (Inl Object_error)"
| "kaslr_of_headers ((True, Some notes) # headers) =
     (case kaslr_of_notes notes of Some r \<Rightarrow> r | None \<Rightarrow> kaslr_of_headers headers)"

definition kaslr_offset :: "kcore_kind option \<Rightarrow> (kernel_error + u64) option" where
  "kaslr_offset kcore =
     (case kcore of
        None \<Rightarrow> Some (Inl Io_error)
      | Some (Elf64 None) \<Rightarrow> Some (Inl Object_error)
      | Some (Elf64 (Some headers)) \<Rightarrow> kaslr_of_headers headers
      | Some Other_kind \<Rightarrow> None
      | Some Unknown_kind \<Rightarrow> Some (Inl No_kaslr_offset))"

section \<open>Kernel modules\<close>

record KernelCodeRange =
  kcr_name :: string
  kcr_build_id :: BuildId
  kcr_start :: u64
  kcr_end :: u64

record kernel_module =
  km_name :: string
  km_state :: string
  km_size :: u32

text \<open>
  What \<open>/proc\<close> and \<open>/sys\<close> hold, \<open>None\<close> where a file cannot be read: the modules, the files \<open>sections/.text\<close> and
  \<open>notes/.note.gnu.build-id\<close> of a module, \<open>/sys/kernel/notes\<close>, \<open>/proc/kallsyms\<close> and \<open>/proc/kcore\<close>.
\<close>

record kernel_files =
  kf_modules :: "kernel_module list option"
  kf_text :: "string \<Rightarrow> u8 list option"
  kf_notes :: "string \<Rightarrow> u8 list option"
  kf_kernel_notes :: "u8 list option"
  kf_kallsyms :: string
  kf_kcore :: "kcore_kind option"
  kf_read_notes :: note_reader

definition get_module_build_id :: "kernel_files \<Rightarrow> string \<Rightarrow> kernel_error + BuildId" where
  "get_module_build_id files name =
     (case kf_notes files name of None \<Rightarrow> Inl Io_error | Some data \<Rightarrow> parse_gnu_build_id_from_notes (kf_read_notes files) data)"

text \<open>The first eight bytes of the file, as a number.\<close>

definition module_start_address :: "kernel_files \<Rightarrow> string \<Rightarrow> kernel_error + u64" where
  "module_start_address files name =
     (case kf_text files name of
        None \<Rightarrow> Inl Io_error
      | Some data \<Rightarrow> if length data < 8 then Inl Io_error else Inr (word_le (take 8 data)))"

definition kernel_build_id :: "kernel_files \<Rightarrow> kernel_error + BuildId" where
  "kernel_build_id files =
     (case kf_kernel_notes files of None \<Rightarrow> Inl Io_error | Some data \<Rightarrow> parse_gnu_build_id_from_notes (kf_read_notes files) data)"

definition list_module :: "kernel_files \<Rightarrow> kernel_module \<Rightarrow> KernelCodeRange option" where
  "list_module files info =
     (if km_state info \<noteq> ''Live'' then None
      else case module_start_address files (km_name info) of
          Inl e \<Rightarrow> None
        | Inr start \<Rightarrow>
            (case get_module_build_id files (km_name info) of
               Inl e \<Rightarrow> None
             | Inr b \<Rightarrow> Some \<lparr>kcr_name = km_name info, kcr_build_id = b, kcr_start = start,
                              kcr_end = start + ucast (km_size info)\<rparr>))"

definition list_modules :: "kernel_files \<Rightarrow> kernel_error + KernelCodeRange list" where
  "list_modules files =
     (case kf_modules files of None \<Rightarrow> Inl Io_error | Some infos \<Rightarrow> Inr (List.map_filter (list_module files) infos))"

definition get_all_kernel_modules :: "kernel_files \<Rightarrow> kernel_error + KernelCodeRange list" where
  "get_all_kernel_modules files =
     (case list_modules files of
        Inl e \<Rightarrow> Inl e
      | Inr code_sections \<Rightarrow>
          (case kernel_addresses (kf_kallsyms files) of
             None \<Rightarrow> Inl No_kernel_addresses
           | Some (start, stop) \<Rightarrow>
               (case kernel_build_id files of
                  Inl e \<Rightarrow> Inl e
                | Inr b \<Rightarrow> Inr (code_sections @ [\<lparr>kcr_name = ''[vmlinux]'', kcr_build_id = b, kcr_start = start, kcr_end = stop\<rparr>]))))"

section \<open>Registering the kernel\<close>

text \<open>\<open>id().expect\<close> panics.\<close>

definition kernel_mapping :: "u64 \<Rightarrow> KernelCodeRange \<Rightarrow> ExecutableMapping option" where
  "kernel_mapping kaslr e =
     map_option (\<lambda>i. \<lparr>em_executable_id = i, em_build_id = Some (kcr_build_id e), em_kind = Kernel,
       em_start_addr = kcr_start e, em_end_addr = kcr_end e, em_offset = kaslr, em_load_address = 0,
       em_soft_delete = False\<rparr>) (executable_id_of (kcr_build_id e))"

definition kernel_object :: "KernelCodeRange \<Rightarrow> profiler \<Rightarrow> profiler" where
  "kernel_object e s =
     (case executable_id_of (kcr_build_id e) of
        None \<Rightarrow> s
      | Some i \<Rightarrow> s\<lparr>object_files := (object_files s)(i \<mapsto>
            \<lparr>of_path = kcr_name e, elf_load_segments = [], is_vdso = False, runtime = CLike\<rparr>),
          references := (references s)(i \<mapsto> 1)\<rparr>)"

definition add_kernel_modules :: "kernel_files \<Rightarrow> nat \<Rightarrow> profiler \<Rightarrow> profiler option" where
  "add_kernel_modules files now s =
     (case kaslr_offset (kf_kcore files) of
        None \<Rightarrow> None
      | Some offset \<Rightarrow>
          let kaslr = (case offset of Inl e \<Rightarrow> 0 | Inr n \<Rightarrow> n) in
          (case get_all_kernel_modules files of
             Inl e \<Rightarrow> Some s
           | Inr ranges \<Rightarrow>
               (case those (map (kernel_mapping kaslr) ranges) of
                  None \<Rightarrow> None
                | Some mappings \<Rightarrow> Some (fold kernel_object ranges
                    (s\<lparr>procs := (procs s)(KERNEL_PID \<mapsto>
                       \<lparr>pi_status = Running, pi_mappings = mappings, pi_last_used = now\<rparr>)\<rparr>)))))"

section \<open>Kernel ranges\<close>

lemma find_build_id_note_has_id: "find_build_id_note ns = Inr b \<Longrightarrow> executable_id_of b \<noteq> None"
proof (induction ns)
  case (Cons n ns)
  then show ?case by (cases n) (auto split: if_splits sum.splits dest!: read_build_id_has_id [OF disjI1])
qed simp

lemma parsed_build_id_has_id: "parse_gnu_build_id_from_notes read_notes data = Inr b \<Longrightarrow> executable_id_of b \<noteq> None"
  by (auto simp: parse_gnu_build_id_from_notes_def dest: find_build_id_note_has_id split: option.splits)

lemma kernel_ranges_have_ids:
  assumes "get_all_kernel_modules files = Inr ranges" "r \<in> set ranges"
  shows "executable_id_of (kcr_build_id r) \<noteq> None"
  using assms
  by (auto simp: get_all_kernel_modules_def list_modules_def list_module_def get_module_build_id_def kernel_build_id_def
      List.map_filter_def dest!: parsed_build_id_has_id split: sum.splits option.splits prod.splits if_splits)

text \<open>The identifier of a range, and its mapping.\<close>

definition range_id :: "KernelCodeRange \<Rightarrow> u64" where
  "range_id r = the (executable_id_of (kcr_build_id r))"

definition range_mapping :: "u64 \<Rightarrow> KernelCodeRange \<Rightarrow> ExecutableMapping" where
  "range_mapping kaslr r = the (kernel_mapping kaslr r)"

lemma range_mapping_fields [simp]:
  assumes "executable_id_of (kcr_build_id r) \<noteq> None"
  shows "em_executable_id (range_mapping kaslr r) = range_id r" "em_kind (range_mapping kaslr r) = Kernel"
    "em_start_addr (range_mapping kaslr r) = kcr_start r" "em_end_addr (range_mapping kaslr r) = kcr_end r"
    "em_offset (range_mapping kaslr r) = kaslr" "em_soft_delete (range_mapping kaslr r) = False"
  using assms by (auto simp: range_mapping_def kernel_mapping_def range_id_def)

lemma kernel_mappings:
  "\<forall>r \<in> set ranges. executable_id_of (kcr_build_id r) \<noteq> None \<Longrightarrow>
     those (map (kernel_mapping kaslr) ranges) = Some (map (range_mapping kaslr) ranges)"
  by (induction ranges) (auto simp: range_mapping_def kernel_mapping_def)

lemma fold_kernel_object:
  assumes "\<forall>r \<in> set ranges. executable_id_of (kcr_build_id r) \<noteq> None" "distinct (map range_id ranges)"
  shows "procs (fold kernel_object ranges s) = procs s"
    and "references (fold kernel_object ranges s) i = (if i \<in> range_id ` set ranges then Some 1 else references s i)"
    and "r \<in> set ranges \<Longrightarrow> object_files (fold kernel_object ranges s) (range_id r) =
       Some \<lparr>of_path = kcr_name r, elf_load_segments = [], is_vdso = False, runtime = CLike\<rparr>"
proof -
  have step: "procs (kernel_object x s) = procs s" "references (kernel_object x s) = (references s)(range_id x \<mapsto> 1)"
    "object_files (kernel_object x s) = (object_files s)(range_id x \<mapsto>
       \<lparr>of_path = kcr_name x, elf_load_segments = [], is_vdso = False, runtime = CLike\<rparr>)"
    if "executable_id_of (kcr_build_id x) \<noteq> None" for x s
    using that by (auto simp: kernel_object_def range_id_def)
  show "procs (fold kernel_object ranges s) = procs s"
    using assms(1) by (induction ranges arbitrary: s) (simp_all add: step)
  show "references (fold kernel_object ranges s) i = (if i \<in> range_id ` set ranges then Some 1 else references s i)"
    using assms(1) by (induction ranges arbitrary: s) (simp_all add: step)
  have other: "object_files (fold kernel_object ranges s) i = object_files s i"
    if "\<forall>r \<in> set ranges. executable_id_of (kcr_build_id r) \<noteq> None" "i \<notin> range_id ` set ranges" for ranges i s
    using that by (induction ranges arbitrary: s) (simp_all add: step)
  show "object_files (fold kernel_object ranges s) (range_id r) =
       Some \<lparr>of_path = kcr_name r, elf_load_segments = [], is_vdso = False, runtime = CLike\<rparr>" if "r \<in> set ranges"
    using assms that by (induction ranges arbitrary: s) (auto simp: step other)
qed

lemma add_kernel_modules_result:
  assumes "kaslr_offset (kf_kcore files) = Some offset" "get_all_kernel_modules files = Inr ranges"
  shows "add_kernel_modules files now s = Some (fold kernel_object ranges
     (s\<lparr>procs := (procs s)(KERNEL_PID \<mapsto> \<lparr>pi_status = Running,
        pi_mappings = map (range_mapping (case offset of Inl e \<Rightarrow> 0 | Inr n \<Rightarrow> n)) ranges, pi_last_used = now\<rparr>)\<rparr>))"
  using assms kernel_mappings [of ranges] kernel_ranges_have_ids [OF assms(2)] by (simp add: add_kernel_modules_def Let_def)

lemma for_address_range:
  assumes "\<forall>r \<in> set ranges. executable_id_of (kcr_build_id r) \<noteq> None"
  shows "for_address (map (range_mapping kaslr) ranges) va =
     map_option (range_mapping kaslr) (find (\<lambda>r. kcr_start r \<le> va \<and> va < kcr_end r) ranges)"
  using assms by (induction ranges) (auto simp: for_address_def)

section \<open>Reading the offset of the kernel image\<close>

text \<open>How the kernel writes the note.\<close>

definition vmcore_text :: "(u8 list \<times> u8 list) list \<Rightarrow> u8 list" where
  "vmcore_text entries = concat (map (\<lambda>(key, val). key @ 0x3D # val @ [0x0A]) entries)"

definition vmcore_entry_ok :: "u8 list \<times> u8 list \<Rightarrow> bool" where
  "vmcore_entry_ok = (\<lambda>(key, val). 0x3D \<notin> set key \<and> 0x0A \<notin> set key \<and> 0x3D \<notin> set val \<and> 0x0A \<notin> set val)"

lemma parse_vmcore_text:
  assumes "\<forall>e \<in> set entries. vmcore_entry_ok e"
  shows "parse_vm_core_info_line (vmcore_text entries) = entries"
  using assms
proof (induction entries)
  case Nil
  show ?case by (simp add: parse_vm_core_info_line_def vmcore_text_def List.map_filter_def)
next
  case (Cons e entries)
  obtain key val where e: "e = (key, val)" by fastforce
  have key: "0x3D \<notin> set key" and val: "0x3D \<notin> set val" and line: "0x0A \<notin> set (key @ 0x3D # val)"
    using Cons.prems by (auto simp: e vmcore_entry_ok_def)
  have "vmcore_text (e # entries) = (key @ 0x3D # val) @ 0x0A # vmcore_text entries"
    by (simp add: e vmcore_text_def)
  then have "split_on 0x0A (vmcore_text (e # entries)) = (key @ 0x3D # val) # split_on 0x0A (vmcore_text entries)"
    using split_on_append_sep [OF line] by simp
  moreover have "split_on 0x3D (key @ 0x3D # val) = [key, val]"
    using split_on_append_sep [OF key, of val] split_on_absent [OF val] by simp
  ultimately show ?case
    using Cons by (simp add: parse_vm_core_info_line_def List.map_filter_def e)
qed

lemma utf8_loop_ascii: "\<forall>b \<in> set bs. unat b < 128 \<Longrightarrow> utf8_loop n 0 bs = Inr ()"
  by (induction bs arbitrary: n) (auto simp: utf8_char_def word_le_nat_alt word_less_nat_alt)

lemma from_utf8_ascii:
  assumes "\<forall>c \<in> set s. (of_char c :: nat) < 128"
  shows "from_utf8 (bytes_of s) = Inr s"
proof -
  have "utf8_loop 0 0 (bytes_of s) = Inr ()"
    using assms by (intro utf8_loop_ascii) (auto simp: bytes_of_def unat_of_nat)
  moreover have "map char_of_byte (bytes_of s) = s"
    using assms by (induction s) (auto simp: bytes_of_def char_of_byte_def unat_of_nat)
  ultimately show ?thesis by (simp add: from_utf8_def)
qed

lemma kaslr_of_notes_skip:
  "\<forall>n \<in> set ns. n = None \<or> note_name (the n) \<noteq> VMCORE_INFO_NAME \<Longrightarrow> kaslr_of_notes (ns @ rest) = kaslr_of_notes rest"
proof (induction ns)
  case (Cons n ns)
  then show ?case by (cases n) auto
qed simp

lemma fmt_hex_ascii: "c \<in> set (fmt_hex n) \<Longrightarrow> (of_char c :: nat) < 128"
  using set_fmt_radix [of 16 n] by (auto simp: fmt_hex_def digit_char_def)

lemma kaslr_of_vmcore_note:
  assumes "\<forall>e \<in> set entries. vmcore_entry_ok e"
    and "find (\<lambda>(key, val). key = KERNEL_OFFSET) entries = Some (KERNEL_OFFSET, bytes_of (fmt_hex (unat offset)))"
    and "note_desc n = vmcore_text entries"
  shows "kaslr_of_note n = Some (Inr offset)"
proof -
  have "unat offset < 2 ^ 64" using unsigned_less [of offset] by simp
  then have "unat offset \<le> U64_MAX" by simp
  then have "from_str_radix 16 U64_MAX (fmt_hex (unat offset)) = Some (unat offset)"
    unfolding fmt_hex_def by (intro from_str_radix_fmt_radix) simp_all
  then show ?thesis
    using assms(2,3) from_utf8_ascii [of "fmt_hex (unat offset)"] fmt_hex_ascii [of _ "unat offset"]
    by (simp add: kaslr_of_note_def parse_vmcore_text [OF assms(1)])
qed

section \<open>Properties\<close>

text \<open>
  C32. Kernel addresses are resolved. When the kernel's ranges can be read, registering them succeeds, and for
  an address that lies in exactly one of them the kernel process has a mapping with the identifier of that range,
  whose object file has its name, and the frame's file offset is the address less the offset of the kernel image;
  when no two ranges have the same identifier.
\<close>

theorem kernel_addresses_resolve:
  assumes "kaslr_offset (kf_kcore files) = Some (Inr kaslr)" "get_all_kernel_modules files = Inr ranges"
    and "distinct (map range_id ranges)" "r \<in> set ranges" "kcr_start r \<le> va" "va < kcr_end r"
    and "\<forall>r' \<in> set ranges. r' \<noteq> r \<longrightarrow> \<not> (kcr_start r' \<le> va \<and> va < kcr_end r')"
  shows "\<exists>s' info m obj. add_kernel_modules files now s = Some s' \<and> procs s' KERNEL_PID = Some info \<and>
     for_address (pi_mappings info) va = Some m \<and> executable_id_of (kcr_build_id r) = Some (em_executable_id m) \<and>
     object_files s' (em_executable_id m) = Some obj \<and> of_path obj = kcr_name r \<and>
     normalized_address obj va m = Some (va - kaslr)"
proof -
  note ids = kernel_ranges_have_ids [OF assms(2)]
  have "find (\<lambda>r. kcr_start r \<le> va \<and> va < kcr_end r) ranges = Some r"
  proof (cases "find (\<lambda>r. kcr_start r \<le> va \<and> va < kcr_end r) ranges")
    case None
    then show ?thesis using assms(4-6) by (auto simp: find_None_iff)
  next
    case (Some r')
    then show ?thesis using assms(7) by (auto simp: find_Some_iff)
  qed
  then have m: "for_address (map (range_mapping kaslr) ranges) va = Some (range_mapping kaslr r)"
    using for_address_range [of ranges kaslr va] ids by simp
  have "normalized_address obj va (range_mapping kaslr r) = Some (va - kaslr)" for obj
    using ids [OF assms(4)] by (simp add: normalized_address_def)
  then show ?thesis
    using add_kernel_modules_result [OF assms(1,2), of now s] fold_kernel_object(1,3) [OF _ assms(3)] m ids assms(4)
    by (auto simp: range_id_def)
qed

definition example_kernel_files :: kernel_files where
  "example_kernel_files = \<lparr>kf_modules = Some [], kf_text = (\<lambda>_. None), kf_notes = (\<lambda>_. None), kf_kernel_notes = Some [],
     kf_kallsyms = concat (map kallsyms_line [\<lparr>ke_zeros = 0, ke_addr = 0xffffffffa2000000, ke_type = ''T'', ke_name = ''_stext''\<rparr>,
       \<lparr>ke_zeros = 0, ke_addr = 0xffffffffa3000000, ke_type = ''T'', ke_name = ''_etext''\<rparr>]),
     kf_kcore = Some (Elf64 (Some [(True, Some [Some \<lparr>note_name = VMCORE_INFO_NAME, n_type = 0,
       note_desc = vmcore_text [(KERNEL_OFFSET, bytes_of (fmt_hex 0x21000000))]\<rparr>])])),
     kf_read_notes = (\<lambda>_. Some [Some \<lparr>note_name = bytes_of ''GNU'', n_type = 3, note_desc = [1, 2, 3, 4, 5, 6, 7, 8]\<rparr>])\<rparr>"

definition example_range :: KernelCodeRange where
  "example_range = \<lparr>kcr_name = ''[vmlinux]'', kcr_build_id = \<lparr>bi_flavour = Gnu_id, bi_data = [1, 2, 3, 4, 5, 6, 7, 8]\<rparr>,
     kcr_start = 0xffffffffa2000000, kcr_end = 0xffffffffa3000000\<rparr>"

lemma example_kaslr: "kaslr_offset (kf_kcore example_kernel_files) = Some (Inr 0x21000000)"
  using kaslr_of_vmcore_note [of "[(KERNEL_OFFSET, bytes_of (fmt_hex 0x21000000))]" "0x21000000"]
  by (simp add: kaslr_offset_def example_kernel_files_def vmcore_entry_ok_def bytes_of_def KERNEL_OFFSET_def
      fmt_hex_def fmt_radix.simps digit_char_def)

lemma example_ranges: "get_all_kernel_modules example_kernel_files = Inr [example_range]"
proof -
  have "kernel_addresses (kf_kallsyms example_kernel_files) = Some (0xffffffffa2000000, 0xffffffffa3000000)"
    unfolding kernel_addresses_def example_kernel_files_def kernel_files.simps
    by (subst kallsyms_is_read) (simp_all add: entry_wf_def entry_listed_def is_whitespace_def)
  moreover have "kernel_build_id example_kernel_files = Inr (kcr_build_id example_range)"
    by (simp add: kernel_build_id_def example_kernel_files_def parse_gnu_build_id_from_notes_def ELF_NOTE_GNU_def
        NT_GNU_BUILD_ID_def gnu_from_bytes_def MIN_BUILD_ID_BYTES_def example_range_def)
  moreover have "list_modules example_kernel_files = Inr []"
    by (simp add: list_modules_def example_kernel_files_def List.map_filter_def)
  ultimately show ?thesis by (simp add: get_all_kernel_modules_def example_range_def)
qed

theorem kernel_addresses_resolve_witness:
  "\<exists>s' info m obj. add_kernel_modules example_kernel_files 7 no_processes = Some s' \<and> procs s' KERNEL_PID = Some info \<and>
     for_address (pi_mappings info) 0xffffffffa2345678 = Some m \<and>
     executable_id_of (kcr_build_id example_range) = Some (em_executable_id m) \<and>
     object_files s' (em_executable_id m) = Some obj \<and> of_path obj = ''[vmlinux]'' \<and>
     normalized_address obj 0xffffffffa2345678 m = Some 0xffffffff81345678"
  using kernel_addresses_resolve [OF example_kaslr example_ranges, of example_range "0xffffffffa2345678" 7 no_processes]
  by (simp add: example_range_def)

text \<open>When they cannot be read the profiler goes on, and no sample is ever processed.\<close>

lemma kernel_unreadable_no_profile:
  assumes "get_all_kernel_modules files = Inl e" "kaslr_offset (kf_kcore files) \<noteq> None" "procs s KERNEL_PID = None"
  shows "\<exists>s'. add_kernel_modules files now s = Some s' \<and> raw_to_processed (procs s') objs raw_profile = []"
  using assms no_kernel_no_profile [of "procs s"] by (auto simp: add_kernel_modules_def Let_def)

text \<open>
  The kernel writes the address of a section in hexadecimal. Its first eight characters, read as a number, are the
  same for every module, and that number is no address of the kernel: no frame in a module is ever resolved.
\<close>

lemma module_addresses_are_text:
  assumes "kf_text files name = Some (bytes_of (''0x'' @ fmt_hex a @ [CHR 0x0A]))" "take 6 (fmt_hex a) = ''ffffff''"
  shows "module_start_address files name = Inr 0x6666666666667830"
proof -
  have "fmt_hex a = ''ffffff'' @ drop 6 (fmt_hex a)" using assms(2) append_take_drop_id [of 6 "fmt_hex a"] by simp
  then obtain rest where "fmt_hex a = ''ffffff'' @ rest" by blast
  then show ?thesis using assms(1) by (simp add: module_start_address_def bytes_of_def)
qed

lemma module_frames_are_lost:
  assumes "kf_text files (km_name info) = Some (bytes_of (''0x'' @ fmt_hex a @ [CHR 0x0A]))" "take 6 (fmt_hex a) = ''ffffff''"
    and "list_module files info = Some r" "0xffff000000000000 \<le> va"
  shows "\<not> (kcr_start r \<le> va \<and> va < kcr_end r)"
proof -
  have "kcr_end r = 0x6666666666667830 + ucast (km_size info)"
    using assms(3) module_addresses_are_text [OF assms(1,2)] by (auto simp: list_module_def split: sum.splits if_splits)
  moreover have "unat (ucast (km_size info) :: u64) < 2 ^ 32"
    using unsigned_less [of "km_size info"] by (simp add: unsigned_ucast_eq take_bit_nat_eq_self)
  ultimately have "unat (kcr_end r) < 0x7000000000000000" by (simp add: unat_word_ariths)
  moreover have "0xffff000000000000 \<le> unat va" using assms(4) by (simp add: word_le_nat_alt)
  ultimately show ?thesis by (auto simp: word_less_nat_alt)
qed

text \<open>
  C40. The offset of the kernel image is read as the kernel writes it: from the first \<open>VMCOREINFO\<close> note of
  \<open>/proc/kcore\<close>, wherever it is, from the entry \<open>KERNELOFFSET\<close>, in hexadecimal.
\<close>

theorem kaslr_offset_is_read:
  assumes "\<forall>e \<in> set entries. vmcore_entry_ok e"
    and "find (\<lambda>(key, val). key = KERNEL_OFFSET) entries = Some (KERNEL_OFFSET, bytes_of (fmt_hex (unat offset)))"
    and "\<forall>n \<in> set ns. n = None \<or> note_name (the n) \<noteq> VMCORE_INFO_NAME"
    and "\<forall>h \<in> set headers. \<not> fst h \<or> (\<exists>ns'. snd h = Some ns' \<and>
           (\<forall>n \<in> set ns'. n = None \<or> note_name (the n) \<noteq> VMCORE_INFO_NAME))"
  shows "kaslr_offset (Some (Elf64 (Some (headers @ (True, Some (ns @
       Some \<lparr>note_name = VMCORE_INFO_NAME, n_type = t, note_desc = vmcore_text entries\<rparr> # ns')) # headers')))) = Some (Inr offset)"
proof -
  have skip: "kaslr_of_headers (headers @ rest) = kaslr_of_headers rest" for rest
    using assms(4)
  proof (induction headers)
    case (Cons h headers)
    then show ?case
      using kaslr_of_notes_skip [of _ "[]"] by (cases h; cases "fst h"; cases "snd h") auto
  qed simp
  show ?thesis by (simp add: kaslr_offset_def skip kaslr_of_notes_skip [OF assms(3)] kaslr_of_vmcore_note [OF assms(1,2)])
qed

theorem kaslr_offset_is_read_witness:
  "kaslr_offset (Some (Elf64 (Some [(False, None), (True, Some [None, Some \<lparr>note_name = VMCORE_INFO_NAME, n_type = 0,
     note_desc = vmcore_text [(bytes_of ''PAGESIZE'', bytes_of ''4096''), (KERNEL_OFFSET, bytes_of (fmt_hex 0x1b000000))]\<rparr>])]))) =
   Some (Inr 0x1b000000)"
  using kaslr_offset_is_read [of "[(bytes_of ''PAGESIZE'', bytes_of ''4096''), (KERNEL_OFFSET, bytes_of (fmt_hex 0x1b000000))]"
      "0x1b000000" "[None]" "[(False, None)]" 0 "[]" "[]"]
  by (simp add: vmcore_entry_ok_def bytes_of_def KERNEL_OFFSET_def fmt_hex_def fmt_radix.simps digit_char_def)

end
