(* ===== verification/Session.thy ===== *)
theory Session
  imports Collector Kernel_Modules Accounting
begin

text \<open>
  The main loop of the profiler, \<open>run\<close> of src/src/profiler.rs, with what it does itself: receiving samples and
  events, collecting profiles, keeping track of what was used last, clearing the rate limits. The handlers it calls
  are those of \<open>Process_Registry\<close> and \<open>Process_Exit\<close>. The thread that hands profiles to the collector is a step
  of its own, so that every interleaving of the two is a sequence of steps; so is the kernel when it marks an event as
  sent. Which message the loop takes first is open: a run is any sequence of messages. Log messages and the polling
  of buffers are left out.
\<close>

section \<open>Messages\<close>

definition handle_sample :: "u64 \<Rightarrow> u8 list \<Rightarrow> raw_sample option" where
  "handle_sample walltime_at_system_boot data =
     (case from_bytes data of
        Inr sample \<Rightarrow> Some (sample\<lparr>rs_collected_at := rs_collected_at sample + walltime_at_system_boot\<rparr>)
      | Inl e \<Rightarrow> None)"

datatype TracerEvent = ProcessExit s32 | Munmap s32 u64

text \<open>The type is a plain number in the message; \<open>None\<close> is a panic.\<close>

definition tracer_event_from :: "u32 \<Rightarrow> s32 \<Rightarrow> u64 \<Rightarrow> TracerEvent option" where
  "tracer_event_from ty pid start_address =
     (if ty = tracer_event_type_value TRACER_EVENT_TYPE_PROCESS_EXIT then Some (ProcessExit pid)
      else if ty = tracer_event_type_value TRACER_EVENT_TYPE_MUNMAP then Some (Munmap pid start_address)
      else None)"

lemma tracer_events_are_decoded:
  "tracer_event_from (tracer_event_type_value (te_type e)) (te_pid e) (te_start_address e) =
     Some (case te_type e of TRACER_EVENT_TYPE_PROCESS_EXIT \<Rightarrow> ProcessExit (te_pid e)
           | TRACER_EVENT_TYPE_MUNMAP \<Rightarrow> Munmap (te_pid e) (te_start_address e))"
  by (cases "te_type e") (simp_all add: tracer_event_from_def)

section \<open>Clearing a map\<close>

text \<open>
  The system call that iterates over a hash map, as bpf(2) documents it, on its keys in the order of the
  buckets: the first key when there is no previous one or when that is gone, else the one that follows it.
\<close>

definition get_next_key :: "'k list \<Rightarrow> 'k option \<Rightarrow> 'k option" where
  "get_next_key ks previous_key =
     (let first = (case ks of [] \<Rightarrow> None | k # _ \<Rightarrow> Some k) in
      case previous_key of
        None \<Rightarrow> first
      | Some k \<Rightarrow> (case dropWhile (\<lambda>x. x \<noteq> k) ks of [] \<Rightarrow> first | [_] \<Rightarrow> None | _ # x # _ \<Rightarrow> Some x))"

definition delete_entry :: "'k option \<Rightarrow> 'k list \<Rightarrow> 'k list" where
  "delete_entry previous_key ks = (case previous_key of None \<Rightarrow> ks | Some k \<Rightarrow> filter (\<lambda>x. x \<noteq> k) ks)"

text \<open>The loop of \<open>clear_map\<close>: a key is deleted once the next one is known. It need not end, in principle.\<close>

partial_function (option) clear_loop :: "'k list \<Rightarrow> 'k option \<Rightarrow> 'k list option" where
  "clear_loop ks previous_key =
     (case get_next_key ks previous_key of
        None \<Rightarrow> Some (delete_entry previous_key ks)
      | Some key \<Rightarrow> clear_loop (delete_entry previous_key ks) (Some key))"

definition clear_map :: "'k list \<Rightarrow> 'k list option" where
  "clear_map ks = clear_loop ks None"

section \<open>Statistics\<close>

definition unwinder_stats_add :: "unwinder_stats_t \<Rightarrow> unwinder_stats_t \<Rightarrow> unwinder_stats_t" where
  "unwinder_stats_add self other =
     \<lparr>total = total self + total other,
      success_dwarf = success_dwarf self + success_dwarf other,
      error_truncated = error_truncated self + error_truncated other,
      error_unsupported_expression = error_unsupported_expression self + error_unsupported_expression other,
      error_unsupported_frame_pointer_action =
        error_unsupported_frame_pointer_action self + error_unsupported_frame_pointer_action other,
      error_unsupported_cfa_register = error_unsupported_cfa_register self + error_unsupported_cfa_register other,
      error_previous_rsp_read = error_previous_rsp_read self + error_previous_rsp_read other,
      error_previous_rsp_zero = error_previous_rsp_zero self + error_previous_rsp_zero other,
      error_previous_rip_zero = error_previous_rip_zero self + error_previous_rip_zero other,
      error_previous_rbp_read = error_previous_rbp_read self + error_previous_rbp_read other,
      error_should_never_happen = error_should_never_happen self + error_should_never_happen other,
      error_mapping_not_found = error_mapping_not_found self + error_mapping_not_found other,
      error_mapping_does_not_contain_pc = error_mapping_does_not_contain_pc self + error_mapping_does_not_contain_pc other,
      error_page_not_found = error_page_not_found self + error_page_not_found other,
      error_binary_search_exhausted_iterations =
        error_binary_search_exhausted_iterations self + error_binary_search_exhausted_iterations other,
      error_sending_new_process_event = error_sending_new_process_event self + error_sending_new_process_event other,
      error_cfa_offset_did_not_fit = error_cfa_offset_did_not_fit self + error_cfa_offset_did_not_fit other,
      error_rbp_offset_did_not_fit = error_rbp_offset_did_not_fit self + error_rbp_offset_did_not_fit other,
      error_failure_sending_stack = error_failure_sending_stack self + error_failure_sending_stack other,
      bp_non_zero_for_bottom_frame = bp_non_zero_for_bottom_frame self + bp_non_zero_for_bottom_frame other,
      vdso_encountered = vdso_encountered self + vdso_encountered other,
      jit_encountered = jit_encountered self + jit_encountered other\<rparr>"

definition unwinder_stats_default :: unwinder_stats_t where
  "unwinder_stats_default =
     \<lparr>total = 0, success_dwarf = 0, error_truncated = 0, error_unsupported_expression = 0,
      error_unsupported_frame_pointer_action = 0, error_unsupported_cfa_register = 0, error_previous_rsp_read = 0,
      error_previous_rsp_zero = 0, error_previous_rip_zero = 0, error_previous_rbp_read = 0,
      error_should_never_happen = 0, error_mapping_not_found = 0, error_mapping_does_not_contain_pc = 0,
      error_page_not_found = 0, error_binary_search_exhausted_iterations = 0, error_sending_new_process_event = 0,
      error_cfa_offset_did_not_fit = 0, error_rbp_offset_did_not_fit = 0, error_failure_sending_stack = 0,
      bp_non_zero_for_bottom_frame = 0, vdso_encountered = 0, jit_encountered = 0\<rparr>"

text \<open>The values of all CPUs are added up, and logged.\<close>

definition collect_unwinder_stats :: "unwinder_stats_t list \<Rightarrow> unwinder_stats_t" where
  "collect_unwinder_stats per_cpu_value = fold (\<lambda>b a. unwinder_stats_add a b) per_cpu_value unwinder_stats_default"

section \<open>What was used last\<close>

definition bump_process :: "nat \<Rightarrow> s32 \<Rightarrow> profiler \<Rightarrow> profiler" where
  "bump_process now pid s =
     (case procs s pid of
        None \<Rightarrow> s
      | Some info \<Rightarrow> s\<lparr>procs := (procs s)(pid \<mapsto> info\<lparr>pi_last_used := now\<rparr>)\<rparr>)"

definition bump_executable :: "nat \<Rightarrow> s32 \<Rightarrow> u64 \<Rightarrow> profiler \<Rightarrow> profiler" where
  "bump_executable now pid virtual_address s =
     (case procs s pid of
        None \<Rightarrow> s
      | Some info \<Rightarrow>
          (case for_address (pi_mappings info) virtual_address of
             None \<Rightarrow> s
           | Some mapping \<Rightarrow>
               (case known_executables s (em_executable_id mapping) of
                  None \<Rightarrow> s
                | Some executable \<Rightarrow> s\<lparr>known_executables := (known_executables s)
                    (em_executable_id mapping \<mapsto> executable\<lparr>ke_last_used := now\<rparr>)\<rparr>)))"

definition bump_last_used :: "nat \<Rightarrow> RawAggregatedSample list \<Rightarrow> profiler \<Rightarrow> profiler" where
  "bump_last_used now raw_aggregated_samples s =
     fold (\<lambda>a s. fold (bump_executable now (rs_pid (ras_sample a))) (rs_ustack (ras_sample a))
         (bump_process now (rs_pid (ras_sample a)) s))
       raw_aggregated_samples s"

section \<open>The main loop\<close>

text \<open>
  The state that the loop and the collector's thread share. \<open>ss_profiles\<close> is the channel between them;
  \<open>ss_rate_limits\<close> the keys of the BPF map, in the order of its buckets.
\<close>

record 'c session =
  ss_profiler :: profiler
  ss_rate_limits :: "Event list"
  ss_raw_samples :: "raw_sample list"
  ss_profiles :: "RawAggregatedSample list list"
  ss_collector :: 'c
  ss_running :: bool

record session_env =
  sv_hash :: "sample_key \<Rightarrow> u64"
  sv_now :: nat
  sv_filter :: filter_config
  sv_loader :: loader_env
  sv_proc :: proc_env
  sv_accepts :: acceptance

datatype session_event =
    Stop_signal
  | Total_duration_tick
  | Session_tick
  | Sample_received raw_sample
  | Tracer_received TracerEvent
  | Unwinder_received u32 s32 u64 "MemoryMap list option" bool
  | Nothing_received
  | Collector_receives
  | Kernel_rate_limits Event

text \<open>\<open>None\<close> stands for not returning.\<close>

definition collect_profile :: "session_env \<Rightarrow> 'c session \<Rightarrow> (RawAggregatedSample list \<times> 'c session) option" where
  "collect_profile env s =
     (let result = aggregate (sv_hash env) (ss_raw_samples s) in
      map_option (\<lambda>ks. (result, s\<lparr>ss_raw_samples := [], ss_profiler := bump_last_used (sv_now env) result (ss_profiler s),
          ss_rate_limits := ks\<rparr>))
        (clear_map (ss_rate_limits s)))"

definition send_profile :: "RawAggregatedSample list \<Rightarrow> 'c session \<Rightarrow> 'c session" where
  "send_profile profile s = s\<lparr>ss_profiles := ss_profiles s @ [profile]\<rparr>"

definition collect_and_send :: "session_env \<Rightarrow> 'c session \<Rightarrow> 'c session option" where
  "collect_and_send env s = map_option (\<lambda>(profile, s'). send_profile profile s') (collect_profile env s)"

fun loop_step :: "session_env \<Rightarrow> session_event \<Rightarrow> 'c session \<Rightarrow> 'c session option" where
  "loop_step env Stop_signal s = map_option (\<lambda>s'. s'\<lparr>ss_running := False\<rparr>) (collect_and_send env s)"
| "loop_step env Total_duration_tick s = map_option (\<lambda>s'. s'\<lparr>ss_running := False\<rparr>) (collect_and_send env s)"
| "loop_step env Session_tick s = collect_and_send env s"
| "loop_step env (Sample_received raw_sample) s = Some (s\<lparr>ss_raw_samples := ss_raw_samples s @ [raw_sample]\<rparr>)"
| "loop_step env (Tracer_received (Munmap pid start_address)) s =
     Some (s\<lparr>ss_profiler := handle_munmap pid start_address (ss_profiler s)\<rparr>)"
| "loop_step env (Tracer_received (ProcessExit pid)) s = Some (s\<lparr>ss_profiler := handle_process_exit pid (ss_profiler s)\<rparr>)"
| "loop_step env (Unwinder_received ty pid address maps threads_read) s =
     (if ty = event_type_value EVENT_NEW_PROCESS
      then map_option (\<lambda>p. s\<lparr>ss_profiler := p\<rparr>)
        (event_new_proc (sv_filter env) (sv_loader env) (sv_proc env) (sv_accepts env) pid maps threads_read (ss_profiler s))
      else if ty = event_type_value EVENT_NEED_UNWIND_INFO
      then map_option (\<lambda>p. s\<lparr>ss_profiler := p\<rparr>) (event_need_unwind_info (sv_loader env) pid address (ss_profiler s))
      else Some s)"
| "loop_step env _ s = Some s"

type_synonym 'c collect_fn = "RawAggregatedSample list \<Rightarrow> (s32 \<rightharpoonup> ProcessInfo) \<Rightarrow> (u64 \<rightharpoonup> ObjectFileInfo) \<Rightarrow> 'c \<Rightarrow> 'c"

text \<open>The collector's thread waits while the channel is empty.\<close>

definition collector_receive :: "'c collect_fn \<Rightarrow> 'c session \<Rightarrow> 'c session" where
  "collector_receive collect s =
     (case ss_profiles s of
        [] \<Rightarrow> s
      | profile # profiles \<Rightarrow> s\<lparr>ss_profiles := profiles,
          ss_collector := collect profile (procs (ss_profiler s)) (object_files (ss_profiler s)) (ss_collector s)\<rparr>)"

definition session_step :: "'c collect_fn \<Rightarrow> session_env \<times> session_event \<Rightarrow> 'c session \<Rightarrow> 'c session option" where
  "session_step collect = (\<lambda>(env, ev) s.
     case ev of
       Collector_receives \<Rightarrow> Some (collector_receive collect s)
     | Kernel_rate_limits e \<Rightarrow> Some (s\<lparr>ss_rate_limits := List.insert e (ss_rate_limits s)\<rparr>)
     | _ \<Rightarrow> if ss_running s then loop_step env ev s else Some s)"

fun session_run :: "'c collect_fn \<Rightarrow> (session_env \<times> session_event) list \<Rightarrow> 'c session \<Rightarrow> 'c session option" where
  "session_run collect [] s = Some s"
| "session_run collect (step # steps) s =
     (case session_step collect step s of None \<Rightarrow> None | Some s' \<Rightarrow> session_run collect steps s')"

text \<open>\<open>run\<close> registers the kernel before the loop.\<close>

definition session_start :: "kernel_files \<Rightarrow> nat \<Rightarrow> profiler \<Rightarrow> 'c \<Rightarrow> 'c session option" where
  "session_start files now p collector =
     map_option (\<lambda>p'. \<lparr>ss_profiler = p', ss_rate_limits = [], ss_raw_samples = [], ss_profiles = [],
       ss_collector = collector, ss_running = True\<rparr>) (add_kernel_modules files now p)"

section \<open>Clearing ends\<close>

lemma clear_loop_current: "distinct (k # ks) \<Longrightarrow> clear_loop (k # ks) (Some k) = Some []"
proof (induction ks arbitrary: k)
  case Nil
  show ?case by (subst clear_loop.simps) (simp add: get_next_key_def delete_entry_def)
next
  case (Cons x ks)
  then have "filter (\<lambda>y. y \<noteq> k) (k # x # ks) = x # ks" by (auto intro: filter_True)
  with Cons show ?case by (subst clear_loop.simps) (simp add: get_next_key_def delete_entry_def)
qed

lemma clear_map_empties: "distinct ks \<Longrightarrow> clear_map ks = Some []"
  unfolding clear_map_def
  by (cases ks) (subst clear_loop.simps, simp add: get_next_key_def delete_entry_def clear_loop_current)+

lemma collect_profile_returns:
  assumes "distinct (ss_rate_limits s)"
  shows "collect_profile env s = Some (aggregate (sv_hash env) (ss_raw_samples s), s\<lparr>ss_raw_samples := [],
     ss_profiler := bump_last_used (sv_now env) (aggregate (sv_hash env) (ss_raw_samples s)) (ss_profiler s), ss_rate_limits := []\<rparr>)"
  using clear_map_empties [OF assms] by (simp add: collect_profile_def Let_def)

section \<open>Statistics\<close>

lemma collect_unwinder_stats_sum:
  assumes "i < 22"
  shows "stats_vector (collect_unwinder_stats vs) ! i = (\<Sum>v \<leftarrow> vs. stats_vector v ! i)"
proof -
  have add: "stats_vector (unwinder_stats_add a b) ! i = stats_vector a ! i + stats_vector b ! i" for a b
    using assms by (auto simp: stats_vector_def unwinder_stats_add_def less_Suc_eq numeral_eq_Suc)
  have "stats_vector (fold (\<lambda>b a. unwinder_stats_add a b) vs a) ! i = stats_vector a ! i + (\<Sum>v \<leftarrow> vs. stats_vector v ! i)" for a
    by (induction vs arbitrary: a) (simp_all add: add)
  moreover have "stats_vector unwinder_stats_default ! i = 0"
    using assms by (auto simp: stats_vector_def unwinder_stats_default_def less_Suc_eq numeral_eq_Suc)
  ultimately show ?thesis by (simp add: collect_unwinder_stats_def)
qed

section \<open>What was used last\<close>

definition without_times :: "(s32 \<rightharpoonup> ProcessInfo) \<Rightarrow> s32 \<Rightarrow> ProcessInfo option" where
  "without_times ps pid = map_option (\<lambda>info. info\<lparr>pi_last_used := 0\<rparr>) (ps pid)"

lemma bump_executable_frame [simp]:
  "procs (bump_executable now pid va s) = procs s" "references (bump_executable now pid va s) = references s"
  "object_files (bump_executable now pid va s) = object_files s"
  by (simp_all add: bump_executable_def split: option.split)

lemma fold_bump_executable_frame [simp]:
  "procs (fold (bump_executable now pid) vas s) = procs s" "references (fold (bump_executable now pid) vas s) = references s"
  "object_files (fold (bump_executable now pid) vas s) = object_files s"
  by (induction vas arbitrary: s) simp_all

lemma bump_process_frame:
  "references (bump_process now pid s) = references s" "object_files (bump_process now pid s) = object_files s"
  "without_times (procs (bump_process now pid s)) = without_times (procs s)"
  "p \<noteq> pid \<Longrightarrow> procs (bump_process now pid s) p = procs s p"
  by (auto simp: bump_process_def without_times_def fun_eq_iff split: option.split)

lemma bump_last_used_frame:
  "references (bump_last_used now raw s) = references s" "object_files (bump_last_used now raw s) = object_files s"
  "without_times (procs (bump_last_used now raw s)) = without_times (procs s)"
  "p \<notin> (\<lambda>a. rs_pid (ras_sample a)) ` set raw \<Longrightarrow> procs (bump_last_used now raw s) p = procs s p"
  by (induction raw arbitrary: s) (simp_all add: bump_last_used_def bump_process_frame)

lemma ref_inv_times:
  assumes "ref_inv exacts s" "references s' = references s" "without_times (procs s') = without_times (procs s)"
  shows "ref_inv exacts s'"
proof -
  have "dom (procs s') = dom (procs s)"
    using assms(3) by (auto simp: without_times_def fun_eq_iff dom_def) (metis not_None_eq option.map_disc_iff)+
  moreover have "pi_mappings (the (procs s' p)) = pi_mappings (the (procs s p))" for p
  proof -
    have "map_option (\<lambda>info. info\<lparr>pi_last_used := 0\<rparr>) (procs s' p) = map_option (\<lambda>info. info\<lparr>pi_last_used := 0\<rparr>) (procs s p)"
      using fun_cong [OF assms(3), of p] by (simp add: without_times_def)
    then show ?thesis by (cases "procs s' p"; cases "procs s p") (auto dest: arg_cong [where f = pi_mappings])
  qed
  ultimately have "live_total i (procs s') = live_total i (procs s)" for i by (simp add: live_total_def)
  with assms(1,2) \<open>dom (procs s') = dom (procs s)\<close> show ?thesis by (simp add: ref_inv_def)
qed

section \<open>Samples are conserved\<close>

abbreviation profile_count :: "RawAggregatedSample list \<Rightarrow> nat" where
  "profile_count profile \<equiv> sum_list (map ras_count profile)"

definition in_channel :: "'c session \<Rightarrow> nat" where
  "in_channel s = (\<Sum>p \<leftarrow> ss_profiles s. profile_count p)"

definition pending :: "'c session \<Rightarrow> nat" where
  "pending s = length (filter has_stack (ss_raw_samples s))"

definition stops :: "session_event \<Rightarrow> bool" where
  "stops ev \<longleftrightarrow> ev = Stop_signal \<or> ev = Total_duration_tick"

text \<open>The samples that the loop takes from its channel before it ends.\<close>

fun samples_before_stop :: "session_event list \<Rightarrow> raw_sample list" where
  "samples_before_stop [] = []"
| "samples_before_stop (ev # evs) =
     (if stops ev then [] else (case ev of Sample_received r \<Rightarrow> [r] | _ \<Rightarrow> []) @ samples_before_stop evs)"

lemma collect_and_send_result:
  assumes "collect_and_send env s = Some s'" "distinct (ss_rate_limits s)"
  shows "ss_collector s' = ss_collector s" "ss_running s' = ss_running s" "ss_rate_limits s' = []" "ss_raw_samples s' = []"
    "ss_profiles s' = ss_profiles s @ [aggregate (sv_hash env) (ss_raw_samples s)]"
    "ss_profiler s' = bump_last_used (sv_now env) (aggregate (sv_hash env) (ss_raw_samples s)) (ss_profiler s)"
  using assms collect_profile_returns [OF assms(2), of env] by (auto simp: collect_and_send_def send_profile_def)

lemma session_step_loop:
  assumes "ev \<noteq> Collector_receives" "\<nexists>e. ev = Kernel_rate_limits e"
  shows "session_step collect (env, ev) s = (if ss_running s then loop_step env ev s else Some s)"
  using assms by (cases ev) (auto simp: session_step_def simp del: loop_step.simps)

text \<open>What a step does to the samples: those received are added to what is pending, in the channel or collected.\<close>

definition conserves :: "'c collect_fn \<Rightarrow> session_event \<Rightarrow> 'c session \<Rightarrow> 'c session \<Rightarrow> bool" where
  "conserves collect ev s s' \<longleftrightarrow>
     distinct (ss_rate_limits s') \<and> ss_running s' = (ss_running s \<and> \<not> stops ev) \<and>
     (ss_running s \<and> stops ev \<longrightarrow> ss_raw_samples s' = []) \<and> (\<not> ss_running s \<longrightarrow> ss_raw_samples s' = ss_raw_samples s) \<and>
     (\<exists>calls. ss_collector s' = collect_all collect calls (ss_collector s) \<and>
       (\<Sum>(raw, _) \<leftarrow> calls. profile_count raw) + in_channel s' + pending s' = in_channel s + pending s +
       length (filter has_stack (if ss_running s then samples_before_stop [ev] else [])))"

lemma conserves_quiet:
  assumes "ss_collector s' = ss_collector s" "ss_profiles s' = ss_profiles s" "ss_raw_samples s' = ss_raw_samples s"
    "distinct (ss_rate_limits s')" "ss_running s' = ss_running s" "\<not> stops ev \<or> \<not> ss_running s"
    "ss_running s \<longrightarrow> samples_before_stop [ev] = []"
  shows "conserves collect ev s s'"
  unfolding conserves_def
  using assms by (intro conjI exI [of _ "[]"]) (auto simp: collect_all_def in_channel_def pending_def)

lemma conserves_sent:
  assumes "collect_and_send env s = Some t" "distinct (ss_rate_limits s)" "ss_running s" "samples_before_stop [ev] = []"
    "s' = t\<lparr>ss_running := False\<rparr> \<and> stops ev \<or> s' = t \<and> \<not> stops ev"
  shows "conserves collect ev s s'"
  unfolding conserves_def
  using collect_and_send_result [OF assms(1,2)] assms(3-5)
  by (intro conjI exI [of _ "[]"]) (auto simp: collect_all_def in_channel_def pending_def aggregate_total)

lemma conserves_received:
  assumes "distinct (ss_rate_limits s)"
  shows "conserves collect Collector_receives s (collector_receive collect s)"
proof (cases "ss_profiles s")
  case Nil
  then show ?thesis using assms by (intro conserves_quiet) (simp_all add: collector_receive_def stops_def)
next
  case (Cons profile profiles)
  then show ?thesis using assms unfolding conserves_def
    by (intro conjI exI [of _ "[(profile, procs (ss_profiler s), object_files (ss_profiler s))]"])
      (simp_all add: collector_receive_def stops_def collect_all_def in_channel_def pending_def)
qed

lemma conserves_loop_step:
  assumes "loop_step env ev s = Some s'" "distinct (ss_rate_limits s)" "ss_running s"
  shows "conserves collect ev s s'"
proof (cases ev)
  case (Sample_received r)
  with assms show ?thesis unfolding conserves_def
    by (intro conjI exI [of _ "[]"]) (auto simp: stops_def collect_all_def in_channel_def pending_def)
next
  case (Tracer_received te)
  with assms show ?thesis by (intro conserves_quiet; cases te) (auto simp: stops_def)
next
  case (Unwinder_received a b c d e)
  with assms show ?thesis by (intro conserves_quiet) (auto simp: stops_def split: if_splits)
next
  case Stop_signal
  then obtain t where "collect_and_send env s = Some t" "s' = t\<lparr>ss_running := False\<rparr>" using assms(1) by auto
  with Stop_signal assms(2,3) show ?thesis by (intro conserves_sent) (simp_all add: stops_def)
next
  case Total_duration_tick
  then obtain t where "collect_and_send env s = Some t" "s' = t\<lparr>ss_running := False\<rparr>" using assms(1) by auto
  with Total_duration_tick assms(2,3) show ?thesis by (intro conserves_sent) (simp_all add: stops_def)
next
  case Session_tick
  with assms show ?thesis by (intro conserves_sent) (simp_all add: stops_def)
qed (use assms in \<open>auto simp: stops_def intro: conserves_quiet\<close>)

lemma conserves_step:
  assumes "session_step collect (env, ev) s = Some s'" "distinct (ss_rate_limits s)"
  shows "conserves collect ev s s'"
proof (cases "ev = Collector_receives")
  case True
  with assms conserves_received show ?thesis by (auto simp: session_step_def)
next
  case other: False
  show ?thesis
  proof (cases "\<exists>e. ev = Kernel_rate_limits e")
    case True
    with assms show ?thesis by (intro conserves_quiet) (auto simp: session_step_def stops_def)
  next
    case False
    with assms session_step_loop [OF other, of collect env s] conserves_loop_step show ?thesis
      by (cases "ss_running s") (auto intro: conserves_quiet)
  qed
qed

lemma session_start_fields:
  assumes "session_start files now p c = Some s"
  shows "ss_rate_limits s = []" "ss_raw_samples s = []" "ss_profiles s = []" "ss_collector s = c" "ss_running s"
    "add_kernel_modules files now p = Some (ss_profiler s)"
  using assms by (auto simp: session_start_def)

lemma collect_all_append: "collect_all collect (xs @ ys) c = collect_all collect ys (collect_all collect xs c)"
  by (simp add: collect_all_def)

lemma session_run_samples:
  assumes "session_run collect steps s = Some s'" "distinct (ss_rate_limits s)" "\<not> ss_running s \<longrightarrow> ss_raw_samples s = []"
  shows "(\<not> ss_running s' \<longrightarrow> ss_raw_samples s' = []) \<and>
    (\<exists>calls. ss_collector s' = collect_all collect calls (ss_collector s) \<and>
      (\<Sum>(raw, _) \<leftarrow> calls. profile_count raw) + in_channel s' + pending s' = in_channel s + pending s +
      length (filter has_stack (if ss_running s then samples_before_stop (map snd steps) else [])))"
  using assms
proof (induction steps arbitrary: s)
  case Nil
  then show ?case by (auto simp: collect_all_def intro: exI [of _ "[]"])
next
  case (Cons step steps)
  obtain env ev where [simp]: "step = (env, ev)" by fastforce
  obtain t where t: "session_step collect (env, ev) s = Some t" "session_run collect steps t = Some s'"
    using Cons.prems(1) by (auto split: option.splits)
  note one = conserves_step [OF t(1) Cons.prems(2), unfolded conserves_def]
  then have run: "ss_running t = (ss_running s \<and> \<not> stops ev)" by blast
  obtain xs where xs: "ss_collector t = collect_all collect xs (ss_collector s)"
    "(\<Sum>(raw, _) \<leftarrow> xs. profile_count raw) + in_channel t + pending t = in_channel s + pending s +
      length (filter has_stack (if ss_running s then samples_before_stop [ev] else []))" using one by blast
  have "\<not> ss_running t \<longrightarrow> ss_raw_samples t = []" using one Cons.prems(3) by auto
  from Cons.IH [OF t(2) _ this] one obtain ys where ys: "\<not> ss_running s' \<longrightarrow> ss_raw_samples s' = []"
    "ss_collector s' = collect_all collect ys (ss_collector t)"
    "(\<Sum>(raw, _) \<leftarrow> ys. profile_count raw) + in_channel s' + pending s' = in_channel t + pending t +
      length (filter has_stack (if ss_running t then samples_before_stop (map snd steps) else []))" by blast
  then show ?case using xs run
    by (intro conjI exI [of _ "xs @ ys"]) (auto simp: collect_all_append split: if_splits)
qed

section \<open>Properties\<close>

text \<open>
  C8. No sample is lost or counted twice by the main loop, however samples, ticks, events, the collector's
  thread and the kernel interleave: what the collector was given, what waits for it in the channel and what
  was not collected yet add up to the samples with a stack that the loop received. When the loop has ended all of
  them were collected.
\<close>

theorem session_conserves_samples:
  assumes "session_start files now p c = Some s" "session_run collect steps s = Some s'"
  shows "(\<not> ss_running s' \<longrightarrow> pending s' = 0) \<and>
    (\<exists>calls. ss_collector s' = collect_all collect calls c \<and>
      (\<Sum>(raw, _) \<leftarrow> calls. profile_count raw) + in_channel s' + pending s' =
        length (filter has_stack (samples_before_stop (map snd steps))))"
  using session_run_samples [OF assms(2)] session_start_fields [OF assms(1)] by (auto simp: in_channel_def pending_def)

definition example_sv :: session_env where
  "example_sv = \<lparr>sv_hash = example_hash, sv_now = 5, sv_filter = \<lparr>exclude_self = False, own_pid = 1, filter_pids = []\<rparr>,
     sv_loader = example_env, sv_proc = example_penv, sv_accepts = (\<lambda>t p. True)\<rparr>"

definition example_session :: "AggregatorCollector session" where
  "example_session = the (session_start example_kernel_files 7 no_processes aggregator_new)"

lemma example_session_start: "session_start example_kernel_files 7 no_processes aggregator_new = Some example_session"
  using add_kernel_modules_result [OF example_kaslr example_ranges, of 7 no_processes]
  by (simp add: example_session_def session_start_def)

lemmas example_session_fields = session_start_fields [OF example_session_start]

definition example_steps :: "(session_env \<times> session_event) list" where
  "example_steps = map (\<lambda>ev. (example_sv, ev)) (map Sample_received example_samples @ [Stop_signal])"

text \<open>The main loop ends, and the last profile is in the channel: nobody waits until the collector has it.\<close>

lemma last_profile_waits:
  "\<exists>s'. session_run aggregator_collect example_steps example_session = Some s' \<and> \<not> ss_running s' \<and>
     aggregator_finish (ss_collector s') = [] \<and> in_channel s' = 3"
  by (simp add: example_steps_def example_samples_def session_step_def example_session_fields collect_and_send_def send_profile_def
      collect_profile_returns in_channel_def aggregate_total has_stack_def aggregator_finish_def aggregator_new_def samples_count_def)

theorem session_conserves_samples_witness:
  "\<exists>s' calls. session_run aggregator_collect (example_steps @ [(example_sv, Collector_receives)]) example_session = Some s' \<and>
     ss_collector s' = collect_all aggregator_collect calls aggregator_new \<and>
     (\<Sum>(raw, _) \<leftarrow> calls. profile_count raw) + in_channel s' + pending s' = 3"
proof -
  have "\<exists>s'. session_run aggregator_collect (example_steps @ [(example_sv, Collector_receives)]) example_session = Some s'"
    by (simp add: example_steps_def example_samples_def session_step_def example_session_fields collect_and_send_def
        collect_profile_returns)
  then obtain s' where s': "session_run aggregator_collect (example_steps @ [(example_sv, Collector_receives)]) example_session = Some s'" ..
  have "length (filter has_stack (samples_before_stop (map snd (example_steps @ [(example_sv, Collector_receives)])))) = 3"
    by (simp add: example_steps_def example_samples_def stops_def has_stack_def)
  then show ?thesis using session_conserves_samples [OF example_session_start s'] s' by auto
qed

text \<open>The profile that is written counts no sample twice either.\<close>

lemma raw_to_processed_total: "total_count (raw_to_processed ps objs raw) \<le> profile_count raw"
proof (induction raw)
  case (Cons a raw)
  have "as_count x \<le> ras_count a" if "process_sample ps objs a = Inr x" for x
    using that by (auto simp: process_sample_def Let_def split: option.splits if_splits)
  with Cons show ?case
    by (auto simp: raw_to_processed_def total_count_def List.map_filter_def split: sum.splits)
qed (simp add: raw_to_processed_def total_count_def List.map_filter_def)

lemma written_profile_bounded:
  assumes "session_start files now p aggregator_new = Some s" "session_run aggregator_collect steps s = Some s'"
  shows "total_count (aggregator_finish (ss_collector s')) \<le> length (filter has_stack (samples_before_stop (map snd steps)))"
proof -
  obtain calls where "ss_collector s' = collect_all aggregator_collect calls aggregator_new"
    "(\<Sum>(raw, _) \<leftarrow> calls. profile_count raw) + in_channel s' + pending s' =
       length (filter has_stack (samples_before_stop (map snd steps)))"
    using session_run_samples [OF assms(2)] session_start_fields [OF assms(1)] by (auto simp: in_channel_def pending_def)
  then have calls: "ss_collector s' = collect_all aggregator_collect calls aggregator_new"
    "(\<Sum>(raw, _) \<leftarrow> calls. profile_count raw) \<le> length (filter has_stack (samples_before_stop (map snd steps)))" by simp_all
  have "(\<Sum>(raw, ps, objs) \<leftarrow> calls. total_count (raw_to_processed ps objs raw)) \<le> (\<Sum>(raw, _) \<leftarrow> calls. profile_count raw)"
    by (rule sum_list_mono) (auto simp: raw_to_processed_total)
  with aggregating.nothing_counted_twice [of calls] calls show ?thesis by simp
qed

section \<open>Reference counts over a session\<close>

text \<open>The kernel's ranges have one reference each.\<close>

lemma live_ranges:
  assumes "\<forall>r \<in> set ranges. executable_id_of (kcr_build_id r) \<noteq> None"
  shows "live i (map (range_mapping kaslr) ranges) = length (filter (\<lambda>r. range_id r = i) ranges)"
  using assms by (induction ranges) auto

lemma fold_kernel_object_references:
  assumes "\<forall>r \<in> set ranges. executable_id_of (kcr_build_id r) \<noteq> None"
  shows "procs (fold kernel_object ranges s) = procs s"
    and "references (fold kernel_object ranges s) i = (if i \<in> range_id ` set ranges then Some 1 else references s i)"
  using assms by (induction ranges arbitrary: s) (auto simp: kernel_object_def range_id_def)

lemma add_kernel_modules_ref_inv:
  assumes "add_kernel_modules files now p = Some p'" "procs p = Map.empty" "references p = Map.empty"
    and "\<And>ranges i. get_all_kernel_modules files = Inr ranges \<Longrightarrow> i \<in> exacts \<Longrightarrow> length (filter (\<lambda>r. range_id r = i) ranges) \<le> 1"
  shows "ref_inv exacts p'"
proof (cases "get_all_kernel_modules files")
  case (Inl e)
  then have "p' = p" using assms(1) by (auto simp: add_kernel_modules_def Let_def split: option.splits)
  then show ?thesis using assms(2,3) by (simp add: ref_inv_def ref_count_def live_total_def)
next
  case (Inr ranges)
  note ids = kernel_ranges_have_ids [OF Inr]
  obtain offset where "kaslr_offset (kf_kcore files) = Some offset"
    using assms(1) by (auto simp: add_kernel_modules_def split: option.splits)
  then obtain kaslr where kaslr: "add_kernel_modules files now p = Some (fold kernel_object ranges
       (p\<lparr>procs := (procs p)(KERNEL_PID \<mapsto> \<lparr>pi_status = Running, pi_mappings = map (range_mapping kaslr) ranges, pi_last_used = now\<rparr>)\<rparr>))"
    using add_kernel_modules_result [OF _ Inr] by blast
  define info where "info = \<lparr>pi_status = Running, pi_mappings = map (range_mapping kaslr) ranges, pi_last_used = now\<rparr>"
  have p': "p' = fold kernel_object ranges (p\<lparr>procs := [KERNEL_PID \<mapsto> info]\<rparr>)" "pi_mappings info = map (range_mapping kaslr) ranges"
    using kaslr assms(1,2) by (simp_all add: info_def)
  have procs: "procs p' = [KERNEL_PID \<mapsto> info]" using fold_kernel_object_references(1) ids p'(1) by simp
  have refs: "references p' i = (if i \<in> range_id ` set ranges then Some 1 else None)" for i
    using fold_kernel_object_references(2) ids p'(1) assms(3) by simp
  have total: "live_total i (procs p') = length (filter (\<lambda>r. range_id r = i) ranges)" for i
    using live_ranges [of ranges i kaslr] ids by (simp add: procs live_total_def p'(2))
  have some: "i \<in> range_id ` set ranges \<longleftrightarrow> 0 < length (filter (\<lambda>r. range_id r = i) ranges)" for i
    by (auto simp: filter_empty_conv)
  have "ref_count (references p') i \<le> int (live_total i (procs p'))" "0 \<le> ref_count (references p') i" for i
    unfolding total using some [of i] by (auto simp: ref_count_def refs Suc_le_eq)
  moreover have "ref_count (references p') i = int (live_total i (procs p'))" if "i \<in> exacts" for i
    unfolding total using some [of i] assms(4) [OF Inr that] by (auto simp: ref_count_def refs le_Suc_eq)
  ultimately show ?thesis by (simp add: ref_inv_def procs)
qed

lemma event_new_proc_ref_inv:
  assumes "ref_inv exacts s" "event_new_proc c env penv accepts pid maps threads_read s = Some s'" "\<And>ms. maps = Some ms \<Longrightarrow> list_all (counts_map exacts) ms" "0 \<notin> exacts"
  shows "ref_inv exacts s'"
proof (cases "should_profile c pid \<and> procs s pid = None")
  case True
  obtain r s1 where add: "add_proc penv pid maps threads_read s = (r, s1)" by fastforce
  have "ref_inv exacts s1"
  proof (cases maps)
    case None
    then show ?thesis using add assms(1) by (simp add: add_proc_def)
  next
    case (Some ms)
    then show ?thesis using add_proc_ref_inv [OF assms(1), of pid ms penv threads_read] True add assms(3,4) by auto
  qed
  then show ?thesis using assms(2) True add
    by (auto simp: event_new_proc_def split: sum.splits intro: add_unwind_info_ref_inv)
next
  case False
  then show ?thesis using assms(1,2)
    by (auto simp: event_new_proc_def split: if_splits intro: add_unwind_info_ref_inv)
qed

definition counts_event :: "u64 set \<Rightarrow> session_event \<Rightarrow> bool" where
  "counts_event exacts ev = (case ev of Unwinder_received _ _ _ (Some maps) _ \<Rightarrow> list_all (counts_map exacts) maps | _ \<Rightarrow> True)"

lemma loop_step_ref_inv:
  assumes "ref_inv exacts (ss_profiler s)" "loop_step env ev s = Some s'" "counts_event exacts ev" "0 \<notin> exacts" "distinct (ss_rate_limits s)"
  shows "ref_inv exacts (ss_profiler s')"
proof -
  have sent: "ref_inv exacts (ss_profiler t)" if "collect_and_send env s = Some t" for t
    using collect_and_send_result(6) [OF that assms(5)] bump_last_used_frame(1,3) ref_inv_times [OF assms(1)] by simp
  show ?thesis
  proof (cases ev)
    case (Tracer_received te)
    then show ?thesis using assms(1,2) by (cases te) (auto intro: handle_munmap_ref_inv handle_process_exit_ref_inv)
  next
    case (Unwinder_received ty pid address maps threads_read)
    have requested: "ref_inv exacts p'" if "event_need_unwind_info (sv_loader env) pid address (ss_profiler s) = Some p'" for p'
      using event_need_unwind_info_processes [OF that] ref_inv_cong [OF assms(1), of p'] by (simp add: same_processes_def)
    have added: "ref_inv exacts p'" if "event_new_proc (sv_filter env) (sv_loader env) (sv_proc env) (sv_accepts env)
        pid maps threads_read (ss_profiler s) = Some p'" for p'
      by (rule event_new_proc_ref_inv [OF assms(1) that]) (use assms(3,4) Unwinder_received in \<open>simp_all add: counts_event_def\<close>)
    show ?thesis using assms(1,2) Unwinder_received added requested by (auto split: if_splits)
  qed (use assms(1,2) sent in auto)
qed

lemma session_run_ref_inv:
  assumes "session_run collect steps s = Some s'" "ref_inv exacts (ss_profiler s)" "distinct (ss_rate_limits s)"
    "\<forall>ev \<in> snd ` set steps. counts_event exacts ev" "0 \<notin> exacts"
  shows "ref_inv exacts (ss_profiler s')"
  using assms
proof (induction steps arbitrary: s)
  case (Cons step steps)
  obtain env ev where step: "step = (env, ev)" by fastforce
  obtain t where t: "session_step collect (env, ev) s = Some t" "session_run collect steps t = Some s'"
    using Cons.prems(1) step by (auto split: option.splits)
  have "ref_inv exacts (ss_profiler t)"
  proof (cases "ev = Collector_receives \<or> (\<exists>e. ev = Kernel_rate_limits e)")
    case True
    then show ?thesis using t(1) Cons.prems(2) by (auto simp: session_step_def collector_receive_def split: list.split)
  next
    case False
    then show ?thesis using t(1) session_step_loop [of ev collect env s] loop_step_ref_inv [of exacts s env ev t] Cons.prems step
      by (auto split: if_splits)
  qed
  moreover have "distinct (ss_rate_limits t)" using conserves_step [OF t(1) Cons.prems(3)] by (simp add: conserves_def)
  ultimately show ?case using Cons.IH [OF t(2)] Cons.prems(4,5) by simp
qed simp

text \<open>
  C9. Reference counts at every moment of a session, from the registration of the kernel on and
  whatever happens in it, failed loads, evictions, vDSOs and processes that are announced twice included: the count of an
  executable never exceeds the number of its mappings, over all processes and the kernel, that were not dropped, so
  nothing that was dropped is still counted. And it is exactly this number for every executable (with an identifier other than the zero
  of anonymous mappings) that no process maps as its vDSO and that is not the identifier of several kernel ranges.
\<close>

theorem session_keeps_reference_counts:
  assumes "session_start files now p c = Some s" "procs p = Map.empty" "references p = Map.empty"
    and "session_run collect steps s = Some s'"
    and "live_mappings = int (\<Sum>pid \<in> dom (procs (ss_profiler s')). length (filter (\<lambda>e. em_executable_id e = i \<and> \<not> em_soft_delete e)
       (pi_mappings (the (procs (ss_profiler s') pid)))))"
  shows "0 \<le> ref_count (references (ss_profiler s')) i \<and> ref_count (references (ss_profiler s')) i \<le> live_mappings \<and>
     (i \<noteq> 0 \<and> (\<forall>ev \<in> snd ` set steps. counts_event {i} ev) \<and>
      (\<forall>ranges. get_all_kernel_modules files = Inr ranges \<longrightarrow> length (filter (\<lambda>r. range_id r = i) ranges) \<le> 1) \<longrightarrow>
        ref_count (references (ss_profiler s')) i = live_mappings)"
proof -
  note start = session_start_fields [OF assms(1)]
  have inv: "ref_inv exacts (ss_profiler s')" if "\<forall>ev \<in> snd ` set steps. counts_event exacts ev" "0 \<notin> exacts"
    "\<And>ranges i. get_all_kernel_modules files = Inr ranges \<Longrightarrow> i \<in> exacts \<Longrightarrow> length (filter (\<lambda>r. range_id r = i) ranges) \<le> 1"
    for exacts
    by (rule session_run_ref_inv [OF assms(4) add_kernel_modules_ref_inv [OF start(6) assms(2,3) that(3)]])
      (use start(1) that in simp_all)
  have "counts_event {} ev" for ev
    by (auto simp: counts_event_def counts_map_def list_all_iff split: session_event.split option.split MMapPath.split)
  then have "ref_inv {} (ss_profiler s')" by (intro inv) simp_all
  moreover have "ref_inv {i} (ss_profiler s')" if "i \<noteq> 0" "\<forall>ev \<in> snd ` set steps. counts_event {i} ev"
    "\<forall>ranges. get_all_kernel_modules files = Inr ranges \<longrightarrow> length (filter (\<lambda>r. range_id r = i) ranges) \<le> 1"
    using that by (intro inv) auto
  ultimately show ?thesis unfolding assms(5) by (simp add: ref_inv_def live_total_def live_def)
qed

text \<open>
  Three processes with the same executable and the same vDSO, whose unwind information cannot be read. The first one unmaps the
  executable, the second one exits.
\<close>

definition process_maps :: "MemoryMap list" where
  "process_maps = example_maps @ [vdso_map\<lparr>mm_pathname := Vdso_map (Some (vdso_object\<lparr>eo_id := 8\<rparr>))\<rparr>]"

definition process_sv :: session_env where
  "process_sv = example_sv\<lparr>sv_loader := example_env\<lparr>le_files := \<lambda>_. Not_parsed\<rparr>\<rparr>"

definition process_steps :: "(session_env \<times> session_event) list" where
  "process_steps = map (\<lambda>ev. (process_sv, ev))
     (map (\<lambda>pid. Unwinder_received (event_type_value EVENT_NEW_PROCESS) pid 0 (Some process_maps) True) [42, 43, 44] @
      [Tracer_received (Munmap 42 0x402000), Tracer_received (ProcessExit 43)])"

definition process_mappings :: "ExecutableMapping list" where
  "process_mappings = [example_mapping_info, vdso_mapping\<lparr>em_executable_id := 8, em_build_id := Some example_build_id,
     em_start_addr := 0x7fff1000, em_end_addr := 0x7fff2000, em_load_address := 0x7fff1000\<rparr>]"

definition process_object :: ObjectFileInfo where
  "process_object = \<lparr>of_path = ''/bin/true'', elf_load_segments = [\<lparr>p_offset = 0x1000, p_vaddr = 0x1000, p_filesz = 0x3000\<rparr>],
     is_vdso = False, runtime = CLike\<rparr>"

text \<open>The states between the steps: nothing is loaded, and the file of the executable is not in the cache, or empty.\<close>

definition nothing_loaded :: "(s32 \<rightharpoonup> ExecutableMapping list) \<Rightarrow> profiler \<Rightarrow> bool" where
  "nothing_loaded ms s \<longleftrightarrow> (\<lambda>pid. map_option pi_mappings (procs s pid)) = ms \<and> known_executables s = Map.empty \<and>
     cache_files (unwind_info_manager s) 7 \<in> {None, Some []} \<and>
     (references s 7 = None \<or> object_files s 7 = Some process_object)"

lemma few_processes:
  assumes "finite (dom (procs s))" "card (dom (procs s)) < MAX_PROCESSES"
  shows "maybe_evict_process example_penv True s = (True, s)"
proof -
  have "length (running_procs example_penv s) \<le> card (dom (procs s))"
    unfolding running_procs_def by (rule order_trans [OF length_filter_le]) (simp add: example_penv_def)
  with assms(2) show ?thesis by (simp add: maybe_evict_process_def Let_def)
qed

lemma process_maps_added:
  assumes "references s 7 = None \<or> object_files s 7 = Some process_object"
  shows "\<exists>s1. fold (add_map 4096) process_maps ([], s) = (process_mappings, s1) \<and> procs s1 = procs s \<and>
     known_executables s1 = known_executables s \<and> unwind_info_manager s1 = unwind_info_manager s \<and>
     object_files s1 7 = Some process_object"
  using assms
  by (auto simp: process_maps_def example_maps_def add_map_def vdso_map_def vdso_object_def process_object_def
      reference_object_def insert_vdso_def load_address_def process_mappings_def example_mapping_info_def vdso_mapping_def
      Let_def split: option.split)

lemma process_not_stored:
  assumes "procs s pid = Some info" "pi_mappings info = process_mappings" "nothing_loaded ms s"
    and "object_files s 7 = Some process_object"
  shows "\<exists>s'. add_unwind_info_for_process (sv_loader process_sv) penv accepts pid s = Some s' \<and> nothing_loaded ms s'"
proof -
  let ?m = "unwind_info_manager s"
  let ?s = "s\<lparr>unwind_info_manager := ?m\<lparr>cache_files := (cache_files ?m)(7 \<mapsto> [])\<rparr>\<rparr>"
  obtain e where "read_from_cache id False 7 ?m = Returns (Inl e)"
    using assms(3) read_empty_file by (auto simp: nothing_loaded_def read_from_cache_def split: option.split)
  then have "add_unwind_information_for_executable (sv_loader process_sv) 7 a b s = (Inl (NoUnwindInfo (Fetch_write ParsingObjectFile) ''/bin/true''), ?s)"
    for a b
    using assms(3,4)
    by (simp add: add_unwind_information_for_executable_def nothing_loaded_def process_object_def runtime_unwind_info_def
        fetch_table_def fetch_unwind_info_def write_to_cache_def process_sv_def example_env_def compact_unwind_info_def
        process_def known_naughty_def contains_def Let_def)
  then have "collect_bpf_mappings (sv_loader process_sv) process_mappings s = (Returned, ?s)"
    using assms(4) by (simp add: process_mappings_def example_mapping_info_def Let_def)
  then show ?thesis
    using assms by (simp add: add_unwind_info_for_process_def nothing_loaded_def)
qed

lemma new_process_step:
  assumes "nothing_loaded ms s" "finite (dom ms)" "card (dom ms) < MAX_PROCESSES" "ms pid = None"
  shows "\<exists>s'. event_new_proc (sv_filter process_sv) (sv_loader process_sv) (sv_proc process_sv) (sv_accepts process_sv)
     pid (Some process_maps) True s = Some s' \<and> nothing_loaded (ms(pid \<mapsto> process_mappings)) s'"
proof -
  have dom: "dom (procs s) = dom ms" using assms(1) by (auto simp: nothing_loaded_def)
  note few = few_processes [of s, unfolded dom, OF assms(2,3)]
  have new: "procs s pid = None" using assms(1,4) by (auto simp: nothing_loaded_def)
  obtain s1 where maps: "fold (add_map 4096) process_maps ([], s) = (process_mappings, s1)" "procs s1 = procs s"
    "known_executables s1 = known_executables s" "unwind_info_manager s1 = unwind_info_manager s"
    "object_files s1 7 = Some process_object"
    using process_maps_added [of s] assms(1) by (auto simp: nothing_loaded_def)
  let ?info = "\<lparr>pi_status = Running, pi_mappings = process_mappings, pi_last_used = 1000\<rparr>"
  let ?s2 = "s1\<lparr>procs := (procs s1)(pid \<mapsto> ?info)\<rparr>"
  have add: "add_proc example_penv pid (Some process_maps) True s = (Inr (), ?s2)"
    using maps(1) by (simp add: add_proc_def few) (simp add: example_penv_def)
  have "nothing_loaded (ms(pid \<mapsto> process_mappings)) ?s2" "object_files ?s2 7 = Some process_object"
    using assms(1) maps(2-5) by (auto simp: nothing_loaded_def)
  from process_not_stored [OF _ _ this, of pid ?info] show ?thesis
    using new add by (simp add: event_new_proc_def should_profile_def) (simp add: process_sv_def example_sv_def)
qed

lemma drop_mappings_nothing_loaded:
  assumes "known_executables s = Map.empty" "drop_mappings pid selected es s = (es', s')"
  shows "es' = map (\<lambda>e. if selected e then e\<lparr>em_soft_delete := True\<rparr> else e) es \<and> procs s' = procs s \<and>
     known_executables s' = Map.empty \<and> unwind_info_manager s' = unwind_info_manager s \<and>
     object_files s' = object_files s \<and> (references s' 7 = None \<longleftrightarrow> references s 7 = None)"
  using assms
proof (induction es arbitrary: s es')
  case (Cons e es)
  obtain e1 s1 where one: "(if selected e then drop_mapping pid e s else (e, s)) = (e1, s1)" by fastforce
  obtain es1 where rest: "drop_mappings pid selected es s1 = (es1, s')" "es' = e1 # es1"
    using Cons.prems(2) one by (auto simp: drop_mappings.simps(2) Let_def split: prod.splits)
  have step: "e1 = (if selected e then e\<lparr>em_soft_delete := True\<rparr> else e) \<and> procs s1 = procs s \<and>
      known_executables s1 = Map.empty \<and> unwind_info_manager s1 = unwind_info_manager s \<and>
      object_files s1 = object_files s \<and> (references s1 7 = None \<longleftrightarrow> references s 7 = None)"
    using one Cons.prems(1) by (auto simp: drop_mapping_def mark_as_deleted_def Let_def split: if_splits option.splits)
  with Cons.IH [OF _ rest(1)] rest(2) show ?case by simp
qed simp

lemma munmap_nothing_loaded:
  assumes "nothing_loaded ms s" "ms pid = Some es"
  shows "nothing_loaded (ms(pid \<mapsto> map (\<lambda>e. if em_start_addr e \<le> a \<and> a \<le> em_end_addr e then e\<lparr>em_soft_delete := True\<rparr> else e) es))
     (handle_munmap pid a s)"
proof -
  obtain info where info: "procs s pid = Some info" "pi_mappings info = es"
    using assms by (auto simp: nothing_loaded_def)
  obtain es' s' where d: "drop_mappings pid (\<lambda>e. em_start_addr e \<le> a \<and> a \<le> em_end_addr e) es s = (es', s')" by fastforce
  have "known_executables s = Map.empty" using assms(1) by (simp add: nothing_loaded_def)
  from drop_mappings_nothing_loaded [OF this d] assms(1) info d show ?thesis
    by (auto simp: handle_munmap_def nothing_loaded_def)
qed

lemma exit_nothing_loaded:
  assumes "nothing_loaded ms s" "ms pid = Some es"
  shows "nothing_loaded (ms(pid \<mapsto> map (\<lambda>e. e\<lparr>em_soft_delete := True\<rparr>) es)) (handle_process_exit pid s)"
proof -
  obtain info where info: "procs s pid = Some info" "pi_mappings info = es"
    using assms by (auto simp: nothing_loaded_def)
  let ?s = "s\<lparr>mapping_trie := delete_bpf_process pid (mapping_trie s)\<rparr>"
  obtain es' s' where d: "drop_mappings pid (\<lambda>e. True) es ?s = (es', s')" by fastforce
  have "known_executables ?s = Map.empty" using assms(1) by (simp add: nothing_loaded_def)
  from drop_mappings_nothing_loaded [OF this d] assms(1) info d show ?thesis
    by (auto simp: handle_process_exit_def nothing_loaded_def)
qed

text \<open>The kernel at the start has one range, whose identifier is not that of the executable.\<close>

lemma example_range_id:
  "range_id example_range = 0x102030405060708" "em_executable_id (range_mapping kaslr example_range) = 0x102030405060708"
  by (simp_all add: range_id_def example_range_def executable_id_of_def from_be_bytes_def)

lemma example_session_profiler:
  "ss_profiler example_session = kernel_object example_range (no_processes\<lparr>procs := [KERNEL_PID \<mapsto>
     \<lparr>pi_status = Running, pi_mappings = [range_mapping 0x21000000 example_range], pi_last_used = 7\<rparr>]\<rparr>)"
  using add_kernel_modules_result [OF example_kaslr example_ranges, of 7 no_processes] example_session_fields(6)
  by (simp add: no_processes_def)

definition kernel_mappings :: "s32 \<rightharpoonup> ExecutableMapping list" where
  "kernel_mappings = [KERNEL_PID \<mapsto> [range_mapping 0x21000000 example_range]]"

lemma example_session_nothing_loaded: "nothing_loaded kernel_mappings (ss_profiler example_session)"
  unfolding example_session_profiler
  by (auto simp: nothing_loaded_def kernel_mappings_def kernel_object_def example_range_def executable_id_of_def
      from_be_bytes_def no_processes_def unregistered_def example_profiler_def manager_new_def split: option.split)

text \<open>After the three processes, the unmapping and the exit only the third process has live mappings.\<close>

definition final_mappings :: "s32 \<rightharpoonup> ExecutableMapping list" where
  "final_mappings = kernel_mappings(42 \<mapsto> map (\<lambda>e. if em_executable_id e = 7 then e\<lparr>em_soft_delete := True\<rparr> else e) process_mappings,
     43 \<mapsto> map (\<lambda>e. e\<lparr>em_soft_delete := True\<rparr>) process_mappings, 44 \<mapsto> process_mappings)"

lemma process_run:
  "\<exists>s'. session_run aggregator_collect process_steps example_session = Some s' \<and> nothing_loaded final_mappings (ss_profiler s')"
proof -
  let ?new = "\<lambda>pid. event_new_proc (sv_filter process_sv) (sv_loader process_sv) (sv_proc process_sv) (sv_accepts process_sv)
     pid (Some process_maps) True"
  have pid: "KERNEL_PID \<notin> {42, 43, 44}" by (simp add: KERNEL_PID_def)
  have fin: "finite (dom kernel_mappings)" "card (dom kernel_mappings) = 1" by (simp_all add: kernel_mappings_def)
  note m1 = example_session_nothing_loaded
  obtain p1 where p1: "?new 42 (ss_profiler example_session) = Some p1" "nothing_loaded (kernel_mappings(42 \<mapsto> process_mappings)) p1"
    using new_process_step [OF m1, of 42] pid by (auto simp: kernel_mappings_def MAX_PROCESSES_def)
  obtain p2 where p2: "?new 43 p1 = Some p2" "nothing_loaded (kernel_mappings(42 \<mapsto> process_mappings, 43 \<mapsto> process_mappings)) p2"
    using new_process_step [OF p1(2), of 43] pid by (auto simp: kernel_mappings_def MAX_PROCESSES_def)
  obtain p3 where p3: "?new 44 p2 = Some p3"
    "nothing_loaded (kernel_mappings(42 \<mapsto> process_mappings, 43 \<mapsto> process_mappings, 44 \<mapsto> process_mappings)) p3"
    using new_process_step [OF p2(2), of 44] pid by (auto simp: kernel_mappings_def MAX_PROCESSES_def)
  let ?p4 = "handle_munmap 42 0x402000 p3"
  have p5: "nothing_loaded final_mappings (handle_process_exit 43 ?p4)"
    using exit_nothing_loaded [OF munmap_nothing_loaded [OF p3(2), of 42 process_mappings "0x402000"], of 43 process_mappings]
    by (simp add: final_mappings_def process_mappings_def example_mapping_info_def vdso_mapping_def fun_upd_twist)
  show ?thesis
    using p1(1) p2(1) p3(1) p5 example_session_fields(5)
    by (simp add: process_steps_def session_step_def)
qed

theorem session_keeps_reference_counts_witness:
  "\<exists>s'. session_run aggregator_collect process_steps example_session = Some s' \<and>
     ref_count (references (ss_profiler s')) 7 = 1 \<and> ref_count (references (ss_profiler s')) 8 \<le> 2"
proof -
  obtain s' where s': "session_run aggregator_collect process_steps example_session = Some s'"
    "nothing_loaded final_mappings (ss_profiler s')" using process_run by blast
  let ?ps = "procs (ss_profiler s')"
  let ?live = "\<lambda>i. int (\<Sum>pid \<in> dom ?ps. length (filter (\<lambda>e. em_executable_id e = i \<and> \<not> em_soft_delete e)
       (pi_mappings (the (?ps pid)))))"
  have ms: "(\<lambda>pid. map_option pi_mappings (?ps pid)) = final_mappings" using s'(2) by (simp add: nothing_loaded_def)
  have dom: "dom ?ps = {KERNEL_PID, 42, 43, 44}"
    using arg_cong [OF ms, of dom] by (auto simp: final_mappings_def kernel_mappings_def dom_def)
  have "pi_mappings (the (?ps pid)) = the (final_mappings pid)" if "pid \<in> dom ?ps" for pid
    using fun_cong [OF ms [symmetric], of pid] that by auto
  then have "?live i = int (\<Sum>pid \<in> {KERNEL_PID, 42, 43, 44}. length (filter (\<lambda>e. em_executable_id e = i \<and> \<not> em_soft_delete e)
       (the (final_mappings pid))))" for i
    unfolding dom by (intro arg_cong [where f = int] sum.cong) simp_all
  then have live: "?live 7 = 1" "?live 8 = 2"
    using example_range_id by (simp_all add: final_mappings_def kernel_mappings_def KERNEL_PID_def process_mappings_def
        example_mapping_info_def vdso_mapping_def)
  have counts: "\<forall>ev \<in> snd ` set process_steps. counts_event {7} ev"
    by (auto simp: process_steps_def counts_event_def counts_map_def process_maps_def example_maps_def vdso_map_def)
  have start: "procs no_processes = Map.empty" "references no_processes = Map.empty" by (simp_all add: no_processes_def)
  from session_keeps_reference_counts [OF example_session_start start s'(1) refl, of 7]
    session_keeps_reference_counts [OF example_session_start start s'(1) refl, of 8] counts live s'(1) example_ranges example_range_id
  show ?thesis by auto
qed

section \<open>The kernel among the processes\<close>

text \<open>
  The kernel's entry counts as a process and its time of use is never updated, since no sample has its pid: it is
  the first to be evicted when there are too many processes.
\<close>

lemma kernel_is_never_used:
  "KERNEL_PID \<notin> (\<lambda>a. rs_pid (ras_sample a)) ` set raw \<Longrightarrow> procs (bump_last_used now raw s) KERNEL_PID = procs s KERNEL_PID"
  by (rule bump_last_used_frame(4))

lemma hd_sort_key_min:
  assumes "x \<in> set xs" "\<forall>y \<in> set xs. y \<noteq> x \<longrightarrow> f x < f y"
  shows "\<exists>ys. sort_key f xs = x # ys"
proof (cases "sort_key f xs")
  case Nil
  then have "set xs = {}" by (metis set_sort set_empty)
  with assms(1) show ?thesis by simp
next
  case (Cons z zs)
  have "sorted (map f (sort_key f xs))" by simp
  then have "f z \<le> f x" using assms(1) Cons by (metis list.simps(9) set_ConsD set_sort sorted_simps(2) image_eqI image_set order_refl)
  moreover have "z \<in> set xs" using Cons by (metis list.set_intros(1) set_sort)
  ultimately show ?thesis using assms(2) Cons by (metis leD)
qed

lemma kernel_is_evicted_first:
  assumes "KERNEL_PID \<in> set (running_procs env s)" "MAX_PROCESSES \<le> length (running_procs env s)"
    and "can_evict_process (pe_now env) s"
    and "\<forall>pid \<in> set (running_procs env s). pid \<noteq> KERNEL_PID \<longrightarrow>
      pi_last_used (the (procs s KERNEL_PID)) < pi_last_used (the (procs s pid))"
  shows "maybe_evict_process env True s = (True, (handle_process_exit KERNEL_PID s)\<lparr>last_process_eviction := pe_now env\<rparr>)"
  using hd_sort_key_min [OF assms(1), of "\<lambda>pid. pi_last_used (the (procs s pid))"] assms
  by (auto simp: maybe_evict_process_def Let_def)

end
