(* ===== verification/Dwarf_Semantics.thy ===== *)
theory Dwarf_Semantics
  imports Unwind_Convert
begin

text \<open>
  What frame descriptions mean, according to the DWARF standard and the ABI, and that the compact tables made from
  them mean the same to the BPF program. The meaning is stated on gimli's rows alone: a small stack machine for expressions,
  the registers of the caller that the rules of a row give, and which row a program counter has. Nothing of it refers to
  compact rows. Against it are put the conversion of user space (\<open>convert_row\<close>, \<open>compact_unwind_info\<close>) and the reading of
  the rows in the BPF program (\<open>frame_rsp\<close> and the step of \<open>Stack_Walk\<close>).
\<close>

section \<open>Expressions\<close>

text \<open>
  The operations of the DWARF stack machine that occur in the two expressions of procedure linkage tables: a register
  plus a one-byte offset (7 is the stack pointer, 16 the program counter), small literals, and, plus, shift left, greater or
  equal.
\<close>

fun dwarf_bytes :: "wregs \<Rightarrow> u8 list \<Rightarrow> u64 list \<Rightarrow> u64 option" where
  "dwarf_bytes r [] st = (case st of [v] \<Rightarrow> Some v | _ \<Rightarrow> None)"
| "dwarf_bytes r (opcode # bs) st =
     (if opcode = 0x77 \<or> opcode = 0x80 then
        (case bs of
           off # bs' \<Rightarrow>
             if off < 0x40
             then dwarf_bytes r bs' (((if opcode = 0x77 then w_sp r else w_ip r) + ucast off) # st) else None
         | [] \<Rightarrow> None)
      else if 0x30 \<le> opcode \<and> opcode < 0x50 then dwarf_bytes r bs (ucast (opcode - 0x30) # st)
      else case st of
          y # x # st' \<Rightarrow>
            if opcode = 0x1a then dwarf_bytes r bs ((x AND y) # st')
            else if opcode = 0x22 then dwarf_bytes r bs ((x + y) # st')
            else if opcode = 0x24 then dwarf_bytes r bs (push_bit (unat y) x # st')
            else if opcode = 0x2a then dwarf_bytes r bs (of_bool (sint y \<le> sint x) # st')
            else None
        | _ \<Rightarrow> None)"

definition register_value :: "bool \<Rightarrow> wregs \<Rightarrow> register \<Rightarrow> u64 option" where
  "register_value aarch64 r reg =
     (if reg = (if aarch64 then 29 else 6) then Some (w_bp r)
      else if reg = (if aarch64 then 31 else 7) then Some (w_sp r) else None)"

definition read_word :: "kernel \<Rightarrow> u64 \<Rightarrow> u64 option" where
  "read_word k a = (case probe_read_user k a 0 of (ret, v) \<Rightarrow> if ret < 0 then None else Some v)"

text \<open>Decoded operations on the same machine.\<close>

fun dwarf_ops :: "bool \<Rightarrow> kernel \<Rightarrow> wregs \<Rightarrow> dwarf_op option list \<Rightarrow> u64 list \<Rightarrow> u64 option" where
  "dwarf_ops aarch64 k r [] st = (case st of [v] \<Rightarrow> Some v | _ \<Rightarrow> None)"
| "dwarf_ops aarch64 k r (Some (RegisterOffset reg off) # ops) st =
     do { v \<leftarrow> register_value aarch64 r reg; dwarf_ops aarch64 k r ops ((v + off) # st) }"
| "dwarf_ops aarch64 k r (Some Deref # ops) (a # st) =
     do { v \<leftarrow> read_word k a; dwarf_ops aarch64 k r ops (v # st) }"
| "dwarf_ops aarch64 k r (Some (PlusConstant c) # ops) (v # st) = dwarf_ops aarch64 k r ops ((v + c) # st)"
| "dwarf_ops aarch64 k r _ _ = None"

section \<open>Rows\<close>

text \<open>The canonical frame address. The expressions of linkage tables are evaluated from their bytes.\<close>

definition dwarf_cfa :: "bool \<Rightarrow> kernel \<Rightarrow> wregs \<Rightarrow> CfaRule \<Rightarrow> u64 option" where
  "dwarf_cfa aarch64 k r rule =
     (case rule of
        RegisterAndOffset reg off \<Rightarrow> map_option (\<lambda>v. v + off) (register_value aarch64 r reg)
      | CfaExpression None \<Rightarrow> None
      | CfaExpression (Some e) \<Rightarrow>
          if ex_data e = PLT1 \<or> ex_data e = PLT2 then dwarf_bytes r (ex_data e) []
          else dwarf_ops aarch64 k r (ex_ops e) [])"

text \<open>The frame pointer is preserved by calls: without a rule it keeps its value.\<close>

definition dwarf_frame_pointer :: "kernel \<Rightarrow> wregs \<Rightarrow> u64 \<Rightarrow> RegisterRule \<Rightarrow> u64 option" where
  "dwarf_frame_pointer k r cfa rule =
     (case rule of
        Undefined \<Rightarrow> Some (w_bp r)
      | Same_value \<Rightarrow> Some (w_bp r)
      | Offset off \<Rightarrow> read_word k (cfa + off)
      | _ \<Rightarrow> None)"

definition dwarf_return_address :: "kernel \<Rightarrow> u64 \<Rightarrow> RegisterRule \<Rightarrow> u64 option" where
  "dwarf_return_address k cfa rule = (case rule of Offset off \<Rightarrow> read_word k (cfa + off) | _ \<Rightarrow> None)"

text \<open>
  The program counter of a caller is in the call instruction before the return address, which on arm64 may carry a
  pointer authentication code in its upper 16 bits.
\<close>

definition call_site :: "bool \<Rightarrow> u64 \<Rightarrow> u64" where
  "call_site aarch64 ra = (if aarch64 then take_bit 48 ra - 4 else ra - 1)"

definition dwarf_caller :: "bool \<Rightarrow> kernel \<Rightarrow> gimli_row \<Rightarrow> wregs \<Rightarrow> wregs option" where
  "dwarf_caller aarch64 k g r = do {
     cfa \<leftarrow> dwarf_cfa aarch64 k r (gr_cfa g);
     bp \<leftarrow> dwarf_frame_pointer k r cfa (gr_frame_pointer g);
     ra \<leftarrow> dwarf_return_address k cfa (gr_return_address g);
     if cfa = 0 \<or> ra = 0 then None else Some \<lparr>w_ip = call_site aarch64 ra, w_sp = cfa, w_bp = bp\<rparr>
   }"

text \<open>A frame whose return address is undefined is the outermost.\<close>

definition dwarf_step :: "bool \<Rightarrow> kernel \<Rightarrow> gimli_row \<Rightarrow> wregs \<Rightarrow> frame_kind" where
  "dwarf_step aarch64 k g r =
     (if gr_return_address g = Undefined then Bottom
      else case dwarf_caller aarch64 k g r of None \<Rightarrow> Stuck | Some r' \<Rightarrow> Caller r')"

text \<open>
  The row of a program counter: inside a function the last one at or before it. The first row of the function that
  \<open>first_frame_override\<close> names stands for the end of the stack, as does every program counter after a function and
  outside all others; before all functions there is nothing.
\<close>

datatype dwarf_entry = No_entry | End_of_stack | Entry gimli_row

definition fde_row :: "fde \<Rightarrow> u64 \<Rightarrow> gimli_row option" where
  "fde_row f pc =
     (case fde_rows f of
        None \<Rightarrow> None
      | Some rows \<Rightarrow> find (\<lambda>g. gr_start_address g \<le> pc) (rev (List.map_filter id rows)))"

definition dwarf_entry :: "(u64 \<times> u64) option \<Rightarrow> fde list \<Rightarrow> u64 \<Rightarrow> dwarf_entry" where
  "dwarf_entry override fdes pc =
     (case find (\<lambda>f. fde_initial_address f \<le> pc \<and> pc < fde_end f) fdes of
        Some f \<Rightarrow>
          (case fde_row f pc of
             None \<Rightarrow> No_entry
           | Some g \<Rightarrow> if map_option fst override = Some (gr_start_address g) then End_of_stack else Entry g)
      | None \<Rightarrow> if list_ex (\<lambda>f. fde_end f \<le> pc) fdes then End_of_stack else No_entry)"

section \<open>What compact rows can represent\<close>

text \<open>
  When the BPF program computes the frame address of the rule: for a register with an offset below \<open>2 ^ 15\<close>, for a load
  relative to the stack pointer with operands of one byte each, and for the first kind of linkage table where its threshold of one agrees with eleven.
\<close>

definition cfa_exact :: "bool \<Rightarrow> u64 \<Rightarrow> CfaRule \<Rightarrow> bool" where
  "cfa_exact aarch64 ip rule =
     (case rule of
        RegisterAndOffset reg off \<Rightarrow> off < 2 ^ 15
      | CfaExpression None \<Rightarrow> False
      | CfaExpression (Some e) \<Rightarrow>
          if ex_data e = PLT1 then ip AND 15 = 0 \<or> 11 \<le> ip AND 15
          else ex_data e \<noteq> PLT2 \<and>
            (case deref_operands (ex_ops e) of
               Some (reg, off, addition) \<Rightarrow> reg = (if aarch64 then 31 else 7) \<and> off < 2 ^ 8 \<and> addition < 2 ^ 8
             | None \<Rightarrow> False))"

text \<open>
  The return address is where the ABI puts it, which is where the BPF program looks: below the frame address on x86-64,
  next to the saved frame pointer on arm64. And a saved frame pointer has an offset of 16 bits.
\<close>

definition abi_row :: "bool \<Rightarrow> gimli_row \<Rightarrow> bool" where
  "abi_row aarch64 g \<longleftrightarrow>
     (case gr_frame_pointer g of Offset off \<Rightarrow> - (2 ^ 15) \<le> sint off \<and> sint off < 2 ^ 15 | _ \<Rightarrow> True) \<and>
     (gr_return_address g = Undefined \<or>
      (if aarch64
       then case gr_frame_pointer g of Offset off \<Rightarrow> gr_return_address g = Offset (off + 8) | _ \<Rightarrow> False
       else gr_return_address g = Offset (-8)))"

section \<open>The rows of a table\<close>

text \<open>The step that the BPF program takes with a row.\<close>

definition row_step :: "kernel \<Rightarrow> stack_unwind_row_t \<Rightarrow> wregs \<Rightarrow> frame_kind" where
  "row_step k row r =
     (if is_bottom row then Bottom
      else if is_supported row then (case caller_of k row r of None \<Rightarrow> Stuck | Some r' \<Rightarrow> Caller r') else Stuck)"

lemma frame_kind_row_step:
  "frame_kind k s pid r = (case row_at s pid (w_ip r) of None \<Rightarrow> Stuck | Some row \<Rightarrow> row_step k row r)"
  by (simp add: frame_kind_def row_step_def split: option.split)

lemma rule_at_find:
  "rule_at (map f gs) pc = map_option (rule_of \<circ> f) (find (\<lambda>g. cu_pc (f g) \<le> pc) (rev gs))"
proof (induction gs rule: rev_induct)
  case (snoc g gs)
  then show ?case by (simp add: rule_at_append)
qed simp

lemma rule_of_stop: "rule_of (stop_unwinding a) = rule_of (stop_unwinding 0)"
  by (simp add: rule_of_def stop_unwinding_def)

lemma convert_row_override:
  "convert_row aarch64 override g =
     (if map_option fst override = Some (gr_start_address g) then stop_unwinding (gr_start_address g)
      else convert_row aarch64 None g)"
  by (auto simp: convert_row_def Let_def split: prod.splits option.splits)

lemma converted_rule_entry:
  "converted_rule aarch64 override fdes pc =
     (case dwarf_entry override fdes pc of
        No_entry \<Rightarrow> None
      | End_of_stack \<Rightarrow> Some (rule_of (stop_unwinding 0))
      | Entry g \<Rightarrow> Some (rule_of (convert_row aarch64 None g)))"
proof -
  have "rule_at (converted_rows aarch64 override f) pc =
      map_option (rule_of \<circ> convert_row aarch64 override) (fde_row f pc)" for f
    by (simp add: converted_rows_def fde_row_def rule_at_find convert_row_fields split: option.split)
  moreover have "rule_of (convert_row aarch64 override g) =
      (if map_option fst override = Some (gr_start_address g) then rule_of (stop_unwinding 0)
       else rule_of (convert_row aarch64 None g))" for g
    using convert_row_override [of aarch64 override g] rule_of_stop [of "gr_start_address g"] by simp
  ultimately show ?thesis by (simp add: converted_rule_def dwarf_entry_def split: option.split)
qed

lemma small_word_bits:
  fixes x :: u64
  assumes "x < 2 ^ n" "n \<le> 64" "n \<le> i"
  shows "\<not> bit x i"
proof
  assume "bit x i"
  then have "take_bit n x \<noteq> x" using assms(3) by (metis bit_take_bit_iff not_less)
  moreover have "take_bit n x = x"
    using assms(1,2) by (metis less_mask_eq take_bit_eq_mask)
  ultimately show False by simp
qed

lemma sint_small:
  fixes x :: u64
  assumes "x < 2 ^ n" "n < 64"
  shows "sint x = uint x"
proof -
  have "\<not> bit x 63" using small_word_bits [of x n 63] assms by simp
  moreover have "take_bit 63 (uint x) = uint x"
  proof (rule bit_eqI)
    fix i
    show "bit (take_bit 63 (uint x)) i = bit (uint x) i"
      using small_word_bits [of x n i] assms by (cases "n \<le> i") (auto simp: bit_take_bit_iff bit_uint_iff)
  qed
  ultimately show ?thesis by (simp add: sint_uint signed_take_bit_eq_if_positive bit_uint_iff)
qed

lemma offset_roundtrip:
  fixes off :: u64
  assumes "off < 2 ^ 15"
  shows "scast (ucast off :: u16) = off" "0 \<le> sint off \<and> sint off < 2 ^ 16"
proof -
  note zero = small_word_bits [OF assms, simplified]
  show "scast (ucast off :: u16) = off"
  proof (rule bit_word_eqI)
    fix i
    assume "i < LENGTH(64)"
    then show "bit (scast (ucast off :: u16) :: u64) i = bit off i"
      using zero [of i] zero [of 15] by (cases "i < 15") (auto simp: bit_simps min_def)
  qed
  have "sint off = uint off" "uint off < 2 ^ 15" using sint_small [OF assms] assms by (simp_all add: word_less_def)
  then show "0 \<le> sint off \<and> sint off < 2 ^ 16" by simp
qed

lemma deref_operands_roundtrip:
  fixes off addition :: u64
  assumes "off < 2 ^ 8" "addition < 2 ^ 8"
  defines "x \<equiv> push_bit 8 (ucast off) OR ucast addition :: u16"
  shows "ucast (ucast (signed_drop_bit 8 x) :: u8) = off" "ucast (ucast x :: u8) = addition"
proof -
  note zero = small_word_bits [OF assms(1), simplified] small_word_bits [OF assms(2), simplified]
  show "ucast (ucast (signed_drop_bit 8 x) :: u8) = off"
  proof (rule bit_word_eqI)
    fix i
    show "bit (ucast (ucast (signed_drop_bit 8 x) :: u8) :: u64) i = bit off i"
      using zero(1) [of i] zero(2) [of "8 + i"]
      by (cases "i < 8") (auto simp: x_def bit_simps bit_signed_drop_bit_iff)
  qed
  show "ucast (ucast x :: u8) = addition"
  proof (rule bit_word_eqI)
    fix i
    show "bit (ucast (ucast x :: u8) :: u64) i = bit addition i"
      using zero(2) [of i] by (cases "i < 8") (auto simp: x_def bit_simps)
  qed
qed

lemma convert_row_plain:
  assumes "case override of None \<Rightarrow> True | Some (start, _) \<Rightarrow> gr_start_address r \<noteq> start"
  shows "cu_cfa_type (convert_row aarch64 override r) = fst (convert_cfa (if aarch64 then ARM64_FP else X86_FP)
      (if aarch64 then ARM64_SP else X86_SP) (gr_cfa r))"
    and "cu_cfa_offset (convert_row aarch64 override r) = snd (convert_cfa (if aarch64 then ARM64_FP else X86_FP)
      (if aarch64 then ARM64_SP else X86_SP) (gr_cfa r))"
  using assms by (auto simp: convert_row_def Let_def split: prod.splits option.splits)

lemma frame_rsp_offset:
  assumes "off < 2 ^ 15" "cfa_offset row = ucast off"
  shows "cfa_type row = CFA_TYPE_RBP \<Longrightarrow> us_bp us + off \<noteq> 0 \<Longrightarrow> frame_rsp k row us s = Inr (us_bp us + off, s)"
    and "cfa_type row = CFA_TYPE_RSP \<Longrightarrow> us_sp us + off \<noteq> 0 \<Longrightarrow> frame_rsp k row us s = Inr (us_sp us + off, s)"
  using offset_roundtrip(1) [OF assms(1)] assms(2) by (simp_all add: frame_rsp_def Let_def)

lemma frame_rsp_deref:
  assumes "off < 2 ^ 8" "addition < 2 ^ 8" "cfa_offset row = push_bit 8 (ucast off) OR ucast addition"
    and "cfa_type row = CFA_TYPE_DEREF_AND_ADD" "probe_read_user k (us_sp us + off) 0 = (ret, v)"
    and "\<not> ret < 0" "v + addition \<noteq> 0"
  shows "frame_rsp k row us s = Inr (v + addition, s)"
  using deref_operands_roundtrip [OF assms(1,2)] assms(3-) by (simp add: frame_rsp_def Let_def)

section \<open>Frame addresses\<close>

lemma register_value_codes:
  "register_value aarch64 r reg =
     (if reg = (if aarch64 then ARM64_FP else X86_FP) then Some (w_bp r)
      else if reg = (if aarch64 then ARM64_SP else X86_SP) then Some (w_sp r) else None)"
  by (simp add: register_value_def ARM64_FP_def ARM64_SP_def X86_FP_def X86_SP_def)

lemma deref_operands_ops:
  "deref_operands ops = Some (reg, off, addition) \<Longrightarrow>
   ops = [Some (RegisterOffset reg off), Some Deref, Some (PlusConstant addition)]"
  by (induction ops rule: deref_operands.induct) auto

lemma plt_bytes:
  "dwarf_bytes r PLT1 [] = Some (w_sp r + 8 + (if 11 \<le> w_ip r AND 15 then 8 else 0))"
  "dwarf_bytes r PLT2 [] = Some (w_sp r + 8 + (if 10 \<le> w_ip r AND 15 then 8 else 0))"
proof -
  have small: "sint (x AND 15) = uint (x AND 15)" for x :: u64
  proof (rule sint_small)
    show "x AND 15 < 2 ^ 4" using word_and_le1 [of x 15] by (rule order_le_less_trans) simp
  qed simp
  show "dwarf_bytes r PLT1 [] = Some (w_sp r + 8 + (if 11 \<le> w_ip r AND 15 then 8 else 0))"
    by (simp add: PLT1_def small word_le_def)
  show "dwarf_bytes r PLT2 [] = Some (w_sp r + 8 + (if 10 \<le> w_ip r AND 15 then 8 else 0))"
    by (simp add: PLT2_def small word_le_def)
qed


lemma frame_rsp_plt1:
  assumes "cfa_type row = CFA_TYPE_PLT1" "us_ip us AND 15 = 0 \<or> 11 \<le> us_ip us AND 15"
    and "dwarf_bytes (regs_of us) PLT1 [] = Some v" "v \<noteq> 0"
  shows "frame_rsp k row us s = Inr (v, s)"
proof -
  have "(1 \<le> us_ip us AND 15) = (11 \<le> us_ip us AND 15)"
    using assms(2) by (auto simp: word_le_nat_alt)
  then show ?thesis using assms(1,3,4) by (auto simp: frame_rsp_def plt_threshold_def plt_bytes Let_def split: if_splits)
qed

lemma frame_rsp_exact:
  assumes "dwarf_cfa aarch64 k (regs_of us) (gr_cfa g) = Some v" "cfa_exact aarch64 (us_ip us) (gr_cfa g)" "v \<noteq> 0"
  shows "frame_rsp k (row_from (convert_row aarch64 None g)) us s = Inr (v, s)"
proof -
  let ?row = "row_from (convert_row aarch64 None g)"
  let ?fp = "if aarch64 then ARM64_FP else X86_FP" and ?sp = "if aarch64 then ARM64_SP else X86_SP"
  have row: "cfa_type ?row = cfa_code (fst (convert_cfa ?fp ?sp (gr_cfa g)))"
    "cfa_offset ?row = snd (convert_cfa ?fp ?sp (gr_cfa g))"
    using convert_row_plain [of g None aarch64] by (simp_all add: row_from_def)
  show ?thesis
  proof (cases "gr_cfa g")
    case (RegisterAndOffset reg off)
    then have off: "off < 2 ^ 15" using assms(2) by (simp add: cfa_exact_def)
    with RegisterAndOffset row have o: "cfa_offset ?row = ucast off"
      "cfa_type ?row = cfa_code (if reg = ?fp then Cfa_FramePointerOffset else if reg = ?sp then Cfa_StackPointerOffset
         else Cfa_UnsupportedRegisterOffset)"
      using offset_roundtrip(2) [OF off] by (simp_all add: convert_cfa_def Let_def)
    from assms(1,3) RegisterAndOffset show ?thesis
      using frame_rsp_offset [OF off o(1)] o(2)
      by (auto simp: dwarf_cfa_def register_value_codes split: if_splits)
  next
    case (CfaExpression ex)
    then obtain e where e: "ex = Some e" "ex_data e \<noteq> PLT2"
      using assms(2) by (auto simp: cfa_exact_def PLT1_def PLT2_def split: option.splits if_splits)
    show ?thesis
    proof (cases "ex_data e = PLT1")
      case True
      then have "cfa_type ?row = CFA_TYPE_PLT1" using row CfaExpression e by (simp add: convert_cfa_def convert_expression_def)
      then show ?thesis
        using True assms CfaExpression e by (intro frame_rsp_plt1) (simp_all add: cfa_exact_def dwarf_cfa_def)
    next
      case False
      then obtain reg off addition where op: "deref_operands (ex_ops e) = Some (reg, off, addition)"
        "reg = ?sp" "off < 2 ^ 8" "addition < 2 ^ 8"
        using assms(2) CfaExpression e by (auto simp: cfa_exact_def ARM64_SP_def X86_SP_def split: option.splits)
      note ops = deref_operands_ops [OF op(1)]
      have base: "register_value aarch64 (regs_of us) ?sp = Some (us_sp us)"
        by (simp add: register_value_def ARM64_SP_def X86_SP_def)
      obtain ret w where read: "probe_read_user k (us_sp us + off) 0 = (ret, w)" "\<not> ret < 0" "v = w + addition"
        using assms(1) CfaExpression e False op(2) base
        by (auto simp: dwarf_cfa_def ops read_word_def bind_eq_Some_conv split: prod.splits if_splits)
      have "cfa_type ?row = CFA_TYPE_DEREF_AND_ADD" "cfa_offset ?row = push_bit 8 (ucast off) OR ucast addition"
        using row e False CfaExpression op by (simp_all add: convert_cfa_def convert_expression_def)
      with op(3,4) read assms(3) show ?thesis using frame_rsp_deref by blast
    qed
  qed
qed

lemma frame_rsp_large:
  assumes "dwarf_cfa aarch64 k (regs_of us) (RegisterAndOffset reg off) = Some v" "2 ^ 15 \<le> off" "off < 2 ^ 16" "v \<noteq> 2 ^ 16"
    and "gr_cfa g = RegisterAndOffset reg off"
  shows "frame_rsp k (row_from (convert_row aarch64 None g)) us s = Inr (v - 2 ^ 16, s)"
proof -
  let ?row = "row_from (convert_row aarch64 None g)"
  have again: "ucast (ucast off :: u16) = off"
    using small_word_bits [OF assms(3)] by (auto intro!: bit_word_eqI simp: bit_simps not_le [symmetric])
  have "sint off = uint off" "uint off < 2 ^ 16" using sint_small [OF assms(3)] assms(3) by (simp_all add: word_less_def)
  then have fits: "0 \<le> sint off" "sint off < 2 ^ 16" by simp_all
  have "unat (ucast off :: u16) = unat off"
    using assms(3) by (simp add: unsigned_ucast_eq take_bit_nat_eq_self_iff word_less_nat_alt)
  then have "0x8000 \<le> (ucast off :: u16)" using assms(2) by (simp add: word_le_nat_alt)
  from scast_large_16 [OF this] have sc: "scast (ucast off :: u16) = off - 65536" using again by simp
  have row: "cfa_offset ?row = ucast off" "cfa_type ?row = cfa_code (if reg = (if aarch64 then ARM64_FP else X86_FP)
      then Cfa_FramePointerOffset else if reg = (if aarch64 then ARM64_SP else X86_SP) then Cfa_StackPointerOffset
      else Cfa_UnsupportedRegisterOffset)"
    using fits assms(5) convert_row_plain [of g None aarch64] by (simp_all add: row_from_def convert_cfa_def Let_def)
  have bp: "frame_rsp k ?row us s = Inr (v - 2 ^ 16, s)" if "cfa_type ?row = CFA_TYPE_RBP" "v = us_bp us + off"
  proof -
    have "us_bp us + scast (cfa_offset ?row) = v - 2 ^ 16" using that(2) sc row(1) by (simp add: algebra_simps)
    then show ?thesis using that(1) assms(4) by (simp add: frame_rsp_def Let_def)
  qed
  have sp: "frame_rsp k ?row us s = Inr (v - 2 ^ 16, s)" if "cfa_type ?row = CFA_TYPE_RSP" "v = us_sp us + off"
  proof -
    have "us_sp us + scast (cfa_offset ?row) = v - 2 ^ 16" using that(2) sc row(1) by (simp add: algebra_simps)
    then show ?thesis using that(1) assms(4) by (simp add: frame_rsp_def Let_def)
  qed
  show ?thesis using assms(1) row(2) bp sp by (auto simp: dwarf_cfa_def register_value_codes split: if_splits)
qed

lemma frame_rsp_plt2:
  assumes "gr_cfa g = CfaExpression (Some e)" "ex_data e = PLT2"
  shows "frame_rsp k (row_from (convert_row aarch64 None g)) us s = Inl (bump bump_unwind_error_should_never_happen s)"
proof -
  have "PLT2 \<noteq> PLT1" by (simp add: PLT1_def PLT2_def)
  then have "cfa_type (row_from (convert_row aarch64 None g)) = CFA_TYPE_PLT2"
    using assms convert_row_plain [of g None aarch64] by (simp add: row_from_def convert_cfa_def convert_expression_def)
  then show ?thesis by (simp add: frame_rsp_def plt_threshold_def Let_def)
qed

lemma offset_not_fitting:
  assumes "gr_cfa g = RegisterAndOffset reg off" "\<not> (0 \<le> sint off \<and> sint off < 2 ^ 16)"
  shows "frame_apply_row k (row_from (convert_row aarch64 None g)) us s =
     (Frame_return, us, bump bump_unwind_error_cfa_offset_did_not_fit s)"
proof -
  have "cfa_type (row_from (convert_row aarch64 None g)) = CFA_TYPE_OFFSET_DID_NOT_FIT"
    using assms convert_row_plain [of g None aarch64] by (auto simp: row_from_def convert_cfa_def Let_def)
  then show ?thesis by (simp add: frame_apply_row_def)
qed

text \<open>
  C31. The frame address that the BPF program computes from a converted row, against the canonical frame
  address of the rule, where that has a value. They are the same for a register with an offset below 32768, for
  a load relative to the stack pointer with operands below 256, and for the first kind of linkage table when the
  program counter is at the start of a slot or eleven bytes and more into it. For offsets from 32768 to 65535, which
  the conversion accepts, the computed address is 65536 too low; larger and negative offsets end the walk with
  error\_cfa\_offset\_did\_not\_fit; and the second kind of linkage table ends it with error\_should\_never\_happen.
\<close>

theorem computed_frame_address:
  assumes "dwarf_cfa aarch64 k (regs_of us) (gr_cfa g) = Some v" "row = row_from (convert_row aarch64 None g)"
  shows "(cfa_exact aarch64 (us_ip us) (gr_cfa g) \<and> v \<noteq> 0 \<longrightarrow> frame_rsp k row us s = Inr (v, s)) \<and>
     (\<forall>reg off. gr_cfa g = RegisterAndOffset reg off \<longrightarrow>
        (2 ^ 15 \<le> off \<and> off < 2 ^ 16 \<and> v \<noteq> 2 ^ 16 \<longrightarrow> frame_rsp k row us s = Inr (v - 2 ^ 16, s)) \<and>
        (\<not> (0 \<le> sint off \<and> sint off < 2 ^ 16) \<longrightarrow>
           frame_apply_row k row us s = (Frame_return, us, bump bump_unwind_error_cfa_offset_did_not_fit s))) \<and>
     (\<forall>e. gr_cfa g = CfaExpression (Some e) \<and> ex_data e = PLT2 \<longrightarrow>
        frame_rsp k row us s = Inl (bump bump_unwind_error_should_never_happen s))"
  using frame_rsp_exact [OF assms(1)] frame_rsp_large [of aarch64 k us _ _ v g s] assms(1) offset_not_fitting frame_rsp_plt2
  unfolding assms(2) by fastforce

text \<open>The frame address is the stack pointer plus the offset.\<close>

definition sp_row :: "s64 \<Rightarrow> gimli_row" where
  "sp_row off = \<lparr>gr_start_address = 0x1004, gr_cfa = RegisterAndOffset 7 off, gr_frame_pointer = Undefined,
     gr_return_address = Offset (-8)\<rparr>"

theorem computed_frame_address_witness:
  "frame_rsp example_kernel (row_from (convert_row False None (sp_row 16))) (example_us\<lparr>us_sp := 0x7010\<rparr>) example_state =
     Inr (0x7020, example_state) \<and>
   frame_rsp example_kernel (row_from (convert_row False None (sp_row 0x9000))) (example_us\<lparr>us_sp := 0x20000\<rparr>) example_state =
     Inr (0x19000, example_state)"
proof
  have "dwarf_cfa False example_kernel (regs_of (example_us\<lparr>us_sp := 0x7010\<rparr>)) (gr_cfa (sp_row 16)) = Some 0x7020"
    by (simp add: sp_row_def dwarf_cfa_def register_value_def)
  from computed_frame_address [OF this refl, of example_state]
  show "frame_rsp example_kernel (row_from (convert_row False None (sp_row 16))) (example_us\<lparr>us_sp := 0x7010\<rparr>) example_state =
      Inr (0x7020, example_state)" by (simp add: sp_row_def cfa_exact_def)
  have "dwarf_cfa False example_kernel (regs_of (example_us\<lparr>us_sp := 0x20000\<rparr>)) (gr_cfa (sp_row 0x9000)) = Some 0x29000"
    by (simp add: sp_row_def dwarf_cfa_def register_value_def)
  from computed_frame_address [OF this refl, of example_state]
  show "frame_rsp example_kernel (row_from (convert_row False None (sp_row 0x9000))) (example_us\<lparr>us_sp := 0x20000\<rparr>) example_state =
      Inr (0x19000, example_state)" by (simp add: sp_row_def)
qed

section \<open>Steps\<close>

lemma signed_roundtrip:
  fixes off :: s64
  assumes "- (2 ^ 15) \<le> sint off" "sint off < 2 ^ 15"
  shows "scast (ucast off :: s16) = off"
proof (rule bit_word_eqI)
  fix i
  assume i: "i < LENGTH(64)"
  have "signed_take_bit 15 (sint off) = sint off" using assms by (intro signed_take_bit_int_eq_self)
  then have "bit (sint off) i = bit (signed_take_bit 15 (sint off)) i" by simp
  then have "bit (sint off) i = bit (sint off) (min i 15)" unfolding bit_signed_take_bit_iff by (simp add: min.commute)
  moreover have "bit (sint off) j = bit off j" if "j < 64" for j using that by (simp add: bit_sint_iff)
  moreover have "i < 64" "min i 15 < 64" using i by simp_all
  ultimately have same: "bit off i = bit off (min i 15)" by metis
  have "bit (scast (ucast off :: s16) :: s64) i = bit off (min i 15)" using i by (simp add: bit_simps min_def)
  then show "bit (scast (ucast off :: s16) :: s64) i = bit off i" unfolding same .
qed

lemma call_site_code:
  "call_site aarch64 ra = previous_instruction_addr (if aarch64 then Arm64 else X86) (remove_pac (if aarch64 then Arm64 else X86) ra)"
  by (simp add: call_site_def take_bit_eq_mask mask_eq_exp_minus_1)

lemma convert_row_fp:
  "rbp_type (row_from (convert_row aarch64 None g)) = rbp_code (if gr_return_address g = Undefined
     then Rbp_UndefinedReturnAddress else fst (convert_frame_pointer (gr_frame_pointer g)))"
  "rbp_offset (row_from (convert_row aarch64 None g)) = snd (convert_frame_pointer (gr_frame_pointer g))"
  by (simp_all add: convert_row_def row_from_def Let_def split: prod.splits)

lemma exact_cfa_type:
  assumes "cfa_exact aarch64 ip (gr_cfa g)"
  shows "cfa_type (row_from (convert_row aarch64 None g)) \<notin> {CFA_TYPE_END_OF_FDE_MARKER, CFA_TYPE_OFFSET_DID_NOT_FIT}"
  using assms offset_roundtrip(2) convert_row_plain(1) [of g None aarch64]
  by (cases "gr_cfa g")
    (auto simp: cfa_exact_def row_from_def convert_cfa_def convert_expression_def Let_def split: option.splits if_splits)

lemma caller_sp_exact:
  assumes "dwarf_cfa aarch64 k r (gr_cfa g) = Some v" "cfa_exact aarch64 (w_ip r) (gr_cfa g)" "v \<noteq> 0"
  shows "caller_sp k (row_from (convert_row aarch64 None g)) r = Some v"
proof -
  let ?us = "fresh_unwind_state\<lparr>us_ip := w_ip r, us_sp := w_sp r, us_bp := w_bp r\<rparr>"
  have r: "regs_of ?us = r" by (simp add: regs_of_def)
  have "frame_rsp k (row_from (convert_row aarch64 None g)) ?us s = Inr (v, s)" for s
    using frame_rsp_exact [of aarch64 k ?us g v s] assms unfolding r by simp
  then show ?thesis
    using frame_rsp_caller_sp [of k "row_from (convert_row aarch64 None g)" ?us example_state] unfolding r by simp
qed

lemma convert_row_step:
  assumes "cfa_exact aarch64 (w_ip r) (gr_cfa g)" "abi_row aarch64 g" "k_arch k = (if aarch64 then Arm64 else X86)"
    and "dwarf_step aarch64 k g r \<noteq> Stuck"
  shows "row_step k (row_from (convert_row aarch64 None g)) r = dwarf_step aarch64 k g r"
proof (cases "gr_return_address g = Undefined")
  case True
  then show ?thesis
    using exact_cfa_type [OF assms(1)] by (simp add: dwarf_step_def row_step_def is_bottom_def convert_row_fp)
next
  case False
  let ?row = "row_from (convert_row aarch64 None g)"
  obtain cfa bp ra ra_off where d: "dwarf_cfa aarch64 k r (gr_cfa g) = Some cfa"
    "dwarf_frame_pointer k r cfa (gr_frame_pointer g) = Some bp" "gr_return_address g = Offset ra_off"
    "read_word k (cfa + ra_off) = Some ra" "cfa \<noteq> 0" "ra \<noteq> 0"
    "dwarf_step aarch64 k g r = Caller \<lparr>w_ip = call_site aarch64 ra, w_sp = cfa, w_bp = bp\<rparr>"
    using assms(4) False
    by (auto simp: dwarf_step_def dwarf_caller_def dwarf_return_address_def bind_eq_Some_conv
        split: option.splits if_splits RegisterRule.splits)
  have sp: "caller_sp k ?row r = Some cfa" using caller_sp_exact d(1,5) assms(1) by blast
  have fp: "scast (rbp_offset ?row) = off \<and> rbp_type ?row = RBP_TYPE_OFFSET" if "gr_frame_pointer g = Offset off" for off
    using that assms(2) False signed_roundtrip [of off] by (simp add: abi_row_def convert_row_fp convert_frame_pointer_def)
  have bp: "caller_bp k ?row cfa r = Some bp" "is_supported ?row" "\<not> is_bottom ?row"
    using d(2) False exact_cfa_type [OF assms(1)] fp
    by (auto simp: dwarf_frame_pointer_def caller_bp_def read_word_def is_supported_def is_bottom_def convert_row_fp
        convert_frame_pointer_def split: RegisterRule.splits prod.splits if_splits)
  have "caller_ip k ?row cfa = Some (call_site aarch64 ra)"
    using assms(2,3) d(3,4,6) fp
    by (auto simp: abi_row_def caller_ip_def nonzero_def read_word_def call_site_code add.assoc
        split: RegisterRule.splits prod.splits if_splits)
  with sp bp d(7) show ?thesis by (simp add: row_step_def caller_of_def)
qed

section \<open>Tables\<close>

lemma row_step_rule:
  assumes "rule_of a = rule_of b"
  shows "row_step k (row_from a) r = row_step k (row_from b) r"
proof -
  have fields: "cfa_type (row_from a) = cfa_type (row_from b)" "cfa_offset (row_from a) = cfa_offset (row_from b)"
    "rbp_type (row_from a) = rbp_type (row_from b)" "rbp_offset (row_from a) = rbp_offset (row_from b)"
    using assms by (simp_all add: row_from_def rule_of_def)
  show ?thesis
    unfolding row_step_def is_bottom_def is_supported_def caller_of_def caller_sp_def caller_bp_def caller_ip_def fields ..
qed

lemma row_step_stop:
  assumes "rule_of a = rule_of (stop_unwinding 0)"
  shows "row_step k (row_from a) r = Bottom"
proof -
  have "is_bottom (row_from (stop_unwinding 0))" by (simp add: is_bottom_def row_from_def stop_unwinding_def)
  then show ?thesis using row_step_rule [OF assms, of k r] by (simp add: row_step_def)
qed

text \<open>
  What a row means for an entry: there is one when there is an entry, it stops unwinding at the end of the stack, and it leads
  to the caller that the entry gives, for the rows that compact rows can represent and the registers for which its rules have values.
  A table follows the frame descriptions when its rows mean the entries of all program counters.
\<close>

definition row_means :: "bool \<Rightarrow> dwarf_entry \<Rightarrow> stack_unwind_row_t option \<Rightarrow> bool" where
  "row_means aarch64 entry found \<longleftrightarrow>
     (case entry of
        No_entry \<Rightarrow> found = None
      | End_of_stack \<Rightarrow> \<exists>row. found = Some row \<and> (\<forall>k r. row_step k row r = Bottom)
      | Entry g \<Rightarrow> \<exists>row. found = Some row \<and>
          (\<forall>k r. k_arch k = (if aarch64 then Arm64 else X86) \<and> abi_row aarch64 g \<and>
             cfa_exact aarch64 (w_ip r) (gr_cfa g) \<and> dwarf_step aarch64 k g r \<noteq> Stuck \<longrightarrow>
             row_step k row r = dwarf_step aarch64 k g r))"

definition follows_dwarf ::
    "bool \<Rightarrow> (u64 \<times> u64) option \<Rightarrow> fde list \<Rightarrow> (u64 \<Rightarrow> stack_unwind_row_t option) \<Rightarrow> bool" where
  "follows_dwarf aarch64 override fdes row_for \<longleftrightarrow>
     (\<forall>pc. row_means aarch64 (dwarf_entry override fdes pc) (row_for pc))"

definition table_row :: "CompactUnwindRow list \<Rightarrow> u64 \<Rightarrow> stack_unwind_row_t option" where
  "table_row rows pc = map_option (\<lambda>j. row_from (rows ! j)) (covering_row rows pc)"

lemma converted_table_follows_dwarf:
  assumes "\<And>pc. rule_at rows pc = converted_rule aarch64 override fdes pc"
  shows "follows_dwarf aarch64 override fdes (table_row rows)"
  unfolding follows_dwarf_def
proof
  fix pc
  have rule: "map_option (\<lambda>j. rule_of (rows ! j)) (covering_row rows pc) = converted_rule aarch64 override fdes pc"
    using rule_at_covering_row [of rows pc] assms by simp
  show "row_means aarch64 (dwarf_entry override fdes pc) (table_row rows pc)"
  proof (cases "dwarf_entry override fdes pc")
    case No_entry
    then show ?thesis using rule by (simp add: row_means_def converted_rule_entry table_row_def)
  next
    case End_of_stack
    then show ?thesis using rule row_step_stop by (auto simp: row_means_def converted_rule_entry table_row_def)
  next
    case (Entry g)
    then obtain j where j: "covering_row rows pc = Some j" "rule_of (rows ! j) = rule_of (convert_row aarch64 None g)"
      using rule by (auto simp: converted_rule_entry)
    then show ?thesis
      using Entry convert_row_step row_step_rule [OF j(2)] by (auto simp: row_means_def table_row_def)
  qed
qed

text \<open>
  C6. The compact table of an executable means what its frame descriptions mean. For well-formed entries
  in any order in the section (functions do not overlap, rows begin at the start of the function and
  have increasing addresses below its end, none fails, and no function ends where the override row is) the conversion
  succeeds, and its table is sorted and has no two neighbouring rows with the same rule. For every program counter it
  has a row exactly when DWARF has an entry; after a function, and at the override, this row is the bottom of the stack; and
  inside a function the BPF program finds with it the very caller that the DWARF rules give, or the bottom where the return
  address is undefined. The last holds for rows that compact rows can represent (\<open>cfa_exact\<close>: offsets below 32768,
  loads with operands below 256, linkage tables of the first kind where the two thresholds agree; \<open>abi_row\<close>: the return address where
  the ABI has it, which on arm64 is next to a saved frame pointer, and a saved frame pointer within 16 bits) and
  registers for which the rules have values.
\<close>

theorem compact_unwind_info_correct:
  assumes "fdes_wf aarch64 override (sort_key fde_initial_address fdes)" "fdes \<noteq> []"
    and "length (full_table aarch64 override (sort_key fde_initial_address fdes)) < 2 ^ 64"
  shows "\<exists>rows. compact_unwind_info aarch64 override (Frame_entries fdes) = Returns (Inr rows) \<and>
     follows_dwarf aarch64 override (sort_key fde_initial_address fdes) (table_row rows) \<and>
     sorted (map cu_pc rows) \<and> distinct_adj (map rule_of rows)"
  using compact_unwind_info_spec [OF assms] converted_table_follows_dwarf by blast

text \<open>A stack frame whose caller's frame pointer is 0 and whose return address is 0x403031.\<close>

definition saved_frame_kernel :: kernel where
  "saved_frame_kernel = example_kernel\<lparr>probe_read_user := (\<lambda>a old. (0, if a = 0x7010 then 0 else 0x403031))\<rparr>"

lemma saved_frame_arch: "k_arch saved_frame_kernel = X86"
  by (simp add: saved_frame_kernel_def example_kernel_def)

definition frame_pointer_row :: gimli_row where
  "frame_pointer_row = \<lparr>gr_start_address = 0x1004, gr_cfa = RegisterAndOffset 6 16, gr_frame_pointer = Offset (-16),
     gr_return_address = Offset (-8)\<rparr>"

lemma example_entry:
  "dwarf_entry None (rev example_fdes) 0x1ffc = Entry frame_pointer_row"
  "dwarf_entry None (rev example_fdes) 0x2100 = End_of_stack"
  by (simp_all add: dwarf_entry_def fde_row_def example_fdes_def fde_end_def List.map_filter_simps frame_pointer_row_def)

lemma example_dwarf_step:
  "dwarf_step False saved_frame_kernel frame_pointer_row \<lparr>w_ip = 0x401ffc, w_sp = 0x7000, w_bp = 0x7010\<rparr> =
     Caller \<lparr>w_ip = 0x403030, w_sp = 0x7020, w_bp = 0\<rparr>"
  by (simp add: dwarf_step_def dwarf_caller_def frame_pointer_row_def dwarf_cfa_def register_value_def
      dwarf_frame_pointer_def dwarf_return_address_def read_word_def call_site_def saved_frame_kernel_def)

lemma example_representable: "abi_row False frame_pointer_row" "cfa_exact False ip (gr_cfa frame_pointer_row)"
  by (simp_all add: abi_row_def cfa_exact_def frame_pointer_row_def)

theorem compact_unwind_info_correct_witness:
  "\<exists>rows row. compact_unwind_info False None (Frame_entries example_fdes) = Returns (Inr rows) \<and>
     table_row rows 0x1ffc = Some row \<and>
     row_step saved_frame_kernel row \<lparr>w_ip = 0x401ffc, w_sp = 0x7000, w_bp = 0x7010\<rparr> =
       Caller \<lparr>w_ip = 0x403030, w_sp = 0x7020, w_bp = 0\<rparr>"
proof -
  have "fdes_wf False None (rev example_fdes)" "example_fdes \<noteq> []"
    by (simp_all add: example_fdes_wf) (simp add: example_fdes_def)
  with compact_unwind_info_correct [of False None example_fdes] example_fdes_table(1) obtain rows where rows:
    "compact_unwind_info False None (Frame_entries example_fdes) = Returns (Inr rows)"
    "follows_dwarf False None (rev example_fdes) (table_row rows)"
    unfolding example_fdes_sorted by blast
  from rows(2) obtain row where "table_row rows 0x1ffc = Some row" "\<forall>k r. k_arch k = X86 \<and> abi_row False frame_pointer_row \<and>
      cfa_exact False (w_ip r) (gr_cfa frame_pointer_row) \<and> dwarf_step False k frame_pointer_row r \<noteq> Stuck \<longrightarrow>
      row_step k row r = dwarf_step False k frame_pointer_row r"
    using example_entry(1) unfolding follows_dwarf_def row_means_def by (auto dest!: spec [of _ "0x1ffc"])
  then show ?thesis
    using rows(1) example_representable example_dwarf_step saved_frame_arch
    by (metis frame_kind.distinct(3) frame_kind.distinct(4))
qed

end
