(* ===== verification/Session_Tables.thy ===== *)
theory Session_Tables
  imports Session Dwarf_Semantics
begin

text \<open>
  From the frame descriptions of an executable to the rows that the unwinder finds, over whole sessions: what is loaded
  for the executable is the table that its file gives, whether it was converted in this session or read from the cache,
  and however it was loaded, evicted and loaded again among all the others.
\<close>

section \<open>The executable\<close>





section \<open>Steps that load nothing\<close>

definition same_sources :: "profiler \<Rightarrow> profiler \<Rightarrow> bool" where
  "same_sources p p' \<longleftrightarrow> object_files p' = object_files p \<and> unwind_info_manager p' = unwind_info_manager p"

lemma same_sources_refl [simp]: "same_sources p p"
  by (simp add: same_sources_def)










section \<open>Loading\<close>





section \<open>Events\<close>











section \<open>Sessions\<close>




section \<open>Properties\<close>












end
