(* ===== verification/Object_File.thy ===== *)
theory Object_File
  imports Kernel_Modules "HOL-Library.Sublist"
begin

text \<open>
  Executables on disk: src/lightswitch-object/src/object.rs. What the object crate reads from a file, and the
  SHA-256 digest, are parameters; \<open>None\<close> stands for an error of the crate.
\<close>

record elf_section =
  es_name :: "string option"
  es_data :: "u8 list option"

record elf_symbol =
  sym_name :: "string option"
  sym_address :: u64
  sym_size :: u64

record elf_segment =
  seg_p_type :: u32
  seg_p_flags :: u32
  seg_load :: ElfLoad

datatype elf_file_kind = Elf32_file "elf_segment list option" | Elf64_file "elf_segment list option" | Other_file | Unparsable_file

record object_contents =
  oc_build_id :: "u8 list option option"
  oc_sections :: "elf_section list"
  oc_symbols :: "elf_symbol list"
  oc_kind :: elf_file_kind

definition PT_LOAD :: u32 where "PT_LOAD = 1"
definition PF_X :: u32 where "PF_X = 1"

section \<open>Build ids\<close>

datatype object_error = Crate_error | Too_small | No_code_hash | Not_elf

fun code_hash :: "(u8 list \<Rightarrow> u8 list) \<Rightarrow> elf_section list \<Rightarrow> u8 list option" where
  "code_hash sha256 [] = None"
| "code_hash sha256 (section # sections) =
     (case (es_name section, es_data section) of
        (Some name, Some data) \<Rightarrow> if name = ''.text'' then Some (sha256 data) else code_hash sha256 sections
      | _ \<Rightarrow> code_hash sha256 sections)"

text \<open>A section whose name cannot be read ends the search with an error; one whose data cannot be read is skipped.\<close>

fun find_go_build_id :: "elf_section list \<Rightarrow> object_error + u8 list option" where
  "find_go_build_id [] = Inr None"
| "find_go_build_id (section # sections) =
     (case es_name section of
        None \<Rightarrow> Inl Crate_error
      | Some name \<Rightarrow>
          if name = ''.note.go.buildid''
          then (case es_data section of Some data \<Rightarrow> Inr (Some data) | None \<Rightarrow> find_go_build_id sections)
          else find_go_build_id sections)"

definition read_build_id :: "(u8 list \<Rightarrow> u8 list) \<Rightarrow> object_contents \<Rightarrow> object_error + BuildId" where
  "read_build_id sha256 object =
     (let checked = (\<lambda>r. case r of Inl e \<Rightarrow> Inl Too_small | Inr b \<Rightarrow> Inr b) in
      case oc_build_id object of
        None \<Rightarrow> Inl Crate_error
      | Some (Some data) \<Rightarrow> checked (gnu_from_bytes data)
      | Some None \<Rightarrow>
          (case find_go_build_id (oc_sections object) of
             Inl e \<Rightarrow> Inl e
           | Inr (Some data) \<Rightarrow> checked (go_from_bytes data)
           | Inr None \<Rightarrow>
               (case code_hash sha256 (oc_sections object) of
                  None \<Rightarrow> Inl No_code_hash
                | Some digest \<Rightarrow> checked (sha256_from_digest digest))))"

section \<open>Runtimes\<close>

definition is_go :: "object_contents \<Rightarrow> bool" where
  "is_go object \<longleftrightarrow> list_ex (\<lambda>section. case es_name section of
     Some name \<Rightarrow> name = ''.gosymtab'' \<or> name = ''.gopclntab'' \<or> name = ''.note.go.buildid'' | None \<Rightarrow> False)
     (oc_sections object)"

record StopUnwindingFrames =
  suf_name :: string
  suf_start_address :: u64
  suf_end_address :: u64

definition go_functions :: "string list" where
  "go_functions = [''runtime.mcall'', ''runtime.goexit'', ''runtime.mstart'', ''runtime.systemstack'']"

definition go_stop_unwinding_frames :: "object_contents \<Rightarrow> StopUnwindingFrames list" where
  "go_stop_unwinding_frames object =
     concat (map (\<lambda>symbol. case sym_name symbol of
         None \<Rightarrow> []
       | Some name \<Rightarrow> map (\<lambda>func. \<lparr>suf_name = name, suf_start_address = sym_address symbol,
             suf_end_address = sym_address symbol + sym_size symbol\<rparr>) (filter (\<lambda>func. prefix func name) go_functions))
       (oc_symbols object))"

fun scan_symbols :: "bool \<Rightarrow> (u64 \<times> u64) option \<Rightarrow> elf_symbol list \<Rightarrow> Runtime" where
  "scan_symbols is_zig zig_first_frame [] = CLike"
| "scan_symbols is_zig zig_first_frame (symbol # symbols) =
     (case sym_name symbol of
        None \<Rightarrow> scan_symbols is_zig zig_first_frame symbols
      | Some name \<Rightarrow>
          if prefix ''_ZZN2v88internal'' name then V8
          else
            let is_zig = (is_zig \<or> prefix ''__zig'' name);
                zig_first_frame = (if name = ''_start'' then Some (sym_address symbol, sym_address symbol + sym_size symbol)
                  else zig_first_frame)
            in case (is_zig, zig_first_frame) of
                 (True, Some (low_address, high_address)) \<Rightarrow> Zig low_address high_address
               | _ \<Rightarrow> scan_symbols is_zig zig_first_frame symbols)"

definition object_runtime :: "object_contents \<Rightarrow> Runtime" where
  "object_runtime object =
     (if is_go object
      then Go (map (\<lambda>f. (suf_start_address f, suf_end_address f)) (go_stop_unwinding_frames object))
      else scan_symbols False None (oc_symbols object))"

section \<open>Load segments\<close>

definition executable_segment :: "elf_segment \<Rightarrow> bool" where
  "executable_segment segment \<longleftrightarrow> \<not> (seg_p_type segment \<noteq> PT_LOAD \<or> seg_p_flags segment AND PF_X = 0)"

definition object_load_segments :: "object_contents \<Rightarrow> object_error + ElfLoad list" where
  "object_load_segments object =
     (let loads = (\<lambda>segments. case segments of
            None \<Rightarrow> Inl Crate_error
          | Some segments \<Rightarrow> Inr (map seg_load (filter executable_segment segments)))
      in case oc_kind object of
           Elf32_file segments \<Rightarrow> loads segments
         | Elf64_file segments \<Rightarrow> loads segments
         | Other_file \<Rightarrow> Inl Not_elf
         | Unparsable_file \<Rightarrow> Inl Not_elf)"

text \<open>What \<open>add_proc\<close> takes from a file: it is skipped when any of these fails.\<close>

definition open_object :: "(u8 list \<Rightarrow> u8 list) \<Rightarrow> string \<Rightarrow> object_contents \<Rightarrow> elf_object option" where
  "open_object sha256 path object =
     (case (read_build_id sha256 object, object_load_segments object) of
        (Inr build_id, Inr elf_loads) \<Rightarrow>
          map_option (\<lambda>i. \<lparr>eo_id = i, eo_build_id = build_id, eo_elf_loads = elf_loads, eo_path = path,
            eo_runtime = object_runtime object\<rparr>) (executable_id_of build_id)
      | _ \<Rightarrow> None)"

section \<open>Properties\<close>

text \<open>
  A file is used as soon as its build id and its segments can be read: the identifier is never missing, given that
  a digest has 32 bytes.
\<close>

lemma read_object_has_id:
  assumes "\<And>data. length (sha256 data) = 32" "read_build_id sha256 object = Inr b"
  shows "executable_id_of b \<noteq> None"
proof -
  have "\<exists>data. digest = sha256 data" if "code_hash sha256 sections = Some digest" for sections digest
    using that by (induction sections) (auto split: option.splits if_splits)
  then have "executable_id_of \<lparr>bi_flavour = Sha256_id, bi_data = digest\<rparr> \<noteq> None"
    if "code_hash sha256 (oc_sections object) = Some digest" for digest
    using that assms(1) by (fastforce simp: executable_id_of_def)
  then show ?thesis
    using assms(2) read_build_id_has_id
    by (auto simp: read_build_id_def Let_def sha256_from_digest_def split: option.splits sum.splits)
qed

lemma open_object_iff:
  assumes "\<And>data. length (sha256 data) = 32"
  shows "(\<exists>eo. open_object sha256 path object = Some eo) \<longleftrightarrow>
     (\<exists>b loads. read_build_id sha256 object = Inr b \<and> object_load_segments object = Inr loads)"
  using read_object_has_id [of sha256 object, OF assms]
  by (cases "read_build_id sha256 object"; cases "object_load_segments object") (auto simp: open_object_def)

text \<open>
  The identifier of a Go executable without a GNU build id is made of the first eight bytes of its note, which are the
  lengths of the note's name and of the build id that follows: two executables whose build ids have the same
  length, as the toolchain's all have, get the same identifier.
\<close>

definition go_note :: "u32 \<Rightarrow> u8 list \<Rightarrow> u8 list" where
  "go_note note_type build_id =
     bytes_le 4 (4 :: u32) @ bytes_le 4 (of_nat (length build_id) :: u32) @ bytes_le 4 note_type @ bytes_of ''Go'' @ [0, 0] @ build_id"

lemma go_executable_id:
  assumes "oc_build_id object = Some None" "find_go_build_id (oc_sections object) = Inr (Some (go_note t build_id))"
  shows "\<exists>b. read_build_id sha256 object = Inr b \<and>
     executable_id_of b = Some (from_be_bytes (bytes_le 4 (4 :: u32) @ bytes_le 4 (of_nat (length build_id) :: u32)))"
  using assms by (simp add: read_build_id_def go_from_bytes_def go_note_def MIN_BUILD_ID_BYTES_def executable_id_of_def)

lemma go_executables_collide:
  assumes "oc_build_id object = Some None" "find_go_build_id (oc_sections object) = Inr (Some (go_note t build_id))"
    and "oc_build_id object' = Some None" "find_go_build_id (oc_sections object') = Inr (Some (go_note t' build_id'))"
    and "length build_id = length build_id'"
    and "open_object sha256 path object = Some eo" "open_object sha256 path' object' = Some eo'"
  shows "eo_id eo = eo_id eo'"
  using go_executable_id [OF assms(1,2), of sha256] go_executable_id [OF assms(3,4), of sha256] assms(5-7)
  by (auto simp: open_object_def split: sum.splits)

text \<open>The one that is seen second is then taken for the first: its addresses are looked up with the segments of that.\<close>

lemma colliding_object_is_ignored:
  assumes "eo_id eo = eo_id eo'"
  shows "object_files (reference_object eo' (reference_object eo s)) = object_files (reference_object eo s)"
  using assms by (simp add: reference_object_def split: option.split)

lemma go_executables_collide_example:
  "eo_id (the (open_object (\<lambda>_. replicate 32 0) ''/bin/a''
      \<lparr>oc_build_id = Some None, oc_sections = [\<lparr>es_name = Some ''.note.go.buildid'', es_data = Some (go_note 4 [1, 2, 3])\<rparr>],
       oc_symbols = [], oc_kind = Elf64_file (Some [])\<rparr>)) =
   eo_id (the (open_object (\<lambda>_. replicate 32 0) ''/bin/b''
      \<lparr>oc_build_id = Some None, oc_sections = [\<lparr>es_name = Some ''.note.go.buildid'', es_data = Some (go_note 4 [4, 5, 6])\<rparr>],
       oc_symbols = [], oc_kind = Elf64_file (Some [])\<rparr>))"
  by (simp add: open_object_def read_build_id_def go_from_bytes_def go_note_def MIN_BUILD_ID_BYTES_def executable_id_of_def
      object_load_segments_def Let_def)

text \<open>What a runtime is recognised by.\<close>

lemma scan_symbols_V8:
  "scan_symbols z f symbols = V8 \<Longrightarrow> \<exists>s \<in> set symbols. \<exists>name. sym_name s = Some name \<and> prefix ''_ZZN2v88internal'' name"
  by (induction symbols arbitrary: z f) (fastforce simp: Let_def split: option.splits if_splits bool.splits)+

lemma scan_symbols_CLike:
  "scan_symbols z f symbols = CLike \<Longrightarrow> s \<in> set symbols \<Longrightarrow> sym_name s = Some name \<Longrightarrow> \<not> prefix ''_ZZN2v88internal'' name"
  by (induction symbols arbitrary: z f) (auto simp: Let_def split: option.splits if_splits bool.splits)

lemma scan_symbols_Zig:
  "scan_symbols z f symbols = Zig a b \<Longrightarrow>
     (z \<or> (\<exists>s \<in> set symbols. \<exists>name. sym_name s = Some name \<and> prefix ''__zig'' name)) \<and>
     (f = Some (a, b) \<or> (\<exists>s \<in> set symbols. sym_name s = Some ''_start'' \<and> a = sym_address s \<and> b = sym_address s + sym_size s))"
proof (induction symbols arbitrary: z f)
  case (Cons s symbols)
  show ?case
  proof (cases "sym_name s")
    case None
    then show ?thesis using Cons by fastforce
  next
    case (Some name)
    let ?z = "z \<or> prefix ''__zig'' name"
    let ?f = "if name = ''_start'' then Some (sym_address s, sym_address s + sym_size s) else f"
    have "?z \<and> ?f = Some (a, b) \<or> scan_symbols ?z ?f symbols = Zig a b"
      using Cons.prems Some by (auto simp: Let_def split: if_splits bool.splits option.splits)
    with Cons.IH [of ?z ?f] Some show ?thesis by (auto split: if_splits)
  qed
qed simp

text \<open>
  Runtimes are recognised as documented. Executables with a Go section are Go's, with one range for
  each symbol of the scheduler's entry functions; of the others, those that are taken for V8's have a symbol of V8, those
  taken for Zig's have a symbol of Zig and a function \<open>_start\<close> with the range to be patched, and those taken for
  C-like have no symbol of V8.
\<close>

lemma object_runtime_is_justified:
  "case object_runtime object of
     Go ranges \<Rightarrow> is_go object \<and>
       set ranges = {(sym_address s, sym_address s + sym_size s) | s name func.
         s \<in> set (oc_symbols object) \<and> sym_name s = Some name \<and> func \<in> set go_functions \<and> prefix func name}
   | V8 \<Rightarrow> \<not> is_go object \<and> (\<exists>s \<in> set (oc_symbols object). \<exists>name. sym_name s = Some name \<and> prefix ''_ZZN2v88internal'' name)
   | Zig a b \<Rightarrow> \<not> is_go object \<and>
       (\<exists>s \<in> set (oc_symbols object). \<exists>name. sym_name s = Some name \<and> prefix ''__zig'' name) \<and>
       (\<exists>s \<in> set (oc_symbols object). sym_name s = Some ''_start'' \<and> a = sym_address s \<and> b = sym_address s + sym_size s)
   | CLike \<Rightarrow> \<not> is_go object \<and>
       (\<nexists>s. s \<in> set (oc_symbols object) \<and> (\<exists>name. sym_name s = Some name \<and> prefix ''_ZZN2v88internal'' name))"
proof (cases "is_go object")
  case True
  then show ?thesis
    by (auto simp: object_runtime_def go_stop_unwinding_frames_def image_iff split: option.splits) force+
next
  case False
  have "scan_symbols z f symbols \<noteq> Go r" for z f symbols r
    by (induction symbols arbitrary: z f) (auto simp: Let_def split: option.splits bool.splits)
  with False show ?thesis
    by (auto simp: object_runtime_def split: Runtime.split dest: scan_symbols_V8 scan_symbols_CLike scan_symbols_Zig)
qed

end
