(* ===== verification/Folded.thy ===== *)
theory Folded
  imports Aggregator Metadata
begin

text \<open>
  Profiles as text, for flame graphs: \<open>fold_profile\<close> of src/src/profile/convert.rs. There is one line per sample, made
  of the names of the process, the thread and the frames from the outermost in, separated by semicolons, and the count.
\<close>

definition folded_line :: "(s32 \<Rightarrow> task_stat option) \<Rightarrow> bool \<Rightarrow> AggregatedSample \<Rightarrow> string" where
  "folded_line procfs only_show_function_names sample =
     (let ustack = join '';'' (map (format_all_info only_show_function_names) (rev (as_ustack sample)));
          kstack = join '';'' (map (\<lambda>e. ''kernel: '' @ fmt_frame e) (rev (as_kstack sample)));
          names = (case for_task procfs (as_tid sample) of Some n \<Rightarrow> n | None \<Rightarrow> errored)
      in main_thread names @ '';'' @ current_thread names @
         (if trim ustack = [] then [] else '';'' @ ustack) @
         (if trim kstack = [] then [] else '';'' @ kstack) @
         '' '' @ fmt_dec (as_count sample) @ [CHR 0x0A])"

definition fold_profile :: "(s32 \<Rightarrow> task_stat option) \<Rightarrow> AggregatedSample list \<Rightarrow> bool \<Rightarrow> string" where
  "fold_profile procfs profile only_show_function_names =
     fold (\<lambda>sample folded. folded @ folded_line procfs only_show_function_names sample) profile []"

section \<open>Reading folded stacks\<close>

text \<open>What the format means to its readers: the count follows the last space, semicolons separate the frames.\<close>

definition read_folded_line :: "string \<Rightarrow> string list \<times> nat option" where
  "read_folded_line line =
     (let parts = split_on (CHR '' '') line
      in (split_on (CHR '';'') (join '' '' (butlast parts)), parse_u64 (last parts)))"

definition read_folded :: "string \<Rightarrow> (string list \<times> nat option) list" where
  "read_folded text = map read_folded_line (butlast (split_on (CHR 0x0A) text))"

lemma join_Cons: "ss \<noteq> [] \<Longrightarrow> join sep (s # ss) = s @ sep @ join sep ss"
  by (cases ss) simp_all

lemma join_append: "xs \<noteq> [] \<Longrightarrow> ys \<noteq> [] \<Longrightarrow> join sep (xs @ ys) = join sep xs @ sep @ join sep ys"
  by (induction xs) (simp_all add: join_Cons, metis append.assoc append_Nil join.simps(2) join_Cons)

lemma set_join: "c \<in> set (join sep ss) \<Longrightarrow> c \<in> set sep \<or> (\<exists>s \<in> set ss. c \<in> set s)"
  by (induction sep ss rule: join.induct) auto

lemma set_join_part: "s \<in> set ss \<Longrightarrow> set s \<subseteq> set (join sep ss)"
  by (induction sep ss rule: join.induct) auto

lemma join_split_on: "join [sep] (split_on sep s) = s"
proof (induction s)
  case (Cons c s)
  have "split_on sep s \<noteq> []" by simp
  with Cons show ?case by (cases "split_on sep s") (auto simp: join_Cons, (metis append_Cons join.simps(2) join_Cons)+)
qed simp

lemma split_on_last: "sep \<notin> set t \<Longrightarrow> split_on sep (s @ sep # t) = split_on sep s @ [t]"
proof (induction s)
  case Nil
  then show ?case by (simp add: split_on_absent)
next
  case (Cons c s)
  then show ?case by (cases "split_on sep s") auto
qed

lemma trim_Nil_iff: "trim s = [] \<longleftrightarrow> (\<forall>c \<in> set s. is_whitespace c)"
proof -
  let ?t = "dropWhile is_whitespace s"
  have "trim s = [] \<longleftrightarrow> (\<forall>c \<in> set ?t. is_whitespace c)" by (simp add: trim_def trim_end_def dropWhile_eq_Nil_conv)
  also have "\<dots> \<longleftrightarrow> ?t = []"
  proof
    assume all: "\<forall>c \<in> set ?t. is_whitespace c"
    show "?t = []"
    proof (rule ccontr)
      assume t: "?t \<noteq> []"
      from hd_dropWhile [OF t] all hd_in_set [OF t] show False by blast
    qed
  qed (metis empty_iff list.set(1))
  finally show ?thesis by (simp add: dropWhile_eq_Nil_conv)
qed

section \<open>Properties\<close>

text \<open>The texts of a sample, and when they can be told apart in a line.\<close>

definition sample_texts :: "(s32 \<Rightarrow> task_stat option) \<Rightarrow> bool \<Rightarrow> AggregatedSample \<Rightarrow> string list" where
  "sample_texts procfs only sample =
     (let names = (case for_task procfs (as_tid sample) of Some n \<Rightarrow> n | None \<Rightarrow> errored)
      in [main_thread names, current_thread names] @ map (format_all_info only) (rev (as_ustack sample)) @
         map (\<lambda>e. ''kernel: '' @ fmt_frame e) (rev (as_kstack sample)))"

definition separable :: "string \<Rightarrow> bool" where
  "separable t \<longleftrightarrow> CHR '';'' \<notin> set t \<and> CHR 0x0A \<notin> set t"

definition foldable :: "(s32 \<Rightarrow> task_stat option) \<Rightarrow> bool \<Rightarrow> AggregatedSample \<Rightarrow> bool" where
  "foldable procfs only sample \<longleftrightarrow> list_all separable (sample_texts procfs only sample) \<and>
     list_all (\<lambda>fr. trim (format_all_info only fr) \<noteq> []) (as_ustack sample) \<and> as_count sample \<le> U64_MAX"

lemma join_not_blank: "ss \<noteq> [] \<Longrightarrow> \<forall>s \<in> set ss. trim s \<noteq> [] \<Longrightarrow> trim (join sep ss) \<noteq> []"
  using set_join_part [of "hd ss" ss sep] by (cases ss) (auto simp: trim_Nil_iff)

lemma trim_Nil [simp]: "trim [] = []"
  by (simp add: trim_Nil_iff)

lemma folded_line_texts:
  assumes "foldable procfs only sample"
  shows "folded_line procfs only sample =
     join '';'' (sample_texts procfs only sample) @ CHR '' '' # fmt_dec (as_count sample) @ [CHR 0x0A]"
proof -
  let ?us = "map (format_all_info only) (rev (as_ustack sample))"
  let ?ks = "map (\<lambda>e. ''kernel: '' @ fmt_frame e) (rev (as_kstack sample))"
  have u: "(if trim (join '';'' ?us) = [] then [] else '';'' @ join '';'' ?us) = (if ?us = [] then [] else '';'' @ join '';'' ?us)"
    using assms join_not_blank [of ?us "'';''"] by (cases "?us = []") (auto simp: foldable_def list_all_iff)
  have "\<forall>s \<in> set ?ks. trim s \<noteq> []" by (auto simp: trim_Nil_iff is_whitespace_def)
  then have k: "(if trim (join '';'' ?ks) = [] then [] else '';'' @ join '';'' ?ks) = (if ?ks = [] then [] else '';'' @ join '';'' ?ks)"
    using join_not_blank [of ?ks "'';''"] by (cases "?ks = []") auto
  show ?thesis
    unfolding folded_line_def Let_def u k
    by (cases "?us = []"; cases "?ks = []") (simp_all add: sample_texts_def Let_def join_append join_Cons del: join.simps(3))
qed

lemma read_folded_line_result:
  assumes "list_all separable ts" "ts \<noteq> []" "n \<le> U64_MAX"
  shows "read_folded_line (join '';'' ts @ CHR '' '' # fmt_dec n) = (ts, Some n)"
proof -
  have "parse_u64 (fmt_dec n) = Some n"
    unfolding parse_u64_def fmt_dec_def using assms(3) by (intro from_str_radix_fmt_radix) simp_all
  moreover have "CHR '' '' \<notin> set (fmt_dec n)" using fmt_dec_plain by blast
  ultimately show ?thesis
    using assms(1,2) split_on_join [of ts "CHR '';''"]
    by (simp add: read_folded_line_def split_on_last join_split_on list_all_iff separable_def)
qed

text \<open>
  C34. Folded profiles keep every sample: a reader of the format gets back, line by line, the process, the
  thread, all user frames and all kernel frames of each sample from the outermost in, and its count; when no
  name has a semicolon or a line break in it and none is blank.
\<close>

theorem folded_profile_roundtrip:
  assumes "list_all (foldable procfs only) profile"
  shows "read_folded (fold_profile procfs profile only) = map (\<lambda>s. (sample_texts procfs only s, Some (as_count s))) profile"
proof -
  have acc: "fold (\<lambda>s folded. folded @ f s) ss t = t @ concat (map f ss)" for f :: "AggregatedSample \<Rightarrow> string" and ss t
    by (induction ss arbitrary: t) simp_all
  have "read_folded (concat (map (folded_line procfs only) profile)) =
      map (\<lambda>s. (sample_texts procfs only s, Some (as_count s))) profile" using assms
  proof (induction profile)
    case (Cons s profile)
    let ?line = "join '';'' (sample_texts procfs only s) @ CHR '' '' # fmt_dec (as_count s)"
    have s: "foldable procfs only s" using Cons.prems by simp
    have ts: "list_all separable (sample_texts procfs only s)" "sample_texts procfs only s \<noteq> []" "as_count s \<le> U64_MAX"
      using s by (simp_all add: foldable_def sample_texts_def Let_def)
    have digits: "CHR 0x0A \<notin> set (fmt_dec (as_count s))" using fmt_dec_plain by blast
    have "CHR 0x0A \<notin> set (join '';'' (sample_texts procfs only s))"
      using ts(1) set_join [of "CHR 0x0A" "'';''" "sample_texts procfs only s"] by (auto simp: list_all_iff separable_def)
    with digits have nl: "CHR 0x0A \<notin> set ?line" by simp
    have "concat (map (folded_line procfs only) (s # profile)) = ?line @ CHR 0x0A # concat (map (folded_line procfs only) profile)"
      using folded_line_texts [OF s] by simp
    then have "split_on (CHR 0x0A) (concat (map (folded_line procfs only) (s # profile))) =
        ?line # split_on (CHR 0x0A) (concat (map (folded_line procfs only) profile))"
      using split_on_append_sep [OF nl] by simp
    then show ?case using Cons read_folded_line_result [OF ts] by (simp add: read_folded_def)
  qed (simp add: read_folded_def)
  then show ?thesis by (simp add: fold_profile_def acc)
qed

definition example_procfs :: "s32 \<Rightarrow> task_stat option" where
  "example_procfs tid = (if tid = 42 then Some \<lparr>ts_tgid = 42, ts_comm = ''nginx''\<rparr> else None)"

definition named_frame :: "string \<Rightarrow> Frame" where
  "named_frame name = \<lparr>fr_virtual_address = 0x402020, fr_file_offset = Some 0x2020,
     fr_symbolization_result = Some (Inr \<lparr>sf_name = name, sf_inlined = False, sf_filename = None, sf_line = None\<rparr>)\<rparr>"

definition named_sample :: "string list \<Rightarrow> AggregatedSample" where
  "named_sample ns = \<lparr>as_pid = 42, as_tid = 42, as_ustack = map named_frame ns, as_kstack = [], as_count = 7\<rparr>"

theorem folded_profile_roundtrip_witness:
  "read_folded (fold_profile example_procfs [named_sample [''serve'', ''main'']] True) =
     [([''nginx'', ''<main thread>'', ''main'', ''serve''], Some 7)]"
  using folded_profile_roundtrip [of example_procfs True "[named_sample [''serve'', ''main'']]"]
  by (simp add: foldable_def sample_texts_def separable_def named_sample_def named_frame_def format_all_info_def for_task_def
      example_procfs_def trim_Nil_iff is_whitespace_def)

text \<open>
  A name with a semicolon in it, as those of Rust functions on arrays have, is taken for two frames.
\<close>

lemma semicolon_splits_frame:
  "read_folded (fold_profile example_procfs [named_sample [''sum::<[u8; 4]>'']] True) =
     [([''nginx'', ''<main thread>'', ''sum::<[u8'', '' 4]>''], Some 7)]"
proof -
  have "fold_profile example_procfs [named_sample [''sum::<[u8; 4]>'']] True =
      join '';'' [''nginx'', ''<main thread>'', ''sum::<[u8'', '' 4]>''] @ CHR '' '' # fmt_dec 7 @ [CHR 0x0A]"
    by (simp add: fold_profile_def folded_line_def named_sample_def named_frame_def format_all_info_def for_task_def
        example_procfs_def trim_Nil_iff is_whitespace_def)
  moreover have "read_folded_line (join '';'' [''nginx'', ''<main thread>'', ''sum::<[u8'', '' 4]>''] @ CHR '' '' # fmt_dec 7) =
      ([''nginx'', ''<main thread>'', ''sum::<[u8'', '' 4]>''], Some 7)"
    by (intro read_folded_line_result) (simp_all add: separable_def)
  moreover have "split_on (CHR 0x0A) ((join '';'' [''nginx'', ''<main thread>'', ''sum::<[u8'', '' 4]>''] @ CHR '' '' # fmt_dec 7) @ [CHR 0x0A]) =
      [join '';'' [''nginx'', ''<main thread>'', ''sum::<[u8'', '' 4]>''] @ CHR '' '' # fmt_dec 7, []]"
    using fmt_dec_plain [of "CHR 0x0A" 7] by (subst split_on_append_sep) auto
  ultimately show ?thesis by (simp add: read_folded_def)
qed

end
