(* ===== verification/Debug_Info.thy ===== *)
theory Debug_Info
  imports Build_Id
begin

text \<open>
  The stores of debug information: src/src/debug_info.rs. The file system is a map from names in the directory of the
  store to contents, and the server answers requests; what goes wrong is an argument of the operations. The text of a
  build id is its \<open>Display\<close> form, and the hexadecimal encoder a parameter, as in \<open>Build_Id\<close>.
\<close>

type_synonym directory = "string \<rightharpoonup> u8 list"

datatype debug_info_error = Open_error | Create_error | Copy_error | Request_error | Upload_error

section \<open>DebugInfoBackendNull\<close>

definition null_add_if_not_present :: "string \<Rightarrow> BuildId \<Rightarrow> 's \<Rightarrow> (debug_info_error + unit) \<times> 's" where
  "null_add_if_not_present name build_id s = (Inr (), s)"

section \<open>DebugInfoBackendFilesystem\<close>

definition find_in_fs :: "(u8 list \<Rightarrow> string) \<Rightarrow> BuildId \<Rightarrow> directory \<Rightarrow> bool" where
  "find_in_fs hexlower build_id dir \<longleftrightarrow> dir (build_id_formatted hexlower build_id) \<noteq> None"

text \<open>
  The file with the debug information, \<open>None\<close> when it cannot be opened; whether the copy can be created; and how many
  bytes are copied before an error, if there is one.
\<close>

record copy_conditions =
  cc_source :: "u8 list option"
  cc_create :: bool
  cc_fails_after :: "nat option"

definition add_to_fs :: "(u8 list \<Rightarrow> string) \<Rightarrow> copy_conditions \<Rightarrow> BuildId \<Rightarrow> directory \<Rightarrow> (debug_info_error + unit) \<times> directory" where
  "add_to_fs hexlower cc build_id dir =
     (case cc_source cc of
        None \<Rightarrow> (Inl Open_error, dir)
      | Some content \<Rightarrow>
          if \<not> cc_create cc then (Inl Create_error, dir)
          else case cc_fails_after cc of
              None \<Rightarrow> (Inr (), dir(build_id_formatted hexlower build_id \<mapsto> content))
            | Some n \<Rightarrow> (Inl Copy_error, dir(build_id_formatted hexlower build_id \<mapsto> take n content)))"

definition fs_add_if_not_present ::
    "(u8 list \<Rightarrow> string) \<Rightarrow> copy_conditions \<Rightarrow> string \<Rightarrow> BuildId \<Rightarrow> directory \<Rightarrow> (debug_info_error + unit) \<times> directory" where
  "fs_add_if_not_present hexlower cc name build_id dir =
     (if find_in_fs hexlower build_id dir then (Inr (), dir) else add_to_fs hexlower cc build_id dir)"

section \<open>DebugInfoBackendRemote\<close>

text \<open>
  The server: the status of a query, \<open>None\<close> when it cannot be reached, and the status of an upload with what the
  server then stores under the name and the build id of the request.
\<close>

record 's debug_info_server =
  ds_query :: "string \<Rightarrow> 's \<Rightarrow> nat option"
  ds_upload :: "string \<Rightarrow> string \<Rightarrow> u8 list \<Rightarrow> 's \<Rightarrow> nat option \<times> 's"

definition find_in_backend :: "(u8 list \<Rightarrow> string) \<Rightarrow> 's debug_info_server \<Rightarrow> BuildId \<Rightarrow> 's \<Rightarrow> debug_info_error + bool" where
  "find_in_backend hexlower server build_id s =
     (case ds_query server (build_id_formatted hexlower build_id) s of
        None \<Rightarrow> Inl Request_error | Some status \<Rightarrow> Inr (status = 200))"

definition upload_to_backend ::
    "(u8 list \<Rightarrow> string) \<Rightarrow> 's debug_info_server \<Rightarrow> u8 list option \<Rightarrow> string \<Rightarrow> BuildId \<Rightarrow> 's \<Rightarrow> (debug_info_error + unit) \<times> 's" where
  "upload_to_backend hexlower server debug_info name build_id s =
     (case debug_info of
        None \<Rightarrow> (Inl Open_error, s)
      | Some content \<Rightarrow>
          (case ds_upload server name (build_id_formatted hexlower build_id) content s of
             (None, s1) \<Rightarrow> (Inl Request_error, s1)
           | (Some status, s1) \<Rightarrow> (if 200 \<le> status \<and> status < 300 then Inr () else Inl Upload_error, s1)))"

definition remote_add_if_not_present ::
    "(u8 list \<Rightarrow> string) \<Rightarrow> 's debug_info_server \<Rightarrow> u8 list option \<Rightarrow> string \<Rightarrow> BuildId \<Rightarrow> 's \<Rightarrow> (debug_info_error + unit) \<times> 's" where
  "remote_add_if_not_present hexlower server debug_info name build_id s =
     (case find_in_backend hexlower server build_id s of
        Inl e \<Rightarrow> (Inl e, s)
      | Inr True \<Rightarrow> (Inr (), s)
      | Inr False \<Rightarrow> upload_to_backend hexlower server debug_info name build_id s)"

section \<open>Properties\<close>

text \<open>A failed copy leaves part of the file behind, and from then on the debug information counts as present.\<close>

lemma partial_copy_counts_as_present:
  assumes "\<not> find_in_fs hexlower b dir" "cc_source cc = Some content" "cc_create cc" "cc_fails_after cc = Some n"
  shows "\<exists>dir'. fs_add_if_not_present hexlower cc name b dir = (Inl Copy_error, dir') \<and>
     fs_add_if_not_present hexlower cc' name b dir' = (Inr (), dir') \<and>
     dir' (build_id_formatted hexlower b) = Some (take n content)"
  using assms by (simp add: fs_add_if_not_present_def add_to_fs_def find_in_fs_def)

text \<open>
  The contract of a store, and what a run of additions leaves in it: \<open>content\<close> is what the store holds for a build id.
\<close>

definition identifiable :: "BuildId \<Rightarrow> bool" where
  "identifiable b \<longleftrightarrow> (bi_flavour b = Go_id \<longrightarrow> utf8_loop 0 0 (bi_data b) = Inr ())"

locale debug_info_store =
  fixes content :: "BuildId \<Rightarrow> 's \<Rightarrow> 'c option"
    and add :: "'a \<Rightarrow> BuildId \<Rightarrow> 's \<Rightarrow> (debug_info_error + unit) \<times> 's"
    and offered :: "'a \<Rightarrow> 'c"
  assumes add_present: "content b s = Some c \<Longrightarrow> content b (snd (add a b s)) = Some c"
    and add_new: "content b s = None \<Longrightarrow> fst (add a b s) = Inr () \<Longrightarrow> content b (snd (add a b s)) = Some (offered a)"
    and add_other: "identifiable b \<Longrightarrow> identifiable b' \<Longrightarrow> b \<noteq> b' \<Longrightarrow> content b' (snd (add a b s)) = content b' s"
begin

text \<open>The first addition for a build id that succeeds decides what is stored for it.\<close>

lemma kept:
  assumes "content b s = Some c" "identifiable b" "\<forall>(a, b') \<in> set adds. identifiable b'"
  shows "content b (fold (\<lambda>(a, b') s. snd (add a b' s)) adds s) = Some c"
  using assms
proof (induction adds arbitrary: s)
  case (Cons x adds)
  obtain a b' where x: "x = (a, b')" by fastforce
  have "content b (snd (add a b' s)) = Some c"
    using Cons.prems add_present [of b s c a] add_other [of b' b a s] x by (cases "b = b'") auto
  with Cons x show ?case by simp
qed simp

lemma added_is_kept:
  assumes "content b s = None" "fst (add a b s) = Inr ()" "identifiable b" "\<forall>(a, b') \<in> set adds. identifiable b'"
  shows "content b (fold (\<lambda>(a, b') s. snd (add a b' s)) adds (snd (add a b s))) = Some (offered a)"
  using kept [OF add_new [OF assms(1,2)] assms(3,4)] .

end

definition fs_content :: "(u8 list \<Rightarrow> string) \<Rightarrow> BuildId \<Rightarrow> directory \<Rightarrow> u8 list option" where
  "fs_content hexlower b dir = dir (build_id_formatted hexlower b)"

lemma fs_store:
  assumes "hexlower_ok hexlower"
  shows "debug_info_store (fs_content hexlower) (\<lambda>cc. fs_add_if_not_present hexlower cc name) (\<lambda>cc. the (cc_source cc))"
proof unfold_locales
  fix b b' a and s :: directory and c
  show "fs_content hexlower b s = Some c \<Longrightarrow> fs_content hexlower b (snd (fs_add_if_not_present hexlower a name b s)) = Some c"
    by (simp add: fs_content_def fs_add_if_not_present_def find_in_fs_def)
  show "fs_content hexlower b s = None \<Longrightarrow> fst (fs_add_if_not_present hexlower a name b s) = Inr () \<Longrightarrow>
      fs_content hexlower b (snd (fs_add_if_not_present hexlower a name b s)) = Some (the (cc_source a))"
    by (auto simp: fs_content_def fs_add_if_not_present_def find_in_fs_def add_to_fs_def split: option.splits if_splits)
  assume "identifiable b" "identifiable b'" "b \<noteq> b'"
  then have "build_id_formatted hexlower b \<noteq> build_id_formatted hexlower b'"
    using build_id_formatted_inject [OF assms, of b b'] by (auto simp: identifiable_def)
  then show "fs_content hexlower b' (snd (fs_add_if_not_present hexlower a name b s)) = fs_content hexlower b' s"
    by (auto simp: fs_content_def fs_add_if_not_present_def add_to_fs_def split: option.splits)
qed

text \<open>The encoder of the library, as documented.\<close>

definition hex_encode :: "u8 list \<Rightarrow> string" where
  "hex_encode bytes = concat (map fmt_byte bytes)"

lemma hex_encode_ok: "hexlower_ok hex_encode"
  by (simp add: hexlower_ok_def hex_encode_def)

interpretation fs: debug_info_store "fs_content hex_encode" "\<lambda>cc. fs_add_if_not_present hex_encode cc name" "\<lambda>cc. the (cc_source cc)"
  for name
  by (rule fs_store [OF hex_encode_ok])

text \<open>
  C35. Debug information that was stored stays as it is. When the store has none for a build id and adding it
  succeeds, it holds the content of the file from then on, whatever is added later, for the same build id or
  others, and whatever of that fails; as long as Go build ids are valid UTF-8.
\<close>

theorem debug_info_is_kept:
  assumes "\<not> find_in_fs hex_encode b dir" "fs_add_if_not_present hex_encode cc name b dir = (Inr (), dir')"
    and "identifiable b" "\<forall>(cc', b') \<in> set adds. identifiable b'"
  shows "fold (\<lambda>(cc', b') d. snd (fs_add_if_not_present hex_encode cc' name b' d)) adds dir' (build_id_formatted hex_encode b) =
     cc_source cc \<and> cc_source cc \<noteq> None"
proof -
  have "fs_content hex_encode b dir = None" using assms(1) by (simp add: find_in_fs_def fs_content_def)
  moreover have "cc_source cc \<noteq> None"
    using assms(1,2) by (cases "cc_source cc") (simp_all add: fs_add_if_not_present_def add_to_fs_def)
  ultimately show ?thesis
    using fs.added_is_kept [of b dir cc name adds] assms(2-4) by (auto simp: fs_content_def)
qed

theorem debug_info_is_kept_witness:
  "fold (\<lambda>(cc', b') d. snd (fs_add_if_not_present hex_encode cc' ''libc.so'' b' d))
     [(\<lparr>cc_source = Some [9], cc_create = True, cc_fails_after = Some 0\<rparr>, example_build_id\<lparr>bi_flavour := Sha256_id\<rparr>),
      (\<lparr>cc_source = Some [8], cc_create = True, cc_fails_after = None\<rparr>, example_build_id)]
     (snd (fs_add_if_not_present hex_encode \<lparr>cc_source = Some [1, 2], cc_create = True, cc_fails_after = None\<rparr> ''libc.so''
       example_build_id Map.empty))
     (build_id_formatted hex_encode example_build_id) = Some [1, 2]"
  using debug_info_is_kept [of example_build_id Map.empty "\<lparr>cc_source = Some [1, 2], cc_create = True, cc_fails_after = None\<rparr>" "''libc.so''"
      "snd (fs_add_if_not_present hex_encode \<lparr>cc_source = Some [1, 2], cc_create = True, cc_fails_after = None\<rparr> ''libc.so''
         example_build_id Map.empty)"
      "[(\<lparr>cc_source = Some [9], cc_create = True, cc_fails_after = Some 0\<rparr>, example_build_id\<lparr>bi_flavour := Sha256_id\<rparr>),
        (\<lparr>cc_source = Some [8], cc_create = True, cc_fails_after = None\<rparr>, example_build_id)]"]
  by (simp add: find_in_fs_def fs_add_if_not_present_def add_to_fs_def identifiable_def example_build_id_def del: fold_simps)

end
