(* ===== verification/Settings.thy ===== *)
theory Settings
  imports Numerals Profiler_Types
begin

text \<open>
  Settings: src/src/cli/validators.rs and src/src/cli/killswitch.rs, the CPUs of src/src/util/cpu.rs, the pages of
  src/src/util/page.rs, and the size of the ring buffer that src/src/profiler.rs computes from them. The primal
  crate, the file system and the size of a page are parameters. A \<open>usize\<close> has 64 bits.
\<close>

section \<open>Numbers on the command line\<close>

definition SAMPLE_FREQ_RANGE :: "nat \<times> nat" where "SAMPLE_FREQ_RANGE = (1, 1009)"

definition parse_duration :: "string \<Rightarrow> nat option" where
  "parse_duration arg = parse_u64 arg"

text \<open>The functions of the crate; \<open>nth_prime\<close> counts from one and panics on zero.\<close>

record primal =
  is_prime :: "nat \<Rightarrow> bool"
  prime_pi :: "nat \<Rightarrow> nat"
  nth_prime :: "nat \<Rightarrow> nat option"

text \<open>\<open>None\<close> is a panic.\<close>

definition primes_before_after :: "primal \<Rightarrow> nat \<Rightarrow> (string + nat \<times> nat) option" where
  "primes_before_after primal non_prime =
     (if is_prime primal non_prime then Some (Inl (fmt_dec non_prime @ '' is prime''))
      else
        let n_before = prime_pi primal non_prime; n_after = n_before + 1 in
        case nth_prime primal n_before of
          None \<Rightarrow> None
        | Some before \<Rightarrow> (case nth_prime primal n_after of None \<Rightarrow> None | Some after \<Rightarrow> Some (Inr (before, after))))"

definition sample_freq_in_range :: "primal \<Rightarrow> string \<Rightarrow> (string + nat) option" where
  "sample_freq_in_range primal s =
     (case parse_u64 s of
        None \<Rightarrow> Some (Inl (''`'' @ s @ [CHR 0x27] @ '' isn'' @ [CHR 0x27] @ ''t a valid frequency''))
      | Some sample_freq \<Rightarrow>
          if \<not> (fst SAMPLE_FREQ_RANGE \<le> sample_freq \<and> sample_freq \<le> snd SAMPLE_FREQ_RANGE)
          then Some (Inl (''sample frequency not in allowed range '' @ fmt_dec (fst SAMPLE_FREQ_RANGE) @ ''-'' @
            fmt_dec (snd SAMPLE_FREQ_RANGE)))
          else if \<not> is_prime primal sample_freq
          then (case primes_before_after primal sample_freq of
                  None \<Rightarrow> None
                | Some (Inr (prime_before, prime_after)) \<Rightarrow>
                    Some (Inl (''Sample frequency '' @ fmt_dec sample_freq @ '' is not prime - use '' @ fmt_dec prime_before @
                      '' (before) or '' @ fmt_dec prime_after @ '' (after) instead''))
                | Some (Inl e) \<Rightarrow> Some (Inr sample_freq))
          else Some (Inr sample_freq))"

definition is_power_of_two :: "nat \<Rightarrow> bool" where
  "is_power_of_two n \<longleftrightarrow> list_ex (\<lambda>k. n = 2 ^ k) [0..<64]"

definition value_is_power_of_two :: "string \<Rightarrow> string + nat" where
  "value_is_power_of_two s =
     (case parse_u64 s of
        None \<Rightarrow> Inl (''`'' @ s @ [CHR 0x27] @ '' isn'' @ [CHR 0x27] @ ''t a valid usize'')
      | Some v \<Rightarrow> if is_power_of_two v then Inr v else Inl (fmt_dec v @ '' is not a power of 2''))"

section \<open>The kill switch\<close>

definition KILLSWITCH_FILE_PATH :: string where "KILLSWITCH_FILE_PATH = ''/tmp/lightswitch/killswitch''"

record KillSwitch =
  killswitch_path :: string
  ignore_killswitch :: bool

definition killswitch_new :: "string option \<Rightarrow> bool \<Rightarrow> KillSwitch" where
  "killswitch_new killswitch_path_override ignore =
     \<lparr>killswitch_path = (case killswitch_path_override of
        Some path \<Rightarrow> if path \<noteq> [] then path else KILLSWITCH_FILE_PATH
      | None \<Rightarrow> KILLSWITCH_FILE_PATH), ignore_killswitch = ignore\<rparr>"

text \<open>The file system answers \<open>None\<close> when it cannot tell; that is a panic.\<close>

definition killswitch_enabled :: "(string \<Rightarrow> bool option) \<Rightarrow> KillSwitch \<Rightarrow> bool option" where
  "killswitch_enabled try_exists k = (if ignore_killswitch k then Some False else try_exists (killswitch_path k))"

section \<open>CPUs\<close>

datatype cpu_error = Lone_cpu | Starting_cpu | Ending_cpu

text \<open>The position of the first dash splits the range; the end of the range is 32 bits wide.\<close>

definition cpu_range :: "string \<Rightarrow> cpu_error + nat list" where
  "cpu_range cpus =
     (if CHR ''-'' \<notin> set cpus
      then (case parse_u32 (trim_end cpus) of None \<Rightarrow> Inl Lone_cpu | Some cpu \<Rightarrow> Inr [cpu])
      else
        case parse_u32 (trim_end (takeWhile (\<lambda>c. c \<noteq> CHR ''-'') cpus)) of
          None \<Rightarrow> Inl Starting_cpu
        | Some start \<Rightarrow>
            (case parse_u32 (trim_end (tl (dropWhile (\<lambda>c. c \<noteq> CHR ''-'') cpus))) of
               None \<Rightarrow> Inl Ending_cpu
             | Some stop \<Rightarrow> Inr [start ..< (stop + 1) mod 2 ^ 32]))"

fun read_cpu_ranges :: "string list \<Rightarrow> cpu_error + nat list" where
  "read_cpu_ranges [] = Inr []"
| "read_cpu_ranges (part # parts) =
     (case cpu_range part of
        Inl e \<Rightarrow> Inl e
      | Inr cpus \<Rightarrow> (case read_cpu_ranges parts of Inl e \<Rightarrow> Inl e | Inr others \<Rightarrow> Inr (cpus @ others)))"

definition read_cpu_range :: "string \<Rightarrow> cpu_error + nat list" where
  "read_cpu_range ranges = read_cpu_ranges (split_on (CHR '','') ranges)"

section \<open>Pages and buffers\<close>

definition roundup :: "nat \<Rightarrow> nat \<Rightarrow> nat" where
  "roundup n round_to = ((n div round_to + (if n mod round_to = 0 then 0 else 1)) * round_to) mod 2 ^ 64"

definition roundup_page :: "nat \<Rightarrow> nat \<Rightarrow> nat" where
  "roundup_page page_size n = roundup n page_size"

definition sample_size_bytes :: u32 where "sample_size_bytes = of_nat (csize sample_t_layout)"

text \<open>All 32-bit multiplications wrap around.\<close>

definition get_stacks_ringbuf_max_entries :: "nat \<Rightarrow> nat list \<Rightarrow> u32 \<Rightarrow> u32" where
  "get_stacks_ringbuf_max_entries page_size online_cpus sample_freq =
     (let num_cpus = of_nat (length online_cpus) :: u32;
          num_expected_entries = max num_cpus sample_freq;
          max_entries_bytes = sample_size_bytes * num_expected_entries
      in of_nat (roundup_page page_size (unat max_entries_bytes)))"

section \<open>Properties\<close>

text \<open>What the documentation of the crate promises, up to the largest frequency.\<close>

definition prime_nat :: "nat \<Rightarrow> bool" where
  "prime_nat n \<longleftrightarrow> 1 < n \<and> list_all (\<lambda>d. \<not> d dvd n) [2..<n]"

definition primes_upto :: "nat \<Rightarrow> nat list" where
  "primes_upto n = filter prime_nat [2..<n + 1]"

definition primal_ok :: "primal \<Rightarrow> bool" where
  "primal_ok p \<longleftrightarrow> is_prime p = prime_nat \<and> (\<forall>n. prime_pi p n = length (primes_upto n)) \<and> nth_prime p 0 = None \<and>
     (\<forall>k q. nth_prime p k = Some q \<longrightarrow> prime_nat q \<and> length (primes_upto q) = k)"

lemma set_primes_upto: "set (primes_upto n) = {q. prime_nat q \<and> q \<le> n}"
  by (auto simp: primes_upto_def prime_nat_def)

lemma length_primes_upto: "length (primes_upto n) = card {q. prime_nat q \<and> q \<le> n}"
proof -
  have "distinct (primes_upto n)" by (simp add: primes_upto_def)
  from distinct_card [OF this] show ?thesis by (simp add: set_primes_upto)
qed

lemma primes_upto_le: "m \<le> n \<Longrightarrow> length (primes_upto m) \<le> length (primes_upto n)"
  unfolding length_primes_upto by (rule card_mono) auto

lemma primes_upto_less:
  assumes "prime_nat q" "m < q" "q \<le> n"
  shows "length (primes_upto m) < length (primes_upto n)"
  unfolding length_primes_upto
proof (rule psubset_card_mono)
  have "q \<in> {q. prime_nat q \<and> q \<le> n}" "q \<notin> {q. prime_nat q \<and> q \<le> m}" using assms by simp_all
  moreover have "{q. prime_nat q \<and> q \<le> m} \<subseteq> {q. prime_nat q \<and> q \<le> n}" using assms by auto
  ultimately show "{q. prime_nat q \<and> q \<le> m} \<subset> {q. prime_nat q \<and> q \<le> n}" by blast
qed simp

text \<open>The frequencies that are suggested are the primes next to the one that was given.\<close>

lemma suggestions_are_adjacent:
  assumes "primal_ok p" "primes_before_after p n = Some (Inr (before, after))"
  shows "prime_nat before \<and> prime_nat after \<and> before < n \<and> n < after \<and> (\<nexists>q. prime_nat q \<and> before < q \<and> q < after)"
proof -
  have np: "\<not> prime_nat n" and b: "nth_prime p (length (primes_upto n)) = Some before"
    and a: "nth_prime p (length (primes_upto n) + 1) = Some after"
    using assms by (auto simp: primes_before_after_def primal_ok_def Let_def split: if_splits option.splits)
  have pb: "prime_nat before" "length (primes_upto before) = length (primes_upto n)"
    and pa: "prime_nat after" "length (primes_upto after) = length (primes_upto n) + 1"
    using assms(1) a b by (auto simp: primal_ok_def)
  have "before < n"
  proof (rule ccontr)
    assume "\<not> before < n"
    moreover have "before \<noteq> n" using pb(1) np by blast
    ultimately have "length (primes_upto n) < length (primes_upto before)" by (intro primes_upto_less [OF pb(1)]) simp_all
    with pb(2) show False by simp
  qed
  moreover have "n < after" using primes_upto_le [of after n] pa(2) by (cases "n < after") simp_all
  moreover have False if q: "prime_nat q" "before < q" "q < after" for q
    using primes_upto_less [OF q(1,2) order_refl] primes_upto_less [OF pa(1) q(3) order_refl] pb(2) pa(2) by simp
  ultimately show ?thesis using pa(1) pb(1) by blast
qed

lemma accepted_frequencies:
  assumes "primal_ok p" "sample_freq_in_range p s = Some (Inr f)"
  shows "parse_u64 s = Some f \<and> prime_nat f \<and> f \<le> 1009"
  using assms
  by (auto simp: sample_freq_in_range_def SAMPLE_FREQ_RANGE_def primal_ok_def primes_before_after_def Let_def
      split: option.splits if_splits sum.splits)

text \<open>The smallest frequency in the allowed range has no prime before it: the suggestion panics.\<close>

lemma frequency_one_panics:
  assumes "primal_ok p"
  shows "sample_freq_in_range p ''1'' = None"
proof -
  have "parse_u64 ''1'' = Some 1" using from_str_radix_fmt_radix [of 10 1 U64_MAX] by (simp add: parse_u64_def fmt_radix.simps)
  then show ?thesis
    using assms by (simp add: sample_freq_in_range_def SAMPLE_FREQ_RANGE_def primes_before_after_def primal_ok_def prime_nat_def
        primes_upto_def)
qed

text \<open>How the kernel writes a set of CPUs: ranges separated by commas, and a newline.\<close>

definition fmt_cpus :: "nat \<times> nat \<Rightarrow> string" where
  "fmt_cpus = (\<lambda>(start, stop). if start = stop then fmt_dec start else fmt_dec start @ ''-'' @ fmt_dec stop)"

lemma parse_u32_fmt_dec: "n \<le> U32_MAX \<Longrightarrow> parse_u32 (fmt_dec n) = Some n"
  unfolding parse_u32_def fmt_dec_def by (rule from_str_radix_fmt_radix) simp_all

lemma trim_end_fmt_dec: "\<forall>c \<in> set w. is_whitespace c \<Longrightarrow> trim_end (fmt_dec n @ w) = fmt_dec n"
  using fmt_dec_plain [of _ n] by (intro trim_end_append) (cases "fmt_dec n = []"; simp)

lemma cpu_range_fmt:
  assumes "start \<le> stop" "stop < U32_MAX" "\<forall>c \<in> set w. is_whitespace c"
  shows "cpu_range (fmt_cpus (start, stop) @ w) = Inr [start..<stop + 1]"
proof -
  have w: "CHR ''-'' \<notin> set w" using assms(3) by (auto simp: is_whitespace_def)
  have dash: "CHR ''-'' \<notin> set (fmt_dec n)" for n using fmt_dec_plain [of "CHR ''-''" n] by blast
  have lone: "cpu_range (fmt_dec n @ w) = Inr [n]" if "n \<le> U32_MAX" for n
    using that w dash [of n] by (simp add: cpu_range_def trim_end_fmt_dec [OF assms(3)] parse_u32_fmt_dec)
  have split: "takeWhile (\<lambda>c. c \<noteq> CHR ''-'') (fmt_dec start @ CHR ''-'' # v) = fmt_dec start"
      "dropWhile (\<lambda>c. c \<noteq> CHR ''-'') (fmt_dec start @ CHR ''-'' # v) = CHR ''-'' # v" for v
    using dash [of start] by (auto simp: takeWhile_tail dropWhile_append)
  show ?thesis
  proof (cases "start = stop")
    case True
    then show ?thesis using lone [of start] assms(2) by (simp add: fmt_cpus_def)
  next
    case False
    have "trim_end (fmt_dec start) = fmt_dec start" using trim_end_fmt_dec [of "[]" start] by simp
    with False show ?thesis
      using assms split by (simp add: cpu_range_def fmt_cpus_def trim_end_fmt_dec parse_u32_fmt_dec)
  qed
qed

lemma cpu_ranges_are_read:
  assumes "rs \<noteq> []" "\<forall>(start, stop) \<in> set rs. start \<le> stop \<and> stop < U32_MAX"
  shows "read_cpu_range (join '','' (map fmt_cpus rs) @ [CHR 0x0A]) = Inr (concat (map (\<lambda>(start, stop). [start..<stop + 1]) rs))"
proof -
  have comma: "CHR '','' \<notin> set (fmt_cpus r)" for r
    using fmt_dec_plain [of "CHR '',''"] by (cases r) (auto simp: fmt_cpus_def)
  have nl: "\<forall>c \<in> set [CHR 0x0A]. is_whitespace c" by (simp add: is_whitespace_def)
  have "read_cpu_ranges (split_on (CHR '','') (join '','' (map fmt_cpus rs) @ [CHR 0x0A])) =
      Inr (concat (map (\<lambda>(start, stop). [start..<stop + 1]) rs))" using assms
  proof (induction rs)
    case (Cons r rs)
    obtain start stop where r: "r = (start, stop)" by fastforce
    show ?case
    proof (cases rs)
      case Nil
      then show ?thesis using Cons.prems comma [of r] cpu_range_fmt [OF _ _ nl, of start stop] by (simp add: r split_on_absent)
    next
      case (Cons r' rs')
      then show ?thesis using Cons.IH Cons.prems comma [of r] cpu_range_fmt [of start stop "[]"]
        by (simp add: r split_on_append_sep)
    qed
  qed simp
  then show ?thesis by (simp add: read_cpu_range_def)
qed

text \<open>
  The ring buffer has room for one sample of each CPU, in whole pages; the size need not be a power of two, though.
\<close>

lemma roundup_bounds:
  assumes "0 < p" "n + p \<le> 2 ^ 64"
  shows "n \<le> roundup n p \<and> roundup n p < n + p \<and> p dvd roundup n p"
proof -
  obtain q r where n: "n = q * p + r" "r < p" using assms(1) by (metis div_mult_mod_eq mod_less_divisor)
  then have qr: "n div p = q" "n mod p = r" using assms(1) by simp_all
  have "(q + (if r = 0 then 0 else 1)) * p < n + p" using n assms(1) by (cases "r = 0") simp_all
  then have "roundup n p = (q + (if r = 0 then 0 else 1)) * p" using assms(2) by (simp add: roundup_def qr)
  with n show ?thesis by (auto simp: algebra_simps)
qed

lemma ringbuf_not_power_of_two: "get_stacks_ringbuf_max_entries 4096 [0..<8] 19 = 40960" "\<not> is_power_of_two 40960"
  by (simp_all add: get_stacks_ringbuf_max_entries_def sample_size_bytes_def roundup_page_def roundup_def
      is_power_of_two_def upt_rec)

end
