(* ===== verification/Spec2Isabelle.thy ===== *)
theory Spec2Isabelle
  imports Profiler_Properties Accounting Events Tracers Bpf_Maps Session_Tables Object_File Folded Debug_Info Settings
begin

text \<open>
  Verification of lightswitch, a sampling profiler whose core are BPF programs in C.

  \<^bold>\<open>The program.\<close> A perf event interrupts a CPU and runs \<open>on_event\<close> (src/src/bpf/profiler.bpf.c).
  For a process it knows it loads the user registers, and the tail-called program \<open>dwarf_unwind\<close>
  walks the user stack with unwind rows that user space has put into BPF maps: the mapping of the
  program counter comes from a longest-prefix-match trie (\<open>exec_mappings\<close>), its 64 KiB page from
  \<open>executable_to_page\<close>, and the row from a binary search in an inner array map. A stack walked to its
  bottom is sent through a ring or perf buffer. Unknown processes and missing unwind information
  are announced by rate-limited events. A second object (src/src/bpf/tracers.bpf.c) reports process
  exits and unmapped executable mappings, a third one
  (src/lightswitch-capabilities/src/bpf/features.bpf.c) detects kernel features. The Rust program
  converts the DWARF frame descriptions of executables to compact tables, caches them in files, loads
  them and the mappings of processes into the maps, evicts and drops what it stored, and decodes,
  aggregates and translates the samples. Its main loop (\<open>run\<close> of src/src/profiler.rs) turns them into profiles,
  which a second thread hands to a collector; profiles are symbolised and written in pprof format or as
  folded stacks.

  \<^bold>\<open>Theories, by component.\<close>

  \<^item> \<open>Prelude\<close>: integer types of src/src/bpf/basic\_types.h, conversions, byte strings, shared lemmas, and the type
    \<open>execution\<close> of calls that return, panic, or have undefined behaviour.
  \<^item> \<open>C_Layout\<close>: sizes and member offsets of C types. \<open>Vmlinux_X86\<close>, \<open>Vmlinux_Arm64\<close>: the structures
    and enumerations of the kernel headers that the programs use, with everything they contain by value.
  \<^item> \<open>Profiler_Types\<close>: macros, structs and layouts of constants.h, profiler.h and tracers.h.
    \<open>Unwinder_Stats\<close>: the counters of shared\_maps.h. \<open>Bpf_Maps\<close>: all map declarations.
  \<^item> \<open>Exec_Mappings\<close>: \<open>find_mapping\<close> and \<open>process_is_known\<close> of shared\_helpers.h on a trie.
    \<open>Binary_Search\<close>: \<open>find_offset_for_pc\<close> at its machine widths.
  \<^item> \<open>Kernel_Env\<close>: the results of BPF helpers, user and kernel memory as one record \<open>kernel\<close>, a
    parameter of every program. \<open>Bpf_State\<close>: the maps as one CPU sees them, and \<open>send_event\<close>.
  \<^item> \<open>Unwinder\<close>: \<open>find_page\<close>, one frame of \<open>dwarf_unwind\<close> in the order of its checks, the loop, the tail
    calls, \<open>add_stack\<close>, \<open>set_initial_state\<close> and \<open>on_event\<close>.
  \<^item> \<open>Tracers\<close>: the three tracepoint handlers and the step relation of their interleavings.
    \<open>Features\<close>: feature detection.
  \<^item> \<open>Raw_Sample\<close>: \<open>RawSample::from_bytes\<close> of src/src/profile/sample.rs.
  \<^item> \<open>Lpm\<close>, \<open>Mapping_Registration\<close>: \<open>summarize_address_range\<close> of src/src/util/lpm.rs and the functions of
    src/src/profiler.rs that write and delete the mapping entries of a process.
  \<^item> \<open>Pages\<close>: \<open>to_pages\<close> of src/src/unwind\_info/pages.rs and the functions that store rows and pages.
  \<^item> \<open>Optimize\<close>, \<open>Unwind_Convert\<close>: src/src/unwind\_info/optimize.rs and convert.rs, from what the packages object
    and gimli find in a file, an error or its frame description entries, to the compact table. \<open>Dwarf_Semantics\<close>: what these entries
    mean by the DWARF standard, stated without the code's own conversion. \<open>Persist\<close>, \<open>Unwind_Cache\<close>: the file format of
    persist.rs and the cache of manager.rs in the same directory.
  \<^item> \<open>Process_Exit\<close>: \<open>mark_as_deleted\<close> of src/src/process.rs, \<open>handle_process_exit\<close> and
    \<open>handle_munmap\<close> of src/src/profiler.rs, and the record \<open>profiler\<close> of what user space stores.
  \<^item> \<open>Unwind_Loader\<close>: \<open>add_unwind_information_for_executable\<close> and \<open>maybe_evict_executables\<close>.
    \<open>Process_Registry\<close>: \<open>add_proc\<close>, \<open>add_unwind_info_for_process\<close>, \<open>maybe_evict_process\<close>, the two event
    handlers, and the address functions of src/src/process.rs. \<open>Reference_Counts\<close>: the invariant of the counts over all of these.
  \<^item> \<open>Aggregator\<close>: src/src/aggregator.rs and \<open>RawAggregatedSample::process\<close> of src/src/profile/sample.rs.
  \<^item> \<open>Numerals\<close>: what the standard library does with numbers and text. \<open>Build_Id\<close>, \<open>Object_File\<close>: build ids and
    executables on disk (src/lightswitch-object/src/buildid.rs and object.rs). \<open>Kernel_Modules\<close>: the kernel as a process
    (src/src/kernel.rs, src/lightswitch-object/src/kernel.rs, \<open>add_kernel_modules\<close>). \<open>Debug_Info\<close>: src/src/debug\_info.rs.
  \<^item> \<open>Frames\<close>, \<open>Ksyms\<close>, \<open>Symbolize\<close>: frames and their text (src/src/profile/frame.rs), kernel symbols (src/src/ksym.rs)
    and local symbolisation (src/src/usym.rs and src/src/profile/convert.rs). \<open>Metadata\<close>: the labels of tasks
    (src/lightswitch-metadata/src). \<open>Pprof\<close>, \<open>Pprof_Convert\<close>: the profile builder of src/lightswitch-proto/src/profile.rs
    and \<open>to_pprof\<close>. \<open>Folded\<close>: \<open>fold_profile\<close>.
  \<^item> \<open>Collector\<close>: src/src/collector.rs. \<open>Session\<close>: the main loop, its messages and the collector's thread as
    interleaved steps. \<open>Session_Tables\<close>: what is loaded for an executable, over whole sessions. \<open>Settings\<close>: src/src/cli/validators.rs and killswitch.rs, src/src/util/cpu.rs and page.rs.
  \<^item> \<open>Example_System\<close>: the concrete system on which witnesses evaluate the definitions.

  \<^bold>\<open>State.\<close> A run of a BPF program is a function from the kernel record, its arguments and the
  \<open>bpf_state\<close> to the new state and the value returned; early returns are branches, a frame ends with
  one of the results continue, break or return. Integers keep their width. Maps are partial functions;
  a lookup that gives NULL is \<open>None\<close>. Outputs to user space are logged in the state, with what the
  kernel answered.

  \<^bold>\<open>What the lemmas show.\<close>

  \<^item> \<open>Stack_Walk\<close> states the contract of the unwinder, an abstract walk from caller to caller down to the
    bottom; \<open>Walk_Refinement\<close>, \<open>Frame_Properties\<close> and \<open>Profiler_Properties\<close> show that one iteration
    implements one step, that a sample is sent only for a walk to the bottom, that it decodes to
    the first 127 program counters of that walk and, with fewer than 127, to the kernel's frames, and that every walkable
    stack of at most 132 frames is sent.
  \<^item> \<open>Unwinder_Safety\<close> carries invariants over the loop and the tail calls (locales \<open>frame_relation\<close> and
    \<open>us_invariant\<close>): bounds of the address buffer and of the sample, what a frame may change.
    \<open>Accounting\<close> relates counters to runs and bounds tail calls. \<open>Events\<close> treats rate limiting: which
    events are handed over does not depend on the capacity of the map of rate limits, that none is repeated does.
  \<^item> The search is the linear scan on sorted pages (locale \<open>sorted_pages\<close>), within its 17 iterations
    for every page of fewer than 65536 rows.
  \<^item> Writers and readers of the maps fit together: a registered process has for every program
    counter exactly the mapping that contains it, and on pages that hold rows the lookup finds the
    row a scan of the whole table finds (locale \<open>mapping_registry\<close> states what the readers rely on;
    the first property of this theory applies it to the unwinder). Registration and exit round-trip when the process alone
    references its executables.
  \<^item> From DWARF to the unwinder: both optimisations keep the rule of every program counter, and a converted row
    leads the BPF program to the caller that the DWARF rules give (\<open>row_step\<close> against \<open>dwarf_step\<close>), so the compact table means
    what the frame descriptions mean, for the rules that compact rows can represent; where they cannot, a theorem says which frame
    address is computed instead. The file format round-trips and rejects damage; the cache is transparent as long as reading its files does not
    go wrong, and keeps its limit for the files it tracks; over all runs of loads, evictions, exits,
    unmappings and registrations the tables of loaded executables are complete in the maps (\<open>user_run\<close>); and \<open>Session_Tables\<close>
    composes all of them over sessions: for a program counter whose page holds a row, the unwinder finds a row that means what
    the frame descriptions of the executable mean.
  \<^item> Reference counts never exceed the number of live mappings over whole sessions and are exact but for the vDSO and kernel ranges
    with the same identifier; user space
    and the unwinder agree on mappings and on addresses in the first executable segment, and aggregation loses no sample.
  \<^item> The main loop conserves samples under every interleaving of its messages and the collector's thread; what
    a collector returns comes from what it was given (locale \<open>profile_collector\<close>), and the aggregating one adds up exactly.
    Clearing a BPF map while iterating over it ends with an empty map.
  \<^item> Symbolising in bulk is symbolising frame by frame, kernel frames get the nearest symbol (locale \<open>slice_search\<close>),
    and kernel addresses resolve to the range they are in. The tables of a pprof profile number their entries without gaps
    (locale \<open>numbering\<close>, interpreted for strings, functions, mappings and locations), so converted profiles
    pass the builder's validation and keep the stacks and the symbols of every sample. Folded stacks can be read back.
    Debug information that was stored stays (locale \<open>debug_info_store\<close>), and build ids are told apart by their text.
  \<^item> \<open>Tracers\<close>: each reported unmapping goes back to a call, and a successful one is reported under
    any interleaving of threads. \<open>Kernel_Offsets\<close>: relocations on both headers.
  \<^item> Theorems also pin down where the code does not do what it means to: PLT rows, failed reads of
    the frame address, the unused link register, stale registers, large offsets, gap pages, shared
    executables at exit, the inclusive end in munmap, the stale and full \<open>tracked_munmap\<close>, repeated end
    markers, foreign files in the cache directory, the size and usage accounting of both caches, synthesised vDSO rows, the vDSO's reference count,
    further executable segments, reused process identifiers, processes hidden by one executable, the addresses
    of kernel modules, the identifiers of Go executables, the last profile of a run, the eviction of the kernel's entry,
    inlined functions in pprof profiles, functions of the same name, unsorted kernel symbols, semicolons in names,
    half-copied debug information, and the sampling frequency of one.

  \<^bold>\<open>Bounds and fuel.\<close> The unwinding loop has seven iterations per program, as in the source. The number of
  tail calls the kernel still allows is the fuel of \<open>dwarf_unwind\<close>; the kernel allows 33, and a theorem
  shows that 19 are enough for every run: more change nothing. The binary search has the iteration
  bound of the source. \<open>summarize_address_range\<close> is a total function with a termination proof.

  \<^bold>\<open>Not modelled, and why.\<close> LOG and \<open>bpf_printk\<close> only print. The BPF helpers, the verifier, CO-RE and
  libbpf are the kernel's or a library's: their results are parameters, and what is used of them is a
  named hypothesis (\<open>lpm_contract\<close>, \<open>get_stack_contract\<close>, the acceptance of map updates). The maps are seen
  by one CPU at a time; races between CPUs on shared maps are only modelled for the tracers. Of the
  kernel headers only what the programs reach is modelled: the rest is generated and unused. ELF and
  \<open>.eh_frame\<close> parsing (packages object and gimli), procfs, SHA-256, the hash of the standard library,
  the order of hash maps, the clock and one floating-point estimate are parameters. Operations on the
  files of the cache directory do not fail in the model. The symboliser (package blazesym), the LRU cache of metadata,
  the primes of the command line, the HTTP client and the encoders are packages: what is used of them is a
  parameter with its documented behaviour. Loading and attaching the BPF programs, polling the buffers, the options of
  the command line and the probing of the system are calls into libraries without logic of their own. Samples that are
  still in a channel or a buffer when the loop ends are outside the model. Counts are natural numbers.
\<close>

section \<open>Properties across components\<close>

text \<open>
  C26. A process that user space has registered is known to the BPF programs, and the unwinder never
  misses a mapping of it: a program counter inside one of its mappings is unwound with that mapping
  (or stops the walk when the mapping is anonymous), one outside all of them is counted as not
  contained in the mapping found, and error\_mapping\_not\_found never occurs.
\<close>

theorem frame_mapping_of_registered_process:
  assumes "registered_in (exec_mappings s) pid ms"
  shows "process_is_known (exec_mappings s) pid \<and>
     frame_mapping pid ip s =
       (case find (\<lambda>m. contains_pc m ip) ms of
          None \<Rightarrow> Inl (bump bump_unwind_error_mapping_does_not_contain_pc s)
        | Some m \<Rightarrow>
            if m_type m = MAPPING_TYPE_ANON then Inl (bump bump_unwind_jit_encountered s)
            else Inr (m, if m_type m = MAPPING_TYPE_VDSO then bump bump_unwind_vdso_encountered s else s))"
proof (cases "find (\<lambda>m. contains_pc m ip) ms")
  case None
  from registry.lookup_outside [OF assms None] registry.known_registered [OF assms] None show ?thesis
    by (auto simp: frame_mapping_def contains_pc_def not_le not_less)
next
  case (Some m)
  from registry.lookup_inside [OF assms Some] registry.known_registered [OF assms] Some show ?thesis
    by (auto simp: frame_mapping_def contains_pc_def not_le not_less)
qed

theorem frame_mapping_of_registered_process_witness:
  "\<exists>s. frame_mapping 42 0x402020 s = Inr (text_mapping, s) \<and>
     frame_mapping 42 0x10 s = Inl (bump bump_unwind_error_mapping_does_not_contain_pc s)"
proof -
  have wf: "mapping_wf text_mapping" by (simp add: mapping_wf_def text_mapping_def)
  then obtain t where "register_process (\<lambda>t p. True) 42 [text_mapping] Map.empty = (True, t)"
    using register_accepted [of "[text_mapping]" 42 Map.empty] by auto
  moreover have "disjoint_mappings [text_mapping]" "list_all mapping_wf [text_mapping]"
    using wf by (simp_all add: disjoint_mappings_def)
  ultimately have "registered_in (trie_lookup t) 42 [text_mapping]"
    using no_entries_empty trie_lookup_contract unfolding registered_in_def by blast
  then have "registered_in (exec_mappings (example_state\<lparr>exec_mappings := trie_lookup t\<rparr>)) 42 [text_mapping]"
    by simp
  from frame_mapping_of_registered_process [OF this] show ?thesis
    by (intro exI [of _ "example_state\<lparr>exec_mappings := trie_lookup t\<rparr>"])
      (simp add: contains_pc_def text_mapping_def)
qed

end
